(* ===== verification/Prelude.thy ===== *)
theory Prelude
  imports Main "HOL-Library.Char_ord" "HOL-Library.List_Lexorder"
    "HOL-Library.Product_Lexorder" "HOL-Library.Sublist"
begin

text \<open>
  Shared vocabulary of the development: the result type of fallible operations, the Python
  string functions the program uses (over the code points 0..255, which is what a HOL
  character can hold), decimal numerals, insertion-ordered dictionaries, and the generic
  lemmas about them that the component theories rely on.
\<close>

named_theorems str_simps \<open>facts about the Python string functions\<close>
named_theorems dict_simps \<open>facts about insertion-ordered dictionaries\<close>
named_theorems run_simps \<open>definitions to unfold when an operation is run on a concrete input\<close>
named_theorems inv_intros \<open>operations preserve the invariant of their component\<close>

section \<open>Results\<close>

text \<open>A raise of the source is \<open>Inl\<close> of its error; a normal return is \<open>Inr\<close>.\<close>

primrec and_then :: "'e + 'a \<Rightarrow> ('a \<Rightarrow> 'e + 'b) \<Rightarrow> 'e + 'b" where
  "and_then (Inl e) k = Inl e"
| "and_then (Inr a) k = k a"

definition require :: "bool \<Rightarrow> 'e \<Rightarrow> 'e + unit" where
  "require c e = (if c then Inr () else Inl e)"

fun map_res :: "('a \<Rightarrow> 'e + 'b) \<Rightarrow> 'a list \<Rightarrow> 'e + 'b list" where
  "map_res f [] = Inr []"
| "map_res f (x # xs) =
     and_then (f x) (\<lambda>y. and_then (map_res f xs) (\<lambda>ys. Inr (y # ys)))"

fun each_res :: "('a \<Rightarrow> 'e + unit) \<Rightarrow> 'a list \<Rightarrow> 'e + unit" where
  "each_res f [] = Inr ()"
| "each_res f (x # xs) = and_then (f x) (\<lambda>_. each_res f xs)"

fun fold_res :: "('x \<Rightarrow> 's \<Rightarrow> 'e + 's) \<Rightarrow> 'x list \<Rightarrow> 's \<Rightarrow> 'e + 's" where
  "fold_res f [] s = Inr s"
| "fold_res f (x # xs) s = and_then (f x s) (fold_res f xs)"

lemma and_then_Inr [simp]: "and_then m k = Inr b \<longleftrightarrow> (\<exists>a. m = Inr a \<and> k a = Inr b)"
  by (cases m) auto

lemma and_then_Inl: "and_then m k = Inl e \<longleftrightarrow> m = Inl e \<or> (\<exists>a. m = Inr a \<and> k a = Inl e)"
  by (cases m) auto

lemma require_Inr [simp]: "require c e = Inr u \<longleftrightarrow> c"
  by (auto simp: require_def)

lemma require_Inl [simp]: "require c e = Inl e' \<longleftrightarrow> \<not> c \<and> e' = e"
  by (auto simp: require_def)

lemma map_res_Inr: "map_res f xs = Inr ys \<longleftrightarrow> list_all2 (\<lambda>x y. f x = Inr y) xs ys"
  by (induction xs arbitrary: ys) (auto simp: list_all2_Cons1)

lemma map_res_length: "map_res f xs = Inr ys \<Longrightarrow> length ys = length xs"
  by (metis map_res_Inr list_all2_lengthD)

lemma each_res_Inr [simp]: "each_res f xs = Inr u \<longleftrightarrow> (\<forall>x \<in> set xs. f x = Inr ())"
  by (induction xs) auto

section \<open>Characters\<close>

definition code_of :: "char \<Rightarrow> nat" where
  "code_of c = of_char c"

definition py_space :: "char \<Rightarrow> bool" where
  "py_space c = (let n = code_of c in
     (9 \<le> n \<and> n \<le> 13) \<or> (28 \<le> n \<and> n \<le> 32) \<or> n = 133 \<or> n = 160)"

definition is_digit :: "char \<Rightarrow> bool" where
  "is_digit c = (48 \<le> code_of c \<and> code_of c \<le> 57)"

definition is_alpha :: "char \<Rightarrow> bool" where
  "is_alpha c = ((65 \<le> code_of c \<and> code_of c \<le> 90) \<or> (97 \<le> code_of c \<and> code_of c \<le> 122))"

definition is_lower :: "char \<Rightarrow> bool" where
  "is_lower c = (97 \<le> code_of c \<and> code_of c \<le> 122)"

definition is_alnum :: "char \<Rightarrow> bool" where
  "is_alnum c = (is_alpha c \<or> is_digit c)"

text \<open>\<open>str.lower\<close> on one code point below 256.\<close>

definition lower_char :: "char \<Rightarrow> char" where
  "lower_char c = (let n = code_of c in
     if (65 \<le> n \<and> n \<le> 90) \<or> (192 \<le> n \<and> n \<le> 222 \<and> n \<noteq> 215) then char_of (n + 32) else c)"

definition newline :: char where "newline = CHR 0x0A"
definition cret :: char where "cret = CHR 0x0D"
definition tab :: char where "tab = CHR 0x09"

lemma code_of_less [simp]: "code_of c < 256"
  by (simp add: code_of_def)

lemma code_of_char_of [simp]: "n < 256 \<Longrightarrow> code_of (char_of n) = n"
  by (simp add: code_of_def)

lemma lower_char_idem [simp]: "lower_char (lower_char c) = lower_char c"
  by (auto simp: lower_char_def Let_def)

lemma is_digit_not_space [simp]: "is_digit c \<Longrightarrow> \<not> py_space c"
  by (auto simp: is_digit_def py_space_def Let_def)

lemma lower_char_space [simp]: "py_space (lower_char c) = py_space c"
  by (auto simp: py_space_def lower_char_def Let_def)

section \<open>Strings\<close>

definition py_lower :: "string \<Rightarrow> string" where
  "py_lower s = map lower_char s"

definition lstrip_by :: "(char \<Rightarrow> bool) \<Rightarrow> string \<Rightarrow> string" where
  "lstrip_by P s = dropWhile P s"

definition rstrip_by :: "(char \<Rightarrow> bool) \<Rightarrow> string \<Rightarrow> string" where
  "rstrip_by P s = rev (dropWhile P (rev s))"

definition strip_by :: "(char \<Rightarrow> bool) \<Rightarrow> string \<Rightarrow> string" where
  "strip_by P s = rstrip_by P (lstrip_by P s)"

abbreviation py_strip :: "string \<Rightarrow> string" where
  "py_strip \<equiv> strip_by py_space"

abbreviation py_lstrip :: "string \<Rightarrow> string" where
  "py_lstrip \<equiv> lstrip_by py_space"

definition py_blank :: "string \<Rightarrow> bool" where
  "py_blank s = (py_strip s = [])"

text \<open>\<open>sub in s\<close> and \<open>s.startswith(p)\<close>.\<close>

fun py_in :: "string \<Rightarrow> string \<Rightarrow> bool" where
  "py_in sub [] = (sub = [])"
| "py_in sub (c # s) = (prefix sub (c # s) \<or> py_in sub s)"

text \<open>\<open>re.findall(r"\S+", s)\<close>, which is also \<open>s.split()\<close>.\<close>

fun words_from :: "string \<Rightarrow> string \<Rightarrow> string list" where
  "words_from acc [] = (if acc = [] then [] else [rev acc])"
| "words_from acc (c # s) =
     (if py_space c then (if acc = [] then words_from [] s else rev acc # words_from [] s)
      else words_from (c # acc) s)"

definition py_words :: "string \<Rightarrow> string list" where
  "py_words s = words_from [] s"

text \<open>\<open>s.split(None, 2)\<close>: at most two splits; the rest keeps its inner and trailing blanks.\<close>

fun py_split_max :: "nat \<Rightarrow> string \<Rightarrow> string list" where
  "py_split_max 0 s = (let t = dropWhile py_space s in if t = [] then [] else [t])"
| "py_split_max (Suc n) s = (let t = dropWhile py_space s in
     if t = [] then []
     else takeWhile (\<lambda>c. \<not> py_space c) t
       # py_split_max n (dropWhile (\<lambda>c. \<not> py_space c) t))"

text \<open>Iterating a \<open>StringIO\<close>: the lines, each with its newline.\<close>

fun lines_keep :: "string \<Rightarrow> string list" where
  "lines_keep [] = []"
| "lines_keep (c # s) =
     (if c = newline then [newline] # lines_keep s
      else (case lines_keep s of [] \<Rightarrow> [[c]] | l # ls \<Rightarrow> (c # l) # ls))"

text \<open>\<open>sep.join(parts)\<close>.\<close>

fun join :: "string \<Rightarrow> string list \<Rightarrow> string" where
  "join sep [] = []"
| "join sep [x] = x"
| "join sep (x # y # ys) = x @ sep @ join sep (y # ys)"

lemma length_py_lower [simp]: "length (py_lower s) = length s"
  by (simp add: py_lower_def)

lemma py_lower_idem [simp]: "py_lower (py_lower s) = py_lower s"
  by (simp add: py_lower_def)

lemma py_lower_Nil [simp]: "py_lower s = [] \<longleftrightarrow> s = []"
  by (simp add: py_lower_def)

lemma strip_by_Nil: "strip_by P s = [] \<longleftrightarrow> (\<forall>c \<in> set s. P c)"
proof -
  have "strip_by P s = [] \<longleftrightarrow> (\<forall>c \<in> set (dropWhile P s). P c)"
    by (simp add: strip_by_def rstrip_by_def lstrip_by_def)
  also have "\<dots> \<longleftrightarrow> (\<forall>c \<in> set s. P c)"
    by (induction s) auto
  finally show ?thesis .
qed

lemma py_blank_iff: "py_blank s \<longleftrightarrow> (\<forall>c \<in> set s. py_space c)"
  by (simp add: py_blank_def strip_by_Nil)

lemma set_rstrip_by: "set (rstrip_by P s) \<subseteq> set s"
  by (auto simp: rstrip_by_def dest: set_dropWhileD)

lemma concat_lines_keep [simp]: "concat (lines_keep s) = s"
  by (induction s) (auto split: list.splits)

lemma lines_keep_nonempty: "l \<in> set (lines_keep s) \<Longrightarrow> l \<noteq> []"
  by (induction s arbitrary: l) (auto split: list.splits if_splits)

lemma lines_keep_empty [simp]: "lines_keep s = [] \<longleftrightarrow> s = []"
  by (cases s) (auto split: list.splits)

lemma words_from_tokens:
  assumes "w \<in> set (words_from acc s)" and "list_all (\<lambda>c. \<not> py_space c) acc"
  shows "w \<noteq> [] \<and> list_all (\<lambda>c. \<not> py_space c) w"
  using assms
proof (induction acc s rule: words_from.induct)
  case (1 acc)
  then show ?case by (simp split: if_splits)
next
  case (2 acc c s)
  show ?case
  proof (cases "py_space c \<and> acc \<noteq> [] \<and> w = rev acc")
    case True
    with 2(5) show ?thesis by simp
  next
    case False
    with 2 show ?thesis by (cases "py_space c"; cases "acc = []") simp_all
  qed
qed

lemma py_words_tokens:
  "w \<in> set (py_words s) \<Longrightarrow> w \<noteq> [] \<and> (\<forall>c \<in> set w. \<not> py_space c)"
  using words_from_tokens [of w "[]" s] by (simp add: py_words_def list_all_iff)

lemma words_from_Nil: "words_from acc s = [] \<longleftrightarrow> acc = [] \<and> py_blank s"
  by (induction acc s rule: words_from.induct) (auto simp: py_blank_iff)

lemma py_words_Nil: "py_words s = [] \<longleftrightarrow> py_blank s"
  by (simp add: py_words_def words_from_Nil)

lemmas char_run = code_of_def py_space_def is_digit_def is_alpha_def is_lower_def is_alnum_def
  lower_char_def newline_def cret_def tab_def

lemmas string_run = char_run py_lower_def lstrip_by_def rstrip_by_def strip_by_def py_blank_def
  py_words_def

declare string_run [run_simps] Let_def [run_simps]

section \<open>Decimal numerals\<close>

definition digit_char :: "nat \<Rightarrow> char" where
  "digit_char d = char_of (48 + d)"

fun nat_str :: "nat \<Rightarrow> string" where
  "nat_str n = (if n < 10 then [digit_char n] else nat_str (n div 10) @ [digit_char (n mod 10)])"

declare nat_str.simps [simp del]

definition int_str :: "int \<Rightarrow> string" where
  "int_str i = (if i < 0 then CHR ''-'' # nat_str (nat (- i)) else nat_str (nat i))"

definition digits_value :: "string \<Rightarrow> nat" where
  "digits_value s = foldl (\<lambda>a c. 10 * a + (code_of c - 48)) 0 s"

text \<open>\<open>re.fullmatch(r"[0-9]+", s)\<close>; Python's \<open>int(s)\<close> of such a string is its value.\<close>

definition all_digits :: "string \<Rightarrow> bool" where
  "all_digits s = (s \<noteq> [] \<and> list_all is_digit s)"

lemma digit_char_simps [simp]:
  "digit_char 0 = CHR ''0''" "digit_char (Suc 0) = CHR ''1''" "digit_char 1 = CHR ''1''"
  "digit_char 2 = CHR ''2''" "digit_char 3 = CHR ''3''" "digit_char 4 = CHR ''4''"
  "digit_char 5 = CHR ''5''" "digit_char 6 = CHR ''6''" "digit_char 7 = CHR ''7''"
  "digit_char 8 = CHR ''8''" "digit_char 9 = CHR ''9''"
  by code_simp+

lemma is_digit_digit_char [simp]: "d < 10 \<Longrightarrow> is_digit (digit_char d)"
  by (simp add: digit_char_def is_digit_def)

lemma code_digit_char [simp]: "d < 10 \<Longrightarrow> code_of (digit_char d) = 48 + d"
  by (simp add: digit_char_def)

lemma nat_str_nonempty [simp]: "nat_str n \<noteq> []"
  by (subst nat_str.simps) simp

lemma nat_str_all_digits [simp]: "all_digits (nat_str n)"
proof (induction n rule: nat_str.induct)
  case (1 n)
  then show ?case
    by (cases "n < 10") (auto simp: nat_str.simps [of n] all_digits_def)
qed

lemma nat_str_set: "c \<in> set (nat_str n) \<Longrightarrow> is_digit c"
  using nat_str_all_digits [of n] by (auto simp: all_digits_def list_all_iff)

lemma digits_value_snoc [simp]:
  "digits_value (s @ [c]) = 10 * digits_value s + (code_of c - 48)"
  by (simp add: digits_value_def)

lemma digits_value_nat_str [simp]: "digits_value (nat_str n) = n"
proof (induction n rule: nat_str.induct)
  case (1 n)
  show ?case
  proof (cases "n < 10")
    case True
    then show ?thesis by (simp add: nat_str.simps [of n] digits_value_def)
  next
    case False
    with 1 show ?thesis by (simp add: nat_str.simps [of n])
  qed
qed

lemma nat_str_inject [simp]: "nat_str m = nat_str n \<longleftrightarrow> m = n"
  by (metis digits_value_nat_str)

lemma nat_str_hd_zero: "hd (nat_str n) = CHR ''0'' \<longleftrightarrow> n = 0"
proof (induction n rule: nat_str.induct)
  case (1 n)
  show ?case
  proof (cases "n < 10")
    case True
    have "digit_char n = digit_char 0 \<longleftrightarrow> n = 0"
      using True code_digit_char [of n] code_digit_char [of 0] by (metis add_left_cancel zero_less_numeral)
    with True show ?thesis by (simp add: nat_str.simps [of n])
  next
    case False
    then have "n div 10 \<noteq> 0" by simp
    with False 1 show ?thesis by (simp add: nat_str.simps [of n])
  qed
qed

lemma length_nat_str: "n < 10 ^ k \<Longrightarrow> 0 < k \<Longrightarrow> length (nat_str n) \<le> k"
proof (induction k arbitrary: n)
  case (Suc k)
  show ?case
  proof (cases "n < 10")
    case True
    then show ?thesis by (simp add: nat_str.simps [of n])
  next
    case False
    with Suc.prems have "n div 10 < 10 ^ k" and "0 < k"
      by (auto simp: less_mult_imp_div_less mult.commute intro!: gr0I)
    with Suc.IH False show ?thesis by (simp add: nat_str.simps [of n])
  qed
qed simp

lemma split_at_unique:
  assumes "a @ x # b = c @ x # d" and "x \<notin> set a" and "x \<notin> set c"
  shows "a = c \<and> b = d"
  using assms
proof (induction a arbitrary: c)
  case Nil
  then show ?case by (cases c) auto
next
  case (Cons y a)
  then show ?case by (cases c) auto
qed

section \<open>Insertion-ordered dictionaries\<close>

text \<open>
  A Python \<open>dict\<close> keeps its keys in insertion order, and overwriting keeps the position.
\<close>

fun dict_put :: "'k \<Rightarrow> 'v \<Rightarrow> ('k \<times> 'v) list \<Rightarrow> ('k \<times> 'v) list" where
  "dict_put k v [] = [(k, v)]"
| "dict_put k v ((k', v') # d) =
     (if k' = k then (k, v) # d else (k', v') # dict_put k v d)"

text \<open>\<open>{**d, **e}\<close> and \<open>dict(pairs)\<close>.\<close>

definition dict_merge :: "('k \<times> 'v) list \<Rightarrow> ('k \<times> 'v) list \<Rightarrow> ('k \<times> 'v) list" where
  "dict_merge d e = foldl (\<lambda>d (k, v). dict_put k v d) d e"

definition dict_of :: "('k \<times> 'v) list \<Rightarrow> ('k \<times> 'v) list" where
  "dict_of pairs = dict_merge [] pairs"

definition dict_get :: "('k \<times> 'v) list \<Rightarrow> 'k \<Rightarrow> 'v option" where
  "dict_get d k = map_of d k"

lemma dict_get_put [dict_simps]:
  "dict_get (dict_put k v d) k' = (if k' = k then Some v else dict_get d k')"
  by (induction d) (auto simp: dict_get_def)

lemma dict_get_Nil [dict_simps]: "dict_get [] k = None"
  by (simp add: dict_get_def)

lemma dict_put_keys [dict_simps]: "fst ` set (dict_put k v d) = insert k (fst ` set d)"
proof (induction d)
  case (Cons a d)
  then show ?case by (cases a; cases "fst a = k") (simp_all add: insert_commute)
qed simp

lemma dict_put_distinct: "distinct (map fst d) \<Longrightarrow> distinct (map fst (dict_put k v d))"
proof (induction d)
  case (Cons a d)
  have "fst a \<notin> fst ` set (dict_put k v d)" if "fst a \<noteq> k"
    using that Cons.prems by (simp add: dict_put_keys)
  with Cons show ?case by (cases a) auto
qed simp

lemma dict_get_in: "dict_get d k = Some v \<Longrightarrow> (k, v) \<in> set d"
  by (simp add: dict_get_def map_of_SomeD)

lemma dict_get_None: "dict_get d k = None \<longleftrightarrow> k \<notin> fst ` set d"
  by (simp add: dict_get_def map_of_eq_None_iff)

text \<open>Grouping into a dictionary of lists (\<open>d.setdefault(k, []).append(x)\<close>).\<close>

definition dict_append :: "'k \<Rightarrow> 'x \<Rightarrow> ('k \<times> 'x list) list \<Rightarrow> ('k \<times> 'x list) list" where
  "dict_append k x d = dict_put k ((case dict_get d k of None \<Rightarrow> [] | Some xs \<Rightarrow> xs) @ [x]) d"

definition group_dict :: "('x \<Rightarrow> 'k) \<Rightarrow> 'x list \<Rightarrow> ('k \<times> 'x list) list" where
  "group_dict f xs = foldl (\<lambda>d x. dict_append (f x) x d) [] xs"

lemma group_dict_get:
  "dict_get (group_dict f xs) k =
     (if k \<in> f ` set xs then Some (filter (\<lambda>x. f x = k) xs) else None)"
proof (induction xs arbitrary: k rule: rev_induct)
  case (snoc x xs)
  have step: "group_dict f (xs @ [x]) = dict_append (f x) x (group_dict f xs)"
    by (simp add: group_dict_def)
  have none: "filter (\<lambda>y. f y = f x) xs = []" if "f x \<notin> f ` set xs"
    using that by (metis (mono_tags, lifting) filter_False imageI)
  show ?case
    unfolding step dict_append_def dict_get_put snoc.IH
    by (cases "f x \<in> f ` set xs") (simp_all add: none)
qed (simp add: group_dict_def dict_simps)

section \<open>Lists\<close>

text \<open>
  \<open>itertools.groupby\<close>: maximal runs of neighbours with the same key.
\<close>

function group_runs :: "('a \<Rightarrow> 'k) \<Rightarrow> 'a list \<Rightarrow> ('k \<times> 'a list) list" where
  "group_runs f [] = []"
| "group_runs f (x # xs) =
     (f x, x # takeWhile (\<lambda>y. f y = f x) xs) # group_runs f (dropWhile (\<lambda>y. f y = f x) xs)"
  by pat_completeness auto
termination
  by (relation "measure (\<lambda>(f, xs). length xs)")
    (simp_all add: length_dropWhile_le le_imp_less_Suc)

lemma group_runs_concat: "concat (map snd (group_runs f xs)) = xs"
  by (induction f xs rule: group_runs.induct) auto

lemma group_runs_key:
  "(k, g) \<in> set (group_runs f xs) \<Longrightarrow> g \<noteq> [] \<and> (\<forall>x \<in> set g. f x = k)"
proof (induction f xs rule: group_runs.induct)
  case (2 f x xs)
  show ?case
  proof (cases "(k, g) = (f x, x # takeWhile (\<lambda>y. f y = f x) xs)")
    case True
    then have k: "k = f x" and g: "g = x # takeWhile (\<lambda>y. f y = f x) xs" by simp_all
    have "f y = f x" if "y \<in> set (takeWhile (\<lambda>y. f y = f x) xs)" for y
      using set_takeWhileD [OF that] by simp
    then show ?thesis unfolding k g by (metis list.distinct(1) set_ConsD)
  next
    case False
    with 2(2) have "(k, g) \<in> set (group_runs f (dropWhile (\<lambda>y. f y = f x) xs))"
      by (simp only: group_runs.simps list.set insert_iff) blast
    then show ?thesis by (rule 2(1))
  qed
qed simp

lemma group_runs_member:
  assumes "(k, g) \<in> set (group_runs f xs)" and "x \<in> set g"
  shows "x \<in> set xs"
proof -
  have "x \<in> set (concat (map snd (group_runs f xs)))"
    using assms by force
  then show ?thesis by (simp only: group_runs_concat)
qed

text \<open>First occurrence of each element, in order (the keys of a dict built from a list).\<close>

fun uniq :: "'a list \<Rightarrow> 'a list" where
  "uniq [] = []"
| "uniq (x # xs) = x # filter (\<lambda>y. y \<noteq> x) (uniq xs)"

lemma set_uniq [simp]: "set (uniq xs) = set xs"
  by (induction xs) auto

lemma distinct_uniq [simp]: "distinct (uniq xs)"
  by (induction xs) auto

text \<open>\<open>sorted({...})\<close> of a collection of ordered values.\<close>

definition sorted_set :: "'a::linorder list \<Rightarrow> 'a list" where
  "sorted_set xs = sort (uniq xs)"

lemma set_sorted_set [simp]: "set (sorted_set xs) = set xs"
  by (simp add: sorted_set_def)

lemma sorted_sorted_set [simp]: "sorted (sorted_set xs)"
  by (simp add: sorted_set_def)

lemma distinct_sorted_set [simp]: "distinct (sorted_set xs)"
  by (simp add: sorted_set_def)

lemma sorted_set_cong: "set xs = set ys \<Longrightarrow> sorted_set xs = sorted_set ys"
  by (rule sorted_distinct_set_unique) simp_all

end
