(* ===== verification/Py_Values.thy ===== *)
theory Py_Values
  imports Prelude "HOL-Library.Word"
begin

text \<open>
  The dynamic values the program passes around: JSON-shaped Python objects, their equality and
  ordering of numbers, \<open>json.dumps(.., sort_keys=True, separators=(",", ":"))\<close>, and UUIDs
  with their printed form and the parser of the \<open>UUID\<close> constructor.

  A finite float is the pair of a mantissa and a decimal exponent of its shortest \<open>repr\<close>
  (600.0 is \<open>PFloat 6 2\<close>, 0.5 is \<open>PFloat 5 (-1)\<close>); NaN and the infinities, which JSON
  columns cannot store, have no counterpart.  Comparison is comparison of these decimals.
\<close>

section \<open>Values\<close>

datatype pyval =
    PNone
  | PBool bool
  | PInt int
  | PFloat int int
  | PStr string
  | PList "pyval list"
  | PDict "(string \<times> pyval) list"

text \<open>The \<open>isinstance\<close> tests of the source; \<open>bool\<close> is a subclass of \<open>int\<close>.\<close>

fun is_bool :: "pyval \<Rightarrow> bool" where
  "is_bool (PBool _) = True" | "is_bool _ = False"

fun is_int :: "pyval \<Rightarrow> bool" where
  "is_int (PBool _) = True" | "is_int (PInt _) = True" | "is_int _ = False"

fun is_number :: "pyval \<Rightarrow> bool" where
  "is_number (PBool _) = True" | "is_number (PInt _) = True"
| "is_number (PFloat _ _) = True" | "is_number _ = False"

fun is_str :: "pyval \<Rightarrow> bool" where
  "is_str (PStr _) = True" | "is_str _ = False"

fun is_list :: "pyval \<Rightarrow> bool" where
  "is_list (PList _) = True" | "is_list _ = False"

fun is_dict :: "pyval \<Rightarrow> bool" where
  "is_dict (PDict _) = True" | "is_dict _ = False"

fun dict_items :: "pyval \<Rightarrow> (string \<times> pyval) list" where
  "dict_items (PDict d) = d" | "dict_items _ = []"

text \<open>\<open>d.get(k)\<close>, where a missing key gives \<open>None\<close>.\<close>

definition py_get :: "(string \<times> pyval) list \<Rightarrow> string \<Rightarrow> pyval" where
  "py_get d k = (case dict_get d k of None \<Rightarrow> PNone | Some v \<Rightarrow> v)"

section \<open>Numbers\<close>

fun num_parts :: "pyval \<Rightarrow> (int \<times> int) option" where
  "num_parts (PBool b) = Some (if b then 1 else 0, 0)"
| "num_parts (PInt i) = Some (i, 0)"
| "num_parts (PFloat m e) = Some (m, e)"
| "num_parts _ = None"

definition scaled :: "int \<times> int \<Rightarrow> int \<Rightarrow> int" where
  "scaled p e = fst p * 10 ^ nat (snd p - e)"

definition num_le :: "int \<times> int \<Rightarrow> int \<times> int \<Rightarrow> bool" where
  "num_le p q = (let e = min (snd p) (snd q) in scaled p e \<le> scaled q e)"

definition num_eq :: "int \<times> int \<Rightarrow> int \<times> int \<Rightarrow> bool" where
  "num_eq p q = (let e = min (snd p) (snd q) in scaled p e = scaled q e)"

text \<open>\<open>a <= b\<close> and \<open>a > b\<close> of two numbers.\<close>

definition py_le :: "pyval \<Rightarrow> pyval \<Rightarrow> bool" where
  "py_le a b = (case (num_parts a, num_parts b) of
     (Some p, Some q) \<Rightarrow> num_le p q | _ \<Rightarrow> False)"

definition py_gt :: "pyval \<Rightarrow> pyval \<Rightarrow> bool" where
  "py_gt a b = (case (num_parts a, num_parts b) of
     (Some p, Some q) \<Rightarrow> \<not> num_le p q | _ \<Rightarrow> False)"

lemma num_le_ints [simp]: "num_le (a, 0) (b, 0) \<longleftrightarrow> a \<le> b"
  by (simp add: num_le_def scaled_def)

lemma num_eq_ints [simp]: "num_eq (a, 0) (b, 0) \<longleftrightarrow> a = b"
  by (simp add: num_eq_def scaled_def)

lemma num_eq_refl [simp]: "num_eq p p"
  by (simp add: num_eq_def)

lemma num_le_antisym: "num_le p q \<and> num_le q p \<longleftrightarrow> num_eq p q"
  by (auto simp: num_le_def num_eq_def Let_def min.commute)

lemma num_le_total: "num_le p q \<or> num_le q p"
  by (auto simp: num_le_def Let_def min.commute)

section \<open>Equality\<close>

text \<open>
  \<open>==\<close>: numbers by value (so \<open>True == 1\<close>), containers element by element, dictionaries
  without regard to the order of their keys.
\<close>

primrec py_eq :: "pyval \<Rightarrow> pyval \<Rightarrow> bool" where
  "py_eq PNone = (\<lambda>v. v = PNone)"
| "py_eq (PBool b) = (\<lambda>v. case num_parts v of None \<Rightarrow> False
     | Some q \<Rightarrow> num_eq (if b then 1 else 0, 0) q)"
| "py_eq (PInt i) = (\<lambda>v. case num_parts v of None \<Rightarrow> False | Some q \<Rightarrow> num_eq (i, 0) q)"
| "py_eq (PFloat m e) = (\<lambda>v. case num_parts v of None \<Rightarrow> False | Some q \<Rightarrow> num_eq (m, e) q)"
| "py_eq (PStr s) = (\<lambda>v. v = PStr s)"
| "py_eq (PList xs) = (\<lambda>v. case v of
     PList ys \<Rightarrow> length xs = length ys \<and> list_all (\<lambda>(p, y). p y) (zip (map py_eq xs) ys)
   | _ \<Rightarrow> False)"
| "py_eq (PDict d) = (\<lambda>v. case v of
     PDict d' \<Rightarrow> length d = length d' \<and>
       list_all (\<lambda>(k, p). case map_of d' k of None \<Rightarrow> False | Some y \<Rightarrow> p y)
         (map (map_prod id py_eq) d)
   | _ \<Rightarrow> False)"

section \<open>Canonical JSON\<close>

definition hex_digit :: "nat \<Rightarrow> char" where
  "hex_digit d = char_of (if d < 10 then 48 + d else 87 + d)"

primrec hex_fixed :: "nat \<Rightarrow> nat \<Rightarrow> string" where
  "hex_fixed 0 n = []"
| "hex_fixed (Suc w) n = hex_fixed w (n div 16) @ [hex_digit (n mod 16)]"

definition json_char :: "char \<Rightarrow> string" where
  "json_char c = (let n = code_of c in
     if n = 34 then [CHR 0x5C, CHR 0x22]
     else if n = 92 then [CHR 0x5C, CHR 0x5C]
     else if n = 10 then [CHR 0x5C, CHR ''n'']
     else if n = 13 then [CHR 0x5C, CHR ''r'']
     else if n = 9 then [CHR 0x5C, CHR ''t'']
     else if n = 12 then [CHR 0x5C, CHR ''f'']
     else if n = 8 then [CHR 0x5C, CHR ''b'']
     else if n < 32 \<or> 126 < n then [CHR 0x5C, CHR ''u''] @ hex_fixed 4 n
     else [c])"

definition json_string :: "string \<Rightarrow> string" where
  "json_string s = CHR 0x22 # concat (map json_char s) @ [CHR 0x22]"

text \<open>\<open>float.__repr__\<close> of a mantissa without trailing zeros and its decimal exponent.\<close>

definition float_repr :: "int \<Rightarrow> int \<Rightarrow> string" where
  "float_repr m e =
     (let ds = nat_str (nat \<bar>m\<bar>);
          p = int (length ds) + e;
          body =
            (if m = 0 then ''0.0''
             else if p < -3 \<or> 16 < p then
               (let x = p - 1 in
                take 1 ds @ (if length ds = 1 then [] else CHR ''.'' # drop 1 ds)
                @ CHR ''e'' # (if x < 0 then CHR ''-'' else CHR ''+'')
                # (if \<bar>x\<bar> < 10 then ''0'' else []) @ nat_str (nat \<bar>x\<bar>))
             else if p \<le> 0 then ''0.'' @ replicate (nat (- p)) (CHR ''0'') @ ds
             else if int (length ds) \<le> p then
               ds @ replicate (nat (p - int (length ds))) (CHR ''0'') @ ''.0''
             else take (nat p) ds @ CHR ''.'' # drop (nat p) ds)
      in (if m < 0 then CHR ''-'' # body else body))"

fun json_dump :: "pyval \<Rightarrow> string" where
  "json_dump PNone = ''null''"
| "json_dump (PBool b) = (if b then ''true'' else ''false'')"
| "json_dump (PInt i) = int_str i"
| "json_dump (PFloat m e) = float_repr m e"
| "json_dump (PStr s) = json_string s"
| "json_dump (PList xs) = CHR ''['' # join '','' (map json_dump xs) @ '']''"
| "json_dump (PDict d) =
     CHR 0x7B # join '','' (map (\<lambda>(k, s). json_string k @ CHR '':'' # s)
        (sort_key fst (map (\<lambda>(k, v). (k, json_dump v)) d))) @ [CHR 0x7D]"

section \<open>UUIDs\<close>

type_synonym uuid = "128 word"

definition uuid_str :: "uuid \<Rightarrow> string" where
  "uuid_str u = (let h = hex_fixed 32 (unat u) in
     take 8 h @ ''-'' @ take 4 (drop 8 h) @ ''-'' @ take 4 (drop 12 h) @ ''-''
       @ take 4 (drop 16 h) @ ''-'' @ drop 20 h)"

definition hex_value :: "char \<Rightarrow> nat option" where
  "hex_value c = (let n = code_of c in
     if 48 \<le> n \<and> n \<le> 57 then Some (n - 48)
     else if 97 \<le> n \<and> n \<le> 102 then Some (n - 87)
     else if 65 \<le> n \<and> n \<le> 70 then Some (n - 55)
     else None)"

text \<open>Digits with single underscores between them, as \<open>int(s, 16)\<close> reads them.\<close>

fun hex_scan :: "nat \<Rightarrow> bool \<Rightarrow> string \<Rightarrow> nat option" where
  "hex_scan acc prev [] = (if prev then Some acc else None)"
| "hex_scan acc prev (c # s) =
     (if c = CHR ''_'' then (if prev then hex_scan acc False s else None)
      else (case hex_value c of None \<Rightarrow> None | Some d \<Rightarrow> hex_scan (16 * acc + d) True s))"

definition int16_of_str :: "string \<Rightarrow> int option" where
  "int16_of_str s0 =
     (let s1 = py_strip s0;
          neg = (prefix ''-'' s1);
          s2 = (if prefix ''-'' s1 \<or> prefix ''+'' s1 then drop 1 s1 else s1);
          s3 = (if prefix ''0x'' s2 \<or> prefix ''0X'' s2
                then (if prefix ''_'' (drop 2 s2) then drop 3 s2 else drop 2 s2) else s2)
      in map_option (\<lambda>n. if neg then - int n else int n) (hex_scan 0 False s3))"

text \<open>\<open>s.replace(sub, "")\<close>.\<close>

fun remove_sub :: "nat \<Rightarrow> string \<Rightarrow> string \<Rightarrow> string" where
  "remove_sub skip sub [] = []"
| "remove_sub (Suc skip) sub (c # s) = remove_sub skip sub s"
| "remove_sub 0 sub (c # s) =
     (if sub \<noteq> [] \<and> prefix sub (c # s) then remove_sub (length sub - 1) sub s
      else c # remove_sub 0 sub s)"

definition uuid_of_str :: "string \<Rightarrow> uuid option" where
  "uuid_of_str s =
     (let h = remove_sub 0 ''uuid:'' (remove_sub 0 ''urn:'' s);
          h' = remove_sub 0 ''-'' (strip_by (\<lambda>c. c = CHR 0x7B \<or> c = CHR 0x7D) h)
      in if length h' \<noteq> 32 then None
         else (case int16_of_str h' of
                 None \<Rightarrow> None
               | Some i \<Rightarrow> if 0 \<le> i \<and> i < 2 ^ 128 then Some (of_int i) else None))"

lemma length_hex_fixed [simp]: "length (hex_fixed w n) = w"
  by (induction w arbitrary: n) auto

lemma hex_digit_inject: "a < 16 \<Longrightarrow> b < 16 \<Longrightarrow> hex_digit a = hex_digit b \<Longrightarrow> a = b"
proof -
  assume a: "a < 16" and b: "b < 16" and eq: "hex_digit a = hex_digit b"
  then have "code_of (hex_digit a) = code_of (hex_digit b)" by simp
  with a b show "a = b" by (auto simp: hex_digit_def split: if_splits)
qed

lemma hex_fixed_inject:
  "m < 16 ^ w \<Longrightarrow> n < 16 ^ w \<Longrightarrow> hex_fixed w m = hex_fixed w n \<Longrightarrow> m = n"
proof (induction w arbitrary: m n)
  case (Suc w)
  have "m div 16 = n div 16"
    using Suc.prems by (intro Suc.IH) (auto simp: less_mult_imp_div_less)
  moreover have "m mod 16 = n mod 16"
    using Suc.prems by (auto intro: hex_digit_inject)
  ultimately show ?case by (metis div_mult_mod_eq)
qed simp

lemma uuid_str_inject [simp]: "uuid_str u = uuid_str v \<longleftrightarrow> u = v"
proof
  assume eq: "uuid_str u = uuid_str v"
  define g h where "g = hex_fixed 32 (unat u)" and "h = hex_fixed 32 (unat v)"
  have len: "length g = 32" "length h = 32" by (simp_all add: g_def h_def)
  have split: "x = take 8 x @ take 4 (drop 8 x) @ take 4 (drop 12 x) @ take 4 (drop 16 x) @ drop 20 x"
    for x :: string
  proof -
    have "drop n x = take 4 (drop n x) @ drop (4 + n) x" for n
      by (metis append_take_drop_id drop_drop)
    from this [of 8] this [of 12] this [of 16] append_take_drop_id [of 8 x] show ?thesis
      by simp
  qed
  have "take 8 g = take 8 h \<and> take 4 (drop 8 g) = take 4 (drop 8 h)
      \<and> take 4 (drop 12 g) = take 4 (drop 12 h) \<and> take 4 (drop 16 g) = take 4 (drop 16 h)
      \<and> drop 20 g = drop 20 h"
    using eq len by (simp add: uuid_str_def Let_def g_def [symmetric] h_def [symmetric])
  then have "g = h" using split [of g] split [of h] by simp
  then have "unat u = unat v"
    unfolding g_def h_def
    by (rule hex_fixed_inject [rotated 2]) (use unsigned_less [of u] unsigned_less [of v] in simp_all)
  then show "u = v" by (rule word_unat_eq_iff [THEN iffD2])
qed simp

lemma py_get_Some: "dict_get d k = Some v \<Longrightarrow> py_get d k = v"
  by (simp add: py_get_def)

lemma py_eq_ints [simp]: "py_eq (PInt a) (PInt b) \<longleftrightarrow> a = b"
  by simp

section \<open>Exceptions\<close>

text \<open>
  The classes of the exceptions that the modelled code raises; an exception is its class and
  its message, or its code for the classes that carry one.  \<open>NonFinite\<close> is not raised by the
  code: it marks a value that the model does not represent. \<open>is_value_error\<close> says which of them \<open>except ValueError\<close> catches.
\<close>

datatype exc_class =
    ValueError | TypeError | KeyError | AttributeError
  | FieldRegistryValidationError | KnowledgePackValidationError
  | EffectiveStateValidationError | EffectiveStateNotFoundError
  | EvaluationError | ComplianceError | RuleRegistryError | PolicyRegistryError
  | JobError | JobNotFoundError | InvalidJobTransitionError | JobLeaseLostError
  | OverflowError | IndexError | NonFinite
  | StructuralReaderNotFoundError | ArtifactNotParseableError | ParsingInfrastructureError
  | InterpretationNotFoundError | InterpretationValidationError | InterpretationInfrastructureError
  | TrainingError | TrainingNotFound | TrainingConflict
  | RuntimeRuleError | RuntimeProfileError | AssessmentPackError | CatalogImportError | RemediationError
  | DeviceNotFoundError | SnapshotNotFoundError | SnapshotConflictError | SnapshotValidationError
  | AuditNotFoundError | AuditConflictError | AuditValidationError | AuditInfrastructureError
  | ArtifactStorageError | InvalidStorageReferenceError | ArtifactNotFoundError | ArtifactAlreadyExistsError
  | SQLAlchemyError | ValidationError | RecursionError | StopIteration | HandlerException | IngestionError | FindingNotFoundError | FindingProvenanceError | ReportingError
  | AISuggestionInvalid

datatype exc = Exc (exc_class: exc_class) (exc_message: string)

fun is_value_error :: "exc_class \<Rightarrow> bool" where
  "is_value_error ValueError = True"
| "is_value_error FieldRegistryValidationError = True"
| "is_value_error KnowledgePackValidationError = True"
| "is_value_error EvaluationError = True"
| "is_value_error ComplianceError = True"
| "is_value_error RuleRegistryError = True"
| "is_value_error PolicyRegistryError = True"
| "is_value_error TrainingError = True"
| "is_value_error TrainingNotFound = True"
| "is_value_error TrainingConflict = True"
| "is_value_error RuntimeRuleError = True"
| "is_value_error RuntimeProfileError = True"
| "is_value_error AssessmentPackError = True"
| "is_value_error CatalogImportError = True"
| "is_value_error RemediationError = True"
| "is_value_error FindingNotFoundError = True"
| "is_value_error FindingProvenanceError = True"
| "is_value_error ReportingError = True"
| "is_value_error ValidationError = True"
| "is_value_error AISuggestionInvalid = True"
| "is_value_error _ = False"

text \<open>The subclasses of \<open>ArtifactStorageError\<close>.\<close>

fun is_storage_error :: "exc_class \<Rightarrow> bool" where
  "is_storage_error ArtifactStorageError = True"
| "is_storage_error InvalidStorageReferenceError = True"
| "is_storage_error ArtifactNotFoundError = True"
| "is_storage_error ArtifactAlreadyExistsError = True"
| "is_storage_error _ = False"

text \<open>\<open>try: m except C as exc: raise e from exc\<close>.\<close>

definition raise_from :: "(exc_class \<Rightarrow> bool) \<Rightarrow> exc \<Rightarrow> exc + 'a \<Rightarrow> exc + 'a" where
  "raise_from catches e m = (case m of
     Inl x \<Rightarrow> if catches (exc_class x) then Inl e else Inl x | Inr a \<Rightarrow> Inr a)"

lemma raise_from_Inr [simp]: "raise_from c e m = Inr a \<longleftrightarrow> m = Inr a"
  by (auto simp: raise_from_def split: sum.splits if_splits)

section \<open>Iteration, integers and strings of values\<close>

text \<open>\<open>for x in v\<close>: the elements that iterating a value yields.\<close>

fun py_iter :: "pyval \<Rightarrow> exc + pyval list" where
  "py_iter (PList xs) = Inr xs"
| "py_iter (PDict d) = Inr (map (\<lambda>(k, _). PStr k) d)"
| "py_iter (PStr s) = Inr (map (\<lambda>c. PStr [c]) s)"
| "py_iter _ = Inl (Exc TypeError ''object is not iterable'')"

fun int_value :: "pyval \<Rightarrow> int" where
  "int_value (PBool b) = (if b then 1 else 0)"
| "int_value (PInt i) = i"
| "int_value _ = 0"

text \<open>
  \<open>int(s)\<close> of a string of digits; more than 4300 digits raise \<open>ValueError\<close> in the pinned Python.
\<close>

definition int_of_digits :: "string \<Rightarrow> exc + nat" where
  "int_of_digits s =
     (if 4300 < length s
      then Inl (Exc ValueError ''Exceeds the limit (4300 digits) for integer string conversion'')
      else Inr (digits_value s))"

text \<open>\<open>int(s)\<close> of any string: blanks around, a sign, digits with single underscores between.\<close>

fun dec_scan :: "nat \<Rightarrow> bool \<Rightarrow> string \<Rightarrow> nat option" where
  "dec_scan acc prev [] = (if prev then Some acc else None)"
| "dec_scan acc prev (c # s) =
     (if c = CHR ''_'' then (if prev then dec_scan acc False s else None)
      else if is_digit c then dec_scan (10 * acc + (code_of c - 48)) True s
      else None)"

definition py_int :: "string \<Rightarrow> int option" where
  "py_int s0 =
     (let s1 = py_strip s0;
          s2 = (if prefix ''-'' s1 \<or> prefix ''+'' s1 then drop 1 s1 else s1)
      in if 4300 < length (filter is_digit s2) then None
         else map_option (\<lambda>n. if prefix ''-'' s1 then - int n else int n) (dec_scan 0 False s2))"

text \<open>
  \<open>UUID(str(v))\<close>: only strings and integers print as 32 hexadecimal digits.
\<close>

fun uuid_of_pyval :: "pyval \<Rightarrow> uuid option" where
  "uuid_of_pyval (PStr s) = uuid_of_str s"
| "uuid_of_pyval (PInt i) = uuid_of_str (int_str i)"
| "uuid_of_pyval _ = None"

text \<open>\<open>bool(v)\<close>.\<close>

fun truthy :: "pyval \<Rightarrow> bool" where
  "truthy PNone = False"
| "truthy (PBool b) = b"
| "truthy (PInt i) = (i \<noteq> 0)"
| "truthy (PFloat m e) = (m \<noteq> 0)"
| "truthy (PStr s) = (s \<noteq> [])"
| "truthy (PList vs) = (vs \<noteq> [])"
| "truthy (PDict d) = (d \<noteq> [])"

text \<open>Can the value be a member of a \<open>set\<close>?\<close>

fun hashable :: "pyval \<Rightarrow> bool" where
  "hashable (PList _) = False" | "hashable (PDict _) = False" | "hashable _ = True"

fun py_uniq :: "pyval list \<Rightarrow> pyval list" where
  "py_uniq [] = []"
| "py_uniq (x # xs) = x # filter (\<lambda>y. \<not> py_eq x y) (py_uniq xs)"

lemma dec_scan_digits:
  "list_all is_digit s \<Longrightarrow> s \<noteq> [] \<or> prev \<Longrightarrow>
   dec_scan acc prev s = Some (foldl (\<lambda>a c. 10 * a + (code_of c - 48)) acc s)"
proof (induction s arbitrary: acc prev)
  case (Cons c s)
  have "c \<noteq> CHR ''_''" using Cons.prems by (auto simp: is_digit_def code_of_def)
  with Cons show ?case by simp
qed simp

lemma strip_digits: "list_all is_digit s \<Longrightarrow> py_strip s = s"
proof -
  assume d: "list_all is_digit s"
  have "dropWhile py_space t = t" if "list_all is_digit t" for t
    using that by (cases t) auto
  with d show ?thesis by (simp add: strip_by_def lstrip_by_def rstrip_by_def list_all_rev)
qed

lemma py_int_digits: "all_digits s \<Longrightarrow> length s \<le> 4300 \<Longrightarrow> py_int s = Some (int (digits_value s))"
proof -
  assume d: "all_digits s" and short: "length s \<le> 4300"
  have "length (filter is_digit s) \<le> 4300" using short by (meson le_trans length_filter_le)
  moreover from d have all: "list_all is_digit s" by (simp add: all_digits_def)
  moreover from d have "\<not> prefix ''-'' s" and "\<not> prefix ''+'' s"
    by (auto simp: all_digits_def prefix_def is_digit_def code_of_def)
  ultimately show ?thesis using d
    by (simp add: py_int_def all_digits_def strip_digits dec_scan_digits digits_value_def)
qed

end
