(* ===== verification/Structural_IR.thy ===== *)
theory Structural_IR
  imports Py_Values
begin

text \<open>
  The structural intermediate representation: the parsing data types
  (\<open>parsing/models.py\<close>), the tokenizer (\<open>parsing/tokenizer.py\<close>) and the tree builder
  (\<open>parsing/ir_builder.py\<close>).  The builder's stack holds references to drafts that also sit
  in its node list, and a parent's \<open>children\<close> list grows while the parent is on the stack;
  the model keeps the drafts in one list and the stack as indices into it.  The digest that
  \<open>hashlib\<close> computes is the parameter \<open>sha\<close>: text to hexadecimal text.
\<close>

section \<open>Data\<close>

datatype config_node_kind = STATEMENT | COMMENT | OPAQUE

datatype parse_status = PS_PARSED | PS_OPAQUE | PS_PARTIAL | PS_UNRESOLVED

datatype diagnostic_severity = SEV_WARNING | SEV_ERROR

record artifact_provenance =
  ap_artifact_id :: uuid
  ap_organization_id :: uuid
  ap_snapshot_id :: "uuid option"
  ap_source_label :: string
  ap_sha256 :: string
  ap_source_metadata :: "(string \<times> pyval) list"

record parse_diagnostic =
  pd_code :: string
  pd_message :: string
  pd_severity :: diagnostic_severity
  pd_source_start :: "nat option"
  pd_source_end :: "nat option"

record config_node =
  cn_node_id :: string
  cn_artifact_id :: uuid
  cn_source_label :: string
  cn_raw_text :: string
  cn_command :: "string option"
  cn_arguments :: "string list"
  cn_parent_id :: "string option"
  cn_children :: "string list"
  cn_depth :: nat
  cn_order :: nat
  cn_context_path :: "string list"
  cn_source_start :: nat
  cn_source_end :: nat
  cn_negated :: bool
  cn_inactive :: bool
  cn_comments :: "string list"
  cn_kind :: config_node_kind
  cn_parse_status :: parse_status

record structural_ir =
  ir_reader_id :: string
  ir_source :: artifact_provenance
  ir_nodes :: "config_node list"
  ir_root_node_ids :: "string list"
  ir_diagnostics :: "parse_diagnostic list"
  ir_truncated :: bool

record structural_parse_request =
  rq_content :: string
  rq_source :: artifact_provenance
  rq_input_truncated :: bool

text \<open>\<open>StructuralIR.node\<close>; \<open>None\<close> is the \<open>KeyError\<close>.\<close>

definition ir_node :: "structural_ir \<Rightarrow> string \<Rightarrow> config_node option" where
  "ir_node ir node_id = find (\<lambda>n. cn_node_id n = node_id) (ir_nodes ir)"

section \<open>Tokenizer\<close>

record indentation =
  in_columns :: nat
  in_mixed :: bool

record tokenized_statement =
  ts_command :: "string option"
  ts_arguments :: "string list"
  ts_negated :: bool

fun measure_loop :: "nat \<Rightarrow> nat \<Rightarrow> bool \<Rightarrow> bool \<Rightarrow> string \<Rightarrow> indentation" where
  "measure_loop tab_width columns saw_space saw_tab [] =
     \<lparr>in_columns = columns, in_mixed = saw_space \<and> saw_tab\<rparr>"
| "measure_loop tab_width columns saw_space saw_tab (c # s) =
     (if c = CHR '' '' then measure_loop tab_width (columns + 1) True saw_tab s
      else if c = tab then
        measure_loop tab_width (columns + (tab_width - columns mod tab_width)) saw_space True s
      else \<lparr>in_columns = columns, in_mixed = saw_space \<and> saw_tab\<rparr>)"

definition measure_indentation :: "string \<Rightarrow> indentation" where
  "measure_indentation line = measure_loop 8 0 False False line"

definition tokenize_statement :: "string \<Rightarrow> tokenized_statement" where
  "tokenize_statement raw_text =
     (case py_words (py_strip raw_text) of
        [] \<Rightarrow> \<lparr>ts_command = None, ts_arguments = [], ts_negated = False\<rparr>
      | t # ts \<Rightarrow>
          if py_lower t = ''no'' then
            (case ts of
               [] \<Rightarrow> \<lparr>ts_command = None, ts_arguments = [], ts_negated = True\<rparr>
             | u # us \<Rightarrow> \<lparr>ts_command = Some (py_lower u), ts_arguments = us, ts_negated = True\<rparr>)
          else \<lparr>ts_command = Some (py_lower t), ts_arguments = ts, ts_negated = False\<rparr>)"

text \<open>The width of an indentation: leading blanks only, never less than their number.\<close>

lemma measure_loop_mono: "c0 \<le> in_columns (measure_loop w c0 sp tb s)"
proof (induction w c0 sp tb s rule: measure_loop.induct)
  case (2 w c sp tb x s)
  then show ?case by (cases "x = CHR '' ''"; cases "x = tab") (auto intro: le_trans [rotated])
qed simp

lemma measure_spaces:
  assumes "s = [] \<or> (hd s \<noteq> CHR '' '' \<and> hd s \<noteq> tab)"
  shows "measure_indentation (replicate n (CHR '' '') @ s) = \<lparr>in_columns = n, in_mixed = False\<rparr>"
proof -
  have "measure_loop w c sp False (replicate n (CHR '' '') @ s)
      = \<lparr>in_columns = c + n, in_mixed = False\<rparr>" for w c sp
    using assms by (induction n arbitrary: c sp) (cases s; auto)+
  then show ?thesis by (simp add: measure_indentation_def)
qed

lemma tokenize_arguments_words:
  "set (ts_arguments (tokenize_statement s)) \<subseteq> set (py_words (py_strip s))"
  by (auto simp: tokenize_statement_def split: list.splits if_splits)

lemma tokenize_arguments:
  "a \<in> set (ts_arguments (tokenize_statement s)) \<Longrightarrow> a \<noteq> [] \<and> (\<forall>c \<in> set a. \<not> py_space c)"
  using tokenize_arguments_words py_words_tokens by blast

lemma tokenize_command_lower:
  assumes "ts_command (tokenize_statement s) = Some c"
  shows "py_lower c = c \<and> c \<noteq> []"
proof -
  have "[] \<notin> set (py_words (py_strip s))" using py_words_tokens by blast
  with assms show ?thesis
    by (auto simp: tokenize_statement_def split: list.splits if_splits)
qed

section \<open>The tree builder\<close>

record node_draft =
  nd_node_id :: string
  nd_raw_text :: string
  nd_command :: "string option"
  nd_arguments :: "string list"
  nd_parent_id :: "string option"
  nd_children :: "string list"
  nd_depth :: nat
  nd_order :: nat
  nd_context_path :: "string list"
  nd_source_start :: nat
  nd_source_end :: nat
  nd_negated :: bool
  nd_inactive :: bool
  nd_comments :: "string list"
  nd_kind :: config_node_kind
  nd_parse_status :: parse_status
  nd_indent :: nat

text \<open>The head of \<open>ib_stack\<close> is the top (the end of the Python list).\<close>

record ir_builder =
  ib_reader_id :: string
  ib_source :: artifact_provenance
  ib_max_depth :: nat
  ib_max_nodes :: nat
  ib_diagnostics :: "parse_diagnostic list"
  ib_nodes :: "node_draft list"
  ib_nodes_by_id :: "string \<rightharpoonup> nat"
  ib_roots :: "string list"
  ib_stack :: "nat list"

record node_args =
  na_raw_text :: string
  na_command :: "string option"
  na_arguments :: "string list"
  na_indent :: nat
  na_source_start :: nat
  na_source_end :: nat
  na_negated :: bool
  na_kind :: config_node_kind
  na_parse_status :: parse_status
  na_comments :: "string list"
  na_force_root :: bool
  na_can_parent :: bool

definition new_builder :: "string \<Rightarrow> artifact_provenance \<Rightarrow> nat \<Rightarrow> nat \<Rightarrow> ir_builder" where
  "new_builder reader_id source max_depth max_nodes =
     \<lparr>ib_reader_id = reader_id, ib_source = source, ib_max_depth = max_depth,
      ib_max_nodes = max_nodes, ib_diagnostics = [], ib_nodes = [],
      ib_nodes_by_id = Map.empty, ib_roots = [], ib_stack = []\<rparr>"

definition node_limit_reached :: "ir_builder \<Rightarrow> bool" where
  "node_limit_reached b = (ib_max_nodes b \<le> length (ib_nodes b))"

definition add_diagnostic ::
  "string \<Rightarrow> string \<Rightarrow> nat option \<Rightarrow> nat option \<Rightarrow> ir_builder \<Rightarrow> ir_builder" where
  "add_diagnostic code message source_start source_end b =
     b\<lparr>ib_diagnostics := ib_diagnostics b @
        [\<lparr>pd_code = code, pd_message = message, pd_severity = SEV_WARNING,
          pd_source_start = source_start, pd_source_end = source_end\<rparr>]\<rparr>"

definition reset_context :: "ir_builder \<Rightarrow> ir_builder" where
  "reset_context b = b\<lparr>ib_stack := []\<rparr>"

definition unit_sep :: string where "unit_sep = [CHR 0x1F]"

definition node_identity ::
  "artifact_provenance \<Rightarrow> string \<Rightarrow> string \<Rightarrow> nat \<Rightarrow> nat \<Rightarrow> nat \<Rightarrow> string option \<Rightarrow> string" where
  "node_identity source reader_id raw_text source_start source_end order parent_id =
     join unit_sep
       [uuid_str (ap_artifact_id source), reader_id, nat_str source_start, nat_str source_end,
        nat_str order,
        (case parent_id of None \<Rightarrow> ''root'' | Some p \<Rightarrow> if p = [] then ''root'' else p),
        raw_text]"

definition node_id_of ::
  "(string \<Rightarrow> string) \<Rightarrow> ir_builder \<Rightarrow> string \<Rightarrow> nat \<Rightarrow> nat \<Rightarrow> nat \<Rightarrow> string option \<Rightarrow> string" where
  "node_id_of sha b raw_text source_start source_end order parent_id =
     ''irn_'' @ take 32 (sha (node_identity (ib_source b) (ib_reader_id b)
        raw_text source_start source_end order parent_id))"

text \<open>
  The first half of \<open>add_node\<close>: the stack after the pops, the parent (top of the stack, if
  any), the status and the diagnostics.
\<close>

definition place_by_indent ::
  "node_args \<Rightarrow> ir_builder \<Rightarrow> ir_builder \<times> nat option \<times> parse_status" where
  "place_by_indent a b =
     (if na_force_root a \<or> na_indent a = 0
      then (b\<lparr>ib_stack := []\<rparr>, None, na_parse_status a)
      else
        (let indent_at = (\<lambda>i. nd_indent (ib_nodes b ! i));
             unmatched_dedent = (case ib_stack b of [] \<Rightarrow> False
               | t # _ \<Rightarrow> na_indent a < indent_at t
                   \<and> list_all (\<lambda>i. indent_at i \<noteq> na_indent a) (ib_stack b));
             stack = dropWhile (\<lambda>i. na_indent a \<le> indent_at i) (ib_stack b);
             b1 = b\<lparr>ib_stack := stack\<rparr>;
             parent = (case stack of [] \<Rightarrow> None | p # _ \<Rightarrow> Some p);
             b2 = (if unmatched_dedent
                   then add_diagnostic ''inconsistent_dedent''
                     ''Dedent did not match an observed structural indentation level''
                     (Some (na_source_start a)) (Some (na_source_end a)) b1
                   else b1);
             b3 = (if parent = None
                   then add_diagnostic ''orphan_indentation''
                     ''Indented statement has no observable parent context''
                     (Some (na_source_start a)) (Some (na_source_end a)) b2
                   else b2);
             status = (if unmatched_dedent \<or> parent = None then PS_PARTIAL else na_parse_status a)
         in (b3, parent, status)))"

definition bound_depth ::
  "node_args \<Rightarrow> ir_builder \<times> nat option \<times> parse_status \<Rightarrow> ir_builder \<times> nat option \<times> parse_status" where
  "bound_depth a r = (case r of (b, parent, status) \<Rightarrow>
     (case parent of
        Some p \<Rightarrow>
          if ib_max_depth b \<le> nd_depth (ib_nodes b ! p) then
            (let stack = dropWhile (\<lambda>i. ib_max_depth b \<le> nd_depth (ib_nodes b ! i)) (ib_stack b)
             in (add_diagnostic ''maximum_depth_reached'' ''Structural depth was bounded''
                   (Some (na_source_start a)) (Some (na_source_end a)) (b\<lparr>ib_stack := stack\<rparr>),
                 (case stack of [] \<Rightarrow> None | q # _ \<Rightarrow> Some q), PS_PARTIAL))
          else (b, parent, status)
      | None \<Rightarrow> (b, parent, status)))"

text \<open>The second half: the draft, and its entry into the node list, the roots or the parent.\<close>

definition new_draft ::
  "(string \<Rightarrow> string) \<Rightarrow> node_args \<Rightarrow> ir_builder \<Rightarrow> nat option \<Rightarrow> parse_status \<Rightarrow> node_draft" where
  "new_draft sha a b parent status =
     (let parent_id = map_option (\<lambda>p. nd_node_id (ib_nodes b ! p)) parent;
          order = length (ib_nodes b) + 1
      in \<lparr>nd_node_id = node_id_of sha b (na_raw_text a) (na_source_start a) (na_source_end a)
                          order parent_id,
          nd_raw_text = na_raw_text a, nd_command = na_command a,
          nd_arguments = na_arguments a, nd_parent_id = parent_id, nd_children = [],
          nd_depth = (case parent of None \<Rightarrow> 0 | Some p \<Rightarrow> nd_depth (ib_nodes b ! p) + 1),
          nd_order = order,
          nd_context_path = (case parent of None \<Rightarrow> []
            | Some p \<Rightarrow> nd_context_path (ib_nodes b ! p) @ [nd_node_id (ib_nodes b ! p)]),
          nd_source_start = na_source_start a, nd_source_end = na_source_end a,
          nd_negated = na_negated a, nd_inactive = False, nd_comments = na_comments a,
          nd_kind = na_kind a, nd_parse_status = status, nd_indent = na_indent a\<rparr>)"

definition insert_draft :: "node_args \<Rightarrow> ir_builder \<Rightarrow> nat option \<Rightarrow> node_draft \<Rightarrow> ir_builder" where
  "insert_draft a b parent d =
     (let i = length (ib_nodes b);
          nodes = (case parent of None \<Rightarrow> ib_nodes b
            | Some p \<Rightarrow> (ib_nodes b)[p := (ib_nodes b ! p)
                \<lparr>nd_children := nd_children (ib_nodes b ! p) @ [nd_node_id d]\<rparr>])
      in b\<lparr>ib_nodes := nodes @ [d],
           ib_nodes_by_id := (ib_nodes_by_id b)(nd_node_id d \<mapsto> i),
           ib_roots := (if parent = None then ib_roots b @ [nd_node_id d] else ib_roots b),
           ib_stack := (if na_can_parent a then i # ib_stack b else ib_stack b)\<rparr>)"

definition add_node :: "(string \<Rightarrow> string) \<Rightarrow> node_args \<Rightarrow> ir_builder \<Rightarrow> ir_builder \<times> string option" where
  "add_node sha a b =
     (if node_limit_reached b then (b, None)
      else (case bound_depth a (place_by_indent a b) of (b1, parent, status) \<Rightarrow>
              let d = new_draft sha a b1 parent status
              in (insert_draft a b1 parent d, Some (nd_node_id d))))"

definition node_of_draft :: "artifact_provenance \<Rightarrow> node_draft \<Rightarrow> config_node" where
  "node_of_draft source d =
     \<lparr>cn_node_id = nd_node_id d, cn_artifact_id = ap_artifact_id source,
      cn_source_label = ap_source_label source, cn_raw_text = nd_raw_text d,
      cn_command = nd_command d, cn_arguments = nd_arguments d,
      cn_parent_id = nd_parent_id d, cn_children = nd_children d, cn_depth = nd_depth d,
      cn_order = nd_order d, cn_context_path = nd_context_path d,
      cn_source_start = nd_source_start d, cn_source_end = nd_source_end d,
      cn_negated = nd_negated d, cn_inactive = nd_inactive d, cn_comments = nd_comments d,
      cn_kind = nd_kind d, cn_parse_status = nd_parse_status d\<rparr>"

definition build :: "bool \<Rightarrow> ir_builder \<Rightarrow> structural_ir" where
  "build truncated b =
     \<lparr>ir_reader_id = ib_reader_id b, ir_source = ib_source b,
      ir_nodes = map (node_of_draft (ib_source b)) (ib_nodes b),
      ir_root_node_ids = ib_roots b, ir_diagnostics = ib_diagnostics b,
      ir_truncated = truncated\<rparr>"

end
