(* ===== verification/Builder_Invariant.thy ===== *)
theory Builder_Invariant
  imports Structural_IR "HOL-Library.Multiset"
begin

text \<open>
  What the tree builder guarantees to the readers that call it.  The readers are clients of
  four operations (add a node, add a diagnostic, reset the context, and the node limit test):
  the relation \<open>builder_run\<close> is any sequence of them, the locale \<open>builder_contract\<close> states
  what an invariant must satisfy to survive every such sequence, and the interpretations
  below give the invariants that the builder's own operations satisfy.
\<close>

inductive builder_run :: "(string \<Rightarrow> string) \<Rightarrow> ir_builder \<Rightarrow> ir_builder \<Rightarrow> bool" for sha where
  run_done: "builder_run sha b b"
| run_add: "builder_run sha b b' \<Longrightarrow> builder_run sha b (fst (add_node sha a b'))"
| run_diag: "builder_run sha b b' \<Longrightarrow> builder_run sha b (add_diagnostic c m s e b')"
| run_reset: "builder_run sha b b' \<Longrightarrow> builder_run sha b (reset_context b')"

lemma builder_run_trans:
  assumes "builder_run sha b c" and "builder_run sha a b"
  shows "builder_run sha a c"
  using assms by (induction rule: builder_run.induct) (auto intro: builder_run.intros)

locale builder_contract =
  fixes sha :: "string \<Rightarrow> string"
    and inv :: "ir_builder \<Rightarrow> bool"
  assumes add_inv: "inv b \<Longrightarrow> inv (fst (add_node sha a b))"
    and diag_inv: "inv b \<Longrightarrow> inv (add_diagnostic c m s e b)"
    and reset_inv: "inv b \<Longrightarrow> inv (reset_context b)"
begin

lemma run_inv: "builder_run sha b b' \<Longrightarrow> inv b \<Longrightarrow> inv b'"
  by (induction rule: builder_run.induct) (auto intro: add_inv diag_inv reset_inv)

end

section \<open>The tree\<close>

abbreviation nid :: "ir_builder \<Rightarrow> nat \<Rightarrow> string" where
  "nid b i \<equiv> nd_node_id (ib_nodes b ! i)"

definition node_placed :: "node_draft list \<Rightarrow> nat \<Rightarrow> bool" where
  "node_placed ns i =
     ((nd_parent_id (ns ! i) = None \<and> nd_depth (ns ! i) = 0 \<and> nd_context_path (ns ! i) = [])
      \<or> (\<exists>p < i. nd_parent_id (ns ! i) = Some (nd_node_id (ns ! p))
            \<and> nd_depth (ns ! i) = Suc (nd_depth (ns ! p))
            \<and> nd_context_path (ns ! i) = nd_context_path (ns ! p) @ [nd_node_id (ns ! p)]
            \<and> nd_indent (ns ! p) < nd_indent (ns ! i)
            \<and> nd_node_id (ns ! i) \<in> set (nd_children (ns ! p))))"

definition stack_ok :: "node_draft list \<Rightarrow> nat list \<Rightarrow> bool" where
  "stack_ok ns st =
     ((\<forall>i \<in> set st. i < length ns)
      \<and> sorted_wrt (\<lambda>i j. nd_indent (ns ! j) < nd_indent (ns ! i)) st
      \<and> map (\<lambda>i. nd_depth (ns ! i)) st = rev [0..<length st])"

definition tree_ok :: "ir_builder \<Rightarrow> bool" where
  "tree_ok b =
     (length (ib_nodes b) \<le> ib_max_nodes b
      \<and> (\<forall>i < length (ib_nodes b). nd_order (ib_nodes b ! i) = Suc i
            \<and> node_placed (ib_nodes b) i \<and> nd_depth (ib_nodes b ! i) \<le> ib_max_depth b)
      \<and> stack_ok (ib_nodes b) (ib_stack b)
      \<and> ib_roots b = map nd_node_id (filter (\<lambda>d. nd_parent_id d = None) (ib_nodes b))
      \<and> mset (concat (map nd_children (ib_nodes b)))
          = mset (map nd_node_id (filter (\<lambda>d. nd_parent_id d \<noteq> None) (ib_nodes b))))"

lemma tree_ok_new: "tree_ok (new_builder r s d n)"
  by (simp add: tree_ok_def new_builder_def stack_ok_def)

lemma stack_ok_suffix:
  assumes "stack_ok ns st" and "suffix st' st"
  shows "stack_ok ns st'"
proof -
  from assms(2) obtain zs where st: "st = zs @ st'" by (auto simp: suffix_def)
  have "map (\<lambda>i. nd_depth (ns ! i)) st' = drop (length zs) (rev [0..<length st])"
    using assms(1) by (metis append_eq_conv_conj drop_map st stack_ok_def)
  also have "\<dots> = rev [0..<length st']"
    by (simp add: st drop_rev)
  finally show ?thesis
    using assms(1) by (auto simp: stack_ok_def st sorted_wrt_append)
qed

lemma sorted_wrt_dropWhile_indent:
  assumes "sorted_wrt (\<lambda>i j. f j < f i) st" and "i \<in> set (dropWhile (\<lambda>i. (n::nat) \<le> f i) st)"
  shows "f i < n"
  using assms by (induction st) (auto split: if_splits)

definition stack_parent :: "nat list \<Rightarrow> nat option" where
  "stack_parent st = (case st of [] \<Rightarrow> None | p # _ \<Rightarrow> Some p)"

text \<open>Only the stack and the diagnostics may differ.\<close>

definition same_tree :: "ir_builder \<Rightarrow> ir_builder \<Rightarrow> bool" where
  "same_tree b b' =
     (ib_nodes b' = ib_nodes b \<and> ib_max_nodes b' = ib_max_nodes b
      \<and> ib_max_depth b' = ib_max_depth b \<and> ib_reader_id b' = ib_reader_id b
      \<and> ib_source b' = ib_source b \<and> ib_roots b' = ib_roots b)"

lemma place_by_indent_spec:
  assumes "place_by_indent a b = (b1, parent, status)" and "stack_ok (ib_nodes b) (ib_stack b)"
  shows "same_tree b b1"
    and "suffix (ib_stack b1) (ib_stack b)"
    and "parent = stack_parent (ib_stack b1)"
    and "\<forall>i \<in> set (ib_stack b1). nd_indent (ib_nodes b ! i) < na_indent a"
proof -
  let ?st = "dropWhile (\<lambda>i. na_indent a \<le> nd_indent (ib_nodes b ! i)) (ib_stack b)"
  have small: "nd_indent (ib_nodes b ! i) < na_indent a" if "i \<in> set ?st" for i
    using sorted_wrt_dropWhile_indent that assms(2) unfolding stack_ok_def by fastforce
  show "same_tree b b1" "suffix (ib_stack b1) (ib_stack b)"
    "parent = stack_parent (ib_stack b1)"
    "\<forall>i \<in> set (ib_stack b1). nd_indent (ib_nodes b ! i) < na_indent a"
    using assms(1) small
    by (auto simp: place_by_indent_def Let_def add_diagnostic_def stack_parent_def
        suffix_dropWhile same_tree_def split: if_splits)
qed

lemma bound_depth_spec:
  assumes "bound_depth a (b1, parent, status) = (b2, parent', status')"
    and "parent = stack_parent (ib_stack b1)"
  shows "same_tree b1 b2"
    and "suffix (ib_stack b2) (ib_stack b1)"
    and "parent' = stack_parent (ib_stack b2)"
    and "\<forall>p. parent' = Some p \<longrightarrow> nd_depth (ib_nodes b1 ! p) < ib_max_depth b1"
proof -
  let ?st = "dropWhile (\<lambda>i. ib_max_depth b1 \<le> nd_depth (ib_nodes b1 ! i)) (ib_stack b1)"
  have hd: "nd_depth (ib_nodes b1 ! p) < ib_max_depth b1" if "?st = p # ps" for p ps
    using hd_dropWhile [of "\<lambda>i. ib_max_depth b1 \<le> nd_depth (ib_nodes b1 ! i)" "ib_stack b1"] that
    by simp
  show "suffix (ib_stack b2) (ib_stack b1)"
  proof -
    have "ib_stack b2 = ib_stack b1 \<or> ib_stack b2 = ?st"
      using assms(1)
      by (auto simp: bound_depth_def add_diagnostic_def Let_def split: option.splits if_splits)
    then show ?thesis using suffix_dropWhile suffix_order.refl by metis
  qed
  show "same_tree b1 b2" "parent' = stack_parent (ib_stack b2)"
    "\<forall>p. parent' = Some p \<longrightarrow> nd_depth (ib_nodes b1 ! p) < ib_max_depth b1"
    using assms hd
    by (auto simp: bound_depth_def add_diagnostic_def Let_def stack_parent_def suffix_dropWhile
        same_tree_def split: option.splits if_splits list.splits)
qed

section \<open>Adding a node keeps the tree\<close>

text \<open>
  The state of the builder between the two halves of \<open>add_node\<close>: the parent, if any, is on
  the stack, is less indented and can still have children.
\<close>

definition slot_ok :: "node_args \<Rightarrow> ir_builder \<Rightarrow> nat option \<Rightarrow> bool" where
  "slot_ok a b parent =
     (tree_ok b \<and> parent = stack_parent (ib_stack b)
      \<and> (\<forall>i \<in> set (ib_stack b). nd_indent (ib_nodes b ! i) < na_indent a)
      \<and> (\<forall>p. parent = Some p \<longrightarrow> nd_depth (ib_nodes b ! p) < ib_max_depth b))"

lemma slot_found:
  assumes ok: "tree_ok b" and eq: "bound_depth a (place_by_indent a b) = (b2, parent, status)"
  shows "slot_ok a b2 parent" and "ib_nodes b2 = ib_nodes b"
    and "ib_max_nodes b2 = ib_max_nodes b" and "ib_reader_id b2 = ib_reader_id b"
    and "ib_source b2 = ib_source b" and "ib_max_depth b2 = ib_max_depth b"
proof -
  obtain b1 par1 st1 where p: "place_by_indent a b = (b1, par1, st1)"
    by (metis prod_cases3)
  from ok have st: "stack_ok (ib_nodes b) (ib_stack b)" by (simp add: tree_ok_def)
  note P = place_by_indent_spec [OF p st]
  note B = bound_depth_spec [OF eq [unfolded p] P(3)]
  show f: "ib_nodes b2 = ib_nodes b" "ib_max_nodes b2 = ib_max_nodes b"
    "ib_reader_id b2 = ib_reader_id b" "ib_source b2 = ib_source b"
    "ib_max_depth b2 = ib_max_depth b"
    using P(1) B(1) by (simp_all add: same_tree_def)
  have suf: "suffix (ib_stack b2) (ib_stack b)"
    by (rule suffix_order.trans [OF B(2) P(2)])
  then have "tree_ok b2"
    using ok stack_ok_suffix [OF st suf] f P(1) B(1) by (simp add: tree_ok_def same_tree_def)
  then show "slot_ok a b2 parent"
    using B P f by (auto simp: slot_ok_def same_tree_def dest: set_mono_suffix)
qed

lemma concat_children_update:
  assumes "p < length ns"
  shows "mset (concat (map nd_children (ns[p := (ns ! p)\<lparr>nd_children := nd_children (ns ! p) @ [x]\<rparr>])))
    = add_mset x (mset (concat (map nd_children ns)))"
  using assms
proof (induction ns arbitrary: p)
  case (Cons d ns)
  then show ?case by (cases p) auto
qed simp

definition with_child :: "node_draft list \<Rightarrow> nat option \<Rightarrow> string \<Rightarrow> node_draft list" where
  "with_child ns parent x = (case parent of None \<Rightarrow> ns
     | Some p \<Rightarrow> ns[p := (ns ! p)\<lparr>nd_children := nd_children (ns ! p) @ [x]\<rparr>])"

lemma with_child_length [simp]: "length (with_child ns parent x) = length ns"
  by (simp add: with_child_def split: option.split)

lemma with_child_fields:
  assumes "i < length ns"
  shows "nd_node_id (with_child ns parent x ! i) = nd_node_id (ns ! i)"
    and "nd_parent_id (with_child ns parent x ! i) = nd_parent_id (ns ! i)"
    and "nd_depth (with_child ns parent x ! i) = nd_depth (ns ! i)"
    and "nd_order (with_child ns parent x ! i) = nd_order (ns ! i)"
    and "nd_context_path (with_child ns parent x ! i) = nd_context_path (ns ! i)"
    and "nd_indent (with_child ns parent x ! i) = nd_indent (ns ! i)"
    and "nd_raw_text (with_child ns parent x ! i) = nd_raw_text (ns ! i)"
    and "nd_source_start (with_child ns parent x ! i) = nd_source_start (ns ! i)"
    and "nd_source_end (with_child ns parent x ! i) = nd_source_end (ns ! i)"
    and "nd_kind (with_child ns parent x ! i) = nd_kind (ns ! i)"
    and "set (nd_children (ns ! i)) \<subseteq> set (nd_children (with_child ns parent x ! i))"
  using assms by (cases "parent = Some i"; auto simp: with_child_def split: option.split)+

lemma with_child_filter:
  "map nd_node_id (filter (\<lambda>d. P (nd_parent_id d)) (with_child ns parent x))
     = map nd_node_id (filter (\<lambda>d. P (nd_parent_id d)) ns)"
proof -
  have "map nd_node_id (filter (\<lambda>d. P (nd_parent_id d)) (ns[p := (ns ! p)\<lparr>nd_children := c\<rparr>]))
     = map nd_node_id (filter (\<lambda>d. P (nd_parent_id d)) ns)" for p c
  proof (induction ns arbitrary: p)
    case (Cons d ns)
    then show ?case by (cases p) auto
  qed simp
  then show ?thesis by (simp add: with_child_def split: option.split)
qed

lemma node_placed_with_child:
  assumes "node_placed ns i" and "i < length ns"
  shows "node_placed (with_child ns parent x @ [d]) i"
  using assms(1) unfolding node_placed_def
proof (elim disjE exE conjE, goal_cases)
  case 1
  with assms(2) show ?case by (simp add: nth_append with_child_fields)
next
  case (2 p)
  with assms(2) show ?case
    using with_child_fields(11) [of p ns parent x]
    by (intro disjI2 exI [of _ p]) (auto simp: nth_append with_child_fields(1-10))
qed

lemma insert_draft_nodes:
  "ib_nodes (insert_draft a b parent d) = with_child (ib_nodes b) parent (nd_node_id d) @ [d]"
  by (simp add: insert_draft_def with_child_def Let_def split: option.split)

lemma insert_draft_fields:
  "ib_max_nodes (insert_draft a b parent d) = ib_max_nodes b"
  "ib_max_depth (insert_draft a b parent d) = ib_max_depth b"
  "ib_reader_id (insert_draft a b parent d) = ib_reader_id b"
  "ib_source (insert_draft a b parent d) = ib_source b"
  "ib_diagnostics (insert_draft a b parent d) = ib_diagnostics b"
  "ib_roots (insert_draft a b parent d)
     = (if parent = None then ib_roots b @ [nd_node_id d] else ib_roots b)"
  "ib_stack (insert_draft a b parent d)
     = (if na_can_parent a then length (ib_nodes b) # ib_stack b else ib_stack b)"
  by (simp_all add: insert_draft_def Let_def)

lemma stack_parent_depth:
  assumes "stack_ok ns st"
  shows "(case stack_parent st of None \<Rightarrow> 0 | Some p \<Rightarrow> nd_depth (ns ! p) + 1) = length st"
  using assms by (cases st) (auto simp: stack_ok_def stack_parent_def)

lemma stack_ok_cong:
  assumes "stack_ok ns st" and "length ns \<le> length ns'"
    and "\<And>i. i < length ns \<Longrightarrow> nd_indent (ns' ! i) = nd_indent (ns ! i)"
    and "\<And>i. i < length ns \<Longrightarrow> nd_depth (ns' ! i) = nd_depth (ns ! i)"
  shows "stack_ok ns' st"
proof -
  from assms(1) have lt: "\<forall>i \<in> set st. i < length ns" by (simp add: stack_ok_def)
  then have "map (\<lambda>i. nd_depth (ns' ! i)) st = map (\<lambda>i. nd_depth (ns ! i)) st"
    using assms(4) by simp
  moreover have "sorted_wrt (\<lambda>i j. nd_indent (ns' ! j) < nd_indent (ns' ! i)) st"
    using assms(1,3) lt unfolding stack_ok_def
    by (auto elim!: sorted_wrt_mono_rel [rotated])
  moreover have "\<forall>i \<in> set st. i < length ns'" using lt assms(2) by auto
  ultimately show ?thesis using assms(1) unfolding stack_ok_def by simp
qed

lemma insert_tree_ok:
  assumes slot: "slot_ok a b parent" and room: "length (ib_nodes b) < ib_max_nodes b"
    and d: "d = new_draft sha a b parent status"
  shows "tree_ok (insert_draft a b parent d)"
proof -
  let ?ns = "ib_nodes b" let ?n = "length (ib_nodes b)"
  let ?ns' = "with_child ?ns parent (nd_node_id d) @ [d]"
  from slot have ok: "tree_ok b" and par: "parent = stack_parent (ib_stack b)"
    and ind: "\<forall>i \<in> set (ib_stack b). nd_indent (?ns ! i) < na_indent a"
    and dep: "\<forall>p. parent = Some p \<longrightarrow> nd_depth (?ns ! p) < ib_max_depth b"
    by (auto simp: slot_ok_def)
  from ok have st: "stack_ok ?ns (ib_stack b)" by (simp add: tree_ok_def)
  have plt: "p < ?n" "p \<in> set (ib_stack b)" if "parent = Some p" for p
    using st that by (auto simp: par stack_parent_def stack_ok_def split: list.splits)
  have last: "?ns' ! ?n = d" by (simp add: nth_append)
  have df: "nd_order d = Suc ?n" "nd_indent d = na_indent a" "nd_children d = []"
    "nd_parent_id d = map_option (\<lambda>p. nd_node_id (?ns ! p)) parent"
    "nd_depth d = length (ib_stack b)"
    using stack_parent_depth [OF st] by (simp_all add: d new_draft_def Let_def par)
  have placed_new: "node_placed ?ns' ?n"
  proof (cases parent)
    case None
    then show ?thesis
      by (simp add: node_placed_def nth_append d new_draft_def Let_def)
  next
    case (Some p)
    then have "node_placed ?ns' ?n \<longleftrightarrow> True"
      using plt [OF Some] ind
      unfolding node_placed_def last
      by (auto intro!: exI [of _ p] simp: nth_append with_child_fields(1-10) d new_draft_def Let_def
          with_child_def)
    then show ?thesis by simp
  qed
  have nodes_ok: "nd_order (?ns' ! i) = Suc i \<and> node_placed ?ns' i
      \<and> nd_depth (?ns' ! i) \<le> ib_max_depth b" if "i < Suc ?n" for i
  proof (cases "i = ?n")
    case True
    have "nd_depth d \<le> ib_max_depth b"
      using dep by (auto simp: d new_draft_def Let_def split: option.splits)
    with True placed_new last df show ?thesis by simp
  next
    case False
    with that have i: "i < ?n" by simp
    then show ?thesis
      using ok node_placed_with_child [of ?ns i parent "nd_node_id d" d]
      by (auto simp: tree_ok_def nth_append with_child_fields(1-10))
  qed
  have st': "stack_ok ?ns' (ib_stack b)"
    by (rule stack_ok_cong [OF st]) (simp_all add: nth_append with_child_fields(1-10))
  have "nd_indent (?ns' ! i) < na_indent a" if "i \<in> set (ib_stack b)" for i
    using that ind st by (simp add: stack_ok_def nth_append with_child_fields(1-10))
  then have stack: "stack_ok ?ns' (ib_stack (insert_draft a b parent d))"
    using st' df last unfolding insert_draft_fields(7) stack_ok_def
    by (simp add: with_child_length)
  have roots: "ib_roots (insert_draft a b parent d)
      = map nd_node_id (filter (\<lambda>d. nd_parent_id d = None) ?ns')"
    using ok df(4) with_child_filter [of "\<lambda>q. q = None"]
    by (auto simp: insert_draft_fields tree_ok_def)
  have kids: "mset (concat (map nd_children ?ns'))
      = mset (map nd_node_id (filter (\<lambda>d. nd_parent_id d \<noteq> None) ?ns'))"
  proof -
    let ?w = "with_child ?ns parent (nd_node_id d)"
    let ?f = "\<lambda>ns. map nd_node_id (filter (\<lambda>d. nd_parent_id d \<noteq> None) ns)"
    have w: "?f ?w = ?f ?ns" by (rule with_child_filter)
    have old: "mset (concat (map nd_children ?ns)) = mset (?f ?ns)"
      using ok unfolding tree_ok_def by blast
    have app: "?f (?w @ [d]) = ?f ?w @ (if parent = None then [] else [nd_node_id d])"
      using df(4) by simp
    have "mset (concat (map nd_children ?w))
        = mset (?f ?ns) + mset (if parent = None then [] else [nd_node_id d])"
    proof (cases parent)
      case None
      with old show ?thesis by (simp add: with_child_def)
    next
      case (Some p)
      have "mset (concat (map nd_children ?w))
          = add_mset (nd_node_id d) (mset (concat (map nd_children ?ns)))"
        unfolding with_child_def Some option.case
        by (rule concat_children_update [OF plt(1) [OF Some]])
      with old Some show ?thesis by simp
    qed
    then show ?thesis unfolding app w using df(3) by simp
  qed
  from nodes_ok stack roots kids room show ?thesis
    by (simp add: tree_ok_def insert_draft_fields insert_draft_nodes)
qed

lemma add_node_tree_ok [inv_intros]:
  assumes "tree_ok b"
  shows "tree_ok (fst (add_node sha a b))"
proof (cases "node_limit_reached b")
  case True
  with assms show ?thesis by (simp add: add_node_def)
next
  case False
  obtain b2 parent status where eq: "bound_depth a (place_by_indent a b) = (b2, parent, status)"
    by (metis prod_cases3)
  note S = slot_found [OF assms eq]
  from False S have "length (ib_nodes b2) < ib_max_nodes b2"
    by (simp add: node_limit_reached_def)
  from insert_tree_ok [OF S(1) this refl] False eq show ?thesis
    by (simp add: add_node_def Let_def)
qed

interpretation tree: builder_contract sha tree_ok for sha
proof
  fix b :: ir_builder and a c m s e
  assume ok: "tree_ok b"
  from ok show "tree_ok (fst (add_node sha a b))" by (rule add_node_tree_ok)
  from ok show "tree_ok (add_diagnostic c m s e b)"
    by (simp add: tree_ok_def add_diagnostic_def)
  from ok show "tree_ok (reset_context b)"
    by (simp add: tree_ok_def reset_context_def stack_ok_def)
qed

end
