(* ===== verification/Cli_Readers.thy ===== *)
theory Cli_Readers
  imports Builder_Invariant
begin

text \<open>
  The two command-line readers: the indentation reader
  (\<open>parsing/readers/indentation_cli.py\<close>) and the FortiOS reader
  (\<open>parsing/readers/fortios_cli.py\<close>).  Line numbers in nodes count from 1, list indices
  from 0, as in the source.  The \<open>while\<close> loop of the first is a function whose termination
  rests on every branch moving the index forward; the \<open>for\<close> loop of the second is a fold
  over the numbered lines.
\<close>

definition INDENTATION_CLI_READER_ID :: string where
  "INDENTATION_CLI_READER_ID = ''indentation_cli.v1''"
definition FORTIOS_CLI_READER_ID :: string where "FORTIOS_CLI_READER_ID = ''fortios_cli.v1''"
definition MAX_INPUT_CHARACTERS :: nat where "MAX_INPUT_CHARACTERS = 2 * 1024 * 1024"
definition MAX_SOURCE_LINES :: nat where "MAX_SOURCE_LINES = 50000"
definition MAX_LINE_CHARACTERS :: nat where "MAX_LINE_CHARACTERS = 16 * 1024"
definition MAX_NODE_COUNT :: nat where "MAX_NODE_COUNT = 20000"
definition MAX_DEPTH :: nat where "MAX_DEPTH = 64"
definition MAX_OPAQUE_BLOCK_LINES :: nat where "MAX_OPAQUE_BLOCK_LINES = 4096"

definition is_eol :: "char \<Rightarrow> bool" where
  "is_eol c = (c = newline \<or> c = cret)"

text \<open>\<open>add_node\<close>'s keyword arguments with its defaults.\<close>

definition node_kwargs ::
  "string \<Rightarrow> string option \<Rightarrow> string list \<Rightarrow> nat \<Rightarrow> nat \<Rightarrow> nat \<Rightarrow> bool \<Rightarrow> config_node_kind
    \<Rightarrow> parse_status \<Rightarrow> node_args" where
  "node_kwargs raw_text command arguments indent s e negated kind status =
     \<lparr>na_raw_text = raw_text, na_command = command, na_arguments = arguments,
      na_indent = indent, na_source_start = s, na_source_end = e, na_negated = negated,
      na_kind = kind, na_parse_status = status, na_comments = [],
      na_force_root = False, na_can_parent = True\<rparr>"

section \<open>The indentation reader\<close>

definition banner_prefix :: "string \<Rightarrow> bool" where
  "banner_prefix stripped = (map py_lower (take 1 (py_words stripped)) = [''banner''])"

definition certificate_chain_prefix :: "string \<Rightarrow> bool" where
  "certificate_chain_prefix stripped =
     (map py_lower (take 4 (py_words stripped)) = [''crypto'', ''pki'', ''certificate'', ''chain''])"

definition bounded_lines :: "string \<Rightarrow> string list \<times> bool" where
  "bounded_lines content =
     (let bounded_content = take MAX_INPUT_CHARACTERS content;
          all_lines = lines_keep bounded_content;
          lines = map (rstrip_by is_eol) (take MAX_SOURCE_LINES all_lines);
          truncated = (length bounded_content < length content
                       \<or> MAX_SOURCE_LINES < length all_lines)
      in (if bounded_content \<noteq> [] \<and> lines = [] then [bounded_content] else lines, truncated))"

definition bounded_line :: "string \<Rightarrow> string \<times> bool" where
  "bounded_line line = (take MAX_LINE_CHARACTERS line, MAX_LINE_CHARACTERS < length line)"

definition line_limit_diagnostic :: "nat \<Rightarrow> ir_builder \<Rightarrow> ir_builder" where
  "line_limit_diagnostic source_line b =
     add_diagnostic ''line_limit'' ''Source line exceeded the structural parsing line limit''
       (Some source_line) (Some source_line) b"

definition banner_delimiter :: "string \<Rightarrow> string option \<times> string" where
  "banner_delimiter stripped =
     (case py_split_max 2 stripped of
        [_, _, payload] \<Rightarrow>
          if payload = [] then (None, [])
          else (let delimiter = (if prefix ''^'' payload \<and> 2 \<le> length payload
                                 then take 2 payload else take 1 payload)
                in (Some delimiter, drop (length delimiter) payload))
      | _ \<Rightarrow> (None, []))"

text \<open>
  The \<open>for index in range(start_index + 1, end_limit)\<close> loops: the lines read, whether one of
  them was cut, and the index of the first line where the terminator holds.
\<close>

fun scan_until ::
  "(string \<Rightarrow> bool) \<Rightarrow> nat \<Rightarrow> string list \<Rightarrow> string list \<Rightarrow> bool \<Rightarrow> nat option \<times> string list \<times> bool" where
  "scan_until P i [] raws truncated = (None, raws, truncated)"
| "scan_until P i (l # ls) raws truncated =
     (let raws' = raws @ [fst (bounded_line l)];
          truncated' = (truncated \<or> snd (bounded_line l))
      in if P l then (Some i, raws', truncated') else scan_until P (Suc i) ls raws' truncated')"

definition scan_banner ::
  "string list \<Rightarrow> nat \<Rightarrow> nat \<times> string \<times> string option \<times> bool \<times> bool" where
  "scan_banner lines start_index =
     (let line = lines ! start_index;
          (delimiter, opening_remainder) = banner_delimiter (py_strip line);
          raws = [fst (bounded_line line)];
          block_truncated = (MAX_LINE_CHARACTERS < length line);
          end_limit = min (length lines) (start_index + MAX_OPAQUE_BLOCK_LINES);
          body = take (end_limit - (start_index + 1)) (drop (start_index + 1) lines);
          end_index = max start_index (end_limit - 1)
      in case delimiter of
           None \<Rightarrow>
             (case scan_until (\<lambda>_. False) (start_index + 1) body raws block_truncated of
                (_, raws', tr) \<Rightarrow>
                  (end_index, join [newline] raws', None, False, tr \<or> end_limit < length lines))
         | Some d \<Rightarrow>
             if py_in d opening_remainder
             then (start_index, hd raws, Some d, True, block_truncated)
             else
               (case scan_until (py_in d) (start_index + 1) body raws block_truncated of
                  (Some i, raws', tr) \<Rightarrow> (i, join [newline] raws', Some d, True, tr)
                | (None, raws', tr) \<Rightarrow>
                    (end_index, join [newline] raws', Some d, False, tr \<or> end_limit < length lines)))"

definition scan_certificate_block :: "string list \<Rightarrow> nat \<Rightarrow> nat \<times> string \<times> bool \<times> bool" where
  "scan_certificate_block lines start_index =
     (let line = lines ! start_index;
          raws = [fst (bounded_line line)];
          block_truncated = (MAX_LINE_CHARACTERS < length line);
          end_limit = min (length lines) (start_index + MAX_OPAQUE_BLOCK_LINES);
          body = take (end_limit - (start_index + 1)) (drop (start_index + 1) lines);
          end_index = max start_index (end_limit - 1)
      in (case scan_until (\<lambda>l. py_lower (py_strip l) = ''quit'') (start_index + 1)
                 body raws block_truncated of
            (Some i, raws', tr) \<Rightarrow> (i, join [newline] raws', True, tr)
          | (None, raws', tr) \<Rightarrow>
              (end_index, join [newline] raws', False, tr \<or> end_limit < length lines)))"

text \<open>The four kinds of non-blank line; each returns the next index and whether to stop.\<close>

type_synonym step_result = "nat \<times> ir_builder \<times> bool \<times> bool"

definition comment_step ::
  "(string \<Rightarrow> string) \<Rightarrow> string list \<Rightarrow> nat \<Rightarrow> ir_builder \<Rightarrow> bool \<Rightarrow> step_result" where
  "comment_step sha lines index b truncated =
     (let original_line = lines ! index;
          stripped = py_strip original_line;
          (raw_text, line_truncated) = bounded_line original_line;
          args = (node_kwargs raw_text None [] 0 (index + 1) (index + 1) False COMMENT
                   (if line_truncated then PS_PARTIAL else PS_PARSED))
                 \<lparr>na_comments := [py_lstrip (drop 1 stripped)],
                  na_force_root := True, na_can_parent := False\<rparr>;
          b1 = fst (add_node sha args (reset_context b))
      in if line_truncated
         then (index + 1, line_limit_diagnostic (index + 1) b1, True, False)
         else (index + 1, b1, truncated, False))"

definition banner_step ::
  "(string \<Rightarrow> string) \<Rightarrow> string list \<Rightarrow> nat \<Rightarrow> ir_builder \<Rightarrow> bool \<Rightarrow> step_result" where
  "banner_step sha lines index b truncated =
     (let original_line = lines ! index;
          (end_index, raw_text, delimiter, complete, block_truncated) = scan_banner lines index;
          tokens = tokenize_statement original_line;
          status = (if complete \<and> \<not> block_truncated then PS_OPAQUE else PS_PARTIAL);
          arguments = (case delimiter of
              Some d \<Rightarrow> if d \<notin> set (ts_arguments tokens) then ts_arguments tokens @ [d]
                        else ts_arguments tokens
            | None \<Rightarrow> ts_arguments tokens);
          args = (node_kwargs raw_text (Some ''banner'') arguments
                   (in_columns (measure_indentation original_line)) (index + 1) (end_index + 1)
                   False OPAQUE status)\<lparr>na_can_parent := False\<rparr>;
          b1 = fst (add_node sha args b);
          b2 = (if \<not> complete
                then add_diagnostic ''unterminated_banner''
                  ''Banner delimiter was not found within bounded input''
                  (Some (index + 1)) (Some (end_index + 1)) b1 else b1);
          b3 = (if block_truncated
                then add_diagnostic ''opaque_block_limit''
                  ''Opaque banner block exceeded structural parsing limits''
                  (Some (index + 1)) (Some (end_index + 1)) b2 else b2)
      in (end_index + 1, b3, truncated \<or> block_truncated, \<not> complete))"

definition certificate_step ::
  "(string \<Rightarrow> string) \<Rightarrow> string list \<Rightarrow> nat \<Rightarrow> ir_builder \<Rightarrow> bool \<Rightarrow> step_result" where
  "certificate_step sha lines index b truncated =
     (let original_line = lines ! index;
          (end_index, raw_text, complete, block_truncated) = scan_certificate_block lines index;
          tokens = tokenize_statement original_line;
          args = (node_kwargs raw_text (ts_command tokens) (ts_arguments tokens)
                   (in_columns (measure_indentation original_line)) (index + 1) (end_index + 1)
                   (ts_negated tokens) OPAQUE
                   (if complete \<and> \<not> block_truncated then PS_OPAQUE else PS_PARTIAL))
                 \<lparr>na_can_parent := False\<rparr>;
          b1 = fst (add_node sha args b);
          b2 = (if \<not> complete
                then add_diagnostic ''unterminated_opaque_block''
                  ''Opaque certificate block terminator was not found within bounded input''
                  (Some (index + 1)) (Some (end_index + 1)) b1 else b1);
          b3 = (if block_truncated
                then add_diagnostic ''opaque_block_limit''
                  ''Opaque certificate block exceeded structural parsing limits''
                  (Some (index + 1)) (Some (end_index + 1)) b2 else b2)
      in (end_index + 1, b3, truncated \<or> block_truncated, \<not> complete))"

definition statement_step ::
  "(string \<Rightarrow> string) \<Rightarrow> string list \<Rightarrow> nat \<Rightarrow> ir_builder \<Rightarrow> bool \<Rightarrow> step_result" where
  "statement_step sha lines index b truncated =
     (let original_line = lines ! index;
          indentation = measure_indentation original_line;
          (raw_text, line_truncated) = bounded_line original_line;
          tokens = tokenize_statement raw_text;
          status = (if in_mixed indentation \<or> line_truncated then PS_PARTIAL
                    else if ts_command tokens = None then PS_UNRESOLVED else PS_PARSED);
          b1 = (if in_mixed indentation
                then add_diagnostic ''mixed_indentation''
                  ''Mixed tabs and spaces were normalized to indentation columns''
                  (Some (index + 1)) (Some (index + 1)) b else b);
          b2 = (if line_truncated then line_limit_diagnostic (index + 1) b1 else b1);
          args = node_kwargs raw_text (ts_command tokens) (ts_arguments tokens)
                   (in_columns indentation) (index + 1) (index + 1) (ts_negated tokens)
                   STATEMENT status
      in (index + 1, fst (add_node sha args b2), truncated \<or> line_truncated, False))"

definition indent_step ::
  "(string \<Rightarrow> string) \<Rightarrow> string list \<Rightarrow> nat \<Rightarrow> ir_builder \<Rightarrow> bool \<Rightarrow> step_result" where
  "indent_step sha lines index b truncated =
     (let stripped = py_strip (lines ! index)
      in if stripped = [] then (index + 1, b, truncated, False)
         else if prefix ''!'' stripped then comment_step sha lines index b truncated
         else if banner_prefix stripped then banner_step sha lines index b truncated
         else if certificate_chain_prefix stripped then certificate_step sha lines index b truncated
         else statement_step sha lines index b truncated)"

lemma scan_until_range:
  "scan_until P i ls raws tr = (Some j, raws', tr') \<Longrightarrow> i \<le> j \<and> j < i + length ls"
  by (induction P i ls raws tr rule: scan_until.induct) (fastforce simp: Let_def split: if_splits)+

lemma scan_banner_range:
  assumes "scan_banner lines i = (e, raw, d, c, t)" and "i < length lines"
  shows "i \<le> e \<and> e < length lines"
  using assms
  by (auto simp: scan_banner_def Let_def split: prod.splits option.splits if_splits
      dest!: scan_until_range)

lemma scan_certificate_range:
  assumes "scan_certificate_block lines i = (e, raw, c, t)" and "i < length lines"
  shows "i \<le> e \<and> e < length lines"
  using assms
  by (auto simp: scan_certificate_block_def Let_def split: prod.splits option.splits if_splits
      dest!: scan_until_range)

lemma indent_step_progress:
  assumes "indent_step sha lines index b truncated = (index', b', truncated', stop)"
    and "index < length lines"
  shows "index < index' \<and> index' \<le> length lines"
  using assms
  by (auto simp: indent_step_def comment_step_def banner_step_def certificate_step_def
      statement_step_def Let_def split: prod.splits if_splits
      dest!: scan_banner_range scan_certificate_range)

function indent_loop ::
  "(string \<Rightarrow> string) \<Rightarrow> string list \<Rightarrow> nat \<Rightarrow> ir_builder \<Rightarrow> bool \<Rightarrow> ir_builder \<times> bool" where
  "indent_loop sha lines index b truncated =
     (if index < length lines then
        if node_limit_reached b
        then (add_diagnostic ''node_limit'' ''Configuration node count was bounded''
                (Some (index + 1)) None b, True)
        else
          (case indent_step sha lines index b truncated of (index', b', truncated', stop) \<Rightarrow>
             if stop then (b', truncated') else indent_loop sha lines index' b' truncated')
      else (b, truncated))"
  by pat_completeness auto
termination
  by (relation "measure (\<lambda>(sha, lines, index, b, truncated). length lines - index)")
    (auto dest: sym [THEN indent_step_progress])

declare indent_loop.simps [simp del]

text \<open>The state before the loop: the lines, the builder with its first diagnostics, the flag.\<close>

definition indentation_setup ::
  "structural_parse_request \<Rightarrow> string list \<times> ir_builder \<times> bool" where
  "indentation_setup request =
     (let (lines, content_truncated) = bounded_lines (rq_content request);
          truncated = (rq_input_truncated request \<or> content_truncated);
          b0 = new_builder INDENTATION_CLI_READER_ID (rq_source request) MAX_DEPTH MAX_NODE_COUNT;
          b1 = (if rq_input_truncated request
                then add_diagnostic ''artifact_byte_limit''
                  ''Artifact content was truncated at the structural parsing byte limit'' None None b0
                else b0);
          b2 = (if content_truncated
                then add_diagnostic ''input_limit''
                  ''Configuration input exceeded structural parsing limits'' None None b1
                else b1)
      in (lines, b2, truncated))"

definition indentation_parse ::
  "(string \<Rightarrow> string) \<Rightarrow> structural_parse_request \<Rightarrow> structural_ir" where
  "indentation_parse sha request =
     (case indentation_setup request of (lines, b, truncated) \<Rightarrow>
        (case indent_loop sha lines 0 b truncated of (b', truncated') \<Rightarrow> build truncated' b'))"

section \<open>The FortiOS reader\<close>

text \<open>The loop variables of \<open>FortiosCliReader.parse\<close>.\<close>

record fortios_state =
  fs_builder :: ir_builder
  fs_config_depth :: nat
  fs_edit_depth :: nat
  fs_in_config :: bool
  fs_in_edit :: bool

definition fortios_add ::
  "(string \<Rightarrow> string) \<Rightarrow> node_args \<Rightarrow> fortios_state \<Rightarrow> fortios_state" where
  "fortios_add sha args s = s\<lparr>fs_builder := fst (add_node sha args (fs_builder s))\<rparr>"

definition fortios_line ::
  "(string \<Rightarrow> string) \<Rightarrow> nat \<times> string \<Rightarrow> fortios_state \<Rightarrow> fortios_state" where
  "fortios_line sha numbered s =
     (let line_number = fst numbered;
          raw = take MAX_LINE_CHARACTERS (rstrip_by is_eol (snd numbered));
          stripped = py_strip raw;
          tokens = tokenize_statement stripped;
          args = (\<lambda>command arguments indent negated status.
            node_kwargs raw command arguments indent line_number line_number negated STATEMENT status)
      in if stripped = [] \<or> prefix ''#'' stripped then s
         else (case ts_command tokens of
           None \<Rightarrow> fortios_add sha (args None [] 0 (ts_negated tokens) PS_UNRESOLVED) s
         | Some command \<Rightarrow>
             if command = ''config'' then
               (let depth = (if fs_in_config s then 1 else 0)
                in fortios_add sha (args (Some command) (ts_arguments tokens) depth False PS_PARSED)
                     (s\<lparr>fs_config_depth := depth, fs_in_config := True, fs_in_edit := False\<rparr>))
             else if command = ''edit'' \<and> fs_in_config s then
               (let depth = fs_config_depth s + 1
                in fortios_add sha (args (Some command) (ts_arguments tokens) depth False PS_PARSED)
                     (s\<lparr>fs_in_edit := True, fs_edit_depth := depth\<rparr>))
             else if command = ''next'' \<and> fs_in_edit s then
               fortios_add sha ((args (Some command) [] (fs_edit_depth s) False PS_PARSED)
                   \<lparr>na_can_parent := False\<rparr>) (s\<lparr>fs_in_edit := False\<rparr>)
             else if command = ''end'' then
               fortios_add sha ((args (Some command) [] 0 False PS_PARSED)
                   \<lparr>na_force_root := True, na_can_parent := False\<rparr>)
                 (s\<lparr>fs_in_config := False, fs_in_edit := False\<rparr>)
             else if (command = ''set'' \<or> command = ''unset'') \<and> fs_in_config s then
               fortios_add sha (args (Some command) (ts_arguments tokens)
                   (if fs_in_edit s then fs_edit_depth s + 1 else fs_config_depth s + 1)
                   (command = ''unset'') PS_PARSED) s
             else
               fortios_add sha ((args (Some command) (ts_arguments tokens) 0 (ts_negated tokens)
                   PS_UNRESOLVED)\<lparr>na_can_parent := False\<rparr>) s))"

definition fortios_start :: "artifact_provenance \<Rightarrow> fortios_state" where
  "fortios_start source =
     \<lparr>fs_builder = new_builder FORTIOS_CLI_READER_ID source 16 20000, fs_config_depth = 0,
      fs_edit_depth = 0, fs_in_config = False, fs_in_edit = False\<rparr>"

definition fortios_parse ::
  "(string \<Rightarrow> string) \<Rightarrow> structural_parse_request \<Rightarrow> structural_ir" where
  "fortios_parse sha request =
     (let content = take MAX_INPUT_CHARACTERS (rq_content request);
          lines = take MAX_SOURCE_LINES (lines_keep content);
          truncated = (rq_input_truncated request \<or> length content < length (rq_content request)
                       \<or> length lines < count_list content newline);
          s = fold (fortios_line sha) (enumerate 1 lines) (fortios_start (rq_source request))
      in build truncated (fs_builder s))"

declare INDENTATION_CLI_READER_ID_def [run_simps] FORTIOS_CLI_READER_ID_def [run_simps]
  MAX_INPUT_CHARACTERS_def [run_simps] MAX_SOURCE_LINES_def [run_simps]
  MAX_LINE_CHARACTERS_def [run_simps] MAX_NODE_COUNT_def [run_simps] MAX_DEPTH_def [run_simps]
  MAX_OPAQUE_BLOCK_LINES_def [run_simps] is_eol_def [run_simps] node_kwargs_def [run_simps]
  banner_prefix_def [run_simps] certificate_chain_prefix_def [run_simps]
  bounded_lines_def [run_simps] bounded_line_def [run_simps] comment_step_def [run_simps]
  statement_step_def [run_simps] indent_step_def [run_simps] indentation_setup_def [run_simps]
  indentation_parse_def [run_simps] tokenize_statement_def [run_simps]
  measure_indentation_def [run_simps] new_builder_def [run_simps] add_node_def [run_simps]
  node_limit_reached_def [run_simps] place_by_indent_def [run_simps] bound_depth_def [run_simps]
  new_draft_def [run_simps] insert_draft_def [run_simps] build_def [run_simps]
  node_of_draft_def [run_simps] reset_context_def [run_simps] add_diagnostic_def [run_simps]

end
