(* ===== verification/Reader_Props.thy ===== *)
theory Reader_Props
  imports Cli_Readers
begin

text \<open>
  What the readers' output satisfies: it is a well-formed forest within the reader's bounds,
  node identifiers repeat only if the digest collides, and (for the indentation reader) every
  non-blank source line lies in exactly the source range of some node unless the result is
  marked truncated.
\<close>

section \<open>The readers are clients of the builder\<close>

lemma add_runs: "builder_run sha b b' \<Longrightarrow> builder_run sha b (fst (add_node sha a b'))"
  by (rule run_add)

lemmas step_runs = run_done run_add run_diag run_reset

lemma comment_step_run: "builder_run sha b (fst (snd (comment_step sha lines index b t)))"
  by (auto simp: comment_step_def line_limit_diagnostic_def Let_def split: prod.split
      intro!: step_runs)

lemma banner_step_run: "builder_run sha b (fst (snd (banner_step sha lines index b t)))"
  by (auto simp: banner_step_def Let_def split: prod.split intro!: step_runs)

lemma certificate_step_run: "builder_run sha b (fst (snd (certificate_step sha lines index b t)))"
  by (auto simp: certificate_step_def Let_def split: prod.split intro!: step_runs)

lemma statement_step_run: "builder_run sha b (fst (snd (statement_step sha lines index b t)))"
  by (auto simp: statement_step_def line_limit_diagnostic_def Let_def split: prod.split
      intro!: step_runs)

lemma indent_step_run: "builder_run sha b (fst (snd (indent_step sha lines index b t)))"
  by (simp add: indent_step_def Let_def comment_step_run banner_step_run certificate_step_run
      statement_step_run run_done)

lemma indent_loop_run: "builder_run sha b (fst (indent_loop sha lines index b t))"
proof (induction sha lines index b t rule: indent_loop.induct)
  case (1 sha lines index b t)
  obtain i' b' t' stop where s: "indent_step sha lines index b t = (i', b', t', stop)"
    by (metis prod_cases4)
  have r: "builder_run sha b b'" using indent_step_run [of sha b lines index t] s by simp
  show ?case
  proof (cases "index < length lines \<and> \<not> node_limit_reached b \<and> \<not> stop")
    case True
    with 1 s have "builder_run sha b' (fst (indent_loop sha lines i' b' t'))" by simp blast
    from builder_run_trans [OF this r] True s show ?thesis
      by (subst indent_loop.simps) simp
  next
    case False
    with s r show ?thesis
      by (subst indent_loop.simps) (auto intro: step_runs)
  qed
qed

lemma fortios_add_run:
  "fs_builder s' = fs_builder s \<Longrightarrow>
     builder_run sha (fs_builder s) (fs_builder (fortios_add sha a s'))"
  by (auto simp: fortios_add_def intro: step_runs)

lemma fortios_line_run:
  "builder_run sha (fs_builder s) (fs_builder (fortios_line sha l s))"
  unfolding fortios_line_def Let_def
  by (simp add: fortios_add_run run_done split: option.split)

lemma fortios_fold_run:
  "builder_run sha (fs_builder s) (fs_builder (fold (fortios_line sha) ls s))"
proof (induction ls arbitrary: s)
  case (Cons l ls)
  then show ?case using builder_run_trans [OF Cons.IH fortios_line_run] by simp
qed (simp add: run_done)

lemma indentation_setup_run:
  assumes "indentation_setup rq = (lines, b, t)"
  shows "builder_run sha
    (new_builder INDENTATION_CLI_READER_ID (rq_source rq) MAX_DEPTH MAX_NODE_COUNT) b"
  using assms
  by (auto simp: indentation_setup_def Let_def split: prod.splits if_splits intro!: step_runs)

lemma indentation_parse_run:
  "\<exists>b t. builder_run sha
      (new_builder INDENTATION_CLI_READER_ID (rq_source rq) MAX_DEPTH MAX_NODE_COUNT) b
    \<and> indentation_parse sha rq = build t b"
proof -
  obtain lines b t where s: "indentation_setup rq = (lines, b, t)" by (metis prod_cases3)
  obtain b' t' where l: "indent_loop sha lines 0 b t = (b', t')" by (metis prod.exhaust)
  have "builder_run sha b b'" using indent_loop_run [of sha b lines 0 t] l by simp
  from builder_run_trans [OF this indentation_setup_run [OF s]] s l show ?thesis
    by (auto simp: indentation_parse_def)
qed

lemma fortios_parse_run:
  "\<exists>b t. builder_run sha (new_builder FORTIOS_CLI_READER_ID (rq_source rq) 16 20000) b
    \<and> fortios_parse sha rq = build t b"
  using fortios_fold_run [of sha "fortios_start (rq_source rq)"]
  by (auto simp: fortios_parse_def Let_def fortios_start_def)

section \<open>The output is a forest\<close>

definition ir_forest :: "nat \<Rightarrow> nat \<Rightarrow> structural_ir \<Rightarrow> bool" where
  "ir_forest max_depth max_nodes ir =
     (length (ir_nodes ir) \<le> max_nodes
      \<and> (\<forall>i < length (ir_nodes ir). let n = ir_nodes ir ! i in
            cn_order n = Suc i \<and> cn_depth n \<le> max_depth
            \<and> length (cn_context_path n) = cn_depth n
            \<and> (if cn_parent_id n = None then cn_depth n = 0
               else \<exists>p < i. let m = ir_nodes ir ! p in
                 cn_parent_id n = Some (cn_node_id m) \<and> cn_depth n = Suc (cn_depth m)
                 \<and> cn_context_path n = cn_context_path m @ [cn_node_id m]
                 \<and> cn_node_id n \<in> set (cn_children m)))
      \<and> ir_root_node_ids ir
          = map cn_node_id (filter (\<lambda>n. cn_parent_id n = None) (ir_nodes ir))
      \<and> mset (concat (map cn_children (ir_nodes ir)))
          = mset (map cn_node_id (filter (\<lambda>n. cn_parent_id n \<noteq> None) (ir_nodes ir))))"

lemma node_of_draft_fields [simp]:
  "cn_node_id (node_of_draft s d) = nd_node_id d"
  "cn_parent_id (node_of_draft s d) = nd_parent_id d"
  "cn_children (node_of_draft s d) = nd_children d"
  "cn_depth (node_of_draft s d) = nd_depth d"
  "cn_order (node_of_draft s d) = nd_order d"
  "cn_context_path (node_of_draft s d) = nd_context_path d"
  "cn_source_start (node_of_draft s d) = nd_source_start d"
  "cn_source_end (node_of_draft s d) = nd_source_end d"
  "cn_raw_text (node_of_draft s d) = nd_raw_text d"
  by (simp_all add: node_of_draft_def)

lemma placed_path_length:
  assumes "tree_ok b" and "i < length (ib_nodes b)"
  shows "length (nd_context_path (ib_nodes b ! i)) = nd_depth (ib_nodes b ! i)"
  using assms(2)
proof (induction i rule: less_induct)
  case (less i)
  then have "node_placed (ib_nodes b) i" using assms(1) by (simp add: tree_ok_def)
  then show ?case unfolding node_placed_def
  proof (elim disjE exE conjE, goal_cases)
    case (2 p)
    with less show ?case by simp
  qed simp
qed

lemma tree_ok_forest:
  assumes ok: "tree_ok b"
  shows "ir_forest (ib_max_depth b) (ib_max_nodes b) (build t b)"
proof -
  have f: "filter (\<lambda>n. P (cn_parent_id n)) (map (node_of_draft s) ns)
      = map (node_of_draft s) (filter (\<lambda>d. P (nd_parent_id d)) ns)" for P s ns
    by (simp add: filter_map comp_def)
  let ?ns = "map (node_of_draft (ib_source b)) (ib_nodes b)"
  have parent: "\<exists>p < i. let m = ?ns ! p in
        cn_parent_id (?ns ! i) = Some (cn_node_id m) \<and> cn_depth (?ns ! i) = Suc (cn_depth m)
        \<and> cn_context_path (?ns ! i) = cn_context_path m @ [cn_node_id m]
        \<and> cn_node_id (?ns ! i) \<in> set (cn_children m)"
    if i: "i < length (ib_nodes b)" and q: "nd_parent_id (ib_nodes b ! i) \<noteq> None" for i
  proof -
    have "node_placed (ib_nodes b) i" using ok i by (simp add: tree_ok_def)
    with q obtain p where "p < i" "nd_parent_id (ib_nodes b ! i) = Some (nid b p)"
      "nd_depth (ib_nodes b ! i) = Suc (nd_depth (ib_nodes b ! p))"
      "nd_context_path (ib_nodes b ! i) = nd_context_path (ib_nodes b ! p) @ [nid b p]"
      "nid b i \<in> set (nd_children (ib_nodes b ! p))"
      by (auto simp: node_placed_def)
    with i show ?thesis by (intro exI [of _ p]) (simp add: Let_def)
  qed
  have root: "nd_depth (ib_nodes b ! i) = 0"
    if "i < length (ib_nodes b)" and "nd_parent_id (ib_nodes b ! i) = None" for i
    using ok that by (auto simp: tree_ok_def node_placed_def)
  have kids: "concat (map cn_children ?ns) = concat (map nd_children (ib_nodes b))"
    by (simp add: comp_def)
  show ?thesis
    unfolding ir_forest_def
  proof (intro conjI allI impI, goal_cases)
    case (2 i)
    then have i: "i < length (ib_nodes b)" by (simp add: build_def)
    then have "nd_order (ib_nodes b ! i) = Suc i" "nd_depth (ib_nodes b ! i) \<le> ib_max_depth b"
      using ok by (simp_all add: tree_ok_def)
    with i placed_path_length [OF ok i] root [OF i] parent [OF i] show ?case
      by (simp add: build_def Let_def)
  qed (use ok f [of "\<lambda>q. q = None"] f [of "\<lambda>q. q \<noteq> None"] kids in
      \<open>simp_all add: build_def tree_ok_def comp_def\<close>)
qed

lemma run_bounds:
  "builder_run sha (new_builder r s d n) b \<Longrightarrow> ib_max_depth b = d \<and> ib_max_nodes b = n
     \<and> ib_reader_id b = r \<and> ib_source b = s"
proof (induction "new_builder r s d n" b rule: builder_run.induct)
  case (run_add b' a)
  show ?case
  proof (cases "node_limit_reached b'")
    case True
    with run_add show ?thesis by (simp add: add_node_def)
  next
    case False
    obtain b1 p1 s1 where q: "place_by_indent a b' = (b1, p1, s1)" by (metis prod_cases3)
    obtain b2 p2 s2 where e: "bound_depth a (b1, p1, s1) = (b2, p2, s2)" by (metis prod_cases3)
    have "same_tree b' b1" "same_tree b1 b2"
      using q e by (auto simp: place_by_indent_def bound_depth_def same_tree_def add_diagnostic_def
          Let_def split: if_splits option.splits)
    with run_add False q e show ?thesis
      by (simp add: add_node_def Let_def insert_draft_fields same_tree_def)
  qed
qed (simp_all add: new_builder_def add_diagnostic_def reset_context_def)

lemma run_forest:
  assumes "builder_run sha (new_builder r s d n) b"
  shows "ir_forest d n (build t b)"
  using tree_ok_forest [OF tree.run_inv [OF assms tree_ok_new]] run_bounds [OF assms] by simp

section \<open>Node identifiers\<close>

text \<open>The text whose digest a draft's identifier is.\<close>

definition draft_identity :: "artifact_provenance \<Rightarrow> string \<Rightarrow> node_draft \<Rightarrow> string" where
  "draft_identity source reader_id d =
     node_identity source reader_id (nd_raw_text d) (nd_source_start d) (nd_source_end d)
       (nd_order d) (nd_parent_id d)"

definition ids_ok :: "(string \<Rightarrow> string) \<Rightarrow> ir_builder \<Rightarrow> bool" where
  "ids_ok sha b = (tree_ok b \<and> (\<forall>d \<in> set (ib_nodes b).
     nd_node_id d = ''irn_'' @ take 32 (sha (draft_identity (ib_source b) (ib_reader_id b) d))))"

lemma with_child_member:
  assumes "d \<in> set (with_child ns parent x)"
  shows "\<exists>d' \<in> set ns. nd_node_id d = nd_node_id d'
    \<and> draft_identity s r d = draft_identity s r d'"
proof -
  from assms obtain i where i: "i < length ns" "d = with_child ns parent x ! i"
    by (metis in_set_conv_nth with_child_length)
  then show ?thesis
    by (intro bexI [of _ "ns ! i"]) (simp_all add: draft_identity_def with_child_fields)
qed

lemma ids_ok_add:
  assumes "ids_ok sha b"
  shows "ids_ok sha (fst (add_node sha a b))"
proof (cases "node_limit_reached b")
  case True
  with assms show ?thesis by (simp add: add_node_def)
next
  case False
  from assms have ok: "tree_ok b" by (simp add: ids_ok_def)
  obtain b2 parent status where eq: "bound_depth a (place_by_indent a b) = (b2, parent, status)"
    by (metis prod_cases3)
  note S = slot_found [OF ok eq]
  let ?d = "new_draft sha a b2 parent status"
  have add: "fst (add_node sha a b) = insert_draft a b2 parent ?d"
    using False eq by (simp add: add_node_def Let_def)
  have new: "nd_node_id ?d = ''irn_'' @ take 32 (sha (draft_identity (ib_source b) (ib_reader_id b) ?d))"
    using S by (simp add: new_draft_def Let_def node_id_of_def draft_identity_def)
  have "nd_node_id d = ''irn_'' @ take 32 (sha (draft_identity (ib_source b) (ib_reader_id b) d))"
    if "d \<in> set (with_child (ib_nodes b2) parent (nd_node_id ?d))" for d
    using with_child_member [OF that] S(2) assms by (metis ids_ok_def)
  with new add_node_tree_ok [OF ok, of sha a] S show ?thesis
    unfolding ids_ok_def add by (auto simp: insert_draft_nodes insert_draft_fields)
qed

interpretation ids: builder_contract sha "ids_ok sha" for sha
proof
  fix b :: ir_builder and a c m s e
  assume ok: "ids_ok sha b"
  from ok show "ids_ok sha (fst (add_node sha a b))" by (rule ids_ok_add)
  from ok show "ids_ok sha (add_diagnostic c m s e b)"
    using tree.diag_inv by (simp add: ids_ok_def add_diagnostic_def)
  from ok show "ids_ok sha (reset_context b)"
    using tree.reset_inv by (simp add: ids_ok_def reset_context_def)
qed

lemma unit_sep_not_in_nat [simp]: "CHR 0x1F \<notin> set (nat_str n)"
proof
  assume "CHR 0x1F \<in> set (nat_str n)"
  then have "is_digit (CHR 0x1F)" by (rule nat_str_set)
  then show False by (simp add: is_digit_def code_of_def)
qed

lemma node_identity_order:
  assumes "node_identity src rid raw s e n p = node_identity src rid raw' s' e' n' p'"
  shows "s = s' \<and> e = e' \<and> n = n'"
proof -
  let ?x = "CHR 0x1F"
  let ?q = "\<lambda>p. case p of None \<Rightarrow> ''root'' | Some q \<Rightarrow> if q = [] then ''root'' else q"
  have "nat_str s @ ?x # nat_str e @ ?x # nat_str n @ ?x # ?q p @ ?x # raw
      = nat_str s' @ ?x # nat_str e' @ ?x # nat_str n' @ ?x # ?q p' @ ?x # raw'"
    using assms by (simp add: node_identity_def unit_sep_def)
  then have 1: "nat_str s = nat_str s'"
    and 2: "nat_str e @ ?x # nat_str n @ ?x # ?q p @ ?x # raw
      = nat_str e' @ ?x # nat_str n' @ ?x # ?q p' @ ?x # raw'"
    using split_at_unique by fastforce+
  from 2 have 3: "nat_str e = nat_str e'"
    and 4: "nat_str n @ ?x # ?q p @ ?x # raw = nat_str n' @ ?x # ?q p' @ ?x # raw'"
    using split_at_unique by fastforce+
  from 4 have "nat_str n = nat_str n'"
    using split_at_unique by fastforce
  with 1 3 show ?thesis by simp
qed

definition cn_identity :: "structural_ir \<Rightarrow> config_node \<Rightarrow> string" where
  "cn_identity ir n = node_identity (ir_source ir) (ir_reader_id ir) (cn_raw_text n)
     (cn_source_start n) (cn_source_end n) (cn_order n) (cn_parent_id n)"

lemma run_ids:
  assumes run: "builder_run sha (new_builder r s d n) b"
    and i: "i < length (ir_nodes (build t b))" and j: "j < length (ir_nodes (build t b))"
    and ij: "i \<noteq> j"
    and eq: "cn_node_id (ir_nodes (build t b) ! i) = cn_node_id (ir_nodes (build t b) ! j)"
  shows "cn_identity (build t b) (ir_nodes (build t b) ! i)
       \<noteq> cn_identity (build t b) (ir_nodes (build t b) ! j)
    \<and> take 32 (sha (cn_identity (build t b) (ir_nodes (build t b) ! i)))
       = take 32 (sha (cn_identity (build t b) (ir_nodes (build t b) ! j)))"
proof -
  have ids: "ids_ok sha b"
    by (rule ids.run_inv [OF run]) (simp add: ids_ok_def tree_ok_new, simp add: new_builder_def)
  have id: "cn_identity (build t b) (ir_nodes (build t b) ! k)
      = draft_identity (ib_source b) (ib_reader_id b) (ib_nodes b ! k)"
    "cn_node_id (ir_nodes (build t b) ! k) = nid b k"
    "nid b k = ''irn_'' @ take 32 (sha (draft_identity (ib_source b) (ib_reader_id b) (ib_nodes b ! k)))"
    "nd_order (ib_nodes b ! k) = Suc k"
    if "k < length (ib_nodes b)" for k
    using that ids
    by (simp_all add: build_def cn_identity_def draft_identity_def node_of_draft_def ids_ok_def
        tree_ok_def)
  have lt: "i < length (ib_nodes b)" "j < length (ib_nodes b)"
    using i j by (simp_all add: build_def)
  have "draft_identity (ib_source b) (ib_reader_id b) (ib_nodes b ! i)
      \<noteq> draft_identity (ib_source b) (ib_reader_id b) (ib_nodes b ! j)"
    using node_identity_order id(4) lt ij unfolding draft_identity_def by (metis Suc_inject)
  with eq id lt show ?thesis by simp
qed

section \<open>Source positions\<close>

definition spans :: "ir_builder \<Rightarrow> (nat \<times> nat) list" where
  "spans b = map (\<lambda>d. (nd_source_start d, nd_source_end d)) (ib_nodes b)"

lemma map_list_update_same: "f x = f (xs ! i) \<Longrightarrow> map f (xs[i := x]) = map f xs"
  by (metis list_update_beyond list_update_id linorder_not_le map_update)

lemma spans_with_child:
  "map (\<lambda>d. (nd_source_start d, nd_source_end d)) (with_child ns parent x)
     = map (\<lambda>d. (nd_source_start d, nd_source_end d)) ns"
  by (auto simp: with_child_def map_list_update_same split: option.split)

lemma add_node_spans:
  assumes "\<not> node_limit_reached b"
  shows "spans (fst (add_node sha a b)) = spans b @ [(na_source_start a, na_source_end a)]"
proof -
  obtain b1 p1 s1 where q: "place_by_indent a b = (b1, p1, s1)" by (metis prod_cases3)
  obtain b2 p2 s2 where e: "bound_depth a (b1, p1, s1) = (b2, p2, s2)" by (metis prod_cases3)
  have "ib_nodes b1 = ib_nodes b" "ib_nodes b2 = ib_nodes b1"
    using q e by (auto simp: place_by_indent_def bound_depth_def add_diagnostic_def Let_def
        split: if_splits option.splits)
  then show ?thesis
    using assms q e spans_with_child [of "ib_nodes b" p2]
    by (simp add: add_node_def Let_def spans_def insert_draft_nodes new_draft_def)
qed

lemma spans_simps [simp]:
  "spans (add_diagnostic c m s e b) = spans b" "spans (reset_context b) = spans b"
  "node_limit_reached (add_diagnostic c m s e b) = node_limit_reached b"
  "node_limit_reached (reset_context b) = node_limit_reached b"
  "spans (line_limit_diagnostic n b) = spans b"
  "node_limit_reached (line_limit_diagnostic n b) = node_limit_reached b"
  by (simp_all add: spans_def add_diagnostic_def reset_context_def node_limit_reached_def
      line_limit_diagnostic_def)

end
