(* ===== verification/Reader_Coverage.thy ===== *)
theory Reader_Coverage
  imports Reader_Props
begin

text \<open>
  No evidence is dropped by the indentation reader: every branch of its loop either skips a
  blank line or adds one node whose source range is exactly the lines the branch consumed, and
  the loop stops early only when it marks the result as truncated or has consumed every line.
  For the FortiOS reader the number of nodes is determined exactly.
\<close>

section \<open>One step of the indentation reader\<close>

definition consumes :: "string list \<Rightarrow> nat \<Rightarrow> ir_builder \<Rightarrow> bool \<Rightarrow> step_result \<Rightarrow> bool" where
  "consumes lines i b t r = (case r of (i', b', t', stop) \<Rightarrow>
     spans b' = spans b @ [(Suc i, i')] \<and> i < i' \<and> (t \<longrightarrow> t')
     \<and> (stop \<longrightarrow> t' \<or> i' = length lines))"

lemma scan_banner_incomplete:
  assumes "scan_banner lines i = (e, raw, d, False, t)" and "i < length lines"
  shows "t \<or> Suc e = length lines"
  using assms
  by (auto simp: scan_banner_def Let_def MAX_OPAQUE_BLOCK_LINES_def
      split: prod.splits option.splits if_splits)

lemma scan_certificate_incomplete:
  assumes "scan_certificate_block lines i = (e, raw, False, t)" and "i < length lines"
  shows "t \<or> Suc e = length lines"
  using assms
  by (auto simp: scan_certificate_block_def Let_def MAX_OPAQUE_BLOCK_LINES_def
      split: prod.splits option.splits if_splits)

lemma comment_step_consumes:
  assumes "\<not> node_limit_reached b"
  shows "consumes lines i b t (comment_step sha lines i b t)"
  using assms
  by (simp add: comment_step_def consumes_def Let_def add_node_spans node_kwargs_def
      split: prod.split)

lemma banner_step_consumes:
  assumes "\<not> node_limit_reached b" and "i < length lines"
  shows "consumes lines i b t (banner_step sha lines i b t)"
proof -
  obtain e raw d c tr where s: "scan_banner lines i = (e, raw, d, c, tr)" by (metis prod_cases5)
  from scan_banner_range [OF s assms(2)] have "i \<le> e" by simp
  moreover have "c \<or> tr \<or> Suc e = length lines"
    using scan_banner_incomplete [of lines i e raw d tr] s assms(2) by (cases c) auto
  ultimately show ?thesis
    using assms(1) s
    by (simp add: banner_step_def consumes_def Let_def add_node_spans node_kwargs_def) blast
qed

lemma certificate_step_consumes:
  assumes "\<not> node_limit_reached b" and "i < length lines"
  shows "consumes lines i b t (certificate_step sha lines i b t)"
proof -
  obtain e raw c tr where s: "scan_certificate_block lines i = (e, raw, c, tr)"
    by (metis prod_cases4)
  from scan_certificate_range [OF s assms(2)] have "i \<le> e" by simp
  moreover have "c \<or> tr \<or> Suc e = length lines"
    using scan_certificate_incomplete [of lines i e raw tr] s assms(2) by (cases c) auto
  ultimately show ?thesis
    using assms(1) s
    by (simp add: certificate_step_def consumes_def Let_def add_node_spans node_kwargs_def) blast
qed

lemma statement_step_consumes:
  assumes "\<not> node_limit_reached b"
  shows "consumes lines i b t (statement_step sha lines i b t)"
  using assms
  by (simp add: statement_step_def consumes_def Let_def add_node_spans node_kwargs_def
      split: prod.split)

lemma indent_step_consumes:
  assumes "\<not> node_limit_reached b" and "i < length lines" and "\<not> py_blank (lines ! i)"
  shows "consumes lines i b t (indent_step sha lines i b t)"
  using assms
  by (simp add: indent_step_def Let_def py_blank_def comment_step_consumes banner_step_consumes
      certificate_step_consumes statement_step_consumes)

lemma indent_step_blank:
  "py_blank (lines ! i) \<Longrightarrow> indent_step sha lines i b t = (i + 1, b, t, False)"
  by (simp add: indent_step_def py_blank_def)

section \<open>The loop\<close>

definition covers :: "string list \<Rightarrow> nat \<Rightarrow> (nat \<times> nat) list \<Rightarrow> bool" where
  "covers lines k ps =
     ((\<forall>p \<in> set ps. 1 \<le> fst p \<and> fst p \<le> snd p \<and> snd p \<le> k)
      \<and> sorted_wrt (\<lambda>p q. snd p < fst q) ps
      \<and> (\<forall>i < k. \<not> py_blank (lines ! i) \<longrightarrow> (\<exists>p \<in> set ps. fst p \<le> Suc i \<and> Suc i \<le> snd p)))"

lemma covers_skip:
  assumes "covers lines k ps" and "py_blank (lines ! k)"
  shows "covers lines (Suc k) ps"
  using assms by (fastforce simp: covers_def less_Suc_eq)

lemma covers_extend:
  assumes "covers lines k ps" and "k < k'"
  shows "covers lines k' (ps @ [(Suc k, k')])"
proof -
  have "\<exists>p \<in> set (ps @ [(Suc k, k')]). fst p \<le> Suc i \<and> Suc i \<le> snd p"
    if "i < k'" "\<not> py_blank (lines ! i)" for i
    using assms that by (cases "i < k") (auto simp: covers_def)
  then show ?thesis
    using assms by (force simp: covers_def sorted_wrt_append)
qed

lemma covers_mono_ranges:
  "covers lines k ps \<Longrightarrow> k \<le> n \<Longrightarrow>
     (\<forall>p \<in> set ps. 1 \<le> fst p \<and> fst p \<le> snd p \<and> snd p \<le> n)
      \<and> sorted_wrt (\<lambda>p q. snd p < fst q) ps"
  by (auto simp: covers_def intro: le_trans)

lemma indent_loop_covers:
  assumes "covers lines i (spans b)" and "i \<le> length lines"
  shows "case indent_loop sha lines i b t of (b', t') \<Rightarrow>
     (t \<longrightarrow> t')
     \<and> (\<exists>k \<le> length lines. covers lines k (spans b') \<and> (\<not> t' \<longrightarrow> k = length lines))"
  using assms
proof (induction sha lines i b t rule: indent_loop.induct)
  case (1 sha lines i b t)
  note IH = "1.IH" and cov = "1.prems"(1) and le = "1.prems"(2)
  show ?case
  proof (cases "i < length lines \<and> \<not> node_limit_reached b")
    case False
    with cov le show ?thesis
      by (subst indent_loop.simps) (auto split: if_splits)
  next
    case True
    then have i: "i < length lines" and room: "\<not> node_limit_reached b" by simp_all
    obtain i' b' t' stop where s: "indent_step sha lines i b t = (i', b', t', stop)"
      by (metis prod_cases4)
    have i': "i' \<le> length lines" using indent_step_progress [OF s i] by simp
    have step: "covers lines i' (spans b') \<and> (t \<longrightarrow> t') \<and> (stop \<longrightarrow> t' \<or> i' = length lines)"
    proof (cases "py_blank (lines ! i)")
      case True
      with s indent_step_blank [OF True, of sha b t] covers_skip [OF cov True] show ?thesis by simp
    next
      case False
      from indent_step_consumes [OF room i False, of t sha] s covers_extend [OF cov, of i']
      show ?thesis by (simp add: consumes_def)
    qed
    have unfold: "indent_loop sha lines i b t
        = (if stop then (b', t') else indent_loop sha lines i' b' t')"
      using i room s by (subst indent_loop.simps) simp
    show ?thesis
    proof (cases stop)
      case True
      with step i' show ?thesis unfolding unfold by auto
    next
      case False
      from IH [OF i room s [symmetric] refl refl False] step i'
      show ?thesis unfolding unfold using False by (auto split: prod.splits)
    qed
  qed
qed

definition line_in_node :: "nat \<Rightarrow> config_node \<Rightarrow> bool" where
  "line_in_node k n = (cn_source_start n \<le> k \<and> k \<le> cn_source_end n)"

lemma build_spans:
  "map (\<lambda>n. (cn_source_start n, cn_source_end n)) (ir_nodes (build t b)) = spans b"
  by (simp add: build_def spans_def)

lemma indentation_parse_covers:
  assumes lines: "bounded_lines (rq_content rq) = (lines, tr)"
  shows "(\<exists>k \<le> length lines. covers lines k
            (map (\<lambda>n. (cn_source_start n, cn_source_end n)) (ir_nodes (indentation_parse sha rq)))
          \<and> (\<not> ir_truncated (indentation_parse sha rq) \<longrightarrow> k = length lines))
     \<and> (rq_input_truncated rq \<or> tr \<longrightarrow> ir_truncated (indentation_parse sha rq))"
proof -
  obtain b t where s: "indentation_setup rq = (lines, b, t)" and t: "t = (rq_input_truncated rq \<or> tr)"
    and sp: "spans b = []"
    using lines by (simp add: indentation_setup_def Let_def new_builder_def spans_def add_diagnostic_def)
  obtain b' t' where l: "indent_loop sha lines 0 b t = (b', t')" by (metis prod.exhaust)
  have ir: "indentation_parse sha rq = build t' b'"
    using s l by (simp add: indentation_parse_def)
  have "covers lines 0 (spans b)" by (simp add: covers_def sp)
  from indent_loop_covers [OF this, where sha = sha and t = t] l t show ?thesis
    unfolding ir build_spans by (simp add: build_def)
qed

section \<open>The FortiOS reader\<close>

text \<open>The lines for which the loop calls \<open>add_node\<close>.\<close>

definition fortios_statement :: "string \<Rightarrow> bool" where
  "fortios_statement line =
     (let stripped = py_strip (take MAX_LINE_CHARACTERS (rstrip_by is_eol line))
      in stripped \<noteq> [] \<and> \<not> prefix ''#'' stripped)"

lemma add_node_count:
  "length (spans (fst (add_node sha a b)))
     = (if node_limit_reached b then length (spans b) else Suc (length (spans b)))"
  using add_node_spans [of b sha a] by (simp add: add_node_def)

lemma fortios_add_count:
  assumes "fs_builder s' = fs_builder s"
  shows "length (spans (fs_builder (fortios_add sha a s')))
    = (if node_limit_reached (fs_builder s) then length (spans (fs_builder s))
       else Suc (length (spans (fs_builder s))))"
  using assms by (simp add: fortios_add_def add_node_count)

lemma fortios_line_count:
  "length (spans (fs_builder (fortios_line sha l s)))
     = (if fortios_statement (snd l) \<and> \<not> node_limit_reached (fs_builder s)
        then Suc (length (spans (fs_builder s))) else length (spans (fs_builder s)))"
proof (cases "fortios_statement (snd l)")
  case False
  then show ?thesis by (auto simp: fortios_statement_def fortios_line_def Let_def)
next
  case True
  then show ?thesis
    unfolding fortios_statement_def fortios_line_def Let_def
    by (simp add: fortios_add_count split: option.split)
qed

lemma builder_run_max_nodes:
  "builder_run sha b b' \<Longrightarrow> ib_max_nodes b' = ib_max_nodes b"
proof (induction rule: builder_run.induct)
  case (run_add b b' a)
  obtain b1 p1 s1 where q: "place_by_indent a b' = (b1, p1, s1)" by (metis prod_cases3)
  obtain b2 p2 s2 where e: "bound_depth a (b1, p1, s1) = (b2, p2, s2)" by (metis prod_cases3)
  have "ib_max_nodes b1 = ib_max_nodes b'" "ib_max_nodes b2 = ib_max_nodes b1"
    using q e by (auto simp: place_by_indent_def bound_depth_def add_diagnostic_def
        Let_def split: if_splits option.splits)
  with run_add q e show ?case
    by (simp add: add_node_def Let_def insert_draft_fields)
qed (simp_all add: add_diagnostic_def reset_context_def)

lemma fortios_fold_count:
  assumes "length (spans (fs_builder s)) \<le> ib_max_nodes (fs_builder s)"
  shows "length (spans (fs_builder (fold (fortios_line sha) ls s)))
    = min (ib_max_nodes (fs_builder s))
        (length (spans (fs_builder s)) + length (filter (\<lambda>l. fortios_statement (snd l)) ls))"
  using assms
proof (induction ls arbitrary: s)
  case (Cons l ls)
  have m: "ib_max_nodes (fs_builder (fortios_line sha l s)) = ib_max_nodes (fs_builder s)"
    by (rule builder_run_max_nodes [OF fortios_line_run])
  have c: "node_limit_reached (fs_builder s)
      \<longleftrightarrow> ib_max_nodes (fs_builder s) \<le> length (spans (fs_builder s))"
    by (simp add: node_limit_reached_def spans_def)
  show ?case
    using Cons.prems Cons.IH [of "fortios_line sha l s"] m c
    by (simp add: fortios_line_count min_def)
qed simp

lemma fortios_parse_count:
  "length (ir_nodes (fortios_parse sha rq))
     = min 20000 (length (filter fortios_statement
         (take MAX_SOURCE_LINES (lines_keep (take MAX_INPUT_CHARACTERS (rq_content rq))))))"
proof -
  let ?ls = "take MAX_SOURCE_LINES (lines_keep (take MAX_INPUT_CHARACTERS (rq_content rq)))"
  have "length (filter (\<lambda>l. fortios_statement (snd l)) (enumerate 1 ?ls))
      = length (filter fortios_statement ?ls)"
    by (metis (no_types, lifting) comp_apply filter_cong filter_map length_map map_snd_enumerate)
  moreover have "length (ir_nodes (build t b)) = length (spans b)" for t b
    by (simp add: build_def spans_def)
  ultimately show ?thesis
    using fortios_fold_count [of "fortios_start (rq_source rq)" sha "enumerate 1 ?ls"]
    by (simp add: fortios_parse_def Let_def fortios_start_def new_builder_def spans_def)
qed

lemma lines_keep_newline: "newline \<notin> set l \<Longrightarrow> lines_keep (l @ newline # s) = (l @ [newline]) # lines_keep s"
  by (induction l) auto

lemma lines_keep_replicate:
  assumes "newline \<notin> set l"
  shows "lines_keep (concat (replicate n (l @ [newline])) @ s)
    = replicate n (l @ [newline]) @ lines_keep s"
  using assms lines_keep_newline [OF assms] by (induction n) simp_all

lemma lines_keep_no_newline: "newline \<notin> set l \<Longrightarrow> lines_keep l = (if l = [] then [] else [l])"
  by (induction l) (auto split: if_splits)

lemma lines_keep_split:
  assumes "c = [] \<or> last c = newline"
  shows "lines_keep (c @ s) = lines_keep c @ lines_keep s"
  using assms
proof (induction c)
  case (Cons x c)
  then show ?case
    by (cases "c = []") (auto split: list.splits)
qed simp

lemma length_lines_keep:
  "c = [] \<or> last c = newline \<Longrightarrow> length (lines_keep c) = count_list c newline"
proof (induction c)
  case (Cons x c)
  then show ?case by (cases "c = []") (auto split: list.splits)
qed simp

lemma count_newlines_le: "count_list s newline \<le> length (lines_keep s)"
  by (induction s) (auto split: list.splits)

section \<open>Properties\<close>

text \<open>Requests used by the witnesses.\<close>

definition sample_source :: artifact_provenance where
  "sample_source = \<lparr>ap_artifact_id = 1, ap_organization_id = 2, ap_snapshot_id = None,
     ap_source_label = ''r1.cfg'', ap_sha256 = [], ap_source_metadata = []\<rparr>"

definition sample_request :: "string \<Rightarrow> structural_parse_request" where
  "sample_request content =
     \<lparr>rq_content = content, rq_source = sample_source, rq_input_truncated = False\<rparr>"

text \<open>
  C1. The indentation reader loses no evidence: when its result is not marked truncated, the
  lines it read are all the lines of the content, every line that is not blank lies in the
  source range of exactly one node, and the ranges of the nodes are in source order.
\<close>

theorem indentation_loses_no_evidence:
  assumes "\<not> ir_truncated (indentation_parse sha rq)"
  defines "lines \<equiv> map (rstrip_by is_eol) (lines_keep (rq_content rq))"
    and "nodes \<equiv> ir_nodes (indentation_parse sha rq)"
  shows "(\<forall>i < length lines. \<not> py_blank (lines ! i) \<longrightarrow>
            (\<exists>!j. j < length nodes \<and> line_in_node (Suc i) (nodes ! j)))
      \<and> sorted_wrt (\<lambda>m n. cn_source_end m < cn_source_start n) nodes"
proof -
  obtain ls tr where bl: "bounded_lines (rq_content rq) = (ls, tr)" by (metis prod.exhaust)
  let ?ps = "map (\<lambda>n. (cn_source_start n, cn_source_end n)) nodes"
  note C = indentation_parse_covers [OF bl, of sha, folded nodes_def]
  from C assms(1) have tr: "\<not> tr" and cov: "covers ls (length ls) ?ps" by auto
  have len: "length (take MAX_INPUT_CHARACTERS (rq_content rq)) = length (rq_content rq)"
    "length (lines_keep (take MAX_INPUT_CHARACTERS (rq_content rq))) \<le> MAX_SOURCE_LINES"
    using bl tr by (simp_all add: bounded_lines_def Let_def min_def split: if_splits)
  then have "ls = lines"
    using bl by (auto simp: bounded_lines_def Let_def lines_def split: if_splits)
  with cov have C: "covers lines (length lines) ?ps" by simp
  then have sorted: "sorted_wrt (\<lambda>m n. cn_source_end m < cn_source_start n) nodes"
    by (simp add: covers_def sorted_wrt_map)
  have "\<exists>!j. j < length nodes \<and> line_in_node (Suc i) (nodes ! j)"
    if i: "i < length lines" "\<not> py_blank (lines ! i)" for i
  proof (rule ex_ex1I)
    show "\<exists>j. j < length nodes \<and> line_in_node (Suc i) (nodes ! j)"
      using C i by (fastforce simp: covers_def line_in_node_def in_set_conv_nth)
    fix j k
    assume jk: "j < length nodes \<and> line_in_node (Suc i) (nodes ! j)"
      "k < length nodes \<and> line_in_node (Suc i) (nodes ! k)"
    show "j = k"
    proof (rule ccontr)
      assume "j \<noteq> k"
      then consider "j < k" | "k < j" by linarith
      then show False
        using jk sorted by cases (fastforce simp: sorted_wrt_iff_nth_less line_in_node_def)+
    qed
  qed
  with sorted show ?thesis by blast
qed

theorem indentation_loses_no_evidence_witness:
  "(\<exists>!j. j < length (ir_nodes (indentation_parse (\<lambda>s. []) (sample_request (''a'' @ [newline] @ '' b''))))
     \<and> line_in_node 2 (ir_nodes (indentation_parse (\<lambda>s. [])
          (sample_request (''a'' @ [newline] @ '' b''))) ! j))"
proof -
  let ?rq = "sample_request (''a'' @ [newline] @ '' b'')"
  have t: "\<not> ir_truncated (indentation_parse (\<lambda>s. []) ?rq)"
    by (simp add: run_simps sample_request_def indent_loop.simps)
  have l: "map (rstrip_by is_eol) (lines_keep (rq_content ?rq)) = [''a'', '' b'']"
    by (simp add: run_simps sample_request_def)
  from indentation_loses_no_evidence [OF t, unfolded l] show ?thesis
    by (simp add: run_simps All_less_Suc numeral_2_eq_2)
qed

text \<open>
  C2. Whatever the input, the result of the indentation reader is a forest of at most 20000
  nodes of depth at most 64: orders count from 1, every other node's parent comes before it and
  lists it as a child, the context path is the path of ancestors, the roots are the nodes
  without a parent, and the children lists hold every other node exactly once.
\<close>

theorem indentation_parse_forest:
  "ir_forest MAX_DEPTH MAX_NODE_COUNT (indentation_parse sha rq)"
  using indentation_parse_run [of sha rq] run_forest by metis

text \<open>The same for the FortiOS reader, with its depth bound of 16.\<close>

theorem fortios_parse_forest:
  "ir_forest 16 20000 (fortios_parse sha rq)"
  using fortios_parse_run [of sha rq] run_forest by metis

text \<open>
  C3. Two nodes of one parse have the same identifier only if the digest, cut to 32 characters,
  maps their two identity texts, which differ, to the same value.
\<close>

theorem node_ids_unique_up_to_digest:
  assumes "ir = indentation_parse sha rq \<or> ir = fortios_parse sha rq"
    and "i < length (ir_nodes ir)" and "j < length (ir_nodes ir)" and "i \<noteq> j"
    and "cn_node_id (ir_nodes ir ! i) = cn_node_id (ir_nodes ir ! j)"
  shows "cn_identity ir (ir_nodes ir ! i) \<noteq> cn_identity ir (ir_nodes ir ! j)
    \<and> take 32 (sha (cn_identity ir (ir_nodes ir ! i)))
        = take 32 (sha (cn_identity ir (ir_nodes ir ! j)))"
proof -
  obtain r d n b t where "builder_run sha (new_builder r (rq_source rq) d n) b" "ir = build t b"
    using assms(1) indentation_parse_run [of sha rq] fortios_parse_run [of sha rq] by metis
  with run_ids [of sha r "rq_source rq" d n b i t j] assms(2-5) show ?thesis by simp
qed

theorem node_ids_unique_up_to_digest_witness:
  "cn_identity (indentation_parse (\<lambda>s. []) (sample_request (''a'' @ [newline] @ '' b'')))
      (ir_nodes (indentation_parse (\<lambda>s. []) (sample_request (''a'' @ [newline] @ '' b''))) ! 0)
    \<noteq> cn_identity (indentation_parse (\<lambda>s. []) (sample_request (''a'' @ [newline] @ '' b'')))
      (ir_nodes (indentation_parse (\<lambda>s. []) (sample_request (''a'' @ [newline] @ '' b''))) ! 1)"
proof -
  let ?ir = "indentation_parse (\<lambda>s. []) (sample_request (''a'' @ [newline] @ '' b''))"
  have len: "length (ir_nodes ?ir) = 2"
    by (simp add: run_simps sample_request_def indent_loop.simps)
  have eq: "cn_node_id (ir_nodes ?ir ! 0) = cn_node_id (ir_nodes ?ir ! 1)"
    by (simp add: run_simps sample_request_def indent_loop.simps node_id_of_def)
  have b: "0 < length (ir_nodes ?ir)" "1 < length (ir_nodes ?ir)" using len by simp_all
  show ?thesis
    by (rule node_ids_unique_up_to_digest [OF disjI1 [OF refl] b zero_neq_one eq, THEN conjunct1])
qed

text \<open>
  The FortiOS reader makes one node for each line that is neither blank nor a comment,
  among the first 50000 lines of the first 2 MiB, up to 20000 nodes; and when there are more
  than 20000 such lines it stops adding nodes without marking the result as truncated.
\<close>

theorem fortios_node_limit_is_silent:
  assumes "length (rq_content rq) \<le> MAX_INPUT_CHARACTERS"
    and "length (lines_keep (rq_content rq)) \<le> MAX_SOURCE_LINES"
  shows "length (ir_nodes (fortios_parse sha rq))
           = min 20000 (length (filter fortios_statement (lines_keep (rq_content rq))))
       \<and> ir_truncated (fortios_parse sha rq) = rq_input_truncated rq"
  using assms count_newlines_le [of "rq_content rq"]
  by (simp add: fortios_parse_count) (simp add: fortios_parse_def Let_def build_def)

theorem fortios_node_limit_is_silent_witness:
  "length (ir_nodes (fortios_parse (\<lambda>s. []) (sample_request (concat (replicate 20001 (''a'' @ [newline]))))))
     = 20000
   \<and> \<not> ir_truncated (fortios_parse (\<lambda>s. []) (sample_request (concat (replicate 20001 (''a'' @ [newline])))))"
proof -
  let ?rq = "sample_request (concat (replicate 20001 (''a'' @ [newline])))"
  have l: "lines_keep (rq_content ?rq) = replicate 20001 (''a'' @ [newline])"
    using lines_keep_replicate [of "''a''" 20001 "[]"] by (simp add: sample_request_def newline_def)
  have st: "fortios_statement (''a'' @ [newline])"
    by (simp add: fortios_statement_def run_simps)
  have h1: "length (rq_content ?rq) \<le> MAX_INPUT_CHARACTERS"
    by (simp add: sample_request_def length_concat sum_list_replicate MAX_INPUT_CHARACTERS_def)
  have h2: "length (lines_keep (rq_content ?rq)) \<le> MAX_SOURCE_LINES"
    unfolding l by (simp add: MAX_SOURCE_LINES_def)
  from fortios_node_limit_is_silent [OF h1 h2, of "\<lambda>s. []", unfolded l] st show ?thesis
    by (simp add: sample_request_def)
qed

text \<open>
  Evidence after the last of exactly 50000 newlines is ignored by the FortiOS reader, and
  the result is not marked truncated: the line count is compared with the number of newlines,
  which a last line without a newline does not contribute to.
\<close>

theorem fortios_unterminated_line_ignored:
  assumes "count_list c newline = MAX_SOURCE_LINES" and "last c = newline" and "newline \<notin> set l"
    and "length c + length l \<le> MAX_INPUT_CHARACTERS"
  shows "fortios_parse sha (rq\<lparr>rq_content := c @ l\<rparr>) = fortios_parse sha (rq\<lparr>rq_content := c\<rparr>)
    \<and> ir_truncated (fortios_parse sha (rq\<lparr>rq_content := c @ l\<rparr>)) = rq_input_truncated rq"
proof -
  have n: "length (lines_keep c) = MAX_SOURCE_LINES"
    using length_lines_keep [of c] assms(1,2) by simp
  have l0: "count_list l newline = 0" using assms(3) by (simp add: count_list_0_iff)
  have "take MAX_SOURCE_LINES (lines_keep (c @ l)) = lines_keep c"
    using lines_keep_split [of c l] assms(2) n by simp
  moreover from this have "min (length (lines_keep (c @ l))) MAX_SOURCE_LINES = MAX_SOURCE_LINES"
    using n by (metis length_take min.commute)
  ultimately show ?thesis
    using assms n l0 by (simp add: fortios_parse_def Let_def build_def)
qed

theorem fortios_unterminated_line_ignored_witness:
  "fortios_parse (\<lambda>s. []) (sample_request (concat (replicate 50000 (''a'' @ [newline])) @ ''b''))
     = fortios_parse (\<lambda>s. []) (sample_request (concat (replicate 50000 (''a'' @ [newline]))))"
proof -
  let ?c = "concat (replicate 50000 (''a'' @ [newline]))"
  have c: "count_list (concat (replicate n (''a'' @ [newline]))) newline = n" for n
    by (induction n) (simp_all add: newline_def)
  have la: "last (concat (replicate (Suc n) (''a'' @ [newline]))) = newline" for n
    by (induction n) simp_all
  have h1: "count_list ?c newline = MAX_SOURCE_LINES" unfolding c by (simp add: MAX_SOURCE_LINES_def)
  have s: "Suc 49999 = 50000" by simp
  have h2: "last ?c = newline" using la [of 49999, unfolded s] .
  have h3: "newline \<notin> set ''b''" by (simp add: newline_def)
  have h4: "length ?c + length ''b'' \<le> MAX_INPUT_CHARACTERS"
    by (simp add: length_concat sum_list_replicate MAX_INPUT_CHARACTERS_def)
  from fortios_unterminated_line_ignored [OF h1 h2 h3 h4, of "\<lambda>s. []" "sample_request []"]
  show ?thesis by (simp add: sample_request_def)
qed

end
