(* ===== verification/Security_Model.thy ===== *)
theory Security_Model
  imports Py_Values
begin

text \<open>
  The canonical security model (\<open>security_model/models.py\<close>, \<open>security_model/fields.py\<close>):
  typed values, scopes, evidence references, the enumerations of \<open>db/models/security_fact.py\<close>,
  and the registry of canonical fields with the validation of a value and a scope against it.
\<close>

section \<open>Enumerations\<close>

datatype typed_value_type =
    TV_BOOLEAN | TV_INTEGER | TV_NUMBER | TV_STRING | TV_ENUM | TV_IP_ADDRESS | TV_IP_NETWORK
  | TV_DURATION | TV_LIST | TV_OBJECT | TV_NULL

fun tv_value :: "typed_value_type \<Rightarrow> string" where
  "tv_value TV_BOOLEAN = ''boolean''"
| "tv_value TV_INTEGER = ''integer''"
| "tv_value TV_NUMBER = ''number''"
| "tv_value TV_STRING = ''string''"
| "tv_value TV_ENUM = ''enum''"
| "tv_value TV_IP_ADDRESS = ''ip_address''"
| "tv_value TV_IP_NETWORK = ''ip_network''"
| "tv_value TV_DURATION = ''duration''"
| "tv_value TV_LIST = ''list''"
| "tv_value TV_OBJECT = ''object''"
| "tv_value TV_NULL = ''null''"

definition tv_members :: "typed_value_type list" where
  "tv_members = [TV_BOOLEAN, TV_INTEGER, TV_NUMBER, TV_STRING, TV_ENUM, TV_IP_ADDRESS,
     TV_IP_NETWORK, TV_DURATION, TV_LIST, TV_OBJECT, TV_NULL]"

text \<open>\<open>TypedValueType(x)\<close>; a value that no member has raises.\<close>

definition tv_of_value :: "pyval \<Rightarrow> typed_value_type option" where
  "tv_of_value v = find (\<lambda>t. v = PStr (tv_value t)) tv_members"

lemma tv_of_value_value [simp]: "tv_of_value (PStr (tv_value t)) = Some t"
  by (cases t) (simp_all add: tv_of_value_def tv_members_def)

lemma tv_of_value_Some: "tv_of_value v = Some t \<Longrightarrow> v = PStr (tv_value t)"
  by (auto simp: tv_of_value_def find_Some_iff)

datatype fact_state =
    FS_EXPLICIT | FS_INHERITED | FS_DOCUMENTED_DEFAULT | FS_DERIVED | FS_UNKNOWN | FS_CONFLICTING

datatype interpretation_method =
    DECLARATIVE_MAPPING | DOCUMENTED_DEFAULT | DETERMINISTIC_DERIVATION
  | ADMINISTRATOR_VALIDATED_MAPPING

datatype fact_validation_status =
    FV_VALIDATED | FV_ADMINISTRATOR_VALIDATED | FV_UNRESOLVED | FV_CONFLICTING

datatype interpretation_confidence = IC_HIGH | IC_MEDIUM | IC_LOW | IC_UNRESOLVED

datatype artifact_evidence_type =
    AE_CONFIGURATION | AE_VERSION_OUTPUT | AE_INVENTORY_OUTPUT | AE_OPERATIONAL_OUTPUT
  | AE_STRUCTURED_EXPORT | AE_UNKNOWN_EVIDENCE

fun evidence_type_value :: "artifact_evidence_type \<Rightarrow> string" where
  "evidence_type_value AE_CONFIGURATION = ''configuration''"
| "evidence_type_value AE_VERSION_OUTPUT = ''version_output''"
| "evidence_type_value AE_INVENTORY_OUTPUT = ''inventory_output''"
| "evidence_type_value AE_OPERATIONAL_OUTPUT = ''operational_output''"
| "evidence_type_value AE_STRUCTURED_EXPORT = ''structured_export''"
| "evidence_type_value AE_UNKNOWN_EVIDENCE = ''unknown_evidence''"

section \<open>Typed values, scopes and evidence\<close>

record typed_value =
  tv_type :: typed_value_type
  tv_val :: pyval
  tv_unit :: pyval
  tv_original_value :: pyval
  tv_original_unit :: pyval

abbreviation TypedValue :: "typed_value_type \<Rightarrow> pyval \<Rightarrow> typed_value" where
  "TypedValue t v \<equiv> \<lparr>tv_type = t, tv_val = v, tv_unit = PNone, tv_original_value = PNone,
     tv_original_unit = PNone\<rparr>"

definition typed_value_to_dict :: "typed_value \<Rightarrow> (string \<times> pyval) list" where
  "typed_value_to_dict v =
     [(''type'', PStr (tv_value (tv_type v))), (''value'', tv_val v), (''unit'', tv_unit v),
      (''original_value'', tv_original_value v), (''original_unit'', tv_original_unit v)]"

record scope_ref =
  sc_type :: string
  sc_key :: string
  sc_attributes :: "(string \<times> pyval) list"

abbreviation ScopeRef :: "string \<Rightarrow> string \<Rightarrow> (string \<times> pyval) list \<Rightarrow> scope_ref" where
  "ScopeRef t k a \<equiv> \<lparr>sc_type = t, sc_key = k, sc_attributes = a\<rparr>"

definition scope_to_dict :: "scope_ref \<Rightarrow> (string \<times> pyval) list" where
  "scope_to_dict s =
     [(''type'', PStr (sc_type s)), (''key'', PStr (sc_key s)),
      (''attributes'', PDict (sc_attributes s))]"

record evidence_ref =
  ev_artifact_id :: uuid
  ev_start_line :: "nat option"
  ev_end_line :: "nat option"
  ev_source_path :: string
  ev_ir_node_id :: string
  ev_evidence_type :: artifact_evidence_type
  ev_structured_path :: "pyval list option"
  ev_structured_order :: "nat option"

fun py_opt :: "('a \<Rightarrow> pyval) \<Rightarrow> 'a option \<Rightarrow> pyval" where
  "py_opt f None = PNone" | "py_opt f (Some x) = f x"

definition evidence_to_dict :: "evidence_ref \<Rightarrow> (string \<times> pyval) list" where
  "evidence_to_dict e =
     [(''artifact_id'', PStr (uuid_str (ev_artifact_id e))),
      (''start_line'', py_opt (\<lambda>n. PInt (int n)) (ev_start_line e)),
      (''end_line'', py_opt (\<lambda>n. PInt (int n)) (ev_end_line e)),
      (''source_path'', PStr (ev_source_path e)),
      (''ir_node_id'', PStr (ev_ir_node_id e)),
      (''evidence_type'', PStr (evidence_type_value (ev_evidence_type e))),
      (''structured_path'', py_opt PList (ev_structured_path e)),
      (''structured_order'', py_opt (\<lambda>n. PInt (int n)) (ev_structured_order e))]"

record security_fact_draft =
  sd_fact_id :: uuid
  sd_audit_id :: uuid
  sd_device_id :: uuid
  sd_snapshot_id :: uuid
  sd_field_id :: string
  sd_value :: typed_value
  sd_entity :: "string option"
  sd_scope :: scope_ref
  sd_state :: fact_state
  sd_evidence_refs :: "evidence_ref list"
  sd_source_ir_node_ids :: "string list"
  sd_extraction_method :: interpretation_method
  sd_mapping_id :: "uuid option"
  sd_mapping_version_id :: "uuid option"
  sd_knowledge_pack_version_id :: uuid
  sd_validation_status :: fact_validation_status
  sd_dependencies :: "uuid list"
  sd_interpretation_confidence :: interpretation_confidence
  sd_schema_version :: string

text \<open>The persisted fact: its JSON columns hold whatever the database gives back.\<close>

record security_fact =
  sf_fact_id :: uuid
  sf_audit_id :: uuid
  sf_device_id :: uuid
  sf_snapshot_id :: uuid
  sf_field_id :: string
  sf_value :: pyval
  sf_entity :: "string option"
  sf_scope :: pyval
  sf_state :: fact_state
  sf_evidence_refs :: pyval
  sf_source_ir_node_ids :: "string list"
  sf_extraction_method :: interpretation_method
  sf_mapping_id :: "uuid option"
  sf_mapping_version_id :: "uuid option"
  sf_knowledge_pack_version_id :: uuid
  sf_validation_status :: fact_validation_status
  sf_dependencies :: "pyval list"
  sf_interpretation_confidence :: interpretation_confidence
  sf_schema_version :: string

section \<open>The field registry\<close>

datatype canonical_field = CanonicalField
  (cf_field_id: string)
  (cf_expected_types: "typed_value_type set")
  (cf_allowed_scope_types: "string set")
  (cf_domain: string)
  (cf_description: string)
  (cf_repeatable: bool)

definition FIELDS :: "canonical_field list" where
  "FIELDS = [
  CanonicalField ''management.remote.telnet.enabled''
    {TV_BOOLEAN} {''vty_range'', ''interface'', ''device''} ''management''
    ''Whether Telnet is explicitly allowed by a VTY transport statement.'' False,
  CanonicalField ''management.remote.ssh.enabled''
    {TV_BOOLEAN} {''vty_range'', ''interface'', ''device''} ''management''
    ''Whether SSH is explicitly allowed by a VTY transport statement.'' False,
  CanonicalField ''management.remote.ssh.version''
    {TV_INTEGER} {''device''} ''management''
    ''Explicitly configured SSH protocol version.'' False,
  CanonicalField ''management.remote.https.enabled''
    {TV_BOOLEAN} {''interface''} ''management''
    ''Whether HTTPS administrative access is explicitly allowed on an interface.'' False,
  CanonicalField ''management.remote.http.enabled''
    {TV_BOOLEAN} {''interface'', ''device''} ''management''
    ''Whether clear-text HTTP administrative access is explicitly enabled.'' False,
  CanonicalField ''management.remote.tls.minimum_version''
    {TV_ENUM} {''device''} ''management''
    ''Explicit minimum TLS version accepted for administrative HTTPS access.'' False,
  CanonicalField ''management.remote.source.restriction.configured''
    {TV_BOOLEAN} {''vty_range'', ''administrator'', ''management_service''} ''management''
    ''Whether an explicit management-source restriction is configured in its native scope.'' False,
  CanonicalField ''management.remote.ssh.strong_crypto.configured''
    {TV_BOOLEAN} {''device''} ''management''
    ''Whether supported evidence explicitly establishes strong SSH cryptographic settings.'' False,
  CanonicalField ''management.remote.source.permitted_network''
    {TV_IP_NETWORK} {''administrator''} ''management''
    ''An explicitly configured administrative source network, retained in administrator scope.'' True,
  CanonicalField ''management.session.idle_timeout''
    {TV_DURATION} {''vty_range'', ''device''} ''management''
    ''Explicit VTY idle timeout in canonical seconds.'' False,
  CanonicalField ''logging.remote.destination''
    {TV_IP_ADDRESS, TV_STRING} {''device''} ''logging''
    ''Explicit remote logging destination.'' True,
  CanonicalField ''logging.enabled''
    {TV_BOOLEAN} {''device''} ''logging''
    ''Whether logging is explicitly enabled by configuration evidence.'' False,
  CanonicalField ''logging.administrative_access.enabled''
    {TV_BOOLEAN} {''device''} ''logging''
    ''Whether supported evidence explicitly establishes administrative access logging.'' False,
  CanonicalField ''time.ntp.server''
    {TV_IP_ADDRESS, TV_STRING} {''device''} ''time''
    ''Explicit NTP server destination.'' True,
  CanonicalField ''time.ntp.configured''
    {TV_BOOLEAN} {''device''} ''time''
    ''Whether NTP server configuration is explicitly present; absence remains unknown.'' False,
  CanonicalField ''time.ntp.authentication.enabled''
    {TV_BOOLEAN} {''device''} ''time''
    ''Whether NTP authentication is explicitly enabled.'' False,
  CanonicalField ''time.ntp.authentication.key_id''
    {TV_INTEGER} {''device''} ''time''
    ''Explicit NTP authentication key identifier; secret material is never extracted.'' True,
  CanonicalField ''time.ntp.authentication.trusted_key_id''
    {TV_INTEGER} {''device''} ''time''
    ''Explicit NTP trusted-key identifier.'' True
]"

definition FIELD_REGISTRY :: "(string \<times> canonical_field) list" where
  "FIELD_REGISTRY = foldl (\<lambda>d f. dict_put (cf_field_id f) f d) [] FIELDS"

definition get_field :: "string \<Rightarrow> exc + canonical_field" where
  "get_field field_id = (case dict_get FIELD_REGISTRY field_id of
     None \<Rightarrow> Inl (Exc FieldRegistryValidationError ''Unknown canonical field'')
   | Some f \<Rightarrow> Inr f)"

fun typed_value_valid :: "typed_value_type \<Rightarrow> pyval \<Rightarrow> bool" where
  "typed_value_valid TV_BOOLEAN v = is_bool v"
| "typed_value_valid TV_INTEGER v = (is_int v \<and> \<not> is_bool v)"
| "typed_value_valid TV_NUMBER v = (is_number v \<and> \<not> is_bool v)"
| "typed_value_valid TV_STRING v = is_str v"
| "typed_value_valid TV_ENUM v = is_str v"
| "typed_value_valid TV_IP_ADDRESS v = is_str v"
| "typed_value_valid TV_IP_NETWORK v = is_str v"
| "typed_value_valid TV_DURATION v = (is_number v \<and> \<not> is_bool v)"
| "typed_value_valid TV_LIST v = is_list v"
| "typed_value_valid TV_OBJECT v = is_dict v"
| "typed_value_valid TV_NULL v = (v = PNone)"

definition validate_typed_value :: "typed_value \<Rightarrow> exc + unit" where
  "validate_typed_value v =
     require (typed_value_valid (tv_type v) (tv_val v))
       (Exc FieldRegistryValidationError ''TypedValue value is incompatible with its type'')"

definition validate_field_value_scope ::
  "string \<Rightarrow> typed_value \<Rightarrow> scope_ref \<Rightarrow> exc + canonical_field" where
  "validate_field_value_scope field_id value scope =
     and_then (get_field field_id) (\<lambda>field.
     and_then (require (tv_type value \<in> cf_expected_types field)
       (Exc FieldRegistryValidationError ''TypedValue type is incompatible with field'')) (\<lambda>_.
     and_then (require (sc_type scope \<in> cf_allowed_scope_types field)
       (Exc FieldRegistryValidationError ''Scope type is incompatible with field'')) (\<lambda>_.
     and_then (validate_typed_value value) (\<lambda>_.
     and_then (require (sc_key scope \<noteq> [])
       (Exc FieldRegistryValidationError ''ScopeRef is malformed'')) (\<lambda>_.
     Inr field)))))"

lemma FIELDS_distinct: "distinct (map cf_field_id FIELDS)"
  by (simp add: FIELDS_def)

lemma dict_of_list_distinct:
  "distinct (map f xs) \<Longrightarrow> foldl (\<lambda>d x. dict_put (f x) x d) [] xs = map (\<lambda>x. (f x, x)) xs"
proof (induction xs rule: rev_induct)
  case (snoc x xs)
  have "dict_put k v d = d @ [(k, v)]" if "k \<notin> fst ` set d" for k v and d :: "('a \<times> 'b) list"
    using that by (induction d) auto
  with snoc show ?case by (simp add: image_image)
qed simp

text \<open>No registered field is lost in the dictionary.\<close>

lemma FIELD_REGISTRY_eq: "FIELD_REGISTRY = map (\<lambda>f. (cf_field_id f, f)) FIELDS"
  unfolding FIELD_REGISTRY_def by (rule dict_of_list_distinct [OF FIELDS_distinct])

text \<open>The entry of each field.\<close>

lemma registered_entry:
  assumes "f \<in> set FIELDS" and "cf_field_id f = i"
  shows "dict_get FIELD_REGISTRY i = Some f"
  using assms FIELDS_distinct
  by (auto simp: FIELD_REGISTRY_eq dict_get_def o_def distinct_map intro!: map_of_is_SomeI dest: inj_onD)

lemmas listed_field = subsetD [OF equalityD2 [OF arg_cong [of _ _ set, OF FIELDS_def]]]

lemma field_entries:
  "dict_get FIELD_REGISTRY ''management.remote.telnet.enabled'' =
     Some (CanonicalField ''management.remote.telnet.enabled'' {TV_BOOLEAN} {''vty_range'', ''interface'', ''device''}
       ''management'' ''Whether Telnet is explicitly allowed by a VTY transport statement.'' False)"
  "dict_get FIELD_REGISTRY ''management.remote.ssh.enabled'' =
     Some (CanonicalField ''management.remote.ssh.enabled'' {TV_BOOLEAN} {''vty_range'', ''interface'', ''device''}
       ''management'' ''Whether SSH is explicitly allowed by a VTY transport statement.'' False)"
  "dict_get FIELD_REGISTRY ''management.remote.ssh.version'' =
     Some (CanonicalField ''management.remote.ssh.version'' {TV_INTEGER} {''device''}
       ''management'' ''Explicitly configured SSH protocol version.'' False)"
  "dict_get FIELD_REGISTRY ''management.remote.https.enabled'' =
     Some (CanonicalField ''management.remote.https.enabled'' {TV_BOOLEAN} {''interface''}
       ''management'' ''Whether HTTPS administrative access is explicitly allowed on an interface.'' False)"
  "dict_get FIELD_REGISTRY ''management.remote.http.enabled'' =
     Some (CanonicalField ''management.remote.http.enabled'' {TV_BOOLEAN} {''interface'', ''device''}
       ''management'' ''Whether clear-text HTTP administrative access is explicitly enabled.'' False)"
  "dict_get FIELD_REGISTRY ''management.remote.tls.minimum_version'' =
     Some (CanonicalField ''management.remote.tls.minimum_version'' {TV_ENUM} {''device''}
       ''management'' ''Explicit minimum TLS version accepted for administrative HTTPS access.'' False)"
  "dict_get FIELD_REGISTRY ''management.remote.source.restriction.configured'' =
     Some (CanonicalField ''management.remote.source.restriction.configured'' {TV_BOOLEAN} {''vty_range'', ''administrator'', ''management_service''}
       ''management'' ''Whether an explicit management-source restriction is configured in its native scope.'' False)"
  "dict_get FIELD_REGISTRY ''management.remote.ssh.strong_crypto.configured'' =
     Some (CanonicalField ''management.remote.ssh.strong_crypto.configured'' {TV_BOOLEAN} {''device''}
       ''management'' ''Whether supported evidence explicitly establishes strong SSH cryptographic settings.'' False)"
  "dict_get FIELD_REGISTRY ''management.remote.source.permitted_network'' =
     Some (CanonicalField ''management.remote.source.permitted_network'' {TV_IP_NETWORK} {''administrator''}
       ''management'' ''An explicitly configured administrative source network, retained in administrator scope.'' True)"
  "dict_get FIELD_REGISTRY ''management.session.idle_timeout'' =
     Some (CanonicalField ''management.session.idle_timeout'' {TV_DURATION} {''vty_range'', ''device''}
       ''management'' ''Explicit VTY idle timeout in canonical seconds.'' False)"
  "dict_get FIELD_REGISTRY ''logging.remote.destination'' =
     Some (CanonicalField ''logging.remote.destination'' {TV_IP_ADDRESS, TV_STRING} {''device''}
       ''logging'' ''Explicit remote logging destination.'' True)"
  "dict_get FIELD_REGISTRY ''logging.enabled'' =
     Some (CanonicalField ''logging.enabled'' {TV_BOOLEAN} {''device''}
       ''logging'' ''Whether logging is explicitly enabled by configuration evidence.'' False)"
  "dict_get FIELD_REGISTRY ''logging.administrative_access.enabled'' =
     Some (CanonicalField ''logging.administrative_access.enabled'' {TV_BOOLEAN} {''device''}
       ''logging'' ''Whether supported evidence explicitly establishes administrative access logging.'' False)"
  "dict_get FIELD_REGISTRY ''time.ntp.server'' =
     Some (CanonicalField ''time.ntp.server'' {TV_IP_ADDRESS, TV_STRING} {''device''}
       ''time'' ''Explicit NTP server destination.'' True)"
  "dict_get FIELD_REGISTRY ''time.ntp.configured'' =
     Some (CanonicalField ''time.ntp.configured'' {TV_BOOLEAN} {''device''}
       ''time'' ''Whether NTP server configuration is explicitly present; absence remains unknown.'' False)"
  "dict_get FIELD_REGISTRY ''time.ntp.authentication.enabled'' =
     Some (CanonicalField ''time.ntp.authentication.enabled'' {TV_BOOLEAN} {''device''}
       ''time'' ''Whether NTP authentication is explicitly enabled.'' False)"
  "dict_get FIELD_REGISTRY ''time.ntp.authentication.key_id'' =
     Some (CanonicalField ''time.ntp.authentication.key_id'' {TV_INTEGER} {''device''}
       ''time'' ''Explicit NTP authentication key identifier; secret material is never extracted.'' True)"
  "dict_get FIELD_REGISTRY ''time.ntp.authentication.trusted_key_id'' =
     Some (CanonicalField ''time.ntp.authentication.trusted_key_id'' {TV_INTEGER} {''device''}
       ''time'' ''Explicit NTP trusted-key identifier.'' True)"
  by (rule registered_entry, rule listed_field, (rule list.set_intros(1) | rule list.set_intros(2))+,
      rule canonical_field.sel(1))+

lemma get_field_id: "get_field field_id = Inr f \<Longrightarrow> cf_field_id f = field_id \<and> f \<in> set FIELDS"
  by (auto simp: get_field_def FIELD_REGISTRY_eq dest!: dict_get_in split: option.splits)

lemma get_field_registered: "f \<in> set FIELDS \<Longrightarrow> get_field (cf_field_id f) = Inr f"
  using FIELDS_distinct
  by (auto simp: get_field_def FIELD_REGISTRY_eq dict_get_def o_def distinct_map
      intro!: map_of_is_SomeI dest: inj_onD split: option.splits)

lemma get_field_class: "get_field i = Inl e \<Longrightarrow> exc_class e = FieldRegistryValidationError"
  by (auto simp: get_field_def split: option.splits)

lemma validate_field_value_scope_Inr:
  "validate_field_value_scope i v s = Inr f \<longleftrightarrow>
     get_field i = Inr f \<and> tv_type v \<in> cf_expected_types f \<and> sc_type s \<in> cf_allowed_scope_types f
     \<and> typed_value_valid (tv_type v) (tv_val v) \<and> sc_key s \<noteq> []"
  by (auto simp: validate_field_value_scope_def validate_typed_value_def)

text \<open>Every failure is a \<open>ValueError\<close>, so callers that catch it see no other exception.\<close>

lemma validate_field_value_scope_class:
  "validate_field_value_scope i v s = Inl e \<Longrightarrow> is_value_error (exc_class e)"
  by (auto simp: validate_field_value_scope_def validate_typed_value_def and_then_Inl
      dest: get_field_class)

declare FIELDS_def [run_simps] FIELD_REGISTRY_def [run_simps] get_field_def [run_simps]
  validate_typed_value_def [run_simps] validate_field_value_scope_def [run_simps]
  typed_value_to_dict_def [run_simps] scope_to_dict_def [run_simps] tv_of_value_def [run_simps]
  tv_members_def [run_simps] dict_get_def [run_simps] require_def [run_simps]

end
