(* ===== verification/Registry.thy ===== *)
theory Registry
  imports Py_Values
begin

text \<open>
  The contract that the registries of immutable versioned content share (knowledge packs, rule
  packs): an element has a version identifier and a logical name with a version, and adding an
  element whose identifier or name is already bound to different content is refused.  What
  follows for every registry built by a sequence of additions is proved once here.
\<close>

locale versioned_registry =
  fixes add :: "'p \<Rightarrow> 's \<Rightarrow> exc + 's"
    and by_id :: "'s \<Rightarrow> 'i \<Rightarrow> 'p option"
    and by_name :: "'s \<Rightarrow> 'n \<Rightarrow> 'p option"
    and id_of :: "'p \<Rightarrow> 'i"
    and name_of :: "'p \<Rightarrow> 'n"
  assumes add_by_id:
      "add p s = Inr s' \<Longrightarrow> by_id s' i = (if i = id_of p then Some p else by_id s i)"
    and add_by_name:
      "add p s = Inr s' \<Longrightarrow> by_name s' n = (if n = name_of p then Some p else by_name s n)"
    and add_id_free: "add p s = Inr s' \<Longrightarrow> by_id s (id_of p) = Some q \<Longrightarrow> q = p"
    and add_name_free: "add p s = Inr s' \<Longrightarrow> by_name s (name_of p) = Some q \<Longrightarrow> q = p"
begin

lemma add_keeps_id: "add p s = Inr s' \<Longrightarrow> by_id s i = Some q \<Longrightarrow> by_id s' i = Some q"
  using add_by_id add_id_free by fastforce

lemma add_keeps_name: "add p s = Inr s' \<Longrightarrow> by_name s n = Some q \<Longrightarrow> by_name s' n = Some q"
  using add_by_name add_name_free by fastforce

lemma adds_keep:
  "fold_res add ps s = Inr s' \<Longrightarrow>
     (by_id s i = Some q \<longrightarrow> by_id s' i = Some q) \<and> (by_name s n = Some q' \<longrightarrow> by_name s' n = Some q')"
proof (induction ps arbitrary: s)
  case (Cons p ps)
  then obtain t where t: "add p s = Inr t" and rest: "fold_res add ps t = Inr s'" by auto
  from Cons.IH [OF rest] add_keeps_id [OF t] add_keeps_name [OF t] show ?case by blast
qed simp

text \<open>Once bound, an identifier or a name never changes its content.\<close>

lemma adds_bind:
  "fold_res add ps s = Inr s' \<Longrightarrow> p \<in> set ps \<Longrightarrow>
     by_id s' (id_of p) = Some p \<and> by_name s' (name_of p) = Some p"
proof (induction ps arbitrary: s)
  case (Cons q ps)
  then obtain t where t: "add q s = Inr t" and rest: "fold_res add ps t = Inr s'" by auto
  show ?case
  proof (cases "p = q")
    case True
    have "by_id t (id_of p) = Some p" "by_name t (name_of p) = Some p"
      using add_by_id [OF t] add_by_name [OF t] True by simp_all
    with adds_keep [OF rest] show ?thesis by blast
  next
    case False
    with Cons.prems(2) show ?thesis by (intro Cons.IH [OF rest]) simp
  qed
qed simp

lemma adds_origin:
  "fold_res add ps s = Inr s' \<Longrightarrow> by_id s' i = Some q \<Longrightarrow>
     by_id s i = Some q \<or> (q \<in> set ps \<and> id_of q = i)"
proof (induction ps arbitrary: s)
  case (Cons p ps)
  then obtain t where t: "add p s = Inr t" and rest: "fold_res add ps t = Inr s'" by auto
  from Cons.IH [OF rest Cons.prems(2)] add_by_id [OF t, of i] show ?case
    by (auto split: if_splits)
qed simp

text \<open>Two elements of one registry with the same identifier or the same name are equal.\<close>

lemma adds_unique:
  assumes "fold_res add ps s = Inr s'" and "p \<in> set ps" and "q \<in> set ps"
    and "id_of p = id_of q \<or> name_of p = name_of q"
  shows "p = q"
  using adds_bind [OF assms(1,2)] adds_bind [OF assms(1,3)] assms(4) by (metis option.inject)

end

end
