(* ===== verification/Knowledge_Packs.thy ===== *)
theory Knowledge_Packs
  imports Security_Model Registry
begin

text \<open>
  Declarative knowledge packs (\<open>interpretation/knowledge_pack.py\<close>): node matchers, mappings,
  packs, the immutable registry with its active pack per profile, and the validation of a pack
  against the field registry.
\<close>

section \<open>Packs\<close>

datatype negation_behavior = NB_UNSUPPORTED | NB_RESET_TO_DEFAULT | NB_REMOVE_VALUE | NB_INVERT_BOOLEAN

datatype node_matcher = NodeMatcher
  (nm_command: string)
  (nm_arguments_prefix: "string list")
  (nm_parent_command: "string option")
  (nm_parent_arguments_prefix: "string list")
  (nm_ancestor_command: "string option")
  (nm_ancestor_arguments_prefix: "string list")

record declarative_mapping =
  dm_mapping_id :: uuid
  dm_mapping_version_id :: uuid
  dm_field_id :: string
  dm_matcher :: node_matcher
  dm_extractor :: string
  dm_scope_resolver :: string
  dm_declared_value_types :: "typed_value_type set"
  dm_negation_behavior :: negation_behavior
  dm_reset_mapping_version_id :: "uuid option"
  dm_removal_mapping_version_id :: "uuid option"
  dm_training_definition :: "(string \<times> pyval) list option"

record knowledge_pack =
  kp_knowledge_pack_id :: uuid
  kp_knowledge_pack_version_id :: uuid
  kp_name :: string
  kp_version :: string
  kp_schema_version :: string
  kp_profile_id :: string
  kp_profile_version_id :: string
  kp_mappings :: "declarative_mapping list"

section \<open>The registry\<close>

text \<open>
  The two dictionaries that the constructor fills.  Packs are compared with \<open>=\<close>: the training
  definitions inside the registered packs are built by one function each, so equal dictionaries
  have equal item lists.
\<close>

record pack_index =
  pi_by_version :: "(uuid \<times> knowledge_pack) list"
  pi_logical_versions :: "((string \<times> string) \<times> knowledge_pack) list"

definition pack_error :: "string \<Rightarrow> exc" where
  "pack_error m = Exc KnowledgePackValidationError m"

definition pack_name :: "knowledge_pack \<Rightarrow> string \<times> string" where
  "pack_name p = (kp_name p, kp_version p)"

definition register_pack :: "knowledge_pack \<Rightarrow> pack_index \<Rightarrow> exc + pack_index" where
  "register_pack pack idx =
     (if kp_knowledge_pack_id pack = 0 \<or> kp_knowledge_pack_version_id pack = 0
         \<or> py_blank (kp_name pack) \<or> py_blank (kp_version pack)
      then Inl (pack_error ''Knowledge pack requires stable identity'')
      else
        (let existing = dict_get (pi_by_version idx) (kp_knowledge_pack_version_id pack);
             logical = dict_get (pi_logical_versions idx) (pack_name pack)
         in if (existing \<noteq> None \<and> existing \<noteq> Some pack) \<or> (logical \<noteq> None \<and> logical \<noteq> Some pack)
            then Inl (pack_error ''Knowledge pack version content conflicts'')
            else Inr \<lparr>pi_by_version = dict_put (kp_knowledge_pack_version_id pack) pack (pi_by_version idx),
                   pi_logical_versions = dict_put (pack_name pack) pack (pi_logical_versions idx)\<rparr>))"

record pack_registry =
  pr_by_version :: "(uuid \<times> knowledge_pack) list"
  pr_active_by_profile :: "(string \<times> knowledge_pack) list"

definition bind_active ::
  "(uuid \<times> knowledge_pack) list \<Rightarrow> string \<times> uuid \<Rightarrow> (string \<times> knowledge_pack) list
    \<Rightarrow> exc + (string \<times> knowledge_pack) list" where
  "bind_active by_version binding active =
     (case dict_get by_version (snd binding) of
        None \<Rightarrow> Inl (pack_error ''Active knowledge pack binding is invalid'')
      | Some pack \<Rightarrow>
          if kp_profile_version_id pack \<noteq> fst binding
          then Inl (pack_error ''Active knowledge pack binding is invalid'')
          else Inr (dict_put (fst binding) pack active))"

definition make_pack_registry ::
  "knowledge_pack list \<Rightarrow> (string \<times> uuid) list \<Rightarrow> exc + pack_registry" where
  "make_pack_registry packs active_by_profile =
     and_then (fold_res register_pack packs \<lparr>pi_by_version = [], pi_logical_versions = []\<rparr>) (\<lambda>idx.
     and_then (fold_res (bind_active (pi_by_version idx)) active_by_profile []) (\<lambda>active.
     Inr \<lparr>pr_by_version = pi_by_version idx, pr_active_by_profile = active\<rparr>))"

definition registry_get :: "pack_registry \<Rightarrow> uuid \<Rightarrow> knowledge_pack option" where
  "registry_get r version_id = dict_get (pr_by_version r) version_id"

definition active_for_profile :: "pack_registry \<Rightarrow> string \<Rightarrow> knowledge_pack option" where
  "active_for_profile r profile_version_id = dict_get (pr_active_by_profile r) profile_version_id"

section \<open>Validation\<close>

text \<open>\<open>COMMAND_PATTERN\<close> and \<open>MAPPING_TOKEN_PATTERN\<close>.\<close>

definition command_pattern :: "string \<Rightarrow> bool" where
  "command_pattern s =
     (s \<noteq> [] \<and> length s \<le> 100 \<and> (is_lower (hd s) \<or> is_digit (hd s))
      \<and> list_all (\<lambda>c. is_lower c \<or> is_digit c \<or> c = CHR ''-'') (tl s))"

definition mapping_token_pattern :: "string \<Rightarrow> bool" where
  "mapping_token_pattern s = (s \<noteq> [] \<and> length s \<le> 255 \<and> list_all (\<lambda>c. \<not> py_space c) s)"

definition validate_matcher :: "node_matcher \<Rightarrow> exc + unit" where
  "validate_matcher m =
     and_then (require (command_pattern (nm_command m))
       (pack_error ''Mapping command matcher is malformed'')) (\<lambda>_.
     and_then (require (case nm_parent_command m of None \<Rightarrow> True | Some c \<Rightarrow> command_pattern c)
       (pack_error ''Mapping parent matcher is malformed'')) (\<lambda>_.
     and_then (require (nm_parent_command m \<noteq> None \<or> nm_parent_arguments_prefix m = [])
       (pack_error ''Mapping parent matcher is malformed'')) (\<lambda>_.
     and_then (require (case nm_ancestor_command m of None \<Rightarrow> True | Some c \<Rightarrow> command_pattern c)
       (pack_error ''Mapping ancestor matcher is malformed'')) (\<lambda>_.
     and_then (require (nm_ancestor_command m \<noteq> None \<or> nm_ancestor_arguments_prefix m = [])
       (pack_error ''Mapping ancestor matcher is malformed'')) (\<lambda>_.
     require (list_all mapping_token_pattern
         (nm_arguments_prefix m @ nm_parent_arguments_prefix m @ nm_ancestor_arguments_prefix m))
       (pack_error ''Mapping token matcher is malformed''))))))"

definition validate_mapping ::
  "string set \<Rightarrow> (string \<times> string) list \<Rightarrow> declarative_mapping \<Rightarrow> uuid list \<times> uuid list
    \<Rightarrow> exc + uuid list \<times> uuid list" where
  "validate_mapping allowed_extractors scope_resolver_types m seen =
     and_then (require (dm_mapping_id m \<noteq> 0 \<and> dm_mapping_version_id m \<noteq> 0)
       (pack_error ''Mapping requires stable identity'')) (\<lambda>_.
     and_then (require (dm_mapping_id m \<notin> set (fst seen))
       (pack_error ''Duplicate mapping ID'')) (\<lambda>_.
     and_then (require (dm_mapping_version_id m \<notin> set (snd seen))
       (pack_error ''Duplicate mapping-version ID'')) (\<lambda>_.
     (case dict_get FIELD_REGISTRY (dm_field_id m) of
        None \<Rightarrow> Inl (pack_error ''Mapping references unknown canonical field'')
      | Some field \<Rightarrow>
     and_then (require (dm_extractor m \<in> allowed_extractors \<or> dm_extractor m = ''training_dsl'')
       (pack_error ''Mapping references unknown extractor'')) (\<lambda>_.
     (case dict_get scope_resolver_types (dm_scope_resolver m) of
        None \<Rightarrow> Inl (pack_error ''Mapping references unknown scope resolver'')
      | Some scope_type \<Rightarrow>
     and_then (require (dm_declared_value_types m \<noteq> {}
         \<and> dm_declared_value_types m \<subseteq> cf_expected_types field)
       (pack_error ''Mapping value type is incompatible with field'')) (\<lambda>_.
     and_then (require (scope_type \<in> cf_allowed_scope_types field)
       (pack_error ''Mapping scope is incompatible with field'')) (\<lambda>_.
     and_then (validate_matcher (dm_matcher m)) (\<lambda>_.
     Inr (dm_mapping_id m # fst seen, dm_mapping_version_id m # snd seen))))))))))"

definition validate_knowledge_pack ::
  "string \<Rightarrow> string \<Rightarrow> string set \<Rightarrow> (string \<times> string) list \<Rightarrow> knowledge_pack
    \<Rightarrow> exc + knowledge_pack" where
  "validate_knowledge_pack expected_profile_id expected_profile_version_id allowed_extractors
       scope_resolver_types pack =
     and_then (require (kp_schema_version pack = ''1.0.0'')
       (pack_error ''Unsupported knowledge-pack schema version'')) (\<lambda>_.
     and_then (require (kp_profile_id pack = expected_profile_id
         \<and> kp_profile_version_id pack = expected_profile_version_id)
       (pack_error ''Knowledge pack is incompatible with profile'')) (\<lambda>_.
     and_then (require (kp_knowledge_pack_id pack \<noteq> 0 \<and> kp_knowledge_pack_version_id pack \<noteq> 0
         \<and> kp_name pack \<noteq> [] \<and> kp_version pack \<noteq> [])
       (pack_error ''Knowledge pack requires stable identity'')) (\<lambda>_.
     and_then (fold_res (validate_mapping allowed_extractors scope_resolver_types)
         (kp_mappings pack) ([], [])) (\<lambda>_.
     Inr pack))))"

section \<open>The registry meets the contract of versioned registries\<close>

definition index_by_version :: "pack_index \<Rightarrow> uuid \<Rightarrow> knowledge_pack option" where
  "index_by_version idx i = dict_get (pi_by_version idx) i"

definition index_by_name :: "pack_index \<Rightarrow> string \<times> string \<Rightarrow> knowledge_pack option" where
  "index_by_name idx n = dict_get (pi_logical_versions idx) n"

lemma register_pack_Inr:
  "register_pack p idx = Inr idx' \<longleftrightarrow>
     kp_knowledge_pack_id p \<noteq> 0 \<and> kp_knowledge_pack_version_id p \<noteq> 0
     \<and> \<not> py_blank (kp_name p) \<and> \<not> py_blank (kp_version p)
     \<and> index_by_version idx (kp_knowledge_pack_version_id p) \<in> {None, Some p}
     \<and> index_by_name idx (pack_name p) \<in> {None, Some p}
     \<and> idx' = \<lparr>pi_by_version = dict_put (kp_knowledge_pack_version_id p) p (pi_by_version idx),
          pi_logical_versions = dict_put (pack_name p) p (pi_logical_versions idx)\<rparr>"
  by (auto simp: register_pack_def index_by_version_def index_by_name_def Let_def)

interpretation packs: versioned_registry register_pack index_by_version index_by_name
  kp_knowledge_pack_version_id pack_name
  by unfold_locales
    (auto simp: register_pack_Inr index_by_version_def index_by_name_def dict_simps)

lemma bind_active_Inr:
  "bind_active bv b active = Inr active' \<longleftrightarrow>
     (\<exists>pack. dict_get bv (snd b) = Some pack \<and> kp_profile_version_id pack = fst b
        \<and> active' = dict_put (fst b) pack active)"
  by (auto simp: bind_active_def split: option.splits)

lemma bind_active_keeps:
  assumes "fold_res (bind_active bv) bs active = Inr active'"
    and "\<And>k p. dict_get active k = Some p \<Longrightarrow> kp_profile_version_id p = k \<and> (\<exists>i. dict_get bv i = Some p)"
    and "dict_get active' k = Some p"
  shows "kp_profile_version_id p = k \<and> (\<exists>i. dict_get bv i = Some p)"
  using assms
proof (induction bs arbitrary: active)
  case (Cons b bs)
  then obtain t where t: "bind_active bv b active = Inr t"
    and rest: "fold_res (bind_active bv) bs t = Inr active'" by auto
  show ?case
  proof (rule Cons.IH [OF rest _ Cons.prems(3)])
    fix k' p'
    assume "dict_get t k' = Some p'"
    with t Cons.prems(2) show "kp_profile_version_id p' = k' \<and> (\<exists>i. dict_get bv i = Some p')"
      by (auto simp: bind_active_Inr dict_simps split: if_splits)
  qed
qed simp

text \<open>
  What a registry promises: every pack given to the constructor is found under its own version,
  nothing else is found, versions and logical versions have one content, and the active pack of
  a profile is a registered pack of that profile.
\<close>

definition registry_ok :: "knowledge_pack list \<Rightarrow> pack_registry \<Rightarrow> bool" where
  "registry_ok ps r \<longleftrightarrow>
     (\<forall>p \<in> set ps. registry_get r (kp_knowledge_pack_version_id p) = Some p)
     \<and> (\<forall>i p. registry_get r i = Some p \<longrightarrow> p \<in> set ps \<and> kp_knowledge_pack_version_id p = i)
     \<and> (\<forall>p \<in> set ps. \<forall>q \<in> set ps. pack_name p = pack_name q \<longrightarrow> p = q)
     \<and> (\<forall>k p. active_for_profile r k = Some p \<longrightarrow> p \<in> set ps \<and> kp_profile_version_id p = k)"

lemma make_pack_registry_ok:
  assumes "make_pack_registry ps act = Inr r"
  shows "registry_ok ps r"
proof -
  let ?empty = "\<lparr>pi_by_version = [], pi_logical_versions = []\<rparr> :: pack_index"
  from assms obtain idx active where
    idx: "fold_res register_pack ps ?empty = Inr idx"
    and act: "fold_res (bind_active (pi_by_version idx)) act [] = Inr active"
    and r: "r = \<lparr>pr_by_version = pi_by_version idx, pr_active_by_profile = active\<rparr>"
    by (auto simp: make_pack_registry_def)
  have get: "registry_get r i = index_by_version idx i" for i
    by (simp add: registry_get_def index_by_version_def r)
  have origin: "p \<in> set ps \<and> kp_knowledge_pack_version_id p = i" if "registry_get r i = Some p" for i p
    using packs.adds_origin [OF idx, of i p] that
    by (auto simp: get index_by_version_def dict_simps)
  have "kp_profile_version_id p = k \<and> (\<exists>i. registry_get r i = Some p)"
    if "active_for_profile r k = Some p" for k p
    using bind_active_keeps [OF act, of k p] that
    by (simp add: active_for_profile_def r registry_get_def dict_simps)
  moreover have "registry_get r (kp_knowledge_pack_version_id p) = Some p" if "p \<in> set ps" for p
    using packs.adds_bind [OF idx that] by (simp add: get)
  moreover have "p = q" if "p \<in> set ps" "q \<in> set ps" "pack_name p = pack_name q" for p q
    using packs.adds_unique [OF idx that(1,2)] that(3) by blast
  ultimately show ?thesis
    using origin unfolding registry_ok_def by blast
qed

section \<open>What a validated pack satisfies\<close>

definition mapping_ok :: "string set \<Rightarrow> (string \<times> string) list \<Rightarrow> declarative_mapping \<Rightarrow> bool" where
  "mapping_ok allowed types m \<longleftrightarrow>
     (\<exists>field scope_type. get_field (dm_field_id m) = Inr field
        \<and> dict_get types (dm_scope_resolver m) = Some scope_type
        \<and> scope_type \<in> cf_allowed_scope_types field
        \<and> dm_declared_value_types m \<noteq> {} \<and> dm_declared_value_types m \<subseteq> cf_expected_types field
        \<and> (dm_extractor m \<in> allowed \<or> dm_extractor m = ''training_dsl''))"

lemma validate_mapping_Inr:
  assumes "validate_mapping allowed types m seen = Inr seen'"
  shows "mapping_ok allowed types m \<and> dm_mapping_id m \<notin> set (fst seen)
    \<and> dm_mapping_version_id m \<notin> set (snd seen)
    \<and> seen' = (dm_mapping_id m # fst seen, dm_mapping_version_id m # snd seen)"
  using assms
  by (auto simp: validate_mapping_def mapping_ok_def get_field_def split: option.splits)

lemma validate_mappings_Inr:
  "fold_res (validate_mapping allowed types) ms seen = Inr seen' \<Longrightarrow>
     list_all (mapping_ok allowed types) ms
     \<and> distinct (map dm_mapping_id ms) \<and> set (map dm_mapping_id ms) \<inter> set (fst seen) = {}
     \<and> distinct (map dm_mapping_version_id ms)
     \<and> set (map dm_mapping_version_id ms) \<inter> set (snd seen) = {}"
proof (induction ms arbitrary: seen)
  case (Cons m ms)
  then obtain t where t: "validate_mapping allowed types m seen = Inr t"
    and rest: "fold_res (validate_mapping allowed types) ms t = Inr seen'" by auto
  from validate_mapping_Inr [OF t] Cons.IH [OF rest] show ?case by auto
qed simp

lemma validate_knowledge_pack_Inr:
  assumes "validate_knowledge_pack pid pvid allowed types pack = Inr pack'"
  shows "pack' = pack \<and> kp_profile_id pack = pid \<and> kp_profile_version_id pack = pvid
    \<and> list_all (mapping_ok allowed types) (kp_mappings pack)
    \<and> distinct (map dm_mapping_id (kp_mappings pack))
    \<and> distinct (map dm_mapping_version_id (kp_mappings pack))"
  using assms validate_mappings_Inr by (force simp: validate_knowledge_pack_def)

declare pack_error_def [run_simps] pack_name_def [run_simps] register_pack_def [run_simps]
  bind_active_def [run_simps] make_pack_registry_def [run_simps] registry_get_def [run_simps]
  active_for_profile_def [run_simps] command_pattern_def [run_simps]
  mapping_token_pattern_def [run_simps] validate_matcher_def [run_simps]
  validate_mapping_def [run_simps] validate_knowledge_pack_def [run_simps]

end
