(* ===== verification/Pack_Data.thy ===== *)
theory Pack_Data
  imports Knowledge_Packs
begin

text \<open>
  The sealed built-in packs of \<open>knowledge_packs/\<close>, one definition per tuple of mappings and
  per pack, in the order of the source.
\<close>

abbreviation DeclarativeMapping ::
  "uuid \<Rightarrow> uuid \<Rightarrow> string \<Rightarrow> node_matcher \<Rightarrow> string \<Rightarrow> string \<Rightarrow> typed_value_type set
    \<Rightarrow> negation_behavior \<Rightarrow> uuid option \<Rightarrow> uuid option \<Rightarrow> (string \<times> pyval) list option
    \<Rightarrow> declarative_mapping" where
  "DeclarativeMapping i v f m e s t n r d td \<equiv>
     \<lparr>dm_mapping_id = i, dm_mapping_version_id = v, dm_field_id = f, dm_matcher = m,
      dm_extractor = e, dm_scope_resolver = s, dm_declared_value_types = t,
      dm_negation_behavior = n, dm_reset_mapping_version_id = r,
      dm_removal_mapping_version_id = d, dm_training_definition = td\<rparr>"

section \<open>Cisco IOS XE 17\<close>

definition CISCO_LEGACY_MAPPINGS :: "declarative_mapping list" where
  "CISCO_LEGACY_MAPPINGS = [
  DeclarativeMapping 0xc2a81d5b95915ecdbeee46beb57acced 0x4e5634f2c0f2529e912fe42139aed61e
    ''management.remote.telnet.enabled''
    (NodeMatcher ''transport'' [''input''] (Some ''line'') [''vty''] None [])
    ''transport_telnet'' ''vty_range'' {TV_BOOLEAN}
    NB_UNSUPPORTED None None None,
  DeclarativeMapping 0xbc2cc36840eb53ed896e5efd779359d3 0x82f62960c06e5ee1a1ceccd574ead730
    ''management.remote.ssh.enabled''
    (NodeMatcher ''transport'' [''input''] (Some ''line'') [''vty''] None [])
    ''transport_ssh'' ''vty_range'' {TV_BOOLEAN}
    NB_UNSUPPORTED None None None,
  DeclarativeMapping 0x79a68ade607d514898cf5e9f5e92943a 0xa153b5c4786d59409fc72906ea7d42c7
    ''management.session.idle_timeout''
    (NodeMatcher ''exec-timeout'' [] (Some ''line'') [''vty''] None [])
    ''duration_minutes_seconds'' ''vty_range'' {TV_DURATION}
    NB_UNSUPPORTED None None None,
  DeclarativeMapping 0x98f4ebb2a48e51f08611430e6987e212 0x4b13928b98eb5dc2a739d978d5c8bd95
    ''management.remote.ssh.version''
    (NodeMatcher ''ip'' [''ssh'', ''version''] None [] None [])
    ''ssh_version'' ''device'' {TV_INTEGER}
    NB_UNSUPPORTED None None None,
  DeclarativeMapping 0x3363d69ac3e853a8844a9146e7eee8e3 0xf112df12f8605fadb0137b89701d2fcf
    ''logging.remote.destination''
    (NodeMatcher ''logging'' [''host''] None [] None [])
    ''logging_destination'' ''device'' {TV_IP_ADDRESS, TV_STRING}
    NB_UNSUPPORTED None None None,
  DeclarativeMapping 0x3f7d8702ed3f5c11ab8634d057d95678 0x31eadc31751e5451bdd72532a26c9710
    ''time.ntp.server''
    (NodeMatcher ''ntp'' [''server''] None [] None [])
    ''ntp_server'' ''device'' {TV_IP_ADDRESS, TV_STRING}
    NB_UNSUPPORTED None None None]"

definition CISCO_IOS_XE_17_KNOWLEDGE_PACK_V1 :: knowledge_pack where
  "CISCO_IOS_XE_17_KNOWLEDGE_PACK_V1 =
     \<lparr>kp_knowledge_pack_id = 0x33ededa80c1755e0b104302fc55de5b8,
      kp_knowledge_pack_version_id = 0x17e3e91317df53bfb8c15cae4bfa133e,
      kp_name = ''cisco_iosxe_17'', kp_version = ''1.0.0'', kp_schema_version = ''1.0.0'',
      kp_profile_id = ''cisco.ios_xe.17'', kp_profile_version_id = ''cisco.ios_xe.17@1.0.0'', kp_mappings = CISCO_LEGACY_MAPPINGS\<rparr>"

definition CISCO_B4_MAPPINGS :: "declarative_mapping list" where
  "CISCO_B4_MAPPINGS = [
  DeclarativeMapping 0xc2a81d5b95915ecdbeee46beb57acced 0x4e5634f2c0f2529e912fe42139aed61e
    ''management.remote.telnet.enabled''
    (NodeMatcher ''transport'' [''input''] (Some ''line'') [''vty''] None [])
    ''transport_telnet'' ''vty_range'' {TV_BOOLEAN}
    NB_RESET_TO_DEFAULT (Some 0xe42c0eb21d5d584ab4638ee80574a35c) None None,
  DeclarativeMapping 0xbc2cc36840eb53ed896e5efd779359d3 0x82f62960c06e5ee1a1ceccd574ead730
    ''management.remote.ssh.enabled''
    (NodeMatcher ''transport'' [''input''] (Some ''line'') [''vty''] None [])
    ''transport_ssh'' ''vty_range'' {TV_BOOLEAN}
    NB_RESET_TO_DEFAULT (Some 0x65f4fbb9f9e85273a1828a99f95d72a1) None None,
  DeclarativeMapping 0x79a68ade607d514898cf5e9f5e92943a 0xa153b5c4786d59409fc72906ea7d42c7
    ''management.session.idle_timeout''
    (NodeMatcher ''exec-timeout'' [] (Some ''line'') [''vty''] None [])
    ''duration_minutes_seconds'' ''vty_range'' {TV_DURATION}
    NB_RESET_TO_DEFAULT (Some 0xfa460558d8fc58a8af78caaa6272e861) None None,
  DeclarativeMapping 0x98f4ebb2a48e51f08611430e6987e212 0x4b13928b98eb5dc2a739d978d5c8bd95
    ''management.remote.ssh.version''
    (NodeMatcher ''ip'' [''ssh'', ''version''] None [] None [])
    ''ssh_version'' ''device'' {TV_INTEGER}
    NB_RESET_TO_DEFAULT (Some 0x8fd9e9416ece5f2a9d31f1592dfd34bd) None None,
  DeclarativeMapping 0x3363d69ac3e853a8844a9146e7eee8e3 0xf112df12f8605fadb0137b89701d2fcf
    ''logging.remote.destination''
    (NodeMatcher ''logging'' [''host''] None [] None [])
    ''logging_destination'' ''device'' {TV_IP_ADDRESS, TV_STRING}
    NB_REMOVE_VALUE None (Some 0x3fe025cce9bb5860a4249273a7391c3a) None,
  DeclarativeMapping 0x3f7d8702ed3f5c11ab8634d057d95678 0x31eadc31751e5451bdd72532a26c9710
    ''time.ntp.server''
    (NodeMatcher ''ntp'' [''server''] None [] None [])
    ''ntp_server'' ''device'' {TV_IP_ADDRESS, TV_STRING}
    NB_REMOVE_VALUE None (Some 0xcc7f73d2e27e5a57896cb4d322fc2c14) None]"

definition CISCO_MAPPINGS :: "declarative_mapping list" where
  "CISCO_MAPPINGS = CISCO_B4_MAPPINGS @ [
  DeclarativeMapping 0x876787ca1d7f5a4c9f1a01f934b4b501 0x4c84d96e99b053c9b7f38e3f9e5bf501
    ''management.remote.source.restriction.configured''
    (NodeMatcher ''access-class'' [] (Some ''line'') [''vty''] None [])
    ''cisco_access_class'' ''vty_range'' {TV_BOOLEAN}
    NB_UNSUPPORTED None None None,
  DeclarativeMapping 0x876787ca1d7f5a4c9f1a01f934b4b502 0x4c84d96e99b053c9b7f38e3f9e5bf502
    ''logging.enabled''
    (NodeMatcher ''logging'' [''on''] None [] None [])
    ''presence_enabled'' ''device'' {TV_BOOLEAN}
    NB_UNSUPPORTED None None None,
  DeclarativeMapping 0x876787ca1d7f5a4c9f1a01f934b4b503 0x4c84d96e99b053c9b7f38e3f9e5bf503
    ''time.ntp.authentication.enabled''
    (NodeMatcher ''ntp'' [''authenticate''] None [] None [])
    ''presence_enabled'' ''device'' {TV_BOOLEAN}
    NB_UNSUPPORTED None None None,
  DeclarativeMapping 0x876787ca1d7f5a4c9f1a01f934b4b504 0x4c84d96e99b053c9b7f38e3f9e5bf504
    ''time.ntp.authentication.key_id''
    (NodeMatcher ''ntp'' [''authentication-key''] None [] None [])
    ''ntp_key_id'' ''device'' {TV_INTEGER}
    NB_REMOVE_VALUE None (Some 0x9d5412820e9a5180a80b3c2041c7b504) None,
  DeclarativeMapping 0x876787ca1d7f5a4c9f1a01f934b4b505 0x4c84d96e99b053c9b7f38e3f9e5bf505
    ''time.ntp.authentication.trusted_key_id''
    (NodeMatcher ''ntp'' [''trusted-key''] None [] None [])
    ''ntp_key_id'' ''device'' {TV_INTEGER}
    NB_REMOVE_VALUE None (Some 0x9d5412820e9a5180a80b3c2041c7b505) None,
  DeclarativeMapping 0x876787ca1d7f5a4c9f1a01f934b4b506 0x4c84d96e99b053c9b7f38e3f9e5bf506
    ''time.ntp.configured''
    (NodeMatcher ''ntp'' [''server''] None [] None [])
    ''ntp_configured'' ''device'' {TV_BOOLEAN}
    NB_UNSUPPORTED None None None]"

definition CISCO_PHASE8_MAPPINGS :: "declarative_mapping list" where
  "CISCO_PHASE8_MAPPINGS = CISCO_MAPPINGS @ [
  DeclarativeMapping 0x876787ca1d7f5a4c9f1a01f934b4b507 0x4c84d96e99b053c9b7f38e3f9e5bf507
    ''management.remote.http.enabled''
    (NodeMatcher ''ip'' [''http'', ''server''] None [] None [])
    ''presence_enabled'' ''device'' {TV_BOOLEAN}
    NB_INVERT_BOOLEAN None None None]"

definition CISCO_IOS_XE_17_KNOWLEDGE_PACK_V1_1 :: knowledge_pack where
  "CISCO_IOS_XE_17_KNOWLEDGE_PACK_V1_1 =
     \<lparr>kp_knowledge_pack_id = 0x33ededa80c1755e0b104302fc55de5b8,
      kp_knowledge_pack_version_id = 0xdbad6d6197d65e42a1aafeb4e28e15b0,
      kp_name = ''cisco_iosxe_17'', kp_version = ''1.1.0'', kp_schema_version = ''1.0.0'',
      kp_profile_id = ''cisco.ios_xe.17'', kp_profile_version_id = ''cisco.ios_xe.17@1.0.0'', kp_mappings = CISCO_B4_MAPPINGS\<rparr>"

definition CISCO_IOS_XE_17_KNOWLEDGE_PACK_V1_2 :: knowledge_pack where
  "CISCO_IOS_XE_17_KNOWLEDGE_PACK_V1_2 =
     \<lparr>kp_knowledge_pack_id = 0x33ededa80c1755e0b104302fc55de5b8,
      kp_knowledge_pack_version_id = 0xcac421499da95d1394d712d2c9ae5b05,
      kp_name = ''cisco_iosxe_17'', kp_version = ''1.2.0'', kp_schema_version = ''1.0.0'',
      kp_profile_id = ''cisco.ios_xe.17'', kp_profile_version_id = ''cisco.ios_xe.17@1.0.0'', kp_mappings = CISCO_MAPPINGS\<rparr>"

definition CISCO_IOS_XE_17_KNOWLEDGE_PACK :: knowledge_pack where
  "CISCO_IOS_XE_17_KNOWLEDGE_PACK =
     \<lparr>kp_knowledge_pack_id = 0x33ededa80c1755e0b104302fc55de5b8,
      kp_knowledge_pack_version_id = 0xf5bb890cc8c3562890473e0b95871a13,
      kp_name = ''cisco_iosxe_17'', kp_version = ''1.3.0'', kp_schema_version = ''1.0.0'',
      kp_profile_id = ''cisco.ios_xe.17'', kp_profile_version_id = ''cisco.ios_xe.17@1.0.0'', kp_mappings = CISCO_PHASE8_MAPPINGS\<rparr>"

section \<open>FortiOS 7\<close>

definition FORTIOS_LEGACY_MAPPINGS :: "declarative_mapping list" where
  "FORTIOS_LEGACY_MAPPINGS = [
  DeclarativeMapping 0xa1b2c3d431015aaa8aaa000000000013 0xa1b2c3d441015aaa8aaa000000000013
    ''management.remote.telnet.enabled''
    (NodeMatcher ''set'' [''admin-telnet-port''] (Some ''config'') [''system'', ''global''] None [])
    ''fortios_port_enabled'' ''device'' {TV_BOOLEAN}
    NB_UNSUPPORTED None None None,
  DeclarativeMapping 0xa1b2c3d432015aaa8aaa000000000013 0xa1b2c3d442015aaa8aaa000000000013
    ''management.remote.telnet.enabled''
    (NodeMatcher ''unset'' [''admin-telnet-port''] (Some ''config'') [''system'', ''global''] None [])
    ''fortios_port_enabled'' ''device'' {TV_BOOLEAN}
    NB_RESET_TO_DEFAULT None None None,
  DeclarativeMapping 0xa1b2c3d431025aaa8aaa000000000013 0xa1b2c3d441025aaa8aaa000000000013
    ''management.remote.ssh.enabled''
    (NodeMatcher ''set'' [''admin-ssh-port''] (Some ''config'') [''system'', ''global''] None [])
    ''fortios_port_enabled'' ''device'' {TV_BOOLEAN}
    NB_UNSUPPORTED None None None,
  DeclarativeMapping 0xa1b2c3d432025aaa8aaa000000000013 0xa1b2c3d442025aaa8aaa000000000013
    ''management.remote.ssh.enabled''
    (NodeMatcher ''unset'' [''admin-ssh-port''] (Some ''config'') [''system'', ''global''] None [])
    ''fortios_port_enabled'' ''device'' {TV_BOOLEAN}
    NB_RESET_TO_DEFAULT None None None,
  DeclarativeMapping 0xa1b2c3d431035aaa8aaa000000000013 0xa1b2c3d441035aaa8aaa000000000013
    ''management.session.idle_timeout''
    (NodeMatcher ''set'' [''admintimeout''] (Some ''config'') [''system'', ''global''] None [])
    ''fortios_timeout'' ''device'' {TV_DURATION}
    NB_UNSUPPORTED None None None,
  DeclarativeMapping 0xa1b2c3d432035aaa8aaa000000000013 0xa1b2c3d442035aaa8aaa000000000013
    ''management.session.idle_timeout''
    (NodeMatcher ''unset'' [''admintimeout''] (Some ''config'') [''system'', ''global''] None [])
    ''fortios_timeout'' ''device'' {TV_DURATION}
    NB_RESET_TO_DEFAULT None None None,
  DeclarativeMapping 0xa1b2c3d431045aaa8aaa000000000013 0xa1b2c3d441045aaa8aaa000000000013
    ''logging.remote.destination''
    (NodeMatcher ''set'' [''server''] (Some ''config'') [''log'', ''syslogd'', ''setting''] None [])
    ''fortios_server'' ''device'' {TV_IP_ADDRESS, TV_STRING}
    NB_UNSUPPORTED None None None,
  DeclarativeMapping 0xa1b2c3d431055aaa8aaa000000000013 0xa1b2c3d441055aaa8aaa000000000013
    ''time.ntp.server''
    (NodeMatcher ''set'' [''server''] (Some ''edit'') [] (Some ''config'') [''ntpserver''])
    ''ntp_server'' ''device'' {TV_IP_ADDRESS, TV_STRING}
    NB_UNSUPPORTED None None None]"

definition FORTIOS_7_KNOWLEDGE_PACK_V1 :: knowledge_pack where
  "FORTIOS_7_KNOWLEDGE_PACK_V1 =
     \<lparr>kp_knowledge_pack_id = 0xa1b2c3d411115aaa8aaa000000000013,
      kp_knowledge_pack_version_id = 0xa1b2c3d422225aaa8aaa000000000013,
      kp_name = ''fortios_7'', kp_version = ''1.0.0'', kp_schema_version = ''1.0.0'',
      kp_profile_id = ''fortinet.fortios.7'', kp_profile_version_id = ''fortinet.fortios.7@1.0.0'', kp_mappings = FORTIOS_LEGACY_MAPPINGS\<rparr>"

text \<open>The helper \<open>_mapping\<close>; its identifiers are literals that \<open>UUID\<close> parses.\<close>

definition fortios_mapping ::
  "uuid \<Rightarrow> uuid \<Rightarrow> string \<Rightarrow> node_matcher \<Rightarrow> string \<Rightarrow> typed_value_type set \<Rightarrow> string
    \<Rightarrow> negation_behavior \<Rightarrow> uuid option \<Rightarrow> declarative_mapping" where
  "fortios_mapping mapping_id version_id field_id matcher extractor types scope negation reset =
     DeclarativeMapping mapping_id version_id field_id matcher extractor scope types
       negation reset None None"

definition FORTIOS_B4_MAPPINGS :: "declarative_mapping list" where
  "FORTIOS_B4_MAPPINGS = [
  fortios_mapping 0xa1b2c3d451015aaa8aaa000000000013 0xa1b2c3d461015aaa8aaa000000000013
    ''management.remote.telnet.enabled''
    (NodeMatcher ''set'' [''allowaccess''] (Some ''edit'') [] (Some ''config'') [''system'', ''interface''])
    ''fortios_allowaccess_telnet'' {TV_BOOLEAN} ''device'' NB_UNSUPPORTED (Some 0xa1b2c3d462015aaa8aaa000000000013),
  fortios_mapping 0xa1b2c3d452015aaa8aaa000000000013 0xa1b2c3d462015aaa8aaa000000000013
    ''management.remote.telnet.enabled''
    (NodeMatcher ''unset'' [''allowaccess''] (Some ''edit'') [] (Some ''config'') [''system'', ''interface''])
    ''fortios_allowaccess_telnet'' {TV_BOOLEAN} ''device'' NB_RESET_TO_DEFAULT (Some 0xa1b2c3d462015aaa8aaa000000000013),
  fortios_mapping 0xa1b2c3d451025aaa8aaa000000000013 0xa1b2c3d461025aaa8aaa000000000013
    ''management.remote.ssh.enabled''
    (NodeMatcher ''set'' [''allowaccess''] (Some ''edit'') [] (Some ''config'') [''system'', ''interface''])
    ''fortios_allowaccess_ssh'' {TV_BOOLEAN} ''device'' NB_UNSUPPORTED (Some 0xa1b2c3d462025aaa8aaa000000000013),
  fortios_mapping 0xa1b2c3d452025aaa8aaa000000000013 0xa1b2c3d462025aaa8aaa000000000013
    ''management.remote.ssh.enabled''
    (NodeMatcher ''unset'' [''allowaccess''] (Some ''edit'') [] (Some ''config'') [''system'', ''interface''])
    ''fortios_allowaccess_ssh'' {TV_BOOLEAN} ''device'' NB_RESET_TO_DEFAULT (Some 0xa1b2c3d462025aaa8aaa000000000013),
  fortios_mapping 0xa1b2c3d451035aaa8aaa000000000013 0xa1b2c3d461035aaa8aaa000000000013
    ''management.session.idle_timeout''
    (NodeMatcher ''set'' [''admintimeout''] (Some ''config'') [''system'', ''global''] None [])
    ''fortios_timeout'' {TV_DURATION} ''device'' NB_UNSUPPORTED None,
  fortios_mapping 0xa1b2c3d452035aaa8aaa000000000013 0xa1b2c3d462035aaa8aaa000000000013
    ''management.session.idle_timeout''
    (NodeMatcher ''unset'' [''admintimeout''] (Some ''config'') [''system'', ''global''] None [])
    ''fortios_timeout'' {TV_DURATION} ''device'' NB_RESET_TO_DEFAULT None,
  fortios_mapping 0xa1b2c3d451045aaa8aaa000000000013 0xa1b2c3d461045aaa8aaa000000000013
    ''logging.remote.destination''
    (NodeMatcher ''set'' [''server''] (Some ''config'') [''log'', ''syslogd'', ''setting''] None [])
    ''fortios_server'' {TV_IP_ADDRESS, TV_STRING} ''device'' NB_UNSUPPORTED None,
  fortios_mapping 0xa1b2c3d451055aaa8aaa000000000013 0xa1b2c3d461055aaa8aaa000000000013
    ''time.ntp.server''
    (NodeMatcher ''set'' [''server''] (Some ''edit'') [] (Some ''config'') [''ntpserver''])
    ''ntp_server'' {TV_IP_ADDRESS, TV_STRING} ''device'' NB_UNSUPPORTED None]"

definition FORTIOS_MAPPINGS :: "declarative_mapping list" where
  "FORTIOS_MAPPINGS = 
     filter (\<lambda>item. dm_field_id item \<notin> {''management.remote.telnet.enabled'', ''management.remote.ssh.enabled''})
       FORTIOS_B4_MAPPINGS @ [
  fortios_mapping 0xa1b2c3d453015aaa8aaa000000000013 0xa1b2c3d463015aaa8aaa000000000013
    ''management.remote.telnet.enabled''
    (NodeMatcher ''set'' [''allowaccess''] (Some ''edit'') [] (Some ''config'') [''system'', ''interface''])
    ''fortios_allowaccess_telnet'' {TV_BOOLEAN} ''interface'' NB_UNSUPPORTED (Some 0xa1b2c3d464015aaa8aaa000000000013),
  fortios_mapping 0xa1b2c3d453025aaa8aaa000000000013 0xa1b2c3d463025aaa8aaa000000000013
    ''management.remote.ssh.enabled''
    (NodeMatcher ''set'' [''allowaccess''] (Some ''edit'') [] (Some ''config'') [''system'', ''interface''])
    ''fortios_allowaccess_ssh'' {TV_BOOLEAN} ''interface'' NB_UNSUPPORTED (Some 0xa1b2c3d464025aaa8aaa000000000013),
  fortios_mapping 0xa1b2c3d454015aaa8aaa000000000013 0xa1b2c3d464015aaa8aaa000000000013
    ''management.remote.telnet.enabled''
    (NodeMatcher ''unset'' [''allowaccess''] (Some ''edit'') [] (Some ''config'') [''system'', ''interface''])
    ''fortios_allowaccess_telnet'' {TV_BOOLEAN} ''interface'' NB_RESET_TO_DEFAULT (Some 0xa1b2c3d465015aaa8aaa000000000013),
  fortios_mapping 0xa1b2c3d454025aaa8aaa000000000013 0xa1b2c3d464025aaa8aaa000000000013
    ''management.remote.ssh.enabled''
    (NodeMatcher ''unset'' [''allowaccess''] (Some ''edit'') [] (Some ''config'') [''system'', ''interface''])
    ''fortios_allowaccess_ssh'' {TV_BOOLEAN} ''interface'' NB_RESET_TO_DEFAULT (Some 0xa1b2c3d465025aaa8aaa000000000013),
  fortios_mapping 0xa1b2c3d453035aaa8aaa000000000013 0xa1b2c3d463035aaa8aaa000000000013
    ''management.remote.https.enabled''
    (NodeMatcher ''set'' [''allowaccess''] (Some ''edit'') [] (Some ''config'') [''system'', ''interface''])
    ''fortios_allowaccess_https'' {TV_BOOLEAN} ''interface'' NB_UNSUPPORTED (Some 0xa1b2c3d464035aaa8aaa000000000013),
  fortios_mapping 0xa1b2c3d454035aaa8aaa000000000013 0xa1b2c3d464035aaa8aaa000000000013
    ''management.remote.https.enabled''
    (NodeMatcher ''unset'' [''allowaccess''] (Some ''edit'') [] (Some ''config'') [''system'', ''interface''])
    ''fortios_allowaccess_https'' {TV_BOOLEAN} ''interface'' NB_RESET_TO_DEFAULT (Some 0xa1b2c3d465035aaa8aaa000000000013),
  fortios_mapping 0xa1b2c3d453045aaa8aaa000000000013 0xa1b2c3d463045aaa8aaa000000000013
    ''management.remote.tls.minimum_version''
    (NodeMatcher ''set'' [''admin-https-ssl-versions''] (Some ''config'') [''system'', ''global''] None [])
    ''fortios_tls_minimum'' {TV_ENUM} ''device'' NB_UNSUPPORTED None,
  fortios_mapping 0xa1b2c3d453055aaa8aaa000000000013 0xa1b2c3d463055aaa8aaa000000000013
    ''management.remote.source.restriction.configured''
    (NodeMatcher ''set'' [] (Some ''edit'') [] (Some ''config'') [''system'', ''admin''])
    ''fortios_trusthost_restriction'' {TV_BOOLEAN} ''administrator'' NB_UNSUPPORTED None,
  fortios_mapping 0xa1b2c3d453065aaa8aaa000000000013 0xa1b2c3d463065aaa8aaa000000000013
    ''management.remote.source.permitted_network''
    (NodeMatcher ''set'' [] (Some ''edit'') [] (Some ''config'') [''system'', ''admin''])
    ''fortios_trusthost_network'' {TV_IP_NETWORK} ''administrator'' NB_UNSUPPORTED None,
  fortios_mapping 0xa1b2c3d453075aaa8aaa000000000013 0xa1b2c3d463075aaa8aaa000000000013
    ''logging.enabled''
    (NodeMatcher ''set'' [''status'', ''enable''] (Some ''config'') [''log'', ''setting''] None [])
    ''presence_enabled'' {TV_BOOLEAN} ''device'' NB_UNSUPPORTED None,
  fortios_mapping 0xa1b2c3d453085aaa8aaa000000000013 0xa1b2c3d463085aaa8aaa000000000013
    ''time.ntp.configured''
    (NodeMatcher ''set'' [''server''] (Some ''edit'') [] (Some ''config'') [''ntpserver''])
    ''ntp_configured'' {TV_BOOLEAN} ''device'' NB_UNSUPPORTED None]"

definition FORTIOS_PHASE4_MAPPINGS :: "declarative_mapping list" where
  "FORTIOS_PHASE4_MAPPINGS = FORTIOS_MAPPINGS @ [
  fortios_mapping 0xa1b2c3d453095aaa8aaa000000000013 0xa1b2c3d463095aaa8aaa000000000013
    ''management.remote.http.enabled''
    (NodeMatcher ''set'' [''allowaccess''] (Some ''edit'') [] (Some ''config'') [''system'', ''interface''])
    ''fortios_allowaccess_http'' {TV_BOOLEAN} ''interface'' NB_UNSUPPORTED (Some 0xa1b2c3d464095aaa8aaa000000000013),
  fortios_mapping 0xa1b2c3d454095aaa8aaa000000000013 0xa1b2c3d464095aaa8aaa000000000013
    ''management.remote.http.enabled''
    (NodeMatcher ''unset'' [''allowaccess''] (Some ''edit'') [] (Some ''config'') [''system'', ''interface''])
    ''fortios_allowaccess_http'' {TV_BOOLEAN} ''interface'' NB_RESET_TO_DEFAULT (Some 0xa1b2c3d465095aaa8aaa000000000013)]"

definition FORTIOS_7_KNOWLEDGE_PACK_V1_1 :: knowledge_pack where
  "FORTIOS_7_KNOWLEDGE_PACK_V1_1 =
     \<lparr>kp_knowledge_pack_id = 0xa1b2c3d411115aaa8aaa000000000013,
      kp_knowledge_pack_version_id = 0xa1b2c3d433335aaa8aaa000000000013,
      kp_name = ''fortios_7'', kp_version = ''1.1.0'', kp_schema_version = ''1.0.0'',
      kp_profile_id = ''fortinet.fortios.7'', kp_profile_version_id = ''fortinet.fortios.7@1.0.0'', kp_mappings = FORTIOS_B4_MAPPINGS\<rparr>"

definition FORTIOS_7_KNOWLEDGE_PACK_V1_2 :: knowledge_pack where
  "FORTIOS_7_KNOWLEDGE_PACK_V1_2 =
     \<lparr>kp_knowledge_pack_id = 0xa1b2c3d411115aaa8aaa000000000013,
      kp_knowledge_pack_version_id = 0xa1b2c3d473335aaa8aaa000000000013,
      kp_name = ''fortios_7'', kp_version = ''1.2.0'', kp_schema_version = ''1.0.0'',
      kp_profile_id = ''fortinet.fortios.7'', kp_profile_version_id = ''fortinet.fortios.7@1.0.0'', kp_mappings = FORTIOS_MAPPINGS\<rparr>"

definition FORTIOS_7_KNOWLEDGE_PACK :: knowledge_pack where
  "FORTIOS_7_KNOWLEDGE_PACK =
     \<lparr>kp_knowledge_pack_id = 0xa1b2c3d411115aaa8aaa000000000013,
      kp_knowledge_pack_version_id = 0xa1b2c3d483335aaa8aaa000000000013,
      kp_name = ''fortios_7'', kp_version = ''1.3.0'', kp_schema_version = ''1.0.0'',
      kp_profile_id = ''fortinet.fortios.7'', kp_profile_version_id = ''fortinet.fortios.7@1.0.0'', kp_mappings = FORTIOS_PHASE4_MAPPINGS\<rparr>"

section \<open>Juniper Junos 18\<close>

definition str_opt :: "string option \<Rightarrow> pyval" where
  "str_opt x = (case x of None \<Rightarrow> PNone | Some s \<Rightarrow> PStr s)"

text \<open>The declarative definition of a mapping over XML evidence.\<close>

definition junos_definition ::
  "string \<Rightarrow> string list \<Rightarrow> string \<Rightarrow> string \<Rightarrow> string option \<Rightarrow> string option \<Rightarrow> string option
    \<Rightarrow> string \<Rightarrow> string list list \<Rightarrow> (string \<times> pyval) list" where
  "junos_definition field path source output capture attribute source_type unit_conversion qualifiers =
     [(''profile_applicability'', PDict
         [(''profile_ids'', PList [PStr ''juniper.junos.18'']),
          (''profile_version_ids'', PList [PStr ''juniper.junos.18@1.0.0''])]),
      (''structural_match'', PDict
         [(''operation'', PStr ''xml_path''), (''command'', PStr ''xml''),
          (''xml_path'', PDict
             [(''path'', PList (map (\<lambda>item. PDict
                 [(''local_name'', PStr item),
                  (''occurrence'', PStr (if item = ''server'' then ''any'' else ''exact''))]) path)),
              (''source'', PStr source), (''capture'', str_opt capture),
              (''attribute'', str_opt attribute),
              (''value_type'', PStr (case source_type of
                 None \<Rightarrow> output | Some t \<Rightarrow> if t = [] then output else t)),
              (''start_mode'', PStr ''document_root'')])]),
      (''target_field_id'', PStr field),
      (''value_extraction'', PDict
         [(''operation'', PStr (if source = ''presence'' then ''boolean_from_presence'' else ''capture'')),
          (''capture'', str_opt capture), (''output_type'', PStr output)]),
      (''unit_conversion'', PDict [(''operation'', PStr unit_conversion)]),
      (''scope_resolution'', PDict
         [(''strategy'', PStr ''device''),
          (''xml_unsupported_qualifier_paths'', PList (map (\<lambda>q. PList (map PStr q)) qualifiers))]),
      (''negation_behavior'', PDict [(''operation'', PStr ''unsupported'')]),
      (''removal_behavior'', PDict [(''operation'', PStr ''unsupported'')]),
      (''default_behavior'', PDict [(''operation'', PStr ''unknown'')]),
      (''examples'', PList [])]"

definition JUNOS_B4_MAPPINGS :: "declarative_mapping list" where
  "JUNOS_B4_MAPPINGS = [
  DeclarativeMapping 0xb3010000000050008000000000000001 0xb3020000000050008000000000000001
    ''management.remote.ssh.enabled''
    (NodeMatcher ''xml'' [] None [] None [])
    ''training_dsl'' ''device'' {TV_BOOLEAN}
    NB_UNSUPPORTED None None (Some (junos_definition ''management.remote.ssh.enabled'' [''configuration'', ''system'', ''services'', ''ssh'']
      ''presence'' ''boolean'' None None None ''none'' [])),
  DeclarativeMapping 0xb3010000000050008000000000000002 0xb3020000000050008000000000000002
    ''logging.remote.destination''
    (NodeMatcher ''xml'' [] None [] None [])
    ''training_dsl'' ''device'' {TV_STRING}
    NB_UNSUPPORTED None None (Some (junos_definition ''logging.remote.destination'' [''configuration'', ''system'', ''syslog'', ''host'', ''name'']
      ''text'' ''string'' (Some ''destination'') None None ''none'' [])),
  DeclarativeMapping 0xb3010000000050008000000000000003 0xb3020000000050008000000000000003
    ''time.ntp.server''
    (NodeMatcher ''xml'' [] None [] None [])
    ''training_dsl'' ''device'' {TV_STRING}
    NB_UNSUPPORTED None None (Some (junos_definition ''time.ntp.server'' [''configuration'', ''system'', ''ntp'', ''server'', ''name'']
      ''text'' ''string'' (Some ''server'') None None ''none'' []))]"

definition JUNOS_MAPPINGS :: "declarative_mapping list" where
  "JUNOS_MAPPINGS = take 2 JUNOS_B4_MAPPINGS @ [
  DeclarativeMapping 0xb3010000000050008000000000000003 0xb3020000000050008000000000000103
    ''time.ntp.server''
    (NodeMatcher ''xml'' [] None [] None [])
    ''training_dsl'' ''device'' {TV_STRING}
    NB_UNSUPPORTED None None (Some (junos_definition ''time.ntp.server'' [''configuration'', ''system'', ''ntp'', ''server'', ''name'']
      ''text'' ''string'' (Some ''server'') None None ''none'' [[''routing-instance'']])),
  DeclarativeMapping 0xb3010000000050008000000000000004 0xb3020000000050008000000000000104
    ''management.session.idle_timeout''
    (NodeMatcher ''xml'' [] None [] None [])
    ''training_dsl'' ''device'' {TV_DURATION}
    NB_UNSUPPORTED None None (Some (junos_definition ''management.session.idle_timeout'' [''configuration'', ''system'', ''login'', ''idle-timeout'']
      ''text'' ''duration'' (Some ''minutes'') None (Some ''integer'') ''minutes_to_seconds'' [])),
  DeclarativeMapping 0xb3010000000050008000000000000005 0xb3020000000050008000000000000105
    ''time.ntp.configured''
    (NodeMatcher ''xml'' [] None [] None [])
    ''training_dsl'' ''device'' {TV_BOOLEAN}
    NB_UNSUPPORTED None None (Some (junos_definition ''time.ntp.configured'' [''configuration'', ''system'', ''ntp'', ''server'']
      ''presence'' ''boolean'' None None None ''none'' [[''routing-instance'']]))]"

definition JUNOS_PHASE6_MAPPINGS :: "declarative_mapping list" where
  "JUNOS_PHASE6_MAPPINGS = JUNOS_MAPPINGS @ [
  DeclarativeMapping 0xb3010000000050008000000000000006 0xb3020000000050008000000000000106
    ''management.remote.telnet.enabled''
    (NodeMatcher ''xml'' [] None [] None [])
    ''training_dsl'' ''device'' {TV_BOOLEAN}
    NB_UNSUPPORTED None None (Some (junos_definition ''management.remote.telnet.enabled'' [''configuration'', ''system'', ''services'', ''telnet'']
      ''presence'' ''boolean'' None None None ''none'' []))]"

definition JUNIPER_JUNOS_18_KNOWLEDGE_PACK_V1 :: knowledge_pack where
  "JUNIPER_JUNOS_18_KNOWLEDGE_PACK_V1 =
     \<lparr>kp_knowledge_pack_id = 0xb3000000000050008000000000000018,
      kp_knowledge_pack_version_id = 0xb3040000000050008000000000000018,
      kp_name = ''juniper_junos_18'', kp_version = ''1.0.0'', kp_schema_version = ''1.0.0'',
      kp_profile_id = ''juniper.junos.18'', kp_profile_version_id = ''juniper.junos.18@1.0.0'', kp_mappings = JUNOS_B4_MAPPINGS\<rparr>"

definition JUNIPER_JUNOS_18_KNOWLEDGE_PACK_V1_1 :: knowledge_pack where
  "JUNIPER_JUNOS_18_KNOWLEDGE_PACK_V1_1 =
     \<lparr>kp_knowledge_pack_id = 0xb3000000000050008000000000000018,
      kp_knowledge_pack_version_id = 0xb3050000000050008000000000000018,
      kp_name = ''juniper_junos_18'', kp_version = ''1.1.0'', kp_schema_version = ''1.0.0'',
      kp_profile_id = ''juniper.junos.18'', kp_profile_version_id = ''juniper.junos.18@1.0.0'', kp_mappings = JUNOS_MAPPINGS\<rparr>"

definition JUNIPER_JUNOS_18_KNOWLEDGE_PACK :: knowledge_pack where
  "JUNIPER_JUNOS_18_KNOWLEDGE_PACK =
     \<lparr>kp_knowledge_pack_id = 0xb3000000000050008000000000000018,
      kp_knowledge_pack_version_id = 0xb3060000000050008000000000000018,
      kp_name = ''juniper_junos_18'', kp_version = ''1.2.0'', kp_schema_version = ''1.0.0'',
      kp_profile_id = ''juniper.junos.18'', kp_profile_version_id = ''juniper.junos.18@1.0.0'', kp_mappings = JUNOS_PHASE6_MAPPINGS\<rparr>"

section \<open>Arista EOS 4\<close>

text \<open>
  The helper \<open>_mapping\<close> prints the mapping number into the last twelve digits of its
  identifiers; all numbers are below ten, where the decimal and the hexadecimal digit agree.
\<close>

definition arista_mapping ::
  "nat \<Rightarrow> string \<Rightarrow> node_matcher \<Rightarrow> string \<Rightarrow> typed_value_type set \<Rightarrow> string \<Rightarrow> negation_behavior
    \<Rightarrow> bool \<Rightarrow> bool \<Rightarrow> declarative_mapping" where
  "arista_mapping number field matcher extractor types scope negation reset removal =
     DeclarativeMapping
       (0xa4100000000050008000000000000000 + of_nat number)
       (0xa4200000000050008000000000000000 + of_nat number)
       field matcher extractor scope types negation
       (if reset then Some (0xa4300000000050008000000000000000 + of_nat number) else None)
       (if removal then Some (0xa4400000000050008000000000000000 + of_nat number) else None)
       None"

definition ARISTA_MAPPINGS :: "declarative_mapping list" where
  "ARISTA_MAPPINGS = [
  arista_mapping 1 ''management.remote.ssh.enabled''
    (NodeMatcher ''shutdown'' [] (Some ''management'') [''ssh''] None [])
    ''presence_disabled'' {TV_BOOLEAN} ''device'' NB_INVERT_BOOLEAN False False,
  arista_mapping 2 ''management.remote.telnet.enabled''
    (NodeMatcher ''shutdown'' [] (Some ''management'') [''telnet''] None [])
    ''presence_disabled'' {TV_BOOLEAN} ''device'' NB_INVERT_BOOLEAN False False,
  arista_mapping 3 ''management.session.idle_timeout''
    (NodeMatcher ''idle-timeout'' [] (Some ''management'') [''ssh''] None [])
    ''duration_minutes'' {TV_DURATION} ''device'' NB_RESET_TO_DEFAULT True False,
  arista_mapping 4 ''logging.remote.destination''
    (NodeMatcher ''logging'' [''host''] None [] None [])
    ''logging_destination'' {TV_IP_ADDRESS, TV_STRING} ''device'' NB_REMOVE_VALUE False True,
  arista_mapping 5 ''time.ntp.server''
    (NodeMatcher ''ntp'' [''server''] None [] None [])
    ''ntp_server'' {TV_IP_ADDRESS, TV_STRING} ''device'' NB_REMOVE_VALUE False True,
  arista_mapping 6 ''management.remote.source.restriction.configured''
    (NodeMatcher ''ip'' [''access-group''] (Some ''management'') [''ssh''] None [])
    ''arista_service_acl'' {TV_BOOLEAN} ''arista_management_service'' NB_UNSUPPORTED False False]"

definition ARISTA_PHASE7_MAPPINGS :: "declarative_mapping list" where
  "ARISTA_PHASE7_MAPPINGS = ARISTA_MAPPINGS @ [
  arista_mapping 7 ''time.ntp.configured''
    (NodeMatcher ''ntp'' [''server''] None [] None [])
    ''ntp_configured'' {TV_BOOLEAN} ''device'' NB_UNSUPPORTED False False]"

definition ARISTA_EOS_4_KNOWLEDGE_PACK_V1 :: knowledge_pack where
  "ARISTA_EOS_4_KNOWLEDGE_PACK_V1 =
     \<lparr>kp_knowledge_pack_id = 0xa4000000000050008000000000000004,
      kp_knowledge_pack_version_id = 0xa4010000000050008000000000000004,
      kp_name = ''arista_eos_4'', kp_version = ''1.0.0'', kp_schema_version = ''1.0.0'',
      kp_profile_id = ''arista.eos.4'', kp_profile_version_id = ''arista.eos.4@1.0.0'', kp_mappings = ARISTA_MAPPINGS\<rparr>"

definition ARISTA_EOS_4_KNOWLEDGE_PACK :: knowledge_pack where
  "ARISTA_EOS_4_KNOWLEDGE_PACK =
     \<lparr>kp_knowledge_pack_id = 0xa4000000000050008000000000000004,
      kp_knowledge_pack_version_id = 0xa4010000000050008000000000000104,
      kp_name = ''arista_eos_4'', kp_version = ''1.1.0'', kp_schema_version = ''1.0.0'',
      kp_profile_id = ''arista.eos.4'', kp_profile_version_id = ''arista.eos.4@1.0.0'', kp_mappings = ARISTA_PHASE7_MAPPINGS\<rparr>"

section \<open>Generic packs\<close>

definition GENERIC_CLI_KNOWLEDGE_PACK :: knowledge_pack where
  "GENERIC_CLI_KNOWLEDGE_PACK =
     \<lparr>kp_knowledge_pack_id = 0xa5000000000050008000000000000005,
      kp_knowledge_pack_version_id = 0xa5010000000050008000000000000005,
      kp_name = ''generic_cli'', kp_version = ''1.0.0'', kp_schema_version = ''1.0.0'',
      kp_profile_id = ''generic.cli'', kp_profile_version_id = ''generic.cli@1.0.0'', kp_mappings = []\<rparr>"

definition GENERIC_XML_KNOWLEDGE_PACK :: knowledge_pack where
  "GENERIC_XML_KNOWLEDGE_PACK =
     \<lparr>kp_knowledge_pack_id = 0xa5000000000050008000000000000006,
      kp_knowledge_pack_version_id = 0xa5010000000050008000000000000006,
      kp_name = ''generic_xml'', kp_version = ''1.0.0'', kp_schema_version = ''1.0.0'',
      kp_profile_id = ''generic.xml'', kp_profile_version_id = ''generic.xml@1.0.0'', kp_mappings = []\<rparr>"

definition GENERIC_JSON_KNOWLEDGE_PACK :: knowledge_pack where
  "GENERIC_JSON_KNOWLEDGE_PACK =
     \<lparr>kp_knowledge_pack_id = 0xa5000000000050008000000000000007,
      kp_knowledge_pack_version_id = 0xa5010000000050008000000000000007,
      kp_name = ''generic_json'', kp_version = ''1.0.0'', kp_schema_version = ''1.0.0'',
      kp_profile_id = ''generic.json'', kp_profile_version_id = ''generic.json@1.0.0'', kp_mappings = []\<rparr>"

section \<open>All sealed packs\<close>

text \<open>The packs of \<open>KNOWLEDGE_PACK_REGISTRY\<close> and its active pack per profile.\<close>

definition REGISTERED_PACKS :: "knowledge_pack list" where
  "REGISTERED_PACKS = [
     CISCO_IOS_XE_17_KNOWLEDGE_PACK_V1, CISCO_IOS_XE_17_KNOWLEDGE_PACK_V1_1,
     CISCO_IOS_XE_17_KNOWLEDGE_PACK_V1_2, CISCO_IOS_XE_17_KNOWLEDGE_PACK,
     FORTIOS_7_KNOWLEDGE_PACK_V1, FORTIOS_7_KNOWLEDGE_PACK_V1_1,
     FORTIOS_7_KNOWLEDGE_PACK_V1_2, FORTIOS_7_KNOWLEDGE_PACK,
     JUNIPER_JUNOS_18_KNOWLEDGE_PACK_V1, JUNIPER_JUNOS_18_KNOWLEDGE_PACK_V1_1,
     JUNIPER_JUNOS_18_KNOWLEDGE_PACK,
     ARISTA_EOS_4_KNOWLEDGE_PACK_V1, ARISTA_EOS_4_KNOWLEDGE_PACK,
     GENERIC_CLI_KNOWLEDGE_PACK, GENERIC_XML_KNOWLEDGE_PACK, GENERIC_JSON_KNOWLEDGE_PACK]"

definition ACTIVE_PACKS :: "knowledge_pack list" where
  "ACTIVE_PACKS = [
     CISCO_IOS_XE_17_KNOWLEDGE_PACK, FORTIOS_7_KNOWLEDGE_PACK, JUNIPER_JUNOS_18_KNOWLEDGE_PACK,
     ARISTA_EOS_4_KNOWLEDGE_PACK, GENERIC_CLI_KNOWLEDGE_PACK, GENERIC_XML_KNOWLEDGE_PACK,
     GENERIC_JSON_KNOWLEDGE_PACK]"

definition KNOWLEDGE_PACK_REGISTRY :: "exc + pack_registry" where
  "KNOWLEDGE_PACK_REGISTRY = make_pack_registry REGISTERED_PACKS
     (map (\<lambda>p. (kp_profile_version_id p, kp_knowledge_pack_version_id p)) ACTIVE_PACKS)"

end
