(* ===== verification/Ip_Address.thy ===== *)
theory Ip_Address
  imports Py_Values
begin

text \<open>
  What the extractors use of the standard module \<open>ipaddress\<close>: \<open>ip_address(s)\<close> and
  \<open>ip_network(s, strict=False)\<close>, each as the canonical text of the parsed value, or nothing
  where the module raises \<open>ValueError\<close>.  Addresses are natural numbers below \<open>2 ^ 32\<close> and
  \<open>2 ^ 128\<close>; the printed form is that of Python 3.13, the version the images pin.
\<close>

section \<open>Splitting\<close>

fun split_char :: "char \<Rightarrow> string \<Rightarrow> string list" where
  "split_char c [] = [[]]"
| "split_char c (x # xs) =
     (if x = c then [] # split_char c xs
      else (case split_char c xs of [] \<Rightarrow> [[x]] | p # ps \<Rightarrow> (x # p) # ps))"

lemma split_char_nonempty [simp]: "split_char c s \<noteq> []"
  by (induction s) (auto split: list.splits)

lemma split_char_free: "c \<notin> set s \<Longrightarrow> split_char c s = [s]"
  by (induction s) auto

lemma split_char_append: "c \<notin> set s \<Longrightarrow> split_char c (s @ c # t) = s # split_char c t"
  by (induction s) auto

section \<open>IPv4\<close>

definition parse_octet :: "string \<Rightarrow> nat option" where
  "parse_octet s =
     (if s = [] \<or> \<not> list_all is_digit s \<or> 3 < length s \<or> (s \<noteq> ''0'' \<and> hd s = CHR ''0'')
         \<or> 255 < digits_value s
      then None else Some (digits_value s))"

definition parse_ipv4 :: "string \<Rightarrow> nat option" where
  "parse_ipv4 s =
     (case map parse_octet (split_char (CHR ''.'') s) of
        [Some a, Some b, Some c, Some d] \<Rightarrow> Some (((a * 256 + b) * 256 + c) * 256 + d)
      | _ \<Rightarrow> None)"

definition ipv4_str :: "nat \<Rightarrow> string" where
  "ipv4_str n = join ''.'' (map nat_str
     [n div 16777216 mod 256, n div 65536 mod 256, n div 256 mod 256, n mod 256])"

section \<open>IPv6\<close>

definition parse_hextet :: "string \<Rightarrow> nat option" where
  "parse_hextet s =
     (if s = [] \<or> 4 < length s \<or> list_ex (\<lambda>c. hex_value c = None) s then None
      else Some (foldl (\<lambda>a c. 16 * a + the (hex_value c)) 0 s))"

text \<open>\<open>'%x' % n\<close>.\<close>

fun hex_str :: "nat \<Rightarrow> string" where
  "hex_str n = (if n < 16 then [hex_digit n] else hex_str (n div 16) @ [hex_digit (n mod 16)])"

declare hex_str.simps [simp del]

fun all_some :: "'a option list \<Rightarrow> 'a list option" where
  "all_some [] = Some []"
| "all_some (None # xs) = None"
| "all_some (Some x # xs) = map_option ((#) x) (all_some xs)"

definition empty_inner :: "string list \<Rightarrow> nat list" where
  "empty_inner parts = filter (\<lambda>i. parts ! i = []) [1..<length parts - 1]"

definition hextets_of_parts :: "string list \<Rightarrow> nat list option" where
  "hextets_of_parts parts =
     (if 9 < length parts then None
      else (case empty_inner parts of
        [] \<Rightarrow> (if length parts \<noteq> 8 then None else all_some (map parse_hextet parts))
      | [i] \<Rightarrow>
          (let hi = (if hd parts = [] then i - 1 else i);
               lo = (if last parts = [] then length parts - i - 2 else length parts - i - 1)
           in if (hd parts = [] \<and> hi \<noteq> 0) \<or> (last parts = [] \<and> lo \<noteq> 0) \<or> 8 < hi + lo + 1
              then None
              else (case (all_some (map parse_hextet (take hi parts)),
                          all_some (map parse_hextet (drop (length parts - lo) parts))) of
                      (Some h, Some l) \<Rightarrow> Some (h @ replicate (8 - (hi + lo)) 0 @ l)
                    | _ \<Rightarrow> None))
      | _ \<Rightarrow> None))"

definition parse_ipv6_hextets :: "string \<Rightarrow> nat list option" where
  "parse_ipv6_hextets s =
     (let parts = split_char (CHR '':'') s
      in if length parts < 3 then None
         else if CHR ''.'' \<in> set (last parts) then
           (case parse_ipv4 (last parts) of
              None \<Rightarrow> None
            | Some n \<Rightarrow> hextets_of_parts (butlast parts @ [hex_str (n div 65536), hex_str (n mod 65536)]))
         else hextets_of_parts parts)"

text \<open>The longest run of zero hextets (the first of equal ones), when it has two or more.\<close>

fun zero_runs :: "nat \<Rightarrow> nat list \<Rightarrow> (nat \<times> nat) list" where
  "zero_runs i [] = []"
| "zero_runs i (h # hs) =
     (i, length (takeWhile (\<lambda>x. x = 0) (h # hs))) # zero_runs (Suc i) hs"

definition best_run :: "nat list \<Rightarrow> nat \<times> nat" where
  "best_run hs = foldl (\<lambda>best r. if snd best < snd r then r else best) (0, 0) (zero_runs 0 hs)"

definition ipv6_hextets_str :: "nat list \<Rightarrow> string" where
  "ipv6_hextets_str hs =
     (let (start, len) = best_run hs
      in if len < 2 then join '':'' (map hex_str hs)
         else join '':'' (map hex_str (take start hs)) @ ''::''
              @ join '':'' (map hex_str (drop (start + len) hs)))"

text \<open>An IPv4-mapped address prints its last two hextets as an IPv4 address.\<close>

definition ipv6_str :: "nat list \<Rightarrow> string" where
  "ipv6_str hs =
     (if take 6 hs = [0, 0, 0, 0, 0, 65535] \<and> length hs = 8
      then ''::ffff:'' @ ipv4_str (hs ! 6 * 65536 + hs ! 7)
      else ipv6_hextets_str hs)"

text \<open>The scope identifier after a percent sign.\<close>

definition split_scope_id :: "string \<Rightarrow> (string \<times> string) option" where
  "split_scope_id s =
     (let addr = takeWhile (\<lambda>c. c \<noteq> CHR ''%'') s; rest = dropWhile (\<lambda>c. c \<noteq> CHR ''%'') s
      in if rest = [] then Some (addr, [])
         else if tl rest = [] \<or> CHR ''%'' \<in> set (tl rest) then None
         else Some (addr, rest))"

section \<open>Addresses and networks\<close>

definition ip_address :: "string \<Rightarrow> string option" where
  "ip_address s =
     (if CHR ''/'' \<in> set s then None
      else case parse_ipv4 s of
        Some n \<Rightarrow> Some (ipv4_str n)
      | None \<Rightarrow>
          (case split_scope_id s of
             None \<Rightarrow> None
           | Some (addr, scope) \<Rightarrow>
               map_option (\<lambda>hs. ipv6_str hs @ scope) (parse_ipv6_hextets addr)))"

definition prefix_of_digits :: "nat \<Rightarrow> string \<Rightarrow> nat option" where
  "prefix_of_digits limit s =
     (if all_digits s \<and> digits_value s \<le> limit then Some (digits_value s) else None)"

text \<open>The prefix length of a mask whose ones are contiguous from the top.\<close>

definition prefix_of_mask :: "nat \<Rightarrow> nat option" where
  "prefix_of_mask m = find (\<lambda>p. m = 2 ^ 32 - 2 ^ (32 - p)) (rev [0..<33])"

definition ipv4_prefix :: "string \<Rightarrow> nat option" where
  "ipv4_prefix s =
     (case prefix_of_digits 32 s of
        Some p \<Rightarrow> Some p
      | None \<Rightarrow>
          (case parse_ipv4 s of
             None \<Rightarrow> None
           | Some m \<Rightarrow>
               (case prefix_of_mask m of
                  Some p \<Rightarrow> Some p
                | None \<Rightarrow> prefix_of_mask (2 ^ 32 - 1 - m))))"

definition hextets_value :: "nat list \<Rightarrow> nat" where
  "hextets_value hs = foldl (\<lambda>a h. a * 65536 + h) 0 hs"

definition value_hextets :: "nat \<Rightarrow> nat list" where
  "value_hextets n = map (\<lambda>i. n div 65536 ^ (7 - i) mod 65536) [0..<8]"

definition network_base :: "nat \<Rightarrow> nat \<Rightarrow> nat \<Rightarrow> nat" where
  "network_base bits p n = n div 2 ^ (bits - p) * 2 ^ (bits - p)"

definition ip_network :: "string \<Rightarrow> string option" where
  "ip_network s =
     (case split_char (CHR ''/'') s of
        [a, b] \<Rightarrow>
          (case (parse_ipv4 a, ipv4_prefix b) of
             (Some n, Some p) \<Rightarrow> Some (ipv4_str (network_base 32 p n) @ ''/'' @ nat_str p)
           | _ \<Rightarrow>
             (case split_scope_id a of
                None \<Rightarrow> None
              | Some (addr, _) \<Rightarrow>
                  (case (parse_ipv6_hextets addr, prefix_of_digits 128 b) of
                     (Some hs, Some p) \<Rightarrow>
                       Some (ipv6_str (value_hextets (network_base 128 p (hextets_value hs)))
                             @ ''/'' @ nat_str p)
                   | _ \<Rightarrow> None)))
      | _ \<Rightarrow> None)"

section \<open>Round trips\<close>

lemma parse_octet_nat_str: "n < 256 \<Longrightarrow> parse_octet (nat_str n) = Some n"
proof -
  assume n: "n < 256"
  have "list_all is_digit (nat_str n)" using nat_str_set by (auto simp: list_all_iff)
  moreover have "length (nat_str n) \<le> 3" using n by (intro length_nat_str) auto
  moreover have "nat_str n = ''0'' \<or> hd (nat_str n) \<noteq> CHR ''0''"
    using nat_str_hd_zero by (cases "n = 0") (auto simp: nat_str.simps)
  ultimately show ?thesis using n by (auto simp: parse_octet_def)
qed

lemma dot_not_digit: "CHR ''.'' \<notin> set (nat_str n)"
  using nat_str_set [of "CHR ''.''" n] by (auto simp: is_digit_def code_of_def)

text \<open>Printing and parsing an IPv4 address again gives the same address.\<close>

lemma parse_ipv4_str: "n < 2 ^ 32 \<Longrightarrow> parse_ipv4 (ipv4_str n) = Some n"
proof -
  assume n: "n < 2 ^ 32"
  define a b c d where "a = n div 16777216 mod 256" and "b = n div 65536 mod 256"
    and "c = n div 256 mod 256" and "d = n mod 256"
  have lt: "a < 256" "b < 256" "c < 256" "d < 256" by (simp_all add: a_def b_def c_def d_def)
  have "split_char (CHR ''.'') (ipv4_str n) = [nat_str a, nat_str b, nat_str c, nat_str d]"
    unfolding ipv4_str_def a_def [symmetric] b_def [symmetric] c_def [symmetric] d_def [symmetric]
    by (simp add: split_char_append split_char_free dot_not_digit)
  moreover have "((a * 256 + b) * 256 + c) * 256 + d = n"
  proof -
    have "n = n div 256 * 256 + d" by (simp add: d_def)
    moreover have "n div 256 = n div 65536 * 256 + c"
      using div_mult_mod_eq [of "n div 256" 256] by (simp add: c_def div_mult2_eq [symmetric])
    moreover have "n div 65536 = n div 16777216 * 256 + b"
      using div_mult_mod_eq [of "n div 65536" 256] by (simp add: b_def div_mult2_eq [symmetric])
    moreover have "n div 16777216 = a" using n by (simp add: a_def)
    moreover have "x = y * 256 + d \<Longrightarrow> y = z * 256 + c \<Longrightarrow> z = w * 256 + b \<Longrightarrow> w = a
        \<Longrightarrow> ((a * 256 + b) * 256 + c) * 256 + d = x" for x y z w
      by simp
    ultimately show ?thesis by blast
  qed
  ultimately show ?thesis
    using lt by (simp add: parse_ipv4_def parse_octet_nat_str)
qed

lemma parse_octet_bound: "parse_octet s = Some n \<Longrightarrow> n < 256"
  by (auto simp: parse_octet_def split: if_splits)

lemma parse_ipv4_bound: "parse_ipv4 s = Some n \<Longrightarrow> n < 2 ^ 32"
proof -
  assume "parse_ipv4 s = Some n"
  then obtain a b c d where
    os: "map parse_octet (split_char (CHR ''.'') s) = [Some a, Some b, Some c, Some d]"
    and n: "n = ((a * 256 + b) * 256 + c) * 256 + d"
    by (auto simp: parse_ipv4_def split: list.splits option.splits)
  from os have "a < 256" "b < 256" "c < 256" "d < 256"
    by (auto simp: map_eq_Cons_conv dest: parse_octet_bound)
  with n show ?thesis by simp
qed

lemma ipv4_str_no_slash: "CHR ''/'' \<notin> set (ipv4_str n)"
  by (auto simp: ipv4_str_def is_digit_def code_of_def dest: nat_str_set)

text \<open>The canonical text of an IPv4 address is a fixed point.\<close>

lemma ip_address_ipv4_canonical:
  "parse_ipv4 s = Some n \<Longrightarrow> ip_address (ipv4_str n) = Some (ipv4_str n)"
  using parse_ipv4_str [OF parse_ipv4_bound] by (simp add: ip_address_def ipv4_str_no_slash)

end
