(* ===== verification/Extractors.thy ===== *)
theory Extractors
  imports Structural_IR Security_Model Ip_Address
begin

text \<open>
  Value extraction from a structural node (\<open>interpretation/extractors.py\<close>): each extractor
  returns a typed value or a diagnostic code.  \<open>int\<close> of more than 4300 digits raises
  \<open>ValueError\<close> in the pinned Python, so the extractors that call it are fallible.
\<close>

section \<open>Outcomes and patterns\<close>

record extraction_outcome =
  eo_value :: "typed_value option"
  eo_diagnostic_code :: "string option"

abbreviation extracted :: "typed_value \<Rightarrow> exc + extraction_outcome" where
  "extracted v \<equiv> Inr \<lparr>eo_value = Some v, eo_diagnostic_code = None\<rparr>"

abbreviation refused :: "string \<Rightarrow> exc + extraction_outcome" where
  "refused code \<equiv> Inr \<lparr>eo_value = None, eo_diagnostic_code = Some code\<rparr>"

definition hostname_pattern :: "string \<Rightarrow> bool" where
  "hostname_pattern s =
     (s \<noteq> [] \<and> length s \<le> 253 \<and> is_alnum (hd s) \<and> is_alnum (last s)
      \<and> list_all (\<lambda>c. is_alnum c \<or> c = CHR ''.'' \<or> c = CHR ''-'') s)"

text \<open>\<open>[A-Za-z0-9][A-Za-z0-9_.:-]{0,63}\<close>.\<close>

definition acl_name_pattern :: "string \<Rightarrow> bool" where
  "acl_name_pattern s =
     (s \<noteq> [] \<and> length s \<le> 64 \<and> is_alnum (hd s)
      \<and> list_all (\<lambda>c. is_alnum c \<or> c \<in> {CHR ''_'', CHR ''.'', CHR '':'', CHR ''-''}) (tl s))"

definition joined_arguments :: "config_node \<Rightarrow> pyval" where
  "joined_arguments node = PStr (join '' '' (cn_arguments node))"

definition strip_quotes :: "string \<Rightarrow> string" where
  "strip_quotes s = strip_by (\<lambda>c. c = CHR 0x22) s"

definition boolean_value :: "bool \<Rightarrow> config_node \<Rightarrow> typed_value" where
  "boolean_value b node =
     (TypedValue TV_BOOLEAN (PBool b))\<lparr>tv_original_value := joined_arguments node\<rparr>"

definition duration_value :: "nat \<Rightarrow> pyval \<Rightarrow> string \<Rightarrow> typed_value" where
  "duration_value seconds original original_unit =
     \<lparr>tv_type = TV_DURATION, tv_val = PInt (int seconds), tv_unit = PStr ''seconds'',
      tv_original_value = original, tv_original_unit = PStr original_unit\<rparr>"

section \<open>Shared extractors\<close>

definition extract_transport_protocol :: "string \<Rightarrow> config_node \<Rightarrow> exc + extraction_outcome" where
  "extract_transport_protocol protocol node =
     (let args = cn_arguments node; protocols = map py_lower (tl args)
      in if length args < 2 \<or> py_lower (hd args) \<noteq> ''input'' then refused ''invalid_transport_input''
         else if protocols = [''none''] then extracted (boolean_value False node)
         else if protocols \<in> {[''telnet''], [''ssh''], [''telnet'', ''ssh''], [''ssh'', ''telnet'']}
         then extracted (boolean_value (protocol \<in> set protocols) node)
         else refused ''unsupported_transport_input'')"

definition allowaccess_tokens :: "string set" where
  "allowaccess_tokens =
     {''http'', ''https'', ''ping'', ''snmp'', ''ssh'', ''telnet'', ''fgfm'', ''ftm''}"

definition extract_fortios_allowaccess :: "string \<Rightarrow> config_node \<Rightarrow> exc + extraction_outcome" where
  "extract_fortios_allowaccess protocol node =
     (let args = cn_arguments node; tokens = map py_lower (tl args)
      in if length args < 2 \<or> py_lower (hd args) \<noteq> ''allowaccess''
         then refused ''invalid_fortios_allowaccess''
         else if list_ex (\<lambda>t. t \<notin> allowaccess_tokens \<and> t \<noteq> ''none'') tokens
         then refused ''invalid_fortios_allowaccess''
         else extracted (boolean_value
           (if tokens = [''none''] then False else protocol \<in> set tokens) node))"

definition extract_endpoint :: "string \<Rightarrow> string \<Rightarrow> config_node \<Rightarrow> exc + extraction_outcome" where
  "extract_endpoint keyword diagnostic node =
     (let args = cn_arguments node; original = strip_quotes (args ! 1)
      in if length args \<noteq> 2 \<or> py_lower (hd args) \<noteq> keyword then refused diagnostic
         else (case ip_address original of
           Some canonical \<Rightarrow> extracted ((TypedValue TV_IP_ADDRESS (PStr canonical))
             \<lparr>tv_original_value := PStr original\<rparr>)
         | None \<Rightarrow>
             if hostname_pattern original
             then extracted ((TypedValue TV_STRING (PStr (py_lower original)))
               \<lparr>tv_original_value := PStr original\<rparr>)
             else refused diagnostic))"

section \<open>The extractors\<close>

definition extract_transport_telnet :: "config_node \<Rightarrow> exc + extraction_outcome" where
  "extract_transport_telnet node = extract_transport_protocol ''telnet'' node"

definition extract_transport_ssh :: "config_node \<Rightarrow> exc + extraction_outcome" where
  "extract_transport_ssh node = extract_transport_protocol ''ssh'' node"

definition extract_timeout_minutes_seconds :: "config_node \<Rightarrow> exc + extraction_outcome" where
  "extract_timeout_minutes_seconds node =
     (let args = cn_arguments node
      in if length args \<notin> {1, 2} \<or> \<not> list_all all_digits args then refused ''invalid_exec_timeout''
         else and_then (int_of_digits (hd args)) (\<lambda>minutes.
           and_then (if length args = 2 then int_of_digits (args ! 1) else Inr 0) (\<lambda>seconds.
           if 35791 < minutes \<or> 59 < seconds then refused ''invalid_exec_timeout''
           else extracted
             (duration_value (minutes * 60 + seconds) (joined_arguments node) ''minutes_seconds''))))"

definition extract_ssh_version :: "config_node \<Rightarrow> exc + extraction_outcome" where
  "extract_ssh_version node =
     (let args = cn_arguments node
      in if length args \<noteq> 3 \<or> map py_lower (take 2 args) \<noteq> [''ssh'', ''version'']
            \<or> args ! 2 \<notin> {''1'', ''2''}
         then refused ''invalid_ssh_version''
         else extracted ((TypedValue TV_INTEGER (PInt (int (digits_value (args ! 2)))))
           \<lparr>tv_original_value := PStr (args ! 2)\<rparr>))"

definition extract_logging_destination :: "config_node \<Rightarrow> exc + extraction_outcome" where
  "extract_logging_destination node = extract_endpoint ''host'' ''invalid_logging_destination'' node"

definition extract_ntp_server :: "config_node \<Rightarrow> exc + extraction_outcome" where
  "extract_ntp_server node = extract_endpoint ''server'' ''invalid_ntp_server'' node"

definition extract_presence_enabled :: "config_node \<Rightarrow> exc + extraction_outcome" where
  "extract_presence_enabled node = extracted (boolean_value True node)"

definition extract_presence_disabled :: "config_node \<Rightarrow> exc + extraction_outcome" where
  "extract_presence_disabled node = extracted (boolean_value False node)"

definition extract_ntp_configured :: "config_node \<Rightarrow> exc + extraction_outcome" where
  "extract_ntp_configured node = and_then (extract_ntp_server node) (\<lambda>outcome.
     if eo_value outcome = None then Inr outcome else extract_presence_enabled node)"

definition extract_fortios_server :: "config_node \<Rightarrow> exc + extraction_outcome" where
  "extract_fortios_server node = extract_endpoint ''server'' ''invalid_fortios_server'' node"

definition extract_fortios_port_enabled :: "config_node \<Rightarrow> exc + extraction_outcome" where
  "extract_fortios_port_enabled node =
     (let args = cn_arguments node
      in if length args \<noteq> 2 \<or> py_lower (hd args) \<notin> {''admin-ssh-port'', ''admin-telnet-port''}
            \<or> \<not> all_digits (args ! 1)
         then refused ''invalid_fortios_port''
         else and_then (int_of_digits (args ! 1)) (\<lambda>n. extracted (boolean_value (0 < n) node)))"

definition extract_fortios_allowaccess_ssh :: "config_node \<Rightarrow> exc + extraction_outcome" where
  "extract_fortios_allowaccess_ssh node = extract_fortios_allowaccess ''ssh'' node"

definition extract_fortios_allowaccess_telnet :: "config_node \<Rightarrow> exc + extraction_outcome" where
  "extract_fortios_allowaccess_telnet node = extract_fortios_allowaccess ''telnet'' node"

definition extract_fortios_allowaccess_https :: "config_node \<Rightarrow> exc + extraction_outcome" where
  "extract_fortios_allowaccess_https node = extract_fortios_allowaccess ''https'' node"

definition extract_fortios_allowaccess_http :: "config_node \<Rightarrow> exc + extraction_outcome" where
  "extract_fortios_allowaccess_http node = extract_fortios_allowaccess ''http'' node"

definition extract_fortios_timeout :: "config_node \<Rightarrow> exc + extraction_outcome" where
  "extract_fortios_timeout node =
     (let args = cn_arguments node
      in if length args \<noteq> 2 \<or> py_lower (hd args) \<noteq> ''admintimeout'' \<or> \<not> all_digits (args ! 1)
         then refused ''invalid_fortios_timeout''
         else and_then (int_of_digits (args ! 1)) (\<lambda>minutes.
           if 35791 < minutes then refused ''invalid_fortios_timeout''
           else extracted (duration_value (minutes * 60) (PStr (args ! 1)) ''minutes'')))"

definition extract_duration_minutes :: "config_node \<Rightarrow> exc + extraction_outcome" where
  "extract_duration_minutes node =
     (let args = cn_arguments node
      in if length args \<noteq> 1 \<or> \<not> all_digits (hd args) then refused ''invalid_idle_timeout''
         else and_then (int_of_digits (hd args)) (\<lambda>minutes.
           if 86400 < minutes then refused ''invalid_idle_timeout''
           else extracted (duration_value (minutes * 60) (PStr (hd args)) ''minutes'')))"

definition extract_arista_service_acl :: "config_node \<Rightarrow> exc + extraction_outcome" where
  "extract_arista_service_acl node =
     (let args = cn_arguments node; arguments = map py_lower args;
          valid_shape =
            (length arguments = 3 \<and> hd arguments = ''access-group'' \<and> arguments ! 2 = ''in'')
            \<or> (length arguments = 5 \<and> hd arguments = ''access-group'' \<and> arguments ! 2 = ''vrf''
               \<and> arguments ! 4 = ''in'');
          names = (if length arguments = 3 then [args ! 1] else [args ! 1, args ! 3])
      in if \<not> valid_shape then refused ''invalid_arista_service_acl''
         else if \<not> list_all acl_name_pattern names then refused ''invalid_arista_service_acl''
         else extract_presence_enabled node)"

definition extract_cisco_access_class :: "config_node \<Rightarrow> exc + extraction_outcome" where
  "extract_cisco_access_class node =
     (let args = cn_arguments node
      in if length args \<noteq> 2 \<or> py_lower (args ! 1) \<noteq> ''in'' then refused ''invalid_access_class''
         else if \<not> hostname_pattern (hd args) then refused ''invalid_access_class''
         else extract_presence_enabled node)"

definition extract_ntp_key_id :: "config_node \<Rightarrow> exc + extraction_outcome" where
  "extract_ntp_key_id node =
     (let args = cn_arguments node
      in if length args < 2 \<or> py_lower (hd args) \<notin> {''authentication-key'', ''trusted-key''}
         then refused ''invalid_ntp_key_id''
         else if \<not> all_digits (args ! 1) then refused ''invalid_ntp_key_id''
         else and_then (int_of_digits (args ! 1)) (\<lambda>n.
           extracted ((TypedValue TV_INTEGER (PInt (int n)))\<lparr>tv_original_value := PStr (args ! 1)\<rparr>)))"

text \<open>\<open>trusthost(?:[1-9]|10)\<close>.\<close>

definition trusthost_keyword :: "string \<Rightarrow> bool" where
  "trusthost_keyword s =
     (prefix ''trusthost'' s \<and>
      (let n = drop 9 s in (length n = 1 \<and> is_digit (hd n) \<and> n \<noteq> ''0'') \<or> n = ''10''))"

definition extract_fortios_trusthost_network :: "config_node \<Rightarrow> exc + extraction_outcome" where
  "extract_fortios_trusthost_network node =
     (let args = cn_arguments node
      in if args = [] \<or> \<not> prefix ''trusthost'' (py_lower (hd args))
         then Inr \<lparr>eo_value = None, eo_diagnostic_code = None\<rparr>
         else if length args \<noteq> 3 \<or> \<not> trusthost_keyword (py_lower (hd args))
         then refused ''invalid_fortios_trusthost''
         else (case ip_network (args ! 1 @ ''/'' @ args ! 2) of
           None \<Rightarrow> refused ''invalid_fortios_trusthost''
         | Some network \<Rightarrow> extracted
             \<lparr>tv_type = TV_IP_NETWORK, tv_val = PStr network, tv_unit = PNone,
              tv_original_value = PStr (join '' '' (tl args)),
              tv_original_unit = PStr ''address_mask''\<rparr>))"

definition extract_fortios_trusthost_restriction :: "config_node \<Rightarrow> exc + extraction_outcome" where
  "extract_fortios_trusthost_restriction node =
     and_then (extract_fortios_trusthost_network node) (\<lambda>outcome.
       if eo_value outcome = None then Inr outcome else extract_presence_enabled node)"

definition tls_ranks :: "(string \<times> nat) list" where
  "tls_ranks = [(''tlsv1-0'', 10), (''tlsv1-1'', 11), (''tlsv1-2'', 12), (''tlsv1-3'', 13)]"

definition tls_rank :: "string \<Rightarrow> nat" where
  "tls_rank v = (case dict_get tls_ranks v of None \<Rightarrow> 0 | Some r \<Rightarrow> r)"

definition extract_fortios_tls_minimum :: "config_node \<Rightarrow> exc + extraction_outcome" where
  "extract_fortios_tls_minimum node =
     (let args = cn_arguments node; versions = map py_lower (tl args)
      in if length args < 2 \<or> py_lower (hd args) \<noteq> ''admin-https-ssl-versions''
         then refused ''invalid_fortios_tls_versions''
         else if versions = [] \<or> list_ex (\<lambda>v. dict_get tls_ranks v = None) versions
         then refused ''invalid_fortios_tls_versions''
         else extracted ((TypedValue TV_ENUM
             (PStr (foldl (\<lambda>m v. if tls_rank v < tls_rank m then v else m) (hd versions) (tl versions))))
           \<lparr>tv_original_value := joined_arguments node\<rparr>))"

definition EXTRACTORS :: "(string \<times> (config_node \<Rightarrow> exc + extraction_outcome)) list" where
  "EXTRACTORS = [
     (''transport_telnet'', extract_transport_telnet),
     (''transport_ssh'', extract_transport_ssh),
     (''duration_minutes_seconds'', extract_timeout_minutes_seconds),
     (''ssh_version'', extract_ssh_version),
     (''logging_destination'', extract_logging_destination),
     (''ntp_server'', extract_ntp_server),
     (''ntp_configured'', extract_ntp_configured),
     (''fortios_server'', extract_fortios_server),
     (''fortios_port_enabled'', extract_fortios_port_enabled),
     (''fortios_allowaccess_ssh'', extract_fortios_allowaccess_ssh),
     (''fortios_allowaccess_telnet'', extract_fortios_allowaccess_telnet),
     (''fortios_allowaccess_https'', extract_fortios_allowaccess_https),
     (''fortios_allowaccess_http'', extract_fortios_allowaccess_http),
     (''fortios_timeout'', extract_fortios_timeout),
     (''presence_enabled'', extract_presence_enabled),
     (''presence_disabled'', extract_presence_disabled),
     (''duration_minutes'', extract_duration_minutes),
     (''arista_service_acl'', extract_arista_service_acl),
     (''cisco_access_class'', extract_cisco_access_class),
     (''ntp_key_id'', extract_ntp_key_id),
     (''fortios_trusthost_network'', extract_fortios_trusthost_network),
     (''fortios_trusthost_restriction'', extract_fortios_trusthost_restriction),
     (''fortios_tls_minimum'', extract_fortios_tls_minimum)]"

lemmas extractor_defs =
  extract_transport_telnet_def extract_transport_ssh_def extract_timeout_minutes_seconds_def
  extract_ssh_version_def extract_logging_destination_def extract_ntp_server_def
  extract_ntp_configured_def extract_fortios_server_def extract_fortios_port_enabled_def
  extract_fortios_allowaccess_ssh_def extract_fortios_allowaccess_telnet_def
  extract_fortios_allowaccess_https_def extract_fortios_allowaccess_http_def
  extract_fortios_timeout_def extract_presence_enabled_def extract_presence_disabled_def
  extract_duration_minutes_def extract_arista_service_acl_def extract_cisco_access_class_def
  extract_ntp_key_id_def extract_fortios_trusthost_network_def
  extract_fortios_trusthost_restriction_def extract_fortios_tls_minimum_def

declare extractor_defs [run_simps] EXTRACTORS_def [run_simps] int_of_digits_def [run_simps]
  hostname_pattern_def [run_simps] joined_arguments_def [run_simps] strip_quotes_def [run_simps]
  boolean_value_def [run_simps] duration_value_def [run_simps]
  extract_transport_protocol_def [run_simps] extract_fortios_allowaccess_def [run_simps]
  extract_endpoint_def [run_simps] allowaccess_tokens_def [run_simps]

section \<open>What extractors return\<close>

text \<open>The types an extractor can return, and that the value fits its type.\<close>

definition returns :: "typed_value_type set \<Rightarrow> exc + extraction_outcome \<Rightarrow> bool" where
  "returns ts r = (case r of Inl e \<Rightarrow> exc_class e = ValueError
     | Inr oc \<Rightarrow> (case eo_value oc of None \<Rightarrow> True
         | Some v \<Rightarrow> tv_type v \<in> ts \<and> typed_value_valid (tv_type v) (tv_val v)))"

lemma returns_refused [simp]: "returns ts (refused c)"
  and returns_none [simp]: "returns ts (Inr \<lparr>eo_value = None, eo_diagnostic_code = d\<rparr>)"
  by (simp_all add: returns_def)

lemma boolean_value_sel [simp]:
  "tv_type (boolean_value b node) = TV_BOOLEAN" "tv_val (boolean_value b node) = PBool b"
  by (simp_all add: boolean_value_def)

lemma duration_value_sel [simp]:
  "tv_type (duration_value n p u) = TV_DURATION" "tv_val (duration_value n p u) = PInt (int n)"
  by (simp_all add: duration_value_def)

lemma returns_extracted [simp]:
  "returns ts (extracted v) \<longleftrightarrow> tv_type v \<in> ts \<and> typed_value_valid (tv_type v) (tv_val v)"
  by (simp add: returns_def)

lemma returns_int [simp]:
  "(\<And>n. returns ts (k n)) \<Longrightarrow> returns ts (and_then (int_of_digits s) k)"
  by (simp add: int_of_digits_def returns_def)

lemma returns_and_then:
  "returns ts m \<Longrightarrow> (\<And>oc. m = Inr oc \<Longrightarrow> returns us (k oc)) \<Longrightarrow> returns us (and_then m k)"
  by (cases m) (auto simp: returns_def)

lemma returns_transport: "returns {TV_BOOLEAN} (extract_transport_protocol p node)"
  by (simp add: extract_transport_protocol_def Let_def)

lemma returns_allowaccess: "returns {TV_BOOLEAN} (extract_fortios_allowaccess p node)"
  by (simp add: extract_fortios_allowaccess_def Let_def)

lemma returns_endpoint: "returns {TV_IP_ADDRESS, TV_STRING} (extract_endpoint k d node)"
  by (simp add: extract_endpoint_def Let_def split: option.splits)

lemma returns_presence: "returns {TV_BOOLEAN} (extract_presence_enabled node)"
  "returns {TV_BOOLEAN} (extract_presence_disabled node)"
  by (simp_all add: extract_presence_enabled_def extract_presence_disabled_def)

lemma returns_guarded:
  "returns ts m \<Longrightarrow>
   returns {TV_BOOLEAN} (and_then m (\<lambda>oc. if eo_value oc = None then Inr oc
      else extract_presence_enabled node))"
  using returns_presence(1) [of node] by (cases m) (auto simp: returns_def split: option.splits)

lemma returns_trusthost: "returns {TV_IP_NETWORK} (extract_fortios_trusthost_network node)"
  by (simp add: extract_fortios_trusthost_network_def Let_def split: option.splits)

lemma returns_timeouts:
  "returns {TV_DURATION} (extract_timeout_minutes_seconds node)"
  "returns {TV_DURATION} (extract_fortios_timeout node)"
  "returns {TV_DURATION} (extract_duration_minutes node)"
  by (simp_all add: extract_timeout_minutes_seconds_def extract_fortios_timeout_def
      extract_duration_minutes_def Let_def)

lemma returns_integers:
  "returns {TV_INTEGER} (extract_ssh_version node)" "returns {TV_INTEGER} (extract_ntp_key_id node)"
  by (simp_all add: extract_ssh_version_def extract_ntp_key_id_def Let_def)

lemma returns_access:
  "returns {TV_BOOLEAN} (extract_arista_service_acl node)"
  "returns {TV_BOOLEAN} (extract_cisco_access_class node)"
  "returns {TV_BOOLEAN} (extract_fortios_port_enabled node)"
  by (simp_all add: extract_arista_service_acl_def extract_cisco_access_class_def
      extract_fortios_port_enabled_def Let_def returns_presence)

lemma returns_tls: "returns {TV_ENUM} (extract_fortios_tls_minimum node)"
  by (simp add: extract_fortios_tls_minimum_def Let_def)

definition extractor_types :: "string \<Rightarrow> typed_value_type set" where
  "extractor_types name =
     (if name \<in> {''duration_minutes_seconds'', ''fortios_timeout'', ''duration_minutes''} then {TV_DURATION}
      else if name \<in> {''ssh_version'', ''ntp_key_id''} then {TV_INTEGER}
      else if name \<in> {''logging_destination'', ''ntp_server'', ''fortios_server''}
      then {TV_IP_ADDRESS, TV_STRING}
      else if name = ''fortios_trusthost_network'' then {TV_IP_NETWORK}
      else if name = ''fortios_tls_minimum'' then {TV_ENUM}
      else {TV_BOOLEAN})"

lemmas returns_rules = returns_transport returns_allowaccess returns_endpoint returns_presence
  returns_guarded returns_trusthost returns_timeouts returns_integers returns_access returns_tls

lemma extractor_returns:
  "dict_get EXTRACTORS name = Some f \<Longrightarrow> returns (extractor_types name) (f node)"
  by (auto simp: EXTRACTORS_def dict_get_def extractor_types_def
      extract_transport_telnet_def extract_transport_ssh_def extract_logging_destination_def
      extract_ntp_server_def extract_ntp_configured_def extract_fortios_server_def
      extract_fortios_allowaccess_ssh_def extract_fortios_allowaccess_telnet_def
      extract_fortios_allowaccess_https_def extract_fortios_allowaccess_http_def
      extract_fortios_trusthost_restriction_def
      intro!: returns_rules split: if_splits)

lemma total_rest:
  "\<exists>oc. extract_transport_telnet node = Inr oc" "\<exists>oc. extract_transport_ssh node = Inr oc"
  "\<exists>oc. extract_ssh_version node = Inr oc" "\<exists>oc. extract_logging_destination node = Inr oc"
  "\<exists>oc. extract_ntp_server node = Inr oc"
  "\<exists>oc. extract_fortios_server node = Inr oc"
  "\<exists>oc. extract_fortios_allowaccess_ssh node = Inr oc"
  "\<exists>oc. extract_fortios_allowaccess_telnet node = Inr oc"
  "\<exists>oc. extract_fortios_allowaccess_https node = Inr oc"
  "\<exists>oc. extract_fortios_allowaccess_http node = Inr oc"
  "\<exists>oc. extract_presence_enabled node = Inr oc" "\<exists>oc. extract_presence_disabled node = Inr oc"
  "\<exists>oc. extract_arista_service_acl node = Inr oc" "\<exists>oc. extract_cisco_access_class node = Inr oc"
  "\<exists>oc. extract_fortios_trusthost_network node = Inr oc"
  "\<exists>oc. extract_fortios_tls_minimum node = Inr oc"
  by (simp_all add: extractor_defs extract_transport_protocol_def extract_fortios_allowaccess_def
      extract_endpoint_def Let_def split: option.split)

lemma guarded_total:
  "\<exists>oc. m = Inr oc \<Longrightarrow>
   \<exists>oc. and_then m (\<lambda>oc. if eo_value oc = None then Inr oc else extract_presence_enabled node) = Inr oc"
  by (cases m) (auto simp: extract_presence_enabled_def simp del: and_then_Inr)

lemma total_guarded:
  "\<exists>oc. extract_ntp_configured node = Inr oc"
  "\<exists>oc. extract_fortios_trusthost_restriction node = Inr oc"
  unfolding extract_ntp_configured_def extract_fortios_trusthost_restriction_def
  by (intro guarded_total total_rest)+

lemma int_then_total:
  "\<exists>n. int_of_digits s = Inr n \<Longrightarrow> (\<And>n. \<exists>oc. k n = Inr oc)
    \<Longrightarrow> \<exists>oc. and_then (int_of_digits s) k = Inr oc"
  by auto

text \<open>An extractor fails only on an argument of more than 4300 characters.\<close>

lemma extractor_total:
  assumes "dict_get EXTRACTORS name = Some f" and "\<forall>a \<in> set (cn_arguments node). length a \<le> 4300"
  shows "\<exists>oc. f node = Inr oc"
proof -
  have int: "\<exists>n. int_of_digits a = Inr n" if "a \<in> set (cn_arguments node)" for a
    using assms(2) that by (auto simp: int_of_digits_def not_less)
  have hd: "\<exists>n. int_of_digits (hd (cn_arguments node)) = Inr n"
    if "length (cn_arguments node) = Suc m" for m
    using int that by (cases "cn_arguments node") auto
  have snd: "\<exists>n. int_of_digits (cn_arguments node ! 1) = Inr n" if "\<not> length (cn_arguments node) < 2"
    using int that by simp
  have *: "\<exists>oc. extract_fortios_timeout node = Inr oc" "\<exists>oc. extract_ntp_key_id node = Inr oc"
    "\<exists>oc. extract_fortios_port_enabled node = Inr oc"
    using snd
    by (auto simp: extract_fortios_timeout_def extract_ntp_key_id_def extract_fortios_port_enabled_def
        Let_def simp del: and_then_Inr intro!: int_then_total)
  have "\<exists>oc. extract_duration_minutes node = Inr oc"
    using hd [of 0] by (auto simp: extract_duration_minutes_def Let_def simp del: and_then_Inr
        intro!: int_then_total)
  moreover have "\<exists>oc. extract_timeout_minutes_seconds node = Inr oc"
    using hd [of 0] hd [of 1] snd
    by (auto simp: extract_timeout_minutes_seconds_def Let_def simp del: and_then_Inr
        intro!: int_then_total)
  moreover note *
  ultimately show ?thesis
    using assms(1) by (auto simp: EXTRACTORS_def dict_get_def total_rest total_guarded split: if_splits)
qed

end
