(* ===== verification/Scopes.thy ===== *)
theory Scopes
  imports Extractors
begin

text \<open>
  Scope resolution from the position of a node in its tree (\<open>interpretation/scopes.py\<close>).
\<close>

record scope_outcome =
  so_scope :: "scope_ref option"
  so_context_node :: "config_node option"
  so_diagnostic_code :: "string option"

abbreviation scoped :: "scope_ref \<Rightarrow> config_node option \<Rightarrow> exc + scope_outcome" where
  "scoped s c \<equiv> Inr \<lparr>so_scope = Some s, so_context_node = c, so_diagnostic_code = None\<rparr>"

abbreviation unscoped :: "config_node option \<Rightarrow> string \<Rightarrow> exc + scope_outcome" where
  "unscoped c code \<equiv> Inr \<lparr>so_scope = None, so_context_node = c, so_diagnostic_code = Some code\<rparr>"

definition device_scope :: scope_ref where
  "device_scope = ScopeRef ''device'' ''device'' []"

definition resolve_device_scope :: "config_node \<Rightarrow> structural_ir \<Rightarrow> exc + scope_outcome" where
  "resolve_device_scope node ir = scoped device_scope None"

definition vty_scope :: "nat \<Rightarrow> nat \<Rightarrow> scope_ref" where
  "vty_scope start end' = ScopeRef ''vty_range''
     (''vty:'' @ nat_str start @ ''-'' @ nat_str end')
     [(''start'', PInt (int start)), (''end'', PInt (int end'))]"

definition parent_node :: "config_node \<Rightarrow> structural_ir \<Rightarrow> config_node option" where
  "parent_node node ir = (case cn_parent_id node of None \<Rightarrow> None | Some i \<Rightarrow> ir_node ir i)"

definition resolve_vty_range :: "config_node \<Rightarrow> structural_ir \<Rightarrow> exc + scope_outcome" where
  "resolve_vty_range node ir =
     (case parent_node node ir of
        None \<Rightarrow> unscoped None ''missing_vty_context''
      | Some parent \<Rightarrow>
          (let args = cn_arguments parent
           in if cn_command parent \<noteq> Some ''line'' \<or> length args \<notin> {2, 3}
                 \<or> py_lower (hd args) \<noteq> ''vty'' \<or> \<not> list_all all_digits (tl args)
              then unscoped (Some parent) ''unsupported_vty_scope''
              else and_then (int_of_digits (args ! 1)) (\<lambda>start.
                and_then (if length args = 3 then int_of_digits (args ! 2) else Inr start) (\<lambda>end'.
                if end' < start \<or> 999 < end' then unscoped (Some parent) ''unsupported_vty_scope''
                else scoped (vty_scope start end') (Some parent)))))"

text \<open>
  The FortiOS interface and administrator scopes differ in the table they sit in and in their
  labels; the two source functions are instances of one definition here.
\<close>

definition named_scope :: "string \<Rightarrow> string \<Rightarrow> scope_ref" where
  "named_scope label name = ScopeRef label (label @ '':'' @ name) [(''name'', PStr name)]"

definition resolve_fortios_edit ::
  "string \<Rightarrow> string \<Rightarrow> string \<Rightarrow> config_node \<Rightarrow> structural_ir \<Rightarrow> exc + scope_outcome" where
  "resolve_fortios_edit table label diagnostic node ir =
     (case parent_node node ir of
        None \<Rightarrow> unscoped None diagnostic
      | Some edit \<Rightarrow>
          (case parent_node edit ir of
             None \<Rightarrow> unscoped (Some edit) diagnostic
           | Some config \<Rightarrow>
               if cn_command edit \<noteq> Some ''edit'' \<or> length (cn_arguments edit) \<noteq> 1
                  \<or> cn_command config \<noteq> Some ''config''
                  \<or> map py_lower (cn_arguments config) \<noteq> [''system'', table]
               then unscoped (Some edit) diagnostic
               else (let name = strip_quotes (hd (cn_arguments edit))
                     in if name = [] then unscoped (Some edit) diagnostic
                        else scoped (named_scope label name) (Some edit))))"

definition resolve_fortios_interface :: "config_node \<Rightarrow> structural_ir \<Rightarrow> exc + scope_outcome" where
  "resolve_fortios_interface node ir =
     resolve_fortios_edit ''interface'' ''interface'' ''unsupported_interface_scope'' node ir"

definition resolve_fortios_administrator :: "config_node \<Rightarrow> structural_ir \<Rightarrow> exc + scope_outcome" where
  "resolve_fortios_administrator node ir =
     resolve_fortios_edit ''admin'' ''administrator'' ''unsupported_administrator_scope'' node ir"

definition resolve_arista_management_service ::
  "config_node \<Rightarrow> structural_ir \<Rightarrow> exc + scope_outcome" where
  "resolve_arista_management_service node ir =
     (case parent_node node ir of
        None \<Rightarrow> unscoped None ''unsupported_management_service_scope''
      | Some parent \<Rightarrow>
          if cn_command parent \<noteq> Some ''management'' \<or> map py_lower (cn_arguments parent) \<noteq> [''ssh'']
          then unscoped (Some parent) ''unsupported_management_service_scope''
          else scoped (ScopeRef ''management_service'' ''management:ssh'' [(''service'', PStr ''ssh'')])
            (Some parent))"

definition SCOPE_RESOLVERS ::
  "(string \<times> (config_node \<Rightarrow> structural_ir \<Rightarrow> exc + scope_outcome)) list" where
  "SCOPE_RESOLVERS = [
     (''device'', resolve_device_scope),
     (''vty_range'', resolve_vty_range),
     (''interface'', resolve_fortios_interface),
     (''administrator'', resolve_fortios_administrator),
     (''arista_management_service'', resolve_arista_management_service)]"

definition SCOPE_RESOLVER_TYPES :: "(string \<times> string) list" where
  "SCOPE_RESOLVER_TYPES = [
     (''device'', ''device''),
     (''vty_range'', ''vty_range''),
     (''interface'', ''interface''),
     (''administrator'', ''administrator''),
     (''arista_management_service'', ''management_service'')]"

lemmas scope_resolver_defs = resolve_device_scope_def resolve_vty_range_def
  resolve_fortios_interface_def resolve_fortios_administrator_def resolve_fortios_edit_def
  resolve_arista_management_service_def

declare scope_resolver_defs [run_simps] SCOPE_RESOLVERS_def [run_simps]
  SCOPE_RESOLVER_TYPES_def [run_simps] device_scope_def [run_simps] vty_scope_def [run_simps]
  named_scope_def [run_simps] parent_node_def [run_simps] ir_node_def [run_simps]

text \<open>A resolver yields a scope of the type its table entry declares, with a nonempty key.\<close>

lemma resolver_type:
  assumes "dict_get SCOPE_RESOLVERS r = Some f" and "f node ir = Inr out" and "so_scope out = Some s"
  shows "dict_get SCOPE_RESOLVER_TYPES r = Some (sc_type s) \<and> sc_key s \<noteq> []"
  using assms
  by (auto simp: SCOPE_RESOLVERS_def SCOPE_RESOLVER_TYPES_def dict_get_def scope_resolver_defs
      device_scope_def vty_scope_def named_scope_def Let_def
      split: if_splits option.splits)

lemma resolver_keys: "dict_get SCOPE_RESOLVER_TYPES r = Some t \<Longrightarrow> \<exists>f. dict_get SCOPE_RESOLVERS r = Some f"
  by (auto simp: SCOPE_RESOLVERS_def SCOPE_RESOLVER_TYPES_def dict_get_def split: if_splits)

end
