(* ===== verification/Pack_Validity.thy ===== *)
theory Pack_Validity
  imports Pack_Data Scopes
begin

text \<open>
  The sealed packs pass their own validation: the checks of a mapping as one predicate, its
  evaluation on every tuple of mappings, and the registry of all packs.
\<close>

section \<open>The checks of one mapping\<close>

definition mapping_checks :: "string set \<Rightarrow> (string \<times> string) list \<Rightarrow> declarative_mapping \<Rightarrow> bool" where
  "mapping_checks allowed types m =
     (dm_mapping_id m \<noteq> 0 \<and> dm_mapping_version_id m \<noteq> 0
      \<and> (dm_extractor m \<in> allowed \<or> dm_extractor m = ''training_dsl'')
      \<and> (case (dict_get FIELD_REGISTRY (dm_field_id m), dict_get types (dm_scope_resolver m)) of
           (Some field, Some scope_type) \<Rightarrow>
             dm_declared_value_types m \<noteq> {} \<and> dm_declared_value_types m \<subseteq> cf_expected_types field
             \<and> scope_type \<in> cf_allowed_scope_types field
         | _ \<Rightarrow> False)
      \<and> validate_matcher (dm_matcher m) = Inr ())"

lemma validate_mapping_succeeds:
  assumes "mapping_checks allowed types m"
    and "dm_mapping_id m \<notin> set ids" and "dm_mapping_version_id m \<notin> set vids"
  shows "validate_mapping allowed types m (ids, vids) =
     Inr (dm_mapping_id m # ids, dm_mapping_version_id m # vids)"
  using assms by (auto simp: mapping_checks_def validate_mapping_def split: option.splits)

lemma validate_mappings_succeed:
  assumes "list_all (mapping_checks allowed types) ms"
    and "distinct (map dm_mapping_id ms)" and "set (map dm_mapping_id ms) \<inter> set ids = {}"
    and "distinct (map dm_mapping_version_id ms)" and "set (map dm_mapping_version_id ms) \<inter> set vids = {}"
  shows "\<exists>seen. fold_res (validate_mapping allowed types) ms (ids, vids) = Inr seen"
  using assms
proof (induction ms arbitrary: ids vids)
  case (Cons m ms)
  have "validate_mapping allowed types m (ids, vids) =
      Inr (dm_mapping_id m # ids, dm_mapping_version_id m # vids)"
    using Cons.prems by (intro validate_mapping_succeeds) auto
  moreover have "\<exists>seen. fold_res (validate_mapping allowed types) ms
      (dm_mapping_id m # ids, dm_mapping_version_id m # vids) = Inr seen"
    using Cons.prems by (intro Cons.IH) auto
  ultimately show ?case by simp
qed simp

lemma validate_pack_succeeds:
  assumes "list_all (mapping_checks allowed types) (kp_mappings pack)"
    and "distinct (map dm_mapping_id (kp_mappings pack))"
    and "distinct (map dm_mapping_version_id (kp_mappings pack))"
    and "kp_schema_version pack = ''1.0.0''" and "kp_name pack \<noteq> []" and "kp_version pack \<noteq> []"
    and "kp_knowledge_pack_id pack \<noteq> 0" and "kp_knowledge_pack_version_id pack \<noteq> 0"
  shows "validate_knowledge_pack (kp_profile_id pack) (kp_profile_version_id pack) allowed types pack
    = Inr pack"
  using assms validate_mappings_succeed [of allowed types "kp_mappings pack" "[]" "[]"]
  by (auto simp: validate_knowledge_pack_def)

section \<open>Evaluation on the sealed mappings\<close>

definition built_in :: "declarative_mapping \<Rightarrow> bool" where
  "built_in m = mapping_checks (fst ` set EXTRACTORS) SCOPE_RESOLVER_TYPES m"

lemma command_words:
  "command_pattern ''access-class''"
  "command_pattern ''config''"
  "command_pattern ''edit''"
  "command_pattern ''exec-timeout''"
  "command_pattern ''idle-timeout''"
  "command_pattern ''ip''"
  "command_pattern ''line''"
  "command_pattern ''logging''"
  "command_pattern ''management''"
  "command_pattern ''ntp''"
  "command_pattern ''set''"
  "command_pattern ''shutdown''"
  "command_pattern ''transport''"
  "command_pattern ''unset''"
  "command_pattern ''xml''"
  by (simp_all add: command_pattern_def char_run)
lemma token_words:
  "mapping_token_pattern ''access-group''"
  "mapping_token_pattern ''admin''"
  "mapping_token_pattern ''admin-https-ssl-versions''"
  "mapping_token_pattern ''admin-ssh-port''"
  "mapping_token_pattern ''admin-telnet-port''"
  "mapping_token_pattern ''admintimeout''"
  "mapping_token_pattern ''allowaccess''"
  "mapping_token_pattern ''authenticate''"
  "mapping_token_pattern ''authentication-key''"
  "mapping_token_pattern ''enable''"
  "mapping_token_pattern ''global''"
  "mapping_token_pattern ''host''"
  "mapping_token_pattern ''http''"
  "mapping_token_pattern ''input''"
  "mapping_token_pattern ''interface''"
  "mapping_token_pattern ''log''"
  "mapping_token_pattern ''ntpserver''"
  "mapping_token_pattern ''on''"
  "mapping_token_pattern ''server''"
  "mapping_token_pattern ''setting''"
  "mapping_token_pattern ''ssh''"
  "mapping_token_pattern ''status''"
  "mapping_token_pattern ''syslogd''"
  "mapping_token_pattern ''system''"
  "mapping_token_pattern ''telnet''"
  "mapping_token_pattern ''trusted-key''"
  "mapping_token_pattern ''version''"
  "mapping_token_pattern ''vty''"
  by (simp_all add: mapping_token_pattern_def char_run)

lemma extractor_names:
  "fst ` set EXTRACTORS = {''transport_telnet'', ''transport_ssh'', ''duration_minutes_seconds'',
     ''ssh_version'', ''logging_destination'', ''ntp_server'', ''ntp_configured'', ''fortios_server'',
     ''fortios_port_enabled'', ''fortios_allowaccess_ssh'', ''fortios_allowaccess_telnet'',
     ''fortios_allowaccess_https'', ''fortios_allowaccess_http'', ''fortios_timeout'',
     ''presence_enabled'', ''presence_disabled'', ''duration_minutes'', ''arista_service_acl'',
     ''cisco_access_class'', ''ntp_key_id'', ''fortios_trusthost_network'',
     ''fortios_trusthost_restriction'', ''fortios_tls_minimum''}"
  by (simp add: EXTRACTORS_def)

lemma resolver_entries:
  "dict_get SCOPE_RESOLVER_TYPES ''device'' = Some ''device''"
  "dict_get SCOPE_RESOLVER_TYPES ''vty_range'' = Some ''vty_range''"
  "dict_get SCOPE_RESOLVER_TYPES ''interface'' = Some ''interface''"
  "dict_get SCOPE_RESOLVER_TYPES ''administrator'' = Some ''administrator''"
  "dict_get SCOPE_RESOLVER_TYPES ''arista_management_service'' = Some ''management_service''"
  by (simp_all add: SCOPE_RESOLVER_TYPES_def dict_get_def)

lemmas check_run = built_in_def mapping_checks_def extractor_names resolver_entries field_entries
  validate_matcher_def command_words token_words require_def

lemma cisco_checks:
  "list_all built_in CISCO_LEGACY_MAPPINGS" "list_all built_in CISCO_PHASE8_MAPPINGS"
  by (simp_all add: CISCO_LEGACY_MAPPINGS_def CISCO_B4_MAPPINGS_def CISCO_MAPPINGS_def
      CISCO_PHASE8_MAPPINGS_def check_run)

lemma fortios_checks:
  "list_all built_in FORTIOS_LEGACY_MAPPINGS" "list_all built_in FORTIOS_B4_MAPPINGS"
  "list_all built_in FORTIOS_MAPPINGS" "list_all built_in FORTIOS_PHASE4_MAPPINGS"
proof -
  show b4: "list_all built_in FORTIOS_B4_MAPPINGS"
    by (simp add: FORTIOS_B4_MAPPINGS_def fortios_mapping_def check_run)
  show "list_all built_in FORTIOS_LEGACY_MAPPINGS"
    by (simp add: FORTIOS_LEGACY_MAPPINGS_def check_run)
  have kept: "list_all built_in (filter P FORTIOS_B4_MAPPINGS)" for P
    using b4 by (auto simp: list_all_iff)
  show maps: "list_all built_in FORTIOS_MAPPINGS"
    unfolding FORTIOS_MAPPINGS_def list_all_append
    by (intro conjI kept) (simp add: fortios_mapping_def check_run)
  show "list_all built_in FORTIOS_PHASE4_MAPPINGS"
    unfolding FORTIOS_PHASE4_MAPPINGS_def list_all_append
    by (intro conjI maps) (simp add: fortios_mapping_def check_run)
qed

lemma junos_checks:
  "list_all built_in JUNOS_B4_MAPPINGS" "list_all built_in JUNOS_MAPPINGS"
  "list_all built_in JUNOS_PHASE6_MAPPINGS"
  by (simp_all add: JUNOS_B4_MAPPINGS_def JUNOS_MAPPINGS_def JUNOS_PHASE6_MAPPINGS_def check_run)

lemma arista_checks:
  "list_all built_in ARISTA_MAPPINGS" "list_all built_in ARISTA_PHASE7_MAPPINGS"
  by (simp_all add: ARISTA_MAPPINGS_def ARISTA_PHASE7_MAPPINGS_def arista_mapping_def check_run)

lemma cisco_prefixes: "list_all built_in CISCO_B4_MAPPINGS" "list_all built_in CISCO_MAPPINGS"
  using cisco_checks(2) by (simp_all add: CISCO_PHASE8_MAPPINGS_def CISCO_MAPPINGS_def)

section \<open>All packs\<close>

lemmas pack_defs =
  CISCO_IOS_XE_17_KNOWLEDGE_PACK_V1_def CISCO_IOS_XE_17_KNOWLEDGE_PACK_V1_1_def
  CISCO_IOS_XE_17_KNOWLEDGE_PACK_V1_2_def CISCO_IOS_XE_17_KNOWLEDGE_PACK_def
  FORTIOS_7_KNOWLEDGE_PACK_V1_def FORTIOS_7_KNOWLEDGE_PACK_V1_1_def
  FORTIOS_7_KNOWLEDGE_PACK_V1_2_def FORTIOS_7_KNOWLEDGE_PACK_def
  JUNIPER_JUNOS_18_KNOWLEDGE_PACK_V1_def JUNIPER_JUNOS_18_KNOWLEDGE_PACK_V1_1_def
  JUNIPER_JUNOS_18_KNOWLEDGE_PACK_def ARISTA_EOS_4_KNOWLEDGE_PACK_V1_def
  ARISTA_EOS_4_KNOWLEDGE_PACK_def GENERIC_CLI_KNOWLEDGE_PACK_def
  GENERIC_XML_KNOWLEDGE_PACK_def GENERIC_JSON_KNOWLEDGE_PACK_def

lemmas mapping_lists =
  CISCO_LEGACY_MAPPINGS_def CISCO_B4_MAPPINGS_def CISCO_MAPPINGS_def CISCO_PHASE8_MAPPINGS_def
  FORTIOS_LEGACY_MAPPINGS_def FORTIOS_B4_MAPPINGS_def FORTIOS_MAPPINGS_def
  FORTIOS_PHASE4_MAPPINGS_def JUNOS_B4_MAPPINGS_def JUNOS_MAPPINGS_def JUNOS_PHASE6_MAPPINGS_def
  ARISTA_MAPPINGS_def ARISTA_PHASE7_MAPPINGS_def fortios_mapping_def arista_mapping_def

lemma packs_built_in: "list_all (\<lambda>p. list_all built_in (kp_mappings p)) REGISTERED_PACKS"
  by (simp add: REGISTERED_PACKS_def pack_defs cisco_checks cisco_prefixes fortios_checks
      junos_checks arista_checks)

definition identified :: "declarative_mapping list \<Rightarrow> bool" where
  "identified ms = (distinct (map dm_mapping_id ms) \<and> distinct (map dm_mapping_version_id ms))"

text \<open>Comparing the identifiers as integers is cheaper than comparing them as words.\<close>

lemma identifiedI:
  assumes "distinct (map (\<lambda>m. uint (dm_mapping_id m)) ms)"
    and "distinct (map (\<lambda>m. uint (dm_mapping_version_id m)) ms)"
  shows "identified ms"
  using assms distinct_map [of uint "map dm_mapping_id ms"]
    distinct_map [of uint "map dm_mapping_version_id ms"]
  by (simp add: identified_def o_def)

lemma identified_prefix: "identified (ms @ ns) \<Longrightarrow> identified ms"
  by (simp add: identified_def)

lemma mappings_identified:
  "identified CISCO_LEGACY_MAPPINGS" "identified CISCO_PHASE8_MAPPINGS"
  "identified FORTIOS_LEGACY_MAPPINGS" "identified FORTIOS_B4_MAPPINGS"
  "identified FORTIOS_PHASE4_MAPPINGS" "identified JUNOS_B4_MAPPINGS"
  "identified JUNOS_PHASE6_MAPPINGS" "identified ARISTA_PHASE7_MAPPINGS"
  by (rule identifiedI; code_simp)+

lemma mappings_identified_prefixes:
  "identified CISCO_MAPPINGS" "identified CISCO_B4_MAPPINGS" "identified FORTIOS_MAPPINGS"
  "identified JUNOS_MAPPINGS" "identified ARISTA_MAPPINGS"
proof -
  show cisco: "identified CISCO_MAPPINGS"
    using mappings_identified(2) unfolding CISCO_PHASE8_MAPPINGS_def by (rule identified_prefix)
  then show "identified CISCO_B4_MAPPINGS"
    unfolding CISCO_MAPPINGS_def by (rule identified_prefix)
  show "identified FORTIOS_MAPPINGS"
    using mappings_identified(5) unfolding FORTIOS_PHASE4_MAPPINGS_def by (rule identified_prefix)
  show "identified JUNOS_MAPPINGS"
    using mappings_identified(7) unfolding JUNOS_PHASE6_MAPPINGS_def by (rule identified_prefix)
  show "identified ARISTA_MAPPINGS"
    using mappings_identified(8) unfolding ARISTA_PHASE7_MAPPINGS_def by (rule identified_prefix)
qed

lemma packs_distinct: "list_all (\<lambda>p. identified (kp_mappings p)) REGISTERED_PACKS"
proof -
  have "identified []" by (simp add: identified_def)
  then show ?thesis
    by (simp add: REGISTERED_PACKS_def pack_defs mappings_identified mappings_identified_prefixes)
qed

lemma packs_identity:
  "list_all (\<lambda>p. kp_schema_version p = ''1.0.0'' \<and> kp_name p \<noteq> [] \<and> kp_version p \<noteq> []
     \<and> kp_knowledge_pack_id p \<noteq> 0 \<and> kp_knowledge_pack_version_id p \<noteq> 0) REGISTERED_PACKS"
  by (simp add: REGISTERED_PACKS_def pack_defs)

lemma pack_validates:
  assumes "p \<in> set REGISTERED_PACKS"
  shows "validate_knowledge_pack (kp_profile_id p) (kp_profile_version_id p) (fst ` set EXTRACTORS)
    SCOPE_RESOLVER_TYPES p = Inr p"
  using assms packs_built_in packs_distinct packs_identity
  by (intro validate_pack_succeeds) (auto simp: list_all_iff built_in_def identified_def)

lemma register_packs_succeed:
  assumes "list_all (\<lambda>p. kp_knowledge_pack_id p \<noteq> 0 \<and> kp_knowledge_pack_version_id p \<noteq> 0
      \<and> \<not> py_blank (kp_name p) \<and> \<not> py_blank (kp_version p)) ps"
    and "distinct (map kp_knowledge_pack_version_id ps)" and "distinct (map pack_name ps)"
    and "\<forall>p \<in> set ps. index_by_version idx (kp_knowledge_pack_version_id p) = None
      \<and> index_by_name idx (pack_name p) = None"
  shows "\<exists>idx'. fold_res register_pack ps idx = Inr idx'"
  using assms
proof (induction ps arbitrary: idx)
  case (Cons p ps)
  from Cons.prems obtain t where t: "register_pack p idx = Inr t" by (auto simp: register_pack_Inr)
  have "kp_knowledge_pack_version_id q \<noteq> kp_knowledge_pack_version_id p \<and> pack_name q \<noteq> pack_name p"
    if "q \<in> set ps" for q
    using Cons.prems(2,3) that by (metis distinct.simps(2) imageI list.set_map list.simps(9))
  then have "\<exists>idx'. fold_res register_pack ps t = Inr idx'"
    using Cons.prems by (intro Cons.IH) (simp_all add: packs.add_by_id [OF t] packs.add_by_name [OF t])
  with t show ?case by simp
qed simp

lemma bind_actives_succeed:
  "\<forall>b \<in> set bs. \<exists>p. dict_get bv (snd b) = Some p \<and> kp_profile_version_id p = fst b
    \<Longrightarrow> \<exists>act. fold_res (bind_active bv) bs active = Inr act"
  by (induction bs arbitrary: active) (fastforce simp: bind_active_Inr)+

lemma blank_words:
  "\<not> py_blank ''1.0.0''" "\<not> py_blank ''1.1.0''" "\<not> py_blank ''1.2.0''" "\<not> py_blank ''1.3.0''"
  "\<not> py_blank ''cisco_iosxe_17''" "\<not> py_blank ''fortios_7''" "\<not> py_blank ''juniper_junos_18''"
  "\<not> py_blank ''arista_eos_4''" "\<not> py_blank ''generic_cli''" "\<not> py_blank ''generic_xml''"
  "\<not> py_blank ''generic_json''"
  by (simp_all add: py_blank_iff char_run)

lemma packs_named:
  "list_all (\<lambda>p. kp_knowledge_pack_id p \<noteq> 0 \<and> kp_knowledge_pack_version_id p \<noteq> 0
      \<and> \<not> py_blank (kp_name p) \<and> \<not> py_blank (kp_version p)) REGISTERED_PACKS"
  by (simp add: REGISTERED_PACKS_def pack_defs blank_words)

lemma registry_builds: "\<exists>r. KNOWLEDGE_PACK_REGISTRY = Inr r"
proof -
  let ?empty = "\<lparr>pi_by_version = [], pi_logical_versions = []\<rparr> :: pack_index"
  have "distinct (map uint (map kp_knowledge_pack_version_id REGISTERED_PACKS))"
    by (simp add: REGISTERED_PACKS_def pack_defs)
  then have "distinct (map kp_knowledge_pack_version_id REGISTERED_PACKS)"
    using distinct_map by blast
  moreover have "distinct (map pack_name REGISTERED_PACKS)"
    by (simp add: REGISTERED_PACKS_def pack_defs pack_name_def)
  ultimately have "\<exists>idx. fold_res register_pack REGISTERED_PACKS ?empty = Inr idx"
    by (intro register_packs_succeed packs_named)
      (simp_all add: index_by_version_def index_by_name_def dict_simps)
  then obtain idx where idx: "fold_res register_pack REGISTERED_PACKS ?empty = Inr idx" by blast
  have sub: "set ACTIVE_PACKS \<subseteq> set REGISTERED_PACKS"
    by (auto simp: ACTIVE_PACKS_def REGISTERED_PACKS_def)
  have "dict_get (pi_by_version idx) (kp_knowledge_pack_version_id p) = Some p"
    if "p \<in> set ACTIVE_PACKS" for p
    using packs.adds_bind [OF idx subsetD [OF sub that]] by (simp add: index_by_version_def)
  then have "\<exists>act. fold_res (bind_active (pi_by_version idx))
      (map (\<lambda>p. (kp_profile_version_id p, kp_knowledge_pack_version_id p)) ACTIVE_PACKS) [] = Inr act"
    by (intro bind_actives_succeed) auto
  with idx show ?thesis by (auto simp: KNOWLEDGE_PACK_REGISTRY_def make_pack_registry_def)
qed

text \<open>
  C4. Every sealed pack passes \<open>validate_knowledge_pack\<close> for its own profile, the registry of the
  sixteen packs is built without a conflict, and it finds every pack under its version identifier
  and nothing else.
\<close>

theorem sealed_packs_are_valid:
  "list_all (\<lambda>p. validate_knowledge_pack (kp_profile_id p) (kp_profile_version_id p)
       (fst ` set EXTRACTORS) SCOPE_RESOLVER_TYPES p = Inr p) REGISTERED_PACKS
   \<and> (\<exists>r. KNOWLEDGE_PACK_REGISTRY = Inr r \<and> registry_ok REGISTERED_PACKS r)"
proof -
  obtain r where r: "KNOWLEDGE_PACK_REGISTRY = Inr r" using registry_builds by blast
  then have "registry_ok REGISTERED_PACKS r"
    unfolding KNOWLEDGE_PACK_REGISTRY_def by (rule make_pack_registry_ok)
  with r pack_validates show ?thesis by (metis (mono_tags, lifting) list_all_iff)
qed

end
