(* ===== verification/Effective_Models.thy ===== *)
theory Effective_Models
  imports Security_Model
begin

text \<open>
  The effective-state boundary (\<open>effective_state/contracts.py\<close>, \<open>effective_state/models.py\<close>):
  drafts, their deterministic identifiers, and their validation.  \<open>uuid5\<close> is the parameter of
  the same name (namespace, name to identifier).  The creation time of a draft is not kept.
\<close>

section \<open>Data\<close>

datatype resolution_status = RESOLVED | UNKNOWN | CONFLICTING

datatype unresolved_reason =
    UR_UNKNOWN_SYNTAX | UR_UNKNOWN_SEMANTICS | UR_MISSING_EVIDENCE | UR_UNSUPPORTED_FEATURE
  | UR_AMBIGUOUS_SCOPE | UR_UNRESOLVED_DEFAULT | UR_CONFLICTING_EVIDENCE
  | UR_UNSUPPORTED_VERSION | UR_UNSUPPORTED_PROFILE

fun reason_value :: "unresolved_reason \<Rightarrow> string" where
  "reason_value UR_UNKNOWN_SYNTAX = ''unknown_syntax''"
| "reason_value UR_UNKNOWN_SEMANTICS = ''unknown_semantics''"
| "reason_value UR_MISSING_EVIDENCE = ''missing_evidence''"
| "reason_value UR_UNSUPPORTED_FEATURE = ''unsupported_feature''"
| "reason_value UR_AMBIGUOUS_SCOPE = ''ambiguous_scope''"
| "reason_value UR_UNRESOLVED_DEFAULT = ''unresolved_default''"
| "reason_value UR_CONFLICTING_EVIDENCE = ''conflicting_evidence''"
| "reason_value UR_UNSUPPORTED_VERSION = ''unsupported_version''"
| "reason_value UR_UNSUPPORTED_PROFILE = ''unsupported_profile''"

definition EFFECTIVE_STATE_NAMESPACE :: uuid where
  "EFFECTIVE_STATE_NAMESPACE = 0x0c197da45d9a5c9b859531c2115e4189"

record effective_state_draft =
  es_effective_state_id :: uuid
  es_audit_id :: uuid
  es_device_id :: uuid
  es_field_id :: string
  es_scope :: scope_ref
  es_effective_value :: "typed_value option"
  es_resolution_status :: resolution_status
  es_source_fact_ids :: "uuid list"
  es_resolution_trace :: "pyval list"
  es_inherited_from :: "scope_ref option"
  es_default_reference :: "string option"
  es_referenced_objects :: "pyval list"
  es_precedence_applied :: "pyval list"
  es_unresolved_reason :: "unresolved_reason option"
  es_schema_version :: string

abbreviation state_error :: "string \<Rightarrow> exc" where
  "state_error m \<equiv> Exc EffectiveStateValidationError m"

section \<open>Scopes\<close>

text \<open>\<open>re.fullmatch(r"vty:(\d+)-(\d+)", key)\<close>, and the two groups as integers.\<close>

definition vty_key_parts :: "string \<Rightarrow> (string \<times> string) option" where
  "vty_key_parts key =
     (let rest = drop 4 key;
          a = takeWhile (\<lambda>c. c \<noteq> CHR ''-'') rest; b = drop 1 (dropWhile (\<lambda>c. c \<noteq> CHR ''-'') rest)
      in if prefix ''vty:'' key \<and> CHR ''-'' \<in> set rest \<and> all_digits a \<and> all_digits b
         then Some (a, b) else None)"

definition vty_scope_valid :: "scope_ref \<Rightarrow> exc + bool" where
  "vty_scope_valid scope =
     (let attrs = sc_attributes scope; start = py_get attrs ''start''; end' = py_get attrs ''end''
      in case vty_key_parts (sc_key scope) of
           None \<Rightarrow> Inr False
         | Some (a, b) \<Rightarrow>
             and_then (int_of_digits a) (\<lambda>key_start.
             and_then (int_of_digits b) (\<lambda>key_end.
             Inr (key_start \<le> key_end \<and> key_end \<le> 999
               \<and> (attrs = []
                  \<or> (fst ` set attrs = {''start'', ''end''}
                     \<and> is_int start \<and> \<not> is_bool start \<and> is_int end' \<and> \<not> is_bool end'
                     \<and> int_value start = int key_start \<and> int_value end' = int key_end))))))"

definition named_scope_valid :: "string \<Rightarrow> scope_ref \<Rightarrow> bool" where
  "named_scope_valid label scope =
     (case py_get (sc_attributes scope) ''name'' of
        PStr name \<Rightarrow> name \<noteq> []
          \<and> py_eq (PDict (sc_attributes scope)) (PDict [(''name'', PStr name)])
          \<and> sc_key scope = label @ '':'' @ name
      | _ \<Rightarrow> False)"

definition service_scope_valid :: "scope_ref \<Rightarrow> bool" where
  "service_scope_valid scope =
     (case py_get (sc_attributes scope) ''service'' of
        PStr service \<Rightarrow> service \<in> {''ssh'', ''telnet'', ''http'', ''https''}
          \<and> py_eq (PDict (sc_attributes scope)) (PDict [(''service'', PStr service)])
          \<and> sc_key scope = ''management:'' @ service
      | _ \<Rightarrow> False)"

text \<open>
  The types of the three components are fixed by the record; a dictionary read from JSON is
  checked for them in \<open>scope_from_dict\<close>.
\<close>

definition validate_scope :: "scope_ref \<Rightarrow> exc + unit" where
  "validate_scope scope =
     and_then
       (if sc_type scope = ''device'' then Inr (sc_key scope = ''device'' \<and> sc_attributes scope = [])
        else if sc_type scope = ''vty_range'' then vty_scope_valid scope
        else if sc_type scope = ''interface'' \<or> sc_type scope = ''administrator''
        then Inr (named_scope_valid
          (if sc_type scope = ''interface'' then ''interface'' else ''administrator'') scope)
        else if sc_type scope = ''management_service'' then Inr (service_scope_valid scope)
        else Inr False)
       (\<lambda>valid. require valid (state_error ''ScopeRef is malformed''))"

definition scope_from_dict :: "pyval \<Rightarrow> exc + scope_ref" where
  "scope_from_dict v =
     (case v of
        PDict d \<Rightarrow>
          if fst ` set d = {''type'', ''key'', ''attributes''}
          then (case (py_get d ''type'', py_get d ''key'', py_get d ''attributes'') of
                  (PStr t, PStr k, PDict a) \<Rightarrow>
                    and_then (validate_scope (ScopeRef t k a)) (\<lambda>_. Inr (ScopeRef t k a))
                | _ \<Rightarrow> Inl (state_error ''ScopeRef is malformed''))
          else Inl (state_error ''SecurityFact ScopeRef is malformed'')
      | _ \<Rightarrow> Inl (state_error ''SecurityFact ScopeRef is malformed''))"

definition canonical_scope_key :: "scope_ref \<Rightarrow> exc + string" where
  "canonical_scope_key scope =
     and_then (validate_scope scope) (\<lambda>_. Inr (sc_type scope @ ''::'' @ sc_key scope))"

section \<open>Typed values from dictionaries\<close>

definition typed_value_from_dict :: "pyval \<Rightarrow> exc + typed_value" where
  "typed_value_from_dict v =
     (case v of
        PDict d \<Rightarrow>
          if fst ` set d = {''type'', ''value'', ''unit'', ''original_value'', ''original_unit''}
          then (case tv_of_value (py_get d ''type'') of
                  None \<Rightarrow> Inl (state_error ''SecurityFact TypedValue is malformed'')
                | Some t \<Rightarrow> Inr \<lparr>tv_type = t, tv_val = py_get d ''value'', tv_unit = py_get d ''unit'',
                    tv_original_value = py_get d ''original_value'',
                    tv_original_unit = py_get d ''original_unit''\<rparr>)
          else Inl (state_error ''SecurityFact TypedValue is malformed'')
      | _ \<Rightarrow> Inl (state_error ''SecurityFact TypedValue is malformed''))"

section \<open>Drafts\<close>

definition deterministic_effective_state_id ::
  "(uuid \<Rightarrow> string \<Rightarrow> uuid) \<Rightarrow> uuid \<Rightarrow> string \<Rightarrow> scope_ref \<Rightarrow> exc + uuid" where
  "deterministic_effective_state_id uuid5 audit_id field_id scope =
     and_then (require (audit_id \<noteq> 0 \<and> \<not> py_blank field_id)
       (state_error ''EffectiveState identity is malformed'')) (\<lambda>_.
     and_then (canonical_scope_key scope) (\<lambda>key.
     Inr (uuid5 EFFECTIVE_STATE_NAMESPACE (uuid_str audit_id @ '':'' @ field_id @ '':'' @ key))))"

definition validate_json_collection :: "pyval list \<Rightarrow> exc + unit" where
  "validate_json_collection v =
     require (prefix ''['' (json_dump (PList v))) (state_error ''EffectiveState metadata is malformed'')"

definition validate_effective_value ::
  "string \<Rightarrow> scope_ref \<Rightarrow> typed_value \<Rightarrow> exc + unit" where
  "validate_effective_value field_id scope v =
     raise_from is_value_error (state_error ''EffectiveState value is malformed'')
       (if tv_type v = TV_LIST
        then and_then (py_iter (tv_val v)) (each_res (\<lambda>item.
          and_then (typed_value_from_dict item) (\<lambda>x.
          and_then (validate_field_value_scope field_id x scope) (\<lambda>_. Inr ()))))
        else and_then (validate_field_value_scope field_id v scope) (\<lambda>_. Inr ()))"

text \<open>The combinations of status, value and reason that a draft may have.\<close>

definition status_consistent ::
  "resolution_status \<Rightarrow> typed_value option \<Rightarrow> unresolved_reason option \<Rightarrow> bool" where
  "status_consistent status value reason =
     (case status of
        RESOLVED \<Rightarrow> value \<noteq> None \<and> reason = None
      | UNKNOWN \<Rightarrow> value = None \<and> reason \<noteq> None \<and> reason \<noteq> Some UR_CONFLICTING_EVIDENCE
      | CONFLICTING \<Rightarrow> value = None \<and> reason = Some UR_CONFLICTING_EVIDENCE)"

definition status_error :: "resolution_status \<Rightarrow> exc" where
  "status_error status = state_error (case status of
     RESOLVED \<Rightarrow> ''Resolved EffectiveState requires a value''
   | UNKNOWN \<Rightarrow> ''Unknown EffectiveState requires an unknown reason''
   | CONFLICTING \<Rightarrow> ''Conflicting EffectiveState requires conflict reason'')"

definition validate_effective_state_draft ::
  "(uuid \<Rightarrow> string \<Rightarrow> uuid) \<Rightarrow> effective_state_draft \<Rightarrow> exc + unit" where
  "validate_effective_state_draft uuid5 d =
     and_then (require (es_audit_id d \<noteq> 0 \<and> es_device_id d \<noteq> 0 \<and> \<not> py_blank (es_field_id d))
       (state_error ''EffectiveState identity is malformed'')) (\<lambda>_.
     and_then (deterministic_effective_state_id uuid5 (es_audit_id d) (es_field_id d) (es_scope d)) (\<lambda>expected_id.
     and_then (require (es_effective_state_id d = expected_id)
       (state_error ''EffectiveState ID is not deterministic'')) (\<lambda>_.
     and_then (validate_scope (es_scope d)) (\<lambda>_.
     and_then (case es_inherited_from d of None \<Rightarrow> Inr () | Some s \<Rightarrow> validate_scope s) (\<lambda>_.
     and_then (case es_effective_value d of
         None \<Rightarrow> Inr ()
       | Some v \<Rightarrow> validate_effective_value (es_field_id d) (es_scope d) v) (\<lambda>_.
     and_then (require (distinct (es_source_fact_ids d) \<and> 0 \<notin> set (es_source_fact_ids d))
       (state_error ''EffectiveState source facts are malformed'')) (\<lambda>_.
     and_then (require (status_consistent (es_resolution_status d) (es_effective_value d)
         (es_unresolved_reason d)) (status_error (es_resolution_status d))) (\<lambda>_.
     and_then (require (\<not> py_blank (es_schema_version d))
       (state_error ''EffectiveState schema version is malformed'')) (\<lambda>_.
     each_res validate_json_collection
       [es_resolution_trace d, es_referenced_objects d, es_precedence_applied d])))))))))"

definition make_effective_state_draft ::
  "(uuid \<Rightarrow> string \<Rightarrow> uuid) \<Rightarrow> uuid \<Rightarrow> uuid \<Rightarrow> string \<Rightarrow> scope_ref \<Rightarrow> typed_value option
    \<Rightarrow> resolution_status \<Rightarrow> uuid list \<Rightarrow> pyval list \<Rightarrow> pyval list \<Rightarrow> unresolved_reason option
    \<Rightarrow> exc + effective_state_draft" where
  "make_effective_state_draft uuid5 audit_id device_id field_id scope value status source_fact_ids
       trace precedence reason =
     and_then (deterministic_effective_state_id uuid5 audit_id field_id scope) (\<lambda>i.
     let draft = \<lparr>es_effective_state_id = i, es_audit_id = audit_id, es_device_id = device_id,
       es_field_id = field_id, es_scope = scope, es_effective_value = value,
       es_resolution_status = status, es_source_fact_ids = source_fact_ids,
       es_resolution_trace = trace, es_inherited_from = None, es_default_reference = None,
       es_referenced_objects = [], es_precedence_applied = precedence,
       es_unresolved_reason = reason, es_schema_version = ''1.0.0''\<rparr>
     in and_then (validate_effective_state_draft uuid5 draft) (\<lambda>_. Inr draft))"

section \<open>What validation guarantees\<close>

lemma json_collection_ok [simp]: "validate_json_collection v = Inr ()"
  by (simp add: validate_json_collection_def)

definition draft_ok :: "(uuid \<Rightarrow> string \<Rightarrow> uuid) \<Rightarrow> effective_state_draft \<Rightarrow> bool" where
  "draft_ok uuid5 d \<longleftrightarrow>
     es_audit_id d \<noteq> 0 \<and> es_device_id d \<noteq> 0
     \<and> validate_scope (es_scope d) = Inr ()
     \<and> es_effective_state_id d = uuid5 EFFECTIVE_STATE_NAMESPACE
         (uuid_str (es_audit_id d) @ '':'' @ es_field_id d @ '':'' @ sc_type (es_scope d) @ ''::''
          @ sc_key (es_scope d))
     \<and> distinct (es_source_fact_ids d)
     \<and> status_consistent (es_resolution_status d) (es_effective_value d) (es_unresolved_reason d)
     \<and> (\<forall>v. es_effective_value d = Some v \<longrightarrow>
          validate_effective_value (es_field_id d) (es_scope d) v = Inr ())"

lemma validate_draft_ok: "validate_effective_state_draft uuid5 d = Inr u \<Longrightarrow> draft_ok uuid5 d"
  by (auto simp: validate_effective_state_draft_def draft_ok_def deterministic_effective_state_id_def
      canonical_scope_key_def split: option.splits)

lemma make_draft_Inr:
  assumes "make_effective_state_draft uuid5 a dv f s v st ids tr pr rs = Inr d"
  shows "draft_ok uuid5 d \<and> es_audit_id d = a \<and> es_device_id d = dv \<and> es_field_id d = f
    \<and> es_scope d = s \<and> es_effective_value d = v \<and> es_resolution_status d = st
    \<and> es_source_fact_ids d = ids \<and> es_resolution_trace d = tr \<and> es_precedence_applied d = pr
    \<and> es_unresolved_reason d = rs"
  using assms by (auto simp: make_effective_state_draft_def Let_def dest: validate_draft_ok)

lemma dash_split:
  assumes "all_digits a"
  shows "takeWhile (\<lambda>c. c \<noteq> CHR ''-'') (a @ CHR ''-'' # b) = a
    \<and> dropWhile (\<lambda>c. c \<noteq> CHR ''-'') (a @ CHR ''-'' # b) = CHR ''-'' # b"
proof -
  have "CHR ''-'' \<notin> set a" using assms by (auto simp: all_digits_def list_all_iff is_digit_def code_of_def)
  then show ?thesis by (induction a) auto
qed

lemma vty_key_parts_digits:
  "vty_key_parts k = Some (a, b) \<Longrightarrow> all_digits a \<and> all_digits b \<and> k = ''vty:'' @ a @ ''-'' @ b"
proof -
  assume some: "vty_key_parts k = Some (a, b)"
  define r where "r = drop 4 k"
  from some have dash: "CHR ''-'' \<in> set r" and digits: "all_digits a \<and> all_digits b"
    and a: "a = takeWhile (\<lambda>c. c \<noteq> CHR ''-'') r" and b: "b = drop 1 (dropWhile (\<lambda>c. c \<noteq> CHR ''-'') r)"
    and pre: "prefix ''vty:'' k"
    by (auto simp: vty_key_parts_def Let_def r_def split: if_splits)
  from pre have k: "k = ''vty:'' @ r" by (auto simp: prefix_def r_def)
  have "dropWhile (\<lambda>c. c \<noteq> CHR ''-'') r \<noteq> []" using dash by (auto simp: dropWhile_eq_Nil_conv)
  then have "dropWhile (\<lambda>c. c \<noteq> CHR ''-'') r = CHR ''-'' # b"
    unfolding b using hd_dropWhile [of "\<lambda>c. c \<noteq> CHR ''-''" r]
    by (cases "dropWhile (\<lambda>c. c \<noteq> CHR ''-'') r") auto
  then have "r = a @ ''-'' @ b" unfolding a by (metis append_Cons append_Nil takeWhile_dropWhile_id)
  with digits k show ?thesis by simp
qed

lemma vty_key_parts_of:
  assumes "all_digits a" and "all_digits b"
  shows "vty_key_parts (''vty:'' @ a @ ''-'' @ b) = Some (a, b)"
proof -
  from assms dash_split [OF assms(1), of b] show ?thesis by (simp add: vty_key_parts_def)
qed

text \<open>The bounds of a VTY scope that passed validation.\<close>

lemma valid_vty_scope:
  assumes "validate_scope s = Inr ()" and "sc_type s = ''vty_range''"
  shows "\<exists>a b. vty_key_parts (sc_key s) = Some (a, b) \<and> length a \<le> 4300 \<and> length b \<le> 4300
    \<and> digits_value a \<le> digits_value b \<and> digits_value b \<le> 999"
  using assms
  by (auto simp: validate_scope_def vty_scope_valid_def int_of_digits_def Let_def not_less
      split: option.splits prod.splits if_splits)

text \<open>Every scope that the partitions build is valid.\<close>

lemma vty_scope_built:
  assumes "m \<le> n" and "n \<le> 999"
  shows "validate_scope (ScopeRef ''vty_range'' (''vty:'' @ nat_str m @ ''-'' @ nat_str n)
    [(''start'', PInt (int m)), (''end'', PInt (int n))]) = Inr ()"
proof -
  have short: "length (nat_str k) \<le> 3" if "k \<le> 999" for k
    using that by (intro length_nat_str) auto
  have "vty_key_parts (''vty:'' @ nat_str m @ ''-'' @ nat_str n) = Some (nat_str m, nat_str n)"
    by (intro vty_key_parts_of nat_str_all_digits)
  moreover have "length (nat_str m) \<le> 3" "length (nat_str n) \<le> 3" using short assms by auto
  ultimately show ?thesis
    using assms
    by (auto simp: validate_scope_def vty_scope_valid_def int_of_digits_def py_get_def dict_get_def Let_def)
qed

end
