(* ===== verification/Effective_Policy.thy ===== *)
theory Effective_Policy
  imports Pack_Data Effective_Models
begin

text \<open>
  Resolution policies (\<open>effective_state/policy.py\<close>): one policy per canonical field, and the
  operation (assign, reset, remove) that each mapping version of each pack stands for.
\<close>

section \<open>Data\<close>

datatype field_cardinality = SCALAR | REPEATABLE

datatype fact_operation = ASSIGN | RESET | REMOVE

fun operation_value :: "fact_operation \<Rightarrow> string" where
  "operation_value ASSIGN = ''assign''"
| "operation_value RESET = ''reset''"
| "operation_value REMOVE = ''remove''"

record field_resolution_policy =
  fp_field_id :: string
  fp_cardinality :: field_cardinality
  fp_legal_scope_types :: "string set"
  fp_precedence_categories :: "string list"
  fp_inheritance_scope_types :: "string list"

datatype mapping_operation_policy = MappingOperationPolicy
  (mp_knowledge_pack_version_id: uuid)
  (mp_mapping_version_id: uuid)
  (mp_field_id: string)
  (mp_operation: fact_operation)

section \<open>Field policies\<close>

definition field_policy :: "string \<times> canonical_field \<Rightarrow> string \<times> field_resolution_policy" where
  "field_policy entry = (case entry of (field_id, field) \<Rightarrow>
     (field_id, \<lparr>fp_field_id = field_id,
        fp_cardinality = (if cf_repeatable field then REPEATABLE else SCALAR),
        fp_legal_scope_types = cf_allowed_scope_types field,
        fp_precedence_categories = [''same_artifact_source_order''],
        fp_inheritance_scope_types = []\<rparr>))"

definition FIELD_POLICIES :: "(string \<times> field_resolution_policy) list" where
  "FIELD_POLICIES = map field_policy FIELD_REGISTRY"

definition get_field_policy :: "string \<Rightarrow> exc + field_resolution_policy" where
  "get_field_policy field_id = (case dict_get FIELD_POLICIES field_id of
     None \<Rightarrow> Inl (state_error ''EffectiveState field policy is unavailable'')
   | Some p \<Rightarrow> Inr p)"

section \<open>Mapping operation policies\<close>

definition LEGACY_KNOWLEDGE_PACK_VERSION_ID :: uuid where
  "LEGACY_KNOWLEDGE_PACK_VERSION_ID = 0x17e3e91317df53bfb8c15cae4bfa133e"

definition LEGACY_MAPPING_VERSION_IDS :: "(string \<times> uuid) list" where
  "LEGACY_MAPPING_VERSION_IDS = [
     (''management.remote.telnet.enabled'', 0x4e5634f2c0f2529e912fe42139aed61e),
     (''management.remote.ssh.enabled'', 0x82f62960c06e5ee1a1ceccd574ead730),
     (''management.session.idle_timeout'', 0xa153b5c4786d59409fc72906ea7d42c7),
     (''management.remote.ssh.version'', 0x4b13928b98eb5dc2a739d978d5c8bd95),
     (''logging.remote.destination'', 0xf112df12f8605fadb0137b89701d2fcf),
     (''time.ntp.server'', 0x31eadc31751e5451bdd72532a26c9710)]"

definition ACTIVE_MAPPING_POLICIES :: "mapping_operation_policy list" where
  "ACTIVE_MAPPING_POLICIES = map (\<lambda>m. MappingOperationPolicy
       (kp_knowledge_pack_version_id CISCO_IOS_XE_17_KNOWLEDGE_PACK)
       (dm_mapping_version_id m) (dm_field_id m) ASSIGN)
     (kp_mappings CISCO_IOS_XE_17_KNOWLEDGE_PACK)"

definition ACTIVE_OPERATION_POLICIES :: "mapping_operation_policy list" where
  "ACTIVE_OPERATION_POLICIES =
     concat (map (\<lambda>m. case dm_reset_mapping_version_id m of None \<Rightarrow> []
       | Some v \<Rightarrow> [MappingOperationPolicy (kp_knowledge_pack_version_id CISCO_IOS_XE_17_KNOWLEDGE_PACK)
           v (dm_field_id m) RESET]) (kp_mappings CISCO_IOS_XE_17_KNOWLEDGE_PACK))
     @ concat (map (\<lambda>m. case dm_removal_mapping_version_id m of None \<Rightarrow> []
       | Some v \<Rightarrow> [MappingOperationPolicy (kp_knowledge_pack_version_id CISCO_IOS_XE_17_KNOWLEDGE_PACK)
           v (dm_field_id m) REMOVE]) (kp_mappings CISCO_IOS_XE_17_KNOWLEDGE_PACK))"

definition FORTIOS_LEGACY_MAPPING_POLICIES :: "mapping_operation_policy list" where
  "FORTIOS_LEGACY_MAPPING_POLICIES = map
     (\<lambda>(v, f, op). MappingOperationPolicy 0xa1b2c3d422225aaa8aaa000000000013 v f op)
     [(0xa1b2c3d441015aaa8aaa000000000013, ''management.remote.telnet.enabled'', ASSIGN),
      (0xa1b2c3d442015aaa8aaa000000000013, ''management.remote.telnet.enabled'', RESET),
      (0xa1b2c3d441025aaa8aaa000000000013, ''management.remote.ssh.enabled'', ASSIGN),
      (0xa1b2c3d442025aaa8aaa000000000013, ''management.remote.ssh.enabled'', RESET),
      (0xa1b2c3d441035aaa8aaa000000000013, ''management.session.idle_timeout'', ASSIGN),
      (0xa1b2c3d442035aaa8aaa000000000013, ''management.session.idle_timeout'', RESET),
      (0xa1b2c3d441045aaa8aaa000000000013, ''logging.remote.destination'', ASSIGN),
      (0xa1b2c3d441055aaa8aaa000000000013, ''time.ntp.server'', ASSIGN)]"

definition FORTIOS_CURRENT_MAPPING_POLICIES :: "mapping_operation_policy list" where
  "FORTIOS_CURRENT_MAPPING_POLICIES = map
     (\<lambda>(v, f, op). MappingOperationPolicy 0xa1b2c3d433335aaa8aaa000000000013 v f op)
     [(0xa1b2c3d461015aaa8aaa000000000013, ''management.remote.telnet.enabled'', ASSIGN),
      (0xa1b2c3d462015aaa8aaa000000000013, ''management.remote.telnet.enabled'', RESET),
      (0xa1b2c3d461025aaa8aaa000000000013, ''management.remote.ssh.enabled'', ASSIGN),
      (0xa1b2c3d462025aaa8aaa000000000013, ''management.remote.ssh.enabled'', RESET),
      (0xa1b2c3d461035aaa8aaa000000000013, ''management.session.idle_timeout'', ASSIGN),
      (0xa1b2c3d462035aaa8aaa000000000013, ''management.session.idle_timeout'', RESET),
      (0xa1b2c3d461045aaa8aaa000000000013, ''logging.remote.destination'', ASSIGN),
      (0xa1b2c3d461055aaa8aaa000000000013, ''time.ntp.server'', ASSIGN)]"

definition LEGACY_MAPPING_POLICIES :: "mapping_operation_policy list" where
  "LEGACY_MAPPING_POLICIES = map (\<lambda>(f, v).
     MappingOperationPolicy LEGACY_KNOWLEDGE_PACK_VERSION_ID v f ASSIGN) LEGACY_MAPPING_VERSION_IDS"

definition declared_policies_of :: "uuid \<Rightarrow> declarative_mapping \<Rightarrow> mapping_operation_policy list" where
  "declared_policies_of pack_id m =
     MappingOperationPolicy pack_id (dm_mapping_version_id m) (dm_field_id m) ASSIGN
     # (case dm_reset_mapping_version_id m of None \<Rightarrow> []
        | Some v \<Rightarrow> [MappingOperationPolicy pack_id v (dm_field_id m) RESET])
     @ (case dm_removal_mapping_version_id m of None \<Rightarrow> []
        | Some v \<Rightarrow> [MappingOperationPolicy pack_id v (dm_field_id m) REMOVE])"

definition declared_mapping_policies :: "knowledge_pack list \<Rightarrow> mapping_operation_policy list" where
  "declared_mapping_policies packs = concat (map (\<lambda>p.
     concat (map (declared_policies_of (kp_knowledge_pack_version_id p)) (kp_mappings p))) packs)"

definition SEALED_PACK_MAPPING_POLICIES :: "mapping_operation_policy list" where
  "SEALED_PACK_MAPPING_POLICIES = declared_mapping_policies
     [CISCO_IOS_XE_17_KNOWLEDGE_PACK_V1_1, CISCO_IOS_XE_17_KNOWLEDGE_PACK_V1_2,
      CISCO_IOS_XE_17_KNOWLEDGE_PACK, FORTIOS_7_KNOWLEDGE_PACK_V1_1, FORTIOS_7_KNOWLEDGE_PACK_V1_2,
      FORTIOS_7_KNOWLEDGE_PACK, JUNIPER_JUNOS_18_KNOWLEDGE_PACK_V1,
      JUNIPER_JUNOS_18_KNOWLEDGE_PACK_V1_1, JUNIPER_JUNOS_18_KNOWLEDGE_PACK,
      ARISTA_EOS_4_KNOWLEDGE_PACK_V1, ARISTA_EOS_4_KNOWLEDGE_PACK]"

definition all_mapping_policies :: "mapping_operation_policy list" where
  "all_mapping_policies =
     LEGACY_MAPPING_POLICIES @ FORTIOS_LEGACY_MAPPING_POLICIES @ FORTIOS_CURRENT_MAPPING_POLICIES
     @ ACTIVE_MAPPING_POLICIES @ ACTIVE_OPERATION_POLICIES @ SEALED_PACK_MAPPING_POLICIES"

definition policy_key :: "mapping_operation_policy \<Rightarrow> uuid \<times> uuid" where
  "policy_key p = (mp_knowledge_pack_version_id p, mp_mapping_version_id p)"

definition MAPPING_OPERATION_POLICIES :: "((uuid \<times> uuid) \<times> mapping_operation_policy) list" where
  "MAPPING_OPERATION_POLICIES =
     foldl (\<lambda>d p. dict_put (policy_key p) p d) [] all_mapping_policies"

definition get_mapping_operation_policy ::
  "uuid \<Rightarrow> uuid option \<Rightarrow> string \<Rightarrow> exc + mapping_operation_policy" where
  "get_mapping_operation_policy pack_id mapping_id field_id =
     (case mapping_id of
        None \<Rightarrow> Inl (state_error ''SecurityFact mapping provenance is missing'')
      | Some v \<Rightarrow>
          (case dict_get MAPPING_OPERATION_POLICIES (pack_id, v) of
             None \<Rightarrow> Inl (state_error ''SecurityFact mapping provenance is incompatible'')
           | Some p \<Rightarrow>
               if mp_field_id p \<noteq> field_id
               then Inl (state_error ''SecurityFact mapping provenance is incompatible'')
               else Inr p))"

definition get_sealed_mapping_operation_policy ::
  "uuid option \<Rightarrow> string \<Rightarrow> exc + mapping_operation_policy" where
  "get_sealed_mapping_operation_policy mapping_id field_id =
     (let matches = foldl (\<lambda>d p. dict_put (mp_field_id p, mp_operation p) p d) []
            (filter (\<lambda>p. Some (mp_mapping_version_id p) = mapping_id \<and> mp_field_id p = field_id)
              (map snd MAPPING_OPERATION_POLICIES))
      in case matches of
           [(_, p)] \<Rightarrow> Inr p
         | _ \<Rightarrow> Inl (state_error ''SecurityFact mapping provenance is incompatible''))"

section \<open>Validation of the policy tables\<close>

text \<open>
  The table of documented defaults is empty; its keys are (profile version, pack version, field,
  scope type).
\<close>

type_synonym default_table = "((string \<times> uuid \<times> string \<times> string) \<times> pyval) list"

definition DOCUMENTED_DEFAULTS :: default_table where "DOCUMENTED_DEFAULTS = []"

definition field_policy_ok :: "string \<times> field_resolution_policy \<Rightarrow> bool" where
  "field_policy_ok entry = (case entry of (field_id, p) \<Rightarrow>
     (case dict_get FIELD_REGISTRY field_id of None \<Rightarrow> False | Some field \<Rightarrow>
        fp_field_id p = field_id \<and> fp_legal_scope_types p = cf_allowed_scope_types field
        \<and> fp_precedence_categories p \<noteq> []
        \<and> list_all (\<lambda>c. c = ''same_artifact_source_order'') (fp_precedence_categories p)
        \<and> fp_inheritance_scope_types p = []))"

definition mapping_policy_ok :: "(uuid \<times> uuid) \<times> mapping_operation_policy \<Rightarrow> bool" where
  "mapping_policy_ok entry = (case entry of (key, p) \<Rightarrow>
     policy_key p = key \<and> dict_get FIELD_POLICIES (mp_field_id p) \<noteq> None)"

definition default_ok :: "(string \<times> uuid \<times> string \<times> string) \<times> pyval \<Rightarrow> bool" where
  "default_ok entry = (case entry of ((_, _, field_id, scope_type), v) \<Rightarrow>
     (case dict_get FIELD_POLICIES field_id of None \<Rightarrow> False
      | Some p \<Rightarrow> scope_type \<in> fp_legal_scope_types p)
     \<and> is_dict v \<and> fst ` set (dict_items v) = {''reference'', ''value''})"

definition validate_policy_metadata ::
  "(string \<times> field_resolution_policy) list \<Rightarrow> ((uuid \<times> uuid) \<times> mapping_operation_policy) list
    \<Rightarrow> default_table \<Rightarrow> exc + unit" where
  "validate_policy_metadata field_policies mapping_policies registry =
     and_then (require (list_all field_policy_ok field_policies)
       (state_error ''EffectiveState field policy is malformed'')) (\<lambda>_.
     and_then (require (list_all mapping_policy_ok mapping_policies)
       (state_error ''EffectiveState mapping policy is malformed'')) (\<lambda>_.
     require (list_all default_ok registry)
       (state_error ''Documented default metadata is malformed'')))"

definition lookup_documented_default ::
  "string \<Rightarrow> uuid \<Rightarrow> string \<Rightarrow> string \<Rightarrow> default_table \<Rightarrow> exc + pyval option" where
  "lookup_documented_default profile pack field_id scope_type registry =
     and_then (validate_policy_metadata FIELD_POLICIES MAPPING_OPERATION_POLICIES registry) (\<lambda>_.
     Inr (dict_get registry (profile, pack, field_id, scope_type)))"

section \<open>Looking up the last binding\<close>

lemma dict_of_get:
  "dict_get (foldl (\<lambda>d x. dict_put (f x) x d) [] xs) k = find (\<lambda>x. f x = k) (rev xs)"
  by (induction xs rule: rev_induct) (auto simp: dict_simps)

lemma policy_lookup:
  "dict_get MAPPING_OPERATION_POLICIES k = find (\<lambda>p. policy_key p = k) (rev all_mapping_policies)"
  unfolding MAPPING_OPERATION_POLICIES_def by (rule dict_of_get)

lemma field_policies_get:
  "dict_get FIELD_POLICIES f = map_option (\<lambda>field. snd (field_policy (f, field))) (dict_get FIELD_REGISTRY f)"
proof -
  have "dict_get (map field_policy d) f = map_option (\<lambda>field. snd (field_policy (f, field))) (dict_get d f)"
    for d
    by (induction d) (auto simp: dict_get_def field_policy_def)
  then show ?thesis by (simp add: FIELD_POLICIES_def)
qed

lemma get_field_policy_field:
  "get_field_policy f = Inr p \<Longrightarrow> \<exists>field. get_field f = Inr field
     \<and> fp_legal_scope_types p = cf_allowed_scope_types field \<and> fp_field_id p = f
     \<and> (fp_cardinality p = REPEATABLE \<longleftrightarrow> cf_repeatable field)"
  by (auto simp: get_field_policy_def get_field_def field_policies_get field_policy_def
      split: option.splits if_splits)

lemma field_policies_ok: "list_all field_policy_ok FIELD_POLICIES"
proof -
  have get: "dict_get FIELD_REGISTRY k = Some field" if "(k, field) \<in> set FIELD_REGISTRY" for k field
    using that get_field_registered [of field]
    by (auto simp: FIELD_REGISTRY_eq get_field_def split: option.splits)
  show ?thesis
    by (auto simp: FIELD_POLICIES_def list_all_iff field_policy_ok_def field_policy_def dest: get)
qed

text \<open>The last binding of a key wins, so a search from the end of the table finds the policy.\<close>

lemma policy_found:
  "find (\<lambda>p. policy_key p = (pack, v)) (rev all_mapping_policies) = Some p \<Longrightarrow> mp_field_id p = f
    \<Longrightarrow> get_mapping_operation_policy pack (Some v) f = Inr p"
  by (simp add: get_mapping_operation_policy_def policy_lookup)

end
