(* ===== verification/Resolver.thy ===== *)
theory Resolver
  imports Effective_Policy "HOL-Library.Multiset"
begin

text \<open>
  Deterministic resolution of persisted facts (\<open>effective_state/resolver.py\<close>): dependency
  blocking, classification, partition of VTY ranges, the ordered winner of a group of facts, and
  the resolution of scalar and repeatable fields.  Facts of one call have distinct identifiers
  (the primary key of their table); the order of a Python set of UUIDs is taken to be the order
  of first insertion, and no result depends on it (see \<open>Resolver_Props\<close>).
\<close>

section \<open>Dependencies\<close>

definition MAX_TRACE_ENTRIES :: nat where "MAX_TRACE_ENTRIES = 128"

text \<open>The parsed dependencies of a fact, and whether one of them is malformed or missing.\<close>

definition fact_dependencies :: "security_fact \<Rightarrow> uuid list" where
  "fact_dependencies fct = uniq (List.map_filter uuid_of_pyval (sf_dependencies fct))"

definition dependency_missing :: "uuid set \<Rightarrow> security_fact \<Rightarrow> bool" where
  "dependency_missing ids fct = list_ex (\<lambda>v. case uuid_of_pyval v of
     None \<Rightarrow> True | Some d \<Rightarrow> d \<notin> ids) (sf_dependencies fct)"

definition dependency_graph :: "security_fact list \<Rightarrow> (uuid \<times> uuid list) list" where
  "dependency_graph facts = foldl (\<lambda>g f. dict_put (sf_fact_id f) (fact_dependencies f) g) [] facts"

text \<open>
  The walk from one root.  The stack is a list whose head is its top; \<open>blocked\<close> records an edge
  back to the root, which does not stop the walk.
\<close>

function dependency_walk ::
  "(uuid \<times> uuid list) list \<Rightarrow> uuid \<Rightarrow> uuid list \<Rightarrow> uuid list \<Rightarrow> bool \<Rightarrow> bool" where
  "dependency_walk graph root seen [] blocked = blocked"
| "dependency_walk graph root seen (current # stack) blocked =
     (if current \<in> set seen \<or> 128 \<le> length seen then True
      else (let deps = (case dict_get graph current of None \<Rightarrow> [] | Some ds \<Rightarrow> ds)
            in dependency_walk graph root (current # seen)
                 (rev (filter (\<lambda>d. d \<noteq> root \<and> dict_get graph d \<noteq> None) deps) @ stack)
                 (blocked \<or> root \<in> set deps)))"
  by pat_completeness auto
termination
  by (relation "measures [\<lambda>(g, r, seen, st, b). 128 - length seen, \<lambda>(g, r, seen, st, b). length st]") auto

definition blocked_dependency_ids :: "security_fact list \<Rightarrow> uuid list" where
  "blocked_dependency_ids facts =
     (let ids = sf_fact_id ` set facts; graph = dependency_graph facts
      in map sf_fact_id (filter (dependency_missing ids) facts)
         @ filter (\<lambda>root. dependency_walk graph root [] [root] False) (map fst graph))"

section \<open>Classification\<close>

record classified_fact =
  cl_fact :: security_fact
  cl_scope :: scope_ref
  cl_value :: typed_value
  cl_operation :: fact_operation
  cl_artifact_id :: pyval
  cl_source_line :: int

definition ge_one :: "pyval \<Rightarrow> bool" where
  "ge_one v = (is_int v \<and> 1 \<le> int_value v)"

definition reference_position :: "pyval \<Rightarrow> exc + int list" where
  "reference_position v =
     (case v of
        PDict d \<Rightarrow>
          if ge_one (py_get d ''start_line'') then Inr [int_value (py_get d ''start_line'')]
          else if ge_one (py_get d ''structured_order'')
          then Inr [int_value (py_get d ''structured_order'')]
          else Inl (state_error ''SecurityFact ordering provenance is malformed'')
      | _ \<Rightarrow> Inr [])"

definition reference_artifacts :: "pyval list \<Rightarrow> exc + pyval list" where
  "reference_artifacts refs =
     (let values = map (\<lambda>r. py_get (dict_items r) ''artifact_id'') (filter is_dict refs)
      in and_then (require (list_all hashable values) (Exc TypeError ''unhashable type'')) (\<lambda>_.
         Inr (py_uniq values)))"

definition classify ::
  "security_fact \<Rightarrow> fact_operation option \<Rightarrow> exc + classified_fact" where
  "classify fct persisted_operation =
     and_then (scope_from_dict (sf_scope fct)) (\<lambda>scope.
     and_then (typed_value_from_dict (sf_value fct)) (\<lambda>value.
     and_then (case persisted_operation of
         Some op \<Rightarrow> Inr op
       | None \<Rightarrow> and_then (get_mapping_operation_policy (sf_knowledge_pack_version_id fct)
           (sf_mapping_version_id fct) (sf_field_id fct)) (\<lambda>p. Inr (mp_operation p))) (\<lambda>operation.
     (case sf_evidence_refs fct of
        PList refs \<Rightarrow>
          and_then (require (refs \<noteq> []) (state_error ''SecurityFact ordering provenance is missing'')) (\<lambda>_.
          and_then (reference_artifacts refs) (\<lambda>artifact_ids.
          and_then (map_res reference_position refs) (\<lambda>positions.
          and_then (require (length artifact_ids = 1 \<and> artifact_ids \<noteq> [PNone] \<and> concat positions \<noteq> [])
            (state_error ''SecurityFact ordering provenance is malformed'')) (\<lambda>_.
          and_then (require (\<not> (operation = RESET \<and> tv_type value \<noteq> TV_NULL))
            (state_error ''SecurityFact reset value is malformed'')) (\<lambda>_.
          and_then (require (\<not> (operation = REMOVE \<and> tv_type value = TV_NULL))
            (state_error ''SecurityFact removal value is malformed'')) (\<lambda>_.
          Inr \<lparr>cl_fact = fct, cl_scope = scope, cl_value = value, cl_operation = operation,
            cl_artifact_id = hd artifact_ids,
            cl_source_line = Min (set (concat positions))\<rparr>))))))
      | _ \<Rightarrow> Inl (state_error ''SecurityFact ordering provenance is missing'')))))"

section \<open>Keys and traces\<close>

abbreviation cl_id :: "classified_fact \<Rightarrow> uuid" where
  "cl_id c \<equiv> sf_fact_id (cl_fact c)"

abbreviation cl_ids :: "classified_fact \<Rightarrow> string" where
  "cl_ids c \<equiv> uuid_str (sf_fact_id (cl_fact c))"

definition value_key :: "typed_value \<Rightarrow> string" where
  "value_key v = json_dump (PDict (typed_value_to_dict v))"

definition trace :: "string \<Rightarrow> (string \<times> pyval) list \<Rightarrow> pyval" where
  "trace event values = PDict ((''event'', PStr event) # values)"

definition bounded :: "pyval list \<Rightarrow> pyval list" where
  "bounded tr = take MAX_TRACE_ENTRIES tr"

definition sorted_ids :: "classified_fact list \<Rightarrow> uuid list" where
  "sorted_ids facts = sort_key uuid_str (uniq (map cl_id facts))"

definition input_trace :: "classified_fact list \<Rightarrow> pyval list" where
  "input_trace facts = map (\<lambda>c. trace ''input_fact''
     [(''fact_id'', PStr (cl_ids c)), (''scope_key'', PStr (sc_key (cl_scope c)))]) facts"

section \<open>The winner of a group\<close>

definition effect :: "classified_fact \<Rightarrow> fact_operation \<times> string" where
  "effect c = (cl_operation c, value_key (cl_value c))"

text \<open>The list is never empty: every caller passes the members of one group.\<close>

definition ordered_winner :: "classified_fact list \<Rightarrow> classified_fact \<times> bool" where
  "ordered_winner facts =
     (if 1 < length (py_uniq (map cl_artifact_id facts)) then
        (hd (sort_key cl_ids facts), 1 < length (uniq (map effect facts)))
      else
        (let ordered = sort_key (\<lambda>c. (cl_source_line c, cl_ids c)) facts;
             final_line = cl_source_line (last ordered)
         in (last ordered,
             1 < length (uniq (map effect (filter (\<lambda>c. cl_source_line c = final_line) ordered))))))"

section \<open>Drafts of one field\<close>


definition unknown_draft ::
  "(uuid \<Rightarrow> string \<Rightarrow> uuid) \<Rightarrow> uuid \<Rightarrow> uuid \<Rightarrow> string \<Rightarrow> scope_ref \<Rightarrow> uuid list \<Rightarrow> pyval list
    \<Rightarrow> unresolved_reason \<Rightarrow> bool \<Rightarrow> exc + effective_state_draft" where
  "unknown_draft uuid5 audit device field_id scope source_ids tr reason conflict =
     make_effective_state_draft uuid5 audit device field_id scope None
       (if conflict then CONFLICTING else UNKNOWN) source_ids (bounded tr) []
       (Some (if conflict then UR_CONFLICTING_EVIDENCE else reason))"

definition resolve_scalar_scope ::
  "(uuid \<Rightarrow> string \<Rightarrow> uuid) \<Rightarrow> uuid \<Rightarrow> uuid \<Rightarrow> string \<Rightarrow> scope_ref \<Rightarrow> classified_fact list
    \<Rightarrow> exc + effective_state_draft" where
  "resolve_scalar_scope uuid5 audit device field_id scope facts =
     (let tr = input_trace facts; (winner, conflict) = ordered_winner facts;
          source_ids = sorted_ids facts; winner_id = (''fact_id'', PStr (cl_ids winner))
      in if conflict then
           unknown_draft uuid5 audit device field_id scope source_ids
             (tr @ [trace ''conflict_detected'' []]) UR_CONFLICTING_EVIDENCE True
         else if cl_operation winner = RESET then
           unknown_draft uuid5 audit device field_id scope source_ids
             (tr @ [trace ''default_missing'' [winner_id]]) UR_UNRESOLVED_DEFAULT False
         else if cl_operation winner \<noteq> ASSIGN then
           unknown_draft uuid5 audit device field_id scope source_ids
             (tr @ [trace ''unresolved'' []]) UR_UNKNOWN_SEMANTICS False
         else
           (let equivalent = filter (\<lambda>c. value_key (cl_value c) = value_key (cl_value winner)) facts;
                tr' = tr
                  @ (if 1 < length equivalent
                     then [trace ''duplicate_collapsed''
                       [(''fact_ids'', PList (map (\<lambda>c. PStr (cl_ids c)) equivalent))]] else [])
                  @ [trace ''explicit_selected'' [winner_id]]
            in make_effective_state_draft uuid5 audit device field_id scope (Some (cl_value winner))
                 RESOLVED source_ids (bounded tr')
                 (if 1 < length facts
                  then [PDict [(''rule'', PStr ''same_artifact_source_order''),
                    (''winner_fact_id'', PStr (cl_ids winner))]] else [])
                 None))"

section \<open>VTY ranges\<close>

definition vty_bounds :: "scope_ref \<Rightarrow> exc + int \<times> int" where
  "vty_bounds scope =
     (if sc_type scope \<noteq> ''vty_range'' then Inl (state_error ''VTY scope is required'')
      else (let s = (if prefix ''vty:'' (sc_key scope) then drop 4 (sc_key scope) else sc_key scope);
                a = takeWhile (\<lambda>c. c \<noteq> CHR ''-'') s; b = dropWhile (\<lambda>c. c \<noteq> CHR ''-'') s
            in if b = [] then Inl (Exc ValueError ''not enough values to unpack'')
               else (case (py_int a, py_int (drop 1 b)) of
                       (Some m, Some n) \<Rightarrow> Inr (m, n)
                     | _ \<Rightarrow> Inl (Exc ValueError ''invalid literal for int()''))))"

text \<open>The partitions of bounded facts: each fact with its bounds.\<close>

definition partition_scope :: "int \<Rightarrow> int \<Rightarrow> scope_ref" where
  "partition_scope start end' = ScopeRef ''vty_range''
     (''vty:'' @ int_str start @ ''-'' @ int_str end')
     [(''start'', PInt start), (''end'', PInt end')]"

definition boundaries :: "(classified_fact \<times> int \<times> int) list \<Rightarrow> int list" where
  "boundaries bfacts = sorted_set (concat (map (\<lambda>(c, m, n). [m, n + 1]) bfacts))"

definition applicable :: "(classified_fact \<times> int \<times> int) list \<Rightarrow> int \<Rightarrow> int \<Rightarrow> classified_fact list" where
  "applicable bfacts start end' = map fst (filter (\<lambda>(c, m, n). m \<le> start \<and> end' \<le> n) bfacts)"

definition partitions_of ::
  "(classified_fact \<times> int \<times> int) list \<Rightarrow> ((int \<times> int) \<times> classified_fact list) list" where
  "partitions_of bfacts =
     filter (\<lambda>p. snd p \<noteq> [])
       (map (\<lambda>(start, after_end). ((start, after_end - 1), applicable bfacts start (after_end - 1)))
         (zip (boundaries bfacts) (tl (boundaries bfacts))))"

definition vty_partitions ::
  "classified_fact list \<Rightarrow> exc + (scope_ref \<times> classified_fact list) list" where
  "vty_partitions facts =
     and_then (map_res (\<lambda>c. and_then (vty_bounds (cl_scope c)) (\<lambda>b. Inr (c, b))) facts) (\<lambda>bfacts.
     Inr (map (\<lambda>((m, n), cs). (partition_scope m n, cs)) (partitions_of bfacts)))"

section \<open>Fields\<close>

definition scope_id :: "classified_fact \<Rightarrow> string \<times> string" where
  "scope_id c = (sc_type (cl_scope c), sc_key (cl_scope c))"

definition resolve_scalar_field ::
  "(uuid \<Rightarrow> string \<Rightarrow> uuid) \<Rightarrow> uuid \<Rightarrow> uuid \<Rightarrow> string \<Rightarrow> classified_fact list
    \<Rightarrow> exc + effective_state_draft list" where
  "resolve_scalar_field uuid5 audit device field_id facts =
     (if facts = [] then Inr []
      else if sc_type (cl_scope (hd facts)) \<noteq> ''vty_range'' then
        map_res (\<lambda>(_, items). resolve_scalar_scope uuid5 audit device field_id (cl_scope (hd items)) items)
          (group_runs scope_id (sort_key (\<lambda>c. (scope_id c, cl_ids c)) facts))
      else
        and_then (vty_partitions facts) (\<lambda>ps.
        map_res (\<lambda>(scope, items). resolve_scalar_scope uuid5 audit device field_id scope items) ps))"

text \<open>
  One member of a collection: its value when added, whether it conflicts, and its trace entries.
\<close>

definition resolve_member ::
  "classified_fact list \<Rightarrow> typed_value list \<times> bool \<times> pyval list" where
  "resolve_member facts =
     (case ordered_winner facts of (winner, conflict) \<Rightarrow>
        if conflict then ([], True, [])
        else (case cl_operation winner of
          ASSIGN \<Rightarrow> ([cl_value winner], False,
            [trace ''collection_member_added'' [(''fact_id'', PStr (cl_ids winner))]])
        | REMOVE \<Rightarrow> ([], False,
            [trace ''collection_member_removed'' [(''fact_id'', PStr (cl_ids winner))]])
        | RESET \<Rightarrow> ([], True, [])))"

definition resolve_repeatable_scope ::
  "(uuid \<Rightarrow> string \<Rightarrow> uuid) \<Rightarrow> uuid \<Rightarrow> uuid \<Rightarrow> string \<Rightarrow> classified_fact list
    \<Rightarrow> exc + effective_state_draft" where
  "resolve_repeatable_scope uuid5 audit device field_id items =
     (let members = group_dict (\<lambda>c. value_key (cl_value c)) items;
          scope = cl_scope (hd items);
          results = map (\<lambda>key. resolve_member (the (dict_get members key))) (sort (map fst members));
          tr = input_trace items @ concat (map (\<lambda>(_, _, t). t) results);
          values = concat (map fst results);
          conflict = list_ex (\<lambda>(_, c, _). c) results
      in if conflict then
           unknown_draft uuid5 audit device field_id scope (sorted_ids items)
             (tr @ [trace ''conflict_detected'' []]) UR_CONFLICTING_EVIDENCE True
         else make_effective_state_draft uuid5 audit device field_id scope
           (Some (TypedValue TV_LIST (PList (map (\<lambda>v. PDict (typed_value_to_dict v)) values))))
           RESOLVED (sorted_ids items) (bounded tr) [] None)"

definition resolve_repeatable_field ::
  "(uuid \<Rightarrow> string \<Rightarrow> uuid) \<Rightarrow> uuid \<Rightarrow> uuid \<Rightarrow> string \<Rightarrow> classified_fact list
    \<Rightarrow> exc + effective_state_draft list" where
  "resolve_repeatable_field uuid5 audit device field_id facts =
     map_res (\<lambda>(_, items). resolve_repeatable_scope uuid5 audit device field_id items)
       (group_runs scope_id (sort_key (\<lambda>c. (scope_id c, value_key (cl_value c))) facts))"

definition resolve_blocked_field ::
  "(uuid \<Rightarrow> string \<Rightarrow> uuid) \<Rightarrow> uuid \<Rightarrow> uuid \<Rightarrow> string \<Rightarrow> classified_fact list
    \<Rightarrow> exc + effective_state_draft list" where
  "resolve_blocked_field uuid5 audit device field_id blocked =
     map_res (\<lambda>(_, scope). unknown_draft uuid5 audit device field_id scope (sorted_ids blocked)
         (map (\<lambda>c. trace ''dependency_missing'' [(''fact_id'', PStr (cl_ids c))]) blocked)
         UR_MISSING_EVIDENCE False)
       (foldl (\<lambda>d c. dict_put (sc_key (cl_scope c)) (cl_scope c) d) [] blocked)"

definition resolve_field ::
  "(uuid \<Rightarrow> string \<Rightarrow> uuid) \<Rightarrow> uuid \<Rightarrow> uuid \<Rightarrow> uuid set \<Rightarrow> string \<times> classified_fact list
    \<Rightarrow> exc + effective_state_draft list" where
  "resolve_field uuid5 audit device blocked_ids grouped =
     (case grouped of (field_id, facts) \<Rightarrow>
       and_then (get_field_policy field_id) (\<lambda>policy.
       let blocked = filter (\<lambda>c. cl_id c \<in> blocked_ids) facts
       in if blocked \<noteq> [] then resolve_blocked_field uuid5 audit device field_id blocked
          else if fp_cardinality policy = SCALAR then resolve_scalar_field uuid5 audit device field_id facts
          else resolve_repeatable_field uuid5 audit device field_id facts))"

definition resolve_security_facts ::
  "(uuid \<Rightarrow> string \<Rightarrow> uuid) \<Rightarrow> uuid \<Rightarrow> uuid \<Rightarrow> (uuid \<Rightarrow> fact_operation option) \<Rightarrow> security_fact list
    \<Rightarrow> exc + effective_state_draft list" where
  "resolve_security_facts uuid5 audit device operations facts =
     (let blocked_ids = set (blocked_dependency_ids facts)
      in and_then (map_res (\<lambda>f. classify f (operations (sf_fact_id f))) facts) (\<lambda>classified.
         and_then (map_res (resolve_field uuid5 audit device blocked_ids)
           (group_runs (\<lambda>c. sf_field_id (cl_fact c))
             (sort_key (\<lambda>c. (sf_field_id (cl_fact c), scope_id c, cl_ids c)) classified))) (\<lambda>drafts.
         Inr (sort_key (\<lambda>d. (es_field_id d, sc_type (es_scope d), sc_key (es_scope d)))
           (concat drafts)))))"

end
