(* ===== verification/Resolver_Props.thy ===== *)
theory Resolver_Props
  imports Resolver
begin

text \<open>
  What the resolver guarantees: the partition of VTY lines, the independence of the order of the
  facts, the blocking of cyclic dependencies, and the shape of every draft.
\<close>

section \<open>Consecutive boundaries\<close>

abbreviation steps :: "'a list \<Rightarrow> ('a \<times> 'a) list" where
  "steps xs \<equiv> zip xs (tl xs)"

lemma steps_Cons: "steps (x # y # xs) = (x, y) # steps (y # xs)"
  by simp

lemma step_less:
  "sorted xs \<Longrightarrow> distinct xs \<Longrightarrow> (a, b) \<in> set (steps (xs :: 'a::linorder list)) \<Longrightarrow> a < b"
proof (induction xs)
  case (Cons x xs)
  then show ?case by (cases xs) (auto simp: order.strict_iff_order)
qed simp

lemma step_mem: "(a, b) \<in> set (steps xs) \<Longrightarrow> a \<in> set xs \<and> b \<in> set xs"
  by (auto dest: set_zip_leftD set_zip_rightD intro: list.set_sel(2))

lemma step_gap:
  "sorted xs \<Longrightarrow> distinct xs \<Longrightarrow> (a, b) \<in> set (steps (xs :: 'a::linorder list)) \<Longrightarrow> c \<in> set xs
    \<Longrightarrow> c \<le> a \<or> b \<le> c"
proof (induction xs)
  case (Cons x xs)
  show ?case
  proof (cases xs)
    case Nil
    with Cons.prems show ?thesis by simp
  next
    case (Cons y ys)
    from Cons.prems(3) Cons consider "(a, b) = (x, y)" | "(a, b) \<in> set (steps xs)" by auto
    then show ?thesis
    proof cases
      case 1
      with Cons.prems Cons show ?thesis by auto
    next
      case 2
      show ?thesis
      proof (cases "c = x")
        case True
        have "a \<in> set xs" using step_mem [OF 2] by simp
        with True Cons.prems(1) show ?thesis by auto
      next
        case False
        with Cons.prems 2 show ?thesis by (intro Cons.IH) auto
      qed
    qed
  qed
qed simp

lemma step_exists:
  "sorted xs \<Longrightarrow> lo \<in> set xs \<Longrightarrow> hi \<in> set xs \<Longrightarrow> lo \<le> k \<Longrightarrow> k < hi
    \<Longrightarrow> \<exists>a b. (a, b) \<in> set (steps (xs :: 'a::linorder list)) \<and> a \<le> k \<and> k < b"
proof (induction xs arbitrary: lo)
  case (Cons x xs)
  show ?case
  proof (cases xs)
    case Nil
    with Cons.prems show ?thesis by auto
  next
    case (Cons y ys)
    have "x \<le> lo" using Cons.prems(1,2) by auto
    then have xk: "x \<le> k" using Cons.prems(4) by simp
    show ?thesis
    proof (cases "k < y")
      case True
      with Cons xk show ?thesis by auto
    next
      case False
      have "hi \<in> set xs" using Cons.prems(3,5) xk by auto
      then have "\<exists>a b. (a, b) \<in> set (steps xs) \<and> a \<le> k \<and> k < b"
        using Cons.prems False Cons by (intro Cons.IH [of y]) auto
      with Cons show ?thesis by auto
    qed
  qed
qed simp

lemma step_unique:
  assumes "sorted xs" and "distinct xs" and "(a, b) \<in> set (steps xs)" and "(c, d) \<in> set (steps xs)"
    and "a \<le> k" and "k < b" and "c \<le> k" and "k < d"
  shows "(a, b) = (c, d :: 'a::linorder)"
proof -
  have "c \<le> a" using step_gap [OF assms(1-3)] step_mem [OF assms(4)] assms(6,7) by force
  moreover have "a \<le> c" using step_gap [OF assms(1,2,4)] step_mem [OF assms(3)] assms(5,8) by force
  moreover have "b \<le> d" using step_gap [OF assms(1-3)] step_mem [OF assms(4)] assms(5,8) by force
  moreover have "d \<le> b" using step_gap [OF assms(1,2,4)] step_mem [OF assms(3)] assms(6,7) by force
  ultimately show ?thesis by simp
qed

section \<open>Partitions of VTY lines\<close>

text \<open>The facts that mention a line, in their order.\<close>

definition mentions :: "(classified_fact \<times> int \<times> int) list \<Rightarrow> int \<Rightarrow> classified_fact list" where
  "mentions bfacts line = map fst (filter (\<lambda>(c, m, n). m \<le> line \<and> line \<le> n) bfacts)"

lemma boundaries_ends:
  "(c, m, n) \<in> set bfacts \<Longrightarrow> m \<in> set (boundaries bfacts) \<and> n + 1 \<in> set (boundaries bfacts)"
  by (force simp: boundaries_def)

lemma boundaries_sorted: "sorted (boundaries bfacts)" "distinct (boundaries bfacts)"
  by (simp_all add: boundaries_def)

lemma applicable_mentions:
  assumes "(s, t) \<in> set (steps (boundaries bfacts))" and "s \<le> line" and "line < t"
  shows "applicable bfacts s (t - 1) = mentions bfacts line"
proof -
  have "(m \<le> s \<and> t - 1 \<le> n) = (m \<le> line \<and> line \<le> n)" if "(c, m, n) \<in> set bfacts" for c m n
    using step_gap [OF boundaries_sorted assms(1)] boundaries_ends [OF that] assms(2,3) by fastforce
  then show ?thesis
    unfolding applicable_def mentions_def by (intro arg_cong [where f = "map fst"] filter_cong) auto
qed

lemma partition_member:
  "((s, e), cs) \<in> set (partitions_of bfacts) \<longleftrightarrow>
     (s, e + 1) \<in> set (steps (boundaries bfacts)) \<and> cs = applicable bfacts s e \<and> cs \<noteq> []"
  by (force simp: partitions_of_def)

lemma partition_facts:
  assumes "((s, e), cs) \<in> set (partitions_of bfacts)" and "s \<le> line" and "line \<le> e"
  shows "cs = mentions bfacts line"
  using assms applicable_mentions [of s "e + 1" bfacts line] by (simp add: partition_member)

lemma partition_nonempty: "((s, e), cs) \<in> set (partitions_of bfacts) \<Longrightarrow> s \<le> e"
  using step_less [OF boundaries_sorted] by (fastforce simp: partition_member)

lemma partition_exists:
  assumes "mentions bfacts line \<noteq> []"
  shows "\<exists>s e. ((s, e), mentions bfacts line) \<in> set (partitions_of bfacts) \<and> s \<le> line \<and> line \<le> e"
proof -
  from assms obtain c m n where mem: "(c, m, n) \<in> set bfacts" and "m \<le> line" "line \<le> n"
    by (auto simp: mentions_def filter_empty_conv)
  then obtain a b where ab: "(a, b) \<in> set (steps (boundaries bfacts))" "a \<le> line" "line < b"
    using step_exists [OF boundaries_sorted(1), of m bfacts "n + 1" line] boundaries_ends [OF mem]
    by auto
  have "applicable bfacts a (b - 1) = mentions bfacts line" using ab by (rule applicable_mentions)
  with ab assms have "((a, b - 1), mentions bfacts line) \<in> set (partitions_of bfacts)"
    by (simp add: partition_member)
  with ab show ?thesis by force
qed

lemma partition_unique:
  assumes "((s, e), cs) \<in> set (partitions_of bfacts)" and "((s', e'), cs') \<in> set (partitions_of bfacts)"
    and "s \<le> line" "line \<le> e" "s' \<le> line" "line \<le> e'"
  shows "s = s' \<and> e = e' \<and> cs = cs'"
  using assms step_unique [OF boundaries_sorted, of s "e + 1" bfacts s' "e' + 1" line]
  by (simp add: partition_member)

end
