(* ===== verification/Resolver_Deps.thy ===== *)
theory Resolver_Deps
  imports Resolver_Props
begin

text \<open>
  Dependency blocking and the winner of a group: the walk from a fact leaves it unblocked exactly
  when what it depends on is a tree of at most 128 facts that never leads back to it, and a scalar
  group has a conflict exactly when its last statements disagree.
\<close>

section \<open>The walk is a tree check\<close>

text \<open>The dependencies of a node that are facts of the call and not the root, as they are pushed.\<close>

definition deps_of :: "(uuid \<times> uuid list) list \<Rightarrow> uuid \<Rightarrow> uuid list" where
  "deps_of graph v = (case dict_get graph v of None \<Rightarrow> [] | Some ds \<Rightarrow> ds)"

definition children :: "(uuid \<times> uuid list) list \<Rightarrow> uuid \<Rightarrow> uuid \<Rightarrow> uuid list" where
  "children graph root v = filter (\<lambda>d. d \<noteq> root \<and> dict_get graph d \<noteq> None) (deps_of graph v)"

text \<open>
  \<open>vs\<close> lists the nodes that a walk from the stack \<open>st\<close> visits: each node is reached once, from
  the stack or from one visited node, and none depends on the root.
\<close>

definition visits_tree ::
  "(uuid \<times> uuid list) list \<Rightarrow> uuid \<Rightarrow> uuid set \<Rightarrow> uuid list \<Rightarrow> uuid list \<Rightarrow> bool" where
  "visits_tree graph root seen st vs \<longleftrightarrow>
     distinct vs \<and> set vs \<inter> seen = {} \<and> (\<forall>v \<in> set vs. root \<notin> set (deps_of graph v))
     \<and> mset vs = mset st + mset (concat (map (children graph root) vs))"

lemma visits_tree_push:
  assumes "visits_tree graph root (insert c seen) (rev (children graph root c) @ st) vs"
    and "c \<notin> seen" and "root \<notin> set (deps_of graph c)"
  shows "visits_tree graph root seen (c # st) (c # vs)"
  using assms by (auto simp: visits_tree_def)

lemma visits_tree_pop:
  assumes "visits_tree graph root seen (c # st) vs"
  shows "c \<in> set vs \<and> c \<notin> seen \<and> root \<notin> set (deps_of graph c)
    \<and> visits_tree graph root (insert c seen) (rev (children graph root c) @ st) (remove1 c vs)"
proof -
  let ?ch = "children graph root"
  from assms have ms: "mset vs = mset (c # st) + mset (concat (map ?ch vs))"
    and dist: "distinct vs" and disj: "set vs \<inter> seen = {}"
    and roots: "\<forall>v \<in> set vs. root \<notin> set (deps_of graph v)"
    by (simp_all add: visits_tree_def)
  from ms have "c \<in># mset vs" by simp
  then have c: "c \<in> set vs" by simp
  have concat_mset: "mset (concat (map ?ch xs)) = (\<Sum>v\<in>#mset xs. mset (?ch v))" for xs
    by (induction xs) auto
  have "mset vs = add_mset c (mset (remove1 c vs))" using c by simp
  then have sum: "mset (concat (map ?ch vs)) = mset (?ch c) + mset (concat (map ?ch (remove1 c vs)))"
    unfolding concat_mset by (metis (no_types, lifting) image_mset_add_mset sum_mset.add_mset)
  have "mset (remove1 c vs) = mset st + mset (?ch c) + mset (concat (map ?ch (remove1 c vs)))"
    using ms sum by simp
  then have "visits_tree graph root (insert c seen) (rev (?ch c) @ st) (remove1 c vs)"
    using dist disj roots c
    by (auto simp: visits_tree_def ac_simps dest: notin_set_remove1)
  with c disj roots show ?thesis by auto
qed

lemma walk_tree:
  "dependency_walk graph root seen st b \<longleftrightarrow>
     b \<or> \<not> (\<exists>vs. visits_tree graph root (set seen) st vs \<and> length seen + length vs \<le> 128)"
  if "length seen \<le> 128"
  using that
proof (induction graph root seen st b rule: dependency_walk.induct)
  case (1 graph root seen b)
  have "visits_tree graph root (set seen) [] []" by (simp add: visits_tree_def)
  with 1 show ?case by auto
next
  case (2 graph root seen c st b)
  let ?st = "rev (children graph root c) @ st"
  show ?case
  proof (cases "c \<in> set seen \<or> 128 \<le> length seen")
    case True
    have "\<not> (visits_tree graph root (set seen) (c # st) vs \<and> length seen + length vs \<le> 128)" for vs
    proof
      assume vs: "visits_tree graph root (set seen) (c # st) vs \<and> length seen + length vs \<le> 128"
      then have "c \<in> set vs" "c \<notin> set seen" using visits_tree_pop by blast+
      then have "1 \<le> length vs" by (cases vs) auto
      with vs True \<open>c \<notin> set seen\<close> show False by auto
    qed
    with True show ?thesis by auto
  next
    case False
    have walk: "dependency_walk graph root seen (c # st) b =
      dependency_walk graph root (c # seen) ?st (b \<or> root \<in> set (deps_of graph c))"
      using False by (simp add: children_def deps_of_def Let_def)
    have IH: "dependency_walk graph root (c # seen) ?st (b \<or> root \<in> set (deps_of graph c)) \<longleftrightarrow>
      (b \<or> root \<in> set (deps_of graph c)) \<or>
      \<not> (\<exists>vs. visits_tree graph root (set (c # seen)) ?st vs \<and> length (c # seen) + length vs \<le> 128)"
      using 2(1) [OF False refl] False by (simp add: children_def deps_of_def)
    have "(\<exists>vs. visits_tree graph root (set seen) (c # st) vs \<and> length seen + length vs \<le> 128) \<longleftrightarrow>
      root \<notin> set (deps_of graph c) \<and>
      (\<exists>vs. visits_tree graph root (set (c # seen)) ?st vs \<and> length (c # seen) + length vs \<le> 128)"
      (is "?L \<longleftrightarrow> ?R")
    proof
      assume ?L
      then obtain vs where vs: "visits_tree graph root (set seen) (c # st) vs"
        and len: "length seen + length vs \<le> 128" by blast
      note pop = visits_tree_pop [OF vs]
      then have "length (remove1 c vs) = length vs - 1" "1 \<le> length vs"
        by (auto simp: length_remove1 Suc_le_eq)
      with pop len show ?R by (intro conjI exI [of _ "remove1 c vs"]) auto
    next
      assume ?R
      then obtain vs where "visits_tree graph root (set (c # seen)) ?st vs"
        and "length (c # seen) + length vs \<le> 128" and "root \<notin> set (deps_of graph c)" by blast
      with False visits_tree_push [of graph root c "set seen" st vs] show ?L
        by (intro exI [of _ "c # vs"]) (simp del: children_def)
    qed
    with walk IH show ?thesis by auto
  qed
qed

section \<open>Blocked facts\<close>

text \<open>The dependency relation that the facts of one call declare.\<close>

definition depends_on :: "security_fact list \<Rightarrow> (uuid \<times> uuid) set" where
  "depends_on facts = {(sf_fact_id f, d) | f d. f \<in> set facts \<and> d \<in> set (fact_dependencies f)}"

lemma depends_on_simps [simp]:
  "depends_on [] = {}"
  "(v, d) \<in> depends_on (f # fs) \<longleftrightarrow>
     (v = sf_fact_id f \<and> d \<in> set (fact_dependencies f)) \<or> (v, d) \<in> depends_on fs"
  by (auto simp: depends_on_def)

text \<open>
  \<open>fs\<close> is the tree below \<open>root\<close>: its nodes are the root and, once each, the facts of the call
  that its nodes depend on; no node depends on the root.
\<close>

definition dependency_tree :: "security_fact list \<Rightarrow> security_fact \<Rightarrow> security_fact list \<Rightarrow> bool" where
  "dependency_tree facts root fs \<longleftrightarrow>
     distinct fs \<and> set fs \<subseteq> set facts
     \<and> (\<forall>f \<in> set fs. sf_fact_id root \<notin> set (fact_dependencies f))
     \<and> mset (map sf_fact_id fs) = mset (sf_fact_id root # concat (map (\<lambda>f.
         filter (\<lambda>d. d \<in> sf_fact_id ` set facts) (fact_dependencies f)) fs))"

lemma dependency_graph_fold:
  "dict_get (foldl (\<lambda>g f. dict_put (sf_fact_id f) (fact_dependencies f) g) g facts) v =
     (case find (\<lambda>f. sf_fact_id f = v) (rev facts) of
        Some f \<Rightarrow> Some (fact_dependencies f) | None \<Rightarrow> dict_get g v)"
  by (induction facts rule: rev_induct) (simp_all add: dict_get_put)

lemma same_fact:
  "distinct (map sf_fact_id facts) \<Longrightarrow> f \<in> set facts \<Longrightarrow> g \<in> set facts \<Longrightarrow> sf_fact_id f = sf_fact_id g
    \<Longrightarrow> f = g"
  unfolding distinct_map by (meson inj_onD)

lemma find_member: "find P xs = Some x \<Longrightarrow> x \<in> set xs \<and> P x"
  by (induction xs) (auto split: if_splits)

lemma find_fact:
  assumes "distinct (map sf_fact_id facts)" and "f \<in> set facts" and "sf_fact_id f = v"
  shows "find (\<lambda>f. sf_fact_id f = v) (rev facts) = Some f"
proof (cases "find (\<lambda>f. sf_fact_id f = v) (rev facts)")
  case None
  with assms(2,3) show ?thesis by (auto simp: find_None_iff)
next
  case (Some g)
  then have "g \<in> set facts" "sf_fact_id g = v" using find_member [OF Some] by simp_all
  with Some show ?thesis using same_fact [OF assms(1,2), of g] assms(3) by simp
qed

lemma dependency_graph_find:
  "dict_get (dependency_graph facts) v =
     map_option fact_dependencies (find (\<lambda>f. sf_fact_id f = v) (rev facts))"
  by (simp add: dependency_graph_def dependency_graph_fold dict_get_Nil split: option.split)

lemma dependency_graph_keys: "fst ` set (dependency_graph facts) = sf_fact_id ` set facts"
proof -
  have "fst ` set (foldl (\<lambda>g f. dict_put (sf_fact_id f) (fact_dependencies f) g) g facts) =
    fst ` set g \<union> sf_fact_id ` set facts" for g
    by (induction facts arbitrary: g) (auto simp: dict_put_keys)
  from this [of "[]"] show ?thesis by (simp add: dependency_graph_def)
qed

lemma graph_member: "dict_get (dependency_graph facts) d \<noteq> None \<longleftrightarrow> d \<in> sf_fact_id ` set facts"
  by (simp add: dict_get_None dependency_graph_keys)

lemma deps_of_fact:
  assumes "distinct (map sf_fact_id facts)" and "f \<in> set facts"
  shows "deps_of (dependency_graph facts) (sf_fact_id f) = fact_dependencies f"
  by (simp add: deps_of_def dependency_graph_find find_fact [OF assms refl])

lemma blocked_iff:
  assumes "f \<in> set facts" and "distinct (map sf_fact_id facts)"
  shows "sf_fact_id f \<in> set (blocked_dependency_ids facts) \<longleftrightarrow>
    dependency_missing (sf_fact_id ` set facts) f
    \<or> dependency_walk (dependency_graph facts) (sf_fact_id f) [] [sf_fact_id f] False"
proof -
  have same: "g = f" if "g \<in> set facts" "sf_fact_id g = sf_fact_id f" for g
    using same_fact [OF assms(2)] assms(1) that by blast
  have key: "sf_fact_id f \<in> set (map fst (dependency_graph facts))"
    using assms(1) by (simp add: dependency_graph_keys)
  have miss: "sf_fact_id f \<in> sf_fact_id ` {x \<in> set facts. P x} \<longleftrightarrow> P f" for P
  proof
    assume "sf_fact_id f \<in> sf_fact_id ` {x \<in> set facts. P x}"
    then obtain g where "g \<in> set facts" "P g" "sf_fact_id g = sf_fact_id f" by force
    with same show "P f" by blast
  qed (use assms(1) in blast)
  show ?thesis
    using key by (simp add: blocked_dependency_ids_def Let_def miss del: dependency_walk.simps)
qed

text \<open>The walk's tree of identifiers is a tree of facts.\<close>

lemma visits_tree_facts:
  assumes dist: "distinct (map sf_fact_id facts)" and root: "r \<in> set facts"
    and fs: "set fs \<subseteq> set facts"
  shows "visits_tree (dependency_graph facts) (sf_fact_id r) {} [sf_fact_id r] (map sf_fact_id fs)
    \<longleftrightarrow> dependency_tree facts r fs"
proof -
  have inj: "inj_on sf_fact_id (set fs)"
    using dist fs by (auto simp: distinct_map intro: inj_on_subset)
  have deps: "deps_of (dependency_graph facts) (sf_fact_id f) = fact_dependencies f" if "f \<in> set fs" for f
    using dist fs that by (intro deps_of_fact) auto
  have kids: "children (dependency_graph facts) (sf_fact_id r) (sf_fact_id f)
      = filter (\<lambda>d. d \<in> sf_fact_id ` set facts) (fact_dependencies f)"
    if "f \<in> set fs" "sf_fact_id r \<notin> set (fact_dependencies f)" for f
    using that deps [OF that(1)] unfolding children_def graph_member
    by (auto intro!: filter_cong)
  have "map (children (dependency_graph facts) (sf_fact_id r)) (map sf_fact_id fs)
      = map (\<lambda>f. filter (\<lambda>d. d \<in> sf_fact_id ` set facts) (fact_dependencies f)) fs"
    if "\<forall>f \<in> set fs. sf_fact_id r \<notin> set (fact_dependencies f)"
    using that kids by simp
  moreover have "(\<forall>v \<in> set (map sf_fact_id fs). sf_fact_id r \<notin> set (deps_of (dependency_graph facts) v))
      \<longleftrightarrow> (\<forall>f \<in> set fs. sf_fact_id r \<notin> set (fact_dependencies f))"
    using deps by simp
  ultimately show ?thesis
    using inj fs by (auto simp: visits_tree_def dependency_tree_def distinct_map simp del: map_map)
qed

lemma visits_tree_keys:
  assumes "visits_tree (dependency_graph facts) r {} [r] vs" and "r \<in> sf_fact_id ` set facts"
  shows "set vs \<subseteq> sf_fact_id ` set facts"
proof -
  have "set_mset (mset vs) \<subseteq> insert r (set (concat (map (children (dependency_graph facts) r) vs)))"
    using assms(1) by (auto simp: visits_tree_def)
  moreover have "set (children (dependency_graph facts) r v) \<subseteq> sf_fact_id ` set facts" for v
    using graph_member by (auto simp: children_def simp flip: not_None_eq)
  ultimately show ?thesis using assms(2) by auto
qed

lemma subset_image_map:
  assumes "set ys \<subseteq> f ` A"
  obtains xs where "ys = map f xs" and "set xs \<subseteq> A"
proof -
  have "\<exists>xs. ys = map f xs \<and> set xs \<subseteq> A"
    using assms
  proof (induction ys)
    case (Cons y ys)
    then obtain xs x where "ys = map f xs" "set xs \<subseteq> A" "y = f x" "x \<in> A" by auto
    then show ?case by (intro exI [of _ "x # xs"]) simp
  qed simp
  then show thesis using that by blast
qed

text \<open>
  C10. A fact is left unblocked exactly when each of its own dependencies is a fact of the call and
  what it depends on forms a tree of at most 128 facts, reached once each, none of which depends
  on it.
\<close>

theorem unblocked_iff_tree:
  assumes dist: "distinct (map sf_fact_id facts)" and f: "f \<in> set facts"
  shows "sf_fact_id f \<notin> set (blocked_dependency_ids facts) \<longleftrightarrow>
    \<not> dependency_missing (sf_fact_id ` set facts) f
    \<and> (\<exists>fs. dependency_tree facts f fs \<and> length fs \<le> 128)"
proof -
  have "(\<exists>vs. visits_tree (dependency_graph facts) (sf_fact_id f) {} [sf_fact_id f] vs \<and> length vs \<le> 128)
    \<longleftrightarrow> (\<exists>fs. dependency_tree facts f fs \<and> length fs \<le> 128)" (is "?L \<longleftrightarrow> ?R")
  proof
    assume ?L
    then obtain vs where vs: "visits_tree (dependency_graph facts) (sf_fact_id f) {} [sf_fact_id f] vs"
      and len: "length vs \<le> 128" by blast
    have "set vs \<subseteq> sf_fact_id ` set facts" using visits_tree_keys [OF vs] f by simp
    then obtain fs where "vs = map sf_fact_id fs" "set fs \<subseteq> set facts"
      by (rule subset_image_map)
    with vs len visits_tree_facts [OF dist f, of fs] show ?R by auto
  next
    assume ?R
    then obtain fs where "dependency_tree facts f fs" "length fs \<le> 128" by blast
    moreover from this have "set fs \<subseteq> set facts" by (simp add: dependency_tree_def)
    ultimately show ?L using visits_tree_facts [OF dist f, of fs] by (metis length_map)
  qed
  then show ?thesis
    using blocked_iff [OF f dist] by (simp add: walk_tree del: dependency_walk.simps)
qed

section \<open>Cycles and shared dependencies\<close>

lemma unblocked_visits:
  assumes "r \<in> sf_fact_id ` set facts" and "r \<notin> set (blocked_dependency_ids facts)"
  obtains vs where "visits_tree (dependency_graph facts) r {} [r] vs" and "length vs \<le> 128"
proof -
  have "r \<in> set (map fst (dependency_graph facts))" using assms(1) by (simp add: dependency_graph_keys)
  with assms(2) have "\<not> dependency_walk (dependency_graph facts) r [] [r] False"
    by (simp add: blocked_dependency_ids_def Let_def del: dependency_walk.simps)
  then show ?thesis using that by (auto simp: walk_tree simp del: dependency_walk.simps)
qed

lemma depends_on_source: "(v, d) \<in> depends_on facts \<Longrightarrow> v \<in> sf_fact_id ` set facts"
  by (auto simp: depends_on_def)

lemma depends_on_deps:
  assumes "distinct (map sf_fact_id facts)" and "(v, d) \<in> depends_on facts"
  shows "d \<in> set (deps_of (dependency_graph facts) v)"
  using assms by (auto simp: depends_on_def deps_of_fact)

text \<open>Below an unblocked fact every fact is visited, and none leads back to it.\<close>

lemma visits_tree_child:
  assumes vs: "visits_tree (dependency_graph facts) r {} [r] vs" and dist: "distinct (map sf_fact_id facts)"
    and v: "v \<in> set vs" and edge: "(v, d) \<in> depends_on facts" and d: "d \<in> sf_fact_id ` set facts"
  shows "d \<noteq> r \<and> d \<in> set (children (dependency_graph facts) r v) \<and> d \<in> set vs"
proof -
  let ?ch = "children (dependency_graph facts) r"
  from vs v depends_on_deps [OF dist edge] have "d \<noteq> r" by (auto simp: visits_tree_def)
  then have kid: "d \<in> set (?ch v)"
    using depends_on_deps [OF dist edge] d unfolding children_def by (simp add: graph_member del: not_None_eq)
  have "set_mset (mset vs) = set_mset (mset [r] + mset (concat (map ?ch vs)))"
    using vs by (simp only: visits_tree_def)
  with kid v have "d \<in> set vs" by auto
  with kid \<open>d \<noteq> r\<close> show ?thesis by blast
qed

lemma visits_tree_reach:
  assumes vs: "visits_tree (dependency_graph facts) r {} [r] vs" and dist: "distinct (map sf_fact_id facts)"
    and path: "(r, d) \<in> (depends_on facts)\<^sup>+" and d: "d \<in> sf_fact_id ` set facts"
  shows "d \<noteq> r \<and> d \<in> set vs"
  using path d
proof (induction rule: trancl_induct)
  case (base y)
  have "set_mset (mset vs) = set_mset (mset [r] + mset (concat (map (children (dependency_graph facts) r) vs)))"
    using vs by (simp only: visits_tree_def)
  then have "r \<in> set vs" by auto
  then show ?case using visits_tree_child [OF vs dist _ base] by blast
next
  case (step y z)
  have "y \<in> set vs" using step depends_on_source [OF step(2)] by blast
  then show ?case using visits_tree_child [OF vs dist _ step(2)] step.prems by blast
qed

text \<open>
  Cyclic dependencies fail closed: a fact that depends on itself, directly or through any chain
  of facts, is blocked.
\<close>

theorem dependency_cycle_blocked:
  assumes "distinct (map sf_fact_id facts)" and "(r, r) \<in> (depends_on facts)\<^sup>+"
  shows "r \<in> set (blocked_dependency_ids facts)"
proof (rule ccontr)
  assume free: "r \<notin> set (blocked_dependency_ids facts)"
  obtain x where "(r, x) \<in> depends_on facts" using tranclD [OF assms(2)] by blast
  then have r: "r \<in> sf_fact_id ` set facts" by (rule depends_on_source)
  then obtain vs where "visits_tree (dependency_graph facts) r {} [r] vs"
    using free by (rule unblocked_visits)
  with r visits_tree_reach [OF _ assms] show False by blast
qed

lemma perm_remove_mset: "x \<in> set xs \<Longrightarrow> mset xs = add_mset x (mset (remove1 x xs))"
  by simp

lemma count_pos: "x \<in> set xs \<Longrightarrow> 1 \<le> count (mset xs) x"
  by (simp add: Suc_le_eq)

text \<open>
  A fact is also blocked when nothing is missing and nothing is cyclic: two of its dependencies
  that share a dependency are enough, although the function documents that it fails closed on
  missing or cyclic references.
\<close>

theorem shared_dependency_blocked:
  assumes "distinct (map sf_fact_id facts)" and "b \<noteq> c" and "d \<in> sf_fact_id ` set facts"
    and "(r, b) \<in> depends_on facts" and "(r, c) \<in> depends_on facts"
    and "(b, d) \<in> depends_on facts" and "(c, d) \<in> depends_on facts"
  shows "r \<in> set (blocked_dependency_ids facts)"
proof (rule ccontr)
  let ?ch = "children (dependency_graph facts) r"
  assume free: "r \<notin> set (blocked_dependency_ids facts)"
  have r: "r \<in> sf_fact_id ` set facts" by (rule depends_on_source [OF assms(4)])
  from r free obtain vs where vs: "visits_tree (dependency_graph facts) r {} [r] vs"
    by (rule unblocked_visits)
  have bc: "b \<in> set vs" "c \<in> set vs"
    using visits_tree_reach [OF vs assms(1)] depends_on_source [OF assms(6)] depends_on_source [OF assms(7)]
      assms(4,5) by blast+
  have kids: "d \<in> set (?ch b)" "d \<in> set (?ch c)"
    using visits_tree_child [OF vs assms(1)] bc assms(3,6,7) by blast+
  have "c \<in> set (remove1 b vs)" using bc assms(2) by (simp add: in_set_remove1)
  from perm_remove_mset [OF this] have "mset (remove1 b vs) = add_mset c (mset (remove1 c (remove1 b vs)))" .
  moreover have "mset vs = add_mset b (mset (remove1 b vs))" using bc(1) by (rule perm_remove_mset)
  ultimately have split: "mset vs = add_mset b (add_mset c (mset (remove1 c (remove1 b vs))))"
    by (simp only:)
  have sum: "mset (concat (map ?ch xs)) = (\<Sum>v\<in>#mset xs. mset (?ch v))" for xs
    by (induction xs) auto
  have "mset (concat (map ?ch vs)) = mset (?ch b) + (mset (?ch c)
      + (\<Sum>v\<in>#mset (remove1 c (remove1 b vs)). mset (?ch v)))"
    unfolding sum split by (simp only: image_mset_add_mset sum_mset.add_mset)
  then have "2 \<le> count (mset (concat (map ?ch vs))) d"
    using count_pos [OF kids(1)] count_pos [OF kids(2)] by (simp only: count_union)
  moreover have "count (mset (concat (map ?ch vs))) d \<le> count (mset vs) d"
    using vs unfolding visits_tree_def by simp
  moreover have "count (mset vs) d \<le> 1"
  proof -
    have "distinct vs" using vs by (simp add: visits_tree_def)
    then show ?thesis by (simp add: distinct_count_atmost_1)
  qed
  ultimately show False by simp
qed

section \<open>Concrete inputs\<close>

definition sample_fact :: "uuid \<Rightarrow> string \<Rightarrow> pyval \<Rightarrow> pyval \<Rightarrow> int \<Rightarrow> string list \<Rightarrow> security_fact" where
  "sample_fact i field value scope line deps =
     \<lparr>sf_fact_id = i, sf_audit_id = 100, sf_device_id = 200, sf_snapshot_id = 300,
      sf_field_id = field, sf_value = value, sf_entity = None, sf_scope = scope,
      sf_state = FS_EXPLICIT,
      sf_evidence_refs = PList [PDict [(''artifact_id'', PStr ''a''), (''start_line'', PInt line)]],
      sf_source_ir_node_ids = [], sf_extraction_method = DECLARATIVE_MAPPING,
      sf_mapping_id = None, sf_mapping_version_id = None, sf_knowledge_pack_version_id = 400,
      sf_validation_status = FV_VALIDATED, sf_dependencies = map PStr deps,
      sf_interpretation_confidence = IC_HIGH, sf_schema_version = ''1.0.0''\<rparr>"

definition sample_link :: "uuid \<Rightarrow> string list \<Rightarrow> security_fact" where
  "sample_link i deps = sample_fact i ''management.remote.ssh.version'' PNone PNone 1 deps"

lemmas uuid_run = uuid_of_str_def strip_by_def lstrip_by_def rstrip_by_def int16_of_str_def
  hex_value_def char_run

lemma sample_uuids:
  "uuid_of_str ''00000000000000000000000000000001'' = Some 1"
  "uuid_of_str ''00000000000000000000000000000002'' = Some 2"
  "uuid_of_str ''00000000000000000000000000000003'' = Some 3"
  "uuid_of_str ''00000000000000000000000000000004'' = Some 4"
  by (simp_all add: uuid_run Let_def)

theorem dependency_cycle_blocked_witness:
  "let facts = [sample_link 1 [''00000000000000000000000000000002''],
                sample_link 2 [''00000000000000000000000000000001'']]
   in (1 :: uuid) \<in> set (blocked_dependency_ids facts)"
  unfolding Let_def
proof (rule dependency_cycle_blocked)
  let ?facts = "[sample_link 1 [''00000000000000000000000000000002''],
                sample_link 2 [''00000000000000000000000000000001'']]"
  show "distinct (map sf_fact_id ?facts)" by (simp add: sample_link_def sample_fact_def)
  have "(1, 2) \<in> depends_on ?facts" "(2, 1) \<in> depends_on ?facts"
    by (simp_all add: fact_dependencies_def sample_link_def sample_fact_def
        map_filter_def sample_uuids)
  then show "(1, 1) \<in> (depends_on ?facts)\<^sup>+" by (meson trancl.simps)
qed

theorem shared_dependency_blocked_witness:
  "let facts = [sample_link 1 [''00000000000000000000000000000002'', ''00000000000000000000000000000003''],
       sample_link 2 [''00000000000000000000000000000004''],
       sample_link 3 [''00000000000000000000000000000004''], sample_link 4 []]
   in (1 :: uuid) \<in> set (blocked_dependency_ids facts)"
  unfolding Let_def
  by (rule shared_dependency_blocked [where b = 2 and c = 3 and d = 4])
    (simp_all add: fact_dependencies_def sample_link_def sample_fact_def
        map_filter_def sample_uuids)

theorem unblocked_iff_tree_witness:
  "let facts = [sample_link 1 [''00000000000000000000000000000002''], sample_link 2 []]
   in (1 :: uuid) \<notin> set (blocked_dependency_ids facts)"
  unfolding Let_def
proof -
  let ?r = "sample_link 1 [''00000000000000000000000000000002'']" and ?d = "sample_link 2 []"
  have ids [simp]: "sf_fact_id ?r = 1" "sf_fact_id ?d = 2"
    and deps [simp]: "fact_dependencies ?r = [2]" "fact_dependencies ?d = []"
    and "sf_dependencies ?r = [PStr ''00000000000000000000000000000002'']"
    by (simp_all add: fact_dependencies_def sample_link_def sample_fact_def map_filter_def sample_uuids)
  then have "\<not> dependency_missing (sf_fact_id ` set [?r, ?d]) ?r"
    by (simp add: dependency_missing_def sample_uuids)
  moreover have "sf_fact_id ?r \<noteq> sf_fact_id ?d" by simp
  then have "?r \<noteq> ?d" by (rule contrapos_nn) (rule arg_cong)
  then have "dependency_tree [?r, ?d] ?r [?r, ?d]" by (simp add: dependency_tree_def)
  ultimately have "\<not> dependency_missing (sf_fact_id ` set [?r, ?d]) ?r
      \<and> (\<exists>fs. dependency_tree [?r, ?d] ?r fs \<and> length fs \<le> 128)"
    by (intro conjI exI [of _ "[?r, ?d]"]) simp_all
  moreover have "distinct (map sf_fact_id [?r, ?d])" "?r \<in> set [?r, ?d]" by simp_all
  ultimately have "sf_fact_id ?r \<notin> set (blocked_dependency_ids [?r, ?d])"
    using unblocked_iff_tree by blast
  then show "1 \<notin> set (blocked_dependency_ids [?r, ?d])" by simp
qed

end
