(* ===== verification/Resolver_Results.thy ===== *)
theory Resolver_Results
  imports Resolver_Deps
begin

text \<open>
  What the resolver returns: when a group of facts conflicts, that a resolved value is a stated
  one, that every draft passes its validation, and that the order of the facts does not matter.
\<close>

section \<open>The winner of a group\<close>

text \<open>
  The facts of a group that decide: with one artifact those of its last line, with several
  artifacts (whose lines cannot be compared) all of them.
\<close>

definition deciding :: "classified_fact list \<Rightarrow> classified_fact list" where
  "deciding facts =
     (if 1 < length (py_uniq (map cl_artifact_id facts)) then facts
      else filter (\<lambda>c. cl_source_line c = Max (cl_source_line ` set facts)) facts)"

lemma uniq_single: "\<not> 1 < length (uniq xs) \<longleftrightarrow> (\<forall>x \<in> set xs. \<forall>y \<in> set xs. x = y)"
proof -
  have "length (uniq xs) = card (set xs)"
    using distinct_card [OF distinct_uniq [of xs]] by simp
  then have "\<not> 1 < length (uniq xs) \<longleftrightarrow> card (set xs) \<le> Suc 0" by auto
  then show ?thesis using card_le_Suc0_iff_eq [OF finite_set, of xs] by simp
qed

lemma last_sorted_max:
  assumes "xs \<noteq> []"
  shows "last (sort_key f xs) \<in> set xs \<and> (\<forall>x \<in> set xs. f x \<le> (f (last (sort_key f xs)) :: 'a::linorder))"
proof -
  let ?s = "sort_key f xs"
  have ne: "?s \<noteq> []" using assms by (metis set_empty set_sort)
  have "y \<le> last ys" if "sorted ys" "y \<in> set ys" for y and ys :: "'a list"
    using that by (induction ys) auto
  from this [of "map f ?s"] have "f x \<le> f (last ?s)" if "x \<in> set xs" for x
    using that ne by (simp add: last_map)
  with ne show ?thesis using last_in_set [OF ne] by simp
qed

lemma ordered_winner_member:
  assumes "facts \<noteq> []"
  shows "fst (ordered_winner facts) \<in> set (deciding facts)"
proof (cases "1 < length (py_uniq (map cl_artifact_id facts))")
  case True
  have "sort_key cl_ids facts \<noteq> []" using assms by (metis set_empty set_sort)
  then have "hd (sort_key cl_ids facts) \<in> set facts" using hd_in_set by fastforce
  with True show ?thesis by (simp add: ordered_winner_def deciding_def)
next
  case False
  let ?k = "\<lambda>c. (cl_source_line c, cl_ids c)"
  note last = last_sorted_max [OF assms, of ?k]
  then have "cl_source_line (last (sort_key ?k facts)) = Max (cl_source_line ` set facts)"
    by (intro Max_eqI [symmetric]) (auto simp: less_eq_prod_def)
  with last False show ?thesis by (simp add: ordered_winner_def deciding_def Let_def)
qed

lemma ordered_winner_conflict:
  assumes "facts \<noteq> []"
  shows "snd (ordered_winner facts) \<longleftrightarrow>
    (\<exists>c \<in> set (deciding facts). \<exists>d \<in> set (deciding facts). effect c \<noteq> effect d)"
proof (cases "1 < length (py_uniq (map cl_artifact_id facts))")
  case True
  then show ?thesis
    using uniq_single [of "map effect facts"] by (auto simp: ordered_winner_def deciding_def)
next
  case False
  let ?k = "\<lambda>c. (cl_source_line c, cl_ids c)"
  note last = last_sorted_max [OF assms, of ?k]
  then have line: "cl_source_line (last (sort_key ?k facts)) = Max (cl_source_line ` set facts)"
    by (intro Max_eqI [symmetric]) (auto simp: less_eq_prod_def)
  with False show ?thesis
    using uniq_single [of "map effect (filter (\<lambda>c. cl_source_line c = Max (cl_source_line ` set facts)) (sort_key ?k facts))"]
    by (simp add: ordered_winner_def deciding_def Let_def) blast
qed

section \<open>Drafts of a scalar group\<close>

definition contested :: "classified_fact list \<Rightarrow> bool" where
  "contested facts = list_ex (\<lambda>c. list_ex (\<lambda>d. effect c \<noteq> effect d) (deciding facts)) (deciding facts)"

lemma contested_winner: "facts \<noteq> [] \<Longrightarrow> snd (ordered_winner facts) = contested facts"
  by (simp add: ordered_winner_conflict contested_def list_ex_iff)

lemma unknown_draft_Inr:
  assumes "unknown_draft uuid5 a dv f s ids tr reason conflict = Inr d"
  shows "draft_ok uuid5 d \<and> es_audit_id d = a \<and> es_device_id d = dv \<and> es_field_id d = f \<and> es_scope d = s
    \<and> es_effective_value d = None \<and> es_source_fact_ids d = ids
    \<and> es_resolution_status d = (if conflict then CONFLICTING else UNKNOWN)
    \<and> es_unresolved_reason d = Some (if conflict then UR_CONFLICTING_EVIDENCE else reason)"
  using assms by (auto simp: unknown_draft_def dest: make_draft_Inr)

lemma set_sorted_ids [simp]: "set (sorted_ids facts) = cl_id ` set facts"
  by (simp add: sorted_ids_def)

text \<open>
  C6. The status of a scalar group is decided by its last line alone (by all its facts when they
  come from several artifacts): CONFLICTING when two deciding facts differ in operation or value,
  RESOLVED when they all assign the same value, which is then the effective value, and UNKNOWN
  when they all reset or remove; every fact of the group is recorded as a source.
\<close>

theorem scalar_group_status:
  assumes "facts \<noteq> []" and "resolve_scalar_scope uuid5 audit device field_id scope facts = Inr d"
  shows "es_resolution_status d =
      (if contested facts then CONFLICTING
       else if list_all (\<lambda>c. cl_operation c = ASSIGN) (deciding facts) then RESOLVED else UNKNOWN)
    \<and> es_effective_value d =
      (if es_resolution_status d = RESOLVED then Some (cl_value (fst (ordered_winner facts))) else None)
    \<and> fst (ordered_winner facts) \<in> set (deciding facts)
    \<and> set (es_source_fact_ids d) = cl_id ` set facts"
proof -
  obtain w conflict where win: "ordered_winner facts = (w, conflict)" by (cases "ordered_winner facts")
  have w: "w \<in> set (deciding facts)" using ordered_winner_member [OF assms(1)] win by simp
  have conflict: "conflict = contested facts" using contested_winner [OF assms(1)] win by simp
  have same: "list_all (\<lambda>c. cl_operation c = ASSIGN) (deciding facts) \<longleftrightarrow> cl_operation w = ASSIGN"
    if "\<not> contested facts"
  proof -
    have "effect c = effect w" if "c \<in> set (deciding facts)" for c
      using that w \<open>\<not> contested facts\<close> unfolding contested_def list_ex_iff by blast
    then have "\<forall>c \<in> set (deciding facts). cl_operation c = cl_operation w" by (simp add: effect_def)
    with w show ?thesis unfolding list_all_iff by metis
  qed
  consider "conflict" | "\<not> conflict" "cl_operation w = ASSIGN" | "\<not> conflict" "cl_operation w \<noteq> ASSIGN"
    by blast
  then show ?thesis
  proof cases
    case 1
    with assms(2) win have "es_resolution_status d = CONFLICTING \<and> es_effective_value d = None
        \<and> es_source_fact_ids d = sorted_ids facts"
      by (auto simp: resolve_scalar_scope_def dest!: unknown_draft_Inr)
    with 1 conflict win w show ?thesis by simp
  next
    case 2
    with assms(2) win have "es_resolution_status d = RESOLVED \<and> es_effective_value d = Some (cl_value w)
        \<and> es_source_fact_ids d = sorted_ids facts"
      by (auto simp: resolve_scalar_scope_def Let_def dest!: make_draft_Inr)
    with 2 conflict same win w show ?thesis by simp
  next
    case 3
    with assms(2) win have "es_resolution_status d = UNKNOWN \<and> es_effective_value d = None
        \<and> es_source_fact_ids d = sorted_ids facts"
      by (auto simp: resolve_scalar_scope_def Let_def dest!: unknown_draft_Inr split: if_splits)
    with 3 conflict same win w show ?thesis by simp
  qed
qed

section \<open>Drafts are valid and belong to their field\<close>

text \<open>What every draft of one field satisfies, whatever its facts.\<close>

definition field_draft_ok ::
  "(uuid \<Rightarrow> string \<Rightarrow> uuid) \<Rightarrow> uuid \<Rightarrow> uuid \<Rightarrow> string \<Rightarrow> classified_fact list \<Rightarrow> effective_state_draft \<Rightarrow> bool" where
  "field_draft_ok uuid5 a dv f facts d \<longleftrightarrow>
     draft_ok uuid5 d \<and> es_audit_id d = a \<and> es_device_id d = dv \<and> es_field_id d = f
     \<and> es_source_fact_ids d \<noteq> [] \<and> set (es_source_fact_ids d) \<subseteq> cl_id ` set facts"

lemma field_draft_ok_mono:
  "field_draft_ok uuid5 a dv f gs d \<Longrightarrow> set gs \<subseteq> set facts \<Longrightarrow> field_draft_ok uuid5 a dv f facts d"
  unfolding field_draft_ok_def by blast

lemma sorted_ids_Nil [simp]: "[] = sorted_ids facts \<longleftrightarrow> facts = []" "sorted_ids facts = [] \<longleftrightarrow> facts = []"
  using set_sorted_ids [of facts] by (metis image_is_empty set_empty)+

lemma unknown_draft_ok:
  "unknown_draft uuid5 a dv f s (sorted_ids facts) tr reason c = Inr d \<Longrightarrow> facts \<noteq> []
    \<Longrightarrow> field_draft_ok uuid5 a dv f facts d \<and> es_scope d = s"
  by (auto simp: field_draft_ok_def dest!: unknown_draft_Inr)

lemma made_draft_ok:
  "make_effective_state_draft uuid5 a dv f s v st (sorted_ids facts) tr pr rs = Inr d \<Longrightarrow> facts \<noteq> []
    \<Longrightarrow> field_draft_ok uuid5 a dv f facts d \<and> es_scope d = s"
  by (auto simp: field_draft_ok_def dest!: make_draft_Inr)

lemma scalar_scope_ok:
  assumes "resolve_scalar_scope uuid5 a dv f s facts = Inr d" and "facts \<noteq> []"
  shows "field_draft_ok uuid5 a dv f facts d \<and> es_scope d = s"
proof -
  obtain w c where win: "ordered_winner facts = (w, c)" by (cases "ordered_winner facts")
  show ?thesis
    using assms win
    by (cases "c"; cases "cl_operation w")
      (auto simp: resolve_scalar_scope_def Let_def split del: if_split dest: unknown_draft_ok made_draft_ok)
qed

lemma repeatable_scope_ok:
  assumes "resolve_repeatable_scope uuid5 a dv f items = Inr d" and "items \<noteq> []"
  shows "field_draft_ok uuid5 a dv f items d \<and> es_scope d = cl_scope (hd items)"
  using assms unknown_draft_ok made_draft_ok
  unfolding resolve_repeatable_scope_def Let_def by (simp split: if_splits)

section \<open>Runs of sorted lists and VTY bounds\<close>

lemma group_runs_distinct:
  fixes f :: "'a \<Rightarrow> 'k::linorder"
  assumes "sorted (map f xs)"
  shows "distinct (map fst (group_runs f xs)) \<and> (\<forall>k \<in> fst ` set (group_runs f xs). \<forall>x \<in> set (take 1 xs). f x \<le> k)"
  using assms
proof (induction f xs rule: group_runs.induct)
  case (2 f x xs)
  let ?rest = "dropWhile (\<lambda>y. f y = f x) xs"
  have sorted: "sorted (map f ?rest)"
    using 2(2) by (metis dropWhile_eq_drop drop_map list.simps(9) sorted_wrt_drop sorted_simps(2))
  have greater: "f x < f y" if "?rest = y # ys" for y ys
  proof -
    have "f y \<noteq> f x" using that by (metis (mono_tags, lifting) dropWhile_eq_Cons_conv)
    moreover have "y \<in> set xs" using that by (metis list.set_intros(1) set_dropWhileD)
    with 2(2) have "f x \<le> f y" by simp
    ultimately show ?thesis by simp
  qed
  have "k > f x" if k: "k \<in> fst ` set (group_runs f ?rest)" for k
  proof (cases ?rest)
    case Nil
    with k show ?thesis by simp
  next
    case (Cons y ys)
    with 2(1) [OF sorted] k greater [OF Cons] show ?thesis by fastforce
  qed
  with 2(1) [OF sorted] show ?case by fastforce
qed simp

lemma sorted_fst: "sorted (map (\<lambda>x. (f x, g x)) xs) \<Longrightarrow> sorted (map f xs)"
  by (induction xs) (auto simp: less_eq_prod_def)

lemma group_runs_sorted:
  "distinct (map fst (group_runs f (sort_key (\<lambda>x. (f x :: 'k::linorder, g x :: 'l::linorder)) xs)))"
  using group_runs_distinct [OF sorted_fst, of f g "sort_key (\<lambda>x. (f x, g x)) xs"] by simp

lemma group_runs_set: "\<Union> (set ` snd ` set (group_runs f xs)) = set xs"
  using arg_cong [OF group_runs_concat [of f xs], of set] by simp

lemma valid_vty_bounds:
  assumes "validate_scope s = Inr ()" and "sc_type s = ''vty_range''"
  shows "\<exists>m n. vty_bounds s = Inr (m, n) \<and> 0 \<le> m \<and> m \<le> n \<and> n \<le> 999"
proof -
  obtain a b where key: "vty_key_parts (sc_key s) = Some (a, b)" and len: "length a \<le> 4300" "length b \<le> 4300"
    and le: "digits_value a \<le> digits_value b" "digits_value b \<le> 999"
    using valid_vty_scope [OF assms] by blast
  have dig: "all_digits a" "all_digits b" and k: "sc_key s = ''vty:'' @ a @ ''-'' @ b"
    using vty_key_parts_digits [OF key] by blast+
  from k dig len dash_split [OF dig(1), of b] have "vty_bounds s = Inr (int (digits_value a), int (digits_value b))"
    by (simp add: vty_bounds_def assms(2) py_int_digits)
  with le show ?thesis by simp
qed

lemma valid_partition_scope:
  assumes "validate_scope (partition_scope m n) = Inr ()"
  shows "\<exists>a b. vty_key_parts (sc_key (partition_scope m n)) = Some (a, b) \<and> m = int (digits_value a)"
  using assms
  by (auto simp: validate_scope_def partition_scope_def vty_scope_valid_def int_of_digits_def Let_def
      py_get_def dict_get_def split: option.splits prod.splits if_splits)

section \<open>The drafts of one field\<close>

abbreviation draft_key :: "effective_state_draft \<Rightarrow> string \<times> string" where
  "draft_key d \<equiv> (sc_type (es_scope d), sc_key (es_scope d))"

text \<open>
  The drafts of a field: valid, with sources among its facts, one for each scope, and every fact
  of \<open>used\<close> recorded as a source.
\<close>

definition field_result ::
  "(uuid \<Rightarrow> string \<Rightarrow> uuid) \<Rightarrow> uuid \<Rightarrow> uuid \<Rightarrow> string \<Rightarrow> classified_fact list \<Rightarrow> classified_fact list
    \<Rightarrow> effective_state_draft list \<Rightarrow> bool" where
  "field_result uuid5 a dv f facts used ds \<longleftrightarrow>
     list_all (field_draft_ok uuid5 a dv f facts) ds \<and> distinct (map draft_key ds)
     \<and> cl_id ` set used \<subseteq> \<Union> (set ` es_source_fact_ids ` set ds)"

lemma map_res_set: "map_res f xs = Inr ys \<Longrightarrow> y \<in> set ys \<Longrightarrow> \<exists>x \<in> set xs. f x = Inr y"
  by (induction xs arbitrary: ys) auto

lemma map_res_set2: "map_res f xs = Inr ys \<Longrightarrow> x \<in> set xs \<Longrightarrow> \<exists>y \<in> set ys. f x = Inr y"
  by (induction xs arbitrary: ys) auto

lemma map_res_map_eq:
  "map_res f xs = Inr ys \<Longrightarrow> (\<And>x y. x \<in> set xs \<Longrightarrow> f x = Inr y \<Longrightarrow> h y = k x) \<Longrightarrow> map h ys = map k xs"
  by (auto simp: map_res_Inr list_all2_conv_all_nth intro!: nth_equalityI)

text \<open>Drafts of a list of groups, each with its key.\<close>

lemma grouped_result:
  assumes run: "map_res (\<lambda>(k, items). F k items) groups = Inr ds"
    and keys: "distinct (map (key \<circ> fst) groups)"
    and one: "\<And>k items d. (k, items) \<in> set groups \<Longrightarrow> F k items = Inr d \<Longrightarrow>
       field_draft_ok uuid5 a dv f facts d \<and> draft_key d = key k \<and> cl_id ` set items \<subseteq> set (es_source_fact_ids d)"
    and all: "set used \<subseteq> \<Union> (set ` snd ` set groups)"
  shows "field_result uuid5 a dv f facts used ds"
proof -
  have "map draft_key ds = map (key \<circ> fst) groups"
    using one by (intro map_res_map_eq [OF run]) (auto split: prod.splits)
  moreover have "field_draft_ok uuid5 a dv f facts d" if "d \<in> set ds" for d
    using map_res_set [OF run that] one by auto
  moreover have "cl_id ` set used \<subseteq> \<Union> (set ` es_source_fact_ids ` set ds)"
  proof
    fix i assume "i \<in> cl_id ` set used"
    then obtain c where c: "c \<in> set used" "i = cl_id c" by blast
    with all obtain k items where g: "(k, items) \<in> set groups" "c \<in> set items" by force
    from map_res_set2 [OF run g(1)] obtain d where "d \<in> set ds" "F k items = Inr d" by auto
    with one [OF g(1)] g(2) c(2) show "i \<in> \<Union> (set ` es_source_fact_ids ` set ds)" by blast
  qed
  ultimately show ?thesis using keys by (simp add: field_result_def list_all_iff)
qed

lemma scalar_scope_sources:
  assumes "resolve_scalar_scope uuid5 a dv f s facts = Inr d" and "facts \<noteq> []"
  shows "set (es_source_fact_ids d) = cl_id ` set facts"
  using scalar_group_status [OF assms(2,1)] by simp

lemma repeatable_scope_sources:
  assumes "resolve_repeatable_scope uuid5 a dv f items = Inr d"
  shows "set (es_source_fact_ids d) = cl_id ` set items"
  using assms
  by (auto simp: resolve_repeatable_scope_def Let_def split: if_splits
      dest!: unknown_draft_Inr make_draft_Inr)

lemma run_scope:
  assumes "(k, items) \<in> set (group_runs scope_id xs)"
  shows "items \<noteq> [] \<and> scope_id (hd items) = k \<and> set items \<subseteq> set xs"
  using group_runs_key [OF assms] group_runs_member [OF assms] by auto

lemma repeatable_field_result:
  assumes "resolve_repeatable_field uuid5 a dv f facts = Inr ds"
  shows "field_result uuid5 a dv f facts facts ds"
proof (rule grouped_result [OF assms [unfolded resolve_repeatable_field_def], where key = "\<lambda>k. k"])
  let ?runs = "group_runs scope_id (sort_key (\<lambda>c. (scope_id c, value_key (cl_value c))) facts)"
  show "distinct (map ((\<lambda>k. k) \<circ> fst) ?runs)" using group_runs_sorted by (simp add: comp_def)
  show "set facts \<subseteq> \<Union> (set ` snd ` set ?runs)" unfolding group_runs_set by simp
  fix k items d
  assume "(k, items) \<in> set ?runs" and d: "resolve_repeatable_scope uuid5 a dv f items = Inr d"
  with run_scope have run: "items \<noteq> []" "scope_id (hd items) = k" "set items \<subseteq> set facts" by fastforce+
  with repeatable_scope_ok [OF d] repeatable_scope_sources [OF d]
  show "field_draft_ok uuid5 a dv f facts d \<and> draft_key d = k \<and> cl_id ` set items \<subseteq> set (es_source_fact_ids d)"
    by (auto simp: scope_id_def intro: field_draft_ok_mono)
qed

lemma distinct_map_comp: "distinct (map (g \<circ> f) xs) \<Longrightarrow> distinct (map f xs)"
  by (induction xs) auto

lemma blocked_field_result:
  assumes "resolve_blocked_field uuid5 a dv f blocked = Inr ds" and "blocked \<noteq> []"
  shows "field_result uuid5 a dv f blocked blocked ds
    \<and> list_all (\<lambda>d. es_resolution_status d = UNKNOWN \<and> es_unresolved_reason d = Some UR_MISSING_EVIDENCE) ds"
proof -
  let ?scopes = "foldl (\<lambda>d c. dict_put (sc_key (cl_scope c)) (cl_scope c) d) []"
  let ?draft = "\<lambda>scope. unknown_draft uuid5 a dv f scope (sorted_ids blocked)
         (map (\<lambda>c. trace ''dependency_missing'' [(''fact_id'', PStr (cl_ids c))]) blocked)
         UR_MISSING_EVIDENCE False"
  from assms(1) have run: "map_res (\<lambda>(_, scope). ?draft scope) (?scopes blocked) = Inr ds"
    by (simp add: resolve_blocked_field_def)
  have scopes: "distinct (map fst (?scopes cs)) \<and> (\<forall>(k, s) \<in> set (?scopes cs). k = sc_key s)
      \<and> (cs \<noteq> [] \<longrightarrow> ?scopes cs \<noteq> [])" for cs
  proof (induction cs rule: rev_induct)
    case (snoc c cs)
    have "p = (k, v) \<or> p \<in> set d" if "p \<in> set (dict_put k v d)"
      for p k v and d :: "(string \<times> scope_ref) list"
      using that by (induction k v d rule: dict_put.induct) (auto split: if_splits)
    then have "\<forall>(k, s) \<in> set (dict_put (sc_key (cl_scope c)) (cl_scope c) (?scopes cs)). k = sc_key s"
      using snoc by blast
    moreover have "dict_put k v d \<noteq> []" for k v and d :: "(string \<times> scope_ref) list"
      by (induction k v d rule: dict_put.induct) auto
    ultimately show ?case using snoc by (auto intro: dict_put_distinct)
  qed simp
  note drafts = unknown_draft_ok [OF _ assms(2)] unknown_draft_Inr
  have "map (\<lambda>d. sc_key (es_scope d)) ds = map fst (?scopes blocked)"
    using scopes [of blocked] by (intro map_res_map_eq [OF run]) (auto dest!: drafts(2) split: prod.splits)
  then have "distinct (map (\<lambda>d. sc_key (es_scope d)) ds)" using scopes [of blocked] by simp
  then have dist: "distinct (map draft_key ds)"
    by (intro distinct_map_comp [where g = snd]) (simp add: comp_def)
  have each: "field_draft_ok uuid5 a dv f blocked d \<and> set (es_source_fact_ids d) = cl_id ` set blocked
      \<and> es_resolution_status d = UNKNOWN \<and> es_unresolved_reason d = Some UR_MISSING_EVIDENCE"
    if d: "d \<in> set ds" for d
  proof -
    from map_res_set [OF run d] obtain s where s: "?draft s = Inr d" by auto
    from drafts(1) [OF s] drafts(2) [OF s] show ?thesis by simp
  qed
  have "ds \<noteq> []"
    using map_res_length [OF run] scopes [of blocked] assms(2) by auto
  then have "hd ds \<in> set ds" by simp
  with each dist show ?thesis unfolding field_result_def list_all_iff by blast
qed

text \<open>The VTY partitions of valid facts: distinct keys, nonempty groups, and no fact left out.\<close>

lemma partitions_starts: "distinct (map (fst \<circ> fst) (partitions_of bfacts))"
proof -
  let ?b = "boundaries bfacts"
  have "map fst (steps ?b) = take (length (tl ?b)) ?b" by (simp add: map_fst_zip_take)
  then have "distinct (map fst (steps ?b))" by (simp add: boundaries_sorted)
  moreover have "map (fst \<circ> fst) (map (\<lambda>(s, t). ((s, t - 1), applicable bfacts s (t - 1))) (steps ?b))
      = map fst (steps ?b)" by (simp add: comp_def case_prod_beta)
  ultimately show ?thesis unfolding partitions_of_def by (intro distinct_map_filter) metis
qed

lemma vty_bounded:
  assumes "map_res (\<lambda>c. and_then (vty_bounds (cl_scope c)) (\<lambda>b. Inr (c, b))) facts = Inr bfacts"
    and "\<forall>c \<in> set facts. validate_scope (cl_scope c) = Inr ()"
  shows "map fst bfacts = facts \<and> (\<forall>(c, m, n) \<in> set bfacts. vty_bounds (cl_scope c) = Inr (m, n) \<and> 0 \<le> m \<and> m \<le> n \<and> n \<le> 999)"
proof -
  have "map fst bfacts = map (\<lambda>c. c) facts" by (rule map_res_map_eq [OF assms(1)]) auto
  moreover have "vty_bounds (cl_scope c) = Inr (m, n) \<and> 0 \<le> m \<and> m \<le> n \<and> n \<le> 999"
    if "(c, m, n) \<in> set bfacts" for c m n
  proof -
    from map_res_set [OF assms(1) that] have c: "c \<in> set facts" "vty_bounds (cl_scope c) = Inr (m, n)" by auto
    then have "sc_type (cl_scope c) = ''vty_range''" by (auto simp: vty_bounds_def split: if_splits)
    with valid_vty_bounds assms(2) c show ?thesis by fastforce
  qed
  ultimately show ?thesis by auto
qed

lemma partition_bounds:
  assumes "\<forall>(c, m, n) \<in> set bfacts. 0 \<le> m \<and> m \<le> n \<and> n \<le> 999" and "((s, e), cs) \<in> set (partitions_of bfacts)"
  shows "0 \<le> s \<and> s \<le> e \<and> e \<le> 999"
proof -
  have st: "(s, e + 1) \<in> set (steps (boundaries bfacts))" using assms(2) by (simp add: partition_member)
  have "\<forall>b \<in> set (boundaries bfacts). 0 \<le> b \<and> b \<le> 1000"
    using assms(1) by (fastforce simp: boundaries_def)
  with step_mem [OF st] partition_nonempty [OF assms(2)] show ?thesis by auto
qed

lemma partition_key_inj:
  assumes "sc_key (partition_scope m n) = sc_key (partition_scope m' n')"
    and "0 \<le> m" "0 \<le> n" "0 \<le> m'" "0 \<le> n'"
  shows "m = m' \<and> n = n'"
proof -
  obtain a b a' b' where m: "m = int a" "n = int b" "m' = int a'" "n' = int b'"
    using assms(2-5) by (metis nonneg_int_cases)
  have "vty_key_parts (''vty:'' @ nat_str a @ ''-'' @ nat_str b)
      = vty_key_parts (''vty:'' @ nat_str a' @ ''-'' @ nat_str b')"
    using assms(1) by (simp add: partition_scope_def m int_str_def)
  then have "Some (nat_str a, nat_str b) = Some (nat_str a', nat_str b')"
    by (simp only: vty_key_parts_of nat_str_all_digits)
  then show ?thesis by (simp add: m)
qed

lemma vty_groups:
  assumes "vty_partitions facts = Inr ps" and "\<forall>c \<in> set facts. validate_scope (cl_scope c) = Inr ()"
  shows "distinct (map ((\<lambda>s. (sc_type s, sc_key s)) \<circ> fst) ps)
    \<and> (\<forall>(s, items) \<in> set ps. items \<noteq> [] \<and> set items \<subseteq> set facts)
    \<and> set facts \<subseteq> \<Union> (set ` snd ` set ps)"
proof -
  from assms(1) obtain bfacts
    where b: "map_res (\<lambda>c. and_then (vty_bounds (cl_scope c)) (\<lambda>b. Inr (c, b))) facts = Inr bfacts"
      and ps: "ps = map (\<lambda>((m, n), cs). (partition_scope m n, cs)) (partitions_of bfacts)"
    by (auto simp: vty_partitions_def)
  note bd = vty_bounded [OF b assms(2)]
  then have bounds: "\<forall>(c, m, n) \<in> set bfacts. 0 \<le> m \<and> m \<le> n \<and> n \<le> 999" by fastforce
  have "inj_on (\<lambda>((m, n), cs). sc_key (partition_scope m n)) (set (partitions_of bfacts))"
  proof (rule inj_onI, clarsimp)
    fix m n cs m' n' cs'
    assume p: "((m, n), cs) \<in> set (partitions_of bfacts)" "((m', n'), cs') \<in> set (partitions_of bfacts)"
      and "sc_key (partition_scope m n) = sc_key (partition_scope m' n')"
    with partition_bounds [OF bounds p(1)] partition_bounds [OF bounds p(2)] partition_key_inj
    have "m = m' \<and> n = n'" by auto
    with p show "m = m' \<and> n = n' \<and> cs = cs'" by (simp add: partition_member)
  qed
  moreover have "distinct (partitions_of bfacts)" using partitions_starts by (simp add: distinct_map)
  ultimately have "distinct (map (\<lambda>((m, n), cs). sc_key (partition_scope m n)) (partitions_of bfacts))"
    by (simp add: distinct_map)
  moreover have "map (\<lambda>p. sc_key (fst p)) ps = map (\<lambda>((m, n), cs). sc_key (partition_scope m n)) (partitions_of bfacts)"
    unfolding ps by auto
  ultimately have "distinct (map (\<lambda>p. sc_key (fst p)) ps)" by simp
  then have "distinct (map ((\<lambda>s. (sc_type s, sc_key s)) \<circ> fst) ps)"
    by (auto simp: distinct_map inj_on_def)
  moreover have "items \<noteq> [] \<and> set items \<subseteq> set facts" if "(s, items) \<in> set ps" for s items
  proof -
    from that obtain m n where "((m, n), items) \<in> set (partitions_of bfacts)" by (auto simp: ps)
    then have "items \<noteq> []" "set items \<subseteq> set (map fst bfacts)"
      by (auto simp: partition_member applicable_def)
    with bd show ?thesis by simp
  qed
  moreover have "c \<in> \<Union> (set ` snd ` set ps)" if "c \<in> set facts" for c
  proof -
    from that bd obtain m n where mem: "(c, m, n) \<in> set bfacts" by (metis (no_types, lifting) imageE list.set_map prod.collapse)
    with bounds have "m \<le> n" by auto
    with mem have "c \<in> set (mentions bfacts m)" by (force simp: mentions_def)
    moreover from this obtain s e where "((s, e), mentions bfacts m) \<in> set (partitions_of bfacts)"
      using partition_exists [of bfacts m] by force
    ultimately show ?thesis unfolding ps by force
  qed
  ultimately show ?thesis by blast
qed

lemma scalar_field_result:
  assumes run: "resolve_scalar_field uuid5 a dv f facts = Inr ds"
    and scopes: "\<forall>c \<in> set facts. validate_scope (cl_scope c) = Inr ()"
  shows "field_result uuid5 a dv f facts facts ds"
proof -
  consider "facts = []" | "facts \<noteq> []" "sc_type (cl_scope (hd facts)) \<noteq> ''vty_range''"
    | "facts \<noteq> []" "sc_type (cl_scope (hd facts)) = ''vty_range''" by blast
  then show ?thesis
  proof cases
    case 1
    with run show ?thesis by (simp add: resolve_scalar_field_def field_result_def)
  next
    case 2
    let ?runs = "group_runs scope_id (sort_key (\<lambda>c. (scope_id c, cl_ids c)) facts)"
    from 2 run have "map_res (\<lambda>(_, items). resolve_scalar_scope uuid5 a dv f (cl_scope (hd items)) items) ?runs
      = Inr ds" by (simp add: resolve_scalar_field_def)
    then show ?thesis
    proof (rule grouped_result [where key = "\<lambda>k. k"])
      show "distinct (map ((\<lambda>k. k) \<circ> fst) ?runs)" using group_runs_sorted by (simp add: comp_def)
      show "set facts \<subseteq> \<Union> (set ` snd ` set ?runs)" unfolding group_runs_set by simp
      fix k items d
      assume "(k, items) \<in> set ?runs"
        and d: "resolve_scalar_scope uuid5 a dv f (cl_scope (hd items)) items = Inr d"
      with run_scope have r: "items \<noteq> []" "scope_id (hd items) = k" "set items \<subseteq> set facts" by fastforce+
      with scalar_scope_ok [OF d] scalar_scope_sources [OF d]
      show "field_draft_ok uuid5 a dv f facts d \<and> draft_key d = k \<and> cl_id ` set items \<subseteq> set (es_source_fact_ids d)"
        by (auto simp: scope_id_def intro: field_draft_ok_mono)
    qed
  next
    case 3
    from 3 run obtain ps where ps: "vty_partitions facts = Inr ps"
      and drafts: "map_res (\<lambda>(scope, items). resolve_scalar_scope uuid5 a dv f scope items) ps = Inr ds"
      by (auto simp: resolve_scalar_field_def)
    note groups = vty_groups [OF ps scopes]
    show ?thesis
    proof (rule grouped_result [OF drafts, where key = "\<lambda>s. (sc_type s, sc_key s)"])
      fix s items d
      assume "(s, items) \<in> set ps" and d: "resolve_scalar_scope uuid5 a dv f s items = Inr d"
      with groups have r: "items \<noteq> []" "set items \<subseteq> set facts" by auto
      with scalar_scope_ok [OF d] scalar_scope_sources [OF d]
      show "field_draft_ok uuid5 a dv f facts d \<and> draft_key d = (sc_type s, sc_key s)
          \<and> cl_id ` set items \<subseteq> set (es_source_fact_ids d)"
        by (auto intro: field_draft_ok_mono)
    qed (use groups in blast)+
  qed
qed

section \<open>The drafts of a call\<close>

lemma classify_Inr:
  "classify f op = Inr c \<Longrightarrow> cl_fact c = f \<and> scope_from_dict (sf_scope f) = Inr (cl_scope c)"
  by (cases "sf_evidence_refs f") (auto simp: classify_def)

lemma scope_from_dict_valid: "scope_from_dict v = Inr s \<Longrightarrow> validate_scope s = Inr ()"
  by (auto simp: scope_from_dict_def split: pyval.splits if_splits)

definition blocked_facts :: "security_fact list \<Rightarrow> classified_fact list \<Rightarrow> classified_fact list" where
  "blocked_facts facts cs = filter (\<lambda>c. cl_id c \<in> set (blocked_dependency_ids facts)) cs"

lemma resolve_field_result:
  assumes "resolve_field uuid5 a dv (set (blocked_dependency_ids facts)) (f, cs) = Inr ds"
    and "\<forall>c \<in> set cs. validate_scope (cl_scope c) = Inr ()"
  shows "if blocked_facts facts cs = [] then field_result uuid5 a dv f cs cs ds
    else field_result uuid5 a dv f (blocked_facts facts cs) (blocked_facts facts cs) ds
      \<and> list_all (\<lambda>d. es_resolution_status d = UNKNOWN \<and> es_unresolved_reason d = Some UR_MISSING_EVIDENCE) ds"
  using assms blocked_field_result scalar_field_result repeatable_field_result
  by (auto simp: resolve_field_def Let_def blocked_facts_def split: if_splits)

lemma resolve_field_drafts:
  assumes "resolve_field uuid5 a dv (set (blocked_dependency_ids facts)) (f, cs) = Inr ds"
    and "\<forall>c \<in> set cs. validate_scope (cl_scope c) = Inr ()"
  shows "list_all (field_draft_ok uuid5 a dv f cs) ds \<and> distinct (map draft_key ds)"
  using resolve_field_result [OF assms]
  by (auto simp: field_result_def list_all_iff blocked_facts_def split: if_splits intro: field_draft_ok_mono)

text \<open>The runs of a call: its classified facts, field by field, and the drafts of each.\<close>

definition field_runs :: "classified_fact list \<Rightarrow> (string \<times> classified_fact list) list" where
  "field_runs classified = group_runs (\<lambda>c. sf_field_id (cl_fact c))
     (sort_key (\<lambda>c. (sf_field_id (cl_fact c), scope_id c, cl_ids c)) classified)"

lemma resolve_runs:
  assumes "resolve_security_facts uuid5 a dv operations facts = Inr ds"
  obtains classified dss where "map cl_fact classified = facts"
    and "\<forall>c \<in> set classified. validate_scope (cl_scope c) = Inr ()"
    and "map_res (resolve_field uuid5 a dv (set (blocked_dependency_ids facts))) (field_runs classified) = Inr dss"
    and "set ds = \<Union> (set ` set dss)" and "mset ds = mset (concat dss)"
proof -
  from assms obtain classified dss
    where c: "map_res (\<lambda>f. classify f (operations (sf_fact_id f))) facts = Inr classified"
      and r: "map_res (resolve_field uuid5 a dv (set (blocked_dependency_ids facts))) (field_runs classified) = Inr dss"
      and ds: "ds = sort_key (\<lambda>d. (es_field_id d, sc_type (es_scope d), sc_key (es_scope d))) (concat dss)"
    by (auto simp: resolve_security_facts_def field_runs_def Let_def)
  have "map cl_fact classified = map (\<lambda>f. f) facts"
    by (rule map_res_map_eq [OF c]) (simp add: classify_Inr)
  moreover have "validate_scope (cl_scope x) = Inr ()" if "x \<in> set classified" for x
    using map_res_set [OF c that] classify_Inr scope_from_dict_valid by metis
  ultimately show ?thesis using that r ds by simp
qed

lemma field_runs_facts:
  "(f, cs) \<in> set (field_runs classified) \<Longrightarrow>
     cs \<noteq> [] \<and> set cs = {c \<in> set classified. sf_field_id (cl_fact c) = f}"
proof -
  let ?key = "\<lambda>c. sf_field_id (cl_fact c)"
  assume run: "(f, cs) \<in> set (field_runs classified)"
  have "distinct (map fst (field_runs classified))"
    unfolding field_runs_def by (rule group_runs_sorted)
  have "c \<in> set cs" if c: "c \<in> set classified" "?key c = f" for c
  proof -
    from c(1) group_runs_set [of ?key "sort_key (\<lambda>c. (?key c, scope_id c, cl_ids c)) classified"]
    obtain g gs where "(g, gs) \<in> set (field_runs classified)" "c \<in> set gs"
      unfolding field_runs_def by force
    moreover from this have "g = f"
      using group_runs_key [of g gs ?key] c(2) unfolding field_runs_def by fastforce
    ultimately show ?thesis
      using run \<open>distinct (map fst (field_runs classified))\<close> by (metis eq_key_imp_eq_value)
  qed
  with group_runs_key [OF run [unfolded field_runs_def]] group_runs_member [OF run [unfolded field_runs_def]]
  show ?thesis by auto
qed

lemma field_runs_exists:
  assumes "c \<in> set classified"
  shows "\<exists>cs. (sf_field_id (cl_fact c), cs) \<in> set (field_runs classified)"
  using assms group_runs_set [of "\<lambda>c. sf_field_id (cl_fact c)"] group_runs_key
  unfolding field_runs_def by fastforce

lemma concat_keys_distinct:
  assumes "map_res F groups = Inr dss" and "distinct (map fst groups)"
    and "\<And>k x fds. (k, x) \<in> set groups \<Longrightarrow> F (k, x) = Inr fds \<Longrightarrow>
      (\<forall>d \<in> set fds. key d = k) \<and> distinct (map h fds)"
  shows "distinct (map (\<lambda>d. (key d, h d)) (concat dss))"
  using assms
proof (induction groups arbitrary: dss)
  case (Cons g groups)
  obtain k x where g: "g = (k, x)" by (cases g)
  from Cons.prems(1) g obtain fds rest where fds: "F (k, x) = Inr fds" and rest: "map_res F groups = Inr rest"
    and dss: "dss = fds # rest" by auto
  have own: "(\<forall>d \<in> set fds. key d = k) \<and> distinct (map h fds)"
    using Cons.prems(3) [OF _ fds] g by simp
  have "distinct (map (\<lambda>d. (key d, h d)) (concat rest))"
    using Cons.prems g by (intro Cons.IH [OF rest]) auto
  moreover have "key d \<noteq> k" if d: "d \<in> set (concat rest)" for d
  proof -
    from d obtain ds' where "ds' \<in> set rest" "d \<in> set ds'" by auto
    with map_res_set [OF rest] obtain k' x' where "(k', x') \<in> set groups" "F (k', x') = Inr ds'" by force
    with Cons.prems(3) [of k' x' ds'] \<open>d \<in> set ds'\<close> have "key d = k'" by simp
    moreover have "k' \<noteq> k" using Cons.prems(2) \<open>(k', x') \<in> set groups\<close> g by force
    ultimately show ?thesis by simp
  qed
  moreover have "distinct (map (\<lambda>d. (key d, h d)) fds)"
    using own by (intro distinct_map_comp [where g = snd]) (simp add: comp_def)
  ultimately show ?case using own unfolding dss by (auto simp: distinct_map)
qed simp

lemma call_keys_distinct:
  assumes "resolve_security_facts uuid5 a dv operations facts = Inr ds"
  shows "distinct (map (\<lambda>d. (es_field_id d, draft_key d)) ds)"
proof -
  from assms obtain classified dss where valid: "\<forall>c \<in> set classified. validate_scope (cl_scope c) = Inr ()"
    and run: "map_res (resolve_field uuid5 a dv (set (blocked_dependency_ids facts))) (field_runs classified) = Inr dss"
    and ds: "mset ds = mset (concat dss)" by (rule resolve_runs)
  have "distinct (map (\<lambda>d. (es_field_id d, draft_key d)) (concat dss))"
  proof (rule concat_keys_distinct [OF run])
    show "distinct (map fst (field_runs classified))" unfolding field_runs_def by (rule group_runs_sorted)
    fix f cs fds
    assume fc: "(f, cs) \<in> set (field_runs classified)"
      and r: "resolve_field uuid5 a dv (set (blocked_dependency_ids facts)) (f, cs) = Inr fds"
    have "\<forall>c \<in> set cs. validate_scope (cl_scope c) = Inr ()" using field_runs_facts [OF fc] valid by blast
    with resolve_field_drafts [OF r] show "(\<forall>d \<in> set fds. es_field_id d = f) \<and> distinct (map draft_key fds)"
      by (auto simp: list_all_iff field_draft_ok_def)
  qed
  moreover have "mset (map (\<lambda>d. (es_field_id d, draft_key d)) ds)
      = mset (map (\<lambda>d. (es_field_id d, draft_key d)) (concat dss))" by (simp only: mset_map ds)
  ultimately show ?thesis using mset_eq_imp_distinct_iff by blast
qed

lemma call_draft_field:
  assumes ds: "resolve_security_facts uuid5 a dv operations facts = Inr ds"
  obtains classified where "map cl_fact classified = facts"
    and "\<And>d. d \<in> set ds \<Longrightarrow> \<exists>f cs fds. (f, cs) \<in> set (field_runs classified) \<and> d \<in> set fds \<and> set fds \<subseteq> set ds
        \<and> resolve_field uuid5 a dv (set (blocked_dependency_ids facts)) (f, cs) = Inr fds
        \<and> (\<forall>c \<in> set cs. validate_scope (cl_scope c) = Inr ())"
    and "\<And>f cs. (f, cs) \<in> set (field_runs classified) \<Longrightarrow> \<exists>fds. set fds \<subseteq> set ds
        \<and> resolve_field uuid5 a dv (set (blocked_dependency_ids facts)) (f, cs) = Inr fds
        \<and> (\<forall>c \<in> set cs. validate_scope (cl_scope c) = Inr ())"
proof -
  from ds obtain classified dss where facts: "map cl_fact classified = facts"
    and valid: "\<forall>c \<in> set classified. validate_scope (cl_scope c) = Inr ()"
    and run: "map_res (resolve_field uuid5 a dv (set (blocked_dependency_ids facts))) (field_runs classified) = Inr dss"
    and set_ds: "set ds = \<Union> (set ` set dss)" by (rule resolve_runs)
  have scopes: "\<forall>c \<in> set cs. validate_scope (cl_scope c) = Inr ()" if "(f, cs) \<in> set (field_runs classified)" for f cs
    using field_runs_facts [OF that] valid by blast
  show ?thesis
  proof (rule that [OF facts])
    fix d assume "d \<in> set ds"
    with set_ds obtain fds where fds: "fds \<in> set dss" "d \<in> set fds" by blast
    from map_res_set [OF run fds(1)] obtain f cs where "(f, cs) \<in> set (field_runs classified)"
      "resolve_field uuid5 a dv (set (blocked_dependency_ids facts)) (f, cs) = Inr fds" by auto
    with scopes fds set_ds show "\<exists>f cs fds. (f, cs) \<in> set (field_runs classified) \<and> d \<in> set fds \<and> set fds \<subseteq> set ds
        \<and> resolve_field uuid5 a dv (set (blocked_dependency_ids facts)) (f, cs) = Inr fds
        \<and> (\<forall>c \<in> set cs. validate_scope (cl_scope c) = Inr ())" by blast
  next
    fix f cs assume fc: "(f, cs) \<in> set (field_runs classified)"
    from map_res_set2 [OF run fc] obtain fds where "fds \<in> set dss"
      "resolve_field uuid5 a dv (set (blocked_dependency_ids facts)) (f, cs) = Inr fds" by auto
    with scopes [OF fc] set_ds show "\<exists>fds. set fds \<subseteq> set ds
        \<and> resolve_field uuid5 a dv (set (blocked_dependency_ids facts)) (f, cs) = Inr fds
        \<and> (\<forall>c \<in> set cs. validate_scope (cl_scope c) = Inr ())" by blast
  qed
qed

lemma run_fact_ids:
  assumes "map cl_fact classified = facts" and "(f, cs) \<in> set (field_runs classified)"
  shows "cl_id ` set cs = sf_fact_id ` {x \<in> set facts. sf_field_id x = f}"
proof -
  have "set facts = cl_fact ` set classified" using assms(1) by auto
  then show ?thesis using field_runs_facts [OF assms(2)] by auto
qed

text \<open>
  C9. Every draft the resolver returns passes the draft validation, carries the audit and device of
  the call, and rests on at least one fact of its own field; no two drafts of a call have the same
  field and scope, the uniqueness the table of effective states demands.
\<close>

theorem resolver_drafts_valid:
  assumes "resolve_security_facts uuid5 a dv operations facts = Inr ds"
  shows "list_all (\<lambda>d. draft_ok uuid5 d \<and> es_audit_id d = a \<and> es_device_id d = dv
      \<and> es_source_fact_ids d \<noteq> []
      \<and> set (es_source_fact_ids d) \<subseteq> sf_fact_id ` {f \<in> set facts. sf_field_id f = es_field_id d}) ds
    \<and> distinct (map (\<lambda>d. (es_field_id d, draft_key d)) ds)"
proof
  from assms obtain classified where facts: "map cl_fact classified = facts"
    and drafts: "\<And>d. d \<in> set ds \<Longrightarrow> \<exists>f cs fds. (f, cs) \<in> set (field_runs classified) \<and> d \<in> set fds \<and> set fds \<subseteq> set ds
        \<and> resolve_field uuid5 a dv (set (blocked_dependency_ids facts)) (f, cs) = Inr fds
        \<and> (\<forall>c \<in> set cs. validate_scope (cl_scope c) = Inr ())"
    by (rule call_draft_field) blast
  show "list_all (\<lambda>d. draft_ok uuid5 d \<and> es_audit_id d = a \<and> es_device_id d = dv
      \<and> es_source_fact_ids d \<noteq> []
      \<and> set (es_source_fact_ids d) \<subseteq> sf_fact_id ` {f \<in> set facts. sf_field_id f = es_field_id d}) ds"
    unfolding list_all_iff
  proof
    fix d assume "d \<in> set ds"
    from drafts [OF this] obtain f cs fds where r: "(f, cs) \<in> set (field_runs classified)" "d \<in> set fds"
      "resolve_field uuid5 a dv (set (blocked_dependency_ids facts)) (f, cs) = Inr fds"
      "\<forall>c \<in> set cs. validate_scope (cl_scope c) = Inr ()" by blast
    then have "field_draft_ok uuid5 a dv f cs d"
      using resolve_field_drafts [OF r(3,4)] by (simp add: list_all_iff)
    with run_fact_ids [OF facts r(1)] show "draft_ok uuid5 d \<and> es_audit_id d = a \<and> es_device_id d = dv
      \<and> es_source_fact_ids d \<noteq> []
      \<and> set (es_source_fact_ids d) \<subseteq> sf_fact_id ` {f \<in> set facts. sf_field_id f = es_field_id d}"
      by (auto simp: field_draft_ok_def)
  qed
  show "distinct (map (\<lambda>d. (es_field_id d, draft_key d)) ds)"
    using assms by (rule call_keys_distinct)
qed

text \<open>
  C7. No fact is lost: the resolver records every fact as a source of some draft of its field,
  unless another fact of that field is blocked by its dependencies, and then no draft of the field
  carries a value.
\<close>

theorem resolver_loses_no_fact:
  assumes "resolve_security_facts uuid5 a dv operations facts = Inr ds" and "f \<in> set facts"
  shows "if list_ex (\<lambda>g. sf_field_id g = sf_field_id f \<and> sf_fact_id g \<in> set (blocked_dependency_ids facts)) facts
    then list_all (\<lambda>d. es_field_id d = sf_field_id f \<longrightarrow> es_resolution_status d = UNKNOWN
      \<and> es_effective_value d = None \<and> es_unresolved_reason d = Some UR_MISSING_EVIDENCE) ds
    else list_ex (\<lambda>d. es_field_id d = sf_field_id f \<and> sf_fact_id f \<in> set (es_source_fact_ids d)) ds"
proof -
  let ?B = "set (blocked_dependency_ids facts)"
  from assms(1) obtain classified where facts: "map cl_fact classified = facts"
    and drafts: "\<And>d. d \<in> set ds \<Longrightarrow> \<exists>f cs fds. (f, cs) \<in> set (field_runs classified) \<and> d \<in> set fds \<and> set fds \<subseteq> set ds
        \<and> resolve_field uuid5 a dv ?B (f, cs) = Inr fds \<and> (\<forall>c \<in> set cs. validate_scope (cl_scope c) = Inr ())"
    and runs: "\<And>f cs. (f, cs) \<in> set (field_runs classified) \<Longrightarrow> \<exists>fds. set fds \<subseteq> set ds
        \<and> resolve_field uuid5 a dv ?B (f, cs) = Inr fds \<and> (\<forall>c \<in> set cs. validate_scope (cl_scope c) = Inr ())"
    by (rule call_draft_field) blast
  have blocked: "blocked_facts facts cs \<noteq> [] \<longleftrightarrow>
      list_ex (\<lambda>g. sf_field_id g = k \<and> sf_fact_id g \<in> ?B) facts"
    if "(k, cs) \<in> set (field_runs classified)" for k cs
  proof -
    have "blocked_facts facts cs \<noteq> [] \<longleftrightarrow> (\<exists>i \<in> cl_id ` set cs. i \<in> ?B)"
      by (auto simp: blocked_facts_def filter_empty_conv)
    then show ?thesis unfolding run_fact_ids [OF facts that] by (auto simp: list_ex_iff)
  qed
  show ?thesis
  proof (cases "list_ex (\<lambda>g. sf_field_id g = sf_field_id f \<and> sf_fact_id g \<in> ?B) facts")
    case True
    have "es_resolution_status d = UNKNOWN \<and> es_effective_value d = None
        \<and> es_unresolved_reason d = Some UR_MISSING_EVIDENCE"
      if d: "d \<in> set ds" "es_field_id d = sf_field_id f" for d
    proof -
      from drafts [OF d(1)] obtain k cs fds where r: "(k, cs) \<in> set (field_runs classified)" "d \<in> set fds"
        "resolve_field uuid5 a dv ?B (k, cs) = Inr fds" "\<forall>c \<in> set cs. validate_scope (cl_scope c) = Inr ()"
        by blast
      have ok: "field_draft_ok uuid5 a dv k cs d"
        using resolve_field_drafts [OF r(3,4)] r(2) by (simp add: list_all_iff)
      then have "k = sf_field_id f" using d(2) by (simp add: field_draft_ok_def)
      with blocked [OF r(1)] True have "blocked_facts facts cs \<noteq> []" by simp
      with resolve_field_result [OF r(3,4)] r(2)
      have "es_resolution_status d = UNKNOWN \<and> es_unresolved_reason d = Some UR_MISSING_EVIDENCE"
        by (simp add: list_all_iff)
      with ok show ?thesis by (simp add: field_draft_ok_def draft_ok_def status_consistent_def)
    qed
    with True show ?thesis by (simp add: list_all_iff)
  next
    case False
    from assms(2) facts obtain c where c: "c \<in> set classified" "cl_fact c = f" by auto
    with field_runs_exists obtain cs where run: "(sf_field_id f, cs) \<in> set (field_runs classified)" by blast
    from runs [OF run] obtain fds where r: "set fds \<subseteq> set ds" "resolve_field uuid5 a dv ?B (sf_field_id f, cs) = Inr fds"
      "\<forall>c \<in> set cs. validate_scope (cl_scope c) = Inr ()" by blast
    have "blocked_facts facts cs = []" using blocked [OF run] False by blast
    with resolve_field_result [OF r(2,3)] have res: "field_result uuid5 a dv (sf_field_id f) cs cs fds" by simp
    have "sf_fact_id f \<in> cl_id ` set cs" unfolding run_fact_ids [OF facts run] using assms(2) by blast
    with res obtain d where "d \<in> set fds" "sf_fact_id f \<in> set (es_source_fact_ids d)"
      by (auto simp: field_result_def)
    moreover from this res have "es_field_id d = sf_field_id f"
      by (auto simp: field_result_def list_all_iff field_draft_ok_def)
    ultimately have "list_ex (\<lambda>d. es_field_id d = sf_field_id f \<and> sf_fact_id f \<in> set (es_source_fact_ids d)) ds"
      using r(1) by (auto simp: list_ex_iff)
    with False show ?thesis by simp
  qed
qed

section \<open>The order of the facts\<close>

lemma walk_cong:
  "dict_get g = dict_get g' \<Longrightarrow> dependency_walk g r seen st b = dependency_walk g' r seen st b"
  by (induction g r seen st b rule: dependency_walk.induct) (simp_all add: Let_def)

lemma graph_perm:
  assumes "distinct (map sf_fact_id facts)" and "mset facts = mset facts'"
  shows "dict_get (dependency_graph facts) = dict_get (dependency_graph facts')"
proof
  fix v
  have set_eq: "set facts' = set facts" using assms(2) by (rule mset_eq_setD [symmetric])
  have "mset (map sf_fact_id facts) = mset (map sf_fact_id facts')" using assms(2) by (simp only: mset_map)
  then have dist: "distinct (map sf_fact_id facts')" using assms(1) mset_eq_imp_distinct_iff by blast
  show "dict_get (dependency_graph facts) v = dict_get (dependency_graph facts') v"
  proof (cases "find (\<lambda>f. sf_fact_id f = v) (rev facts)")
    case None
    then have "find (\<lambda>f. sf_fact_id f = v) (rev facts') = None" by (simp add: find_None_iff set_eq)
    with None show ?thesis by (simp add: dependency_graph_find)
  next
    case (Some f)
    then have "f \<in> set facts'" "sf_fact_id f = v" using find_member [OF Some] set_eq by simp_all
    with Some show ?thesis by (simp add: dependency_graph_find find_fact [OF dist])
  qed
qed

lemma blocked_perm:
  assumes "distinct (map sf_fact_id facts)" and "mset facts = mset facts'"
  shows "set (blocked_dependency_ids facts) = set (blocked_dependency_ids facts')"
proof -
  have "set facts' = set facts" using assms(2) by (rule mset_eq_setD [symmetric])
  then show ?thesis
    using walk_cong [OF graph_perm [OF assms]]
    by (simp add: blocked_dependency_ids_def Let_def image_Un dependency_graph_keys del: dependency_walk.simps)
qed

lemma map_res_perm:
  assumes "map_res F xs = Inr ys" and "mset xs = mset xs'"
  obtains ys' where "map_res F xs' = Inr ys'" and "mset ys' = mset ys"
proof -
  have all: "\<exists>y. F x = Inr y" if "x \<in> set xs'" for x
    using map_res_set2 [OF assms(1)] mset_eq_setD [OF assms(2)] that by blast
  have run: "map_res F zs = Inr (map (\<lambda>x. projr (F x)) zs)" if "\<forall>x \<in> set zs. \<exists>y. F x = Inr y" for zs
    using that by (induction zs) auto
  have "ys = map (\<lambda>x. projr (F x)) xs"
    using assms(1) by (induction xs arbitrary: ys) auto
  with run [of xs'] all assms(2) that show ?thesis by (metis mset_map)
qed

text \<open>
  C8. The order in which the database hands the facts over does not matter: any permutation of
  facts with distinct identifiers resolves to the same drafts in the same order.
\<close>

theorem resolver_order_irrelevant:
  assumes dist: "distinct (map sf_fact_id facts)" and perm: "mset facts = mset facts'"
    and ds: "resolve_security_facts uuid5 a dv operations facts = Inr ds"
  shows "resolve_security_facts uuid5 a dv operations facts' = Inr ds"
proof -
  let ?k = "\<lambda>c. (sf_field_id (cl_fact c), scope_id c, cl_ids c)"
  from ds obtain cs where cs: "map_res (\<lambda>f. classify f (operations (sf_fact_id f))) facts = Inr cs"
    by (auto simp: resolve_security_facts_def Let_def)
  then obtain cs' where cs': "map_res (\<lambda>f. classify f (operations (sf_fact_id f))) facts' = Inr cs'"
    and mset: "mset cs' = mset cs" using perm by (rule map_res_perm)
  have "map cl_fact cs = map (\<lambda>f. f) facts"
    by (rule map_res_map_eq [OF cs]) (simp add: classify_Inr)
  then have "map cl_id cs = map sf_fact_id facts" by auto
  then have "distinct (map cl_id cs)" using dist by simp
  then have "inj_on cl_id (set cs)" by (simp only: distinct_map)
  then have "inj_on ?k (set cs)" unfolding inj_on_def by simp
  then have "sort_key ?k cs = sort_key ?k cs'"
    using mset by (intro sort_key_inj_key_eq) simp_all
  with ds cs cs' blocked_perm [OF dist perm] show ?thesis
    by (simp add: resolve_security_facts_def Let_def)
qed

section \<open>VTY lines\<close>

definition covers :: "scope_ref \<Rightarrow> int \<Rightarrow> bool" where
  "covers scope line = (case vty_bounds scope of Inr (m, n) \<Rightarrow> m \<le> line \<and> line \<le> n | Inl _ \<Rightarrow> False)"

lemma partition_scope_bounds:
  assumes "0 \<le> m" and "m \<le> n" and "n \<le> 999"
  shows "vty_bounds (partition_scope m n) = Inr (m, n)"
proof -
  obtain a b where m: "m = int a" "n = int b" using assms by (metis nonneg_int_cases order_trans)
  with assms have valid: "validate_scope (partition_scope m n) = Inr ()"
    using vty_scope_built [of a b] by (simp add: partition_scope_def int_str_def)
  then obtain k l where kl: "vty_bounds (partition_scope m n) = Inr (k, l)" "0 \<le> k" "k \<le> l"
    using valid_vty_bounds [of "partition_scope m n"] by (auto simp: partition_scope_def)
  note dash_split [OF nat_str_all_digits [of a], of "nat_str b"]
  moreover have "length (nat_str c) \<le> 4300" if "c \<le> 999" for c
    using length_nat_str [of c 3] that by simp
  ultimately show ?thesis
    using assms m by (simp add: vty_bounds_def partition_scope_def int_str_def py_int_digits)
qed

lemma filter_unique:
  assumes "distinct xs" and "x \<in> set xs" and "P x" and "\<And>y. y \<in> set xs \<Longrightarrow> P y \<Longrightarrow> y = x"
  shows "filter P xs = [x]"
proof -
  obtain ys zs where xs: "xs = ys @ x # zs" using assms(2) by (meson split_list)
  with assms(1) have "x \<notin> set ys" "x \<notin> set zs" by simp_all
  moreover have "\<not> P y" if "y \<in> set ys \<union> set zs" "y \<noteq> x" for y
    using assms(4) [of y] that xs by auto
  ultimately have "filter P ys = []" "filter P zs = []"
    unfolding filter_empty_conv by blast+
  with xs assms(3) show ?thesis by simp
qed

text \<open>
  C5. Each VTY line that some fact mentions lies in exactly one partition, and that partition is
  resolved from exactly the facts that mention the line, in their order; a line that no fact
  mentions lies in no partition.
\<close>

theorem vty_lines_partitioned:
  assumes "vty_partitions facts = Inr ps" and "\<forall>c \<in> set facts. validate_scope (cl_scope c) = Inr ()"
  shows "map snd (filter (\<lambda>(scope, cs). covers scope line) ps) =
    (let stating = filter (\<lambda>c. covers (cl_scope c) line) facts
     in if stating = [] then [] else [stating])"
proof -
  from assms(1) obtain bfacts
    where b: "map_res (\<lambda>c. and_then (vty_bounds (cl_scope c)) (\<lambda>b. Inr (c, b))) facts = Inr bfacts"
      and ps: "ps = map (\<lambda>((m, n), cs). (partition_scope m n, cs)) (partitions_of bfacts)"
    by (auto simp: vty_partitions_def)
  note bd = vty_bounded [OF b assms(2)]
  then have bounds: "\<forall>(c, m, n) \<in> set bfacts. 0 \<le> m \<and> m \<le> n \<and> n \<le> 999" by fastforce
  have stating: "filter (\<lambda>c. covers (cl_scope c) line) facts = mentions bfacts line"
  proof -
    have "filter (\<lambda>c. covers (cl_scope c) line) (map fst bfacts) = mentions bfacts line"
      unfolding mentions_def filter_map using bd
      by (intro arg_cong [where f = "map fst"] filter_cong) (auto simp: covers_def)
    with bd show ?thesis by simp
  qed
  let ?in = "\<lambda>((m, n), cs). m \<le> line \<and> line \<le> n"
  have "filter (\<lambda>(scope, cs). covers scope line) ps
      = map (\<lambda>((m, n), cs). (partition_scope m n, cs)) (filter ?in (partitions_of bfacts))"
    unfolding ps filter_map using partition_bounds [OF bounds]
    by (intro arg_cong2 [where f = map] refl filter_cong)
      (auto simp: covers_def partition_scope_bounds)
  then have "map snd (filter (\<lambda>(scope, cs). covers scope line) ps) = map snd (filter ?in (partitions_of bfacts))"
    by (simp add: comp_def case_prod_beta)
  also have "\<dots> = (if mentions bfacts line = [] then [] else [mentions bfacts line])"
  proof (cases "mentions bfacts line = []")
    case True
    have "\<not> ?in p" if "p \<in> set (partitions_of bfacts)" for p
    proof
      assume "?in p"
      moreover obtain m n cs where p: "p = ((m, n), cs)" by (metis prod.collapse)
      ultimately have "cs = mentions bfacts line" using partition_facts that by auto
      with True that p show False by (simp add: partition_member)
    qed
    then show ?thesis using True by (simp add: filter_empty_conv)
  next
    case False
    from partition_exists [OF False] obtain s e
      where p: "((s, e), mentions bfacts line) \<in> set (partitions_of bfacts)" "s \<le> line" "line \<le> e" by blast
    have "filter ?in (partitions_of bfacts) = [((s, e), mentions bfacts line)]"
    proof (rule filter_unique)
      show "distinct (partitions_of bfacts)" using partitions_starts by (simp add: distinct_map)
      fix q assume "q \<in> set (partitions_of bfacts)" "?in q"
      moreover obtain s' e' cs' where q: "q = ((s', e'), cs')" by (metis prod.collapse)
      ultimately have "s = s' \<and> e = e' \<and> mentions bfacts line = cs'"
        using p(2,3) by (intro partition_unique [OF p(1)]) auto
      with q show "q = ((s, e), mentions bfacts line)" by simp
    qed (use p in auto)
    with False show ?thesis by simp
  qed
  finally show ?thesis by (simp add: stating Let_def)
qed

section \<open>Concrete inputs\<close>

definition sample_stated :: "uuid \<Rightarrow> string \<Rightarrow> typed_value \<Rightarrow> int \<Rightarrow> security_fact" where
  "sample_stated i field v line = sample_fact i field (PDict (typed_value_to_dict v))
     (PDict (scope_to_dict (ScopeRef ''device'' ''device'' []))) line []"
definition sample_facts :: "security_fact list" where
  "sample_facts = [sample_stated 2 ''management.remote.ssh.version'' (TypedValue TV_INTEGER (PInt 2)) 5,
     sample_stated 1 ''logging.enabled'' (TypedValue TV_BOOLEAN (PBool True)) 3]"
definition sample_classified :: "uuid \<Rightarrow> string \<Rightarrow> typed_value \<Rightarrow> int \<Rightarrow> classified_fact" where
  "sample_classified i field v line = \<lparr>cl_fact = sample_stated i field v line,
     cl_scope = ScopeRef ''device'' ''device'' [], cl_value = v, cl_operation = ASSIGN,
     cl_artifact_id = PStr ''a'', cl_source_line = line\<rparr>"
definition sample_uuid5 :: "uuid \<Rightarrow> string \<Rightarrow> uuid" where "sample_uuid5 = (\<lambda>_ _. 7)"

lemma classify_sample: "1 \<le> line \<Longrightarrow> classify (sample_stated i f v line) (Some ASSIGN) = Inr (sample_classified i f v line)"
  by (simp add: sample_stated_def sample_classified_def sample_fact_def classify_def
   typed_value_to_dict_def scope_to_dict_def scope_from_dict_def typed_value_from_dict_def validate_scope_def
   py_get_def dict_get_def reference_artifacts_def reference_position_def ge_one_def require_def)

lemma version_string: "\<not> py_blank ''1.0.0''"
  by (simp add: string_run)

lemma resolve_sample:
  assumes "get_field_policy f = Inr p" "fp_cardinality p = SCALAR" "\<not> py_blank f"
    "validate_field_value_scope f v (ScopeRef ''device'' ''device'' []) = Inr fld" "tv_type v \<noteq> TV_LIST" "i \<noteq> 0"
  shows "\<exists>d. resolve_field sample_uuid5 100 200 {} (f, [sample_classified i f v line]) = Inr [d]"
  using assms
  by (simp add: resolve_field_def resolve_scalar_field_def sample_classified_def sample_stated_def sample_fact_def
    resolve_scalar_scope_def ordered_winner_def sorted_ids_def make_effective_state_draft_def deterministic_effective_state_id_def
    canonical_scope_key_def validate_scope_def require_def validate_effective_state_draft_def validate_effective_value_def raise_from_def
    Let_def sample_uuid5_def status_consistent_def version_string)

lemma sample_ids: "distinct (map sf_fact_id sample_facts)"
  by (simp add: sample_facts_def sample_stated_def sample_fact_def)

lemma sample_unblocked: "blocked_dependency_ids sample_facts = []"
  by (simp add: sample_facts_def sample_stated_def sample_fact_def blocked_dependency_ids_def Let_def
      dependency_graph_def fact_dependencies_def dependency_missing_def map_filter_def dict_get_def)

lemma sample_policies:
  "\<exists>p. get_field_policy ''management.remote.ssh.version'' = Inr p \<and> fp_cardinality p = SCALAR"
  "\<exists>p. get_field_policy ''logging.enabled'' = Inr p \<and> fp_cardinality p = SCALAR"
  by (simp_all add: get_field_policy_def field_policies_get field_entries field_policy_def)

lemma sample_values:
  "\<exists>fld. validate_field_value_scope ''management.remote.ssh.version'' (TypedValue TV_INTEGER (PInt 2)) (ScopeRef ''device'' ''device'' []) = Inr fld"
  "\<exists>fld. validate_field_value_scope ''logging.enabled'' (TypedValue TV_BOOLEAN (PBool True)) (ScopeRef ''device'' ''device'' []) = Inr fld"
  by (simp_all add: validate_field_value_scope_Inr get_field_def field_entries)

lemma sample_call:
  "\<exists>ds. resolve_security_facts sample_uuid5 100 200 (\<lambda>_. Some ASSIGN) sample_facts = Inr ds"
proof -
  let ?c2 = "sample_classified 2 ''management.remote.ssh.version'' (TypedValue TV_INTEGER (PInt 2)) 5"
    and ?c1 = "sample_classified 1 ''logging.enabled'' (TypedValue TV_BOOLEAN (PBool True)) 3"
  have c: "map_res (\<lambda>f. classify f (Some ASSIGN)) sample_facts = Inr [?c2, ?c1]"
    by (simp add: sample_facts_def classify_sample)
  have s: "sort_key (\<lambda>c. (sf_field_id (cl_fact c), scope_id c, cl_ids c)) [?c2, ?c1] = [?c1, ?c2]"
    by (simp add: sample_classified_def sample_stated_def sample_fact_def less_eq_prod_def less_char_def of_char_of)
  have g: "group_runs (\<lambda>c. sf_field_id (cl_fact c)) [?c1, ?c2]
      = [(''logging.enabled'', [?c1]), (''management.remote.ssh.version'', [?c2])]"
    by (simp add: sample_classified_def sample_stated_def sample_fact_def)
  obtain d2 where d2: "resolve_field sample_uuid5 100 200 {} (''management.remote.ssh.version'', [?c2]) = Inr [d2]"
    using resolve_sample sample_policies(1) sample_values(1) by (fastforce simp: string_run)
  obtain d1 where d1: "resolve_field sample_uuid5 100 200 {} (''logging.enabled'', [?c1]) = Inr [d1]"
    using resolve_sample sample_policies(2) sample_values(2) by (fastforce simp: string_run)
  show ?thesis
    unfolding resolve_security_facts_def sample_unblocked Let_def
    by (simp only: c s g d1 d2 list.set and_then.simps map_res.simps) blast
qed

theorem resolver_drafts_valid_witness:
  "\<exists>ds. resolve_security_facts sample_uuid5 100 200 (\<lambda>_. Some ASSIGN) sample_facts = Inr ds
    \<and> list_all (draft_ok sample_uuid5) ds \<and> distinct (map (\<lambda>d. (es_field_id d, draft_key d)) ds)"
  using sample_call resolver_drafts_valid by (fastforce simp: list_all_iff)

theorem resolver_loses_no_fact_witness:
  "\<exists>ds. resolve_security_facts sample_uuid5 100 200 (\<lambda>_. Some ASSIGN) sample_facts = Inr ds
    \<and> list_ex (\<lambda>d. es_field_id d = ''logging.enabled'' \<and> 1 \<in> set (es_source_fact_ids d)) ds"
proof -
  let ?f = "sample_stated 1 ''logging.enabled'' (TypedValue TV_BOOLEAN (PBool True)) 3"
  obtain ds where ds: "resolve_security_facts sample_uuid5 100 200 (\<lambda>_. Some ASSIGN) sample_facts = Inr ds"
    using sample_call by blast
  have f: "?f \<in> set sample_facts" by (simp add: sample_facts_def)
  have id: "sf_fact_id ?f = 1" "sf_field_id ?f = ''logging.enabled''"
    by (simp_all add: sample_stated_def sample_fact_def)
  from resolver_loses_no_fact [OF ds f] show ?thesis
    using ds by (simp add: sample_unblocked id list_ex_iff)
qed

theorem resolver_order_irrelevant_witness:
  "\<exists>ds. resolve_security_facts sample_uuid5 100 200 (\<lambda>_. Some ASSIGN) sample_facts = Inr ds
    \<and> resolve_security_facts sample_uuid5 100 200 (\<lambda>_. Some ASSIGN) (rev sample_facts) = Inr ds"
  using sample_call resolver_order_irrelevant [OF sample_ids, of "rev sample_facts"] by auto

theorem scalar_group_status_witness:
  "\<exists>d. resolve_scalar_scope sample_uuid5 100 200 ''management.remote.ssh.version''
        (ScopeRef ''device'' ''device'' [])
        [sample_classified 2 ''management.remote.ssh.version'' (TypedValue TV_INTEGER (PInt 2)) 5,
         sample_classified 1 ''management.remote.ssh.version'' (TypedValue TV_INTEGER (PInt 1)) 3] = Inr d
    \<and> es_resolution_status d = RESOLVED"
proof -
  let ?c2 = "sample_classified 2 ''management.remote.ssh.version'' (TypedValue TV_INTEGER (PInt 2)) 5"
    and ?c1 = "sample_classified 1 ''management.remote.ssh.version'' (TypedValue TV_INTEGER (PInt 1)) 3"
  have single: "\<not> 1 < length (py_uniq (map cl_artifact_id [?c2, ?c1]))"
    by (simp add: sample_classified_def)
  have "ordered_winner [?c2, ?c1] = (?c2, False)"
    using single by (simp add: ordered_winner_def sample_classified_def less_eq_prod_def)
  moreover have "validate_effective_value ''management.remote.ssh.version'' (ScopeRef ''device'' ''device'' [])
      (TypedValue TV_INTEGER (PInt 2)) = Inr ()"
    using sample_values(1) by (auto simp: validate_effective_value_def raise_from_def)
  ultimately obtain d where d: "resolve_scalar_scope sample_uuid5 100 200 ''management.remote.ssh.version''
        (ScopeRef ''device'' ''device'' []) [?c2, ?c1] = Inr d"
    by (simp add: resolve_scalar_scope_def sample_classified_def sample_stated_def sample_fact_def sorted_ids_def
        make_effective_state_draft_def deterministic_effective_state_id_def canonical_scope_key_def
        validate_scope_def require_def validate_effective_state_draft_def Let_def sample_uuid5_def
        status_consistent_def version_string string_run)
  have "deciding [?c2, ?c1] = [?c2]" using single by (simp add: deciding_def sample_classified_def)
  then have "\<not> contested [?c2, ?c1]" "list_all (\<lambda>c. cl_operation c = ASSIGN) (deciding [?c2, ?c1])"
    by (simp_all add: contested_def sample_classified_def)
  with scalar_group_status [OF _ d] d show ?thesis by auto
qed

definition sample_vty :: "uuid \<Rightarrow> int \<Rightarrow> int \<Rightarrow> classified_fact" where
  "sample_vty i m n = (sample_classified i ''management.session.idle_timeout'' (TypedValue TV_DURATION (PInt 600)) 1)
     \<lparr>cl_scope := partition_scope m n\<rparr>"

theorem vty_lines_partitioned_witness:
  "\<exists>ps. vty_partitions [sample_vty 1 0 4, sample_vty 2 3 6] = Inr ps
    \<and> map snd (filter (\<lambda>(scope, cs). covers scope 4) ps) = [[sample_vty 1 0 4, sample_vty 2 3 6]]"
proof -
  have b: "vty_bounds (cl_scope (sample_vty i m n)) = Inr (m, n)"
    and v: "validate_scope (cl_scope (sample_vty i m n)) = Inr ()"
    if "0 \<le> m" "m \<le> n" "n \<le> 999" for i m n
    using that partition_scope_bounds [OF that] vty_scope_built [of "nat m" "nat n"]
    by (simp_all add: sample_vty_def partition_scope_def int_str_def nat_mono)
  let ?facts = "[sample_vty 1 0 4, sample_vty 2 3 6]"
  obtain ps where ps: "vty_partitions ?facts = Inr ps" by (simp add: vty_partitions_def b)
  have "\<forall>c \<in> set ?facts. validate_scope (cl_scope c) = Inr ()" by (simp add: v)
  from vty_lines_partitioned [OF ps this, of 4] ps show ?thesis by (simp add: covers_def b)
qed

end
