(* ===== verification/Py_Floats.thy ===== *)
theory Py_Floats
  imports Py_Values
begin

text \<open>
  Arithmetic of IEEE 754 doubles as the interpreter performs it, on the shortest decimals that
  \<open>Py_Values\<close> keeps.  A double is read back exactly (nearest, ties to even), the operation is
  carried out on rationals and rounded once, and the result is printed with the fewest digits
  that read back to it.  An infinity has no counterpart: the class \<open>NonFinite\<close> marks the point
  where the code goes on with one.  Zero has no sign.
\<close>

section \<open>Rounding a rational to a double\<close>

fun bit_length :: "nat \<Rightarrow> nat" where
  "bit_length n = (if n = 0 then 0 else Suc (bit_length (n div 2)))"

declare bit_length.simps [simp del]

text \<open>\<open>round_div a b\<close> is a divided by b, to the nearest integer, ties to even.\<close>

definition round_div :: "nat \<Rightarrow> nat \<Rightarrow> nat" where
  "round_div a b = (let q = a div b; r = a mod b in
     if b < 2 * r \<or> (2 * r = b \<and> odd q) then q + 1 else q)"

text \<open>\<open>a / (b * 2 ^ e)\<close> as a quotient of two naturals.\<close>

definition scale2 :: "nat \<Rightarrow> nat \<Rightarrow> int \<Rightarrow> nat \<times> nat" where
  "scale2 a b e = (if 0 \<le> e then (a, b * 2 ^ nat e) else (a * 2 ^ nat (- e), b))"

text \<open>The double nearest to a positive \<open>a / b\<close>: mantissa and binary exponent.\<close>

definition nearest_double :: "nat \<Rightarrow> nat \<Rightarrow> nat \<times> int" where
  "nearest_double a b =
     (let e0 = max (-1074) (int (bit_length a) - int (bit_length b) - 53);
          e = (case scale2 a b e0 of (n, d) \<Rightarrow> if 2 ^ 53 \<le> n div d then e0 + 1 else e0)
      in (case scale2 a b e of (n, d) \<Rightarrow> (round_div n d, e)))"

section \<open>The shortest decimal of a double\<close>

text \<open>The value of a double as a quotient.\<close>

definition double_parts :: "nat \<times> int \<Rightarrow> nat \<times> nat" where
  "double_parts x = (case x of (m, k) \<Rightarrow>
     if 0 \<le> k then (m * 2 ^ nat k, 1) else (m, 2 ^ nat (- k)))"

definition same_double :: "nat \<times> int \<Rightarrow> nat \<times> int \<Rightarrow> bool" where
  "same_double x y = (case (double_parts x, double_parts y) of ((a, b), (c, d)) \<Rightarrow> a * d = c * b)"

text \<open>\<open>c * 10 ^ s\<close> as a quotient.\<close>

definition decimal_parts :: "nat \<Rightarrow> int \<Rightarrow> nat \<times> nat" where
  "decimal_parts c s = (if 0 \<le> s then (c * 10 ^ nat s, 1) else (c, 10 ^ nat (- s)))"

text \<open>The decimal exponent of the leading digit of a positive quotient (searched below one).\<close>

fun leading_below :: "nat \<Rightarrow> nat \<Rightarrow> nat \<Rightarrow> int" where
  "leading_below 0 a b = 0"
| "leading_below (Suc fuel) a b = (if b \<le> a then 0 else leading_below fuel (10 * a) b - 1)"

definition leading_exponent :: "nat \<Rightarrow> nat \<Rightarrow> int" where
  "leading_exponent a b =
     (if b \<le> a then int (length (nat_str (a div b))) - 1 else leading_below 400 a b)"

text \<open>The decimals of \<open>p\<close> digits next to the double, the closer one first.\<close>

definition decimal_candidates :: "nat \<Rightarrow> nat \<Rightarrow> nat \<Rightarrow> (nat \<times> int) list" where
  "decimal_candidates a b p =
     (let s = leading_exponent a b - int p + 1;
          (n, d) = (if 0 \<le> s then (a, b * 10 ^ nat s) else (a * 10 ^ nat (- s), b));
          c = n div d
      in if 2 * (n mod d) \<le> d then [(c, s), (c + 1, s)] else [(c + 1, s), (c, s)])"

fun shortest_from :: "nat \<Rightarrow> nat \<times> int \<Rightarrow> nat \<Rightarrow> nat \<times> int" where
  "shortest_from 0 x p = (case double_parts x of (a, b) \<Rightarrow> hd (decimal_candidates a b p))"
| "shortest_from (Suc fuel) x p =
     (case double_parts x of (a, b) \<Rightarrow>
        (case filter (\<lambda>(c, s). 0 < c \<and> same_double x (case decimal_parts c s of (n, d) \<Rightarrow> nearest_double n d))
            (decimal_candidates a b p) of
           y # _ \<Rightarrow> y
         | [] \<Rightarrow> shortest_from fuel x (p + 1)))"

fun drop_zeros :: "nat \<Rightarrow> int \<Rightarrow> nat \<times> int" where
  "drop_zeros m e = (if m \<noteq> 0 \<and> m mod 10 = 0 then drop_zeros (m div 10) (e + 1) else (m, e))"

declare drop_zeros.simps [simp del]

definition shortest_decimal :: "nat \<times> int \<Rightarrow> nat \<times> int" where
  "shortest_decimal x = (case shortest_from 16 x 1 of (c, s) \<Rightarrow> drop_zeros c s)"

section \<open>Floats as Python values\<close>

definition non_finite :: exc where
  "non_finite = Exc NonFinite ''inf''"

text \<open>The float nearest to \<open>n / d\<close> with \<open>d\<close> positive; \<open>err\<close> when it is too large.\<close>

definition float_of_ratio :: "exc \<Rightarrow> int \<Rightarrow> nat \<Rightarrow> exc + pyval" where
  "float_of_ratio err n d =
     (let (m, e) = nearest_double (nat \<bar>n\<bar>) d
      in if n = 0 \<or> m = 0 then Inr (PFloat 0 0)
         else if 2 ^ 1024 \<le> (case double_parts (m, e) of (a, b) \<Rightarrow> a div b) then Inl err
         else (case shortest_decimal (m, e) of (c, s) \<Rightarrow>
           Inr (PFloat (if n < 0 then - int c else int c) s)))"

text \<open>The exact value of a float: numerator and denominator.\<close>

definition float_ratio :: "int \<Rightarrow> int \<Rightarrow> int \<times> nat" where
  "float_ratio m e =
     (if m = 0 then (0, 1)
      else (case decimal_parts (nat \<bar>m\<bar>) e of (n, d) \<Rightarrow>
        (case double_parts (nearest_double n d) of (a, b) \<Rightarrow> (if m < 0 then - int a else int a, b))))"

fun number_ratio :: "pyval \<Rightarrow> (int \<times> nat) option" where
  "number_ratio (PBool b) = Some (if b then 1 else 0, 1)"
| "number_ratio (PInt i) = Some (i, 1)"
| "number_ratio (PFloat m e) = Some (float_ratio m e)"
| "number_ratio _ = None"

section \<open>Conversions\<close>

text \<open>The digits of a decimal literal, with single underscores between them.\<close>

fun digits_scan :: "string \<Rightarrow> bool \<Rightarrow> string \<Rightarrow> string option" where
  "digits_scan acc prev [] = (if prev then Some acc else None)"
| "digits_scan acc prev (c # s) =
     (if c = CHR ''_'' then (if prev then digits_scan acc False s else None)
      else if is_digit c then digits_scan (acc @ [c]) True s
      else None)"

text \<open>Digits, or nothing where the other side of the point has some.\<close>

definition optional_digits :: "string \<Rightarrow> string option" where
  "optional_digits s = (if s = [] then Some [] else digits_scan [] False s)"

definition is_e :: "char \<Rightarrow> bool" where "is_e c = (c = CHR ''e'' \<or> c = CHR ''E'')"

definition split_sign :: "string \<Rightarrow> bool \<times> string" where
  "split_sign s = (prefix ''-'' s, if prefix ''-'' s \<or> prefix ''+'' s then drop 1 s else s)"

text \<open>
  \<open>float(s)\<close> of a string: blanks around, a sign, digits with at most one point, an exponent.
  The words for infinities and NaN are refused with \<open>NonFinite\<close>.
\<close>

definition float_of_str :: "string \<Rightarrow> exc + pyval" where
  "float_of_str s0 =
     (let (neg, s) = split_sign (py_strip s0);
          body = takeWhile (\<lambda>c. \<not> is_e c) s; tail = dropWhile (\<lambda>c. \<not> is_e c) s;
          whole = takeWhile (\<lambda>c. c \<noteq> CHR ''.'') body;
          point = dropWhile (\<lambda>c. c \<noteq> CHR ''.'') body;
          (eneg, es) = split_sign (drop 1 tail);
          bad = Exc ValueError ''could not convert string to float''
      in if py_lower s \<in> {''inf'', ''infinity'', ''nan''} then Inl non_finite
         else case (optional_digits whole, optional_digits (drop 1 point),
               if tail = [] then Some ''0'' else digits_scan [] False es) of
             (Some a, Some b, Some x) \<Rightarrow>
               if a = [] \<and> b = [] then Inl bad
               else (let e = (if eneg then - int (digits_value x) else int (digits_value x)) - int (length b);
                         m = digits_value (a @ b);
                         (n, d) = decimal_parts m e
                     in if m = 0 then Inr (PFloat 0 0)
                        else if 400 < int (length a) + e + int (length b) then Inl non_finite
                        else if int (length (a @ b)) + e < - 400 then Inr (PFloat 0 0)
                        else float_of_ratio non_finite (if neg then - int n else int n) d)
           | _ \<Rightarrow> Inl bad)"

text \<open>\<open>float(v)\<close>.\<close>

fun py_float :: "pyval \<Rightarrow> exc + pyval" where
  "py_float (PStr s) = float_of_str s"
| "py_float (PFloat m e) = Inr (PFloat m e)"
| "py_float (PInt i) = float_of_ratio (Exc OverflowError ''int too large to convert to float'') i 1"
| "py_float (PBool b) = Inr (if b then PFloat 1 0 else PFloat 0 0)"
| "py_float _ = Inl (Exc TypeError ''float() argument must be a string or a real number'')"

text \<open>\<open>int(v)\<close>: a float is truncated towards zero.\<close>

fun py_int_of :: "pyval \<Rightarrow> exc + int" where
  "py_int_of (PStr s) = (case py_int s of
     None \<Rightarrow> Inl (Exc ValueError ''invalid literal for int()'') | Some i \<Rightarrow> Inr i)"
| "py_int_of (PInt i) = Inr i"
| "py_int_of (PBool b) = Inr (if b then 1 else 0)"
| "py_int_of (PFloat m e) = (case float_ratio m e of (n, d) \<Rightarrow>
     Inr (if n < 0 then - int (nat (- n) div d) else int (nat n div d)))"
| "py_int_of _ = Inl (Exc TypeError ''int() argument must be a string or a real number'')"

section \<open>Arithmetic\<close>

text \<open>\<open>v * k\<close> for a positive integer \<open>k\<close>: repetition of sequences, product of numbers.\<close>

fun py_times :: "pyval \<Rightarrow> nat \<Rightarrow> exc + pyval" where
  "py_times (PInt i) k = Inr (PInt (i * int k))"
| "py_times (PBool b) k = Inr (PInt (if b then int k else 0))"
| "py_times (PFloat m e) k = (case float_ratio m e of (n, d) \<Rightarrow> float_of_ratio non_finite (n * int k) d)"
| "py_times (PStr s) k = Inr (PStr (concat (replicate k s)))"
| "py_times (PList xs) k = Inr (PList (concat (replicate k xs)))"
| "py_times _ k = Inl (Exc TypeError ''unsupported operand type(s) for *'')"

text \<open>\<open>v / k\<close>.\<close>

definition py_divide :: "pyval \<Rightarrow> nat \<Rightarrow> exc + pyval" where
  "py_divide v k = (case number_ratio v of
     None \<Rightarrow> Inl (Exc TypeError ''unsupported operand type(s) for /'')
   | Some (n, d) \<Rightarrow> float_of_ratio (Exc OverflowError ''integer division result too large for a float'') n (d * k))"

text \<open>
  The sum of two floats, and \<open>sum(...)\<close> of floats, which compensates the rounding errors
  (Python 3.12 and later): the running total and the collected correction are added at the end.
\<close>

definition float_add :: "pyval \<Rightarrow> pyval \<Rightarrow> exc + pyval" where
  "float_add v w = (case (number_ratio v, number_ratio w) of
     (Some (a, b), Some (c, d)) \<Rightarrow> float_of_ratio non_finite (a * int d + c * int b) (b * d)
   | _ \<Rightarrow> Inl (Exc TypeError ''unsupported operand type(s) for +''))"

definition float_neg :: "pyval \<Rightarrow> pyval" where
  "float_neg v = (case v of PFloat m e \<Rightarrow> PFloat (- m) e | _ \<Rightarrow> v)"

definition float_abs_less :: "pyval \<Rightarrow> pyval \<Rightarrow> bool" where
  "float_abs_less v w = (case (number_ratio v, number_ratio w) of
     (Some (a, b), Some (c, d)) \<Rightarrow> \<bar>a\<bar> * int d < \<bar>c\<bar> * int b | _ \<Rightarrow> False)"

definition sum_step :: "pyval \<Rightarrow> pyval \<times> pyval \<Rightarrow> exc + pyval \<times> pyval" where
  "sum_step x acc = (case acc of (running, correction) \<Rightarrow>
     and_then (float_add running x) (\<lambda>t.
     let (big, small) = (if float_abs_less running x then (x, running) else (running, x))
     in and_then (float_add big (float_neg t)) (\<lambda>diff.
        and_then (float_add diff small) (\<lambda>lost.
        and_then (float_add correction lost) (\<lambda>c.
        Inr (t, c))))))"

definition sum_floats :: "pyval list \<Rightarrow> exc + pyval" where
  "sum_floats xs = (if xs = [] then Inr (PInt 0) else
     and_then (fold_res sum_step xs (PFloat 0 0, PFloat 0 0)) (\<lambda>(running, correction).
     float_add running correction))"

end
