(* ===== verification/Tree_Readers.thy ===== *)
theory Tree_Readers
  imports Cli_Readers Py_Floats Security_Model
begin

text \<open>
  The readers of structured exports (\<open>parsing/readers/xml_tree.py\<close>,
  \<open>parsing/readers/json_tree.py\<close>), the registry of readers (\<open>parsing/reader_registry.py\<close>) and
  the dispatch of one artifact's text (\<open>parsing/service.py\<close>).  The parsers of the standard
  library are parameters: \<open>fromstring\<close> gives the element tree of an XML text or nothing where it
  is malformed, and \<open>json_loads\<close> the value of a JSON text, refusing duplicate keys and non-finite
  constants as its two hooks make it do.
\<close>

section \<open>repr\<close>

definition repr_char :: "char \<Rightarrow> char \<Rightarrow> string" where
  "repr_char quot c = (let n = code_of c in
     if c = quot \<or> n = 92 then [CHR 0x5C, c]
     else if n = 10 then [CHR 0x5C, CHR ''n'']
     else if n = 13 then [CHR 0x5C, CHR ''r'']
     else if n = 9 then [CHR 0x5C, CHR ''t'']
     else if n < 32 \<or> (127 \<le> n \<and> n \<le> 160) \<or> n = 173 then [CHR 0x5C, CHR ''x''] @ hex_fixed 2 n
     else [c])"

definition repr_str :: "string \<Rightarrow> string" where
  "repr_str s = (let quot = (if CHR 0x27 \<in> set s \<and> CHR 0x22 \<notin> set s then CHR 0x22 else CHR 0x27)
     in quot # concat (map (repr_char quot) s) @ [quot])"

fun py_repr :: "pyval \<Rightarrow> string" where
  "py_repr PNone = ''None''"
| "py_repr (PBool b) = (if b then ''True'' else ''False'')"
| "py_repr (PInt i) = int_str i"
| "py_repr (PFloat m e) = float_repr m e"
| "py_repr (PStr s) = repr_str s"
| "py_repr (PList xs) = CHR ''['' # join '', '' (map py_repr xs) @ '']''"
| "py_repr (PDict d) = CHR 0x7B # join '', ''
     (map (\<lambda>(k, s). repr_str k @ '': '' @ s) (map (\<lambda>(k, v). (k, py_repr v)) d)) @ [CHR 0x7D]"

definition tuple_repr :: "string list \<Rightarrow> string" where
  "tuple_repr items = CHR ''('' # join '', '' items @ (if length items = 1 then '','' else []) @ '')''"

text \<open>\<open>str(v)\<close>.\<close>

definition py_str :: "pyval \<Rightarrow> string" where
  "py_str v = (case v of PStr s \<Rightarrow> s | _ \<Rightarrow> py_repr v)"

section \<open>The XML reader\<close>

datatype xml_element = XmlElement
  (xe_tag: string)
  (xe_attrib: "(string \<times> string) list")
  (xe_text: "string option")
  (xe_children: "xml_element list")

record xml_node =
  xn_node_id :: string
  xn_path :: "string list"
  xn_tag :: string
  xn_attributes :: "(string \<times> string) list"
  xn_text :: "string option"
  xn_parent_id :: "string option"
  xn_order :: nat
  xn_source :: artifact_provenance

record xml_structural_ir =
  xi_reader_id :: string
  xi_source :: artifact_provenance
  xi_nodes :: "xml_node list"
  xi_diagnostics :: "string list"
  xi_truncated :: bool

definition XML_TREE_READER_ID :: string where "XML_TREE_READER_ID = ''xml_tree.v1''"
definition MAX_XML_INPUT_CHARACTERS :: nat where "MAX_XML_INPUT_CHARACTERS = 2 * 1024 * 1024"
definition MAX_XML_DEPTH :: nat where "MAX_XML_DEPTH = 64"
definition MAX_XML_NODES :: nat where "MAX_XML_NODES = 20000"
definition MAX_XML_TEXT :: nat where "MAX_XML_TEXT = 16 * 1024"

text \<open>The text a node keeps, and whether it was cut.\<close>

definition xml_text :: "string option \<Rightarrow> string option \<times> bool" where
  "xml_text t = (case t of
     None \<Rightarrow> (None, False)
   | Some s \<Rightarrow>
       if MAX_XML_TEXT < length s then (Some (take MAX_XML_TEXT s), True)
       else if s \<noteq> [] \<and> py_strip s \<noteq> [] then (Some (py_strip s), False)
       else (None, False))"

definition xml_node_id :: "(string \<Rightarrow> string) \<Rightarrow> artifact_provenance \<Rightarrow> string list \<Rightarrow> nat \<Rightarrow> string" where
  "xml_node_id sha source path order = ''xmln_'' @ take 32 (sha (uuid_str (ap_artifact_id source)
     @ ''|'' @ tuple_repr (map repr_str path) @ ''|'' @ nat_str order))"

definition path_step :: "string \<Rightarrow> nat \<Rightarrow> string" where
  "path_step tag k = tag @ ''['' @ nat_str k @ '']''"

definition occurrence :: "string \<Rightarrow> (string \<times> nat) list \<Rightarrow> nat" where
  "occurrence tag occ = (case dict_get occ tag of None \<Rightarrow> 0 | Some k \<Rightarrow> k) + 1"

fun xml_visit ::
  "(string \<Rightarrow> string) \<Rightarrow> artifact_provenance \<Rightarrow> xml_element \<Rightarrow> string option \<Rightarrow> string list \<Rightarrow> nat
    \<Rightarrow> xml_node list \<times> bool \<Rightarrow> xml_node list \<times> bool"
and xml_visit_children ::
  "(string \<Rightarrow> string) \<Rightarrow> artifact_provenance \<Rightarrow> xml_element list \<Rightarrow> string \<Rightarrow> string list \<Rightarrow> nat
    \<Rightarrow> (string \<times> nat) list \<Rightarrow> xml_node list \<times> bool \<Rightarrow> xml_node list \<times> bool" where
  "xml_visit sha source (XmlElement tag attrib content children) parent_id path depth (nodes, truncated) =
     (if MAX_XML_NODES \<le> length nodes \<or> MAX_XML_DEPTH < depth then (nodes, True)
      else (let (txt, cut) = xml_text content;
                order = length nodes + 1;
                node_id = xml_node_id sha source path order;
                node = \<lparr>xn_node_id = node_id, xn_path = path, xn_tag = tag, xn_attributes = sort attrib,
                  xn_text = txt, xn_parent_id = parent_id, xn_order = order, xn_source = source\<rparr>
            in xml_visit_children sha source children node_id path depth []
                 (nodes @ [node], truncated \<or> cut)))"
| "xml_visit_children sha source [] node_id path depth occ st = st"
| "xml_visit_children sha source (child # children) node_id path depth occ st =
     (let k = occurrence (xe_tag child) occ
      in xml_visit_children sha source children node_id path depth (dict_put (xe_tag child) k occ)
           (xml_visit sha source child (Some node_id) (path @ [path_step (xe_tag child) k]) (depth + 1) st))"

text \<open>
  The search for declarations: \<open><!\<close>, blanks and a declaration keyword, or a word SYSTEM or PUBLIC,
  blanks and a quote; without regard to case.
\<close>

definition is_word :: "char \<Rightarrow> bool" where
  "is_word c = (is_alnum c \<or> c = CHR ''_'' \<or> 170 = code_of c \<or> 178 = code_of c \<or> 179 = code_of c
     \<or> 181 = code_of c \<or> 185 = code_of c \<or> 186 = code_of c \<or> 188 \<le> code_of c \<and> code_of c \<le> 190
     \<or> 192 \<le> code_of c \<and> code_of c \<notin> {215, 247})"

definition word_end :: "string \<Rightarrow> bool" where
  "word_end s = (s = [] \<or> \<not> is_word (hd s))"

definition declaration_at :: "string \<Rightarrow> bool" where
  "declaration_at s =
     (prefix ''<!'' s \<and>
      (let rest = py_lstrip (drop 2 s)
       in list_ex (\<lambda>w. prefix w (py_lower rest) \<and> word_end (drop (length w) rest))
            [''doctype'', ''entity'', ''element'', ''attlist'']))"

definition external_at :: "string \<Rightarrow> bool" where
  "external_at s =
     list_ex (\<lambda>w. prefix w (py_lower s) \<and>
       (let rest = drop (length w) s
        in rest \<noteq> [] \<and> py_space (hd rest) \<and>
           (let quoted = py_lstrip rest in quoted \<noteq> [] \<and> hd quoted \<in> {CHR 0x27, CHR 0x22})))
       [''system'', ''public'']"

fun declares_from :: "bool \<Rightarrow> string \<Rightarrow> bool" where
  "declares_from after_word [] = False"
| "declares_from after_word (c # s) =
     (declaration_at (c # s) \<or> (\<not> after_word \<and> external_at (c # s)) \<or> declares_from (is_word c) s)"

definition declares_dtd :: "string \<Rightarrow> bool" where
  "declares_dtd content = declares_from False content"

definition xml_parse ::
  "(string \<Rightarrow> xml_element option) \<Rightarrow> (string \<Rightarrow> string) \<Rightarrow> structural_parse_request
    \<Rightarrow> exc + xml_structural_ir" where
  "xml_parse fromstring sha request =
     (let content = take MAX_XML_INPUT_CHARACTERS (rq_content request)
      in and_then (require (\<not> declares_dtd content)
           (Exc ValueError ''XML DTD and entity declarations are not supported'')) (\<lambda>_.
         and_then (require (length (rq_content request) \<le> MAX_XML_INPUT_CHARACTERS)
           (Exc ValueError ''XML input exceeds the bounded size limit'')) (\<lambda>_.
         case fromstring content of
           None \<Rightarrow> Inl (Exc ValueError ''Malformed XML evidence'')
         | Some root \<Rightarrow>
             (case xml_visit sha (rq_source request) root None [path_step (xe_tag root) 1] 0 ([], False) of
                (nodes, truncated) \<Rightarrow>
                  Inr \<lparr>xi_reader_id = XML_TREE_READER_ID, xi_source = rq_source request, xi_nodes = nodes,
                    xi_diagnostics = [], xi_truncated = truncated \<or> rq_input_truncated request\<rparr>))))"

section \<open>The JSON reader\<close>

datatype json_key = JKey string | JIndex nat

fun key_repr :: "json_key \<Rightarrow> string" where
  "key_repr (JKey k) = repr_str k"
| "key_repr (JIndex i) = nat_str i"

record json_node =
  jn_node_id :: string
  jn_path :: "json_key list"
  jn_value :: pyval
  jn_parent_id :: "string option"
  jn_order :: nat
  jn_source :: artifact_provenance

record json_structural_ir =
  ji_reader_id :: string
  ji_source :: artifact_provenance
  ji_nodes :: "json_node list"
  ji_diagnostics :: "string list"
  ji_truncated :: bool

definition JSON_TREE_READER_ID :: string where "JSON_TREE_READER_ID = ''json_tree.v1''"
definition MAX_JSON_INPUT_CHARACTERS :: nat where "MAX_JSON_INPUT_CHARACTERS = 2 * 1024 * 1024"
definition MAX_JSON_DEPTH :: nat where "MAX_JSON_DEPTH = 64"
definition MAX_JSON_NODES :: nat where "MAX_JSON_NODES = 20000"
definition MAX_JSON_STRING :: nat where "MAX_JSON_STRING = 16 * 1024"

definition json_node_id :: "(string \<Rightarrow> string) \<Rightarrow> artifact_provenance \<Rightarrow> json_key list \<Rightarrow> nat \<Rightarrow> string" where
  "json_node_id sha source path order = ''jsonn_'' @ take 32 (sha (uuid_str (ap_artifact_id source)
     @ ''|'' @ tuple_repr (map key_repr path) @ ''|'' @ nat_str order))"

definition json_cut :: "pyval \<Rightarrow> pyval \<times> bool" where
  "json_cut v = (case v of
     PStr s \<Rightarrow> if MAX_JSON_STRING < length s then (PStr (take MAX_JSON_STRING s), True) else (v, False)
   | _ \<Rightarrow> (v, False))"

text \<open>The node of a value, and the state of the walk after it.\<close>

definition json_enter ::
  "(string \<Rightarrow> string) \<Rightarrow> artifact_provenance \<Rightarrow> pyval \<Rightarrow> string option \<Rightarrow> json_key list
    \<Rightarrow> json_node list \<times> bool \<Rightarrow> string \<times> json_node list \<times> bool" where
  "json_enter sha source v parent_id path st =
     (let (nodes, truncated) = st; (value, cut) = json_cut v;
          order = length nodes + 1;
          node_id = json_node_id sha source path order
      in (node_id, nodes @ [\<lparr>jn_node_id = node_id, jn_path = path, jn_value = value,
            jn_parent_id = parent_id, jn_order = order, jn_source = source\<rparr>], truncated \<or> cut))"

definition json_full :: "nat \<Rightarrow> json_node list \<times> bool \<Rightarrow> bool" where
  "json_full depth st = (MAX_JSON_NODES \<le> length (fst st) \<or> MAX_JSON_DEPTH < depth)"

function (sequential) json_visit ::
  "(string \<Rightarrow> string) \<Rightarrow> artifact_provenance \<Rightarrow> pyval \<Rightarrow> string option \<Rightarrow> json_key list \<Rightarrow> nat
    \<Rightarrow> json_node list \<times> bool \<Rightarrow> json_node list \<times> bool"
and json_visit_items ::
  "(string \<Rightarrow> string) \<Rightarrow> artifact_provenance \<Rightarrow> (string \<times> pyval) list \<Rightarrow> string \<Rightarrow> json_key list \<Rightarrow> nat
    \<Rightarrow> json_node list \<times> bool \<Rightarrow> json_node list \<times> bool"
and json_visit_list ::
  "(string \<Rightarrow> string) \<Rightarrow> artifact_provenance \<Rightarrow> pyval list \<Rightarrow> nat \<Rightarrow> string \<Rightarrow> json_key list \<Rightarrow> nat
    \<Rightarrow> json_node list \<times> bool \<Rightarrow> json_node list \<times> bool" where
  "json_visit sha source v parent_id path depth st =
     (if json_full depth st then (fst st, True)
      else (let (node_id, st') = json_enter sha source v parent_id path st
            in case v of
                 PDict d \<Rightarrow> json_visit_items sha source d node_id path depth st'
               | PList xs \<Rightarrow> json_visit_list sha source xs 0 node_id path depth st'
               | _ \<Rightarrow> st'))"
| "json_visit_items sha source [] node_id path depth st = st"
| "json_visit_items sha source ((k, v) # d) node_id path depth st =
     json_visit_items sha source d node_id path depth
       (json_visit sha source v (Some node_id) (path @ [JKey k]) (depth + 1) st)"
| "json_visit_list sha source [] i node_id path depth st = st"
| "json_visit_list sha source (v # vs) i node_id path depth st =
     json_visit_list sha source vs (i + 1) node_id path depth
       (json_visit sha source v (Some node_id) (path @ [JIndex i]) (depth + 1) st)"
  by pat_completeness auto
termination
  by (relation "measure (\<lambda>x. case x of
       Inl (_, _, v, _) \<Rightarrow> size v
     | Inr (Inl (_, _, d, _)) \<Rightarrow> size_list (size_prod (\<lambda>x. 0) size) d
     | Inr (Inr (_, _, vs, _)) \<Rightarrow> size_list size vs)") auto

definition json_parse ::
  "(string \<Rightarrow> pyval option) \<Rightarrow> (string \<Rightarrow> string) \<Rightarrow> structural_parse_request
    \<Rightarrow> exc + json_structural_ir" where
  "json_parse json_loads sha request =
     and_then (require (length (rq_content request) \<le> MAX_JSON_INPUT_CHARACTERS)
       (Exc ValueError ''JSON input exceeds the bounded size limit'')) (\<lambda>_.
     case json_loads (rq_content request) of
       None \<Rightarrow> Inl (Exc ValueError ''Malformed JSON evidence'')
     | Some payload \<Rightarrow>
         (case json_visit sha (rq_source request) payload None [] 0 ([], False) of
            (nodes, truncated) \<Rightarrow>
              Inr \<lparr>ji_reader_id = JSON_TREE_READER_ID, ji_source = rq_source request, ji_nodes = nodes,
                ji_diagnostics = [], ji_truncated = truncated \<or> rq_input_truncated request\<rparr>))"

end
