(* ===== verification/Tree_Coverage.thy ===== *)
theory Tree_Coverage
  imports Tree_Readers Reader_Coverage "HOL-Library.Sublist"
begin

text \<open>
  What the XML and JSON readers report of a document.  The walk of a tree under a bound on the
  number of nodes and on the depth is compared with the unbounded preorder outline of the tree:
  the walk reports a subsequence of the outline, and the flag \<open>truncated\<close> is set exactly when
  the outline does not fit the bounds.  An XML document is rebuilt from its nodes; the nodes of a
  JSON document are the graph of the lookup by path.
\<close>

section \<open>Bounded walks\<close>

definition walked ::
  "nat \<Rightarrow> ('n \<Rightarrow> 'f) \<Rightarrow> ('o \<Rightarrow> 'f) \<Rightarrow> ('o \<Rightarrow> bool) \<Rightarrow> 'n list \<times> bool \<Rightarrow> 'o list \<Rightarrow> 'n list \<times> bool \<Rightarrow> bool" where
  "walked limit face entry ok st os st' =
     (length (fst st) \<le> limit \<longrightarrow>
        length (fst st') \<le> limit
        \<and> (snd st' \<longleftrightarrow> snd st \<or> limit < length (fst st) + length os \<or> \<not> list_all ok os)
        \<and> (\<exists>seen. subseq seen os \<and> map face (fst st') = map face (fst st) @ map entry seen
              \<and> (snd st' \<or> seen = os)))"

lemma walked_Nil: "walked limit face entry ok st [] st"
  by (auto simp: walked_def)

lemma walked_append:
  assumes "walked limit face entry ok st os st1" and "walked limit face entry ok st1 os' st2"
  shows "walked limit face entry ok st (os @ os') st2"
proof -
  have "?thesis" if small: "length (fst st) \<le> limit"
  proof -
    from assms(1) small obtain seen where st1: "length (fst st1) \<le> limit"
      "snd st1 \<longleftrightarrow> snd st \<or> limit < length (fst st) + length os \<or> \<not> list_all ok os"
      "subseq seen os" "map face (fst st1) = map face (fst st) @ map entry seen" "snd st1 \<or> seen = os"
      unfolding walked_def by blast
    with assms(2) obtain seen' where st2: "length (fst st2) \<le> limit"
      "snd st2 \<longleftrightarrow> snd st1 \<or> limit < length (fst st1) + length os' \<or> \<not> list_all ok os'"
      "subseq seen' os'" "map face (fst st2) = map face (fst st1) @ map entry seen'"
      "snd st2 \<or> seen' = os'"
      unfolding walked_def by blast
    have len: "length (fst st1) = length (fst st) + length os" if "\<not> snd st1"
      using arg_cong [OF st1(4), of length] st1(5) that by simp
    have "subseq (seen @ seen') (os @ os')" using st1(3) st2(3) by (rule list_emb_append_mono)
    moreover have "map face (fst st2) = map face (fst st) @ map entry (seen @ seen')"
      using st1(4) st2(4) by simp
    moreover have "snd st2 \<or> seen @ seen' = os @ os'" using st1(5) st2(2,5) by blast
    moreover have "snd st2 \<longleftrightarrow> snd st \<or> limit < length (fst st) + length (os @ os') \<or> \<not> list_all ok (os @ os')"
      using st1(2) st2(2) len by (cases "snd st1") auto
    ultimately show ?thesis using st2(1) unfolding walked_def by blast
  qed
  then show ?thesis unfolding walked_def by blast
qed

lemma walked_stop:
  assumes "limit \<le> length (fst st) \<or> \<not> ok x" and "os = x # os'"
  shows "walked limit face entry ok st os (fst st, True)"
  using assms by (auto simp: walked_def intro!: exI [of _ "[]"])

lemma walked_enter:
  assumes "length (fst st) < limit" and "fst st' = fst st @ [n]" and "face n = entry x"
    and "snd st' \<longleftrightarrow> snd st \<or> \<not> ok x"
  shows "walked limit face entry ok st [x] st'"
  using assms by (auto simp: walked_def intro!: exI [of _ "[x]"])

lemma subseq_distinct: "subseq xs ys \<Longrightarrow> distinct ys \<Longrightarrow> distinct xs"
  by (auto simp: subseq_conv_nths distinct_nthsI)

section \<open>XML\<close>

fun xml_outline :: "xml_element \<Rightarrow> string list \<Rightarrow> (string list \<times> xml_element) list"
and xml_outline_children ::
  "xml_element list \<Rightarrow> string list \<Rightarrow> string list \<Rightarrow> (string list \<times> xml_element) list" where
  "xml_outline (XmlElement tag attrib content children) path =
     (path, XmlElement tag attrib content children) # xml_outline_children children path []"
| "xml_outline_children [] path earlier = []"
| "xml_outline_children (child # children) path earlier =
     xml_outline child (path @ [path_step (xe_tag child) (count_list earlier (xe_tag child) + 1)])
     @ xml_outline_children children path (xe_tag child # earlier)"

type_synonym xml_face = "string list \<times> string \<times> (string \<times> string) list \<times> string option"

definition xml_face :: "xml_node \<Rightarrow> xml_face" where
  "xml_face n = (xn_path n, xn_tag n, xn_attributes n, xn_text n)"

definition xml_entry :: "string list \<times> xml_element \<Rightarrow> xml_face" where
  "xml_entry x = (fst x, xe_tag (snd x), sort (xe_attrib (snd x)), fst (xml_text (xe_text (snd x))))"

definition xml_admitted :: "string list \<times> xml_element \<Rightarrow> bool" where
  "xml_admitted x = (length (fst x) \<le> Suc MAX_XML_DEPTH \<and> \<not> snd (xml_text (xe_text (snd x))))"

definition xml_fits :: "(string list \<times> xml_element) list \<Rightarrow> bool" where
  "xml_fits os = (length os \<le> MAX_XML_NODES \<and> list_all xml_admitted os)"

abbreviation xml_walked where
  "xml_walked \<equiv> walked MAX_XML_NODES xml_face xml_entry xml_admitted"

lemma xml_visit_walked:
  "length path = Suc depth \<Longrightarrow>
     xml_walked st (xml_outline e path) (xml_visit sha source e parent_id path depth st)"
  "length path = Suc depth \<Longrightarrow> \<forall>earlier. (\<forall>t. occurrence t occ = count_list earlier t + 1) \<longrightarrow>
     xml_walked st (xml_outline_children cs path earlier)
       (xml_visit_children sha source cs node_id path depth occ st)"
proof (induction sha source e parent_id path depth st and sha source cs node_id path depth occ st
    rule: xml_visit_xml_visit_children.induct)
  case (1 sha source tag attrib content children parent_id path depth nodes truncated)
  let ?e = "XmlElement tag attrib content children"
  show ?case
  proof (cases "MAX_XML_NODES \<le> length nodes \<or> MAX_XML_DEPTH < depth")
    case True
    then show ?thesis using 1(2)
      by (auto intro!: walked_stop [where x = "(path, ?e)", of _ "(nodes, truncated)", simplified]
          simp: xml_admitted_def)
  next
    case False
    obtain body cut where cut: "xml_text content = (body, cut)" by fastforce
    let ?id = "xml_node_id sha source path (length nodes + 1)"
    let ?node = "\<lparr>xn_node_id = ?id, xn_path = path, xn_tag = tag, xn_attributes = sort attrib,
      xn_text = body, xn_parent_id = parent_id, xn_order = length nodes + 1, xn_source = source\<rparr>"
    have "xml_walked (nodes, truncated) [(path, ?e)] (nodes @ [?node], truncated \<or> cut)"
      by (rule walked_enter [where n = ?node])
        (use False 1(2) cut in \<open>auto simp: xml_face_def xml_entry_def xml_admitted_def\<close>)
    moreover have "xml_walked (nodes @ [?node], truncated \<or> cut) (xml_outline_children children path [])
        (xml_visit_children sha source children ?id path depth [] (nodes @ [?node], truncated \<or> cut))"
      using 1(1) [OF False refl cut [symmetric] refl refl refl 1(2)]
      by (simp add: occurrence_def dict_simps)
    ultimately have "xml_walked (nodes, truncated) ([(path, ?e)] @ xml_outline_children children path [])
        (xml_visit_children sha source children ?id path depth [] (nodes @ [?node], truncated \<or> cut))"
      by (rule walked_append)
    with False cut show ?thesis by (simp add: Let_def)
  qed
next
  case (3 sha source child children node_id path depth occ st)
  let ?k = "occurrence (xe_tag child) occ"
  let ?path = "path @ [path_step (xe_tag child) ?k]"
  have child: "xml_walked st (xml_outline child ?path)
      (xml_visit sha source child (Some node_id) ?path (depth + 1) st)"
    using 3(1) [OF refl] 3(3) by simp
  show ?case
  proof (intro allI impI)
    fix earlier assume earlier: "\<forall>t. occurrence t occ = count_list earlier t + 1"
    then have "\<forall>t. occurrence t (dict_put (xe_tag child) ?k occ) = count_list (xe_tag child # earlier) t + 1"
      by (simp add: occurrence_def dict_simps)
    with 3(2) [OF refl 3(3)] have "xml_walked
        (xml_visit sha source child (Some node_id) ?path (depth + 1) st)
        (xml_outline_children children path (xe_tag child # earlier))
        (xml_visit_children sha source (child # children) node_id path depth occ st)"
      by (simp add: Let_def)
    with child earlier walked_append
    show "xml_walked st (xml_outline_children (child # children) path earlier)
        (xml_visit_children sha source (child # children) node_id path depth occ st)"
      by fastforce
  qed
qed (simp add: walked_Nil)

text \<open>The identity of the nodes: their order, their identifiers and their parents.\<close>

definition parent_of :: "xml_node \<Rightarrow> xml_node \<Rightarrow> bool" where
  "parent_of m n = (xn_parent_id n = Some (xn_node_id m) \<and> xn_path m = butlast (xn_path n)
     \<and> xn_order m < xn_order n)"

definition xml_link :: "(string \<Rightarrow> string) \<Rightarrow> artifact_provenance \<Rightarrow> xml_node list \<Rightarrow> xml_node \<Rightarrow> bool" where
  "xml_link sha source nodes n =
     (xn_node_id n = xml_node_id sha source (xn_path n) (xn_order n) \<and> xn_source n = source
      \<and> (if xn_order n = 1 then xn_parent_id n = None else list_ex (\<lambda>m. parent_of m n) nodes))"

definition xml_linked :: "(string \<Rightarrow> string) \<Rightarrow> artifact_provenance \<Rightarrow> xml_node list \<Rightarrow> bool" where
  "xml_linked sha source nodes =
     (map xn_order nodes = [1..<Suc (length nodes)] \<and> list_all (xml_link sha source nodes) nodes)"

lemma xml_link_mono: "xml_link sha source nodes n \<Longrightarrow> xml_link sha source (nodes @ ms) n"
  by (auto simp: xml_link_def)

lemma xml_linked_order: "xml_linked sha source nodes \<Longrightarrow> m \<in> set nodes \<Longrightarrow> xn_order m \<le> length nodes"
proof -
  assume "xml_linked sha source nodes" and "m \<in> set nodes"
  then have "xn_order m \<in> set [1..<Suc (length nodes)]"
    unfolding xml_linked_def by (metis imageI list.set_map)
  then show ?thesis by auto
qed

lemma xml_linked_snoc:
  assumes "xml_linked sha source nodes" and "xn_order n = Suc (length nodes)"
    and "xn_node_id n = xml_node_id sha source (xn_path n) (xn_order n)" and "xn_source n = source"
    and "if nodes = [] then xn_parent_id n = None
         else \<exists>m \<in> set nodes. xn_parent_id n = Some (xn_node_id m) \<and> xn_path m = butlast (xn_path n)"
  shows "xml_linked sha source (nodes @ [n])"
proof -
  have "xml_link sha source (nodes @ [n]) n"
    using assms(2-5) xml_linked_order [OF assms(1)]
    by (fastforce simp: xml_link_def list_ex_iff parent_of_def split: if_splits)
  moreover have "list_all (xml_link sha source (nodes @ [n])) nodes"
    using assms(1) xml_link_mono by (auto simp: xml_linked_def list_all_iff)
  ultimately show ?thesis using assms(1,2) by (simp add: xml_linked_def)
qed

lemma xml_visit_linked:
  "xml_linked sha source (fst st) \<Longrightarrow>
     (if fst st = [] then parent_id = None
      else \<exists>m \<in> set (fst st). parent_id = Some (xn_node_id m) \<and> xn_path m = butlast path) \<Longrightarrow>
     xml_linked sha source (fst (xml_visit sha source e parent_id path depth st))
     \<and> set (fst st) \<subseteq> set (fst (xml_visit sha source e parent_id path depth st))"
  "xml_linked sha source (fst st) \<Longrightarrow> \<exists>m \<in> set (fst st). node_id = xn_node_id m \<and> xn_path m = path \<Longrightarrow>
     xml_linked sha source (fst (xml_visit_children sha source cs node_id path depth occ st))
     \<and> set (fst st) \<subseteq> set (fst (xml_visit_children sha source cs node_id path depth occ st))"
proof (induction sha source e parent_id path depth st and sha source cs node_id path depth occ st
    rule: xml_visit_xml_visit_children.induct)
  case (1 sha source tag attrib content children parent_id path depth nodes truncated)
  show ?case
  proof (cases "MAX_XML_NODES \<le> length nodes \<or> MAX_XML_DEPTH < depth")
    case True
    then show ?thesis using 1(2) by auto
  next
    case False
    obtain body cut where cut: "xml_text content = (body, cut)" by fastforce
    let ?id = "xml_node_id sha source path (length nodes + 1)"
    let ?node = "\<lparr>xn_node_id = ?id, xn_path = path, xn_tag = tag, xn_attributes = sort attrib,
      xn_text = body, xn_parent_id = parent_id, xn_order = length nodes + 1, xn_source = source\<rparr>"
    have "xml_linked sha source (nodes @ [?node])"
      by (rule xml_linked_snoc) (use 1(2,3) in \<open>auto split: if_splits\<close>)
    with 1(1) [OF False refl cut [symmetric] refl refl refl] False cut show ?thesis
      by (simp add: Let_def)
  qed
next
  case (3 sha source child children node_id path depth occ st)
  let ?k = "occurrence (xe_tag child) occ"
  let ?path = "path @ [path_step (xe_tag child) ?k]"
  let ?st = "xml_visit sha source child (Some node_id) ?path (depth + 1) st"
  have "xml_linked sha source (fst ?st) \<and> set (fst st) \<subseteq> set (fst ?st)"
    by (rule 3(1) [OF refl 3(3)]) (use 3(4) in auto)
  moreover from this 3(4) have "\<exists>m \<in> set (fst ?st). node_id = xn_node_id m \<and> xn_path m = path"
    by blast
  ultimately show ?case using 3(2) [OF refl] by (auto simp: Let_def)
qed auto

text \<open>No two nodes have the same path.\<close>

lemma path_step_inject [simp]: "path_step t k = path_step t' k' \<longleftrightarrow> t = t' \<and> k = k'"
proof
  assume eq: "path_step t k = path_step t' k'"
  have bracket: "CHR ''['' \<notin> set (nat_str n)" for n
    using nat_str_set [of "CHR ''[''" n] by (auto simp: is_digit_def code_of_def)
  have "rev (nat_str k) @ CHR ''['' # rev t = rev (nat_str k') @ CHR ''['' # rev t'"
    using arg_cong [OF eq, of "\<lambda>s. tl (rev s)"] by (simp add: path_step_def)
  then have "rev (nat_str k) = rev (nat_str k') \<and> rev t = rev t'"
    by (rule split_at_unique) (simp_all add: bracket)
  then show "t = t' \<and> k = k'" by simp
qed simp

lemma xml_outline_prefix:
  "x \<in> set (xml_outline e path) \<Longrightarrow> prefix path (fst x)"
  "x \<in> set (xml_outline_children cs path earlier) \<Longrightarrow>
     \<exists>t k. count_list earlier t < k \<and> prefix (path @ [path_step t k]) (fst x)"
proof (induction e path and cs path earlier rule: xml_outline_xml_outline_children.induct)
  case (1 tag attrib content children path)
  then show ?case by (auto dest: append_prefixD)
next
  case (3 child children path earlier)
  show ?case
  proof (cases "x \<in> set (xml_outline_children children path (xe_tag child # earlier))")
    case True
    with 3(2) show ?thesis by (auto split: if_splits dest: Suc_lessD)
  next
    case False
    with 3(1,3) show ?thesis by (auto intro!: exI [of _ "xe_tag child"])
  qed
qed simp

lemma xml_outline_distinct:
  "distinct (map fst (xml_outline e path))"
  "distinct (map fst (xml_outline_children cs path earlier))"
proof (induction e path and cs path earlier rule: xml_outline_xml_outline_children.induct)
  case (1 tag attrib content children path)
  then show ?case by (auto dest!: xml_outline_prefix(2))
next
  case (3 child children path earlier)
  have "fst x \<noteq> fst y" if x: "x \<in> set (xml_outline child (path @
      [path_step (xe_tag child) (count_list earlier (xe_tag child) + 1)]))"
    and y: "y \<in> set (xml_outline_children children path (xe_tag child # earlier))" for x y
  proof
    assume eq: "fst x = fst y"
    from xml_outline_prefix(1) [OF x] xml_outline_prefix(2) [OF y] eq obtain t k where
      "count_list (xe_tag child # earlier) t < k"
      "prefix (path @ [path_step (xe_tag child) (count_list earlier (xe_tag child) + 1)]) (fst y)"
      "prefix (path @ [path_step t k]) (fst y)" by metis
    then show False by (auto simp: prefix_def split: if_splits)
  qed
  with 3 show ?case by (fastforce simp: image_iff)
qed simp

text \<open>The tree is rebuilt from the right: a node takes the trees one level below it.\<close>

fun graft :: "xml_face \<Rightarrow> (nat \<times> xml_element) list \<Rightarrow> (nat \<times> xml_element) list" where
  "graft (path, tag, attrib, content) forest =
     (let deeper = (\<lambda>t. fst t = Suc (length path))
      in (length path, XmlElement tag attrib content (map snd (takeWhile deeper forest)))
         # dropWhile deeper forest)"

fun xml_normal :: "xml_element \<Rightarrow> xml_element" where
  "xml_normal (XmlElement tag attrib content children) =
     XmlElement tag (sort attrib) (fst (xml_text content)) (map xml_normal children)"

definition shallow :: "nat \<Rightarrow> (nat \<times> xml_element) list \<Rightarrow> bool" where
  "shallow d forest = (forest = [] \<or> fst (hd forest) \<le> d)"

lemma shallow_while:
  assumes "shallow d forest"
  shows "takeWhile (\<lambda>t. fst t = Suc d) (map (\<lambda>c. (Suc d, c)) cs @ forest) = map (\<lambda>c. (Suc d, c)) cs"
    and "dropWhile (\<lambda>t. fst t = Suc d) (map (\<lambda>c. (Suc d, c)) cs @ forest) = forest"
  using assms by (induction cs) (cases forest; auto simp: shallow_def)+

lemma graft_outline:
  "shallow (length path) forest \<Longrightarrow>
     foldr graft (map xml_entry (xml_outline e path)) forest = (length path, xml_normal e) # forest"
  "shallow (length path) forest \<Longrightarrow>
     foldr graft (map xml_entry (xml_outline_children cs path earlier)) forest
     = map (\<lambda>c. (Suc (length path), c)) (map xml_normal cs) @ forest"
proof (induction e path and cs path earlier arbitrary: forest and forest
    rule: xml_outline_xml_outline_children.induct)
  case (1 tag attrib content children path)
  then show ?case
    using shallow_while [OF 1(2), of "map xml_normal children"]
    by (simp add: xml_entry_def Let_def comp_def)
next
  case (3 child children path earlier)
  have "shallow (Suc (length path)) (map (\<lambda>c. (Suc (length path), c)) (map xml_normal children) @ forest)"
    using 3(3) by (cases children) (auto simp: shallow_def)
  with 3 show ?case by simp
qed simp

text \<open>The nodes and the flag of a successful parse, by the outline of the root.\<close>

definition xml_document :: "xml_element \<Rightarrow> (string list \<times> xml_element) list" where
  "xml_document root = xml_outline root [path_step (xe_tag root) 1]"

definition xml_walk :: "(string \<Rightarrow> string) \<Rightarrow> artifact_provenance \<Rightarrow> xml_element \<Rightarrow> xml_node list \<times> bool" where
  "xml_walk sha source root = xml_visit sha source root None [path_step (xe_tag root) 1] 0 ([], False)"

lemma xml_walk_walked: "xml_walked ([], False) (xml_document root) (xml_walk sha source root)"
  unfolding xml_document_def xml_walk_def by (rule xml_visit_walked(1)) simp

lemma xml_parse_InrE:
  assumes "xml_parse fromstring sha rq = Inr ir"
  obtains root where "fromstring (rq_content rq) = Some root"
    and "xi_nodes ir = fst (xml_walk sha (rq_source rq) root)"
    and "xi_truncated ir \<longleftrightarrow> snd (xml_walk sha (rq_source rq) root) \<or> rq_input_truncated rq"
  using assms
  by (auto simp: xml_parse_def Let_def xml_walk_def case_prod_beta simp del: One_nat_def
      split: option.splits)

lemma xml_parse_fits:
  assumes "xml_parse fromstring sha rq = Inr ir"
  obtains root where "fromstring (rq_content rq) = Some root"
    and "xi_truncated ir \<longleftrightarrow> rq_input_truncated rq \<or> \<not> xml_fits (xml_document root)"
    and "subseq (map xml_face (xi_nodes ir)) (map xml_entry (xml_document root))"
    and "xml_fits (xml_document root) \<Longrightarrow> map xml_face (xi_nodes ir) = map xml_entry (xml_document root)"
    and "length (xi_nodes ir) \<le> MAX_XML_NODES"
proof -
  from assms obtain root where root: "fromstring (rq_content rq) = Some root"
    and ir: "xi_nodes ir = fst (xml_walk sha (rq_source rq) root)"
      "xi_truncated ir \<longleftrightarrow> snd (xml_walk sha (rq_source rq) root) \<or> rq_input_truncated rq"
    by (rule xml_parse_InrE)
  show ?thesis
    by (rule that [OF root]; use xml_walk_walked [of root sha "rq_source rq"] ir in
        \<open>auto simp: walked_def xml_fits_def subseq_map\<close>)
qed

lemma xml_parse_Inl:
  "xml_parse fromstring sha rq = Inl e \<Longrightarrow>
     declares_dtd (take MAX_XML_INPUT_CHARACTERS (rq_content rq))
     \<or> MAX_XML_INPUT_CHARACTERS < length (rq_content rq) \<or> fromstring (rq_content rq) = None"
  by (auto simp: xml_parse_def Let_def case_prod_beta and_then_Inl split: option.splits)

text \<open>
  C11. The XML reader reports every element or says that it did not.  A document is refused only for
  a DTD or entity declaration, for its size, or because it is malformed; otherwise the nodes are, in
  document order, elements of the document with their paths, sorted attributes and stripped text,
  the flag \<open>truncated\<close> is set exactly when the input was cut or the outline of the document exceeds
  the bounds on nodes, depth and text, and without the flag the nodes are the whole outline.
\<close>

theorem xml_reader_complete:
  "case xml_parse fromstring sha rq of
     Inl e \<Rightarrow> declares_dtd (take MAX_XML_INPUT_CHARACTERS (rq_content rq))
       \<or> MAX_XML_INPUT_CHARACTERS < length (rq_content rq) \<or> fromstring (rq_content rq) = None
   | Inr ir \<Rightarrow>
       (case fromstring (rq_content rq) of None \<Rightarrow> False
        | Some root \<Rightarrow>
            (xi_truncated ir \<longleftrightarrow> (if xml_fits (xml_document root) then rq_input_truncated rq else True))
            \<and> (if xml_fits (xml_document root)
               then map xml_face (xi_nodes ir) = map xml_entry (xml_document root)
               else subseq (map xml_face (xi_nodes ir)) (map xml_entry (xml_document root)))
            \<and> length (xi_nodes ir) \<le> MAX_XML_NODES)"
proof (cases "xml_parse fromstring sha rq")
  case (Inl e)
  then show ?thesis by (simp add: xml_parse_Inl)
next
  case (Inr ir)
  then show ?thesis by (auto elim: xml_parse_fits)
qed

text \<open>
  C12. The identity of the nodes of an XML document: they are numbered from 1 in order, their
  identifiers are the digests of the artifact, the path and the number, no two have the same path,
  and every node but the first has a parent, an earlier node whose path is its own less one step.
\<close>

theorem xml_nodes_linked:
  "case xml_parse fromstring sha rq of Inl e \<Rightarrow> True
   | Inr ir \<Rightarrow> map xn_order (xi_nodes ir) = [1..<Suc (length (xi_nodes ir))]
       \<and> distinct (map xn_path (xi_nodes ir))
       \<and> list_all (xml_link sha (rq_source rq) (xi_nodes ir)) (xi_nodes ir)"
proof (cases "xml_parse fromstring sha rq")
  case (Inr ir)
  then obtain root where ir: "xi_nodes ir = fst (xml_walk sha (rq_source rq) root)"
    by (rule xml_parse_InrE)
  obtain seen where "subseq seen (xml_document root)" "map xml_face (xi_nodes ir) = map xml_entry seen"
    using xml_walk_walked [of root sha "rq_source rq"] unfolding ir by (auto simp: walked_def)
  moreover have "map fst (map xml_face ns) = map xn_path ns" "map fst (map xml_entry os) = map fst os" for ns os
    by (simp_all add: xml_face_def xml_entry_def comp_def)
  ultimately have "map xn_path (xi_nodes ir) = map fst seen" "subseq seen (xml_document root)" by metis+
  then have "distinct (map xn_path (xi_nodes ir))"
    using xml_outline_distinct(1) [of root] subseq_map subseq_distinct unfolding xml_document_def by metis
  moreover have "xml_linked sha (rq_source rq) (xi_nodes ir)"
    using xml_visit_linked(1) [of sha "rq_source rq" "([], False)"]
    unfolding ir xml_walk_def by (simp add: xml_linked_def)
  ultimately show ?thesis using Inr by (simp add: xml_linked_def)
qed simp


definition sample_tree :: xml_element where
  "sample_tree = XmlElement ''r'' [] None [XmlElement ''b'' [] (Some ''x'') []]"


section \<open>JSON\<close>

function (sequential) json_outline :: "pyval \<Rightarrow> json_key list \<Rightarrow> (json_key list \<times> pyval) list"
and json_outline_items :: "(string \<times> pyval) list \<Rightarrow> json_key list \<Rightarrow> (json_key list \<times> pyval) list"
and json_outline_list :: "pyval list \<Rightarrow> nat \<Rightarrow> json_key list \<Rightarrow> (json_key list \<times> pyval) list" where
  "json_outline v path = (path, v) #
     (case v of PDict d \<Rightarrow> json_outline_items d path | PList vs \<Rightarrow> json_outline_list vs 0 path | _ \<Rightarrow> [])"
| "json_outline_items [] path = []"
| "json_outline_items ((k, v) # d) path = json_outline v (path @ [JKey k]) @ json_outline_items d path"
| "json_outline_list [] i path = []"
| "json_outline_list (v # vs) i path = json_outline v (path @ [JIndex i]) @ json_outline_list vs (i + 1) path"
  by pat_completeness auto
termination
  by (relation "measure (\<lambda>x. case x of
       Inl (v, _) \<Rightarrow> size v
     | Inr (Inl (d, _)) \<Rightarrow> size_list (size_prod (\<lambda>x. 0) size) d
     | Inr (Inr (vs, _)) \<Rightarrow> size_list size vs)") auto

type_synonym json_face = "json_key list \<times> pyval"

definition json_face :: "json_node \<Rightarrow> json_face" where
  "json_face n = (jn_path n, jn_value n)"

definition json_entry :: "json_key list \<times> pyval \<Rightarrow> json_face" where
  "json_entry x = (fst x, fst (json_cut (snd x)))"

definition json_admitted :: "json_key list \<times> pyval \<Rightarrow> bool" where
  "json_admitted x = (length (fst x) \<le> MAX_JSON_DEPTH \<and> \<not> snd (json_cut (snd x)))"

definition json_fits :: "(json_key list \<times> pyval) list \<Rightarrow> bool" where
  "json_fits os = (length os \<le> MAX_JSON_NODES \<and> list_all json_admitted os)"

abbreviation json_walked where
  "json_walked \<equiv> walked MAX_JSON_NODES json_face json_entry json_admitted"

lemma json_enter_walked:
  assumes "json_enter sha source v parent_id path st = (node_id, st')" and "\<not> json_full (length path) st"
  shows "json_walked st [(path, v)] st'"
  using assms
  by (auto simp: json_enter_def json_full_def json_face_def json_entry_def json_admitted_def Let_def
      split: prod.splits intro!: walked_enter)

lemma json_full_walked: "json_full (length path) st \<Longrightarrow> os = (path, v) # os' \<Longrightarrow> json_walked st os (fst st, True)"
  by (rule walked_stop) (auto simp: json_full_def json_admitted_def)

lemma json_visit_walked:
  "length path = depth \<Longrightarrow>
     json_walked st (json_outline v path) (json_visit sha source v parent_id path depth st)"
  "length path = depth \<Longrightarrow>
     json_walked st (json_outline_items d path) (json_visit_items sha source d node_id path depth st)"
  "length path = depth \<Longrightarrow>
     json_walked st (json_outline_list vs i path) (json_visit_list sha source vs i node_id path depth st)"
proof (induction sha source v parent_id path depth st and sha source d node_id path depth st
    and sha source vs i node_id path depth st rule: json_visit_json_visit_items_json_visit_list.induct)
  case (1 sha source v parent_id path depth st)
  show ?case
  proof (cases "json_full depth st")
    case True
    with 1(3) show ?thesis by (auto intro: json_full_walked)
  next
    case False
    obtain node_id st' where enter: "json_enter sha source v parent_id path st = (node_id, st')"
      by (rule prod.exhaust)
    with False 1(3) have first: "json_walked st [(path, v)] st'" by (auto intro: json_enter_walked)
    show ?thesis
    proof (cases v)
      case (PDict d)
      with walked_append [OF first 1(2) [OF False enter [symmetric] refl PDict 1(3)]] False enter
      show ?thesis by simp
    next
      case (PList vs)
      with walked_append [OF first 1(1) [OF False enter [symmetric] refl PList 1(3)]] False enter
      show ?thesis by simp
    qed (use first False enter in simp_all)
  qed
next
  case (3 sha source k v d node_id path depth st)
  from walked_append [OF 3(1) 3(2)] 3(3) show ?case by simp
next
  case (5 sha source v vs i node_id path depth st)
  from walked_append [OF 5(1) 5(2)] 5(3) show ?case by simp
qed (simp_all add: walked_Nil)

text \<open>The value at a path.\<close>

fun json_at :: "pyval \<Rightarrow> json_key list \<Rightarrow> pyval option" where
  "json_at v [] = Some v"
| "json_at (PDict d) (JKey k # path) = (case dict_get d k of None \<Rightarrow> None | Some v \<Rightarrow> json_at v path)"
| "json_at (PList vs) (JIndex i # path) = (if i < length vs then json_at (vs ! i) path else None)"
| "json_at v (k # path) = None"

text \<open>The objects have no duplicate property.\<close>

function (sequential) unique_keys :: "pyval \<Rightarrow> bool" and unique_items :: "(string \<times> pyval) list \<Rightarrow> bool"
and unique_list :: "pyval list \<Rightarrow> bool" where
  "unique_keys v = (case v of PDict d \<Rightarrow> unique_items d | PList vs \<Rightarrow> unique_list vs | _ \<Rightarrow> True)"
| "unique_items [] = True"
| "unique_items ((k, v) # d) = (k \<notin> fst ` set d \<and> unique_keys v \<and> unique_items d)"
| "unique_list [] = True"
| "unique_list (v # vs) = (unique_keys v \<and> unique_list vs)"
  by pat_completeness auto
termination
  by (relation "measure (\<lambda>x. case x of
       Inl v \<Rightarrow> size v
     | Inr (Inl d) \<Rightarrow> size_list (size_prod (\<lambda>x. 0) size) d
     | Inr (Inr vs) \<Rightarrow> size_list size vs)") auto

declare unique_keys.simps [simp del] json_outline.simps [simp del]

lemma map_of_unique: "unique_items d \<Longrightarrow> dict_get d k = Some v \<longleftrightarrow> (k, v) \<in> set d"
  by (induction d) (force simp: dict_get_def)+

text \<open>The outline of a value is the graph of the lookup.\<close>

lemma json_outline_at:
  "unique_keys v \<Longrightarrow> (p, w) \<in> set (json_outline v path) \<longleftrightarrow> (\<exists>q. p = path @ q \<and> json_at v q = Some w)"
  "unique_items d \<Longrightarrow> (p, w) \<in> set (json_outline_items d path)
     \<longleftrightarrow> (\<exists>k v q. (k, v) \<in> set d \<and> p = path @ JKey k # q \<and> json_at v q = Some w)"
  "unique_list vs \<Longrightarrow> (p, w) \<in> set (json_outline_list vs i path)
     \<longleftrightarrow> (\<exists>j q. j < length vs \<and> p = path @ JIndex (i + j) # q \<and> json_at (vs ! j) q = Some w)"
proof (induction v path and d path and vs i path rule: json_outline_json_outline_items_json_outline_list.induct)
  case (1 v path)
  have split_at: "(\<exists>q. p = path @ q \<and> json_at v q = Some w) \<longleftrightarrow>
      p = path \<and> w = v \<or> (\<exists>k q. p = path @ k # q \<and> json_at v (k # q) = Some w)"
    by (metis append_Nil2 json_at.simps(1) list.exhaust option.inject)
  show ?case
  proof (cases v)
    case (PDict d)
    with 1(3) have "unique_items d" by (simp add: unique_keys.simps)
    moreover from this have "json_at v (k # q) = Some w \<longleftrightarrow>
        (\<exists>s u. k = JKey s \<and> (s, u) \<in> set d \<and> json_at u q = Some w)" for k q
      unfolding PDict by (cases k) (auto simp: map_of_unique [symmetric] split: option.splits)
    ultimately show ?thesis
      unfolding split_at using 1(2) [OF PDict] PDict by (subst json_outline.simps) auto
  next
    case (PList vs)
    with 1(3) have "unique_list vs" by (simp add: unique_keys.simps)
    moreover have "json_at v (k # q) = Some w \<longleftrightarrow>
        (\<exists>j. k = JIndex j \<and> j < length vs \<and> json_at (vs ! j) q = Some w)" for k q
      unfolding PList by (cases k) auto
    ultimately show ?thesis
      unfolding split_at using 1(1) [OF PList] PList by (subst json_outline.simps) auto
  qed (unfold split_at; subst json_outline.simps; auto)+
next
  case (3 k v d path)
  then show ?case by (simp add: ex_disj_distrib) blast
next
  case (5 v vs i path)
  have "(\<exists>j q. j < length (v # vs) \<and> p = path @ JIndex (i + j) # q \<and> json_at ((v # vs) ! j) q = Some w)
    \<longleftrightarrow> (\<exists>q. p = path @ JIndex i # q \<and> json_at v q = Some w)
      \<or> (\<exists>j q. j < length vs \<and> p = path @ JIndex (i + 1 + j) # q \<and> json_at (vs ! j) q = Some w)"
    by (auto simp: less_Suc_eq_0_disj)
  with 5 show ?case by simp
qed simp_all

definition json_walk :: "(string \<Rightarrow> string) \<Rightarrow> artifact_provenance \<Rightarrow> pyval \<Rightarrow> json_node list \<times> bool" where
  "json_walk sha source payload = json_visit sha source payload None [] 0 ([], False)"

lemma json_walk_walked: "json_walked ([], False) (json_outline payload []) (json_walk sha source payload)"
  unfolding json_walk_def by (rule json_visit_walked(1)) simp

lemma json_parse_InrE:
  assumes "json_parse json_loads sha rq = Inr ir"
  obtains payload where "json_loads (rq_content rq) = Some payload"
    and "ji_truncated ir \<longleftrightarrow> rq_input_truncated rq \<or> \<not> json_fits (json_outline payload [])"
    and "subseq (map json_face (ji_nodes ir)) (map json_entry (json_outline payload []))"
    and "json_fits (json_outline payload []) \<Longrightarrow>
      map json_face (ji_nodes ir) = map json_entry (json_outline payload [])"
    and "length (ji_nodes ir) \<le> MAX_JSON_NODES"
proof -
  from assms obtain payload where payload: "json_loads (rq_content rq) = Some payload"
    and ir: "ji_nodes ir = fst (json_walk sha (rq_source rq) payload)"
      "ji_truncated ir \<longleftrightarrow> snd (json_walk sha (rq_source rq) payload) \<or> rq_input_truncated rq"
    by (auto simp: json_parse_def Let_def json_walk_def case_prod_beta split: option.splits)
  show ?thesis
    by (rule that [OF payload]; use json_walk_walked [of payload sha "rq_source rq"] ir in
        \<open>auto simp: walked_def json_fits_def subseq_map\<close>)
qed

text \<open>
  C14. The JSON reader reports every value of the document or says that it did not: the flag
  \<open>truncated\<close> is set exactly when the input was cut or the document exceeds the bounds on nodes,
  depth and strings, and otherwise a node with a given path and value is reported exactly when the
  value is the one found in the document at that path.  (The objects have no duplicate property:
  \<open>unique_object\<close> refuses them.)
\<close>

theorem json_nodes_are_lookups:
  assumes "json_parse json_loads sha rq = Inr ir" and "json_loads (rq_content rq) = Some payload"
    and "unique_keys payload"
  shows "(ji_truncated ir \<longleftrightarrow> rq_input_truncated rq \<or> \<not> json_fits (json_outline payload []))
    \<and> (ji_truncated ir \<or>
       ((p, v) \<in> set (map json_face (ji_nodes ir)) \<longleftrightarrow> json_at payload p = Some v))"
proof -
  from assms(1) have flag: "ji_truncated ir \<longleftrightarrow> rq_input_truncated rq \<or> \<not> json_fits (json_outline payload [])"
    and nodes: "json_fits (json_outline payload []) \<Longrightarrow>
      map json_face (ji_nodes ir) = map json_entry (json_outline payload [])"
    by (auto elim!: json_parse_InrE simp: assms(2))
  have "json_entry x = x" if "json_admitted x" for x
    using that by (cases x) (auto simp: json_entry_def json_admitted_def json_cut_def split: pyval.splits if_splits)
  then have "map json_entry os = os" if "json_fits os" for os
    using that by (auto simp: json_fits_def list_all_iff intro: map_idI)
  with nodes flag json_outline_at(1) [OF assms(3), of p v "[]"] show ?thesis by fastforce
qed

definition sample_json :: pyval where
  "sample_json = PDict [(''a'', PList [PInt 1])]"

theorem json_nodes_are_lookups_witness:
  "\<exists>ir. json_parse (\<lambda>s. Some sample_json) (\<lambda>s. s) (sample_request ''x'') = Inr ir \<and> \<not> ji_truncated ir
     \<and> ([JKey ''a'', JIndex 0], PInt 1) \<in> set (map json_face (ji_nodes ir))"
proof -
  obtain ir where ir: "json_parse (\<lambda>s. Some sample_json) (\<lambda>s. s) (sample_request ''x'') = Inr ir"
    and t: "\<not> ji_truncated ir"
    by (simp add: json_parse_def sample_json_def sample_request_def json_enter_def json_cut_def json_full_def
        MAX_JSON_INPUT_CHARACTERS_def MAX_JSON_NODES_def MAX_JSON_DEPTH_def MAX_JSON_STRING_def Let_def)
  have "unique_keys sample_json" by (simp add: sample_json_def unique_keys.simps)
  from json_nodes_are_lookups [OF ir refl this, of "[JKey ''a'', JIndex 0]" "PInt 1"] t ir
  show ?thesis by (simp add: sample_json_def dict_get_def)
qed

end
