(* ===== verification/Profiles.thy ===== *)
theory Profiles
  imports Security_Model Registry
begin

text \<open>
  Device profiles (\<open>profile_resolution/registry.py\<close>): version constraints, manifests, the
  registry of built-in manifests, and the manifests themselves.  The frozen sets of a manifest are
  sets; its coverage manifest is the dictionary the code reads at run time.
\<close>

section \<open>Versions\<close>

datatype device_class =
    DC_ROUTER | DC_SWITCH | DC_FIREWALL | DC_SASE | DC_LOAD_BALANCER | DC_WIRELESS
  | DC_CLOUD_NETWORK_CONTROL | DC_VIRTUAL_NETWORK_DEVICE | DC_UNKNOWN | DC_OTHER

record version_constraint =
  vc_supported_major_versions :: "nat set"
  vc_minimum_version :: "nat list option"
  vc_maximum_version :: "nat list option"
  vc_excluded_versions :: "string set"

text \<open>
  \<open>re.match(r"(\d+(?:\.\d+)*)", version)\<close>: the longest prefix of digit groups separated by points.
\<close>

function version_groups :: "string \<Rightarrow> string list" where
  "version_groups s =
     (let g = takeWhile is_digit s; rest = dropWhile is_digit s
      in if g = [] then []
         else g # (case rest of
           c # d # ds \<Rightarrow> if c = CHR ''.'' \<and> is_digit d then version_groups (d # ds) else []
         | _ \<Rightarrow> []))"
  by pat_completeness auto
termination
proof (relation "measure length", goal_cases)
  case (2 s g rest c x d ds)
  have "length (dropWhile is_digit s) \<le> length s" by (rule length_dropWhile_le)
  moreover have "length (dropWhile is_digit s) = Suc (length (d # ds))" using 2 by (metis length_Cons)
  ultimately show ?case by simp
qed simp

definition version_char :: "char \<Rightarrow> bool" where
  "version_char c = (is_digit c \<or> is_alpha c \<or> c = CHR ''.'' \<or> c = CHR ''-'')"

definition parse_version :: "string \<Rightarrow> exc + nat list option" where
  "parse_version version =
     (if version = [] \<or> \<not> is_digit (hd version) \<or> \<not> list_all version_char version then Inr None
      else and_then (map_res int_of_digits (version_groups version)) (\<lambda>ns. Inr (Some ns)))"

fun lex_less :: "nat list \<Rightarrow> nat list \<Rightarrow> bool" where
  "lex_less xs [] = False"
| "lex_less [] (y # ys) = True"
| "lex_less (x # xs) (y # ys) = (x < y \<or> (x = y \<and> lex_less xs ys))"

text \<open>An empty bound is falsy and does not bind.\<close>

definition below_minimum :: "nat list option \<Rightarrow> nat list \<Rightarrow> bool" where
  "below_minimum bound v = (case bound of
     None \<Rightarrow> False | Some m \<Rightarrow> m \<noteq> [] \<and> lex_less (take (length m) v) m)"

definition above_maximum :: "nat list option \<Rightarrow> nat list \<Rightarrow> bool" where
  "above_maximum bound v = (case bound of
     None \<Rightarrow> False | Some m \<Rightarrow> m \<noteq> [] \<and> lex_less m (take (length m) v))"

definition accepts :: "version_constraint \<Rightarrow> string \<Rightarrow> exc + bool" where
  "accepts c version =
     and_then (parse_version version) (\<lambda>parsed.
     Inr (case parsed of
        None \<Rightarrow> False
      | Some v \<Rightarrow>
          join ''.'' (map nat_str v) \<notin> vc_excluded_versions c
          \<and> version \<notin> vc_excluded_versions c
          \<and> (vc_supported_major_versions c = {} \<or> hd v \<in> vc_supported_major_versions c)
          \<and> \<not> below_minimum (vc_minimum_version c) v \<and> \<not> above_maximum (vc_maximum_version c) v))"

section \<open>Manifests\<close>

record xml_identity_selector =
  is_field :: string
  is_path :: "string list"
  is_namespace_uris :: "string option list"
  is_source :: string
  is_attribute :: "string option"

record profile_manifest =
  pm_profile_id :: string
  pm_profile_version_id :: string
  pm_profile_version :: string
  pm_vendor :: string
  pm_product_family :: string
  pm_os :: string
  pm_version_constraint :: version_constraint
  pm_device_classes :: "device_class set"
  pm_accepted_evidence_types :: "artifact_evidence_type set"
  pm_structural_reader_name :: "string option"
  pm_knowledge_pack_name :: "string option"
  pm_capabilities :: "string set"
  pm_coverage_manifest :: "(string \<times> pyval) list"
  pm_manifest_schema_version :: string
  pm_exclusions :: "string set"
  pm_detection_tokens :: "string list"
  pm_xml_identity_selectors :: "xml_identity_selector list"
  pm_structural_evidence_types :: "artifact_evidence_type set"

definition applicability :: "profile_manifest \<Rightarrow> string option \<Rightarrow> exc + string" where
  "applicability m version = (case version of
     None \<Rightarrow> Inr ''version_unknown''
   | Some v \<Rightarrow> and_then (accepts (pm_version_constraint m) v) (\<lambda>ok.
       Inr (if ok \<and> v \<notin> pm_exclusions m then ''compatible'' else ''incompatible'')))"

text \<open>The name of a tag that \<open>{uri}local\<close> may qualify.\<close>

definition xml_name :: "string \<Rightarrow> string option \<times> string" where
  "xml_name tag =
     (if prefix [CHR 0x7B] tag \<and> CHR 0x7D \<in> set tag
      then (Some (takeWhile (\<lambda>c. c \<noteq> CHR 0x7D) (drop 1 tag)), drop 1 (dropWhile (\<lambda>c. c \<noteq> CHR 0x7D) (drop 1 tag)))
      else (None, tag))"

text \<open>\<open>s.rsplit("[", 1)\<close>: what stands before and after the last bracket.\<close>

definition rsplit_bracket :: "string \<Rightarrow> string \<times> string option" where
  "rsplit_bracket s =
     (if CHR ''['' \<in> set s
      then (rev (drop 1 (dropWhile (\<lambda>c. c \<noteq> CHR ''['') (rev s))),
            Some (rev (takeWhile (\<lambda>c. c \<noteq> CHR ''['') (rev s))))
      else (s, None))"

definition selector_matches ::
  "xml_identity_selector \<Rightarrow> string list \<Rightarrow> (string \<times> string) list \<Rightarrow> string option \<Rightarrow> string option" where
  "selector_matches s node_path attributes txt =
     (if length node_path \<noteq> length (is_path s) then None
      else if is_namespace_uris s \<noteq> [] \<and> length (is_namespace_uris s) \<noteq> length (is_path s) then None
      else if list_all (\<lambda>(actual, expected, namespace).
           case xml_name (fst (rsplit_bracket actual)) of (ns, loc) \<Rightarrow>
             loc = expected \<and> (namespace = None \<or> ns = namespace))
         (zip node_path (zip (is_path s)
           (if is_namespace_uris s = [] then replicate (length (is_path s)) None else is_namespace_uris s)))
      then (if is_source s = ''attribute''
            then map_of (rev attributes) (case is_attribute s of None \<Rightarrow> [] | Some a \<Rightarrow> a)
            else txt)
      else None)"

section \<open>The registry\<close>

record profile_index =
  fi_by_version :: "(string \<times> profile_manifest) list"
  fi_logical_versions :: "((string \<times> string) \<times> profile_manifest) list"

abbreviation profile_error :: "string \<Rightarrow> exc" where
  "profile_error m \<equiv> Exc ValueError m"

definition validate_manifest :: "profile_manifest \<Rightarrow> exc + unit" where
  "validate_manifest m =
     and_then (require (pm_manifest_schema_version m = ''1.0.0'')
       (profile_error ''Unsupported profile-manifest schema version'')) (\<lambda>_.
     and_then (require (\<not> py_blank (pm_profile_id m) \<and> \<not> py_blank (pm_profile_version m)
         \<and> pm_profile_version_id m = pm_profile_id m @ ''@'' @ pm_profile_version m)
       (profile_error ''Profile manifest identity is malformed'')) (\<lambda>_.
     and_then (require (\<not> py_blank (pm_vendor m) \<and> \<not> py_blank (pm_os m) \<and> pm_device_classes m \<noteq> {})
       (profile_error ''Profile manifest is malformed'')) (\<lambda>_.
     require (pm_structural_reader_name m \<noteq> None \<and> pm_knowledge_pack_name m \<noteq> None)
       (profile_error ''Profile manifest bindings are incomplete''))))"

definition register_profile :: "profile_manifest \<Rightarrow> profile_index \<Rightarrow> exc + profile_index" where
  "register_profile m idx =
     and_then (validate_manifest m) (\<lambda>_.
     let existing = dict_get (fi_by_version idx) (pm_profile_version_id m);
         logical = dict_get (fi_logical_versions idx) (pm_profile_id m, pm_profile_version m)
     in and_then (require (existing \<in> {None, Some m} \<and> logical \<in> {None, Some m})
          (profile_error ''Profile manifest version content conflicts'')) (\<lambda>_.
        Inr \<lparr>fi_by_version = dict_put (pm_profile_version_id m) m (fi_by_version idx),
          fi_logical_versions = dict_put (pm_profile_id m, pm_profile_version m) m (fi_logical_versions idx)\<rparr>))"

definition make_profile_registry :: "profile_manifest list \<Rightarrow> exc + (string \<times> profile_manifest) list" where
  "make_profile_registry ms =
     and_then (fold_res register_profile ms \<lparr>fi_by_version = [], fi_logical_versions = []\<rparr>) (\<lambda>idx.
     Inr (fi_by_version idx))"

section \<open>The built-in profiles\<close>

definition CISCO_IOS_XE_17 :: profile_manifest where
  "CISCO_IOS_XE_17 = \<lparr>
     pm_profile_id = ''cisco.ios_xe.17'',
     pm_profile_version_id = ''cisco.ios_xe.17@1.0.0'',
     pm_profile_version = ''1.0.0'',
     pm_vendor = ''Cisco'',
     pm_product_family = ''IOS XE'',
     pm_os = ''IOS XE'',
     pm_version_constraint = \<lparr>vc_supported_major_versions = {17}, vc_minimum_version = None,
       vc_maximum_version = None, vc_excluded_versions = {}\<rparr>,
     pm_device_classes = {DC_ROUTER, DC_SWITCH},
     pm_accepted_evidence_types = UNIV,
     pm_structural_reader_name = Some ''indentation_cli.v1'',
     pm_knowledge_pack_name = Some ''cisco_iosxe_17@1.3.0'',
     pm_capabilities = {''profile_detection'', ''structural_parsing'', ''semantic_interpretation'', ''effective_state_resolution'', ''deterministic_compliance''},
     pm_coverage_manifest = [
       (''profile_detection'', PBool True),
       (''structural_parsing'', PBool True),
       (''semantic_interpretation'', PBool True),
       (''effective_state_resolution'', PBool True),
       (''deterministic_compliance'', PBool True),
       (''supported_version_family'', PStr ''IOS XE 17.x''),
       (''structural_reader'', PStr ''indentation_cli.v1''),
       (''canonical_fields'', PList [PStr ''management.remote.telnet.enabled'', PStr ''management.remote.ssh.enabled'', PStr ''management.remote.ssh.version'', PStr ''management.remote.http.enabled'', PStr ''management.session.idle_timeout'', PStr ''management.remote.source.restriction.configured'', PStr ''logging.enabled'', PStr ''logging.remote.destination'', PStr ''time.ntp.server'', PStr ''time.ntp.configured'', PStr ''time.ntp.authentication.enabled'', PStr ''time.ntp.authentication.key_id'', PStr ''time.ntp.authentication.trusted_key_id'']),
       (''command_forms'', PList [PStr ''transport input telnet|ssh|telnet ssh|ssh telnet|none'', PStr ''exec-timeout <minutes> [seconds]'', PStr ''ip ssh version 1|2'', PStr ''ip http server|no ip http server'', PStr ''logging host <ip-or-hostname>'', PStr ''ntp server <ip-or-hostname>'', PStr ''access-class <name> in (within line vty)'', PStr ''logging on'', PStr ''ntp authenticate|authentication-key <id>|trusted-key <id>'']),
       (''identity_only_commands'', PList [PStr ''hostname'']),
       (''limitations'', PList [PStr ''incomplete Cisco grammar'', PStr ''no documented defaults, inheritance, references, or bindings'', PStr ''no inheritance, override, or conflict resolution'', PStr ''only explicitly observed configuration semantics are evaluated'', PStr ''framework mappings and remediation remain bounded to published obligations and procedures''])],
     pm_manifest_schema_version = ''1.0.0'',
     pm_exclusions = {},
     pm_detection_tokens = [],
     pm_xml_identity_selectors = [],
     pm_structural_evidence_types = {AE_CONFIGURATION}\<rparr>"

definition FORTIOS_7 :: profile_manifest where
  "FORTIOS_7 = \<lparr>
     pm_profile_id = ''fortinet.fortios.7'',
     pm_profile_version_id = ''fortinet.fortios.7@1.0.0'',
     pm_profile_version = ''1.0.0'',
     pm_vendor = ''Fortinet'',
     pm_product_family = ''FortiGate'',
     pm_os = ''FortiOS'',
     pm_version_constraint = \<lparr>vc_supported_major_versions = {7}, vc_minimum_version = None,
       vc_maximum_version = None, vc_excluded_versions = {}\<rparr>,
     pm_device_classes = {DC_FIREWALL},
     pm_accepted_evidence_types = UNIV,
     pm_structural_reader_name = Some ''fortios_cli.v1'',
     pm_knowledge_pack_name = Some ''fortios_7@1.3.0'',
     pm_capabilities = {''profile_detection'', ''structural_parsing'', ''semantic_interpretation'', ''effective_state_resolution'', ''deterministic_compliance''},
     pm_coverage_manifest = [
       (''profile_detection'', PBool True),
       (''structural_parsing'', PBool True),
       (''semantic_interpretation'', PBool True),
       (''effective_state_resolution'', PBool True),
       (''deterministic_compliance'', PBool True),
       (''supported_version_family'', PStr ''FortiOS 7.x''),
       (''structural_reader'', PStr ''fortios_cli.v1''),
       (''canonical_fields'', PList [PStr ''management.remote.telnet.enabled'', PStr ''management.remote.ssh.enabled'', PStr ''management.remote.http.enabled'', PStr ''management.session.idle_timeout'', PStr ''management.remote.https.enabled'', PStr ''management.remote.tls.minimum_version'', PStr ''management.remote.source.restriction.configured'', PStr ''management.remote.source.permitted_network'', PStr ''logging.enabled'', PStr ''logging.remote.destination'', PStr ''time.ntp.server'', PStr ''time.ntp.configured''])],
     pm_manifest_schema_version = ''1.0.0'',
     pm_exclusions = {},
     pm_detection_tokens = [],
     pm_xml_identity_selectors = [],
     pm_structural_evidence_types = {AE_CONFIGURATION}\<rparr>"

definition JUNIPER_JUNOS_18 :: profile_manifest where
  "JUNIPER_JUNOS_18 = \<lparr>
     pm_profile_id = ''juniper.junos.18'',
     pm_profile_version_id = ''juniper.junos.18@1.0.0'',
     pm_profile_version = ''1.0.0'',
     pm_vendor = ''Juniper'',
     pm_product_family = ''Junos'',
     pm_os = ''Junos'',
     pm_version_constraint = \<lparr>vc_supported_major_versions = {}, vc_minimum_version = Some [18, 4],
       vc_maximum_version = Some [18, 4], vc_excluded_versions = {}\<rparr>,
     pm_device_classes = {DC_ROUTER, DC_SWITCH, DC_FIREWALL},
     pm_accepted_evidence_types = UNIV,
     pm_structural_reader_name = Some ''xml_tree.v1'',
     pm_knowledge_pack_name = Some ''juniper_junos_18@1.2.0'',
     pm_capabilities = {''profile_detection'', ''structural_parsing'', ''semantic_interpretation'', ''effective_state_resolution'', ''deterministic_compliance''},
     pm_coverage_manifest = [
       (''supported_version_family'', PStr ''Junos 18.4 XML configuration''),
       (''structural_reader'', PStr ''xml_tree.v1''),
       (''canonical_fields'', PList [PStr ''management.remote.ssh.enabled'', PStr ''management.remote.telnet.enabled'', PStr ''management.session.idle_timeout'', PStr ''logging.remote.destination'', PStr ''time.ntp.server'', PStr ''time.ntp.configured'']),
       (''limitations'', PList [PStr ''reviewed 18.4R1-S2.4 scope only'', PStr ''model and serial require bounded chassis-inventory XML'', PStr ''unsupported structures remain UNKNOWN''])],
     pm_manifest_schema_version = ''1.0.0'',
     pm_exclusions = {},
     pm_detection_tokens = [],
     pm_xml_identity_selectors = [\<lparr>is_field = ''os_version'', is_path = [''rpc-reply'', ''configuration'', ''version''], is_namespace_uris = [],
         is_source = ''text'', is_attribute = None\<rparr>,
       \<lparr>is_field = ''hostname'', is_path = [''rpc-reply'', ''configuration'', ''system'', ''host-name''], is_namespace_uris = [],
         is_source = ''text'', is_attribute = None\<rparr>,
       \<lparr>is_field = ''model'', is_path = [''rpc-reply'', ''chassis-inventory'', ''chassis'', ''description''], is_namespace_uris = [],
         is_source = ''text'', is_attribute = None\<rparr>,
       \<lparr>is_field = ''serial_number'', is_path = [''rpc-reply'', ''chassis-inventory'', ''chassis'', ''serial-number''], is_namespace_uris = [],
         is_source = ''text'', is_attribute = None\<rparr>],
     pm_structural_evidence_types = {AE_STRUCTURED_EXPORT}\<rparr>"

definition ARISTA_EOS_4 :: profile_manifest where
  "ARISTA_EOS_4 = \<lparr>
     pm_profile_id = ''arista.eos.4'',
     pm_profile_version_id = ''arista.eos.4@1.0.0'',
     pm_profile_version = ''1.0.0'',
     pm_vendor = ''Arista'',
     pm_product_family = ''EOS'',
     pm_os = ''EOS'',
     pm_version_constraint = \<lparr>vc_supported_major_versions = {4}, vc_minimum_version = None,
       vc_maximum_version = None, vc_excluded_versions = {}\<rparr>,
     pm_device_classes = {DC_SWITCH, DC_ROUTER},
     pm_accepted_evidence_types = UNIV,
     pm_structural_reader_name = Some ''indentation_cli.v1'',
     pm_knowledge_pack_name = Some ''arista_eos_4@1.1.0'',
     pm_capabilities = {''profile_detection'', ''structural_parsing'', ''semantic_interpretation'', ''effective_state_resolution'', ''deterministic_compliance''},
     pm_coverage_manifest = [
       (''supported_version_family'', PStr ''Arista EOS 4.x''),
       (''structural_reader'', PStr ''indentation_cli.v1''),
       (''canonical_fields'', PList [PStr ''management.remote.ssh.enabled'', PStr ''management.remote.telnet.enabled'', PStr ''management.session.idle_timeout'', PStr ''logging.remote.destination'', PStr ''time.ntp.server'', PStr ''time.ntp.configured'', PStr ''management.remote.source.restriction.configured'']),
       (''command_forms'', PList [PStr ''management ssh|telnet > shutdown|no shutdown'', PStr ''management ssh > idle-timeout <minutes>'', PStr ''management ssh > ip access-group <name> [vrf <name>] in'', PStr ''logging host <ip-or-hostname>'', PStr ''ntp server <ip-or-hostname>'']),
       (''limitations'', PList [PStr ''EOS version must come from explicit version output'', PStr ''service defaults and unsupported command variants remain UNKNOWN''])],
     pm_manifest_schema_version = ''1.0.0'',
     pm_exclusions = {},
     pm_detection_tokens = [],
     pm_xml_identity_selectors = [],
     pm_structural_evidence_types = {AE_CONFIGURATION}\<rparr>"

definition GENERIC_CLI :: profile_manifest where
  "GENERIC_CLI = \<lparr>
     pm_profile_id = ''generic.cli'',
     pm_profile_version_id = ''generic.cli@1.0.0'',
     pm_profile_version = ''1.0.0'',
     pm_vendor = ''Generic'',
     pm_product_family = ''Generic CLI'',
     pm_os = ''CLI'',
     pm_version_constraint = \<lparr>vc_supported_major_versions = {1}, vc_minimum_version = None,
       vc_maximum_version = None, vc_excluded_versions = {}\<rparr>,
     pm_device_classes = {DC_UNKNOWN, DC_OTHER},
     pm_accepted_evidence_types = UNIV,
     pm_structural_reader_name = Some ''indentation_cli.v1'',
     pm_knowledge_pack_name = Some ''generic_cli@1.0.0'',
     pm_capabilities = {''structural_parsing'', ''semantic_interpretation'', ''effective_state_resolution'', ''deterministic_compliance'', ''administrator_training''},
     pm_coverage_manifest = [
       (''structural_reader'', PStr ''indentation_cli.v1''),
       (''canonical_fields'', PList []),
       (''limitations'', PList [PStr ''No command semantics are assumed until an administrator publishes a mapping'', PStr ''Unsupported or unmatched syntax remains UNKNOWN''])],
     pm_manifest_schema_version = ''1.0.0'',
     pm_exclusions = {},
     pm_detection_tokens = [],
     pm_xml_identity_selectors = [],
     pm_structural_evidence_types = {AE_CONFIGURATION, AE_UNKNOWN_EVIDENCE}\<rparr>"

definition GENERIC_XML :: profile_manifest where
  "GENERIC_XML = \<lparr>
     pm_profile_id = ''generic.xml'',
     pm_profile_version_id = ''generic.xml@1.0.0'',
     pm_profile_version = ''1.0.0'',
     pm_vendor = ''Generic'',
     pm_product_family = ''Generic XML'',
     pm_os = ''XML'',
     pm_version_constraint = \<lparr>vc_supported_major_versions = {1}, vc_minimum_version = None,
       vc_maximum_version = None, vc_excluded_versions = {}\<rparr>,
     pm_device_classes = {DC_UNKNOWN, DC_OTHER},
     pm_accepted_evidence_types = {AE_STRUCTURED_EXPORT},
     pm_structural_reader_name = Some ''xml_tree.v1'',
     pm_knowledge_pack_name = Some ''generic_xml@1.0.0'',
     pm_capabilities = {''structural_parsing'', ''semantic_interpretation'', ''effective_state_resolution'', ''deterministic_compliance'', ''administrator_training''},
     pm_coverage_manifest = [
       (''structural_reader'', PStr ''xml_tree.v1''),
       (''canonical_fields'', PList []),
       (''limitations'', PList [PStr ''Only exact bounded element paths, namespaces, text, attributes, and presence are supported'', PStr ''No XPath, schema inference, defaults, references, or arbitrary expressions are supported'', PStr ''Unsupported or unmatched leaves remain UNKNOWN''])],
     pm_manifest_schema_version = ''1.0.0'',
     pm_exclusions = {},
     pm_detection_tokens = [],
     pm_xml_identity_selectors = [],
     pm_structural_evidence_types = {AE_STRUCTURED_EXPORT}\<rparr>"

definition GENERIC_JSON :: profile_manifest where
  "GENERIC_JSON = \<lparr>
     pm_profile_id = ''generic.json'',
     pm_profile_version_id = ''generic.json@1.0.0'',
     pm_profile_version = ''1.0.0'',
     pm_vendor = ''Generic'',
     pm_product_family = ''Generic JSON'',
     pm_os = ''JSON'',
     pm_version_constraint = \<lparr>vc_supported_major_versions = {1}, vc_minimum_version = None,
       vc_maximum_version = None, vc_excluded_versions = {}\<rparr>,
     pm_device_classes = {DC_UNKNOWN, DC_OTHER},
     pm_accepted_evidence_types = {AE_STRUCTURED_EXPORT},
     pm_structural_reader_name = Some ''json_tree.v1'',
     pm_knowledge_pack_name = Some ''generic_json@1.0.0'',
     pm_capabilities = pm_capabilities GENERIC_XML,
     pm_coverage_manifest = [
       (''structural_reader'', PStr ''json_tree.v1''),
       (''canonical_fields'', PList []),
       (''limitations'', PList [PStr ''Only exact bounded object-key and array-index paths are supported'', PStr ''No JSONPath filters, schema inference, defaults, references, or arbitrary expressions are supported'', PStr ''Unsupported or unmatched leaves remain UNKNOWN''])],
     pm_manifest_schema_version = ''1.0.0'',
     pm_exclusions = {},
     pm_detection_tokens = [],
     pm_xml_identity_selectors = [],
     pm_structural_evidence_types = {AE_STRUCTURED_EXPORT}\<rparr>"

definition BUILT_IN_PROFILES :: "profile_manifest list" where
  "BUILT_IN_PROFILES = [CISCO_IOS_XE_17, FORTIOS_7, JUNIPER_JUNOS_18, ARISTA_EOS_4, GENERIC_CLI, GENERIC_XML, GENERIC_JSON]"

text \<open>The registry of the module; building it raises nothing (\<open>profile_registry_built\<close>).\<close>

definition PROFILE_REGISTRY :: "(string \<times> profile_manifest) list" where
  "PROFILE_REGISTRY = (case make_profile_registry BUILT_IN_PROFILES of Inr r \<Rightarrow> r | Inl _ \<Rightarrow> [])"

definition compatible_manifests :: "string \<Rightarrow> string \<Rightarrow> string option \<Rightarrow> exc + profile_manifest list" where
  "compatible_manifests vendor os_name version =
     and_then (map_res (\<lambda>m. if pm_vendor m = vendor \<and> pm_os m = os_name
         then and_then (applicability m version) (\<lambda>a. Inr (if a = ''compatible'' then [m] else []))
         else Inr []) (map snd PROFILE_REGISTRY)) (\<lambda>ms.
     Inr (sort_key (\<lambda>m. (pm_profile_id m, pm_profile_version m)) (concat ms)))"

section \<open>The registry meets the contract of versioned registries\<close>

definition profile_by_version :: "profile_index \<Rightarrow> string \<Rightarrow> profile_manifest option" where
  "profile_by_version idx i = dict_get (fi_by_version idx) i"

definition profile_by_name :: "profile_index \<Rightarrow> string \<times> string \<Rightarrow> profile_manifest option" where
  "profile_by_name idx n = dict_get (fi_logical_versions idx) n"

definition profile_name :: "profile_manifest \<Rightarrow> string \<times> string" where
  "profile_name m = (pm_profile_id m, pm_profile_version m)"

lemma register_profile_Inr:
  "register_profile m idx = Inr idx' \<longleftrightarrow>
     validate_manifest m = Inr ()
     \<and> profile_by_version idx (pm_profile_version_id m) \<in> {None, Some m}
     \<and> profile_by_name idx (profile_name m) \<in> {None, Some m}
     \<and> idx' = \<lparr>fi_by_version = dict_put (pm_profile_version_id m) m (fi_by_version idx),
         fi_logical_versions = dict_put (profile_name m) m (fi_logical_versions idx)\<rparr>"
  by (auto simp: register_profile_def profile_by_version_def profile_by_name_def profile_name_def Let_def)

interpretation profiles: versioned_registry register_profile profile_by_version profile_by_name
  pm_profile_version_id profile_name
  by unfold_locales
    (auto simp: register_profile_Inr profile_by_version_def profile_by_name_def dict_simps)

text \<open>The built-in manifests: valid, distinct, and found under their version and nothing else.\<close>

lemma built_in_distinct: "distinct (map pm_profile_version_id BUILT_IN_PROFILES)"
  by (simp add: BUILT_IN_PROFILES_def CISCO_IOS_XE_17_def FORTIOS_7_def JUNIPER_JUNOS_18_def
      ARISTA_EOS_4_def GENERIC_CLI_def GENERIC_XML_def GENERIC_JSON_def)

lemma built_in_valid: "list_all (\<lambda>m. validate_manifest m = Inr ()) BUILT_IN_PROFILES"
  by (simp add: BUILT_IN_PROFILES_def CISCO_IOS_XE_17_def FORTIOS_7_def JUNIPER_JUNOS_18_def
      ARISTA_EOS_4_def GENERIC_CLI_def GENERIC_XML_def GENERIC_JSON_def validate_manifest_def string_run)

lemma built_in_names: "distinct (map profile_name BUILT_IN_PROFILES)"
  by (simp add: BUILT_IN_PROFILES_def CISCO_IOS_XE_17_def FORTIOS_7_def JUNIPER_JUNOS_18_def
      ARISTA_EOS_4_def GENERIC_CLI_def GENERIC_XML_def GENERIC_JSON_def profile_name_def)

lemma registers_distinct:
  assumes "list_all (\<lambda>m. validate_manifest m = Inr ()) ms"
    and "distinct (map pm_profile_version_id ms)" and "distinct (map profile_name ms)"
    and "\<forall>m \<in> set ms. profile_by_version idx (pm_profile_version_id m) = None \<and> profile_by_name idx (profile_name m) = None"
  shows "\<exists>idx'. fold_res register_profile ms idx = Inr idx'
    \<and> fi_by_version idx' = foldl (\<lambda>d m. dict_put (pm_profile_version_id m) m d) (fi_by_version idx) ms"
  using assms
proof (induction ms arbitrary: idx)
  case (Cons m ms)
  let ?t = "\<lparr>fi_by_version = dict_put (pm_profile_version_id m) m (fi_by_version idx),
    fi_logical_versions = dict_put (profile_name m) m (fi_logical_versions idx)\<rparr>"
  from Cons.prems have t: "register_profile m idx = Inr ?t" by (simp add: register_profile_Inr)
  have "\<exists>idx'. fold_res register_profile ms ?t = Inr idx'
    \<and> fi_by_version idx' = foldl (\<lambda>d m. dict_put (pm_profile_version_id m) m d) (fi_by_version ?t) ms"
    using Cons.prems
    by (intro Cons.IH) (auto simp: profile_by_version_def profile_by_name_def dict_get_put image_iff)
  with t show ?case by auto
qed simp

lemma profile_registry_built:
  "make_profile_registry BUILT_IN_PROFILES = Inr (map (\<lambda>m. (pm_profile_version_id m, m)) BUILT_IN_PROFILES)"
proof -
  obtain idx where "fold_res register_profile BUILT_IN_PROFILES \<lparr>fi_by_version = [], fi_logical_versions = []\<rparr> = Inr idx"
    and "fi_by_version idx = foldl (\<lambda>d m. dict_put (pm_profile_version_id m) m d) [] BUILT_IN_PROFILES"
    using registers_distinct [OF built_in_valid built_in_distinct built_in_names,
      of "\<lparr>fi_by_version = [], fi_logical_versions = []\<rparr>"]
    by (auto simp: profile_by_version_def profile_by_name_def dict_get_Nil)
  then show ?thesis
    using dict_of_list_distinct [OF built_in_distinct] by (simp add: make_profile_registry_def)
qed

lemma PROFILE_REGISTRY_eq: "PROFILE_REGISTRY = map (\<lambda>m. (pm_profile_version_id m, m)) BUILT_IN_PROFILES"
  by (simp add: PROFILE_REGISTRY_def profile_registry_built)

end
