(* ===== verification/Artifact_Storage.thy ===== *)
theory Artifact_Storage
  imports Ip_Address
begin

text \<open>
  The artifact storage (\<open>ingestion/storage/base.py\<close>, \<open>ingestion/storage/local.py\<close>).  The files
  under the root are a map from resolved paths to bytes.  What the operating system decides is a
  parameter: \<open>locate\<close> says where the four parts of a reference resolve to (\<open>None\<close> is an
  \<open>OSError\<close> of \<open>Path.resolve\<close>, \<open>Some None\<close> a target outside the root, through a symbolic link), and
  \<open>io_ok\<close> whether the calls on files succeed.
\<close>

type_synonym byte = "8 word"
type_synonym location = "string list \<Rightarrow> string option option"
type_synonym file_map = "string \<Rightarrow> byte list option"

section \<open>References\<close>

definition storage_reference :: "uuid \<Rightarrow> uuid \<Rightarrow> string" where
  "storage_reference organization_id artifact_id =
     ''organizations/'' @ uuid_str organization_id @ ''/artifacts/'' @ uuid_str artifact_id"

text \<open>\<open>PurePosixPath(s).parts\<close> and \<open>as_posix\<close> of a relative path, and the drive of a Windows path.\<close>

definition posix_parts :: "string \<Rightarrow> string list" where
  "posix_parts s = filter (\<lambda>p. p \<noteq> [] \<and> p \<noteq> ''.'') (split_char (CHR ''/'') s)"

definition as_posix :: "string \<Rightarrow> string" where
  "as_posix s = (if posix_parts s = [] then ''.'' else join ''/'' (posix_parts s))"

definition has_drive :: "string \<Rightarrow> bool" where
  "has_drive s = (case s of c # d # rest \<Rightarrow> d = CHR '':'' | _ \<Rightarrow> False)"

definition invalid_reference :: exc where
  "invalid_reference = Exc InvalidStorageReferenceError ''Invalid artifact storage reference''"

definition canonical_uuid :: "string \<Rightarrow> bool" where
  "canonical_uuid s = (case uuid_of_str s of None \<Rightarrow> False | Some u \<Rightarrow> uuid_str u = s)"

definition reference_parts :: "string \<Rightarrow> exc + string list" where
  "reference_parts s =
     and_then (require (s \<noteq> []) invalid_reference) (\<lambda>_.
     and_then (require (CHR 0x5C \<notin> set s \<and> \<not> has_drive s \<and> \<not> prefix ''/'' s \<and> s = as_posix s)
       invalid_reference) (\<lambda>_.
     let parts = posix_parts s
     in and_then (require (length parts = 4 \<and> parts ! 0 = ''organizations'' \<and> parts ! 2 = ''artifacts'')
          invalid_reference) (\<lambda>_.
        and_then (require (canonical_uuid (parts ! 1) \<and> canonical_uuid (parts ! 3)) invalid_reference) (\<lambda>_.
        Inr parts))))"

definition resolve_reference :: "location \<Rightarrow> string \<Rightarrow> exc + string" where
  "resolve_reference locate s =
     and_then (reference_parts s) (\<lambda>parts.
     case locate parts of Some (Some target) \<Rightarrow> Inr target | _ \<Rightarrow> Inl invalid_reference)"

section \<open>Operations\<close>

text \<open>
  The bytes are written to a temporary file and linked to the target, which fails when the target
  exists; the temporary file is removed on every path.  The target is resolved again after the
  directories were made: \<open>locate'\<close>.
\<close>

definition storage_write ::
  "location \<Rightarrow> location \<Rightarrow> bool \<Rightarrow> byte list \<Rightarrow> uuid \<Rightarrow> uuid \<Rightarrow> file_map \<Rightarrow> exc + string \<times> file_map" where
  "storage_write locate locate' io_ok data organization_id artifact_id files =
     (let reference = storage_reference organization_id artifact_id
      in and_then (resolve_reference locate reference) (\<lambda>_.
         and_then (resolve_reference locate' reference) (\<lambda>target.
         and_then (require io_ok (Exc ArtifactStorageError ''Unable to store artifact bytes'')) (\<lambda>_.
         and_then (require (files target = None)
           (Exc ArtifactAlreadyExistsError ''Artifact bytes already exist'')) (\<lambda>_.
         Inr (reference, files(target \<mapsto> data)))))))"

definition storage_read :: "location \<Rightarrow> bool \<Rightarrow> file_map \<Rightarrow> string \<Rightarrow> exc + byte list" where
  "storage_read locate io_ok files reference =
     and_then (resolve_reference locate reference) (\<lambda>target.
     case files target of
       None \<Rightarrow> Inl (Exc ArtifactNotFoundError ''Artifact bytes were not found'')
     | Some data \<Rightarrow> if io_ok then Inr data
         else Inl (Exc ArtifactStorageError ''Unable to read artifact bytes''))"

definition read_prefix :: "location \<Rightarrow> bool \<Rightarrow> file_map \<Rightarrow> string \<Rightarrow> int \<Rightarrow> exc + byte list" where
  "read_prefix locate io_ok files reference max_bytes =
     and_then (require (1 \<le> max_bytes) (Exc ValueError ''max_bytes must be a positive integer'')) (\<lambda>_.
     and_then (storage_read locate io_ok files reference) (\<lambda>data. Inr (take (nat max_bytes) data)))"

definition storage_exists :: "location \<Rightarrow> bool \<Rightarrow> file_map \<Rightarrow> string \<Rightarrow> exc + bool" where
  "storage_exists locate io_ok files reference =
     and_then (resolve_reference locate reference) (\<lambda>target.
     if io_ok then Inr (files target \<noteq> None)
     else Inl (Exc ArtifactStorageError ''Unable to inspect artifact bytes''))"

definition storage_delete :: "location \<Rightarrow> bool \<Rightarrow> file_map \<Rightarrow> string \<Rightarrow> exc + file_map" where
  "storage_delete locate io_ok files reference =
     and_then (resolve_reference locate reference) (\<lambda>target.
     if io_ok then Inr (files(target := None))
     else Inl (Exc ArtifactStorageError ''Unable to delete artifact bytes''))"

section \<open>UUIDs print and parse\<close>

lemma remove_sub_free: "sub \<noteq> [] \<Longrightarrow> hd sub \<notin> set s \<Longrightarrow> remove_sub 0 sub s = s"
  by (induction s) (auto simp: prefix_def neq_Nil_conv)

lemma remove_sub_char: "remove_sub 0 [c] s = filter (\<lambda>x. x \<noteq> c) s"
  by (induction s) (auto simp: prefix_def)

lemma hex_digit_value: "d < 16 \<Longrightarrow> hex_value (hex_digit d) = Some d"
  by (auto simp: hex_value_def hex_digit_def Let_def)

lemma code_hex_digit: "d < 16 \<Longrightarrow> code_of (hex_digit d) = (if d < 10 then 48 + d else 87 + d)"
  by (simp add: hex_digit_def)

lemma hex_digit_plain:
  assumes "d < 16"
  shows "\<not> py_space (hex_digit d)" and "hex_digit d \<notin> {CHR ''-'', CHR ''_'', CHR ''+'', CHR ''x'', CHR ''X'',
    CHR ''u'', CHR ''/'', CHR ''.'', CHR 0x5C, CHR 0x7B, CHR 0x7D}"
proof -
  show "\<not> py_space (hex_digit d)" using code_hex_digit [OF assms] assms by (simp add: py_space_def)
  have "hex_digit d = c \<Longrightarrow> 48 \<le> code_of c \<and> code_of c \<le> 57 \<or> 97 \<le> code_of c \<and> code_of c \<le> 102" for c
    using code_hex_digit [OF assms] assms by (auto split: if_splits)
  then show "hex_digit d \<notin> {CHR ''-'', CHR ''_'', CHR ''+'', CHR ''x'', CHR ''X'',
      CHR ''u'', CHR ''/'', CHR ''.'', CHR 0x5C, CHR 0x7B, CHR 0x7D}"
    by (fastforce simp: code_of_def)
qed

lemma hex_fixed_set: "c \<in> set (hex_fixed w n) \<Longrightarrow> \<exists>d < 16. c = hex_digit d"
  by (induction w arbitrary: n) (auto intro: exI [of _ "n mod 16" for n])

lemma hex_scan_fixed:
  "hex_scan acc prev (hex_fixed w n @ s) = hex_scan (acc * 16 ^ w + n mod 16 ^ w) (prev \<or> 0 < w) s"
proof (induction w arbitrary: n s)
  case (Suc w)
  have "hex_digit (n mod 16) \<noteq> CHR ''_''" using hex_digit_plain(2) [of "n mod 16"] by auto
  then have "hex_scan acc prev (hex_fixed (Suc w) n @ s)
      = hex_scan (16 * (acc * 16 ^ w + n div 16 mod 16 ^ w) + n mod 16) True s"
    by (simp add: Suc.IH hex_digit_value)
  moreover have "16 * (acc * 16 ^ w + n div 16 mod 16 ^ w) + n mod 16 = acc * 16 ^ Suc w + n mod 16 ^ Suc w"
    by (simp add: mod_mult2_eq algebra_simps)
  ultimately show ?case by (simp only: zero_less_Suc simp_thms)
qed simp

lemma uuid_str_chars: "c \<in> set (uuid_str u) \<Longrightarrow> c = CHR ''-'' \<or> (\<exists>d < 16. c = hex_digit d)"
  using hex_fixed_set [of c 32 "unat u"]
  by (auto simp: uuid_str_def Let_def dest!: in_set_takeD in_set_dropD)

lemma uuid_str_plain: "set (uuid_str u) \<inter> {CHR ''u'', CHR ''/'', CHR ''.'', CHR 0x5C, CHR 0x7B, CHR 0x7D} = {}"
  using uuid_str_chars hex_digit_plain(2) by fastforce

lemma uuid_str_nonempty [simp]: "uuid_str u \<noteq> []"
  by (simp add: uuid_str_def Let_def)

lemma chunks:
  "take a h @ take b (drop a h) @ take c (drop (a + b) h) @ take d (drop (a + b + c) h)
     @ drop (a + b + c + d) h = h"
proof -
  have "take d (drop n h) @ drop (n + d) h = drop n h" for d n
    by (metis add.commute append_take_drop_id drop_drop)
  then show ?thesis by simp
qed

lemma hex_fixed_no_dash:
  assumes "set t \<subseteq> set (hex_fixed w n)"
  shows "filter (\<lambda>x. x \<noteq> CHR ''-'') t = t"
proof (rule filter_True, rule ballI)
  fix c assume "c \<in> set t"
  with assms have "c \<in> set (hex_fixed w n)" by (rule subsetD)
  then obtain d where "d < 16" "c = hex_digit d" by (elim hex_fixed_set [elim_format] exE conjE)
  then show "c \<noteq> CHR ''-''" using hex_digit_plain(2) [of d] by auto
qed

lemma filter_dashes:
  assumes "h = hex_fixed w n"
  shows "filter (\<lambda>x. x \<noteq> CHR ''-'') (take 8 h @ ''-'' @ take 4 (drop 8 h) @ ''-'' @ take 4 (drop 12 h)
      @ ''-'' @ take 4 (drop 16 h) @ ''-'' @ drop 20 h) = h"
proof -
  have "set (take m (drop k h)) \<subseteq> set h" "set (take m h) \<subseteq> set h" "set (drop k h) \<subseteq> set h" for m k
    by (auto dest!: in_set_takeD in_set_dropD)
  then show ?thesis
    using chunks [of 8 h 4 4 4] hex_fixed_no_dash [of _ w n] unfolding assms by simp
qed

lemma filter_uuid_str: "filter (\<lambda>x. x \<noteq> CHR ''-'') (uuid_str u) = hex_fixed 32 (unat u)"
  unfolding uuid_str_def Let_def by (rule filter_dashes) (rule refl)

lemma strip_hex: "strip_by py_space (hex_fixed w n) = hex_fixed w n"
proof -
  have "dropWhile py_space t = t" if "set t \<subseteq> set (hex_fixed w n)" for t
    using that hex_fixed_set [of _ w n] hex_digit_plain(1) by (cases t) auto
  then show ?thesis by (simp add: strip_by_def lstrip_by_def rstrip_by_def)
qed

text \<open>Printing and parsing a UUID gives the same UUID.\<close>

lemma uuid_of_str_uuid_str [simp]: "uuid_of_str (uuid_str u) = Some u"
proof -
  let ?h = "hex_fixed 32 (unat u)"
  have "unat u < 2 ^ LENGTH(128)" by (rule unsigned_less)
  moreover have "uint u < 2 ^ LENGTH(128)" by (rule unsigned_less)
  ultimately have small: "unat u < 2 ^ 128" "uint u < 2 ^ 128" by simp_all
  have "remove_sub 0 ''uuid:'' (remove_sub 0 ''urn:'' (uuid_str u)) = uuid_str u"
    using uuid_str_plain [of u] by (simp add: remove_sub_free)
  moreover have "strip_by (\<lambda>c. c = CHR 0x7B \<or> c = CHR 0x7D) (uuid_str u) = uuid_str u"
  proof -
    have "dropWhile (\<lambda>c. c = CHR 0x7B \<or> c = CHR 0x7D) t = t" if "set t \<subseteq> set (uuid_str u)" for t
      using that uuid_str_plain [of u] by (cases t) auto
    then show ?thesis by (simp add: strip_by_def lstrip_by_def rstrip_by_def)
  qed
  moreover have "remove_sub 0 ''-'' (uuid_str u) = ?h"
    unfolding remove_sub_char filter_uuid_str by (rule refl)
  moreover have "int16_of_str ?h = Some (int (unat u))"
  proof -
    have plain: "\<not> prefix (xs @ [x]) ?h" if "x \<in> {CHR ''-'', CHR ''+'', CHR ''x'', CHR ''X''}" for xs x
    proof
      assume "prefix (xs @ [x]) ?h"
      then have "x \<in> set ?h" by (auto simp: prefix_def)
      from hex_fixed_set [OF this] hex_digit_plain(2) that show False by auto
    qed
    have "\<not> prefix ''-'' ?h" "\<not> prefix ''+'' ?h" "\<not> prefix ''0x'' ?h" "\<not> prefix ''0X'' ?h"
      using plain [of _ "[]"] plain [of _ "''0''"] by simp_all
    moreover have "hex_scan 0 False ?h = Some (unat u)"
      using hex_scan_fixed [of 0 False 32 "unat u" "[]"] small by simp
    ultimately show ?thesis by (simp add: int16_of_str_def strip_hex)
  qed
  ultimately show ?thesis
    using small by (simp add: uuid_of_str_def Let_def)
qed

lemma canonical_uuid: "canonical_uuid s \<longleftrightarrow> (\<exists>u. s = uuid_str u)"
  by (auto simp: canonical_uuid_def split: option.splits)

section \<open>What a reference is\<close>

lemma canonical_uuid_str [simp]: "canonical_uuid (uuid_str u)"
  by (simp add: canonical_uuid_def)

lemma posix_parts_reference:
  "posix_parts (storage_reference o1 a) = [''organizations'', uuid_str o1, ''artifacts'', uuid_str a]"
proof -
  have slash: "CHR ''/'' \<notin> set (uuid_str u)" "uuid_str u \<noteq> ''.''" for u
    using uuid_str_plain [of u] by auto
  have "storage_reference o1 a = ''organizations'' @ CHR ''/'' # uuid_str o1 @ CHR ''/'' #
      ''artifacts'' @ CHR ''/'' # uuid_str a"
    by (simp add: storage_reference_def)
  then have "split_char (CHR ''/'') (storage_reference o1 a)
      = [''organizations'', uuid_str o1, ''artifacts'', uuid_str a]"
    using slash by (simp add: split_char_append split_char_free del: append_Cons append.simps)
  then show ?thesis using slash by (simp add: posix_parts_def)
qed

lemma join_reference: "join ''/'' [''organizations'', uuid_str o1, ''artifacts'', uuid_str a] = storage_reference o1 a"
  by (simp add: storage_reference_def)

lemma reference_parts_Inr:
  "reference_parts s = Inr parts \<longleftrightarrow>
     (\<exists>o1 a. s = storage_reference o1 a \<and> parts = [''organizations'', uuid_str o1, ''artifacts'', uuid_str a])"
proof
  assume "reference_parts s = Inr parts"
  then have s: "s = as_posix s" and "length parts = 4" and parts: "parts = posix_parts s"
    "parts ! 0 = ''organizations''" "parts ! 2 = ''artifacts''"
    "canonical_uuid (parts ! 1)" "canonical_uuid (parts ! 3)"
    by (auto simp: reference_parts_def Let_def)
  from \<open>length parts = 4\<close> obtain w x y z where "parts = [w, x, y, z]"
    by (auto simp: numeral_eq_Suc length_Suc_conv)
  moreover from parts obtain u v where "parts ! 1 = uuid_str u" "parts ! 3 = uuid_str v"
    by (auto simp: canonical_uuid)
  ultimately obtain o1 a where p: "parts = [''organizations'', uuid_str o1, ''artifacts'', uuid_str a]"
    using parts(2,3) by auto
  from s have "s = join ''/'' parts" by (simp only: as_posix_def parts(1) [symmetric] p list.distinct if_False)
  with p show "\<exists>o1 a. s = storage_reference o1 a
      \<and> parts = [''organizations'', uuid_str o1, ''artifacts'', uuid_str a]"
    unfolding p join_reference by blast
next
  assume "\<exists>o1 a. s = storage_reference o1 a \<and> parts = [''organizations'', uuid_str o1, ''artifacts'', uuid_str a]"
  then obtain o1 a where s: "s = storage_reference o1 a"
    and parts: "parts = [''organizations'', uuid_str o1, ''artifacts'', uuid_str a]" by blast
  have "CHR 0x5C \<notin> set (storage_reference o1 a)"
    using uuid_str_plain [of o1] uuid_str_plain [of a] by (auto simp: storage_reference_def)
  moreover have "\<not> has_drive (storage_reference o1 a)" "\<not> prefix ''/'' (storage_reference o1 a)"
    "storage_reference o1 a \<noteq> []"
    by (simp_all add: storage_reference_def has_drive_def)
  moreover have "as_posix (storage_reference o1 a) = storage_reference o1 a"
    by (simp only: as_posix_def posix_parts_reference join_reference list.distinct if_False)
  moreover have nths: "length [w, x, y, z] = 4" "[w, x, y, z] ! 0 = w" "[w, x, y, z] ! 1 = x"
    "[w, x, y, z] ! 2 = y" "[w, x, y, z] ! 3 = z" for w x y z :: string by simp_all
  ultimately show "reference_parts s = Inr parts"
    unfolding reference_parts_def Let_def s parts posix_parts_reference nths
    by (simp only: require_def if_True and_then.simps simp_thms canonical_uuid_str not_False_eq_True)
qed

lemma storage_reference_inject [simp]:
  "storage_reference o1 a1 = storage_reference o2 a2 \<longleftrightarrow> o1 = o2 \<and> a1 = a2"
proof
  assume "storage_reference o1 a1 = storage_reference o2 a2"
  then have "posix_parts (storage_reference o1 a1) = posix_parts (storage_reference o2 a2)" by (rule arg_cong)
  then show "o1 = o2 \<and> a1 = a2" unfolding posix_parts_reference by simp
qed simp

lemma reference_parts_Inl: "reference_parts s = Inl e \<Longrightarrow> e = invalid_reference"
  by (auto simp: reference_parts_def Let_def and_then_Inl)

lemma resolve_reference_Inr:
  "resolve_reference locate s = Inr target \<longleftrightarrow>
     (\<exists>o1 a. s = storage_reference o1 a
        \<and> locate [''organizations'', uuid_str o1, ''artifacts'', uuid_str a] = Some (Some target))"
proof -
  have "resolve_reference locate s = Inr target \<longleftrightarrow>
      (\<exists>parts. reference_parts s = Inr parts \<and> locate parts = Some (Some target))"
    unfolding resolve_reference_def by (cases "reference_parts s") (auto split: option.splits)
  then show ?thesis unfolding reference_parts_Inr by blast
qed

text \<open>
  C15. No path leaves the storage: a reference is resolved exactly when it is the reference of an
  organization and an artifact, in the one canonical spelling, and its four parts resolve inside the
  root; every other string is refused with the one error of invalid references.
\<close>

theorem references_are_canonical:
  "case resolve_reference locate s of
     Inr target \<Rightarrow> \<exists>o1 a. s = storage_reference o1 a
       \<and> locate [''organizations'', uuid_str o1, ''artifacts'', uuid_str a] = Some (Some target)
   | Inl e \<Rightarrow> e = invalid_reference
       \<and> \<not> (\<exists>o1 a target. s = storage_reference o1 a
            \<and> locate [''organizations'', uuid_str o1, ''artifacts'', uuid_str a] = Some (Some target))"
proof (cases "resolve_reference locate s")
  case (Inl e)
  then have "e = invalid_reference"
    by (auto simp: resolve_reference_def and_then_Inl dest: reference_parts_Inl split: option.splits)
  moreover have "resolve_reference locate s \<noteq> Inr target" for target using Inl by simp
  ultimately show ?thesis unfolding resolve_reference_Inr using Inl by auto
next
  case (Inr target)
  then show ?thesis using resolve_reference_Inr [of locate s target] by simp
qed

section \<open>Stored evidence is immutable\<close>

text \<open>
  The contract the ingestion and the parsers rely on: a value is stored under a free key only, so a
  key, once bound, keeps its value through every later sequence of stores.
\<close>

locale write_once_store =
  fixes put :: "'k \<times> 'v \<Rightarrow> 's \<Rightarrow> exc + 's" and lookup :: "'s \<Rightarrow> 'k \<Rightarrow> 'v option"
  assumes put_free: "put (k, v) s = Inr s' \<Longrightarrow> lookup s k = None"
    and put_lookup: "put (k, v) s = Inr s' \<Longrightarrow> lookup s' k' = (if k' = k then Some v else lookup s k')"
begin

lemma puts_keep: "fold_res put kvs s = Inr s' \<Longrightarrow> lookup s k = Some v \<Longrightarrow> lookup s' k = Some v"
proof (induction kvs arbitrary: s)
  case (Cons x kvs)
  obtain k1 v1 where x: "x = (k1, v1)" by fastforce
  with Cons.prems obtain t where t: "put (k1, v1) s = Inr t" and rest: "fold_res put kvs t = Inr s'" by auto
  from put_free [OF t] put_lookup [OF t] Cons.prems(2) have "lookup t k = Some v" by auto
  with Cons.IH [OF rest] show ?case by blast
qed simp

lemma puts_store:
  "fold_res put kvs s = Inr s' \<Longrightarrow> (k, v) \<in> set kvs \<Longrightarrow> lookup s' k = Some v"
proof (induction kvs arbitrary: s)
  case (Cons x kvs)
  obtain k1 v1 where x: "x = (k1, v1)" by fastforce
  with Cons.prems obtain t where t: "put (k1, v1) s = Inr t" and rest: "fold_res put kvs t = Inr s'" by auto
  from Cons.prems(2) x consider "k = k1" "v = v1" | "(k, v) \<in> set kvs" by auto
  then show ?case
    using puts_keep [OF rest] put_lookup [OF t] Cons.IH [OF rest] by cases auto
qed simp

lemma puts_distinct: "fold_res put kvs s = Inr s' \<Longrightarrow> distinct (map fst kvs)"
proof (induction kvs arbitrary: s)
  case (Cons x kvs)
  obtain k1 v1 where x: "x = (k1, v1)" by fastforce
  with Cons.prems obtain t where t: "put (k1, v1) s = Inr t" and rest: "fold_res put kvs t = Inr s'" by auto
  have "k1 \<notin> fst ` set kvs"
  proof
    assume "k1 \<in> fst ` set kvs"
    moreover have "lookup u k1 \<noteq> None \<Longrightarrow> fold_res put ys u = Inr s' \<Longrightarrow> k1 \<notin> fst ` set ys" for ys u
    proof (induction ys arbitrary: u)
      case (Cons y ys)
      obtain k2 v2 where y: "y = (k2, v2)" by fastforce
      with Cons.prems obtain w where w: "put (k2, v2) u = Inr w" and more: "fold_res put ys w = Inr s'" by auto
      from put_free [OF w] put_lookup [OF w] Cons.prems(1) have "k2 \<noteq> k1" "lookup w k1 \<noteq> None" by auto
      with Cons.IH more y show ?case by auto
    qed simp
    moreover from put_lookup [OF t] have "lookup t k1 \<noteq> None" by simp
    ultimately show False using rest by blast
  qed
  with Cons.IH [OF rest] x show ?case by simp
qed simp

end

text \<open>The local storage in a directory tree without symbolic links, when no call fails.\<close>

definition plain_location :: "string \<Rightarrow> location" where
  "plain_location root parts = Some (Some (root @ ''/'' @ join ''/'' parts))"

definition write_artifact :: "string \<Rightarrow> (uuid \<times> uuid) \<times> byte list \<Rightarrow> file_map \<Rightarrow> exc + file_map" where
  "write_artifact root x files = (case x of ((o1, a), data) \<Rightarrow>
     and_then (storage_write (plain_location root) (plain_location root) True data o1 a files)
       (\<lambda>(reference, files'). Inr files'))"

definition stored_bytes :: "string \<Rightarrow> file_map \<Rightarrow> uuid \<times> uuid \<Rightarrow> byte list option" where
  "stored_bytes root files x = (case x of (o1, a) \<Rightarrow>
     (case storage_read (plain_location root) True files (storage_reference o1 a) of
        Inr data \<Rightarrow> Some data | Inl _ \<Rightarrow> None))"

lemma resolve_plain:
  "resolve_reference (plain_location root) (storage_reference o1 a) = Inr (root @ ''/'' @ storage_reference o1 a)"
  unfolding resolve_reference_Inr plain_location_def join_reference by blast

lemma storage_read_plain:
  "storage_read (plain_location root) True files (storage_reference o1 a) =
     (case files (root @ ''/'' @ storage_reference o1 a) of
        None \<Rightarrow> Inl (Exc ArtifactNotFoundError ''Artifact bytes were not found'') | Some data \<Rightarrow> Inr data)"
  unfolding storage_read_def resolve_plain and_then.simps by (simp split: option.splits)

lemma stored_bytes_plain: "stored_bytes root files (o1, a) = files (root @ ''/'' @ storage_reference o1 a)"
  unfolding stored_bytes_def prod.case storage_read_plain by (simp split: option.splits)

lemma write_artifact_Inr:
  "write_artifact root ((o1, a), data) files = Inr files' \<longleftrightarrow>
     files (root @ ''/'' @ storage_reference o1 a) = None
     \<and> files' = files(root @ ''/'' @ storage_reference o1 a \<mapsto> data)"
  unfolding write_artifact_def prod.case storage_write_def Let_def resolve_plain and_then.simps
  by (auto simp: require_def)

interpretation local_store: write_once_store "write_artifact root" "stored_bytes root" for root
proof unfold_locales
  fix k :: "uuid \<times> uuid" and v s s'
  assume put: "write_artifact root (k, v) s = Inr s'"
  obtain o1 a where k: "k = (o1, a)" by fastforce
  from put show "stored_bytes root s k = None"
    unfolding k write_artifact_Inr stored_bytes_plain by blast
  fix k' :: "uuid \<times> uuid"
  obtain o2 b where k': "k' = (o2, b)" by fastforce
  from put show "stored_bytes root s' k' = (if k' = k then Some v else stored_bytes root s k')"
    unfolding k k' write_artifact_Inr stored_bytes_plain by auto
qed

text \<open>
  C16. Evidence is immutable: after any sequence of successful writes the identities written are
  distinct, each of them reads back as the bytes written for it, and so does every artifact that was
  stored before; \<open>read_prefix\<close> gives the first bytes of them.
\<close>

theorem evidence_reads_back:
  assumes "fold_res (write_artifact root) writes files = Inr files'"
  shows "distinct (map fst writes)
    \<and> list_all (\<lambda>((o1, a), data).
        storage_read (plain_location root) True files' (storage_reference o1 a) = Inr data
        \<and> read_prefix (plain_location root) True files' (storage_reference o1 a) (1 + int n) = Inr (take (Suc n) data)) writes
    \<and> (stored_bytes root files k = None \<or> stored_bytes root files' k = stored_bytes root files k)"
proof -
  have read: "storage_read (plain_location root) True files' (storage_reference o1 a) = Inr data"
    if "((o1, a), data) \<in> set writes" for o1 a data
    using local_store.puts_store [OF assms that] unfolding stored_bytes_plain storage_read_plain by simp
  then have "read_prefix (plain_location root) True files' (storage_reference o1 a) (1 + int n) = Inr (take (Suc n) data)"
    if "((o1, a), data) \<in> set writes" for o1 a data
    using that by (simp add: read_prefix_def require_def nat_add_distrib)
  with read have "list_all (\<lambda>((o1, a), data).
        storage_read (plain_location root) True files' (storage_reference o1 a) = Inr data
        \<and> read_prefix (plain_location root) True files' (storage_reference o1 a) (1 + int n) = Inr (take (Suc n) data)) writes"
    by (fastforce simp: list_all_iff)
  moreover have "stored_bytes root files k = None \<or> stored_bytes root files' k = stored_bytes root files k"
    using local_store.puts_keep [OF assms] by (cases "stored_bytes root files k") auto
  ultimately show ?thesis using local_store.puts_distinct [OF assms] by blast
qed

theorem evidence_reads_back_witness:
  "\<exists>files'. fold_res (write_artifact ''/srv'') [((1, 2), [7, 8]), ((1, 3), [])] (\<lambda>_. None) = Inr files'
     \<and> storage_read (plain_location ''/srv'') True files' (storage_reference 1 2) = Inr [7, 8]"
proof -
  obtain t where t: "write_artifact ''/srv'' ((1, 2), [7, 8]) (\<lambda>_. None) = Inr t"
    by (simp only: write_artifact_Inr)
  moreover from t have "stored_bytes ''/srv'' t (1, 3) = None"
    unfolding write_artifact_Inr stored_bytes_plain by auto
  then obtain u where "write_artifact ''/srv'' ((1, 3), []) t = Inr u"
    unfolding write_artifact_Inr stored_bytes_plain by blast
  ultimately have run: "fold_res (write_artifact ''/srv'') [((1, 2), [7, 8]), ((1, 3), [])] (\<lambda>_. None) = Inr u"
    by simp
  from evidence_reads_back [OF run] run show ?thesis by auto
qed

end
