(* ===== verification/Parsing_Service.thy ===== *)
theory Parsing_Service
  imports Tree_Coverage Profiles Artifact_Storage
begin

text \<open>
  The registry of structural readers (\<open>parsing/reader_registry.py\<close>), the artifact record
  (\<open>db/models/artifact.py\<close>) and the parsing service (\<open>parsing/service.py\<close>).  The readers return
  trees of three types, which \<open>parsed_ir\<close> joins.  Parameters: SHA-256, the XML and JSON parsers of
  the standard library, the decoding of bytes, and the storage's \<open>read_prefix\<close>.
\<close>

section \<open>Readers and their registry\<close>

datatype structural_reader = IndentationCliReader | FortiosCliReader | XmlTreeReader | JsonTreeReader

datatype parsed_ir = CliIR structural_ir | XmlIR xml_structural_ir | JsonIR json_structural_ir

record parser_library =
  pl_sha256 :: "string \<Rightarrow> string"
  pl_fromstring :: "string \<Rightarrow> xml_element option"
  pl_json_loads :: "string \<Rightarrow> pyval option"
  pl_decode :: "string \<Rightarrow> byte list \<Rightarrow> string"

fun reader_id :: "structural_reader \<Rightarrow> string" where
  "reader_id IndentationCliReader = INDENTATION_CLI_READER_ID"
| "reader_id FortiosCliReader = FORTIOS_CLI_READER_ID"
| "reader_id XmlTreeReader = XML_TREE_READER_ID"
| "reader_id JsonTreeReader = JSON_TREE_READER_ID"

fun reader_parse :: "parser_library \<Rightarrow> structural_reader \<Rightarrow> structural_parse_request \<Rightarrow> exc + parsed_ir" where
  "reader_parse lib IndentationCliReader rq = Inr (CliIR (indentation_parse (pl_sha256 lib) rq))"
| "reader_parse lib FortiosCliReader rq = Inr (CliIR (fortios_parse (pl_sha256 lib) rq))"
| "reader_parse lib XmlTreeReader rq =
     and_then (xml_parse (pl_fromstring lib) (pl_sha256 lib) rq) (\<lambda>ir. Inr (XmlIR ir))"
| "reader_parse lib JsonTreeReader rq =
     and_then (json_parse (pl_json_loads lib) (pl_sha256 lib) rq) (\<lambda>ir. Inr (JsonIR ir))"

text \<open>\<open>^[a-z][a-z0-9_]*\.v[1-9][0-9]*$\<close>\<close>

definition reader_id_pattern :: "string \<Rightarrow> bool" where
  "reader_id_pattern s =
     (case takeWhile (\<lambda>c. c \<noteq> CHR ''.'') s of
        [] \<Rightarrow> False
      | c # cs \<Rightarrow> is_lower c \<and> list_all (\<lambda>c. is_lower c \<or> is_digit c \<or> c = CHR ''_'') cs
          \<and> (case dropWhile (\<lambda>c. c \<noteq> CHR ''.'') s of
               dot # v # d # ds \<Rightarrow> v = CHR ''v'' \<and> is_digit d \<and> d \<noteq> CHR ''0'' \<and> list_all is_digit ds
             | _ \<Rightarrow> False))"

type_synonym reader_index = "(string \<times> structural_reader) list"

definition register_reader :: "structural_reader \<Rightarrow> reader_index \<Rightarrow> exc + reader_index" where
  "register_reader r idx =
     and_then (require (reader_id_pattern (reader_id r))
       (Exc ValueError ''Structural reader identity is malformed'')) (\<lambda>_.
     and_then (require (dict_get idx (reader_id r) \<in> {None, Some r})
       (Exc ValueError ''Structural reader version content conflicts'')) (\<lambda>_.
     Inr (dict_put (reader_id r) r idx)))"

definition make_reader_registry :: "structural_reader list \<Rightarrow> exc + reader_index" where
  "make_reader_registry rs = fold_res register_reader rs []"

definition READER_REGISTRY :: reader_index where
  "READER_REGISTRY =
     (case make_reader_registry [IndentationCliReader, FortiosCliReader, XmlTreeReader, JsonTreeReader] of
        Inr idx \<Rightarrow> idx | Inl _ \<Rightarrow> [])"

interpretation readers: versioned_registry register_reader dict_get dict_get reader_id reader_id
  by unfold_locales (auto simp: register_reader_def dict_get_put)

section \<open>Artifacts\<close>

datatype artifact_content_family = CF_TEXT | CF_JSON | CF_XML | CF_UNKNOWN

datatype artifact_status =
    AS_UPLOADED | AS_VALIDATING | AS_VALIDATED | AS_READY | AS_PARTIALLY_SUPPORTED
  | AS_NEEDS_REVIEW | AS_REJECTED

record artifact =
  af_artifact_id :: uuid
  af_organization_id :: uuid
  af_snapshot_id :: "uuid option"
  af_original_filename :: string
  af_storage_reference :: string
  af_byte_size :: nat
  af_sha256 :: string
  af_mime_type :: "string option"
  af_encoding :: "string option"
  af_content_family :: artifact_content_family
  af_evidence_type :: artifact_evidence_type
  af_status :: artifact_status
  af_validation_issues :: "pyval list"
  af_source_metadata :: "(string \<times> pyval) list"
  af_uploaded_by :: "uuid option"
  af_created_at :: int
  af_validated_at :: "int option"
  af_schema_version :: string

definition ELIGIBLE_ARTIFACT_STATUSES :: "artifact_status set" where
  "ELIGIBLE_ARTIFACT_STATUSES = {AS_VALIDATED, AS_READY, AS_PARTIALLY_SUPPORTED, AS_NEEDS_REVIEW}"

section \<open>The service\<close>

definition parse_configuration_text ::
  "parser_library \<Rightarrow> string \<Rightarrow> artifact_provenance \<Rightarrow> string \<Rightarrow> bool \<Rightarrow> exc + parsed_ir" where
  "parse_configuration_text lib content source rid input_truncated =
     (case dict_get READER_REGISTRY rid of
        None \<Rightarrow> Inl (Exc StructuralReaderNotFoundError ''structural_reader_unavailable'')
      | Some reader \<Rightarrow> reader_parse lib reader
          \<lparr>rq_content = content, rq_source = source, rq_input_truncated = input_truncated\<rparr>)"

definition parse_xml_text ::
  "parser_library \<Rightarrow> string \<Rightarrow> artifact_provenance \<Rightarrow> bool \<Rightarrow> exc + parsed_ir" where
  "parse_xml_text lib content source input_truncated =
     parse_configuration_text lib content source ''xml_tree.v1'' input_truncated"

definition provenance_of :: "artifact \<Rightarrow> artifact_provenance" where
  "provenance_of a = \<lparr>ap_artifact_id = af_artifact_id a, ap_organization_id = af_organization_id a,
     ap_snapshot_id = af_snapshot_id a, ap_source_label = af_original_filename a,
     ap_sha256 = af_sha256 a, ap_source_metadata = af_source_metadata a\<rparr>"

definition encoding_of :: "artifact \<Rightarrow> string" where
  "encoding_of a = (if af_encoding a = Some ''utf-8-sig'' then ''utf-8-sig'' else ''utf-8'')"

definition MAX_CONFIGURATION_BYTES :: nat where
  "MAX_CONFIGURATION_BYTES = MAX_INPUT_CHARACTERS"

definition selected_profile :: "profile_manifest option \<Rightarrow> string \<Rightarrow> profile_manifest option" where
  "selected_profile profile profile_version_id = (case profile of
     None \<Rightarrow> dict_get PROFILE_REGISTRY profile_version_id | Some p \<Rightarrow> Some p)"

definition parse_artifact ::
  "parser_library \<Rightarrow> (string \<Rightarrow> int \<Rightarrow> exc + byte list) \<Rightarrow> artifact \<Rightarrow> string \<Rightarrow> uuid
    \<Rightarrow> profile_manifest option \<Rightarrow> exc + parsed_ir" where
  "parse_artifact lib storage_prefix a profile_version_id organization_id profile =
     and_then (require (af_organization_id a = organization_id)
       (Exc ArtifactNotParseableError ''artifact_not_found'')) (\<lambda>_.
     case selected_profile profile profile_version_id of
       None \<Rightarrow> Inl (Exc StructuralReaderNotFoundError ''structural_reader_unavailable'')
     | Some p \<Rightarrow>
         (case pm_structural_reader_name p of
            None \<Rightarrow> Inl (Exc StructuralReaderNotFoundError ''structural_reader_unavailable'')
          | Some rid \<Rightarrow>
              and_then (require (af_evidence_type a \<in> pm_structural_evidence_types p)
                (Exc ArtifactNotParseableError ''artifact_evidence_incompatible'')) (\<lambda>_.
              and_then (require (af_status a \<in> ELIGIBLE_ARTIFACT_STATUSES)
                (Exc ArtifactNotParseableError ''artifact_not_eligible'')) (\<lambda>_.
              case storage_prefix (af_storage_reference a) (int MAX_CONFIGURATION_BYTES) of
                Inl e \<Rightarrow> Inl (if is_storage_error (exc_class e)
                  then Exc ParsingInfrastructureError ''artifact_storage_unavailable'' else e)
              | Inr content \<Rightarrow>
                  parse_configuration_text lib (pl_decode lib (encoding_of a) content)
                    (provenance_of a) rid (length content < af_byte_size a)))))"

section \<open>Built-in readers\<close>

lemma reader_registry_built:
  "make_reader_registry [IndentationCliReader, FortiosCliReader, XmlTreeReader, JsonTreeReader] =
     Inr (map (\<lambda>r. (reader_id r, r)) [IndentationCliReader, FortiosCliReader, XmlTreeReader, JsonTreeReader])"
  by (simp add: make_reader_registry_def register_reader_def reader_id_pattern_def dict_get_def
      INDENTATION_CLI_READER_ID_def FORTIOS_CLI_READER_ID_def XML_TREE_READER_ID_def JSON_TREE_READER_ID_def
      char_run require_def)

lemma READER_REGISTRY_eq:
  "READER_REGISTRY = map (\<lambda>r. (reader_id r, r)) [IndentationCliReader, FortiosCliReader, XmlTreeReader, JsonTreeReader]"
  unfolding READER_REGISTRY_def reader_registry_built by simp

text \<open>
  Every built-in profile can be parsed: its manifest names a reader of the registry, so parsing
  with the version of a built-in profile never fails for want of a reader.
\<close>

theorem built_in_profiles_have_readers:
  "list_all (\<lambda>(version, m). pm_profile_version_id m = version
     \<and> (case pm_structural_reader_name m of None \<Rightarrow> False
         | Some rid \<Rightarrow> (case dict_get READER_REGISTRY rid of None \<Rightarrow> False | Some r \<Rightarrow> reader_id r = rid)))
   PROFILE_REGISTRY"
  by (simp add: PROFILE_REGISTRY_eq BUILT_IN_PROFILES_def READER_REGISTRY_eq dict_get_def
      CISCO_IOS_XE_17_def FORTIOS_7_def JUNIPER_JUNOS_18_def ARISTA_EOS_4_def GENERIC_CLI_def
      GENERIC_XML_def GENERIC_JSON_def INDENTATION_CLI_READER_ID_def FORTIOS_CLI_READER_ID_def
      XML_TREE_READER_ID_def JSON_TREE_READER_ID_def)

text \<open>Whether a tree is marked as cut.\<close>

fun ir_cut :: "parsed_ir \<Rightarrow> bool" where
  "ir_cut (CliIR ir) = ir_truncated ir"
| "ir_cut (XmlIR ir) = xi_truncated ir"
| "ir_cut (JsonIR ir) = ji_truncated ir"

lemma reader_parse_cut: "reader_parse lib reader rq = Inr r \<Longrightarrow> rq_input_truncated rq \<Longrightarrow> ir_cut r"
proof (cases reader)
  case IndentationCliReader
  assume "reader_parse lib reader rq = Inr r" and "rq_input_truncated rq"
  moreover obtain lines tr where "bounded_lines (rq_content rq) = (lines, tr)" by fastforce
  ultimately show ?thesis
    using IndentationCliReader indentation_parse_covers [of rq lines tr "pl_sha256 lib"] by auto
next
  case FortiosCliReader
  then show "reader_parse lib reader rq = Inr r \<Longrightarrow> rq_input_truncated rq \<Longrightarrow> ir_cut r"
    by (auto simp: fortios_parse_def Let_def build_def)
qed (auto elim!: xml_parse_InrE json_parse_InrE)

text \<open>
  C17. Parsing an artifact respects its guards: a tree is returned only to the organization that owns
  the artifact, for an eligible status and a type of evidence that the selected profile reads, and
  the tree of an artifact with more bytes than were read is marked as cut.
\<close>

theorem parse_artifact_guarded:
  "case parse_artifact lib storage a profile_version_id organization_id profile of Inl e \<Rightarrow> True
   | Inr r \<Rightarrow> af_organization_id a = organization_id \<and> af_status a \<in> ELIGIBLE_ARTIFACT_STATUSES
       \<and> (case selected_profile profile profile_version_id of None \<Rightarrow> False
          | Some p \<Rightarrow> af_evidence_type a \<in> pm_structural_evidence_types p)
       \<and> (case storage (af_storage_reference a) (int MAX_CONFIGURATION_BYTES) of Inl e \<Rightarrow> False
          | Inr content \<Rightarrow> ir_cut r \<or> af_byte_size a \<le> length content)"
proof (cases "parse_artifact lib storage a profile_version_id organization_id profile")
  case (Inr r)
  then obtain p rid content where
    "af_organization_id a = organization_id" "selected_profile profile profile_version_id = Some p"
    "af_evidence_type a \<in> pm_structural_evidence_types p" "af_status a \<in> ELIGIBLE_ARTIFACT_STATUSES"
    "storage (af_storage_reference a) (int MAX_CONFIGURATION_BYTES) = Inr content"
    and parse: "parse_configuration_text lib (pl_decode lib (encoding_of a) content)
       (provenance_of a) rid (length content < af_byte_size a) = Inr r"
    by (auto simp: parse_artifact_def split: option.splits sum.splits)
  moreover have "ir_cut r" if "length content < af_byte_size a"
    using parse that by (auto simp: parse_configuration_text_def split: option.splits intro: reader_parse_cut)
  ultimately show ?thesis using Inr by auto
qed simp

end
