(* ===== verification/Jobs.thy ===== *)
theory Jobs
  imports Py_Floats
begin

text \<open>
  The durable job queue (\<open>jobs/service.py\<close>, \<open>jobs/repository.py\<close>): the job record, the
  queries of the repository and the operations of the service.  The table is the list of its rows,
  and every operation is one transaction: it maps the table to an error, which rolls back, or to
  the new table.  Rows that another transaction holds are the set \<open>locked\<close>, which the queries with
  \<open>skip_locked\<close> pass over.  Instants are microseconds; each call of \<open>utc_now\<close> is an argument.
\<close>

section \<open>Data\<close>

datatype job_status = JS_QUEUED | JS_PROCESSING | JS_COMPLETED | JS_FAILED

datatype job_type =
    JT_AUDIT | JT_RE_EVALUATION | JT_MAPPING_VALIDATION | JT_PDF_GENERATION
  | JT_BULK_REPORT_GENERATION | JT_SYSTEM_NOOP

record job =
  jb_job_id :: uuid
  jb_job_type :: job_type
  jb_status :: job_status
  jb_stage :: "string option"
  jb_progress :: nat
  jb_audit_id :: "uuid option"
  jb_device_id :: "uuid option"
  jb_payload :: "(string \<times> pyval) list"
  jb_attempt_count :: nat
  jb_error_code :: "string option"
  jb_error_message :: "string option"
  jb_created_at :: int
  jb_started_at :: "int option"
  jb_completed_at :: "int option"
  jb_lease_owner :: "string option"
  jb_heartbeat_at :: "int option"
  jb_lease_expires_at :: "int option"

type_synonym job_table = "job list"

fun job_status_value :: "job_status \<Rightarrow> string" where
  "job_status_value JS_QUEUED = ''queued''"
| "job_status_value JS_PROCESSING = ''processing''"
| "job_status_value JS_COMPLETED = ''completed''"
| "job_status_value JS_FAILED = ''failed''"

abbreviation job_error :: "string \<Rightarrow> exc" where
  "job_error m \<equiv> Exc JobError m"

text \<open>The row of a changed job is written back under its identifier.\<close>

definition write_job :: "job \<Rightarrow> job_table \<Rightarrow> job_table" where
  "write_job j t = map (\<lambda>x. if jb_job_id x = jb_job_id j then j else x) t"

section \<open>Validation of leases\<close>

definition validated_lease_owner :: "string \<Rightarrow> exc + string" where
  "validated_lease_owner lease_owner =
     (let owner = py_strip lease_owner
      in if owner = [] \<or> 128 < length owner
         then Inl (job_error ''Job lease owner must contain 1 to 128 characters'') else Inr owner)"

text \<open>
  A lease duration is a finite number of seconds; \<open>timedelta(seconds=x)\<close> keeps whole seconds and
  rounds the microseconds of the fraction, ties to even.
\<close>

definition timedelta_us :: "pyval \<Rightarrow> int" where
  "timedelta_us x = (case number_ratio x of
     None \<Rightarrow> 0
   | Some (n, d) \<Rightarrow>
       (let whole = nat n div d;
            frac = (case float_of_ratio non_finite (int (nat n mod d)) d of
              Inl _ \<Rightarrow> PInt 0 | Inr f \<Rightarrow> (case py_times f 1000000 of Inl _ \<Rightarrow> PInt 0 | Inr u \<Rightarrow> u))
        in int whole * 1000000 + (case number_ratio frac of
             None \<Rightarrow> 0 | Some (a, b) \<Rightarrow> int (round_div (nat a) b))))"

definition validated_lease_seconds :: "pyval \<Rightarrow> exc + pyval" where
  "validated_lease_seconds x =
     (case number_ratio x of
        Some (n, d) \<Rightarrow> if 0 < n \<and> n \<le> 3600 * int d then Inr x
          else Inl (job_error ''Job lease duration must be between 0 and 3600 seconds'')
      | None \<Rightarrow> Inl (Exc TypeError ''must be real number''))"

section \<open>Queries\<close>

definition queued_for :: "job_type set option \<Rightarrow> uuid set \<Rightarrow> job \<Rightarrow> bool" where
  "queued_for allowed locked j =
     (jb_status j = JS_QUEUED \<and> jb_job_id j \<notin> locked
      \<and> (case allowed of None \<Rightarrow> True | Some types \<Rightarrow> jb_job_type j \<in> types))"

definition next_queued_for_update :: "job_type set option \<Rightarrow> uuid set \<Rightarrow> job_table \<Rightarrow> job option" where
  "next_queued_for_update allowed locked t =
     (case sort_key (\<lambda>j. (jb_created_at j, jb_job_id j)) (filter (queued_for allowed locked) t) of
        [] \<Rightarrow> None | j # _ \<Rightarrow> Some j)"

definition by_id_for_update :: "job_table \<Rightarrow> uuid \<Rightarrow> job option" where
  "by_id_for_update t job_id = find (\<lambda>j. jb_job_id j = job_id) t"

definition stale :: "int \<Rightarrow> job \<Rightarrow> bool" where
  "stale now j = (jb_status j = JS_PROCESSING
     \<and> (case jb_lease_expires_at j of None \<Rightarrow> True | Some t \<Rightarrow> t < now))"

text \<open>\<open>NULLS FIRST\<close>: a missing expiry sorts before every instant.\<close>

definition stale_key :: "job \<Rightarrow> (bool \<times> int) \<times> uuid" where
  "stale_key j = ((case jb_lease_expires_at j of None \<Rightarrow> (False, 0) | Some t \<Rightarrow> (True, t)), jb_job_id j)"

definition stale_processing_for_update :: "job_table \<Rightarrow> uuid set \<Rightarrow> int \<Rightarrow> nat \<Rightarrow> job list" where
  "stale_processing_for_update t locked now limit =
     take limit (sort_key stale_key (filter (\<lambda>j. stale now j \<and> jb_job_id j \<notin> locked) t))"

section \<open>Operations\<close>

definition enqueue_job ::
  "uuid \<Rightarrow> int \<Rightarrow> job_type \<Rightarrow> (string \<times> pyval) list \<Rightarrow> uuid option \<Rightarrow> uuid option \<Rightarrow> string option
    \<Rightarrow> job_table \<Rightarrow> exc + job \<times> job_table" where
  "enqueue_job fresh now jtype payload audit_id device_id stage t =
     and_then (require (case stage of None \<Rightarrow> True
         | Some s \<Rightarrow> \<not> py_blank s \<and> length (py_strip s) \<le> 100)
       (job_error ''Job stage must contain 1 to 100 characters'')) (\<lambda>_.
     let j = \<lparr>jb_job_id = fresh, jb_job_type = jtype, jb_status = JS_QUEUED,
       jb_stage = map_option py_strip stage, jb_progress = 0, jb_audit_id = audit_id,
       jb_device_id = device_id, jb_payload = payload, jb_attempt_count = 0, jb_error_code = None,
       jb_error_message = None, jb_created_at = now, jb_started_at = None, jb_completed_at = None,
       jb_lease_owner = None, jb_heartbeat_at = None, jb_lease_expires_at = None\<rparr>
     in Inr (j, t @ [j]))"

definition claim_next_job ::
  "job_type set option \<Rightarrow> string \<Rightarrow> pyval \<Rightarrow> uuid set \<Rightarrow> int \<Rightarrow> job_table \<Rightarrow> exc + job option \<times> job_table" where
  "claim_next_job allowed lease_owner lease_seconds locked now t =
     (if allowed = Some {} then Inr (None, t)
      else (case next_queued_for_update allowed locked t of
              None \<Rightarrow> Inr (None, t)
            | Some j \<Rightarrow>
                and_then (validated_lease_owner lease_owner) (\<lambda>owner.
                and_then (validated_lease_seconds lease_seconds) (\<lambda>seconds.
                let j' = j\<lparr>jb_status := JS_PROCESSING, jb_attempt_count := jb_attempt_count j + 1,
                  jb_started_at := Some now, jb_completed_at := None, jb_lease_owner := Some owner,
                  jb_heartbeat_at := Some now,
                  jb_lease_expires_at := Some (now + timedelta_us seconds)\<rparr>
                in Inr (Some j', write_job j' t)))))"

definition owned_processing_job :: "job_table \<Rightarrow> uuid \<Rightarrow> string \<Rightarrow> exc + job" where
  "owned_processing_job t job_id lease_owner =
     (case by_id_for_update t job_id of
        None \<Rightarrow> Inl (Exc JobNotFoundError ''Job was not found'')
      | Some j \<Rightarrow>
          and_then (require (jb_status j = JS_PROCESSING) (Exc InvalidJobTransitionError
            (''Job must be processing, not '' @ job_status_value (jb_status j)))) (\<lambda>_.
          and_then (validated_lease_owner lease_owner) (\<lambda>owner.
          and_then (require (jb_lease_owner j = Some owner)
            (Exc JobLeaseLostError ''Job lease is not owned by this worker'')) (\<lambda>_.
          Inr j))))"

definition require_active_lease :: "job \<Rightarrow> int \<Rightarrow> exc + unit" where
  "require_active_lease j now =
     require (case jb_lease_expires_at j of None \<Rightarrow> False | Some t \<Rightarrow> now < t)
       (Exc JobLeaseLostError ''Job lease has expired'')"

definition clear_lease :: "job \<Rightarrow> job" where
  "clear_lease j = j\<lparr>jb_lease_owner := None, jb_heartbeat_at := None, jb_lease_expires_at := None\<rparr>"

definition heartbeat_job :: "uuid \<Rightarrow> string \<Rightarrow> pyval \<Rightarrow> int \<Rightarrow> job_table \<Rightarrow> exc + job \<times> job_table" where
  "heartbeat_job job_id lease_owner lease_seconds now t =
     and_then (owned_processing_job t job_id lease_owner) (\<lambda>j.
     and_then (require_active_lease j now) (\<lambda>_.
     and_then (validated_lease_seconds lease_seconds) (\<lambda>seconds.
     let j' = j\<lparr>jb_heartbeat_at := Some now, jb_lease_expires_at := Some (now + timedelta_us seconds)\<rparr>
     in Inr (j', write_job j' t))))"

definition complete_job :: "uuid \<Rightarrow> string \<Rightarrow> int \<Rightarrow> int \<Rightarrow> job_table \<Rightarrow> exc + job \<times> job_table" where
  "complete_job job_id lease_owner now now' t =
     and_then (owned_processing_job t job_id lease_owner) (\<lambda>j.
     and_then (require_active_lease j now) (\<lambda>_.
     let j' = clear_lease (j\<lparr>jb_status := JS_COMPLETED, jb_progress := 100, jb_completed_at := Some now',
       jb_error_code := None, jb_error_message := None\<rparr>)
     in Inr (j', write_job j' t)))"

definition error_code_pattern :: "string \<Rightarrow> bool" where
  "error_code_pattern s = (s \<noteq> [] \<and> length s \<le> 64 \<and>
     list_all (\<lambda>c. is_alpha c \<or> is_digit c \<or> c = CHR ''_'' \<or> c = CHR ''.'' \<or> c = CHR ''-'') s)"

definition fail_job ::
  "uuid \<Rightarrow> string \<Rightarrow> string \<Rightarrow> string \<Rightarrow> int \<Rightarrow> int \<Rightarrow> job_table \<Rightarrow> exc + job \<times> job_table" where
  "fail_job job_id lease_owner error_code error_message now now' t =
     (let code = py_strip error_code; message = py_strip error_message
      in and_then (require (error_code_pattern code) (job_error ''Invalid job error code'')) (\<lambda>_.
         and_then (require (message \<noteq> [] \<and> length message \<le> 1000
             \<and> newline \<notin> set message \<and> cret \<notin> set message)
           (job_error ''Job error message must be a single line of 1 to 1000 characters'')) (\<lambda>_.
         and_then (owned_processing_job t job_id lease_owner) (\<lambda>j.
         and_then (require_active_lease j now) (\<lambda>_.
         let j' = clear_lease (j\<lparr>jb_status := JS_FAILED, jb_completed_at := Some now',
           jb_error_code := Some code, jb_error_message := Some message\<rparr>)
         in Inr (j', write_job j' t))))))"

definition expire_job :: "int \<Rightarrow> job \<Rightarrow> job" where
  "expire_job now j = clear_lease (j\<lparr>jb_status := JS_FAILED, jb_completed_at := Some now,
     jb_error_code := Some ''worker_lease_expired'',
     jb_error_message := Some ''Job worker lease expired before completion''\<rparr>)"

definition recover_stale_jobs :: "int \<Rightarrow> uuid set \<Rightarrow> int \<Rightarrow> job_table \<Rightarrow> exc + job list \<times> job_table" where
  "recover_stale_jobs limit locked now t =
     and_then (require (1 \<le> limit \<and> limit \<le> 1000)
       (job_error ''Recovery batch size must be between 1 and 1000'')) (\<lambda>_.
     let jobs = map (expire_job now) (stale_processing_for_update t locked now (nat limit))
     in Inr (jobs, fold write_job jobs t))"

end
