(* ===== verification/State_Machine.thy ===== *)
theory State_Machine
  imports Main
begin

text \<open>
  The contracts of the step relations of the development: a system whose steps preserve an
  invariant, and a system that refines a specification.  The consequences for every reachable
  state are proved once here.
\<close>

locale invariant_system =
  fixes start :: "'s \<Rightarrow> bool" and step :: "'s \<Rightarrow> 's \<Rightarrow> bool" and good :: "'s \<Rightarrow> bool"
  assumes start_good: "start s \<Longrightarrow> good s"
    and step_good: "good s \<Longrightarrow> step s t \<Longrightarrow> good t"
begin

lemma steps_good: "step\<^sup>*\<^sup>* s t \<Longrightarrow> good s \<Longrightarrow> good t"
  by (induction rule: rtranclp_induct) (auto intro: step_good)

lemma reachable_good: "start s \<Longrightarrow> step\<^sup>*\<^sup>* s t \<Longrightarrow> good t"
  by (rule steps_good) (auto intro: start_good)

text \<open>A property that no step loses is kept by every run.\<close>

lemma stable:
  assumes "\<And>u v. good u \<Longrightarrow> P u \<Longrightarrow> step u v \<Longrightarrow> P v"
  shows "step\<^sup>*\<^sup>* s t \<Longrightarrow> good s \<Longrightarrow> P s \<Longrightarrow> P t"
proof (induction rule: rtranclp_induct)
  case (step t u)
  from steps_good [OF step(1) step(4)] step assms show ?case by blast
qed simp

end

locale refinement_system = invariant_system +
  fixes view :: "'s \<Rightarrow> 'a" and spec :: "'a \<Rightarrow> 'a \<Rightarrow> bool"
  assumes step_refines: "good s \<Longrightarrow> step s t \<Longrightarrow> spec\<^sup>=\<^sup>= (view s) (view t)"
begin

lemma steps_refine: "step\<^sup>*\<^sup>* s t \<Longrightarrow> good s \<Longrightarrow> spec\<^sup>*\<^sup>* (view s) (view t)"
proof (induction rule: rtranclp_induct)
  case (step t u)
  from step_refines [OF steps_good [OF step(1) step(4)] step(2)] step show ?case
    by (auto intro: rtranclp.rtrancl_into_rtrancl)
qed simp

end

end
