(* ===== verification/Job_Worker.thy ===== *)
theory Job_Worker
  imports Jobs State_Machine
begin

text \<open>
  The worker runtime (\<open>jobs/runner.py\<close>) over the job table, as a step relation: any number of
  workers and of enqueuing services interleave their transactions, every worker reads its own
  clock, a handler returns or raises, and a worker may die at any point.  The runtime's handlers
  are parameters; a handler is represented by whether it raised.
\<close>

section \<open>The runtime\<close>

record worker =
  wk_handlers :: "job_type set"
  wk_poll_interval_seconds :: pyval
  wk_lease_seconds :: pyval
  wk_heartbeat_interval_seconds :: pyval
  wk_lease_owner :: string

definition HANDLER_FAILURE_CODE :: string where "HANDLER_FAILURE_CODE = ''handler_failed''"
definition HANDLER_FAILURE_MESSAGE :: string where
  "HANDLER_FAILURE_MESSAGE = ''Job handler execution failed''"

text \<open>The bounds of the constructor, on finite numbers; a number is a ratio.\<close>

definition new_worker ::
  "job_type set \<Rightarrow> pyval \<Rightarrow> pyval \<Rightarrow> pyval \<Rightarrow> string option \<Rightarrow> string \<Rightarrow> exc + worker" where
  "new_worker handlers poll lease heartbeat lease_owner new_lease_owner =
     (case (number_ratio poll, number_ratio lease, number_ratio heartbeat) of
        (Some (p, pd), Some (l, ld), Some (h, hb)) \<Rightarrow>
          and_then (require (int pd \<le> 10 * p)
            (Exc ValueError ''Worker poll interval must be at least 0.1 seconds'')) (\<lambda>_.
          and_then (require (0 < l \<and> l \<le> 3600 * int ld)
            (Exc ValueError ''Worker job lease must be between 0 and 3600 seconds'')) (\<lambda>_.
          and_then (require (0 < h \<and> h * int ld < l * int hb)
            (Exc ValueError ''Worker heartbeat interval must be positive and shorter than the job lease'')) (\<lambda>_.
          let owner = (case lease_owner of Some (c # cs) \<Rightarrow> c # cs | _ \<Rightarrow> new_lease_owner)
          in and_then (require (\<not> py_blank owner \<and> length owner \<le> 128)
               (Exc ValueError ''Worker lease owner must contain 1 to 128 characters'')) (\<lambda>_.
             Inr \<lparr>wk_handlers = handlers, wk_poll_interval_seconds = poll, wk_lease_seconds = lease,
               wk_heartbeat_interval_seconds = heartbeat, wk_lease_owner = owner\<rparr>))))
      | _ \<Rightarrow> Inl (Exc TypeError ''must be real number''))"

text \<open>Where a worker is in \<open>run_iteration\<close>.\<close>

datatype worker_phase =
    WP_IDLE
  | WP_RECOVERED
  | WP_RUNNING uuid job_type
  | WP_FINISHING uuid bool

text \<open>The terminal transaction: the new table, or the same one when the lease was lost.\<close>

definition finish_job :: "worker \<Rightarrow> uuid \<Rightarrow> bool \<Rightarrow> int \<Rightarrow> int \<Rightarrow> job_table \<Rightarrow> exc + job_table" where
  "finish_job w job_id handler_failed now now' t =
     (case (if handler_failed
            then fail_job job_id (wk_lease_owner w) HANDLER_FAILURE_CODE HANDLER_FAILURE_MESSAGE now now' t
            else complete_job job_id (wk_lease_owner w) now now' t) of
        Inr (j, t') \<Rightarrow> Inr t'
      | Inl e \<Rightarrow> if exc_class e = InvalidJobTransitionError \<or> exc_class e = JobLeaseLostError then Inr t else Inl e)"

definition recover_transaction :: "uuid set \<Rightarrow> int \<Rightarrow> job_table \<Rightarrow> exc + job_table" where
  "recover_transaction locked now t = and_then (recover_stale_jobs 100 locked now t) (\<lambda>(jobs, t'). Inr t')"

definition claim_transaction :: "worker \<Rightarrow> uuid set \<Rightarrow> int \<Rightarrow> job_table \<Rightarrow> exc + job option \<times> job_table" where
  "claim_transaction w locked now t =
     claim_next_job (Some (wk_handlers w)) (wk_lease_owner w) (wk_lease_seconds w) locked now t"

definition heartbeat_transaction :: "worker \<Rightarrow> uuid \<Rightarrow> int \<Rightarrow> job_table \<Rightarrow> exc + job_table" where
  "heartbeat_transaction w job_id now t =
     and_then (heartbeat_job job_id (wk_lease_owner w) (wk_lease_seconds w) now t) (\<lambda>(j, t'). Inr t')"

text \<open>
  \<open>run_iteration\<close> of one worker that nothing interrupts: the recovery, the claim, the heartbeats at
  the instants \<open>beats\<close> (a database error is retried at the next beat, every other exception ends the
  thread) and the terminal transaction.  The result says whether a job ran.
\<close>

fun heartbeat_loop :: "worker \<Rightarrow> uuid \<Rightarrow> int list \<Rightarrow> job_table \<Rightarrow> job_table" where
  "heartbeat_loop w job_id [] t = t"
| "heartbeat_loop w job_id (now # beats) t =
     (case heartbeat_transaction w job_id now t of
        Inr t' \<Rightarrow> heartbeat_loop w job_id beats t'
      | Inl e \<Rightarrow> if exc_class e = SQLAlchemyError then heartbeat_loop w job_id beats t else t)"

definition run_iteration ::
  "worker \<Rightarrow> bool \<Rightarrow> (uuid \<Rightarrow> bool) \<Rightarrow> int \<Rightarrow> int \<Rightarrow> int list \<Rightarrow> int \<Rightarrow> int \<Rightarrow> job_table \<Rightarrow> exc + bool \<times> job_table" where
  "run_iteration w shutdown handler_fails t_recover t_claim beats t_check t_end t =
     (if shutdown \<or> wk_handlers w = {} then Inr (False, t)
      else and_then (recover_transaction {} t_recover t) (\<lambda>t1.
        and_then (claim_transaction w {} t_claim t1) (\<lambda>(claimed, t2).
        case claimed of None \<Rightarrow> Inr (False, t2)
        | Some j \<Rightarrow>
            and_then (finish_job w (jb_job_id j) (handler_fails (jb_job_id j)) t_check t_end
              (heartbeat_loop w (jb_job_id j) beats t2)) (\<lambda>t3.
            Inr (True, t3)))))"

section \<open>Interleaved workers\<close>

record system =
  sy_jobs :: job_table
  sy_phase :: "nat \<Rightarrow> worker_phase"
  sy_started :: "uuid list"

definition at_phase :: "nat \<Rightarrow> worker_phase \<Rightarrow> job_table \<Rightarrow> system \<Rightarrow> system" where
  "at_phase n ph t s = s\<lparr>sy_jobs := t, sy_phase := (sy_phase s)(n := ph)\<rparr>"

inductive system_step :: "(nat \<Rightarrow> worker) \<Rightarrow> system \<Rightarrow> system \<Rightarrow> bool" for workers :: "nat \<Rightarrow> worker" where
  enqueue:
    "fresh \<notin> jb_job_id ` set (sy_jobs s) \<Longrightarrow>
     enqueue_job fresh now jtype payload audit_id device_id stage (sy_jobs s) = Inr (j, t) \<Longrightarrow>
     system_step workers s (s\<lparr>sy_jobs := t\<rparr>)"
| recover:
    "sy_phase s n = WP_IDLE \<Longrightarrow> recover_transaction locked now (sy_jobs s) = Inr t \<Longrightarrow>
     system_step workers s (at_phase n WP_RECOVERED t s)"
| claim_none:
    "sy_phase s n = WP_RECOVERED \<Longrightarrow>
     claim_transaction (workers n) locked now (sy_jobs s) = Inr (None, t) \<Longrightarrow>
     system_step workers s (at_phase n WP_IDLE t s)"
| claim:
    "sy_phase s n = WP_RECOVERED \<Longrightarrow>
     claim_transaction (workers n) locked now (sy_jobs s) = Inr (Some j, t) \<Longrightarrow>
     system_step workers s ((at_phase n (WP_RUNNING (jb_job_id j) (jb_job_type j)) t s)
       \<lparr>sy_started := sy_started s @ [jb_job_id j]\<rparr>)"
| heartbeat:
    "sy_phase s n = WP_RUNNING i jtype \<Longrightarrow>
     heartbeat_transaction (workers n) i now (sy_jobs s) = Inr t \<Longrightarrow>
     system_step workers s (s\<lparr>sy_jobs := t\<rparr>)"
| handler_ends:
    "sy_phase s n = WP_RUNNING i jtype \<Longrightarrow>
     system_step workers s (at_phase n (WP_FINISHING i handler_failed) (sy_jobs s) s)"
| finish:
    "sy_phase s n = WP_FINISHING i handler_failed \<Longrightarrow>
     finish_job (workers n) i handler_failed now now' (sy_jobs s) = Inr t \<Longrightarrow>
     system_step workers s (at_phase n WP_IDLE t s)"
| crash:
    "system_step workers s (at_phase n WP_IDLE (sy_jobs s) s)"

definition empty_system :: "system \<Rightarrow> bool" where
  "empty_system s = (sy_jobs s = [] \<and> (\<forall>n. sy_phase s n = WP_IDLE) \<and> sy_started s = [])"

inductive_cases system_stepE: "system_step workers s s'"

section \<open>The table by identifier\<close>

definition jobs_by_id :: "job_table \<Rightarrow> uuid \<Rightarrow> job option" where
  "jobs_by_id t i = by_id_for_update t i"

lemma jobs_by_id_Cons: "jobs_by_id (j # t) i = (if jb_job_id j = i then Some j else jobs_by_id t i)"
  by (simp add: jobs_by_id_def by_id_for_update_def)

lemma jobs_by_id_Nil [simp]: "jobs_by_id [] i = None"
  by (simp add: jobs_by_id_def by_id_for_update_def)

lemma jobs_by_id_append:
  "jobs_by_id (t @ t') i = (case jobs_by_id t i of None \<Rightarrow> jobs_by_id t' i | Some j \<Rightarrow> Some j)"
  by (induction t) (auto simp: jobs_by_id_Cons)

lemma jobs_by_id_None: "jobs_by_id t i = None \<longleftrightarrow> i \<notin> jb_job_id ` set t"
  by (induction t) (auto simp: jobs_by_id_Cons)

lemma jobs_by_id_Some: "jobs_by_id t i = Some j \<Longrightarrow> j \<in> set t \<and> jb_job_id j = i"
  by (induction t) (auto simp: jobs_by_id_Cons split: if_splits)

lemma jobs_by_id_member: "distinct (map jb_job_id t) \<Longrightarrow> j \<in> set t \<Longrightarrow> jobs_by_id t (jb_job_id j) = Some j"
  by (induction t) (auto simp: jobs_by_id_Cons)

lemma jobs_by_id_map:
  assumes "\<And>j. jb_job_id (f j) = jb_job_id j"
  shows "jobs_by_id (map f t) i = map_option f (jobs_by_id t i)"
  using assms by (induction t) (auto simp: jobs_by_id_Cons)

lemma write_job_by_id:
  "jobs_by_id (write_job j t) i =
     (if i = jb_job_id j then map_option (\<lambda>_. j) (jobs_by_id t i) else jobs_by_id t i)"
  by (induction t) (auto simp: jobs_by_id_Cons write_job_def)

lemma write_job_ids [simp]: "map jb_job_id (write_job j t) = map jb_job_id t"
  by (auto simp: write_job_def)

lemma writes_ids [simp]: "map jb_job_id (fold write_job js t) = map jb_job_id t"
  by (induction js arbitrary: t) auto

lemma writes_by_id:
  "distinct (map jb_job_id js) \<Longrightarrow>
     jobs_by_id (fold write_job js t) i =
     (case jobs_by_id t i of None \<Rightarrow> None
      | Some j \<Rightarrow> Some (case jobs_by_id js i of None \<Rightarrow> j | Some j' \<Rightarrow> j'))"
proof (induction js arbitrary: t)
  case (Cons j js)
  then have "jobs_by_id js (jb_job_id j) = None" by (simp add: jobs_by_id_None)
  with Cons show ?case
    by (cases "i = jb_job_id j") (simp_all add: jobs_by_id_Cons write_job_by_id split: option.splits)
qed (auto split: option.splits)

section \<open>What each operation requires and does\<close>

lemma enqueue_job_Inr:
  assumes "enqueue_job fresh now jtype payload audit_id device_id stage t = Inr (j, t')"
  shows "t' = t @ [j]" and "jb_job_id j = fresh" and "jb_status j = JS_QUEUED" and "jb_attempt_count j = 0"
    and "jb_created_at j = now" and "jb_lease_owner j = None" and "jb_heartbeat_at j = None"
    and "jb_lease_expires_at j = None" and "jb_started_at j = None" and "jb_completed_at j = None"
    and "jb_progress j = 0" and "jb_error_code j = None"
  using assms by (auto simp: enqueue_job_def Let_def)

lemma claim_next_job_Inr:
  assumes "claim_next_job allowed owner seconds locked now t = Inr (Some j', t')"
  obtains j o1 e where "next_queued_for_update allowed locked t = Some j"
    and "validated_lease_owner owner = Inr o1" and "validated_lease_seconds seconds = Inr e"
    and "j' = j\<lparr>jb_status := JS_PROCESSING, jb_attempt_count := jb_attempt_count j + 1,
      jb_started_at := Some now, jb_completed_at := None, jb_lease_owner := Some o1,
      jb_heartbeat_at := Some now, jb_lease_expires_at := Some (now + timedelta_us e)\<rparr>"
    and "t' = write_job j' t"
  using assms by (auto simp: claim_next_job_def Let_def split: if_splits option.splits)

lemma claim_next_job_None: "claim_next_job allowed owner seconds locked now t = Inr (None, t') \<Longrightarrow> t' = t"
  by (auto simp: claim_next_job_def Let_def split: if_splits option.splits)

lemma next_queued_Some:
  assumes "next_queued_for_update allowed locked t = Some j"
  shows "j \<in> set t" and "queued_for allowed locked j"
    and "\<And>x. x \<in> set t \<Longrightarrow> queued_for allowed locked x \<Longrightarrow>
      (jb_created_at j, jb_job_id j) \<le> (jb_created_at x, jb_job_id x)"
proof -
  let ?key = "\<lambda>j. (jb_created_at j, jb_job_id j)"
  let ?sorted = "sort_key ?key (filter (queued_for allowed locked) t)"
  from assms obtain rest where s: "?sorted = j # rest"
    by (auto simp: next_queued_for_update_def split: list.splits)
  have set: "set (j # rest) = {x \<in> set t. queued_for allowed locked x}"
    unfolding s [symmetric] by auto
  then show "j \<in> set t" "queued_for allowed locked j" by auto
  have "sorted (map ?key (j # rest))" unfolding s [symmetric] by (rule sorted_sort_key)
  then show "?key j \<le> ?key x" if "x \<in> set t" "queued_for allowed locked x" for x
    using that set by auto
qed

lemma next_queued_None:
  "next_queued_for_update allowed locked t = None \<longleftrightarrow> (\<forall>x \<in> set t. \<not> queued_for allowed locked x)"
proof -
  have "sort_key (\<lambda>j. (jb_created_at j, jb_job_id j)) (filter (queued_for allowed locked) t) = []
    \<longleftrightarrow> filter (queued_for allowed locked) t = []"
    by (simp add: set_empty [symmetric] del: set_empty filter_set)
  then show ?thesis
    by (auto simp: next_queued_for_update_def filter_empty_conv split: list.splits)
qed

lemma owned_processing_job_Inr:
  "owned_processing_job t i owner = Inr j \<longleftrightarrow>
     jobs_by_id t i = Some j \<and> jb_status j = JS_PROCESSING
     \<and> (\<exists>o1. validated_lease_owner owner = Inr o1 \<and> jb_lease_owner j = Some o1)"
  by (auto simp: owned_processing_job_def jobs_by_id_def split: option.splits)

lemma require_active_lease_Inr:
  "require_active_lease j now = Inr u \<longleftrightarrow> (\<exists>e. jb_lease_expires_at j = Some e \<and> now < e)"
  by (auto simp: require_active_lease_def split: option.splits)

definition live_lease :: "job_table \<Rightarrow> uuid \<Rightarrow> string \<Rightarrow> int \<Rightarrow> job \<Rightarrow> bool" where
  "live_lease t i owner now j =
     (jobs_by_id t i = Some j \<and> jb_status j = JS_PROCESSING
      \<and> (case jb_lease_expires_at j of None \<Rightarrow> False | Some e \<Rightarrow> now < e)
      \<and> (case validated_lease_owner owner of Inl _ \<Rightarrow> False | Inr o1 \<Rightarrow> jb_lease_owner j = Some o1))"

lemma owned_and_active:
  "owned_processing_job t i owner = Inr j \<and> require_active_lease j now = Inr () \<longleftrightarrow> live_lease t i owner now j"
  by (auto simp: owned_processing_job_Inr require_active_lease_Inr live_lease_def split: option.splits sum.splits)

lemma heartbeat_job_Inr:
  "heartbeat_job i owner seconds now t = Inr (j', t') \<longleftrightarrow>
     (\<exists>j e. live_lease t i owner now j \<and> validated_lease_seconds seconds = Inr e
       \<and> j' = j\<lparr>jb_heartbeat_at := Some now, jb_lease_expires_at := Some (now + timedelta_us e)\<rparr>
       \<and> t' = write_job j' t)"
  unfolding owned_and_active [symmetric] by (auto simp: heartbeat_job_def Let_def)

lemma complete_job_Inr:
  "complete_job i owner now now' t = Inr (j', t') \<longleftrightarrow>
     (\<exists>j. live_lease t i owner now j
       \<and> j' = clear_lease (j\<lparr>jb_status := JS_COMPLETED, jb_progress := 100, jb_completed_at := Some now',
            jb_error_code := None, jb_error_message := None\<rparr>)
       \<and> t' = write_job j' t)"
  unfolding owned_and_active [symmetric] by (auto simp: complete_job_def Let_def)

lemma fail_job_Inr:
  assumes "fail_job i owner code message now now' t = Inr (j', t')"
  shows "\<exists>j. live_lease t i owner now j
       \<and> j' = clear_lease (j\<lparr>jb_status := JS_FAILED, jb_completed_at := Some now',
            jb_error_code := Some (py_strip code), jb_error_message := Some (py_strip message)\<rparr>)
       \<and> t' = write_job j' t"
  using assms unfolding owned_and_active [symmetric] by (auto simp: fail_job_def Let_def)

lemma stale_processing_subset:
  "set (stale_processing_for_update t locked now limit) \<subseteq> {j \<in> set t. stale now j \<and> jb_job_id j \<notin> locked}"
  by (auto simp: stale_processing_for_update_def dest: in_set_takeD)

lemma stale_processing_distinct:
  "distinct (map jb_job_id t) \<Longrightarrow> distinct (map jb_job_id (stale_processing_for_update t locked now limit))"
  unfolding stale_processing_for_update_def
  by (simp add: distinct_map distinct_take inj_on_def) (metis (no_types, lifting) in_set_takeD set_sort mem_Collect_eq set_filter inj_onD)

end
