(* ===== verification/Job_Props.thy ===== *)
theory Job_Props
  imports Job_Worker
begin

text \<open>
  What holds of the job queue in every reachable state of the interleaved workers: the shape of the
  rows, the life cycle of a job as a specification that the table refines, execution at most once,
  the exclusion of owners and recovery, and that recovery drains the expired jobs.
\<close>

section \<open>The moves of one job\<close>

inductive job_move :: "job \<Rightarrow> job \<Rightarrow> bool" where
  claimed:
    "jb_status j = JS_QUEUED \<Longrightarrow> validated_lease_owner w = Inr o1 \<Longrightarrow> 0 \<le> d \<Longrightarrow>
     job_move j (j\<lparr>jb_status := JS_PROCESSING, jb_attempt_count := jb_attempt_count j + 1,
       jb_started_at := Some now, jb_completed_at := None, jb_lease_owner := Some o1,
       jb_heartbeat_at := Some now, jb_lease_expires_at := Some (now + d)\<rparr>)"
| renewed:
    "jb_status j = JS_PROCESSING \<Longrightarrow> 0 \<le> d \<Longrightarrow>
     job_move j (j\<lparr>jb_heartbeat_at := Some now, jb_lease_expires_at := Some (now + d)\<rparr>)"
| completed:
    "jb_status j = JS_PROCESSING \<Longrightarrow>
     job_move j (clear_lease (j\<lparr>jb_status := JS_COMPLETED, jb_progress := 100, jb_completed_at := Some now,
       jb_error_code := None, jb_error_message := None\<rparr>))"
| failed:
    "jb_status j = JS_PROCESSING \<Longrightarrow>
     job_move j (clear_lease (j\<lparr>jb_status := JS_FAILED, jb_completed_at := Some now,
       jb_error_code := Some code, jb_error_message := Some message\<rparr>))"

inductive_cases job_moveE: "job_move j j'"

definition job_wf :: "job \<Rightarrow> bool" where
  "job_wf j =
     (case jb_status j of
        JS_QUEUED \<Rightarrow> jb_attempt_count j = 0 \<and> jb_lease_owner j = None \<and> jb_heartbeat_at j = None
          \<and> jb_lease_expires_at j = None \<and> jb_started_at j = None \<and> jb_completed_at j = None
          \<and> jb_progress j = 0 \<and> jb_error_code j = None
      | JS_PROCESSING \<Rightarrow> jb_attempt_count j = 1 \<and> jb_completed_at j = None \<and> jb_progress j = 0
          \<and> jb_error_code j = None \<and> jb_started_at j \<noteq> None
          \<and> (\<exists>w h e. jb_lease_owner j = Some w \<and> jb_heartbeat_at j = Some h
               \<and> jb_lease_expires_at j = Some e \<and> w \<noteq> [] \<and> length w \<le> 128 \<and> h \<le> e)
      | JS_COMPLETED \<Rightarrow> jb_attempt_count j = 1 \<and> jb_lease_owner j = None \<and> jb_heartbeat_at j = None
          \<and> jb_lease_expires_at j = None \<and> jb_completed_at j \<noteq> None \<and> jb_progress j = 100
          \<and> jb_error_code j = None
      | JS_FAILED \<Rightarrow> jb_attempt_count j = 1 \<and> jb_lease_owner j = None \<and> jb_heartbeat_at j = None
          \<and> jb_lease_expires_at j = None \<and> jb_completed_at j \<noteq> None \<and> jb_progress j = 0
          \<and> jb_error_code j \<noteq> None)"

lemma job_move_id: "job_move j j' \<Longrightarrow> jb_job_id j' = jb_job_id j"
  by (auto elim!: job_moveE simp: clear_lease_def)

lemma validated_lease_owner_Inr:
  "validated_lease_owner w = Inr o1 \<longleftrightarrow> o1 = py_strip w \<and> o1 \<noteq> [] \<and> length o1 \<le> 128"
  by (auto simp: validated_lease_owner_def Let_def)

lemma job_move_wf: "job_move j j' \<Longrightarrow> job_wf j \<Longrightarrow> job_wf j'"
  by (auto elim!: job_moveE simp: job_wf_def clear_lease_def validated_lease_owner_Inr split: option.splits)

section \<open>The moves of the table\<close>

definition table_step :: "job_table \<Rightarrow> job_table \<Rightarrow> bool" where
  "table_step t t' = (\<forall>i. case jobs_by_id t i of
       None \<Rightarrow> (case jobs_by_id t' i of None \<Rightarrow> True | Some j' \<Rightarrow> jb_status j' = JS_QUEUED \<and> job_wf j')
     | Some j \<Rightarrow> (case jobs_by_id t' i of None \<Rightarrow> False | Some j' \<Rightarrow> j' = j \<or> job_move j j'))"

definition jobs_ok :: "job_table \<Rightarrow> bool" where
  "jobs_ok t = (distinct (map jb_job_id t) \<and> list_all job_wf t)"

lemma jobs_ok_wf: "jobs_ok t \<Longrightarrow> jobs_by_id t i = Some j \<Longrightarrow> job_wf j"
  by (auto simp: jobs_ok_def list_all_iff dest: jobs_by_id_Some)

lemma table_step_refl: "table_step t t"
  by (simp add: table_step_def split: option.splits)

lemma table_step_Some:
  "table_step t t' \<Longrightarrow> jobs_by_id t i = Some j \<Longrightarrow>
     \<exists>j'. jobs_by_id t' i = Some j' \<and> (j' = j \<or> job_move j j')"
  unfolding table_step_def by (drule spec [of _ i]) (auto split: option.splits)

lemma table_step_new:
  "table_step t t' \<Longrightarrow> jobs_by_id t i = None \<Longrightarrow> jobs_by_id t' i = Some j' \<Longrightarrow>
     jb_status j' = JS_QUEUED \<and> job_wf j'"
  unfolding table_step_def by (drule spec [of _ i]) auto

lemma table_step_ok:
  assumes "table_step t t'" and "jobs_ok t" and "distinct (map jb_job_id t')"
  shows "jobs_ok t'"
proof -
  have "job_wf j'" if "j' \<in> set t'" for j'
  proof -
    have j': "jobs_by_id t' (jb_job_id j') = Some j'" using assms(3) that by (rule jobs_by_id_member)
    show ?thesis
    proof (cases "jobs_by_id t (jb_job_id j')")
      case None
      then show ?thesis using table_step_new [OF assms(1) _ j'] by blast
    next
      case (Some j)
      then have "j' = j \<or> job_move j j'" using table_step_Some [OF assms(1) Some] j' by auto
      then show ?thesis using jobs_ok_wf [OF assms(2) Some] job_move_wf by blast
    qed
  qed
  with assms(3) show ?thesis by (simp add: jobs_ok_def list_all_iff)
qed

lemma table_step_write:
  assumes "jobs_by_id t (jb_job_id j) = Some j" and "job_move j j'"
  shows "table_step t (write_job j' t)"
  using assms(1) job_move_id [OF assms(2)] assms(2)
  by (auto simp: table_step_def write_job_by_id split: option.splits)

lemma timedelta_nonneg: "0 \<le> timedelta_us x"
  by (auto simp: timedelta_us_def Let_def split: option.splits sum.splits)

lemma live_lease_self: "live_lease t i w now j \<Longrightarrow> jobs_by_id t (jb_job_id j) = Some j \<and> jb_status j = JS_PROCESSING"
  using jobs_by_id_Some by (fastforce simp: live_lease_def)

text \<open>Every transaction of the service moves the table by a step.\<close>

lemma claim_table_step:
  assumes "distinct (map jb_job_id t)"
    and "claim_next_job allowed owner seconds locked now t = Inr (Some j', t')"
  shows "table_step t t'"
  using assms(2)
proof (rule claim_next_job_Inr)
  fix j o1 e
  assume oldest: "next_queued_for_update allowed locked t = Some j"
    and owner: "validated_lease_owner owner = Inr o1"
    and j': "j' = j\<lparr>jb_status := JS_PROCESSING, jb_attempt_count := jb_attempt_count j + 1,
      jb_started_at := Some now, jb_completed_at := None, jb_lease_owner := Some o1,
      jb_heartbeat_at := Some now, jb_lease_expires_at := Some (now + timedelta_us e)\<rparr>"
    and t': "t' = write_job j' t"
  from next_queued_Some(1,2) [OF oldest] have "j \<in> set t" "jb_status j = JS_QUEUED" by (auto simp: queued_for_def)
  show ?thesis
    unfolding t' by (rule table_step_write [OF jobs_by_id_member [OF assms(1) \<open>j \<in> set t\<close>]], unfold j')
      (rule job_move.claimed [OF \<open>jb_status j = JS_QUEUED\<close> owner timedelta_nonneg])
qed

lemma heartbeat_table_step:
  "heartbeat_job i owner seconds now t = Inr (j', t') \<Longrightarrow> table_step t t'"
  using live_lease_self timedelta_nonneg
  by (fastforce simp: heartbeat_job_Inr intro!: table_step_write job_move.renewed)

lemma complete_table_step: "complete_job i owner now now' t = Inr (j', t') \<Longrightarrow> table_step t t'"
  using live_lease_self
  by (fastforce simp: complete_job_Inr intro!: table_step_write job_move.completed)

lemma fail_table_step: "fail_job i owner code message now now' t = Inr (j', t') \<Longrightarrow> table_step t t'"
  using live_lease_self
  by (fastforce dest!: fail_job_Inr intro!: table_step_write job_move.failed)

lemma enqueue_table_step:
  assumes "enqueue_job fresh now jtype payload audit_id device_id stage t = Inr (j, t')"
    and "fresh \<notin> jb_job_id ` set t"
  shows "table_step t t'"
  using enqueue_job_Inr [OF assms(1)] assms(2)
  by (auto simp: table_step_def jobs_by_id_append jobs_by_id_Cons job_wf_def split: option.splits)

lemma expire_job_id [simp]: "jb_job_id (expire_job now j) = jb_job_id j"
  by (simp add: expire_job_def clear_lease_def)

lemma recover_stale_jobs_by_id:
  assumes "recover_stale_jobs limit locked now t = Inr (js, t')" and "distinct (map jb_job_id t)"
  shows "jobs_by_id t' i = map_option (\<lambda>j. if j \<in> set (stale_processing_for_update t locked now (nat limit))
    then expire_job now j else j) (jobs_by_id t i)"
proof -
  let ?stale = "stale_processing_for_update t locked now (nat limit)"
  from assms(1) have t': "t' = fold write_job (map (expire_job now) ?stale) t"
    by (auto simp: recover_stale_jobs_def Let_def)
  have d: "distinct (map jb_job_id ?stale)" using assms(2) by (rule stale_processing_distinct)
  have expired: "jobs_by_id (map (expire_job now) s) i = map_option (expire_job now) (jobs_by_id s i)" for s
    by (rule jobs_by_id_map) simp
  have by_id: "jobs_by_id t' i = (case jobs_by_id t i of None \<Rightarrow> None
      | Some j \<Rightarrow> Some (case map_option (expire_job now) (jobs_by_id ?stale i) of None \<Rightarrow> j | Some j' \<Rightarrow> j'))"
    unfolding t' expired [symmetric] by (rule writes_by_id) (use d in \<open>simp add: comp_def\<close>)
  have same: "jobs_by_id ?stale i = (if j \<in> set ?stale then Some j else None)" if j: "jobs_by_id t i = Some j" for j
  proof (cases "j \<in> set ?stale")
    case True
    then show ?thesis using jobs_by_id_member [OF d True] jobs_by_id_Some [OF j] by auto
  next
    case False
    have "j' = j" if "j' \<in> set ?stale" "jb_job_id j' = i" for j'
      using that stale_processing_subset [of t locked now "nat limit"] jobs_by_id_member [OF assms(2)] j by fastforce
    with False show ?thesis by (auto simp: jobs_by_id_None)
  qed
  show ?thesis unfolding by_id using same by (auto split: option.splits)
qed

lemma recover_table_step:
  assumes "recover_stale_jobs limit locked now t = Inr (js, t')" and "distinct (map jb_job_id t)"
  shows "table_step t t'"
  using recover_stale_jobs_by_id [OF assms] stale_processing_subset [of t locked now "nat limit"]
  by (auto simp: table_step_def stale_def expire_job_def split: option.splits intro: job_move.failed)

lemma enqueue_ids:
  assumes "enqueue_job fresh now jtype payload audit_id device_id stage t = Inr (j, t')"
    and "fresh \<notin> jb_job_id ` set t" and "distinct (map jb_job_id t)"
  shows "distinct (map jb_job_id t')"
  using enqueue_job_Inr(1,2) [OF assms(1)] assms(2,3) by auto

section \<open>The life cycle of a job\<close>

datatype lifecycle = LC_QUEUED | LC_LEASED string | LC_COMPLETED | LC_FAILED string

definition lifecycle :: "job \<Rightarrow> lifecycle" where
  "lifecycle j = (case jb_status j of
     JS_QUEUED \<Rightarrow> LC_QUEUED
   | JS_PROCESSING \<Rightarrow> LC_LEASED (case jb_lease_owner j of None \<Rightarrow> [] | Some w \<Rightarrow> w)
   | JS_COMPLETED \<Rightarrow> LC_COMPLETED
   | JS_FAILED \<Rightarrow> LC_FAILED (case jb_error_code j of None \<Rightarrow> [] | Some c \<Rightarrow> c))"

inductive lifecycle_step :: "lifecycle \<Rightarrow> lifecycle \<Rightarrow> bool" where
  lease: "lifecycle_step LC_QUEUED (LC_LEASED w)"
| complete: "lifecycle_step (LC_LEASED w) LC_COMPLETED"
| fail: "lifecycle_step (LC_LEASED w) (LC_FAILED c)"

inductive_simps lifecycle_step_simps:
  "lifecycle_step LC_QUEUED y" "lifecycle_step (LC_LEASED w) y" "lifecycle_step LC_COMPLETED y"
  "lifecycle_step (LC_FAILED c) y"

text \<open>The specification: jobs appear queued and take steps of their life cycle; none disappears.\<close>

definition queue_spec :: "(uuid \<Rightarrow> lifecycle option) \<Rightarrow> (uuid \<Rightarrow> lifecycle option) \<Rightarrow> bool" where
  "queue_spec v v' = (\<forall>i. v' i = v i \<or> v i = None \<and> v' i = Some LC_QUEUED
     \<or> (\<exists>a b. v i = Some a \<and> v' i = Some b \<and> lifecycle_step a b))"

definition queue_view :: "system \<Rightarrow> uuid \<Rightarrow> lifecycle option" where
  "queue_view s i = map_option lifecycle (jobs_by_id (sy_jobs s) i)"

lemma job_move_lifecycle: "job_move j j' \<Longrightarrow> lifecycle j' = lifecycle j \<or> lifecycle_step (lifecycle j) (lifecycle j')"
  by (auto elim!: job_moveE simp: lifecycle_def clear_lease_def lifecycle_step_simps)

lemma table_step_spec:
  assumes "table_step (sy_jobs s) (sy_jobs s')"
  shows "queue_spec (queue_view s) (queue_view s')"
  unfolding queue_spec_def
proof
  fix i
  show "queue_view s' i = queue_view s i \<or> queue_view s i = None \<and> queue_view s' i = Some LC_QUEUED
     \<or> (\<exists>a b. queue_view s i = Some a \<and> queue_view s' i = Some b \<and> lifecycle_step a b)"
  proof (cases "jobs_by_id (sy_jobs s) i")
    case None
    then show ?thesis using table_step_new [OF assms None]
      by (cases "jobs_by_id (sy_jobs s') i") (auto simp: queue_view_def lifecycle_def)
  next
    case (Some j)
    from table_step_Some [OF assms Some] obtain j' where j': "jobs_by_id (sy_jobs s') i = Some j'"
      and "j' = j \<or> job_move j j'" by blast
    then have "lifecycle j' = lifecycle j \<or> lifecycle_step (lifecycle j) (lifecycle j')"
      using job_move_lifecycle by blast
    with Some j' show ?thesis by (simp add: queue_view_def)
  qed
qed

section \<open>The invariant of the system\<close>

fun phase_job :: "worker_phase \<Rightarrow> uuid option" where
  "phase_job (WP_RUNNING i jtype) = Some i"
| "phase_job (WP_FINISHING i handler_failed) = Some i"
| "phase_job _ = None"

definition started_ok :: "system \<Rightarrow> bool" where
  "started_ok s = (distinct (sy_started s)
     \<and> (\<forall>i \<in> set (sy_started s). \<exists>j. jobs_by_id (sy_jobs s) i = Some j \<and> jb_status j \<noteq> JS_QUEUED))"

definition phases_ok :: "system \<Rightarrow> bool" where
  "phases_ok s = (\<forall>n i. phase_job (sy_phase s n) = Some i \<longrightarrow>
     i \<in> set (sy_started s) \<and> (\<forall>m. phase_job (sy_phase s m) = Some i \<longrightarrow> m = n))"

definition system_ok :: "system \<Rightarrow> bool" where
  "system_ok s = (jobs_ok (sy_jobs s) \<and> started_ok s \<and> phases_ok s)"

lemma finish_job_Inr:
  assumes "finish_job w i handler_failed now now' t = Inr t'"
  shows "table_step t t' \<and> map jb_job_id t' = map jb_job_id t"
proof -
  let ?c = "complete_job i (wk_lease_owner w) now now' t"
  let ?f = "fail_job i (wk_lease_owner w) HANDLER_FAILURE_CODE HANDLER_FAILURE_MESSAGE now now' t"
  from assms consider "t' = t" | j where "?c = Inr (j, t')" | j where "?f = Inr (j, t')"
    by (auto simp: finish_job_def split: sum.splits if_splits)
  then show ?thesis
  proof cases
    case 1
    then show ?thesis by (simp add: table_step_refl)
  next
    case (2 j)
    then have "map jb_job_id t' = map jb_job_id t" by (auto simp: complete_job_Inr)
    with complete_table_step [OF 2] show ?thesis by blast
  next
    case (3 j)
    then have "map jb_job_id t' = map jb_job_id t" by (auto dest!: fail_job_Inr)
    with fail_table_step [OF 3] show ?thesis by blast
  qed
qed

text \<open>Every step of the system moves the table by a step and keeps the identifiers distinct.\<close>

lemma system_step_table:
  assumes "system_step workers s s'" and "distinct (map jb_job_id (sy_jobs s))"
  shows "table_step (sy_jobs s) (sy_jobs s') \<and> distinct (map jb_job_id (sy_jobs s'))"
  using assms(1)
proof cases
  case (enqueue fresh now jtype payload audit_id device_id stage j t)
  with enqueue_table_step enqueue_ids assms(2) show ?thesis by auto
next
  case (recover n locked now t)
  then obtain js where r: "recover_stale_jobs 100 locked now (sy_jobs s) = Inr (js, t)"
    by (auto simp: recover_transaction_def)
  moreover from r have "map jb_job_id t = map jb_job_id (sy_jobs s)"
    by (auto simp: recover_stale_jobs_def Let_def)
  ultimately show ?thesis
    using recover assms(2) recover_table_step [OF r assms(2)] by (simp add: at_phase_def)
next
  case (claim_none n locked now t)
  then have "t = sy_jobs s" by (auto simp: claim_transaction_def dest: claim_next_job_None)
  with claim_none assms(2) show ?thesis by (simp add: at_phase_def table_step_refl)
next
  case (claim n locked now j t)
  then have c: "claim_next_job (Some (wk_handlers (workers n))) (wk_lease_owner (workers n))
      (wk_lease_seconds (workers n)) locked now (sy_jobs s) = Inr (Some j, t)"
    by (simp add: claim_transaction_def)
  moreover from c have "map jb_job_id t = map jb_job_id (sy_jobs s)" by (rule claim_next_job_Inr) simp
  ultimately show ?thesis using claim assms(2) claim_table_step [OF assms(2) c] by (simp add: at_phase_def)
next
  case (heartbeat n i jtype now t)
  then obtain j where h: "heartbeat_job i (wk_lease_owner (workers n)) (wk_lease_seconds (workers n)) now
      (sy_jobs s) = Inr (j, t)" by (auto simp: heartbeat_transaction_def)
  moreover from h have "map jb_job_id t = map jb_job_id (sy_jobs s)" by (auto simp: heartbeat_job_Inr)
  ultimately show ?thesis using heartbeat assms(2) heartbeat_table_step [OF h] by simp
next
  case (handler_ends n i jtype handler_failed)
  then show ?thesis using assms(2) by (simp add: at_phase_def table_step_refl)
next
  case (finish n i handler_failed now now' t)
  with assms(2) finish_job_Inr [OF finish(3)] show ?thesis by (simp add: at_phase_def)
next
  case (crash n)
  then show ?thesis using assms(2) by (simp add: at_phase_def table_step_refl)
qed

lemma table_step_started:
  assumes "table_step t t'" and "jobs_by_id t i = Some j" and "jb_status j \<noteq> JS_QUEUED"
  shows "\<exists>j'. jobs_by_id t' i = Some j' \<and> jb_status j' \<noteq> JS_QUEUED"
  using table_step_Some [OF assms(1,2)] assms(3) by (auto elim!: job_moveE simp: clear_lease_def)

text \<open>The claim of a job: it was queued, so no worker had started it.\<close>

lemma claim_fresh:
  assumes "claim_next_job allowed owner seconds locked now t = Inr (Some j', t')" and "distinct (map jb_job_id t)"
  obtains j where "jobs_by_id t (jb_job_id j') = Some j" and "jb_status j = JS_QUEUED"
    and "jobs_by_id t' (jb_job_id j') = Some j'" and "jb_status j' = JS_PROCESSING"
  using assms(1)
proof (rule claim_next_job_Inr)
  fix j o1 e
  assume oldest: "next_queued_for_update allowed locked t = Some j"
    and j': "j' = j\<lparr>jb_status := JS_PROCESSING, jb_attempt_count := jb_attempt_count j + 1,
      jb_started_at := Some now, jb_completed_at := None, jb_lease_owner := Some o1,
      jb_heartbeat_at := Some now, jb_lease_expires_at := Some (now + timedelta_us e)\<rparr>"
    and t': "t' = write_job j' t"
  from next_queued_Some(1,2) [OF oldest] have j: "j \<in> set t" "jb_status j = JS_QUEUED" by (auto simp: queued_for_def)
  from jobs_by_id_member [OF assms(2) j(1)] have "jobs_by_id t (jb_job_id j') = Some j" by (simp add: j')
  moreover from this have "jobs_by_id t' (jb_job_id j') = Some j'" by (simp add: t' write_job_by_id)
  ultimately show thesis using that j(2) by (simp add: j')
qed

lemma started_ok_step:
  assumes "system_step workers s s'" and "system_ok s"
  shows "started_ok s'"
proof -
  have d: "distinct (map jb_job_id (sy_jobs s))" using assms(2) by (simp add: system_ok_def jobs_ok_def)
  have table: "table_step (sy_jobs s) (sy_jobs s')" using system_step_table [OF assms(1) d] by blast
  have old: "\<exists>j. jobs_by_id (sy_jobs s') i = Some j \<and> jb_status j \<noteq> JS_QUEUED" if "i \<in> set (sy_started s)" for i
    using assms(2) that table_step_started [OF table] unfolding system_ok_def started_ok_def by blast
  show ?thesis
  proof (cases "sy_started s' = sy_started s")
    case True
    then show ?thesis using old assms(2) by (simp add: started_ok_def system_ok_def)
  next
    case False
    with assms(1) obtain n locked now j where s': "sy_started s' = sy_started s @ [jb_job_id j]"
      and c: "claim_next_job (Some (wk_handlers (workers n))) (wk_lease_owner (workers n))
        (wk_lease_seconds (workers n)) locked now (sy_jobs s) = Inr (Some j, sy_jobs s')"
      by cases (auto simp: at_phase_def claim_transaction_def)
    from c d obtain q where "jobs_by_id (sy_jobs s) (jb_job_id j) = Some q" "jb_status q = JS_QUEUED"
      and new: "jobs_by_id (sy_jobs s') (jb_job_id j) = Some j" "jb_status j = JS_PROCESSING"
      by (rule claim_fresh)
    then have "jb_job_id j \<notin> set (sy_started s)"
      using assms(2) by (auto simp: system_ok_def started_ok_def)
    with old new assms(2) show ?thesis by (auto simp: started_ok_def system_ok_def s')
  qed
qed

lemma phases_ok_keep:
  assumes "phases_ok s" and "set (sy_started s) \<subseteq> set (sy_started s')"
    and "\<And>m. phase_job (sy_phase s' m) \<in> {None, phase_job (sy_phase s m)}"
  shows "phases_ok s'"
  unfolding phases_ok_def
proof (intro allI impI conjI)
  fix n i assume n: "phase_job (sy_phase s' n) = Some i"
  with assms(3) [of n] have old: "phase_job (sy_phase s n) = Some i" by auto
  with assms(1,2) show "i \<in> set (sy_started s')" by (auto simp: phases_ok_def)
  fix m assume "phase_job (sy_phase s' m) = Some i"
  with assms(3) [of m] have "phase_job (sy_phase s m) = Some i" by auto
  with old assms(1) show "m = n" by (auto simp: phases_ok_def)
qed

lemma phases_ok_step:
  assumes "system_step workers s s'" and "system_ok s"
  shows "phases_ok s'"
  using assms(1)
proof cases
  case (claim n locked now j t)
  have d: "distinct (map jb_job_id (sy_jobs s))" using assms(2) by (simp add: system_ok_def jobs_ok_def)
  from claim have c: "claim_next_job (Some (wk_handlers (workers n))) (wk_lease_owner (workers n))
        (wk_lease_seconds (workers n)) locked now (sy_jobs s) = Inr (Some j, t)"
    by (simp add: claim_transaction_def)
  then obtain q where "jobs_by_id (sy_jobs s) (jb_job_id j) = Some q" "jb_status q = JS_QUEUED"
    using d by (rule claim_fresh)
  then have fresh: "jb_job_id j \<notin> set (sy_started s)"
    using assms(2) by (auto simp: system_ok_def started_ok_def)
  then have free: "phase_job (sy_phase s m) \<noteq> Some (jb_job_id j)" for m
    using assms(2) by (auto simp: system_ok_def phases_ok_def)
  have "phases_ok s" using assms(2) by (simp add: system_ok_def)
  then show ?thesis
    unfolding phases_ok_def claim at_phase_def using free by (auto split: if_splits)
qed (use assms(2) in \<open>auto intro!: phases_ok_keep [of s] simp: system_ok_def at_phase_def split: if_splits\<close>)

lemma system_step_ok: "system_step workers s s' \<Longrightarrow> system_ok s \<Longrightarrow> system_ok s'"
  using system_step_table started_ok_step phases_ok_step table_step_ok
  unfolding system_ok_def by (metis jobs_ok_def)

lemma empty_system_ok: "empty_system s \<Longrightarrow> system_ok s"
  by (simp add: empty_system_def system_ok_def jobs_ok_def started_ok_def phases_ok_def)

interpretation job_queue: refinement_system empty_system "system_step workers" system_ok queue_view queue_spec
  for workers
proof unfold_locales
  fix s s' assume "system_ok s" and step: "system_step workers s s'"
  then have "distinct (map jb_job_id (sy_jobs s))" by (simp add: system_ok_def jobs_ok_def)
  with system_step_table [OF step] table_step_spec show "queue_spec\<^sup>=\<^sup>= (queue_view s) (queue_view s')" by blast
qed (auto intro: empty_system_ok system_step_ok)

end
