(* ===== verification/Job_Theorems.thy ===== *)
theory Job_Theorems
  imports Job_Props
begin

text \<open>The properties of the job queue, each with a run of the system as its witness.\<close>

section \<open>A sample run\<close>

definition sample_worker :: worker where
  "sample_worker = \<lparr>wk_handlers = {JT_SYSTEM_NOOP}, wk_poll_interval_seconds = PInt 1,
     wk_lease_seconds = PInt 60, wk_heartbeat_interval_seconds = PInt 15, wk_lease_owner = ''w''\<rparr>"

definition sample_queued :: job where
  "sample_queued = \<lparr>jb_job_id = 1, jb_job_type = JT_SYSTEM_NOOP, jb_status = JS_QUEUED,
     jb_stage = None, jb_progress = 0, jb_audit_id = None, jb_device_id = None, jb_payload = [],
     jb_attempt_count = 0, jb_error_code = None, jb_error_message = None, jb_created_at = 0,
     jb_started_at = None, jb_completed_at = None, jb_lease_owner = None, jb_heartbeat_at = None,
     jb_lease_expires_at = None\<rparr>"

definition sample_running :: job where
  "sample_running = sample_queued\<lparr>jb_status := JS_PROCESSING, jb_attempt_count := 1,
     jb_started_at := Some 10, jb_lease_owner := Some ''w'', jb_heartbeat_at := Some 10,
     jb_lease_expires_at := Some (10 + timedelta_us (PInt 60))\<rparr>"

definition sample_failed :: job where
  "sample_failed = expire_job (11 + timedelta_us (PInt 60)) sample_running"

definition sample_system :: "job_table \<Rightarrow> worker_phase \<Rightarrow> uuid list \<Rightarrow> system" where
  "sample_system t ph started = \<lparr>sy_jobs = t, sy_phase = (\<lambda>n. if n = 0 then ph else WP_IDLE), sy_started = started\<rparr>"

lemma sample_system_simps:
  "sy_jobs (sample_system t ph started) = t" "sy_phase (sample_system t ph started) 0 = ph"
  "sy_started (sample_system t ph started) = started"
  "at_phase 0 ph' t' (sample_system t ph started) = sample_system t' ph' started"
  "sample_system t ph started\<lparr>sy_started := started'\<rparr> = sample_system t ph started'"
  "sample_system t ph started\<lparr>sy_jobs := t'\<rparr> = sample_system t' ph started"
  by (auto simp: sample_system_def at_phase_def)

lemma sample_owner: "validated_lease_owner ''w'' = Inr ''w''"
  by (simp add: validated_lease_owner_def string_run)

lemma sample_seconds: "validated_lease_seconds (PInt 60) = Inr (PInt 60)"
  by (simp add: validated_lease_seconds_def)

lemma sample_claim:
  "claim_transaction sample_worker {} 10 [sample_queued] = Inr (Some sample_running, [sample_running])"
  by (simp add: claim_transaction_def claim_next_job_def sample_worker_def next_queued_for_update_def
      queued_for_def sample_queued_def sample_running_def sample_owner sample_seconds write_job_def Let_def)

lemma sample_enqueue:
  "enqueue_job 1 0 JT_SYSTEM_NOOP [] None None None [] = Inr (sample_queued, [sample_queued])"
  by (simp add: enqueue_job_def sample_queued_def require_def Let_def)

lemma sample_recover_nothing: "recover_transaction {} 5 [sample_queued] = Inr [sample_queued]"
  by (simp add: recover_transaction_def recover_stale_jobs_def stale_processing_for_update_def
      stale_def sample_queued_def require_def Let_def)

lemma sample_recover:
  "recover_transaction {} (11 + timedelta_us (PInt 60)) [sample_running] = Inr [sample_failed]"
  by (simp add: recover_transaction_def recover_stale_jobs_def stale_processing_for_update_def
      stale_def sample_running_def sample_queued_def sample_failed_def expire_job_def clear_lease_def
      write_job_def require_def Let_def)

lemma sample_running_id: "jb_job_id sample_running = 1" "jb_job_type sample_running = JT_SYSTEM_NOOP"
  by (simp_all add: sample_running_def sample_queued_def)

abbreviation sample_steps :: "system \<Rightarrow> system \<Rightarrow> bool" where
  "sample_steps \<equiv> (system_step (\<lambda>n. sample_worker))\<^sup>*\<^sup>*"

lemma sample_start: "empty_system (sample_system [] WP_IDLE [])"
  by (simp add: empty_system_def sample_system_def)

lemma sample_run_claimed:
  "sample_steps (sample_system [] WP_IDLE []) (sample_system [sample_running] (WP_RUNNING 1 JT_SYSTEM_NOOP) [1])"
proof -
  let ?step = "system_step (\<lambda>n. sample_worker)"
  have "?step (sample_system [] WP_IDLE []) (sample_system [sample_queued] WP_IDLE [])"
    using system_step.enqueue [of 1 "sample_system [] WP_IDLE []"] sample_enqueue
    by (simp add: sample_system_simps)
  moreover have "?step (sample_system [sample_queued] WP_IDLE []) (sample_system [sample_queued] WP_RECOVERED [])"
    using system_step.recover [of "sample_system [sample_queued] WP_IDLE []" 0] sample_recover_nothing
    by (simp add: sample_system_simps)
  moreover have "?step (sample_system [sample_queued] WP_RECOVERED [])
      (sample_system [sample_running] (WP_RUNNING 1 JT_SYSTEM_NOOP) [1])"
    using system_step.claim [of "sample_system [sample_queued] WP_RECOVERED []" 0 "\<lambda>n. sample_worker",
      unfolded sample_system_simps, OF refl sample_claim]
    by (simp add: sample_system_simps sample_running_id)
  ultimately show ?thesis by (blast intro: converse_rtranclp_into_rtranclp)
qed

lemma sample_run_recovered:
  "sample_steps (sample_system [sample_running] (WP_RUNNING 1 JT_SYSTEM_NOOP) [1])
     (sample_system [sample_failed] WP_RECOVERED [1])"
proof -
  let ?step = "system_step (\<lambda>n. sample_worker)"
  have "?step (sample_system [sample_running] (WP_RUNNING 1 JT_SYSTEM_NOOP) [1])
      (sample_system [sample_running] WP_IDLE [1])"
    using system_step.crash [of "\<lambda>n. sample_worker" "sample_system [sample_running] (WP_RUNNING 1 JT_SYSTEM_NOOP) [1]" 0]
    by (simp add: sample_system_simps)
  moreover have "?step (sample_system [sample_running] WP_IDLE [1]) (sample_system [sample_failed] WP_RECOVERED [1])"
    using system_step.recover [of "sample_system [sample_running] WP_IDLE [1]" 0] sample_recover
    by (simp add: sample_system_simps)
  ultimately show ?thesis by (blast intro: converse_rtranclp_into_rtranclp)
qed

lemma job_wf_attempts: "job_wf j \<Longrightarrow> jb_attempt_count j = (if jb_status j = JS_QUEUED then 0 else 1)"
  by (cases "jb_status j") (simp_all add: job_wf_def)

section \<open>Properties of every reachable state\<close>

text \<open>
  C21. A job runs at most once: in every state that any interleaving of services, workers, clocks
  and crashes reaches, no job was handed to a handler twice, no two workers hold the same job, and
  the attempt count of a job is 0 while it is queued and 1 ever after.
\<close>

theorem jobs_run_at_most_once:
  assumes "empty_system s0" and "(system_step workers)\<^sup>*\<^sup>* s0 s"
  shows "distinct (sy_started s)
    \<and> (n = m \<or> phase_job (sy_phase s n) = None \<or> phase_job (sy_phase s n) \<noteq> phase_job (sy_phase s m))
    \<and> list_all (\<lambda>j. jb_attempt_count j = (if jb_status j = JS_QUEUED then 0 else 1)) (sy_jobs s)"
proof -
  have ok: "system_ok s" using job_queue.reachable_good [OF assms] .
  then have "list_all (\<lambda>j. jb_attempt_count j = (if jb_status j = JS_QUEUED then 0 else 1)) (sy_jobs s)"
    using job_wf_attempts by (auto simp: system_ok_def jobs_ok_def list_all_iff)
  moreover have "n = m \<or> phase_job (sy_phase s n) = None \<or> phase_job (sy_phase s n) \<noteq> phase_job (sy_phase s m)"
  proof (cases "phase_job (sy_phase s n)")
    case (Some i)
    with ok show ?thesis unfolding system_ok_def phases_ok_def by fastforce
  qed simp
  ultimately show ?thesis using ok by (simp add: system_ok_def started_ok_def)
qed

theorem jobs_run_at_most_once_witness:
  "distinct (sy_started (sample_system [sample_running] (WP_RUNNING 1 JT_SYSTEM_NOOP) [1]))"
  using jobs_run_at_most_once [OF sample_start sample_run_claimed] by blast

text \<open>
  C23. The rows of the queue keep their shape: identifiers are distinct, a lease is present exactly
  while the job is processing (with an owner of 1 to 128 characters and an expiry not before the
  heartbeat), a terminal job has its completion time, 100 percent when completed and an error code
  when failed.
\<close>

theorem job_rows_consistent:
  assumes "empty_system s0" and "(system_step workers)\<^sup>*\<^sup>* s0 s"
  shows "distinct (map jb_job_id (sy_jobs s)) \<and> list_all job_wf (sy_jobs s)"
  using job_queue.reachable_good [OF assms] by (simp add: system_ok_def jobs_ok_def)

theorem job_rows_consistent_witness:
  "job_wf sample_running"
  using job_rows_consistent [OF sample_start sample_run_claimed] by (simp add: sample_system_def)

text \<open>
  C22. The job table refines its life cycle: seen by identifier, a run of the system is a run of the
  specification, in which a job appears queued, is leased once, and ends completed or failed; no job
  disappears, returns to the queue, or leaves a terminal state.
\<close>

theorem job_queue_refines:
  assumes "empty_system s0" and "(system_step workers)\<^sup>*\<^sup>* s0 s"
  shows "queue_spec\<^sup>*\<^sup>* (\<lambda>i. None) (queue_view s)"
proof -
  have "queue_view s0 = (\<lambda>i. None)" using assms(1) by (auto simp: empty_system_def queue_view_def)
  with job_queue.steps_refine [OF assms(2) empty_system_ok [OF assms(1)]] show ?thesis by simp
qed

theorem job_queue_refines_witness:
  "queue_spec\<^sup>*\<^sup>* (\<lambda>i. None) (queue_view (sample_system [sample_running] (WP_RUNNING 1 JT_SYSTEM_NOOP) [1]))"
  by (rule job_queue_refines [OF sample_start sample_run_claimed])

lemma table_step_terminal:
  "table_step t t' \<Longrightarrow> jobs_by_id t i = Some j \<Longrightarrow> jb_status j \<in> {JS_COMPLETED, JS_FAILED} \<Longrightarrow>
     jobs_by_id t' i = Some j"
  by (drule (1) table_step_Some) (auto elim!: job_moveE)

text \<open>
  Terminal jobs are never touched again: a completed or failed job of a reachable state has the
  same row in every later state.
\<close>

theorem terminal_jobs_stable:
  assumes "empty_system s0" and "(system_step workers)\<^sup>*\<^sup>* s0 s" and "(system_step workers)\<^sup>*\<^sup>* s s'"
    and "jobs_by_id (sy_jobs s) i = Some j" and "jb_status j = JS_COMPLETED \<or> jb_status j = JS_FAILED"
  shows "jobs_by_id (sy_jobs s') i = Some j"
proof (rule job_queue.stable [OF _ assms(3)])
  fix u v assume "system_ok u" and "jobs_by_id (sy_jobs u) i = Some j" and "system_step workers u v"
  then show "jobs_by_id (sy_jobs v) i = Some j"
    using system_step_table [of workers u v] table_step_terminal assms(5)
    by (auto simp: system_ok_def jobs_ok_def)
qed (use job_queue.reachable_good [OF assms(1,2)] assms(4) in auto)

theorem terminal_jobs_stable_witness:
  "jobs_by_id (sy_jobs (sample_system [sample_failed] WP_RECOVERED [1])) 1 = Some sample_failed"
proof -
  have "sample_steps (sample_system [] WP_IDLE []) (sample_system [sample_failed] WP_RECOVERED [1])"
    using sample_run_claimed sample_run_recovered by (rule rtranclp_trans)
  from terminal_jobs_stable [OF sample_start this rtranclp.rtrancl_refl, of 1 sample_failed] show ?thesis
    by (simp add: sample_system_def sample_failed_def sample_running_def sample_queued_def expire_job_def
        clear_lease_def jobs_by_id_Cons)
qed

section \<open>Properties of single operations\<close>

text \<open>
  C24. Claims are first come, first served: when a worker's lease settings are valid, a claim takes
  the oldest queued job of a supported type that no other transaction locks (ties by identifier),
  and finds none exactly when there is none.
\<close>

theorem claims_oldest_first:
  assumes "validated_lease_owner owner = Inr o1" and "validated_lease_seconds seconds = Inr e"
    and "types \<noteq> {}"
  shows "case claim_next_job (Some types) owner seconds locked now t of Inl err \<Rightarrow> False
    | Inr (None, t') \<Rightarrow> t' = t \<and> list_all (\<lambda>j. \<not> queued_for (Some types) locked j) t
    | Inr (Some j', t') \<Rightarrow>
        jb_status j' = JS_PROCESSING \<and> jb_lease_owner j' = Some o1 \<and> t' = write_job j' t
        \<and> list_ex (\<lambda>j. queued_for (Some types) locked j \<and> jb_job_id j = jb_job_id j') t
        \<and> list_all (\<lambda>j. \<not> queued_for (Some types) locked j
             \<or> (jb_created_at j', jb_job_id j') \<le> (jb_created_at j, jb_job_id j)) t"
proof (cases "next_queued_for_update (Some types) locked t")
  case None
  then have "list_all (\<lambda>j. \<not> queued_for (Some types) locked j) t"
    unfolding next_queued_None list_all_iff .
  with None assms show ?thesis by (simp add: claim_next_job_def)
next
  case (Some j)
  from next_queued_Some [OF Some] have "list_ex (\<lambda>x. queued_for (Some types) locked x \<and> jb_job_id x = jb_job_id j) t"
    and "list_all (\<lambda>x. \<not> queued_for (Some types) locked x
           \<or> (jb_created_at j, jb_job_id j) \<le> (jb_created_at x, jb_job_id x)) t"
    unfolding list_ex_iff list_all_iff by blast+
  with Some assms show ?thesis by (simp add: claim_next_job_def Let_def)
qed

theorem claims_oldest_first_witness:
  "case claim_next_job (Some {JT_SYSTEM_NOOP}) ''w'' (PInt 60) {} 10 [sample_queued] of Inl err \<Rightarrow> False
    | Inr (None, t') \<Rightarrow> False | Inr (Some j', t') \<Rightarrow> jb_lease_owner j' = Some ''w''"
proof -
  have "queued_for (Some {JT_SYSTEM_NOOP}) {} sample_queued" by (simp add: queued_for_def sample_queued_def)
  with claims_oldest_first [OF sample_owner sample_seconds, where types = "{JT_SYSTEM_NOOP}" and t = "[sample_queued]" and locked = "{}" and now = 10]
  show ?thesis by (auto split: sum.splits option.splits)
qed

text \<open>
  C25. A lease is either live or recoverable, never both: while an owner can still renew, complete or
  fail a job, recovery at the same instant leaves the job alone; once recovery has failed the job,
  the owner's terminal transaction changes nothing.
\<close>

theorem recovery_excludes_owner:
  assumes "distinct (map jb_job_id t)" and "recover_transaction locked now t = Inr t'"
    and "jobs_by_id t i = Some j"
  shows "if live_lease t i owner now j then jobs_by_id t' i = Some j
    else jobs_by_id t' i = Some j
      \<or> finish_job w i handler_failed later later' t' = Inr t'"
proof -
  from assms(2) obtain js where r: "recover_stale_jobs 100 locked now t = Inr (js, t')"
    by (auto simp: recover_transaction_def)
  let ?stale = "stale_processing_for_update t locked now (nat 100)"
  have by_id: "jobs_by_id t' i = Some (if j \<in> set ?stale then expire_job now j else j)"
    using recover_stale_jobs_by_id [OF r assms(1), of i] assms(3) by simp
  show ?thesis
  proof (cases "j \<in> set ?stale")
    case False
    with by_id show ?thesis by simp
  next
    case True
    then have "stale now j" using stale_processing_subset by fast
    then have dead: "\<not> live_lease t i owner now j"
      by (auto simp: stale_def live_lease_def split: option.splits)
    from True by_id have "by_id_for_update t' i = Some (expire_job now j)" by (simp add: jobs_by_id_def)
    then have "owned_processing_job t' i (wk_lease_owner w) = Inl (Exc InvalidJobTransitionError
        ''Job must be processing, not failed'')"
      by (simp add: owned_processing_job_def expire_job_def clear_lease_def require_def)
    moreover have "error_code_pattern (py_strip HANDLER_FAILURE_CODE)" "py_strip HANDLER_FAILURE_MESSAGE = HANDLER_FAILURE_MESSAGE"
      by (simp_all add: error_code_pattern_def HANDLER_FAILURE_CODE_def HANDLER_FAILURE_MESSAGE_def string_run)
    ultimately have "finish_job w i handler_failed later later' t' = Inr t'"
      by (simp add: finish_job_def complete_job_def fail_job_def Let_def require_def
          HANDLER_FAILURE_MESSAGE_def newline_def cret_def)
    with dead show ?thesis by simp
  qed
qed

theorem recovery_excludes_owner_witness:
  "finish_job sample_worker 1 False 0 0 [sample_failed] = Inr [sample_failed]"
proof -
  have "\<not> live_lease [sample_running] 1 ''w'' (11 + timedelta_us (PInt 60)) sample_running"
    by (simp add: live_lease_def sample_running_def)
  moreover have "jobs_by_id [sample_failed] 1 \<noteq> Some sample_running"
    by (simp add: jobs_by_id_Cons sample_failed_def sample_running_def sample_queued_def expire_job_def clear_lease_def)
  ultimately show ?thesis
    using recovery_excludes_owner [OF _ sample_recover, of 1 sample_running "''w''" sample_worker False 0 0]
    by (simp add: jobs_by_id_Cons sample_running_id)
qed

section \<open>Recovery\<close>

fun recovery_rounds :: "nat \<Rightarrow> int \<Rightarrow> job_table \<Rightarrow> exc + job_table" where
  "recovery_rounds 0 now t = Inr t"
| "recovery_rounds (Suc k) now t = and_then (recover_transaction {} now t) (recovery_rounds k now)"

lemma table_eqI:
  assumes "map jb_job_id t = map jb_job_id t'" and "distinct (map jb_job_id t)"
    and "\<And>i. jobs_by_id t i = jobs_by_id t' i"
  shows "t = t'"
proof (rule nth_equalityI)
  show len: "length t = length t'" using assms(1) by (rule map_eq_imp_length_eq)
  fix k assume k: "k < length t"
  have d: "distinct (map jb_job_id t')" using assms(1,2) by simp
  have ids: "jb_job_id (t ! k) = jb_job_id (t' ! k)"
    using arg_cong [OF assms(1), of "\<lambda>l. l ! k"] k len by simp
  have "Some (t ! k) = jobs_by_id t (jb_job_id (t ! k))"
    using jobs_by_id_member [OF assms(2)] k by simp
  also have "\<dots> = jobs_by_id t' (jb_job_id (t' ! k))" unfolding ids by (rule assms(3))
  also have "\<dots> = Some (t' ! k)" using jobs_by_id_member [OF d] k len by simp
  finally show "t ! k = t' ! k" by simp
qed

lemma expire_some_ids: "map jb_job_id (map (\<lambda>j. if Q j then expire_job now j else j) t) = map jb_job_id t"
  by (induction t) auto

lemma recover_transaction_map:
  assumes "distinct (map jb_job_id t)"
  shows "recover_transaction locked now t = Inr (map (\<lambda>j.
    if j \<in> set (stale_processing_for_update t locked now 100) then expire_job now j else j) t)"
proof -
  let ?P = "stale_processing_for_update t locked now 100"
  let ?f = "\<lambda>j. if j \<in> set ?P then expire_job now j else j"
  have r: "recover_stale_jobs 100 locked now t = Inr (map (expire_job now) ?P, fold write_job (map (expire_job now) ?P) t)"
    by (simp add: recover_stale_jobs_def require_def Let_def)
  have "fold write_job (map (expire_job now) ?P) t = map ?f t"
  proof (rule table_eqI)
    show "map jb_job_id (fold write_job (map (expire_job now) ?P) t) = map jb_job_id (map ?f t)"
      unfolding expire_some_ids by simp
    show "distinct (map jb_job_id (fold write_job (map (expire_job now) ?P) t))" using assms by simp
    show "jobs_by_id (fold write_job (map (expire_job now) ?P) t) i = jobs_by_id (map ?f t) i" for i
      using recover_stale_jobs_by_id [OF r assms] by (subst jobs_by_id_map) simp_all
  qed
  with r show ?thesis by (simp add: recover_transaction_def)
qed

lemma expire_not_stale [simp]: "\<not> stale now (expire_job now' j)"
  by (simp add: stale_def expire_job_def clear_lease_def)

lemma stale_after_round:
  assumes "distinct (map jb_job_id t)" and "P = stale_processing_for_update t {} now 100"
  shows "length (filter (stale now) (map (\<lambda>j. if j \<in> set P then expire_job now j else j) t))
    = length (filter (stale now) t) - 100"
proof -
  have d: "distinct t" using assms(1) by (simp add: distinct_map)
  have dP: "distinct P" using stale_processing_distinct [OF assms(1)] assms(2) by (simp add: distinct_map)
  have P: "set P \<subseteq> set (filter (stale now) t)"
    using stale_processing_subset [of t "{}" now 100] unfolding assms(2) by auto
  have lenP: "length P = min 100 (length (filter (stale now) t))"
    by (simp add: assms(2) stale_processing_for_update_def min.commute)
  have "filter (stale now) (map (\<lambda>j. if j \<in> set P then expire_job now j else j) t) =
      filter (\<lambda>j. j \<notin> set P) (filter (stale now) t)"
    by (induction t) auto
  moreover have "length (filter (\<lambda>j. j \<notin> set P) (filter (stale now) t)) = card (set (filter (stale now) t) - set P)"
    using d by (subst distinct_card [symmetric]) (auto intro: arg_cong [of _ _ card])
  moreover have "card (set (filter (stale now) t) - set P) = length (filter (stale now) t) - length P"
    using card_Diff_subset [OF finite_set P] distinct_card [OF distinct_filter [OF d]] distinct_card [OF dP]
    by metis
  ultimately show ?thesis using lenP by simp
qed

text \<open>
  C26. Expired jobs are recovered: as each round of recovery fails up to 100 stale jobs, after enough
  rounds for their number every stale job is failed with the code of an expired lease, every other
  job is as it was, and no stale job is left.
\<close>

theorem recovery_drains:
  assumes "distinct (map jb_job_id t)" and "length (filter (stale now) t) \<le> 100 * k"
  shows "recovery_rounds k now t = Inr (map (\<lambda>j. if stale now j then expire_job now j else j) t)"
  using assms
proof (induction k arbitrary: t)
  case 0
  then have "\<forall>j \<in> set t. \<not> stale now j" by (simp add: filter_empty_conv)
  then show ?case by (simp add: map_idI)
next
  case (Suc k)
  define P where "P = stale_processing_for_update t {} now 100"
  let ?t = "map (\<lambda>j. if j \<in> set P then expire_job now j else j) t"
  have "distinct (map jb_job_id ?t)" unfolding expire_some_ids by (rule Suc.prems(1))
  moreover have "length (filter (stale now) ?t) \<le> 100 * k"
    using stale_after_round [OF Suc.prems(1) P_def] Suc.prems(2) by simp
  ultimately have "recovery_rounds k now ?t = Inr (map (\<lambda>j. if stale now j then expire_job now j else j) ?t)"
    by (rule Suc.IH)
  moreover have "stale now j" if "j \<in> set P" for j
    using stale_processing_subset [of t "{}" now 100] that unfolding P_def by auto
  then have "map (\<lambda>j. if stale now j then expire_job now j else j) ?t
      = map (\<lambda>j. if stale now j then expire_job now j else j) t" by auto
  ultimately show ?case using recover_transaction_map [OF Suc.prems(1)] by (simp add: P_def)
qed

theorem recovery_drains_witness:
  "recovery_rounds 1 (11 + timedelta_us (PInt 60)) [sample_running] = Inr [sample_failed]"
proof -
  have "stale (11 + timedelta_us (PInt 60)) sample_running" by (simp add: stale_def sample_running_def)
  with recovery_drains [of "[sample_running]" "11 + timedelta_us (PInt 60)" 1] show ?thesis
    by (simp add: sample_failed_def)
qed

end
