(* ===== verification/Training_Dsl.thy ===== *)
theory Training_Dsl
  imports Tree_Readers Profiles
begin

text \<open>
  The bounded mapping language (\<open>training/dsl.py\<close>): its models with their bounds, the matching of
  CLI statements, XML elements and JSON values, and the extraction of a value.  A model is a
  record; the constraints that its fields and validators state are a check.  What pydantic itself
  does (reading a model from a dictionary and dumping it) is a parameter, \<open>pydantic\<close>.
\<close>

section \<open>Models\<close>

datatype capture_type = CT_STRING | CT_INTEGER | CT_NUMBER | CT_BOOLEAN | CT_IP_ADDRESS

datatype pattern_operation = PO_LITERAL | PO_CAPTURE | PO_OPTIONAL | PO_ONE_OF

record argument_pattern =
  tp_operation :: pattern_operation
  tp_value :: "string option"
  tp_name :: "string option"
  tp_value_type :: "capture_type option"
  tp_options :: "string list"

datatype occurrence_mode = OM_EXACT | OM_ANY

record xml_path_segment =
  xs_local_name :: string
  xs_namespace_uri :: "string option"
  xs_occurrence :: occurrence_mode
  xs_index :: int

datatype value_source = VS_PRESENCE | VS_TEXT | VS_ATTRIBUTE | VS_VALUE

record xml_path_match =
  xm_path :: "xml_path_segment list"
  xm_source :: value_source
  xm_attribute :: "string option"
  xm_capture :: "string option"
  xm_value_type :: "capture_type option"

record json_path_segment =
  js_key :: "string option"
  js_index :: "int option"

record json_path_match =
  jm_path :: "json_path_segment list"
  jm_source :: value_source
  jm_capture :: "string option"
  jm_value_type :: "capture_type option"

datatype match_operation = MO_COMMAND_EQUALITY | MO_COMMAND_PREFIX | MO_XML_PATH | MO_JSON_PATH

record structural_match =
  sm_operation :: match_operation
  sm_command :: string
  sm_arguments :: "argument_pattern list"
  sm_minimum_arguments :: "int option"
  sm_maximum_arguments :: "int option"
  sm_parent_command :: "string option"
  sm_ancestor_commands :: "string list"
  sm_scope_type :: "string option"
  sm_negated :: "bool option"
  sm_xml_path :: "xml_path_match option"
  sm_json_path :: "json_path_match option"

datatype extraction_operation =
    EX_CAPTURE | EX_CONSTANT | EX_BOOLEAN_FROM_PRESENCE | EX_ENUM_MAPPING | EX_INTEGER | EX_NUMBER
  | EX_LIST | EX_DURATION_FROM_PARTS

record value_extraction =
  ve_operation :: extraction_operation
  ve_capture :: "string option"
  ve_value :: pyval
  ve_values :: "string list"
  ve_enum_map :: "(string \<times> string) list"
  ve_parts :: "string list"
  ve_output_type :: typed_value_type

datatype unit_conversion = UC_NONE | UC_MINUTES_TO_SECONDS | UC_HOURS_TO_SECONDS | UC_MILLISECONDS_TO_SECONDS

record scope_resolution =
  sr_strategy :: string
  sr_xml_unsupported_qualifier_paths :: "string list list"

datatype explicit_behavior =
    EB_UNSUPPORTED | EB_EMIT_VALUE | EB_RESET_TO_DEFAULT | EB_REMOVE_VALUE | EB_INVERT_BOOLEAN | EB_UNKNOWN

record validation_node =
  vn_command :: string
  vn_arguments :: "string list"
  vn_parent_command :: "string option"
  vn_ancestor_commands :: "string list"
  vn_scope_type :: "string option"
  vn_negated :: bool

datatype example_family =
    FA_POSITIVE | FA_ALTERNATE_VALUES | FA_NEGATIVE | FA_WRONG_SCOPE | FA_NEGATION | FA_CONFLICT | FA_REGRESSION

record mapping_example =
  me_family :: example_family
  me_node :: validation_node
  me_expected_match :: bool
  me_expected_value :: pyval

record profile_applicability =
  pa_profile_ids :: "string list"
  pa_profile_version_ids :: "string list"

record mapping_definition =
  md_profile_applicability :: profile_applicability
  md_structural_match :: structural_match
  md_target_field_id :: string
  md_value_extraction :: value_extraction
  md_unit_conversion :: unit_conversion
  md_scope_resolution :: scope_resolution
  md_negation_behavior :: explicit_behavior
  md_removal_behavior :: explicit_behavior
  md_default_behavior :: explicit_behavior
  md_examples :: "mapping_example list"

record pydantic =
  py_model_validate :: "(string \<times> pyval) list \<Rightarrow> exc + mapping_definition"
  py_model_dump :: "mapping_definition \<Rightarrow> (string \<times> pyval) list"

section \<open>Bounds and validators\<close>

definition MAX_MAPPING_BYTES :: nat where "MAX_MAPPING_BYTES = 64 * 1024"
definition MAX_DSL_DEPTH :: nat where "MAX_DSL_DEPTH = 12"

definition safe_char :: "char \<Rightarrow> bool" where
  "safe_char c = (is_alpha c \<or> is_digit c \<or> c \<in> {CHR ''_'', CHR ''.'', CHR '':'', CHR ''/'', CHR 0x40, CHR ''-''})"

definition safe_token :: "string \<Rightarrow> bool" where
  "safe_token s = (s \<noteq> [] \<and> length s \<le> 255 \<and> list_all safe_char s)"

definition safe_value :: "string option \<Rightarrow> bool" where
  "safe_value v = (case v of None \<Rightarrow> False | Some s \<Rightarrow> safe_token s)"

definition is_identifier :: "string \<Rightarrow> bool" where
  "is_identifier s = (case s of [] \<Rightarrow> False
     | c # cs \<Rightarrow> is_alpha c \<and> length cs \<le> 63 \<and> list_all (\<lambda>c. is_alpha c \<or> is_digit c \<or> c = CHR ''_'') cs)"

abbreviation model_refused :: "string \<Rightarrow> exc" where
  "model_refused m \<equiv> Exc ValidationError m"

abbreviation within :: "nat \<Rightarrow> nat \<Rightarrow> 'a list \<Rightarrow> bool" where
  "within lo hi xs \<equiv> lo \<le> length xs \<and> length xs \<le> hi"

definition opt_within :: "nat \<Rightarrow> nat \<Rightarrow> string option \<Rightarrow> bool" where
  "opt_within lo hi v = (case v of None \<Rightarrow> True | Some s \<Rightarrow> within lo hi s)"

definition check_argument_pattern :: "argument_pattern \<Rightarrow> exc + unit" where
  "check_argument_pattern p =
     and_then (require (within 0 32 (tp_options p)) (model_refused ''options'')) (\<lambda>_.
     and_then (require (tp_value_type p \<noteq> Some CT_IP_ADDRESS) (model_refused ''value_type'')) (\<lambda>_.
     case tp_operation p of
       PO_LITERAL \<Rightarrow> require (safe_value (tp_value p)) (model_refused ''literal requires a safe bounded value'')
     | PO_CAPTURE \<Rightarrow> require ((case tp_name p of None \<Rightarrow> False | Some n \<Rightarrow> is_identifier n) \<and> tp_value_type p \<noteq> None)
         (model_refused ''capture requires a typed identifier'')
     | PO_OPTIONAL \<Rightarrow> require (safe_value (tp_value p)) (model_refused ''optional requires a safe bounded value'')
     | PO_ONE_OF \<Rightarrow> require (tp_options p \<noteq> [] \<and> list_all safe_token (tp_options p))
         (model_refused ''one_of requires safe bounded alternatives'')))"

definition xml_local_name :: "string \<Rightarrow> bool" where
  "xml_local_name s = (case s of [] \<Rightarrow> False
     | c # cs \<Rightarrow> (is_alpha c \<or> c = CHR ''_'') \<and> length cs \<le> 127 \<and>
         list_all (\<lambda>c. is_alpha c \<or> is_digit c \<or> c \<in> {CHR ''_'', CHR ''.'', CHR ''-''}) cs)"

definition check_xml_segment :: "xml_path_segment \<Rightarrow> exc + unit" where
  "check_xml_segment s =
     and_then (require (within 1 128 (xs_local_name s) \<and> opt_within 0 512 (xs_namespace_uri s)
         \<and> 1 \<le> xs_index s \<and> xs_index s \<le> 1024) (model_refused ''segment'')) (\<lambda>_.
     and_then (require (xml_local_name (xs_local_name s)) (model_refused ''XML path segment is invalid'')) (\<lambda>_.
     require (case xs_namespace_uri s of None \<Rightarrow> True
         | Some u \<Rightarrow> prefix ''http://'' u \<or> prefix ''https://'' u \<or> prefix ''urn:'' u)
       (model_refused ''XML namespace URI is invalid'')))"

definition opt_truthy :: "string option \<Rightarrow> bool" where
  "opt_truthy v = (case v of None \<Rightarrow> False | Some s \<Rightarrow> s \<noteq> [])"

definition identifier_if_given :: "string option \<Rightarrow> bool" where
  "identifier_if_given v = (case v of None \<Rightarrow> True | Some s \<Rightarrow> s = [] \<or> is_identifier s)"

definition check_xml_match :: "xml_path_match \<Rightarrow> exc + unit" where
  "check_xml_match m =
     and_then (require (within 1 16 (xm_path m) \<and> opt_within 0 128 (xm_attribute m)
         \<and> xm_source m \<noteq> VS_VALUE) (model_refused ''match'')) (\<lambda>_.
     and_then (each_res check_xml_segment (xm_path m)) (\<lambda>_.
     and_then (require (xm_source m \<noteq> VS_ATTRIBUTE \<or> opt_truthy (xm_attribute m))
       (model_refused ''XML attribute source requires an attribute'')) (\<lambda>_.
     and_then (require (identifier_if_given (xm_capture m)) (model_refused ''XML capture is invalid'')) (\<lambda>_.
     and_then (require (xm_source m = VS_PRESENCE \<or> opt_truthy (xm_capture m))
       (model_refused ''XML value source requires a capture'')) (\<lambda>_.
     require (identifier_if_given (xm_attribute m)) (model_refused ''XML attribute is invalid''))))))"

definition check_json_segment :: "json_path_segment \<Rightarrow> exc + unit" where
  "check_json_segment s =
     and_then (require (opt_within 1 128 (js_key s)
         \<and> (case js_index s of None \<Rightarrow> True | Some i \<Rightarrow> 0 \<le> i \<and> i \<le> 100000)) (model_refused ''segment'')) (\<lambda>_.
     and_then (require ((js_key s = None) \<noteq> (js_index s = None))
       (model_refused ''JSON path segment requires exactly one key or index'')) (\<lambda>_.
     require (case js_key s of None \<Rightarrow> True | Some k \<Rightarrow> list_all (\<lambda>c. 32 \<le> code_of c) k)
       (model_refused ''JSON path key is invalid'')))"

definition check_json_match :: "json_path_match \<Rightarrow> exc + unit" where
  "check_json_match m =
     and_then (require (within 1 16 (jm_path m) \<and> jm_source m \<in> {VS_PRESENCE, VS_VALUE}) (model_refused ''match'')) (\<lambda>_.
     and_then (each_res check_json_segment (jm_path m)) (\<lambda>_.
     and_then (require (jm_source m \<noteq> VS_VALUE \<or> opt_truthy (jm_capture m) \<and> jm_value_type m \<noteq> None)
       (model_refused ''JSON value source requires a typed capture'')) (\<lambda>_.
     require (identifier_if_given (jm_capture m)) (model_refused ''JSON capture is invalid''))))"

definition scope_strategies :: "string list" where
  "scope_strategies = [''device'', ''current_scope'', ''parent_scope'', ''management_plane'', ''vty_range'',
     ''interface'', ''interface_range'', ''vrf'', ''security_zone'', ''global'']"

definition count_within :: "int option \<Rightarrow> bool" where
  "count_within v = (case v of None \<Rightarrow> True | Some i \<Rightarrow> 0 \<le> i \<and> i \<le> 64)"

definition check_structural_match :: "structural_match \<Rightarrow> exc + unit" where
  "check_structural_match m =
     and_then (require (within 1 100 (sm_command m) \<and> within 0 32 (sm_arguments m)
         \<and> count_within (sm_minimum_arguments m) \<and> count_within (sm_maximum_arguments m)
         \<and> opt_within 0 100 (sm_parent_command m) \<and> within 0 8 (sm_ancestor_commands m)
         \<and> (case sm_scope_type m of None \<Rightarrow> True | Some s \<Rightarrow> s \<in> set scope_strategies)) (model_refused ''match'')) (\<lambda>_.
     and_then (each_res check_argument_pattern (sm_arguments m)) (\<lambda>_.
     and_then (case sm_xml_path m of None \<Rightarrow> Inr () | Some x \<Rightarrow> check_xml_match x) (\<lambda>_.
     and_then (case sm_json_path m of None \<Rightarrow> Inr () | Some j \<Rightarrow> check_json_match j) (\<lambda>_.
     if sm_operation m = MO_XML_PATH
     then require (sm_xml_path m \<noteq> None \<and> sm_json_path m = None) (model_refused ''xml_path operation requires an XML path'')
     else if sm_operation m = MO_JSON_PATH
     then require (sm_json_path m \<noteq> None \<and> sm_xml_path m = None) (model_refused ''json_path operation requires a JSON path'')
     else
       and_then (require (sm_xml_path m = None \<and> sm_json_path m = None)
         (model_refused ''Structured paths require a matching structured operation'')) (\<lambda>_.
       and_then (require (list_all safe_token (sm_command m # sm_ancestor_commands m)
           \<and> (case sm_parent_command m of None \<Rightarrow> True | Some p \<Rightarrow> p = [] \<or> safe_token p))
         (model_refused ''matcher contains an unsafe token'')) (\<lambda>_.
       require (case (sm_minimum_arguments m, sm_maximum_arguments m) of
           (Some lo, Some hi) \<Rightarrow> lo \<le> hi | _ \<Rightarrow> True) (model_refused ''argument range is invalid'')))))))"

definition check_value_extraction :: "value_extraction \<Rightarrow> exc + unit" where
  "check_value_extraction x =
     and_then (require (within 0 32 (ve_values x) \<and> within 0 8 (ve_parts x)) (model_refused ''extraction'')) (\<lambda>_.
     and_then (require (identifier_if_given (ve_capture x) \<and> list_all is_identifier (ve_parts x))
       (model_refused ''extraction references an invalid capture'')) (\<lambda>_.
     and_then (require (ve_operation x \<notin> {EX_CAPTURE, EX_INTEGER, EX_NUMBER} \<or> opt_truthy (ve_capture x))
       (model_refused ''extraction operation requires a capture'')) (\<lambda>_.
     and_then (require (ve_operation x \<noteq> EX_ENUM_MAPPING \<or> opt_truthy (ve_capture x) \<and> ve_enum_map x \<noteq> [])
       (model_refused ''enum mapping requires a capture and values'')) (\<lambda>_.
     require (ve_operation x \<noteq> EX_DURATION_FROM_PARTS \<or> ve_parts x \<noteq> [])
       (model_refused ''duration extraction requires captured parts'')))))"

definition check_scope_resolution :: "scope_resolution \<Rightarrow> exc + unit" where
  "check_scope_resolution s =
     and_then (require (sr_strategy s \<in> set scope_strategies
         \<and> within 0 8 (sr_xml_unsupported_qualifier_paths s)) (model_refused ''scope'')) (\<lambda>_.
     require (list_all (\<lambda>path. path \<noteq> [] \<and> length path \<le> 8 \<and> list_all safe_token path)
         (sr_xml_unsupported_qualifier_paths s)) (model_refused ''XML qualifier paths are malformed''))"

definition check_validation_node :: "validation_node \<Rightarrow> exc + unit" where
  "check_validation_node n =
     require (within 1 100 (vn_command n) \<and> within 0 64 (vn_arguments n) \<and> opt_within 0 100 (vn_parent_command n)
       \<and> within 0 8 (vn_ancestor_commands n) \<and> opt_within 0 64 (vn_scope_type n)) (model_refused ''node'')"

definition check_profile_applicability :: "profile_applicability \<Rightarrow> exc + unit" where
  "check_profile_applicability a =
     and_then (require (within 0 32 (pa_profile_ids a) \<and> within 1 32 (pa_profile_version_ids a))
       (model_refused ''applicability'')) (\<lambda>_.
     require (list_all safe_token (pa_profile_ids a) \<and> list_all safe_token (pa_profile_version_ids a))
       (model_refused ''profile applicability contains an unsafe identifier''))"

text \<open>The nesting of a dumped model.\<close>

fun json_depth :: "pyval \<Rightarrow> nat" where
  "json_depth (PDict d) = 1 + fold max (map snd (map (\<lambda>(k, v). (k, json_depth v)) d)) 0"
| "json_depth (PList vs) = 1 + fold max (map json_depth vs) 0"
| "json_depth v = 0"

definition check_mapping_definition :: "((string \<times> pyval) list) \<Rightarrow> mapping_definition \<Rightarrow> exc + unit" where
  "check_mapping_definition payload d =
     and_then (check_profile_applicability (md_profile_applicability d)) (\<lambda>_.
     and_then (check_structural_match (md_structural_match d)) (\<lambda>_.
     and_then (require (within 1 255 (md_target_field_id d)) (model_refused ''target_field_id'')) (\<lambda>_.
     and_then (check_value_extraction (md_value_extraction d)) (\<lambda>_.
     and_then (check_scope_resolution (md_scope_resolution d)) (\<lambda>_.
     and_then (require (within 0 100 (md_examples d)) (model_refused ''examples'')) (\<lambda>_.
     and_then (each_res (\<lambda>e. check_validation_node (me_node e)) (md_examples d)) (\<lambda>_.
     and_then (get_field (md_target_field_id d)) (\<lambda>field.
     and_then (require (ve_output_type (md_value_extraction d) \<in> cf_expected_types field)
       (model_refused ''extraction output type is incompatible with canonical field'')) (\<lambda>_.
     and_then (require (sr_strategy (md_scope_resolution d) \<in> cf_allowed_scope_types field)
       (model_refused ''scope strategy is incompatible with canonical field'')) (\<lambda>_.
     and_then (require (sm_operation (md_structural_match d) \<notin> {MO_XML_PATH, MO_JSON_PATH}
         \<or> sr_strategy (md_scope_resolution d) \<in> {''device'', ''global''})
       (model_refused ''structured mappings support only device or global scope'')) (\<lambda>_.
     and_then (require (sm_operation (md_structural_match d) = MO_XML_PATH
         \<or> sr_xml_unsupported_qualifier_paths (md_scope_resolution d) = [])
       (model_refused ''XML qualifier paths require an XML mapping'')) (\<lambda>_.
     and_then (require (length (json_dump (PDict payload)) \<le> MAX_MAPPING_BYTES)
       (model_refused ''mapping definition is too large'')) (\<lambda>_.
     require (json_depth (PDict payload) \<le> MAX_DSL_DEPTH)
       (model_refused ''mapping definition is too deeply nested''))))))))))))))"

section \<open>Typed captures\<close>

type_synonym captures = "(string \<times> pyval) list"

definition typed :: "pyval \<Rightarrow> capture_type \<Rightarrow> exc + pyval" where
  "typed v kind = (case kind of
     CT_INTEGER \<Rightarrow> if is_bool v then Inl (Exc ValueError []) else and_then (py_int_of v) (\<lambda>i. Inr (PInt i))
   | CT_NUMBER \<Rightarrow> if is_bool v then Inl (Exc ValueError []) else py_float v
   | CT_BOOLEAN \<Rightarrow>
       if is_bool v then Inr v
       else if \<not> hashable v then Inl (Exc TypeError ''unhashable type'')
       else if v = PStr ''true'' then Inr (PBool True)
       else if v = PStr ''false'' then Inr (PBool False)
       else Inl (Exc ValueError [])
   | _ \<Rightarrow> (case v of PStr s \<Rightarrow> Inr v | _ \<Rightarrow> Inl (Exc ValueError [])))"

definition capture_name :: "string option \<Rightarrow> string" where
  "capture_name n = (case n of None \<Rightarrow> [] | Some s \<Rightarrow> s)"

definition capture_kind :: "capture_type option \<Rightarrow> capture_type" where
  "capture_kind k = (case k of None \<Rightarrow> CT_STRING | Some t \<Rightarrow> t)"

section \<open>CLI statements\<close>

text \<open>The patterns against the arguments; a capture that does not convert is no match.\<close>

fun match_arguments :: "argument_pattern list \<Rightarrow> string list \<Rightarrow> captures \<Rightarrow> exc + captures option" where
  "match_arguments [] args captures = Inr (Some captures)"
| "match_arguments (p # ps) args captures =
     (if tp_operation p = PO_OPTIONAL then
        (if args \<noteq> [] \<and> tp_value p = Some (hd args) then match_arguments ps (tl args) captures
         else match_arguments ps args captures)
      else if args = [] then Inr None
      else let v = hd args in
        if tp_operation p = PO_LITERAL \<and> tp_value p \<noteq> Some v then Inr None
        else if tp_operation p = PO_ONE_OF \<and> v \<notin> set (tp_options p) then Inr None
        else if tp_operation p = PO_CAPTURE then
          (case typed (PStr v) (capture_kind (tp_value_type p)) of
             Inl e \<Rightarrow> if is_value_error (exc_class e) then Inr None else Inl e
           | Inr x \<Rightarrow> match_arguments ps (tl args) (dict_put (capture_name (tp_name p)) x captures))
        else match_arguments ps (tl args) captures)"

text \<open>The conditions on the statement around its arguments.\<close>

definition statement_admitted :: "structural_match \<Rightarrow> validation_node \<Rightarrow> bool" where
  "statement_admitted m node =
     (sm_operation m \<notin> {MO_XML_PATH, MO_JSON_PATH}
      \<and> (if sm_operation m = MO_COMMAND_EQUALITY then vn_command node = sm_command m
          else prefix (sm_command m) (vn_command node))
      \<and> (case sm_negated m of None \<Rightarrow> True | Some b \<Rightarrow> vn_negated node = b)
      \<and> (case sm_parent_command m of None \<Rightarrow> True | Some p \<Rightarrow> vn_parent_command node = Some p)
      \<and> list_all (\<lambda>a. a \<in> set (vn_ancestor_commands node)) (sm_ancestor_commands m)
      \<and> (case sm_scope_type m of None \<Rightarrow> True | Some s \<Rightarrow> vn_scope_type node = Some s)
      \<and> (case sm_minimum_arguments m of None \<Rightarrow> True | Some lo \<Rightarrow> lo \<le> int (length (vn_arguments node)))
      \<and> (case sm_maximum_arguments m of None \<Rightarrow> True | Some hi \<Rightarrow> int (length (vn_arguments node)) \<le> hi))"

definition matches :: "mapping_definition \<Rightarrow> validation_node \<Rightarrow> exc + captures option" where
  "matches d node =
     (if statement_admitted (md_structural_match d) node
      then match_arguments (sm_arguments (md_structural_match d)) (vn_arguments node) []
      else Inr None)"

section \<open>XML elements\<close>

text \<open>The occurrence number of a path step \<open>tag[k]\<close>.\<close>

definition step_occurrence :: "string \<Rightarrow> exc + int" where
  "step_occurrence step = (case snd (rsplit_bracket step) of
     None \<Rightarrow> Inl (Exc IndexError ''list index out of range'')
   | Some r \<Rightarrow> py_int_of (PStr (butlast r)))"

fun xml_steps_match :: "string list \<Rightarrow> xml_path_segment list \<Rightarrow> exc + bool" where
  "xml_steps_match (step # steps) (seg # segs) =
     and_then (step_occurrence step) (\<lambda>k.
     case xml_name (fst (rsplit_bracket step)) of (namespace, loc) \<Rightarrow>
       if loc \<noteq> xs_local_name seg
          \<or> (case xs_namespace_uri seg of None \<Rightarrow> False | Some u \<Rightarrow> namespace \<noteq> Some u)
          \<or> (xs_occurrence seg = OM_EXACT \<and> k \<noteq> xs_index seg)
       then Inr False else xml_steps_match steps segs)"
| "xml_steps_match _ _ = Inr True"

definition xml_raw :: "xml_path_match \<Rightarrow> xml_node \<Rightarrow> pyval option" where
  "xml_raw m n = (case xm_source m of
     VS_TEXT \<Rightarrow> map_option PStr (xn_text n)
   | VS_ATTRIBUTE \<Rightarrow> map_option PStr (dict_get (rev (xn_attributes n)) (capture_name (xm_attribute m)))
   | _ \<Rightarrow> Some (PBool True))"

definition match_xml_node :: "xml_path_match \<Rightarrow> xml_node \<Rightarrow> exc + captures option" where
  "match_xml_node m n =
     (if length (xn_path n) \<noteq> length (xm_path m) then Inr None
      else and_then (xml_steps_match (xn_path n) (xm_path m)) (\<lambda>valid.
        if \<not> valid then Inr None
        else (case xml_raw m n of
          None \<Rightarrow> Inr None
        | Some raw \<Rightarrow>
            (case xm_capture m of
               Some (c # cs) \<Rightarrow>
                 (case typed (PStr (py_str raw)) (capture_kind (xm_value_type m)) of
                    Inl e \<Rightarrow> if is_value_error (exc_class e) then Inr None else Inl e
                  | Inr x \<Rightarrow> Inr (Some [(c # cs, x)]))
             | _ \<Rightarrow> Inr (Some [])))))"

text \<open>The nodes that a matcher accepts, with their captures, in the order of the tree.\<close>

fun collect_matches :: "('n \<Rightarrow> exc + captures option) \<Rightarrow> 'n list \<Rightarrow> exc + ('n \<times> captures) list" where
  "collect_matches f [] = Inr []"
| "collect_matches f (n # ns) =
     and_then (f n) (\<lambda>r. and_then (collect_matches f ns) (\<lambda>rest.
       Inr (case r of None \<Rightarrow> rest | Some c \<Rightarrow> (n, c) # rest)))"

definition matches_xml :: "mapping_definition \<Rightarrow> xml_structural_ir \<Rightarrow> exc + (xml_node \<times> captures) list" where
  "matches_xml d ir = (case (sm_operation (md_structural_match d), sm_xml_path (md_structural_match d)) of
     (MO_XML_PATH, Some m) \<Rightarrow> collect_matches (match_xml_node m) (xi_nodes ir)
   | _ \<Rightarrow> Inr [])"

fun xml_descend :: "xml_structural_ir \<Rightarrow> xml_node list \<Rightarrow> string list \<Rightarrow> xml_node list" where
  "xml_descend ir current [] = current"
| "xml_descend ir current (seg # path) =
     xml_descend ir (concat (map (\<lambda>item. filter (\<lambda>child. xn_parent_id child = Some (xn_node_id item)
       \<and> snd (xml_name (xn_tag child)) = seg) (xi_nodes ir)) current)) path"

definition xml_match_has_unsupported_qualifier :: "mapping_definition \<Rightarrow> xml_structural_ir \<Rightarrow> xml_node \<Rightarrow> bool" where
  "xml_match_has_unsupported_qualifier d ir n =
     (let paths = sr_xml_unsupported_qualifier_paths (md_scope_resolution d)
      in case xn_parent_id n of
           None \<Rightarrow> False
         | Some p \<Rightarrow>
             (let frontier = (case find (\<lambda>m. xn_node_id m = p) (rev (xi_nodes ir)) of None \<Rightarrow> [] | Some m \<Rightarrow> [m])
              in list_ex (\<lambda>path. xml_descend ir frontier path \<noteq> []) paths))"

section \<open>JSON values\<close>

definition expected_json_path :: "json_path_match \<Rightarrow> json_key option list" where
  "expected_json_path m = map (\<lambda>s. case js_key s of Some k \<Rightarrow> Some (JKey k)
     | None \<Rightarrow> map_option (\<lambda>i. JIndex (nat i)) (js_index s)) (jm_path m)"

definition match_json_node :: "json_path_match \<Rightarrow> json_node \<Rightarrow> exc + captures option" where
  "match_json_node m n =
     (let raw = (if jm_source m = VS_PRESENCE then PBool True else jn_value n)
      in if map Some (jn_path n) \<noteq> expected_json_path m then Inr None
         else if jm_source m = VS_VALUE \<and> \<not> hashable raw then Inr None
         else (case jm_capture m of
           Some (c # cs) \<Rightarrow>
             (case typed raw (capture_kind (jm_value_type m)) of
                Inl e \<Rightarrow> if exc_class e = TypeError \<or> is_value_error (exc_class e) then Inr None else Inl e
              | Inr x \<Rightarrow> Inr (Some [(c # cs, x)]))
         | _ \<Rightarrow> Inr (Some [])))"

definition matches_json :: "mapping_definition \<Rightarrow> json_structural_ir \<Rightarrow> exc + (json_node \<times> captures) list" where
  "matches_json d ir = (case (sm_operation (md_structural_match d), sm_json_path (md_structural_match d)) of
     (MO_JSON_PATH, Some m) \<Rightarrow> collect_matches (match_json_node m) (ji_nodes ir)
   | _ \<Rightarrow> Inr [])"

section \<open>Extraction\<close>

definition captured :: "captures \<Rightarrow> string \<Rightarrow> exc + pyval" where
  "captured captures name = (case dict_get captures name of
     None \<Rightarrow> Inl (Exc KeyError name) | Some v \<Rightarrow> Inr v)"

definition duration_multiplier :: "nat \<Rightarrow> nat \<Rightarrow> nat" where
  "duration_multiplier parts i = (if parts = 2 \<and> i = 0 then 60 else 1)"

definition extract_raw :: "value_extraction \<Rightarrow> captures \<Rightarrow> exc + pyval" where
  "extract_raw x captures = (case ve_operation x of
     EX_CONSTANT \<Rightarrow> Inr (ve_value x)
   | EX_BOOLEAN_FROM_PRESENCE \<Rightarrow> Inr (PBool True)
   | EX_CAPTURE \<Rightarrow> captured captures (capture_name (ve_capture x))
   | EX_INTEGER \<Rightarrow> and_then (captured captures (capture_name (ve_capture x))) (\<lambda>v.
       and_then (py_int_of v) (\<lambda>i. Inr (PInt i)))
   | EX_NUMBER \<Rightarrow> and_then (captured captures (capture_name (ve_capture x))) py_float
   | EX_ENUM_MAPPING \<Rightarrow> and_then (captured captures (capture_name (ve_capture x))) (\<lambda>v.
       (case dict_get (ve_enum_map x) (py_str v) of
          None \<Rightarrow> Inl (Exc KeyError (py_str v)) | Some s \<Rightarrow> Inr (PStr s)))
   | EX_LIST \<Rightarrow> and_then (map_res (captured captures) (ve_values x)) (\<lambda>vs. Inr (PList vs))
   | EX_DURATION_FROM_PARTS \<Rightarrow>
       and_then (map_res (\<lambda>(i, name). and_then (captured captures name) (\<lambda>v.
         and_then (py_float v) (\<lambda>f. py_times f (duration_multiplier (length (ve_parts x)) i))))
         (List.enumerate 0 (ve_parts x))) sum_floats)"

definition convert_unit :: "unit_conversion \<Rightarrow> pyval \<Rightarrow> exc + pyval" where
  "convert_unit u v = (case u of
     UC_NONE \<Rightarrow> Inr v
   | UC_MINUTES_TO_SECONDS \<Rightarrow> py_times v 60
   | UC_HOURS_TO_SECONDS \<Rightarrow> py_times v 3600
   | UC_MILLISECONDS_TO_SECONDS \<Rightarrow> py_divide v 1000)"

definition extract_training :: "mapping_definition \<Rightarrow> captures \<Rightarrow> exc + pyval" where
  "extract_training d captures =
     and_then (extract_raw (md_value_extraction d) captures) (convert_unit (md_unit_conversion d))"

end
