(* ===== verification/Interpretation.thy ===== *)
theory Interpretation
  imports Training_Dsl Pack_Validity Parsing_Service
begin

text \<open>
  The interpretation of one structural tree by a knowledge pack (\<open>interpretation/service.py\<close>,
  \<open>interpretation/models.py\<close>): loading of the sealed packs, the matching of mappings, the facts
  and diagnostics of CLI, XML and JSON evidence and the nodes left unresolved.  \<open>uuid5\<close> is a
  parameter, and so is pydantic, which reads a training definition.

  The ancestors of a node are walked with the number of nodes as fuel: the readers' trees have
  every parent before its children, so a walk is never longer; \<open>diverges\<close> marks a walk that would
  not end, on a tree that no reader builds.
\<close>

section \<open>Contexts and results\<close>

record interpretation_context =
  ic_audit_id :: uuid
  ic_device_id :: uuid
  ic_snapshot_id :: uuid

record interpretation_diagnostic =
  id_code :: string
  id_node_id :: "string option"
  id_mapping_id :: "uuid option"

record interpretation_metrics =
  im_nodes_considered :: int
  im_nodes_matched :: int
  im_mappings_applied :: int
  im_facts_produced :: int
  im_unmatched_nodes :: int
  im_unsupported_cases :: int

record interpretation_result =
  it_facts :: "security_fact_draft list"
  it_diagnostics :: "interpretation_diagnostic list"
  it_metrics :: interpretation_metrics
  it_unresolved_node_ids :: "string list"

definition invalid_interpretation :: "string \<Rightarrow> exc" where
  "invalid_interpretation code = Exc InterpretationValidationError code"

definition diverges :: exc where
  "diverges = Exc RecursionError ''does not return''"

section \<open>Loading the sealed packs\<close>

definition pack_registry :: pack_registry where
  "pack_registry = (case KNOWLEDGE_PACK_REGISTRY of
     Inr r \<Rightarrow> r | Inl _ \<Rightarrow> \<lparr>pr_by_version = [], pr_active_by_profile = []\<rparr>)"

definition value_error_as :: "string \<Rightarrow> exc + 'a \<Rightarrow> exc + 'a" where
  "value_error_as code r = (case r of
     Inr a \<Rightarrow> Inr a
   | Inl e \<Rightarrow> Inl (if is_value_error (exc_class e) then invalid_interpretation code else e))"

definition validate_for_profile :: "profile_manifest \<Rightarrow> knowledge_pack \<Rightarrow> exc + knowledge_pack" where
  "validate_for_profile profile pack =
     validate_knowledge_pack (pm_profile_id profile) (pm_profile_version_id profile)
       (fst ` set EXTRACTORS) SCOPE_RESOLVER_TYPES pack"

definition load_validated_knowledge_pack :: "string \<Rightarrow> exc + knowledge_pack" where
  "load_validated_knowledge_pack profile_version_id =
     (case (dict_get PROFILE_REGISTRY profile_version_id, active_for_profile pack_registry profile_version_id) of
        (Some profile, Some pack) \<Rightarrow>
          if pm_knowledge_pack_name profile \<noteq> Some (kp_name pack @ ''@'' @ kp_version pack)
          then Inl (invalid_interpretation ''knowledge_pack_unavailable'')
          else value_error_as ''knowledge_pack_invalid'' (validate_for_profile profile pack)
      | _ \<Rightarrow> Inl (invalid_interpretation ''knowledge_pack_unavailable''))"

definition load_validated_knowledge_pack_by_version :: "uuid \<Rightarrow> exc + knowledge_pack" where
  "load_validated_knowledge_pack_by_version version_id =
     (case registry_get pack_registry version_id of
        None \<Rightarrow> Inl (invalid_interpretation ''knowledge_pack_unavailable'')
      | Some pack \<Rightarrow>
          (case dict_get PROFILE_REGISTRY (kp_profile_version_id pack) of
             None \<Rightarrow> Inl (invalid_interpretation ''knowledge_pack_unavailable'')
           | Some profile \<Rightarrow> value_error_as ''knowledge_pack_invalid'' (validate_for_profile profile pack)))"

definition NAMESPACE_URL :: uuid where
  "NAMESPACE_URL = 0x6ba7b8119dad11d180b400c04fd430c8"

definition runtime_baseline_knowledge_pack :: "(uuid \<Rightarrow> string \<Rightarrow> uuid) \<Rightarrow> profile_manifest \<Rightarrow> knowledge_pack" where
  "runtime_baseline_knowledge_pack uuid5 profile =
     (let identity = uuid5 NAMESPACE_URL (''runtime-profile:'' @ pm_profile_version_id profile)
      in \<lparr>kp_knowledge_pack_id = identity, kp_knowledge_pack_version_id = identity,
          kp_name = ''Runtime declarative baseline'', kp_version = ''1.0.0'', kp_schema_version = ''1.0.0'',
          kp_profile_id = pm_profile_id profile, kp_profile_version_id = pm_profile_version_id profile,
          kp_mappings = []\<rparr>)"

section \<open>Matching\<close>

definition has_prefix :: "string list \<Rightarrow> string list \<Rightarrow> bool" where
  "has_prefix arguments pre = (map py_lower (take (length pre) arguments) = map py_lower pre)"

text \<open>The nearest ancestor with the command decides.\<close>

fun ancestor_matches :: "nat \<Rightarrow> node_matcher \<Rightarrow> structural_ir \<Rightarrow> string option \<Rightarrow> exc + bool" where
  "ancestor_matches fuel m ir None = Inr False"
| "ancestor_matches 0 m ir (Some i) = Inl diverges"
| "ancestor_matches (Suc fuel) m ir (Some i) =
     (case ir_node ir i of
        None \<Rightarrow> Inl (Exc KeyError i)
      | Some ancestor \<Rightarrow>
          if cn_command ancestor = nm_ancestor_command m
          then Inr (has_prefix (cn_arguments ancestor) (nm_ancestor_arguments_prefix m))
          else ancestor_matches fuel m ir (cn_parent_id ancestor))"

definition matcher_matches :: "node_matcher \<Rightarrow> config_node \<Rightarrow> structural_ir \<Rightarrow> exc + bool" where
  "matcher_matches m node ir =
     (if cn_command node \<noteq> Some (nm_command m) \<or> \<not> has_prefix (cn_arguments node) (nm_arguments_prefix m)
      then Inr False
      else case nm_parent_command m of
        None \<Rightarrow> Inr True
      | Some parent_command \<Rightarrow>
          (case parent_node node ir of
             None \<Rightarrow> Inr False
           | Some parent \<Rightarrow>
               if cn_command parent \<noteq> Some parent_command
                  \<or> \<not> has_prefix (cn_arguments parent) (nm_parent_arguments_prefix m)
               then Inr False
               else if nm_ancestor_command m = None then Inr True
               else ancestor_matches (length (ir_nodes ir)) m ir (cn_parent_id parent)))"

text \<open>The commands of at most eight ancestors that have one.\<close>

fun ancestor_commands :: "nat \<Rightarrow> structural_ir \<Rightarrow> config_node option \<Rightarrow> string list \<Rightarrow> exc + string list" where
  "ancestor_commands fuel ir None found = Inr found"
| "ancestor_commands 0 ir (Some ancestor) found = Inl diverges"
| "ancestor_commands (Suc fuel) ir (Some ancestor) found =
     (if 8 \<le> length found then Inr found
      else let found' = (if opt_truthy (cn_command ancestor)
                         then found @ [case cn_command ancestor of Some c \<Rightarrow> c | None \<Rightarrow> []] else found)
           in case cn_parent_id ancestor of
                Some (c # cs) \<Rightarrow>
                  (case ir_node ir (c # cs) of
                     None \<Rightarrow> Inl (Exc KeyError (c # cs))
                   | Some a \<Rightarrow> ancestor_commands fuel ir (Some a) found')
              | _ \<Rightarrow> Inr found')"

definition training_validation_node :: "config_node \<Rightarrow> structural_ir \<Rightarrow> string \<Rightarrow> exc + validation_node" where
  "training_validation_node node ir scope_type =
     and_then (case cn_parent_id node of
         Some (c # cs) \<Rightarrow> (case ir_node ir (c # cs) of
            None \<Rightarrow> Inl (Exc KeyError (c # cs)) | Some p \<Rightarrow> Inr (Some p))
       | _ \<Rightarrow> Inr None) (\<lambda>parent.
     and_then (ancestor_commands (length (ir_nodes ir)) ir parent []) (\<lambda>ancestors.
     case cn_command node of
       None \<Rightarrow> Inl (Exc ValidationError ''command'')
     | Some command \<Rightarrow>
         (let vn = \<lparr>vn_command = command, vn_arguments = cn_arguments node,
            vn_parent_command = (case parent of None \<Rightarrow> None | Some p \<Rightarrow> cn_command p),
            vn_ancestor_commands = ancestors, vn_scope_type = Some scope_type, vn_negated = cn_negated node\<rparr>
          in and_then (check_validation_node vn) (\<lambda>_. Inr vn))))"

definition mapping_matches :: "pydantic \<Rightarrow> declarative_mapping \<Rightarrow> config_node \<Rightarrow> structural_ir \<Rightarrow> exc + bool" where
  "mapping_matches py m node ir = (case dm_training_definition m of
     None \<Rightarrow> matcher_matches (dm_matcher m) node ir
   | Some payload \<Rightarrow>
       and_then (py_model_validate py payload) (\<lambda>d.
       and_then (training_validation_node node ir (dm_scope_resolver m)) (\<lambda>vn.
       and_then (matches d vn) (\<lambda>r. Inr (r \<noteq> None)))))"

definition extract_mapping ::
  "pydantic \<Rightarrow> declarative_mapping \<Rightarrow> config_node \<Rightarrow> structural_ir \<Rightarrow> exc + extraction_outcome" where
  "extract_mapping py m node ir = (case dm_training_definition m of
     None \<Rightarrow>
       (case dict_get EXTRACTORS (dm_extractor m) of
          None \<Rightarrow> Inl (Exc KeyError (dm_extractor m)) | Some f \<Rightarrow> f node)
   | Some payload \<Rightarrow>
       and_then (py_model_validate py payload) (\<lambda>d.
       and_then (training_validation_node node ir (dm_scope_resolver m)) (\<lambda>vn.
       and_then (matches d vn) (\<lambda>r. case r of
         None \<Rightarrow> Inr \<lparr>eo_value = None, eo_diagnostic_code = Some ''training_mapping_mismatch''\<rparr>
       | Some captures \<Rightarrow>
           and_then (extract_training d captures) (\<lambda>v.
           Inr \<lparr>eo_value = Some (TypedValue (ve_output_type (md_value_extraction d)) v),
             eo_diagnostic_code = None\<rparr>)))))"

definition resolve_scope :: "declarative_mapping \<Rightarrow> config_node \<Rightarrow> structural_ir \<Rightarrow> exc + scope_outcome" where
  "resolve_scope m node ir = (case dict_get SCOPE_RESOLVERS (dm_scope_resolver m) of
     None \<Rightarrow> Inl (Exc KeyError (dm_scope_resolver m)) | Some f \<Rightarrow> f node ir)"

end
