(* ===== verification/Interpreter.thy ===== *)
theory Interpreter
  imports Interpretation
begin

text \<open>
  From a structural tree to facts, diagnostics and unresolved nodes
  (\<open>interpret_structural_ir\<close>, \<open>interpret_xml_structural_ir\<close>, \<open>interpret_json_structural_ir\<close> of
  \<open>interpretation/service.py\<close>).
\<close>

section \<open>Building facts\<close>

text \<open>\<open>uuid5\<close> and pydantic, which the interpreters call.\<close>

record interpretation_library =
  lb_uuid5 :: "uuid \<Rightarrow> string \<Rightarrow> uuid"
  lb_pydantic :: pydantic

text \<open>The text whose \<open>uuid5\<close> identifies a fact.\<close>

definition fact_identity ::
  "interpretation_context \<Rightarrow> uuid \<Rightarrow> string list \<Rightarrow> string \<Rightarrow> scope_ref \<Rightarrow> typed_value \<Rightarrow> string" where
  "fact_identity context mapping_version_id node_ids field_id scope value = json_dump (PDict
     [(''audit_id'', PStr (uuid_str (ic_audit_id context))),
      (''mapping_version_id'', PStr (uuid_str mapping_version_id)),
      (''source_ir_node_ids'', PList (map PStr node_ids)),
      (''field_id'', PStr field_id),
      (''scope'', PDict (scope_to_dict scope)),
      (''entity'', PNone),
      (''value'', PDict (typed_value_to_dict value))])"

text \<open>
  The draft that every builder returns, over the evidence of its source nodes; the identifier of
  the mapping version is the caller's.
\<close>

definition draft_of ::
  "interpretation_library \<Rightarrow> interpretation_context \<Rightarrow> knowledge_pack \<Rightarrow> declarative_mapping \<Rightarrow> typed_value
    \<Rightarrow> scope_ref \<Rightarrow> evidence_ref list \<Rightarrow> fact_state \<Rightarrow> fact_validation_status \<Rightarrow> interpretation_confidence
    \<Rightarrow> uuid \<Rightarrow> security_fact_draft" where
  "draft_of lib context pack m value scope evidence state status confidence mapping_version_id =
     (let node_ids = map ev_ir_node_id evidence
      in \<lparr>sd_fact_id = lb_uuid5 lib (kp_knowledge_pack_version_id pack)
            (fact_identity context mapping_version_id node_ids (dm_field_id m) scope value),
          sd_audit_id = ic_audit_id context, sd_device_id = ic_device_id context,
          sd_snapshot_id = ic_snapshot_id context, sd_field_id = dm_field_id m, sd_value = value,
          sd_entity = None, sd_scope = scope, sd_state = state, sd_evidence_refs = evidence,
          sd_source_ir_node_ids = node_ids, sd_extraction_method = DECLARATIVE_MAPPING,
          sd_mapping_id = Some (dm_mapping_id m), sd_mapping_version_id = Some mapping_version_id,
          sd_knowledge_pack_version_id = kp_knowledge_pack_version_id pack,
          sd_validation_status = status, sd_dependencies = [],
          sd_interpretation_confidence = confidence, sd_schema_version = ''1.0.0''\<rparr>)"

definition node_evidence :: "config_node \<Rightarrow> evidence_ref" where
  "node_evidence node = \<lparr>ev_artifact_id = cn_artifact_id node, ev_start_line = Some (cn_source_start node),
     ev_end_line = Some (cn_source_end node), ev_source_path = cn_source_label node,
     ev_ir_node_id = cn_node_id node, ev_evidence_type = AE_CONFIGURATION,
     ev_structured_path = None, ev_structured_order = None\<rparr>"

definition given_version :: "declarative_mapping \<Rightarrow> uuid option \<Rightarrow> uuid" where
  "given_version m v = (case v of None \<Rightarrow> dm_mapping_version_id m | Some u \<Rightarrow> u)"

definition build_fact ::
  "interpretation_library \<Rightarrow> interpretation_context \<Rightarrow> knowledge_pack \<Rightarrow> declarative_mapping \<Rightarrow> typed_value
    \<Rightarrow> scope_ref \<Rightarrow> config_node list \<Rightarrow> fact_state \<Rightarrow> fact_validation_status \<Rightarrow> interpretation_confidence
    \<Rightarrow> uuid option \<Rightarrow> security_fact_draft" where
  "build_fact lib context pack m value scope source_nodes state status confidence version =
     draft_of lib context pack m value scope (map node_evidence source_nodes) state status confidence
       (given_version m version)"

definition build_xml_fact ::
  "interpretation_library \<Rightarrow> interpretation_context \<Rightarrow> knowledge_pack \<Rightarrow> declarative_mapping \<Rightarrow> typed_value
    \<Rightarrow> scope_ref \<Rightarrow> xml_node \<Rightarrow> security_fact_draft" where
  "build_xml_fact lib context pack m value scope node =
     draft_of lib context pack m value scope
       [\<lparr>ev_artifact_id = ap_artifact_id (xn_source node), ev_start_line = Some (xn_order node),
         ev_end_line = Some (xn_order node), ev_source_path = ap_source_label (xn_source node),
         ev_ir_node_id = xn_node_id node, ev_evidence_type = AE_STRUCTURED_EXPORT,
         ev_structured_path = None, ev_structured_order = None\<rparr>]
       FS_EXPLICIT FV_VALIDATED IC_HIGH (dm_mapping_version_id m)"

fun key_value :: "json_key \<Rightarrow> pyval" where
  "key_value (JKey k) = PStr k" | "key_value (JIndex i) = PInt (int i)"

definition build_json_fact ::
  "interpretation_library \<Rightarrow> interpretation_context \<Rightarrow> knowledge_pack \<Rightarrow> declarative_mapping \<Rightarrow> typed_value
    \<Rightarrow> scope_ref \<Rightarrow> json_node \<Rightarrow> security_fact_draft" where
  "build_json_fact lib context pack m value scope node =
     draft_of lib context pack m value scope
       [\<lparr>ev_artifact_id = ap_artifact_id (jn_source node), ev_start_line = None,
         ev_end_line = None, ev_source_path = ap_source_label (jn_source node),
         ev_ir_node_id = jn_node_id node, ev_evidence_type = AE_STRUCTURED_EXPORT,
         ev_structured_path = Some (map key_value (jn_path node)),
         ev_structured_order = Some (jn_order node)\<rparr>]
       FS_EXPLICIT FV_VALIDATED IC_HIGH (dm_mapping_version_id m)"

section \<open>Negated statements\<close>

definition source_nodes :: "config_node \<Rightarrow> scope_outcome \<Rightarrow> config_node list" where
  "source_nodes node out = node # (case so_context_node out of None \<Rightarrow> [] | Some c \<Rightarrow> [c])"

definition py_not :: "pyval \<Rightarrow> pyval" where
  "py_not v = PBool (\<not> truthy v)"

definition reset_fact ::
  "interpretation_library \<Rightarrow> interpretation_context \<Rightarrow> knowledge_pack \<Rightarrow> declarative_mapping \<Rightarrow> config_node
    \<Rightarrow> scope_outcome \<Rightarrow> scope_ref \<Rightarrow> exc + security_fact_draft option" where
  "reset_fact lib context pack m node out scope =
     (if map py_lower (cn_arguments node) \<noteq> map py_lower (nm_arguments_prefix (dm_matcher m)) then Inr None
      else and_then (get_field (dm_field_id m)) (\<lambda>field.
        if sc_type scope \<notin> cf_allowed_scope_types field then Inr None
        else Inr (Some (build_fact lib context pack m (TypedValue TV_NULL PNone) scope
          (source_nodes node out) FS_UNKNOWN FV_UNRESOLVED IC_UNRESOLVED (dm_reset_mapping_version_id m)))))"

definition removal_fact ::
  "interpretation_library \<Rightarrow> interpretation_context \<Rightarrow> structural_ir \<Rightarrow> knowledge_pack \<Rightarrow> declarative_mapping
    \<Rightarrow> config_node \<Rightarrow> scope_outcome \<Rightarrow> scope_ref \<Rightarrow> exc + security_fact_draft option" where
  "removal_fact lib context ir pack m node out scope =
     and_then (extract_mapping (lb_pydantic lib) m node ir) (\<lambda>extraction. case eo_value extraction of
       None \<Rightarrow> Inr None
     | Some v \<Rightarrow>
         (case validate_field_value_scope (dm_field_id m) v scope of
            Inl e \<Rightarrow> if exc_class e = FieldRegistryValidationError then Inr None else Inl e
          | Inr _ \<Rightarrow> Inr (Some (build_fact lib context pack m v scope (source_nodes node out)
              FS_EXPLICIT FV_VALIDATED IC_HIGH (dm_removal_mapping_version_id m)))))"

definition inverted_fact ::
  "interpretation_library \<Rightarrow> interpretation_context \<Rightarrow> structural_ir \<Rightarrow> knowledge_pack \<Rightarrow> declarative_mapping
    \<Rightarrow> config_node \<Rightarrow> scope_outcome \<Rightarrow> scope_ref \<Rightarrow> exc + security_fact_draft option" where
  "inverted_fact lib context ir pack m node out scope =
     and_then (extract_mapping (lb_pydantic lib) m node ir) (\<lambda>extraction. case eo_value extraction of
       None \<Rightarrow> Inr None
     | Some v \<Rightarrow>
         if tv_type v \<noteq> TV_BOOLEAN then Inr None
         else Inr (Some (build_fact lib context pack m
           \<lparr>tv_type = TV_BOOLEAN, tv_val = py_not (tv_val v), tv_unit = PNone,
             tv_original_value = tv_original_value v, tv_original_unit = PNone\<rparr>
           scope (source_nodes node out) FS_EXPLICIT FV_VALIDATED IC_HIGH None)))"

definition build_negated_fact ::
  "interpretation_library \<Rightarrow> interpretation_context \<Rightarrow> structural_ir \<Rightarrow> knowledge_pack \<Rightarrow> declarative_mapping
    \<Rightarrow> config_node \<Rightarrow> exc + security_fact_draft option" where
  "build_negated_fact lib context ir pack m node =
     (if dm_negation_behavior m = NB_UNSUPPORTED \<or> cn_parse_status node \<noteq> PS_PARSED then Inr None
      else and_then (resolve_scope m node ir) (\<lambda>out. case so_scope out of
        None \<Rightarrow> Inr None
      | Some scope \<Rightarrow>
          (case dm_negation_behavior m of
             NB_RESET_TO_DEFAULT \<Rightarrow> reset_fact lib context pack m node out scope
           | NB_REMOVE_VALUE \<Rightarrow> removal_fact lib context ir pack m node out scope
           | NB_INVERT_BOOLEAN \<Rightarrow> inverted_fact lib context ir pack m node out scope
           | NB_UNSUPPORTED \<Rightarrow> Inr None)))"

section \<open>The command-line interpreter\<close>

type_synonym diagnostic_key = "string \<times> string option \<times> uuid option"

record interpretation_run =
  rn_facts :: "security_fact_draft list"
  rn_diagnostics :: "interpretation_diagnostic list"
  rn_keys :: "diagnostic_key set"
  rn_matched :: "string set"
  rn_consumed :: "string set"

definition add_run_diagnostic ::
  "string \<Rightarrow> string option \<Rightarrow> uuid option \<Rightarrow> interpretation_run \<Rightarrow> interpretation_run" where
  "add_run_diagnostic code node_id mapping_id r =
     (if (code, node_id, mapping_id) \<in> rn_keys r then r
      else r\<lparr>rn_keys := insert (code, node_id, mapping_id) (rn_keys r),
        rn_diagnostics := rn_diagnostics r @
          [\<lparr>id_code = code, id_node_id = node_id, id_mapping_id = mapping_id\<rparr>]\<rparr>)"

definition note_diagnostic ::
  "string \<Rightarrow> config_node \<Rightarrow> declarative_mapping \<Rightarrow> interpretation_run \<Rightarrow> interpretation_run" where
  "note_diagnostic code node m r =
     add_run_diagnostic code (Some (cn_node_id node)) (Some (dm_mapping_id m)) r"

definition add_fact :: "config_node \<Rightarrow> security_fact_draft \<Rightarrow> interpretation_run \<Rightarrow> interpretation_run" where
  "add_fact node d r =
     r\<lparr>rn_facts := rn_facts r @ [d], rn_matched := insert (cn_node_id node) (rn_matched r)\<rparr>"

definition consume_context :: "scope_outcome \<Rightarrow> interpretation_run \<Rightarrow> interpretation_run" where
  "consume_context out r = (case so_context_node out of None \<Rightarrow> r
     | Some c \<Rightarrow> r\<lparr>rn_consumed := insert (cn_node_id c) (rn_consumed r)\<rparr>)"

definition apply_negated ::
  "interpretation_library \<Rightarrow> interpretation_context \<Rightarrow> structural_ir \<Rightarrow> knowledge_pack \<Rightarrow> config_node
    \<Rightarrow> declarative_mapping \<Rightarrow> interpretation_run \<Rightarrow> exc + interpretation_run" where
  "apply_negated lib context ir pack node m r =
     and_then (build_negated_fact lib context ir pack m node) (\<lambda>f. case f of
       None \<Rightarrow> Inr (note_diagnostic ''unsupported_negation'' node m r)
     | Some d \<Rightarrow> Inr (add_fact node d r))"

definition apply_value ::
  "interpretation_library \<Rightarrow> interpretation_context \<Rightarrow> structural_ir \<Rightarrow> knowledge_pack \<Rightarrow> config_node
    \<Rightarrow> declarative_mapping \<Rightarrow> typed_value \<Rightarrow> interpretation_run \<Rightarrow> exc + interpretation_run" where
  "apply_value lib context ir pack node m v r =
     and_then (resolve_scope m node ir) (\<lambda>out. case so_scope out of
       None \<Rightarrow> Inr (note_diagnostic (case so_diagnostic_code out of
           Some (c # cs) \<Rightarrow> c # cs | _ \<Rightarrow> ''scope_unresolved'') node m r)
     | Some scope \<Rightarrow>
         and_then (raise_from (\<lambda>c. c = FieldRegistryValidationError)
           (invalid_interpretation ''mapping_output_invalid'')
           (validate_field_value_scope (dm_field_id m) v scope)) (\<lambda>_.
         Inr (consume_context out (add_fact node
           (build_fact lib context pack m v scope (source_nodes node out) FS_EXPLICIT FV_VALIDATED IC_HIGH None)
           r))))"

definition apply_mapping ::
  "interpretation_library \<Rightarrow> interpretation_context \<Rightarrow> structural_ir \<Rightarrow> knowledge_pack \<Rightarrow> config_node
    \<Rightarrow> declarative_mapping \<Rightarrow> interpretation_run \<Rightarrow> exc + interpretation_run" where
  "apply_mapping lib context ir pack node m r =
     and_then (mapping_matches (lb_pydantic lib) m node ir) (\<lambda>matched.
     if \<not> matched then Inr r
     else if cn_negated node then apply_negated lib context ir pack node m r
     else if cn_parse_status node \<noteq> PS_PARSED
     then Inr (note_diagnostic ''uncertain_structural_node'' node m r)
     else and_then (extract_mapping (lb_pydantic lib) m node ir) (\<lambda>extraction.
       case eo_value extraction of
         None \<Rightarrow> Inr (case eo_diagnostic_code extraction of None \<Rightarrow> r
           | Some code \<Rightarrow> note_diagnostic code node m r)
       | Some v \<Rightarrow> apply_value lib context ir pack node m v r))"

definition apply_mappings ::
  "interpretation_library \<Rightarrow> interpretation_context \<Rightarrow> structural_ir \<Rightarrow> knowledge_pack \<Rightarrow> config_node
    \<Rightarrow> interpretation_run \<Rightarrow> exc + interpretation_run" where
  "apply_mappings lib context ir pack node r =
     fold_res (apply_mapping lib context ir pack node) (kp_mappings pack) r"

definition empty_run :: interpretation_run where
  "empty_run = \<lparr>rn_facts = [], rn_diagnostics = [], rn_keys = {}, rn_matched = {}, rn_consumed = {}\<rparr>"

definition statements :: "structural_ir \<Rightarrow> config_node list" where
  "statements ir = filter (\<lambda>n. cn_kind n = STATEMENT) (ir_nodes ir)"

definition evidence_nodes :: "structural_ir \<Rightarrow> config_node list" where
  "evidence_nodes ir = filter (\<lambda>n. cn_kind n \<in> {STATEMENT, OPAQUE}) (ir_nodes ir)"

definition run_result :: "structural_ir \<Rightarrow> interpretation_run \<Rightarrow> interpretation_result" where
  "run_result ir r =
     (let considered = int (length (evidence_nodes ir)); produced = int (length (rn_facts r));
          matched = int (card (rn_matched r))
      in \<lparr>it_facts = rn_facts r, it_diagnostics = rn_diagnostics r,
          it_metrics = \<lparr>im_nodes_considered = considered, im_nodes_matched = matched,
            im_mappings_applied = produced, im_facts_produced = produced,
            im_unmatched_nodes = considered - matched,
            im_unsupported_cases = int (length (rn_diagnostics r))\<rparr>,
          it_unresolved_node_ids = filter (\<lambda>i. i \<notin> rn_matched r \<union> rn_consumed r)
            (map cn_node_id (evidence_nodes ir))\<rparr>)"

text \<open>The guards that the three interpreters share: profile, provenance and pack.\<close>

definition chosen_pack :: "knowledge_pack option \<Rightarrow> string \<Rightarrow> exc + knowledge_pack" where
  "chosen_pack pack profile_version_id = (case pack of
     None \<Rightarrow> load_validated_knowledge_pack profile_version_id | Some p \<Rightarrow> Inr p)"

definition admit_ir ::
  "string \<Rightarrow> artifact_provenance \<Rightarrow> uuid list \<Rightarrow> interpretation_context \<Rightarrow> string \<Rightarrow> knowledge_pack option
    \<Rightarrow> profile_manifest option \<Rightarrow> exc + profile_manifest \<times> knowledge_pack" where
  "admit_ir rid source artifacts context profile_version_id pack profile =
     (case selected_profile profile profile_version_id of
        None \<Rightarrow> Inl (invalid_interpretation ''profile_ir_incompatible'')
      | Some p \<Rightarrow>
          and_then (require (Some rid = pm_structural_reader_name p)
            (invalid_interpretation ''profile_ir_incompatible'')) (\<lambda>_.
          and_then (require (ap_snapshot_id source = Some (ic_snapshot_id context)
              \<and> list_all (\<lambda>a. a = ap_artifact_id source) artifacts)
            (invalid_interpretation ''ir_provenance_invalid'')) (\<lambda>_.
          and_then (chosen_pack pack profile_version_id) (\<lambda>k. Inr (p, k)))))"

definition interpret_structural_ir ::
  "interpretation_library \<Rightarrow> structural_ir \<Rightarrow> interpretation_context \<Rightarrow> string \<Rightarrow> knowledge_pack option
    \<Rightarrow> profile_manifest option \<Rightarrow> exc + interpretation_result" where
  "interpret_structural_ir lib ir context profile_version_id pack profile =
     and_then (admit_ir (ir_reader_id ir) (ir_source ir) (map cn_artifact_id (ir_nodes ir)) context
       profile_version_id pack profile) (\<lambda>(p, k).
     and_then (value_error_as ''knowledge_pack_invalid'' (validate_for_profile p k)) (\<lambda>_.
     and_then (fold_res (apply_mappings lib context ir k) (statements ir) empty_run) (\<lambda>r.
     Inr (run_result ir r))))"

section \<open>The structured interpreters\<close>

text \<open>
  The training definitions of a pack for one structured operation; the code reads the operation
  from the payload before the payload is validated.
\<close>

definition payload_operation :: "(string \<times> pyval) list \<Rightarrow> exc + pyval" where
  "payload_operation payload = (case dict_get payload ''structural_match'' of
     None \<Rightarrow> Inr PNone
   | Some (PDict d) \<Rightarrow> Inr (py_get d ''operation'')
   | Some _ \<Rightarrow> Inl (Exc AttributeError ''get''))"

definition structured_definition ::
  "pydantic \<Rightarrow> string \<Rightarrow> declarative_mapping \<Rightarrow> exc + mapping_definition option" where
  "structured_definition py operation m = (case dm_training_definition m of
     Some (p # ps) \<Rightarrow>
       and_then (payload_operation (p # ps)) (\<lambda>op.
       if op \<noteq> PStr operation then Inr None
       else and_then (py_model_validate py (p # ps)) (\<lambda>d. Inr (Some d)))
   | _ \<Rightarrow> Inr None)"

definition structured_value ::
  "mapping_definition \<Rightarrow> captures \<Rightarrow> exc + typed_value \<times> scope_ref" where
  "structured_value d captures =
     and_then (extract_training d captures) (\<lambda>v.
     let value_type = ve_output_type (md_value_extraction d);
         value = \<lparr>tv_type = value_type, tv_val = v,
           tv_unit = (if value_type = TV_DURATION then PStr ''seconds'' else PNone),
           tv_original_value = PNone, tv_original_unit = PNone\<rparr>;
         scope = ScopeRef (sr_strategy (md_scope_resolution d)) ''device'' []
     in and_then (validate_field_value_scope (md_target_field_id d) value scope) (\<lambda>_. Inr (value, scope)))"

definition output_error :: "exc_class \<Rightarrow> bool" where
  "output_error c = (c \<in> {KeyError, TypeError} \<or> is_value_error c)"

text \<open>The facts, diagnostics and matched nodes so far.\<close>

type_synonym structured_run = "security_fact_draft list \<times> interpretation_diagnostic list \<times> string set"

definition structured_diagnostic ::
  "string \<Rightarrow> string \<Rightarrow> declarative_mapping \<Rightarrow> structured_run \<Rightarrow> structured_run" where
  "structured_diagnostic code node_id m r =
     (fst r, fst (snd r) @ [\<lparr>id_code = code, id_node_id = Some node_id, id_mapping_id = Some (dm_mapping_id m)\<rparr>],
      snd (snd r))"

definition structured_match_step ::
  "string \<Rightarrow> ('n \<Rightarrow> string) \<Rightarrow> ('n \<Rightarrow> bool) \<Rightarrow> (typed_value \<Rightarrow> scope_ref \<Rightarrow> 'n \<Rightarrow> security_fact_draft)
    \<Rightarrow> declarative_mapping \<Rightarrow> mapping_definition \<Rightarrow> 'n \<times> captures \<Rightarrow> structured_run \<Rightarrow> exc + structured_run" where
  "structured_match_step label node_id unsupported mk m d nc r =
     (if unsupported (fst nc) then Inr (structured_diagnostic (label @ ''_scope_unsupported'') (node_id (fst nc)) m r)
      else (case structured_value d (snd nc) of
        Inl e \<Rightarrow> if output_error (exc_class e)
          then Inr (structured_diagnostic (label @ ''_mapping_output_invalid'') (node_id (fst nc)) m r) else Inl e
      | Inr (v, scope) \<Rightarrow>
          Inr (fst r @ [mk v scope (fst nc)], fst (snd r), insert (node_id (fst nc)) (snd (snd r)))))"

definition structured_mapping_step ::
  "pydantic \<Rightarrow> string \<Rightarrow> string \<Rightarrow> ('n \<Rightarrow> string) \<Rightarrow> (mapping_definition \<Rightarrow> 'n \<Rightarrow> bool)
    \<Rightarrow> (mapping_definition \<Rightarrow> exc + ('n \<times> captures) list)
    \<Rightarrow> (declarative_mapping \<Rightarrow> typed_value \<Rightarrow> scope_ref \<Rightarrow> 'n \<Rightarrow> security_fact_draft)
    \<Rightarrow> declarative_mapping \<Rightarrow> structured_run \<Rightarrow> exc + structured_run" where
  "structured_mapping_step py label operation node_id unsupported find_nodes mk m r =
     and_then (structured_definition py operation m) (\<lambda>o1. case o1 of
       None \<Rightarrow> Inr r
     | Some d \<Rightarrow>
         and_then (find_nodes d) (\<lambda>ncs.
         fold_res (structured_match_step label node_id (unsupported d) (mk m) m d) ncs r))"

definition structured_result :: "string list \<Rightarrow> structured_run \<Rightarrow> interpretation_result" where
  "structured_result leaves r =
     (let considered = int (length leaves); matched = int (card (snd (snd r))); produced = int (length (fst r))
      in \<lparr>it_facts = fst r, it_diagnostics = fst (snd r),
          it_metrics = \<lparr>im_nodes_considered = considered, im_nodes_matched = matched,
            im_mappings_applied = produced, im_facts_produced = produced,
            im_unmatched_nodes = considered - matched,
            im_unsupported_cases = int (length (fst (snd r)))\<rparr>,
          it_unresolved_node_ids = filter (\<lambda>i. i \<notin> snd (snd r)) leaves\<rparr>)"

definition xml_leaves :: "xml_structural_ir \<Rightarrow> string list" where
  "xml_leaves ir = filter (\<lambda>i. Some i \<notin> set (map xn_parent_id (xi_nodes ir))) (map xn_node_id (xi_nodes ir))"

definition interpret_xml_structural_ir ::
  "interpretation_library \<Rightarrow> xml_structural_ir \<Rightarrow> interpretation_context \<Rightarrow> string \<Rightarrow> knowledge_pack option
    \<Rightarrow> profile_manifest option \<Rightarrow> exc + interpretation_result" where
  "interpret_xml_structural_ir lib ir context profile_version_id pack profile =
     and_then (admit_ir (xi_reader_id ir) (xi_source ir) (map (ap_artifact_id \<circ> xn_source) (xi_nodes ir)) context
       profile_version_id pack profile) (\<lambda>(p, k).
     and_then (validate_for_profile p k) (\<lambda>_.
     and_then (fold_res (structured_mapping_step (lb_pydantic lib) ''xml'' ''xml_path'' xn_node_id
         (\<lambda>d n. xml_match_has_unsupported_qualifier d ir n) (\<lambda>d. matches_xml d ir)
         (build_xml_fact lib context k)) (kp_mappings k) ([], [], {})) (\<lambda>r.
     Inr (structured_result (xml_leaves ir) r))))"

definition json_leaves :: "json_structural_ir \<Rightarrow> string list" where
  "json_leaves ir = map jn_node_id (filter (\<lambda>n. \<not> is_list (jn_value n) \<and> \<not> is_dict (jn_value n)) (ji_nodes ir))"

definition incomplete_result :: "string list \<Rightarrow> interpretation_result" where
  "incomplete_result leaves =
     \<lparr>it_facts = [],
      it_diagnostics = map (\<lambda>i. \<lparr>id_code = ''json_evidence_incomplete'', id_node_id = Some i, id_mapping_id = None\<rparr>) leaves,
      it_metrics = \<lparr>im_nodes_considered = int (length leaves), im_nodes_matched = 0, im_mappings_applied = 0,
        im_facts_produced = 0, im_unmatched_nodes = int (length leaves),
        im_unsupported_cases = int (length leaves)\<rparr>,
      it_unresolved_node_ids = leaves\<rparr>"

definition interpret_json_structural_ir ::
  "interpretation_library \<Rightarrow> json_structural_ir \<Rightarrow> interpretation_context \<Rightarrow> string \<Rightarrow> knowledge_pack option
    \<Rightarrow> profile_manifest option \<Rightarrow> exc + interpretation_result" where
  "interpret_json_structural_ir lib ir context profile_version_id pack profile =
     and_then (admit_ir (ji_reader_id ir) (ji_source ir) (map (ap_artifact_id \<circ> jn_source) (ji_nodes ir)) context
       profile_version_id pack profile) (\<lambda>(p, k).
     and_then (validate_for_profile p k) (\<lambda>_.
     if ji_truncated ir then Inr (incomplete_result (json_leaves ir))
     else and_then (fold_res (structured_mapping_step (lb_pydantic lib) ''json'' ''json_path'' jn_node_id
         (\<lambda>d n. False) (\<lambda>d. matches_json d ir) (build_json_fact lib context k)) (kp_mappings k) ([], [], {})) (\<lambda>r.
     Inr (structured_result (json_leaves ir) r))))"

end
