(* ===== verification/Interpreter_Props.thy ===== *)
theory Interpreter_Props
  imports Interpreter Reader_Coverage
begin

text \<open>
  The interpreters on trees that the readers build: walks to the ancestors end, the sealed packs
  never abort an interpretation, their facts satisfy the field registry, and no evidence node is
  lost between facts and unresolved nodes.
\<close>

section \<open>Walks to the ancestors\<close>

text \<open>In a forest the first node with the identifier of a parent comes before the node.\<close>

lemma forest_parent:
  assumes "ir_forest d k ir" and "i < length (ir_nodes ir)" and "cn_parent_id (ir_nodes ir ! i) = Some x"
  shows "\<exists>q < i. ir_node ir x = Some (ir_nodes ir ! q)"
proof -
  obtain p where p: "p < i" "cn_node_id (ir_nodes ir ! p) = x"
    using assms by (fastforce simp: ir_forest_def Let_def)
  then have "ir_nodes ir ! p \<in> set (ir_nodes ir)" using assms(2) by simp
  with p have "ir_node ir x \<noteq> None" by (auto simp: ir_node_def find_None_iff)
  then obtain q where q: "q < length (ir_nodes ir)" "ir_node ir x = Some (ir_nodes ir ! q)"
    and first: "\<forall>j < q. cn_node_id (ir_nodes ir ! j) \<noteq> x"
    by (auto simp: ir_node_def find_Some_iff)
  have "q \<le> p" using first p(2) not_less by blast
  with p(1) q(2) show ?thesis by (intro exI [of _ q]) simp
qed

lemma forest_member: "n \<in> set (ir_nodes ir) \<Longrightarrow> \<exists>i < length (ir_nodes ir). n = ir_nodes ir ! i"
  by (metis in_set_conv_nth)

lemma ancestor_matches_ends:
  "ir_forest d k ir \<Longrightarrow> i < length (ir_nodes ir) \<Longrightarrow> i \<le> fuel \<Longrightarrow>
     \<exists>b. \<forall>more. ancestor_matches (fuel + more) m ir (cn_parent_id (ir_nodes ir ! i)) = Inr b"
proof (induction fuel arbitrary: i)
  case 0
  then have "cn_parent_id (ir_nodes ir ! i) = None"
    using forest_parent [of d k ir i] by (cases "cn_parent_id (ir_nodes ir ! i)") auto
  then show ?case by (intro exI [of _ False]) simp
next
  case (Suc fuel)
  show ?case
  proof (cases "cn_parent_id (ir_nodes ir ! i)")
    case (Some x)
    then obtain q where q: "q < i" "ir_node ir x = Some (ir_nodes ir ! q)"
      using forest_parent [of d k ir i x] Suc.prems by blast
    then obtain b where "\<forall>more. ancestor_matches (fuel + more) m ir (cn_parent_id (ir_nodes ir ! q)) = Inr b"
      using Suc.IH [of q] Suc.prems by auto
    with Some q(2) show ?thesis
      by (intro exI [of _ "if cn_command (ir_nodes ir ! q) = nm_ancestor_command m
        then has_prefix (cn_arguments (ir_nodes ir ! q)) (nm_ancestor_arguments_prefix m) else b"]) simp
  qed (auto intro: exI [of _ False])
qed

lemma ancestor_commands_ends:
  "ir_forest d k ir \<Longrightarrow> i < length (ir_nodes ir) \<Longrightarrow> i < fuel \<Longrightarrow>
     \<exists>cs. \<forall>more. ancestor_commands (fuel + more) ir (Some (ir_nodes ir ! i)) found = Inr cs"
proof (induction fuel arbitrary: i found)
  case (Suc fuel)
  let ?a = "ir_nodes ir ! i"
  show ?case
  proof (cases "8 \<le> length found \<or> cn_parent_id ?a = None \<or> cn_parent_id ?a = Some []")
    case False
    then obtain x where x: "cn_parent_id ?a = Some x" "x \<noteq> []" by auto
    then obtain q where q: "q < i" "ir_node ir x = Some (ir_nodes ir ! q)"
      using forest_parent [of d k ir i x] Suc.prems by blast
    define found' where "found' = (if opt_truthy (cn_command ?a)
      then found @ [case cn_command ?a of Some c \<Rightarrow> c | None \<Rightarrow> []] else found)"
    obtain cs where "\<forall>more. ancestor_commands (fuel + more) ir (Some (ir_nodes ir ! q)) found' = Inr cs"
      using Suc.IH [of q found'] Suc.prems q(1) by auto
    with False x q(2) show ?thesis by (cases x) (simp_all add: Let_def found'_def [symmetric])
  next
    case True
    then have "ancestor_commands (Suc fuel + more) ir (Some ?a) found = ancestor_commands 1 ir (Some ?a) found"
      "\<exists>cs. ancestor_commands 1 ir (Some ?a) found = Inr cs" for more
      by (elim disjE; simp add: Let_def)+
    then show ?thesis by metis
  qed
qed simp

lemma matcher_matches_ends:
  assumes "ir_forest d k ir" and "n \<in> set (ir_nodes ir)"
  shows "\<exists>b. matcher_matches m n ir = Inr b"
proof -
  have "\<exists>b. ancestor_matches (length (ir_nodes ir)) m ir (cn_parent_id p) = Inr b"
    if parent: "parent_node n ir = Some p" for p
  proof -
    from parent obtain i where "i < length (ir_nodes ir)" "p = ir_nodes ir ! i"
      by (auto simp: parent_node_def ir_node_def find_Some_iff split: option.splits)
    then show ?thesis using ancestor_matches_ends [OF assms(1), of i "length (ir_nodes ir)" m]
      by (metis add_0_right less_imp_le)
  qed
  then show ?thesis by (auto simp: matcher_matches_def split: option.splits)
qed

section \<open>The sealed mappings\<close>

definition sealed_mapping :: "declarative_mapping \<Rightarrow> bool" where
  "sealed_mapping m =
     (dm_training_definition m = None \<and> dm_extractor m \<in> fst ` set EXTRACTORS
      \<and> (case dict_get FIELD_REGISTRY (dm_field_id m) of None \<Rightarrow> False
         | Some f \<Rightarrow> extractor_types (dm_extractor m) \<subseteq> cf_expected_types f))"

lemmas sealed_run = sealed_mapping_def extractor_names field_entries extractor_types_def

lemma sealed_lists:
  "list_all sealed_mapping CISCO_LEGACY_MAPPINGS" "list_all sealed_mapping CISCO_B4_MAPPINGS"
  "list_all sealed_mapping CISCO_MAPPINGS" "list_all sealed_mapping CISCO_PHASE8_MAPPINGS"
  "list_all sealed_mapping FORTIOS_LEGACY_MAPPINGS" "list_all sealed_mapping FORTIOS_B4_MAPPINGS"
  "list_all sealed_mapping ARISTA_MAPPINGS" "list_all sealed_mapping ARISTA_PHASE7_MAPPINGS"
  by (simp_all add: mapping_lists sealed_run)

lemma sealed_fortios:
  "list_all sealed_mapping FORTIOS_MAPPINGS" "list_all sealed_mapping FORTIOS_PHASE4_MAPPINGS"
proof -
  have kept: "list_all sealed_mapping (filter P FORTIOS_B4_MAPPINGS)" for P
    using sealed_lists(6) by (auto simp: list_all_iff)
  show maps: "list_all sealed_mapping FORTIOS_MAPPINGS"
    unfolding FORTIOS_MAPPINGS_def list_all_append
    by (intro conjI kept) (simp add: fortios_mapping_def sealed_run)
  show "list_all sealed_mapping FORTIOS_PHASE4_MAPPINGS"
    unfolding FORTIOS_PHASE4_MAPPINGS_def list_all_append
    by (intro conjI maps) (simp add: fortios_mapping_def sealed_run)
qed

text \<open>Every pack but those of Junos, whose mappings are training definitions.\<close>

definition cli_pack :: "knowledge_pack \<Rightarrow> bool" where
  "cli_pack p = (p \<in> set REGISTERED_PACKS \<and> kp_profile_id p \<noteq> ''juniper.junos.18'')"

lemma packs_sealed: "cli_pack p \<Longrightarrow> list_all sealed_mapping (kp_mappings p)"
proof -
  have "list_all (\<lambda>p. if kp_profile_id p = ''juniper.junos.18'' then True else list_all sealed_mapping (kp_mappings p))
      REGISTERED_PACKS"
    by (simp add: REGISTERED_PACKS_def pack_defs sealed_lists sealed_fortios)
  then show "cli_pack p \<Longrightarrow> list_all sealed_mapping (kp_mappings p)"
    by (auto simp: cli_pack_def list_all_iff)
qed

section \<open>Sealed mappings do not abort\<close>

definition short_arguments :: "structural_ir \<Rightarrow> bool" where
  "short_arguments ir = list_all (\<lambda>n. list_all (\<lambda>a. length a \<le> 4300) (cn_arguments n)) (ir_nodes ir)"

lemma parent_node_member: "parent_node n ir = Some p \<Longrightarrow> p \<in> set (ir_nodes ir)"
  by (auto simp: parent_node_def ir_node_def find_Some_iff split: option.splits)

lemma short_int: "short_arguments ir \<Longrightarrow> n \<in> set (ir_nodes ir) \<Longrightarrow> i < length (cn_arguments n) \<Longrightarrow>
    \<exists>k. int_of_digits (cn_arguments n ! i) = Inr k"
  by (auto simp: short_arguments_def list_all_iff int_of_digits_def not_less)

lemma vty_resolver_total: "short_arguments ir \<Longrightarrow> \<exists>out. resolve_vty_range n ir = Inr out"
proof (cases "parent_node n ir")
  case (Some p)
  assume short: "short_arguments ir"
  note int = short_int [OF short parent_node_member [OF Some]]
  show ?thesis
  proof (cases "cn_command p \<noteq> Some ''line'' \<or> length (cn_arguments p) \<notin> {2, 3}
      \<or> py_lower (hd (cn_arguments p)) \<noteq> ''vty'' \<or> \<not> list_all all_digits (tl (cn_arguments p))")
    case False
    then obtain s where s: "int_of_digits (cn_arguments p ! 1) = Inr s" using int [of 1] by auto
    have "\<exists>e. (if length (cn_arguments p) = 3 then int_of_digits (cn_arguments p ! 2) else Inr s) = Inr e"
      using int [of 2] by simp
    then obtain e where "(if length (cn_arguments p) = 3 then int_of_digits (cn_arguments p ! 2) else Inr s) = Inr e"
      by blast
    with False s Some show ?thesis by (simp add: resolve_vty_range_def Let_def)
  qed (auto simp: resolve_vty_range_def Some Let_def)
qed (simp add: resolve_vty_range_def)

lemma resolver_total:
  "dict_get SCOPE_RESOLVERS r = Some f \<Longrightarrow> short_arguments ir \<Longrightarrow> \<exists>out. f n ir = Inr out"
  by (auto simp: SCOPE_RESOLVERS_def dict_get_def resolve_device_scope_def resolve_fortios_interface_def
      resolve_fortios_administrator_def resolve_fortios_edit_def resolve_arista_management_service_def Let_def
      intro: vty_resolver_total split: if_splits option.splits)

lemma resolver_context:
  "dict_get SCOPE_RESOLVERS r = Some f \<Longrightarrow> f n ir = Inr out \<Longrightarrow> so_context_node out = Some c
    \<Longrightarrow> c \<in> set (ir_nodes ir)"
  by (auto simp: SCOPE_RESOLVERS_def dict_get_def scope_resolver_defs Let_def
      dest: parent_node_member split: if_splits option.splits)

section \<open>The invariant of a run\<close>

text \<open>Every source of the fact is a node of the tree, with the position of that node.\<close>

definition fact_cites :: "structural_ir \<Rightarrow> security_fact_draft \<Rightarrow> bool" where
  "fact_cites ir d =
     (sd_evidence_refs d \<noteq> [] \<and> sd_source_ir_node_ids d = map ev_ir_node_id (sd_evidence_refs d)
      \<and> list_all (\<lambda>e. list_ex (\<lambda>n. e = node_evidence n) (ir_nodes ir)) (sd_evidence_refs d))"

definition fact_owned :: "interpretation_context \<Rightarrow> security_fact_draft \<Rightarrow> bool" where
  "fact_owned context d = (sd_audit_id d = ic_audit_id context \<and> sd_device_id d = ic_device_id context
     \<and> sd_snapshot_id d = ic_snapshot_id context)"

definition first_source :: "security_fact_draft \<Rightarrow> string" where
  "first_source d = hd (sd_source_ir_node_ids d)"

definition diagnostic_key_of :: "interpretation_diagnostic \<Rightarrow> diagnostic_key" where
  "diagnostic_key_of x = (id_code x, id_node_id x, id_mapping_id x)"

definition run_ok :: "interpretation_context \<Rightarrow> structural_ir \<Rightarrow> interpretation_run \<Rightarrow> bool" where
  "run_ok context ir r =
     (list_all (\<lambda>d. fact_cites ir d \<and> fact_owned context d) (rn_facts r)
      \<and> rn_matched r = first_source ` set (rn_facts r)
      \<and> first_source ` set (rn_facts r) \<subseteq> cn_node_id ` set (statements ir)
      \<and> rn_consumed r \<subseteq> (\<Union>d \<in> set (rn_facts r). set (sd_source_ir_node_ids d))
      \<and> rn_keys r = diagnostic_key_of ` set (rn_diagnostics r)
      \<and> distinct (rn_diagnostics r)
      \<and> (\<forall>x \<in> set (rn_diagnostics r). id_node_id x \<in> Some ` cn_node_id ` set (statements ir)))"

lemma run_ok_empty: "run_ok context ir empty_run"
  by (simp add: run_ok_def empty_run_def)

lemma run_ok_note [inv_intros]:
  assumes "run_ok context ir r" and "node \<in> set (statements ir)"
  shows "run_ok context ir (note_diagnostic code node m r)"
proof (cases "(code, Some (cn_node_id node), Some (dm_mapping_id m)) \<in> rn_keys r")
  case True
  with assms(1) show ?thesis by (simp add: note_diagnostic_def add_run_diagnostic_def)
next
  case False
  let ?x = "\<lparr>id_code = code, id_node_id = Some (cn_node_id node), id_mapping_id = Some (dm_mapping_id m)\<rparr>"
  from False have "diagnostic_key_of ?x \<notin> rn_keys r" by (simp add: diagnostic_key_of_def)
  moreover have "rn_keys r = diagnostic_key_of ` set (rn_diagnostics r)"
    using assms(1) unfolding run_ok_def by metis
  ultimately have "?x \<notin> set (rn_diagnostics r)" by blast
  have noted: "note_diagnostic code node m r = r\<lparr>rn_keys := insert (diagnostic_key_of ?x) (rn_keys r),
      rn_diagnostics := rn_diagnostics r @ [?x]\<rparr>"
    using False by (simp add: note_diagnostic_def add_run_diagnostic_def diagnostic_key_of_def)
  have "id_node_id ?x \<in> Some ` cn_node_id ` set (statements ir)" using assms(2) by simp
  with assms(1) \<open>?x \<notin> set (rn_diagnostics r)\<close> show ?thesis
    unfolding noted run_ok_def by simp
qed

lemma build_fact_sel [simp]:
  "sd_source_ir_node_ids (build_fact lib c k m v s ns st fv ic ver) = map cn_node_id ns"
  "sd_evidence_refs (build_fact lib c k m v s ns st fv ic ver) = map node_evidence ns"
  "fact_owned c (build_fact lib c k m v s ns st fv ic ver)"
  "sd_field_id (build_fact lib c k m v s ns st fv ic ver) = dm_field_id m"
  "sd_value (build_fact lib c k m v s ns st fv ic ver) = v"
  "sd_scope (build_fact lib c k m v s ns st fv ic ver) = s"
  "sd_state (build_fact lib c k m v s ns st fv ic ver) = st"
  "sd_validation_status (build_fact lib c k m v s ns st fv ic ver) = fv"
  by (simp_all add: build_fact_def draft_of_def fact_owned_def node_evidence_def comp_def Let_def)

lemma statement_member: "node \<in> set (statements ir) \<Longrightarrow> node \<in> set (ir_nodes ir)"
  by (simp add: statements_def)

lemma build_fact_cites:
  assumes "node \<in> set (ir_nodes ir)" and "resolve_scope m node ir = Inr out"
  shows "fact_cites ir (build_fact lib c k m v s (source_nodes node out) st fv ic ver)"
proof -
  have "set (source_nodes node out) \<subseteq> set (ir_nodes ir)"
    using assms resolver_context
    by (auto simp: source_nodes_def resolve_scope_def split: option.splits)
  then have "list_ex (\<lambda>x. node_evidence n = node_evidence x) (ir_nodes ir)"
    if "n \<in> set (source_nodes node out)" for n using that by (auto simp: list_ex_iff)
  moreover have "map cn_node_id ns = map ev_ir_node_id (map node_evidence ns)" for ns
    by (simp add: node_evidence_def)
  moreover have "source_nodes node out \<noteq> []" by (simp add: source_nodes_def)
  ultimately show ?thesis
    unfolding fact_cites_def build_fact_sel by (auto simp: list_all_iff)
qed

lemma run_ok_consume [inv_intros]:
  "run_ok context ir r \<Longrightarrow> \<exists>d \<in> set (rn_facts r). i \<in> set (sd_source_ir_node_ids d)
    \<Longrightarrow> run_ok context ir (r\<lparr>rn_consumed := insert i (rn_consumed r)\<rparr>)"
  by (simp add: run_ok_def)

lemma run_ok_fact [inv_intros]:
  assumes "run_ok context ir r" and "node \<in> set (statements ir)" and "resolve_scope m node ir = Inr out"
    and d: "d = build_fact lib context k m v s (source_nodes node out) st fv ic ver"
  shows "run_ok context ir (add_fact node d r)"
    and "run_ok context ir (consume_context out (add_fact node d r))"
proof -
  have cites: "fact_cites ir d" "fact_owned context d" "first_source d = cn_node_id node"
    unfolding d using build_fact_cites [OF statement_member [OF assms(2)] assms(3)]
    by (simp_all add: first_source_def source_nodes_def)
  then show ok: "run_ok context ir (add_fact node d r)"
    using assms(1,2) by (auto simp: run_ok_def add_fact_def)
  show "run_ok context ir (consume_context out (add_fact node d r))"
  proof (cases "so_context_node out")
    case (Some c)
    then have "cn_node_id c \<in> set (sd_source_ir_node_ids d)"
      unfolding d by (simp add: source_nodes_def)
    then have "\<exists>x \<in> set (rn_facts (add_fact node d r)). cn_node_id c \<in> set (sd_source_ir_node_ids x)"
      by (simp add: add_fact_def)
    with run_ok_consume [OF ok] Some show ?thesis by (simp add: consume_context_def)
  qed (simp add: consume_context_def ok)
qed

text \<open>A negated statement gives a fact over the statement and its scope, or none.\<close>

lemma build_negated_fact_Some:
  assumes "build_negated_fact lib context ir pack m node = Inr (Some d)"
  shows "\<exists>out scope v st fv ic ver. resolve_scope m node ir = Inr out \<and> so_scope out = Some scope
    \<and> d = build_fact lib context pack m v scope (source_nodes node out) st fv ic ver"
proof -
  from assms obtain out scope where "resolve_scope m node ir = Inr out" "so_scope out = Some scope"
    "reset_fact lib context pack m node out scope = Inr (Some d)
      \<or> removal_fact lib context ir pack m node out scope = Inr (Some d)
      \<or> inverted_fact lib context ir pack m node out scope = Inr (Some d)"
    by (cases "dm_negation_behavior m") (auto simp: build_negated_fact_def split: if_splits option.splits)
  moreover from this(3) obtain v st fv ic ver
    where "d = build_fact lib context pack m v scope (source_nodes node out) st fv ic ver"
    by (auto simp: reset_fact_def removal_fact_def inverted_fact_def
        split: if_splits option.splits sum.splits)
  ultimately show ?thesis by blast
qed

lemma apply_mapping_ok:
  assumes "apply_mapping lib context ir pack node m r = Inr r'" and ok: "run_ok context ir r"
    and node: "node \<in> set (statements ir)"
  shows "run_ok context ir r'"
proof -
  have resolved: "run_ok context ir r''" if "apply_value lib context ir pack node m v r = Inr r''" for v r''
    using that run_ok_note [OF ok node] run_ok_fact(2) [OF ok node _ refl]
    by (auto simp: apply_value_def split: option.splits)
  have negated: "run_ok context ir r''" if "apply_negated lib context ir pack node m r = Inr r''" for r''
  proof -
    from that obtain f where f: "build_negated_fact lib context ir pack m node = Inr f"
      "r'' = (case f of None \<Rightarrow> note_diagnostic ''unsupported_negation'' node m r | Some d \<Rightarrow> add_fact node d r)"
      by (auto simp: apply_negated_def split: option.splits)
    show ?thesis
    proof (cases f)
      case None
      with f(2) run_ok_note [OF ok node] show ?thesis by simp
    next
      case (Some d)
      from build_negated_fact_Some [OF f(1) [unfolded Some]]
      obtain out scope v st fv ic ver where "resolve_scope m node ir = Inr out"
        "d = build_fact lib context pack m v scope (source_nodes node out) st fv ic ver" by metis
      with run_ok_fact(1) [OF ok node] f(2) Some show ?thesis by simp
    qed
  qed
  show ?thesis
    using assms(1) ok run_ok_note [OF ok node] resolved negated
    by (auto simp: apply_mapping_def split: if_splits option.splits)
qed

lemma fold_res_invariant:
  "fold_res f xs s = Inr s' \<Longrightarrow> P s \<Longrightarrow> (\<And>x t t'. x \<in> set xs \<Longrightarrow> f x t = Inr t' \<Longrightarrow> P t \<Longrightarrow> P t') \<Longrightarrow> P s'"
proof (induction xs arbitrary: s)
  case (Cons x xs)
  then obtain t where "f x s = Inr t" "fold_res f xs t = Inr s'" by auto
  with Cons show ?case by (metis list.set_intros)
qed simp

lemma run_keeps_ok:
  assumes "fold_res (apply_mappings lib context ir pack) (statements ir) empty_run = Inr r"
  shows "run_ok context ir r"
  using assms run_ok_empty
proof (rule fold_res_invariant)
  show "run_ok context ir t'" if "node \<in> set (statements ir)"
    "apply_mappings lib context ir pack node t = Inr t'" "run_ok context ir t" for node t t'
    using that(2) unfolding apply_mappings_def
    by (rule fold_res_invariant) (use that apply_mapping_ok in blast)+
qed

section \<open>Sealed mappings give valid facts\<close>

text \<open>
  A reset fact carries no value, only a scope the field allows; every other fact satisfies the
  field registry.
\<close>

definition fact_valid :: "security_fact_draft \<Rightarrow> bool" where
  "fact_valid d =
     (if sd_state d = FS_UNKNOWN
      then sd_value d = TypedValue TV_NULL PNone \<and> sd_validation_status d = FV_UNRESOLVED
        \<and> (case get_field (sd_field_id d) of Inl _ \<Rightarrow> False
           | Inr f \<Rightarrow> sc_type (sd_scope d) \<in> cf_allowed_scope_types f)
      else (case validate_field_value_scope (sd_field_id d) (sd_value d) (sd_scope d) of
              Inl _ \<Rightarrow> False | Inr _ \<Rightarrow> True))"

definition sealed_here :: "structural_ir \<Rightarrow> declarative_mapping \<Rightarrow> config_node \<Rightarrow> bool" where
  "sealed_here ir m node =
     (sealed_mapping m \<and> built_in m \<and> short_arguments ir \<and> node \<in> set (ir_nodes ir))"

lemma sealed_extract:
  assumes "sealed_here ir m node"
  shows "\<exists>f oc. get_field (dm_field_id m) = Inr f \<and> extract_mapping py m node ir = Inr oc
    \<and> (\<forall>v. eo_value oc = Some v \<longrightarrow> tv_type v \<in> cf_expected_types f \<and> typed_value_valid (tv_type v) (tv_val v))"
proof -
  from assms obtain x where x: "dict_get EXTRACTORS (dm_extractor m) = Some x"
    using dict_get_None [of EXTRACTORS "dm_extractor m"] by (auto simp: sealed_here_def sealed_mapping_def)
  from assms obtain f where f: "get_field (dm_field_id m) = Inr f"
    "extractor_types (dm_extractor m) \<subseteq> cf_expected_types f"
    by (auto simp: sealed_here_def sealed_mapping_def get_field_def split: option.splits)
  obtain oc where oc: "x node = Inr oc"
    using extractor_total [OF x, of node] assms
    by (auto simp: sealed_here_def short_arguments_def list_all_iff)
  have "extract_mapping py m node ir = Inr oc"
    using assms x oc by (simp add: extract_mapping_def sealed_here_def sealed_mapping_def)
  moreover have "tv_type v \<in> cf_expected_types f \<and> typed_value_valid (tv_type v) (tv_val v)"
    if "eo_value oc = Some v" for v
    using extractor_returns [OF x, of node] oc that f(2) by (auto simp: returns_def)
  ultimately show ?thesis using f(1) by blast
qed

lemma sealed_scope:
  assumes "sealed_here ir m node" and f: "get_field (dm_field_id m) = Inr f"
  shows "\<exists>out. resolve_scope m node ir = Inr out
    \<and> (\<forall>s. so_scope out = Some s \<longrightarrow> sc_type s \<in> cf_allowed_scope_types f \<and> sc_key s \<noteq> [])"
proof -
  from assms obtain t where t: "dict_get SCOPE_RESOLVER_TYPES (dm_scope_resolver m) = Some t"
    "t \<in> cf_allowed_scope_types f"
    by (auto simp: sealed_here_def built_in_def mapping_checks_def get_field_def split: option.splits)
  then obtain x where x: "dict_get SCOPE_RESOLVERS (dm_scope_resolver m) = Some x"
    using resolver_keys by blast
  then obtain out where "x node ir = Inr out"
    using resolver_total assms(1) unfolding sealed_here_def by blast
  with x t resolver_type [OF x, of node ir out] show ?thesis
    by (auto simp: resolve_scope_def)
qed

lemma fact_valid_value:
  assumes "get_field i = Inr f" and "tv_type v \<in> cf_expected_types f" and "typed_value_valid (tv_type v) (tv_val v)"
    and "sc_type s \<in> cf_allowed_scope_types f" and "sc_key s \<noteq> []"
  shows "validate_field_value_scope i v s = Inr f"
  using assms by (simp add: validate_field_value_scope_Inr)

lemma sealed_negated:
  assumes "sealed_here ir m node"
  shows "\<exists>o1. build_negated_fact lib context ir pack m node = Inr o1 \<and> (\<forall>d. o1 = Some d \<longrightarrow> fact_valid d)"
proof (cases "dm_negation_behavior m = NB_UNSUPPORTED \<or> cn_parse_status node \<noteq> PS_PARSED")
  case False
  obtain f oc where f: "get_field (dm_field_id m) = Inr f" "extract_mapping (lb_pydantic lib) m node ir = Inr oc"
    and oc: "\<And>v. eo_value oc = Some v \<Longrightarrow> tv_type v \<in> cf_expected_types f \<and> typed_value_valid (tv_type v) (tv_val v)"
    using sealed_extract [OF assms, of "lb_pydantic lib"] by blast
  obtain out where out: "resolve_scope m node ir = Inr out"
    and scope: "\<And>s. so_scope out = Some s \<Longrightarrow> sc_type s \<in> cf_allowed_scope_types f \<and> sc_key s \<noteq> []"
    using sealed_scope [OF assms f(1)] by blast
  note valid = fact_valid_value [OF f(1)]
  show ?thesis
  proof (cases "so_scope out")
    case (Some s)
    note s = scope [OF Some]
    have reset: "\<exists>o1. reset_fact lib context pack m node out s = Inr o1 \<and> (\<forall>d. o1 = Some d \<longrightarrow> fact_valid d)"
      using f(1) s by (auto simp: reset_fact_def fact_valid_def simp del: and_then_Inr)
    have removal: "\<exists>o1. removal_fact lib context ir pack m node out s = Inr o1 \<and> (\<forall>d. o1 = Some d \<longrightarrow> fact_valid d)"
    proof (cases "eo_value oc")
      case (Some v)
      with oc valid s have "validate_field_value_scope (dm_field_id m) v s = Inr f" by blast
      with f(2) Some show ?thesis by (simp add: removal_fact_def fact_valid_def del: and_then_Inr)
    qed (simp add: removal_fact_def f(2) del: and_then_Inr)
    have inverted: "\<exists>o1. inverted_fact lib context ir pack m node out s = Inr o1 \<and> (\<forall>d. o1 = Some d \<longrightarrow> fact_valid d)"
    proof (cases "eo_value oc")
      case (Some v)
      let ?w = "\<lparr>tv_type = TV_BOOLEAN, tv_val = py_not (tv_val v), tv_unit = PNone,
        tv_original_value = tv_original_value v, tv_original_unit = PNone\<rparr>"
      have "validate_field_value_scope (dm_field_id m) ?w s = Inr f" if "tv_type v = TV_BOOLEAN"
        using oc [OF Some] that s by (intro valid) (simp_all add: py_not_def)
      with f(2) Some show ?thesis
        by (auto simp: inverted_fact_def fact_valid_def simp del: and_then_Inr)
    qed (simp add: inverted_fact_def f(2) del: and_then_Inr)
    show ?thesis
      using False out Some reset removal inverted
      by (cases "dm_negation_behavior m") (simp_all add: build_negated_fact_def del: and_then_Inr)
  qed (use False out in \<open>simp add: build_negated_fact_def del: and_then_Inr\<close>)
qed (auto simp: build_negated_fact_def)

definition facts_valid :: "interpretation_run \<Rightarrow> bool" where
  "facts_valid r = list_all fact_valid (rn_facts r)"

lemma facts_valid_simps [simp]:
  "facts_valid (note_diagnostic code node m r) = facts_valid r"
  "facts_valid (add_fact node d r) \<longleftrightarrow> facts_valid r \<and> fact_valid d"
  "facts_valid (consume_context out r) = facts_valid r"
  by (simp_all add: facts_valid_def note_diagnostic_def add_run_diagnostic_def add_fact_def consume_context_def
      split: option.splits)

lemma sealed_apply:
  assumes forest: "ir_forest dp k ir" and here: "sealed_here ir m node" and valid: "facts_valid r"
  shows "\<exists>r'. apply_mapping lib context ir pack node m r = Inr r' \<and> facts_valid r'"
proof -
  obtain f oc where f: "get_field (dm_field_id m) = Inr f" "extract_mapping (lb_pydantic lib) m node ir = Inr oc"
    and oc: "\<And>v. eo_value oc = Some v \<Longrightarrow> tv_type v \<in> cf_expected_types f \<and> typed_value_valid (tv_type v) (tv_val v)"
    using sealed_extract [OF here, of "lb_pydantic lib"] by blast
  obtain out where out: "resolve_scope m node ir = Inr out"
    and scope: "\<And>s. so_scope out = Some s \<Longrightarrow> sc_type s \<in> cf_allowed_scope_types f \<and> sc_key s \<noteq> []"
    using sealed_scope [OF here f(1)] by blast
  have resolved: "\<exists>r'. apply_value lib context ir pack node m v r = Inr r' \<and> facts_valid r'"
    if v: "eo_value oc = Some v" for v
  proof (cases "so_scope out")
    case (Some s)
    have "validate_field_value_scope (dm_field_id m) v s = Inr f"
      using oc [OF v] scope [OF Some] by (intro fact_valid_value [OF f(1)]) simp_all
    with Some out valid show ?thesis
      by (simp add: apply_value_def raise_from_def fact_valid_def del: and_then_Inr)
  qed (simp add: apply_value_def out valid del: and_then_Inr)
  have negated: "\<exists>r'. apply_negated lib context ir pack node m r = Inr r' \<and> facts_valid r'"
    using sealed_negated [OF here, of lib "context" pack] valid
    by (auto simp: apply_negated_def simp del: and_then_Inr split: option.splits)
  obtain b where "mapping_matches (lb_pydantic lib) m node ir = Inr b"
    using matcher_matches_ends [OF forest, of node "dm_matcher m"] here
    by (auto simp: mapping_matches_def sealed_here_def sealed_mapping_def)
  with f(2) resolved negated valid show ?thesis
    by (cases "eo_value oc") (auto simp: apply_mapping_def simp del: and_then_Inr split: option.splits)
qed

lemma fold_res_total:
  "P s \<Longrightarrow> (\<And>x t. x \<in> set xs \<Longrightarrow> P t \<Longrightarrow> \<exists>t'. f x t = Inr t' \<and> P t') \<Longrightarrow> \<exists>s'. fold_res f xs s = Inr s' \<and> P s'"
proof (induction xs arbitrary: s)
  case (Cons x xs)
  then obtain t where "f x s = Inr t" "P t" by (metis list.set_intros(1))
  with Cons show ?case by simp
qed simp

lemma sealed_run_total:
  assumes forest: "ir_forest dp k ir" and short: "short_arguments ir" and pack: "cli_pack pack"
  shows "\<exists>r. fold_res (apply_mappings lib context ir pack) (statements ir) empty_run = Inr r \<and> facts_valid r"
proof (rule fold_res_total)
  show "facts_valid empty_run" by (simp add: facts_valid_def empty_run_def)
  fix node t assume node: "node \<in> set (statements ir)" and t: "facts_valid t"
  have "sealed_here ir m node" if "m \<in> set (kp_mappings pack)" for m
    using that packs_sealed [OF pack] packs_built_in pack short statement_member [OF node]
    by (auto simp: sealed_here_def cli_pack_def list_all_iff)
  with t show "\<exists>t'. apply_mappings lib context ir pack node t = Inr t' \<and> facts_valid t'"
    unfolding apply_mappings_def by (intro fold_res_total sealed_apply [OF forest])
qed

end
