(* ===== verification/Interpreter_Theorems.thy ===== *)
theory Interpreter_Theorems
  imports Interpreter_Props
begin

text \<open>
  What the interpreters guarantee: walks end, sealed packs give valid facts on every tree that a
  line reader builds, and every evidence node is either cited by a fact or left unresolved.
\<close>

section \<open>Walks end\<close>

lemma ancestor_commands_length:
  "ancestor_commands fuel ir a found = Inr cs \<Longrightarrow> length found \<le> 8 \<Longrightarrow> length cs \<le> 8"
proof (induction fuel ir a found rule: ancestor_commands.induct)
  case (3 fuel ir ancestor found)
  then show ?case
    by (auto simp: Let_def split: if_splits option.splits list.splits)
qed simp_all

lemma forest_walks:
  assumes "ir_forest d k ir" and "n \<in> set (ir_nodes ir)"
  shows "(\<exists>b. matcher_matches m n ir = Inr b)
    \<and> (\<exists>b. \<forall>more. ancestor_matches (length (ir_nodes ir) + more) m ir (cn_parent_id n) = Inr b)
    \<and> (\<exists>cs. length cs \<le> 8 \<and> (\<forall>more. ancestor_commands (length (ir_nodes ir) + more) ir (Some n) [] = Inr cs))"
proof -
  obtain i where i: "i < length (ir_nodes ir)" "n = ir_nodes ir ! i"
    using forest_member [OF assms(2)] by blast
  obtain cs where cs: "\<forall>more. ancestor_commands (length (ir_nodes ir) + more) ir (Some n) [] = Inr cs"
    using ancestor_commands_ends [OF assms(1) i(1), of "length (ir_nodes ir)" "[]"] i by blast
  then have "length cs \<le> 8" using ancestor_commands_length by (metis le0 list.size(3))
  with cs matcher_matches_ends [OF assms] ancestor_matches_ends [OF assms(1) i(1) less_imp_le [OF i(1)]] i(2)
  show ?thesis by blast
qed

text \<open>
  C27. The three walks to the ancestors end on every node of a tree of either line reader, even
  when the identifiers of nodes collide: a matcher gives an answer, the search for the ancestor
  command gives the same answer for every bound from the number of nodes on, and at most eight
  ancestor commands are collected, again the same for every larger bound.
\<close>

theorem ancestor_walks_end:
  "list_all (\<lambda>ir. list_all (\<lambda>n.
       (\<exists>b. matcher_matches m n ir = Inr b)
       \<and> (\<exists>b. \<forall>more. ancestor_matches (length (ir_nodes ir) + more) m ir (cn_parent_id n) = Inr b)
       \<and> (\<exists>cs. length cs \<le> 8
            \<and> (\<forall>more. ancestor_commands (length (ir_nodes ir) + more) ir (Some n) [] = Inr cs)))
     (ir_nodes ir)) [indentation_parse sha rq, fortios_parse sha rq]"
proof -
  obtain d k d' k' where "ir_forest d k (indentation_parse sha rq)" "ir_forest d' k' (fortios_parse sha rq)"
    using indentation_parse_run [of sha rq] fortios_parse_run [of sha rq] run_forest by metis
  with forest_walks show ?thesis unfolding list_all_iff by (metis empty_iff empty_set set_ConsD)
qed

section \<open>Sealed packs\<close>

definition guard_refusals :: "exc set" where
  "guard_refusals = invalid_interpretation ` {''profile_ir_incompatible'', ''ir_provenance_invalid'',
     ''knowledge_pack_invalid''}"

lemma and_then_class:
  "(\<And>e. m = Inl e \<Longrightarrow> P e) \<Longrightarrow> (\<And>a e. m = Inr a \<Longrightarrow> k a = Inl e \<Longrightarrow> P e) \<Longrightarrow> and_then m k = Inl e \<Longrightarrow> P e"
  by (auto simp: and_then_Inl)

lemma fold_res_class:
  "(\<And>x s e. f x s = Inl e \<Longrightarrow> P e) \<Longrightarrow> fold_res f xs s = Inl e \<Longrightarrow> P e"
  by (induction xs arbitrary: s) (auto simp: and_then_Inl)

lemma validate_mapping_class:
  "validate_mapping al ty m seen = Inl e \<Longrightarrow> exc_class e = KnowledgePackValidationError"
  by (auto simp: validate_mapping_def validate_matcher_def pack_error_def and_then_Inl split: option.splits)

lemma validate_for_profile_class:
  "validate_for_profile p k = Inl e \<Longrightarrow> exc_class e = KnowledgePackValidationError"
  by (auto simp: validate_for_profile_def validate_knowledge_pack_def pack_error_def and_then_Inl
      dest: fold_res_class [of _ "\<lambda>e. exc_class e = KnowledgePackValidationError", rotated]
      intro: validate_mapping_class)

lemma guards_refuse:
  "admit_ir rid source artifacts context v (Some k) profile = Inl e \<Longrightarrow> e \<in> guard_refusals"
  "value_error_as ''knowledge_pack_invalid'' (validate_for_profile p k) = Inl e \<Longrightarrow> e \<in> guard_refusals"
  by (auto simp: admit_ir_def guard_refusals_def chosen_pack_def value_error_as_def and_then_Inl
      dest: validate_for_profile_class split: option.splits sum.splits)

lemma reader_forest:
  "ir \<in> {indentation_parse sha rq, fortios_parse sha rq} \<Longrightarrow> \<exists>d k. ir_forest d k ir"
  using indentation_parse_run [of sha rq] fortios_parse_run [of sha rq] run_forest
  by (metis insert_iff singleton_iff)

lemma admit_ir_pack: "admit_ir rid source artifacts context v (Some k) profile = Inr (p, k') \<Longrightarrow> k' = k"
  by (auto simp: admit_ir_def chosen_pack_def split: option.splits)


text \<open>A run on the Cisco pack, with a source of the audited snapshot.\<close>

definition sample_context :: interpretation_context where
  "sample_context = \<lparr>ic_audit_id = 11, ic_device_id = 12, ic_snapshot_id = 3\<rparr>"

definition snapshot_request :: "string \<Rightarrow> structural_parse_request" where
  "snapshot_request content = (sample_request content)\<lparr>rq_source := sample_source\<lparr>ap_snapshot_id := Some 3\<rparr>\<rparr>"

lemma cisco_validates: "validate_for_profile CISCO_IOS_XE_17 CISCO_IOS_XE_17_KNOWLEDGE_PACK
    = Inr CISCO_IOS_XE_17_KNOWLEDGE_PACK"
  using pack_validates [of CISCO_IOS_XE_17_KNOWLEDGE_PACK]
  by (simp add: validate_for_profile_def REGISTERED_PACKS_def CISCO_IOS_XE_17_def
      CISCO_IOS_XE_17_KNOWLEDGE_PACK_def)

lemma cisco_is_cli: "cli_pack CISCO_IOS_XE_17_KNOWLEDGE_PACK"
  by (simp add: cli_pack_def REGISTERED_PACKS_def) (simp add: CISCO_IOS_XE_17_KNOWLEDGE_PACK_def)


section \<open>No evidence is lost\<close>

lemma matched_bound:
  assumes "run_ok context ir r"
  shows "card (rn_matched r) \<le> length (evidence_nodes ir)"
proof -
  have "rn_matched r \<subseteq> cn_node_id ` set (statements ir)" using assms unfolding run_ok_def by metis
  then have "card (rn_matched r) \<le> card (cn_node_id ` set (statements ir))" by (simp add: card_mono)
  also have "\<dots> \<le> length (statements ir)" by (metis card_length length_map set_map)
  also have "length (filter P ns) \<le> length (filter (\<lambda>n. P n \<or> Q n) ns)" for P Q and ns :: "config_node list"
    by (induction ns) simp_all
  from this [of "\<lambda>n. cn_kind n = STATEMENT" "ir_nodes ir" "\<lambda>n. cn_kind n = OPAQUE"]
  have "length (statements ir) \<le> length (evidence_nodes ir)" by (simp add: statements_def evidence_nodes_def)
  finally show ?thesis .
qed

text \<open>
  C29. The interpretation of command-line evidence, by any pack: every fact belongs to the audit,
  device and snapshot of the context and cites nodes of the tree at their positions; every
  statement and every opaque node is cited by a fact or stays unresolved; no unresolved node is
  the statement a fact was read from; no diagnostic is repeated; and the counts agree with the
  lists, with at least as many nodes considered as matched.
\<close>

theorem evidence_accounted_for:
  "case interpret_structural_ir lib ir context v pack profile of Inl e \<Rightarrow> True
   | Inr res \<Rightarrow>
       list_all (\<lambda>d. fact_cites ir d \<and> fact_owned context d) (it_facts res)
       \<and> list_all (\<lambda>i. i \<in> set (it_unresolved_node_ids res)
            \<or> list_ex (\<lambda>d. i \<in> set (sd_source_ir_node_ids d)) (it_facts res))
          (map cn_node_id (evidence_nodes ir))
       \<and> list_all (\<lambda>i. i \<in> set (map cn_node_id (evidence_nodes ir))
            \<and> \<not> list_ex (\<lambda>d. first_source d = i) (it_facts res)) (it_unresolved_node_ids res)
       \<and> distinct (it_diagnostics res)
       \<and> im_facts_produced (it_metrics res) = int (length (it_facts res))
       \<and> im_unsupported_cases (it_metrics res) = int (length (it_diagnostics res))
       \<and> 0 \<le> im_unmatched_nodes (it_metrics res)"
proof (cases "interpret_structural_ir lib ir context v pack profile")
  case (Inr res)
  then obtain k r where r: "fold_res (apply_mappings lib context ir k) (statements ir) empty_run = Inr r"
    and res: "res = run_result ir r"
    by (auto simp: interpret_structural_ir_def)
  note ok = run_keeps_ok [OF r]
  have "i \<in> set (it_unresolved_node_ids res) \<or> (\<exists>d \<in> set (rn_facts r). i \<in> set (sd_source_ir_node_ids d))"
    if "i \<in> cn_node_id ` set (evidence_nodes ir)" for i
  proof (cases "i \<in> rn_matched r")
    case True
    then obtain d where "d \<in> set (rn_facts r)" "i = first_source d" "fact_cites ir d"
      using ok by (auto simp: run_ok_def list_all_iff)
    moreover from this(3) have "sd_source_ir_node_ids d \<noteq> []" by (auto simp: fact_cites_def)
    ultimately have "i \<in> set (sd_source_ir_node_ids d)" by (simp add: first_source_def)
    with \<open>d \<in> set (rn_facts r)\<close> show ?thesis by blast
  next
    case False
    with that ok show ?thesis by (auto simp: res run_result_def Let_def run_ok_def)
  qed
  with ok matched_bound [OF ok] show ?thesis
    unfolding Inr res by (auto simp: run_result_def Let_def run_ok_def list_all_iff list_ex_iff)
      (metis image_eqI)
qed simp

text \<open>The same for a structured tree, over the leaves of the tree.\<close>

definition accounts :: "interpretation_context \<Rightarrow> string list \<Rightarrow> string list \<Rightarrow> interpretation_result \<Rightarrow> bool" where
  "accounts context nodes leaves res =
     (list_all (\<lambda>d. fact_owned context d \<and> list_ex (\<lambda>i. sd_source_ir_node_ids d = [i]) nodes) (it_facts res)
      \<and> it_unresolved_node_ids res =
          filter (\<lambda>i. \<not> list_ex (\<lambda>d. sd_source_ir_node_ids d = [i]) (it_facts res)) leaves)"

definition structured_ok :: "interpretation_context \<Rightarrow> string list \<Rightarrow> structured_run \<Rightarrow> bool" where
  "structured_ok context nodes r =
     (list_all (\<lambda>d. fact_owned context d \<and> list_ex (\<lambda>i. sd_source_ir_node_ids d = [i]) nodes) (fst r)
      \<and> (\<forall>i. i \<in> snd (snd r) \<longleftrightarrow> (\<exists>d \<in> set (fst r). sd_source_ir_node_ids d = [i])))"

lemma structured_step_ok:
  assumes "structured_match_step label node_id unsupported mk m d nc r = Inr r'" and "structured_ok context nodes r"
    and "node_id (fst nc) \<in> set nodes"
    and "\<And>v s n. fact_owned context (mk v s n) \<and> sd_source_ir_node_ids (mk v s n) = [node_id n]"
  shows "structured_ok context nodes r'"
  using assms(1,2)
proof (cases "unsupported (fst nc)")
  case False
  with assms show ?thesis
    by (auto simp: structured_match_step_def structured_diagnostic_def structured_ok_def list_ex_iff
        split: sum.splits if_splits)
qed (auto simp: structured_match_step_def structured_diagnostic_def structured_ok_def)

lemma structured_mapping_ok:
  assumes "structured_mapping_step py label operation node_id unsupported find_nodes mk m r = Inr r'"
    and "structured_ok context nodes r"
    and "\<And>d ncs nc. find_nodes d = Inr ncs \<Longrightarrow> nc \<in> set ncs \<Longrightarrow> node_id (fst nc) \<in> set nodes"
    and "\<And>m v s n. fact_owned context (mk m v s n) \<and> sd_source_ir_node_ids (mk m v s n) = [node_id n]"
  shows "structured_ok context nodes r'"
proof (cases "structured_definition py operation m")
  case (Inr o1)
  show ?thesis
  proof (cases o1)
    case (Some d)
    with assms(1) Inr obtain ncs where ncs: "find_nodes d = Inr ncs"
      "fold_res (structured_match_step label node_id (unsupported d) (mk m) m d) ncs r = Inr r'"
      by (auto simp: structured_mapping_step_def)
    from ncs(2) assms(2) show ?thesis
      by (rule fold_res_invariant) (rule structured_step_ok, assumption+, rule assms(3) [OF ncs(1)], assumption,
          rule assms(4))
  qed (use assms(1,2) Inr in \<open>simp add: structured_mapping_step_def\<close>)
qed (use assms(1) in \<open>simp add: structured_mapping_step_def\<close>)

lemma structured_fold_accounts:
  assumes "fold_res (structured_mapping_step py label operation node_id unsupported find_nodes mk) ms ([], [], {}) = Inr r"
    and "\<And>d ncs nc. find_nodes d = Inr ncs \<Longrightarrow> nc \<in> set ncs \<Longrightarrow> node_id (fst nc) \<in> set nodes"
    and "\<And>m v s n. fact_owned context (mk m v s n) \<and> sd_source_ir_node_ids (mk m v s n) = [node_id n]"
  shows "accounts context nodes leaves (structured_result leaves r)"
proof -
  have "structured_ok context nodes ([], [], {})" by (simp add: structured_ok_def)
  with assms(1) have "structured_ok context nodes r"
    by (rule fold_res_invariant) (rule structured_mapping_ok, assumption+, rule assms(2), assumption+, rule assms(3))
  then show ?thesis
    by (auto simp: accounts_def structured_result_def Let_def structured_ok_def list_ex_iff intro: filter_cong)
qed

lemma collect_matches_member: "collect_matches f ns = Inr ncs \<Longrightarrow> nc \<in> set ncs \<Longrightarrow> fst nc \<in> set ns"
  by (induction ns arbitrary: ncs) (auto split: option.splits)

lemma matches_xml_member: "matches_xml d ir = Inr ncs \<Longrightarrow> nc \<in> set ncs \<Longrightarrow> fst nc \<in> set (xi_nodes ir)"
  by (auto simp: matches_xml_def dest: collect_matches_member split: match_operation.splits option.splits)

lemma matches_json_member: "matches_json d ir = Inr ncs \<Longrightarrow> nc \<in> set ncs \<Longrightarrow> fst nc \<in> set (ji_nodes ir)"
  by (auto simp: matches_json_def dest: collect_matches_member split: match_operation.splits option.splits)

lemma structured_facts [simp]:
  "fact_owned c (build_xml_fact lib c k m v s n)" "sd_source_ir_node_ids (build_xml_fact lib c k m v s n) = [xn_node_id n]"
  "fact_owned c (build_json_fact lib c k m v s j)" "sd_source_ir_node_ids (build_json_fact lib c k m v s j) = [jn_node_id j]"
  by (simp_all add: build_xml_fact_def build_json_fact_def draft_of_def fact_owned_def Let_def)

text \<open>
  C30. The interpretation of XML and JSON evidence: every fact belongs to the audit, device and
  snapshot of the context and cites exactly one node of the tree; the unresolved nodes are exactly
  the leaves that no fact cites, in the order of the tree; and a truncated JSON tree gives no fact
  at all and leaves every leaf unresolved.
\<close>

theorem structured_evidence_accounted_for:
  "(case interpret_xml_structural_ir lib ir context v pack profile of Inl e \<Rightarrow> True
    | Inr res \<Rightarrow> accounts context (map xn_node_id (xi_nodes ir)) (xml_leaves ir) res)
   \<and> (case interpret_json_structural_ir lib jr context v pack profile of Inl e \<Rightarrow> True
      | Inr res \<Rightarrow> accounts context (map jn_node_id (ji_nodes jr)) (json_leaves jr) res
          \<and> (if ji_truncated jr then it_facts res = [] \<and> it_unresolved_node_ids res = json_leaves jr else True))"
proof (intro conjI)
  show "case interpret_xml_structural_ir lib ir context v pack profile of Inl e \<Rightarrow> True
    | Inr res \<Rightarrow> accounts context (map xn_node_id (xi_nodes ir)) (xml_leaves ir) res"
    by (auto simp: interpret_xml_structural_ir_def dest: matches_xml_member split: sum.split
        intro!: structured_fold_accounts)
  show "case interpret_json_structural_ir lib jr context v pack profile of Inl e \<Rightarrow> True
    | Inr res \<Rightarrow> accounts context (map jn_node_id (ji_nodes jr)) (json_leaves jr) res
        \<and> (if ji_truncated jr then it_facts res = [] \<and> it_unresolved_node_ids res = json_leaves jr else True)"
    by (auto simp: interpret_json_structural_ir_def dest: matches_json_member split: sum.split if_splits
        intro!: structured_fold_accounts)
      (auto simp: accounts_def incomplete_result_def)
qed

end
