(* ===== verification/Audit_Records.thy ===== *)
theory Audit_Records
  imports Parsing_Service Effective_Policy Jobs
begin

text \<open>
  The rows the audit pipeline reads and writes (\<open>db/models/audit.py\<close>, \<open>snapshot.py\<close>, \<open>device.py\<close>,
  \<open>effective_state.py\<close>, \<open>finding.py\<close>, \<open>training.py\<close>, \<open>compliance/verdicts.py\<close>) and the store that
  holds them.  A table is a list in the order of insertion; \<open>select\<close> is \<open>filter\<close> or \<open>find\<close>, and
  a flush checks the constraints that the tables state.  Times are integers.  A JSON column keeps
  the dictionary the code writes; identifiers inside such columns are strings, as in the code.
  Creation times that nothing modelled reads are left out, and a reference to another row is checked
  where the code can break it.
\<close>

section \<open>Enumerations\<close>

datatype finding_verdict =
    VD_PASS | VD_FAIL | VD_UNKNOWN | VD_MANUAL_REVIEW | VD_NOT_APPLICABLE | VD_PROCESS_ERROR

fun verdict_value :: "finding_verdict \<Rightarrow> string" where
  "verdict_value VD_PASS = ''pass''"
| "verdict_value VD_FAIL = ''fail''"
| "verdict_value VD_UNKNOWN = ''unknown''"
| "verdict_value VD_MANUAL_REVIEW = ''manual_review''"
| "verdict_value VD_NOT_APPLICABLE = ''not_applicable''"
| "verdict_value VD_PROCESS_ERROR = ''process_error''"

datatype finding_severity = SEV_CRITICAL | SEV_HIGH | SEV_MEDIUM | SEV_LOW | SEV_INFORMATIONAL

fun severity_value :: "finding_severity \<Rightarrow> string" where
  "severity_value SEV_CRITICAL = ''critical''"
| "severity_value SEV_HIGH = ''high''"
| "severity_value SEV_MEDIUM = ''medium''"
| "severity_value SEV_LOW = ''low''"
| "severity_value SEV_INFORMATIONAL = ''informational''"

definition severities :: "finding_severity list" where
  "severities = [SEV_CRITICAL, SEV_HIGH, SEV_MEDIUM, SEV_LOW, SEV_INFORMATIONAL]"

definition severity_of_value :: "string \<Rightarrow> finding_severity option" where
  "severity_of_value s = find (\<lambda>v. severity_value v = s) severities"

datatype reevaluation_reason =
    RR_INITIAL | RR_KNOWLEDGE_PACK_UPDATE | RR_RULE_PACK_UPDATE | RR_POLICY_UPDATE
  | RR_PROFILE_CORRECTION | RR_MANUAL_REEVALUATION | RR_OTHER

datatype audit_status =
    AU_DRAFT | AU_QUEUED | AU_PROCESSING | AU_COMPLETED | AU_COMPLETED_WITH_UNKNOWNS
  | AU_COMPLETED_WITH_ERRORS | AU_FAILED

datatype processing_stage =
    ST_VALIDATING | ST_IDENTIFYING | ST_PARSING | ST_INTERPRETING | ST_RESOLVING_STATE
  | ST_EVALUATING | ST_FINALIZING

datatype snapshot_status = SS_DRAFT | SS_READY | SS_LOCKED | SS_ARCHIVED

datatype snapshot_grouping = SG_AUTOMATIC | SG_MANUALLY_CONFIRMED | SG_NEEDS_REVIEW

datatype snapshot_source = SO_UPLOAD | SO_API | SO_COLLECTOR | SO_IMPORT

datatype review_status = RV_OPEN | RV_UNDER_REVIEW | RV_MAPPED | RV_DISMISSED | RV_NOT_ACTIONABLE

datatype mapping_status =
    MS_SUGGESTED | MS_DRAFT | MS_TESTING | MS_APPROVED | MS_PUBLISHED | MS_SUPERSEDED | MS_REJECTED

datatype mapping_origin = OR_BUILT_IN | OR_ADMINISTRATOR | OR_AI_ASSISTED

datatype device_identity =
    DI_IDENTIFIED | DI_PARTIALLY_IDENTIFIED | DI_UNRESOLVED | DI_MANUALLY_CONFIRMED

section \<open>Rows\<close>

type_synonym json_object = "(string \<times> pyval) list"

record device =
  dv_device_id :: uuid
  dv_organization_id :: uuid
  dv_display_name :: string
  dv_latest_hostname :: "string option"
  dv_stable_serial_number :: "string option"
  dv_asset_tag :: "string option"
  dv_device_class :: device_class
  dv_identity_status :: device_identity
  dv_first_seen_at :: int
  dv_last_seen_at :: int
  dv_is_active :: bool
  dv_created_at :: int
  dv_updated_at :: int
  dv_schema_version :: string

record snapshot =
  sn_snapshot_id :: uuid
  sn_device_id :: uuid
  sn_organization_id :: uuid
  sn_label :: "string option"
  sn_captured_at :: "int option"
  sn_ingested_at :: int
  sn_status :: snapshot_status
  sn_grouping_status :: snapshot_grouping
  sn_snapshot_hash :: string
  sn_artifact_count :: nat
  sn_source :: snapshot_source
  sn_created_by :: "uuid option"
  sn_created_at :: int
  sn_schema_version :: string

record audit =
  au_audit_id :: uuid
  au_organization_id :: uuid
  au_device_id :: uuid
  au_snapshot_id :: uuid
  au_audit_batch_id :: "uuid option"
  au_revision_number :: nat
  au_previous_audit_id :: "uuid option"
  au_reevaluation_reason :: reevaluation_reason
  au_status :: audit_status
  au_processing_stage :: "processing_stage option"
  au_selected_frameworks :: "pyval list"
  au_version_refs :: json_object
  au_profile_resolution :: json_object
  au_verdict_counts :: json_object
  au_severity_counts :: json_object
  au_coverage :: json_object
  au_started_at :: "int option"
  au_completed_at :: "int option"
  au_created_at :: int
  au_created_by :: "uuid option"
  au_schema_version :: string

text \<open>
  An effective state is written from a draft whose scope has been validated; the scope column is
  kept as that scope.
\<close>

record effective_state =
  ef_effective_state_id :: uuid
  ef_audit_id :: uuid
  ef_device_id :: uuid
  ef_field_id :: string
  ef_scope :: scope_ref
  ef_scope_key :: string
  ef_effective_value :: "json_object option"
  ef_resolution_status :: resolution_status
  ef_source_fact_ids :: "uuid list"
  ef_resolution_trace :: "pyval list"
  ef_inherited_from :: "scope_ref option"
  ef_default_reference :: "string option"
  ef_referenced_objects :: "pyval list"
  ef_precedence_applied :: "pyval list"
  ef_unresolved_reason :: "unresolved_reason option"
  ef_schema_version :: string

record finding =
  fi_finding_id :: uuid
  fi_audit_id :: uuid
  fi_device_id :: uuid
  fi_comparison_key :: string
  fi_rule_id :: string
  fi_rule_pack_version_id :: uuid
  fi_title :: string
  fi_security_domain :: string
  fi_verdict :: finding_verdict
  fi_severity :: finding_severity
  fi_expected_state :: "json_object option"
  fi_observed_state :: "json_object option"
  fi_explanation :: string
  fi_affected_scope :: "json_object option"
  fi_effective_state_refs :: "string list"
  fi_evidence_refs :: "pyval list"
  fi_unknown_reason :: "unresolved_reason option"
  fi_framework_references :: "pyval list"
  fi_remediation_procedure_id :: "uuid option"
  fi_remediation_preview :: json_object
  fi_schema_version :: string

record unresolved_block =
  ub_unresolved_block_id :: uuid
  ub_organization_id :: uuid
  ub_audit_id :: uuid
  ub_device_id :: uuid
  ub_snapshot_id :: uuid
  ub_profile_id :: "string option"
  ub_profile_version_id :: "string option"
  ub_source_ir_node_ids :: "string list"
  ub_evidence_refs :: "pyval list"
  ub_raw_text :: string
  ub_surrounding_context :: string
  ub_unknown_reason :: string
  ub_candidate_field_ids :: "string list"
  ub_affected_rule_ids :: "string list"
  ub_fingerprint :: string
  ub_occurrence :: json_object
  ub_review_status :: review_status
  ub_assigned_mapping_version_id :: "uuid option"
  ub_schema_version :: string

record mapping_version =
  mv_mapping_version_id :: uuid
  mv_mapping_id :: uuid
  mv_organization_id :: uuid
  mv_mapping_key :: string
  mv_version :: nat
  mv_previous_mapping_version_id :: "uuid option"
  mv_title :: string
  mv_description :: string
  mv_status :: mapping_status
  mv_profile_applicability :: json_object
  mv_structural_match :: json_object
  mv_target_field_id :: string
  mv_value_extraction :: json_object
  mv_unit_conversion :: json_object
  mv_scope_resolution :: json_object
  mv_negation_behavior :: json_object
  mv_removal_behavior :: json_object
  mv_default_behavior :: json_object
  mv_examples :: "pyval list"
  mv_validation_results :: json_object
  mv_origin :: mapping_origin
  mv_created_by :: "uuid option"
  mv_approved_by :: "uuid option"
  mv_knowledge_pack_version_id :: "uuid option"
  mv_approved_at :: "int option"
  mv_published_at :: "int option"
  mv_schema_version :: string

record knowledge_pack_record =
  kr_knowledge_pack_id :: uuid
  kr_organization_id :: uuid
  kr_pack_key :: string
  kr_name :: string
  kr_schema_version :: string

record knowledge_pack_version =
  kv_knowledge_pack_version_id :: uuid
  kv_knowledge_pack_id :: uuid
  kv_organization_id :: uuid
  kv_version :: nat
  kv_previous_knowledge_pack_version_id :: "uuid option"
  kv_mapping_version_ids :: "pyval list"
  kv_published_by :: uuid
  kv_published_at :: int
  kv_schema_version :: string

record profile_manifest_row =
  pn_profile_manifest_version_id :: uuid
  pn_organization_id :: "uuid option"
  pn_profile_id :: string
  pn_profile_version_id :: string
  pn_manifest_schema_version :: string
  pn_manifest :: json_object
  pn_status :: string
  pn_published_at :: "int option"
  pn_created_at :: int

record runtime_rule_version =
  rv_runtime_rule_version_id :: uuid
  rv_organization_id :: uuid
  rv_rule_id :: string
  rv_version :: nat
  rv_profile_version_ids :: "string list"
  rv_canonical_field :: string
  rv_operator :: pyval
  rv_condition :: json_object
  rv_required_policy_parameters :: "string list"
  rv_title :: string
  rv_security_domain :: string
  rv_severity :: finding_severity
  rv_framework_references :: "pyval list"
  rv_content_digest :: string
  rv_status :: string
  rv_published_at :: int

section \<open>Users and assessments\<close>

datatype user_role = UR_ANALYST | UR_MAPPING_ADMIN | UR_ADMIN

text \<open>The identity that the services read; accounts and passwords are not modelled.\<close>

record user =
  us_user_id :: uuid
  us_organization_id :: uuid
  us_role :: user_role

record assessment_pack_row =
  ak_assessment_pack_version_id :: uuid
  ak_organization_id :: "uuid option"
  ak_pack_key :: string
  ak_family :: string
  ak_name :: string
  ak_version :: int
  ak_profile_version_ids :: pyval
  ak_source_metadata :: json_object
  ak_source_version_label :: string
  ak_content_digest :: string
  ak_applicability :: json_object
  ak_status :: string
  ak_published_at :: "int option"
  ak_created_at :: int
  ak_schema_version :: string

record obligation_row =
  ob_assessment_obligation_id :: uuid
  ob_assessment_pack_version_id :: uuid
  ob_obligation_key :: string
  ob_title :: string
  ob_framework_version :: string
  ob_source_url :: string
  ob_source_digest :: string
  ob_control_id :: string
  ob_severity :: string
  ob_scope :: string
  ob_applicability :: json_object
  ob_assessment_method :: string
  ob_implementation_status :: string
  ob_evaluator_rule_id :: "string option"
  ob_policy_parameters :: json_object
  ob_source_reference :: json_object

record audit_assessment =
  aa_audit_id :: uuid
  aa_organization_id :: uuid
  aa_assessment_pack_version_id :: uuid
  aa_profile_version_id :: string
  aa_pinned_identity :: json_object

record framework_assessment =
  fw_audit_framework_assessment_id :: uuid
  fw_audit_id :: uuid
  fw_organization_id :: uuid
  fw_assessment_pack_version_id :: uuid
  fw_profile_version_id :: string
  fw_pinned_identity :: json_object

record assessment_result_row =
  ar_assessment_result_id :: uuid
  ar_audit_id :: uuid
  ar_organization_id :: uuid
  ar_assessment_obligation_id :: uuid
  ar_technical_finding_id :: "uuid option"
  ar_result_identity :: string
  ar_applicability_status :: string
  ar_assessment_method :: string
  ar_implementation_status :: string
  ar_verdict :: "string option"
  ar_policy_digest :: string
  ar_result_details :: json_object

record profile_decision =
  pd_organization_id :: uuid
  pd_snapshot_id :: uuid
  pd_audit_id :: uuid
  pd_resolution_status :: string
  pd_selected_profile_id :: "string option"
  pd_selected_profile_version_id :: "string option"
  pd_applicability_status :: string
  pd_identity_provenance :: json_object
  pd_evidence_summary :: json_object

section \<open>The store\<close>

record audit_store =
  db_devices :: "device list"
  db_snapshots :: "snapshot list"
  db_artifacts :: "artifact list"
  db_audits :: "audit list"
  db_jobs :: job_table
  db_facts :: "security_fact list"
  db_blocks :: "unresolved_block list"
  db_states :: "effective_state list"
  db_findings :: "finding list"
  db_mapping_versions :: "mapping_version list"
  db_packs :: "knowledge_pack_record list"
  db_pack_versions :: "knowledge_pack_version list"
  db_profile_manifests :: "profile_manifest_row list"
  db_runtime_rules :: "runtime_rule_version list"
  db_assessment_packs :: "assessment_pack_row list"
  db_obligations :: "obligation_row list"
  db_assessments :: "audit_assessment list"
  db_framework_assessments :: "framework_assessment list"
  db_assessment_results :: "assessment_result_row list"
  db_decisions :: "profile_decision list"

definition find_audit :: "uuid \<Rightarrow> uuid \<Rightarrow> audit_store \<Rightarrow> audit option" where
  "find_audit audit_id organization_id db =
     find (\<lambda>a. au_audit_id a = audit_id \<and> au_organization_id a = organization_id) (db_audits db)"

definition get_snapshot_row :: "uuid \<Rightarrow> audit_store \<Rightarrow> snapshot option" where
  "get_snapshot_row snapshot_id db = find (\<lambda>s. sn_snapshot_id s = snapshot_id) (db_snapshots db)"

definition get_device_row :: "uuid \<Rightarrow> audit_store \<Rightarrow> device option" where
  "get_device_row device_id db = find (\<lambda>d. dv_device_id d = device_id) (db_devices db)"

text \<open>Writing an attribute of the row with an identifier.\<close>

definition update_rows :: "('r \<Rightarrow> 'k) \<Rightarrow> 'k \<Rightarrow> ('r \<Rightarrow> 'r) \<Rightarrow> 'r list \<Rightarrow> 'r list" where
  "update_rows key k f rows = map (\<lambda>r. if key r = k then f r else r) rows"

definition update_audit :: "uuid \<Rightarrow> (audit \<Rightarrow> audit) \<Rightarrow> audit_store \<Rightarrow> audit_store" where
  "update_audit audit_id f db = db\<lparr>db_audits := update_rows au_audit_id audit_id f (db_audits db)\<rparr>"

definition update_snapshot_row :: "uuid \<Rightarrow> (snapshot \<Rightarrow> snapshot) \<Rightarrow> audit_store \<Rightarrow> audit_store" where
  "update_snapshot_row snapshot_id f db =
     db\<lparr>db_snapshots := update_rows sn_snapshot_id snapshot_id f (db_snapshots db)\<rparr>"

definition persistence_error :: exc where
  "persistence_error = Exc SQLAlchemyError []"

text \<open>Adding a row: the constraints of its table, then the row.\<close>

definition insert_row :: "('r list \<Rightarrow> 'r \<Rightarrow> bool) \<Rightarrow> 'r \<Rightarrow> 'r list \<Rightarrow> exc + 'r list" where
  "insert_row admits r rows = and_then (require (admits rows r) persistence_error) (\<lambda>_. Inr (rows @ [r]))"

lemma insert_row_Inr [simp]: "insert_row admits r rows = Inr rows' \<longleftrightarrow> admits rows r \<and> rows' = rows @ [r]"
  by (auto simp: insert_row_def)

lemma insert_rows_Inr:
  "fold_res (insert_row admits) rs rows = Inr rows' \<Longrightarrow> rows' = rows @ rs"
  by (induction rs arbitrary: rows) fastforce+

lemma insert_rows_distinct:
  assumes "\<And>rows r. admits rows r \<Longrightarrow> k r \<notin> k ` set rows"
    and "fold_res (insert_row admits) rs rows = Inr rows'"
  shows "distinct (map k rs) \<and> k ` set rs \<inter> k ` set rows = {}"
  using assms(2)
proof (induction rs arbitrary: rows)
  case (Cons r rs)
  then have r: "admits rows r" and rest: "fold_res (insert_row admits) rs (rows @ [r]) = Inr rows'" by auto
  from Cons.IH [OF rest] assms(1) [OF r] show ?case by auto
qed simp

lemma update_rows_keys [simp]:
  "(\<And>r. key (f r) = key r) \<Longrightarrow> map key (update_rows key k f rows) = map key rows"
  by (simp add: update_rows_def)

section \<open>Constraints of the tables\<close>

text \<open>
  The lengths, the uniqueness and the check constraints.  The printed form of an identifier has
  36 characters, so the columns that hold one are not constrained here.  \<open>btrim\<close> removes blanks
  only.
\<close>

definition btrim_empty :: "string \<Rightarrow> bool" where
  "btrim_empty s = list_all (\<lambda>c. c = CHR '' '') s"

definition block_admitted :: "unresolved_block list \<Rightarrow> unresolved_block \<Rightarrow> bool" where
  "block_admitted rows b =
     (length (ub_raw_text b) \<le> 2048 \<and> length (ub_surrounding_context b) \<le> 4096
      \<and> length (ub_fingerprint b) = 64 \<and> length (ub_unknown_reason b) \<le> 128
      \<and> (\<forall>r \<in> set rows. ub_unresolved_block_id r \<noteq> ub_unresolved_block_id b
           \<and> (ub_audit_id r, ub_fingerprint r) \<noteq> (ub_audit_id b, ub_fingerprint b)))"

definition finding_admitted :: "finding list \<Rightarrow> finding \<Rightarrow> bool" where
  "finding_admitted rows f =
     (length (fi_explanation f) \<le> 2048 \<and> length (fi_comparison_key f) \<le> 1024
      \<and> length (fi_rule_id f) \<le> 255 \<and> length (fi_title f) \<le> 255 \<and> length (fi_security_domain f) \<le> 128
      \<and> \<not> btrim_empty (fi_comparison_key f) \<and> \<not> btrim_empty (fi_rule_id f) \<and> \<not> btrim_empty (fi_title f)
      \<and> \<not> btrim_empty (fi_security_domain f)
      \<and> (fi_verdict f = VD_UNKNOWN \<longleftrightarrow> fi_unknown_reason f \<noteq> None)
      \<and> (\<forall>r \<in> set rows. fi_finding_id r \<noteq> fi_finding_id f
           \<and> (fi_audit_id r, fi_comparison_key r) \<noteq> (fi_audit_id f, fi_comparison_key f)))"

definition state_admitted :: "effective_state list \<Rightarrow> effective_state \<Rightarrow> bool" where
  "state_admitted rows s =
     (length (ef_field_id s) \<le> 255 \<and> length (ef_scope_key s) \<le> 1024
      \<and> \<not> btrim_empty (ef_field_id s) \<and> \<not> btrim_empty (ef_scope_key s)
      \<and> (case ef_resolution_status s of
           RESOLVED \<Rightarrow> ef_effective_value s \<noteq> None \<and> ef_unresolved_reason s = None
         | UNKNOWN \<Rightarrow> ef_effective_value s = None \<and> ef_unresolved_reason s \<notin> {None, Some UR_CONFLICTING_EVIDENCE}
         | CONFLICTING \<Rightarrow> ef_effective_value s = None \<and> ef_unresolved_reason s = Some UR_CONFLICTING_EVIDENCE)
      \<and> (\<forall>r \<in> set rows. ef_effective_state_id r \<noteq> ef_effective_state_id s
           \<and> (ef_audit_id r, ef_field_id r, ef_scope_key r) \<noteq> (ef_audit_id s, ef_field_id s, ef_scope_key s)))"

definition audit_admitted :: "audit list \<Rightarrow> audit \<Rightarrow> bool" where
  "audit_admitted rows a =
     (1 \<le> au_revision_number a
      \<and> (\<forall>r \<in> set rows. au_audit_id r \<noteq> au_audit_id a
           \<and> (au_snapshot_id r, au_revision_number r) \<noteq> (au_snapshot_id a, au_revision_number a)))"

definition result_admitted :: "assessment_result_row list \<Rightarrow> assessment_result_row \<Rightarrow> bool" where
  "result_admitted rows r =
     (length (ar_result_identity r) \<le> 512
      \<and> (\<forall>x \<in> set rows. ar_assessment_result_id x \<noteq> ar_assessment_result_id r
           \<and> (ar_audit_id x, ar_result_identity x) \<noteq> (ar_audit_id r, ar_result_identity r)))"

text \<open>A finding that an assessment result names is not deleted (\<open>ondelete=RESTRICT\<close>).\<close>

definition finding_referenced :: "audit_store \<Rightarrow> finding \<Rightarrow> bool" where
  "finding_referenced db f = (Some (fi_finding_id f) \<in> ar_technical_finding_id ` set (db_assessment_results db))"

definition fact_admitted :: "security_fact list \<Rightarrow> security_fact \<Rightarrow> bool" where
  "fact_admitted rows f = (sf_fact_id f \<notin> sf_fact_id ` set rows)"

end
