(* ===== verification/Compliance_Model.thy ===== *)
theory Compliance_Model
  imports Audit_Records
begin

text \<open>
  The vocabulary of compliance (\<open>compliance/models.py\<close>), the evaluation of one declarative
  condition (\<open>compliance/evaluator.py\<close>), the registry of policy versions
  (\<open>compliance/policy.py\<close>) and applicability (\<open>compliance/applicability.py\<close>).  \<open>uuid5\<close> is a
  parameter; a tuple is a list, a mapping proxy is the dictionary it wraps.
\<close>

section \<open>\<open>repr\<close>\<close>

text \<open>\<open>str.__repr__\<close> over the code points 0..255.\<close>

definition repr_char :: "char \<Rightarrow> char \<Rightarrow> string" where
  "repr_char quote c = (let n = code_of c; b = CHR 0x5C in
     if c = quote \<or> c = b then [b, c]
     else if n = 9 then [b, CHR ''t'']
     else if n = 10 then [b, CHR ''n'']
     else if n = 13 then [b, CHR ''r'']
     else if n < 32 \<or> (127 \<le> n \<and> n \<le> 160) \<or> n = 173 then b # CHR ''x'' # hex_fixed 2 n
     else [c])"

definition str_repr :: "string \<Rightarrow> string" where
  "str_repr s = (let q = (if CHR 0x27 \<in> set s \<and> CHR 0x22 \<notin> set s then CHR 0x22 else CHR 0x27) in
     q # concat (map (repr_char q) s) @ [q])"

fun py_repr :: "pyval \<Rightarrow> string" where
  "py_repr PNone = ''None''"
| "py_repr (PBool b) = (if b then ''True'' else ''False'')"
| "py_repr (PInt i) = int_str i"
| "py_repr (PFloat m e) = float_repr m e"
| "py_repr (PStr s) = str_repr s"
| "py_repr (PList xs) = CHR ''['' # join '', '' (map py_repr xs) @ '']''"
| "py_repr (PDict d) =
     CHR 0x7B # join '', '' (map (\<lambda>(k, s). str_repr k @ '': '' @ s) (map (\<lambda>(k, v). (k, py_repr v)) d))
     @ [CHR 0x7D]"

text \<open>\<open>repr(sorted(d.items()))\<close>: the keys are distinct, so the pairs are ordered by them.\<close>

definition items_repr :: "json_object \<Rightarrow> string" where
  "items_repr d =
     CHR ''['' # join '', '' (map (\<lambda>(k, v). ''('' @ str_repr k @ '', '' @ py_repr v @ '')'') (sort_key fst d)) @ '']''"

text \<open>An f-string prints a string as it is.\<close>

fun py_format :: "pyval \<Rightarrow> string" where
  "py_format (PStr s) = s" | "py_format v = py_repr v"

definition attribute_error :: exc where "attribute_error = Exc AttributeError []"
definition key_error :: exc where "key_error = Exc KeyError []"
definition type_error :: exc where "type_error = Exc TypeError []"

text \<open>\<open>d[k]\<close>.\<close>

definition item :: "json_object \<Rightarrow> string \<Rightarrow> exc + pyval" where
  "item d k = (case dict_get d k of None \<Rightarrow> Inl key_error | Some v \<Rightarrow> Inr v)"

section \<open>Models\<close>

definition FINDING_NAMESPACE :: uuid where
  "FINDING_NAMESPACE = 0xf523ecac29ae5ed388f859a30521f8fe"

definition RULE_PACK_NAMESPACE :: uuid where
  "RULE_PACK_NAMESPACE = 0x753fcba1414158c9a75a323c1a8b4acb"

definition POLICY_NAMESPACE :: uuid where
  "POLICY_NAMESPACE = 0xd4b44bbcc35e57fb9e177b2f933f8972"

definition UNSCOPED_SCOPE_KEY :: string where
  "UNSCOPED_SCOPE_KEY = ''unscoped::rule''"

datatype applicability_status = APPLICABLE | NOT_APPLICABLE | UNRESOLVED_APPLICABILITY

datatype applicability_result = ApplicabilityResult
  (ar_status: applicability_status) (ar_reason: "unresolved_reason option")

record rule_definition =
  rd_rule_id :: string
  rd_title :: string
  rd_description :: string
  rd_security_domain :: string
  rd_severity :: finding_severity
  rd_severity_reason :: string
  rd_applicability :: json_object
  rd_required_effective_states :: "string list"
  rd_condition :: json_object
  rd_required_policy_parameters :: "string list"
  rd_framework_references :: "pyval list"

record rule_pack =
  rp_rule_pack_version_id :: uuid
  rp_name :: string
  rp_version :: string
  rp_profile_version_id :: string
  rp_rules :: "rule_definition list"
  rp_schema_version :: string

record organization_policy_version =
  op_organization_id :: uuid
  op_organization_policy_version_id :: uuid
  op_name :: string
  op_version :: string
  op_parameters :: json_object
  op_schema_version :: string

record finding_draft =
  fd_finding_id :: uuid
  fd_audit_id :: uuid
  fd_device_id :: uuid
  fd_comparison_key :: string
  fd_rule_id :: string
  fd_rule_pack_version_id :: uuid
  fd_title :: string
  fd_security_domain :: string
  fd_verdict :: finding_verdict
  fd_severity :: finding_severity
  fd_expected_state :: "json_object option"
  fd_observed_state :: "json_object option"
  fd_explanation :: string
  fd_affected_scope :: "scope_ref option"
  fd_effective_state_refs :: "uuid list"
  fd_evidence_refs :: "json_object list"
  fd_unknown_reason :: "unresolved_reason option"
  fd_framework_references :: "pyval list"
  fd_remediation_procedure_id :: "uuid option"
  fd_schema_version :: string

text \<open>\<open>canonical_scope_key\<close> of \<open>compliance/models.py\<close>, which does not validate the scope.\<close>

fun finding_scope_key :: "scope_ref option \<Rightarrow> string" where
  "finding_scope_key None = UNSCOPED_SCOPE_KEY"
| "finding_scope_key (Some scope) = sc_type scope @ ''::'' @ sc_key scope"

definition deterministic_finding_id ::
  "(uuid \<Rightarrow> string \<Rightarrow> uuid) \<Rightarrow> uuid \<Rightarrow> string \<Rightarrow> scope_ref option \<Rightarrow> exc + uuid" where
  "deterministic_finding_id uuid5 audit_id rule_id scope =
     and_then (require (audit_id \<noteq> 0 \<and> \<not> py_blank rule_id) (Exc ValueError ''Finding identity is malformed''))
       (\<lambda>_. Inr (uuid5 FINDING_NAMESPACE
         (uuid_str audit_id @ '':'' @ rule_id @ '':'' @ finding_scope_key scope)))"

definition comparison_key :: "string \<Rightarrow> scope_ref option \<Rightarrow> exc + string" where
  "comparison_key rule_id scope =
     and_then (require (\<not> py_blank rule_id) (Exc ValueError ''Finding comparison key is malformed''))
       (\<lambda>_. Inr (rule_id @ ''::'' @ finding_scope_key scope))"

definition deterministic_policy_version_id ::
  "(uuid \<Rightarrow> string \<Rightarrow> uuid) \<Rightarrow> uuid \<Rightarrow> string \<Rightarrow> string \<Rightarrow> json_object \<Rightarrow> uuid" where
  "deterministic_policy_version_id uuid5 organization_id name version parameters =
     uuid5 POLICY_NAMESPACE (uuid_str organization_id @ '':'' @ name @ '':'' @ version @ '':''
       @ json_dump (PDict parameters))"

section \<open>Evaluating a condition\<close>

definition evaluation_error :: "string \<Rightarrow> exc" where
  "evaluation_error m = Exc EvaluationError m"

definition verdict_of :: "bool \<Rightarrow> finding_verdict" where
  "verdict_of b = (if b then VD_PASS else VD_FAIL)"

text \<open>\<open>x in xs\<close> and \<open>xs.index(x)\<close> of a list.\<close>

definition py_member :: "pyval \<Rightarrow> pyval list \<Rightarrow> bool" where
  "py_member x xs = list_ex (py_eq x) xs"

definition py_index :: "pyval \<Rightarrow> pyval list \<Rightarrow> nat" where
  "py_index x xs = length (takeWhile (\<lambda>y. \<not> py_eq x y) xs)"

definition evaluate_equals :: "json_object \<Rightarrow> pyval \<Rightarrow> pyval \<Rightarrow> exc + finding_verdict" where
  "evaluate_equals condition value_type candidate =
     and_then (require (hashable value_type) type_error) (\<lambda>_.
     and_then (require (value_type = PStr ''boolean'' \<or> value_type = PStr ''integer'')
       (evaluation_error ''TypedValue is incompatible with equality rule'')) (\<lambda>_.
     and_then (item condition ''expected'') (\<lambda>expected.
     Inr (verdict_of (py_eq candidate expected)))))"

definition evaluate_maximum ::
  "json_object \<Rightarrow> pyval \<Rightarrow> pyval \<Rightarrow> pyval \<Rightarrow> exc + finding_verdict" where
  "evaluate_maximum condition value_type candidate parameter =
     and_then (require (value_type = PStr ''duration'' \<and> \<not> is_bool candidate \<and> is_number candidate)
       (evaluation_error ''TypedValue is incompatible with duration rule'')) (\<lambda>_.
     and_then (require (\<not> is_bool parameter \<and> is_number parameter)
       (evaluation_error ''Policy maximum is malformed'')) (\<lambda>_.
     let minimum = py_get condition ''minimum_exclusive''
     in and_then (require (minimum = PNone \<or> (\<not> is_bool minimum \<and> is_number minimum))
       (evaluation_error ''Rule minimum is malformed'')) (\<lambda>_.
     Inr (verdict_of ((minimum = PNone \<or> py_gt candidate minimum) \<and> py_le candidate parameter)))))"

definition evaluate_enum :: "json_object \<Rightarrow> pyval \<Rightarrow> pyval \<Rightarrow> exc + finding_verdict" where
  "evaluate_enum condition value_type candidate =
     (let expected = py_get condition ''expected'' in
      case py_get condition ''order'' of
        PList order \<Rightarrow>
          if value_type = PStr ''enum'' \<and> is_str candidate \<and> py_member candidate order \<and> py_member expected order
          then Inr (verdict_of (py_index expected order \<le> py_index candidate order))
          else Inl (evaluation_error ''TypedValue is incompatible with ordered-enum rule'')
      | _ \<Rightarrow> Inl (evaluation_error ''TypedValue is incompatible with ordered-enum rule''))"

fun member_value :: "pyval \<Rightarrow> exc + string" where
  "member_value (PDict d) = (case py_get d ''value'' of PStr s \<Rightarrow> Inr s
     | _ \<Rightarrow> Inl (evaluation_error ''Collection member is malformed''))"
| "member_value _ = Inl (evaluation_error ''Collection member is malformed'')"

definition evaluate_collection ::
  "bool \<Rightarrow> pyval \<Rightarrow> pyval \<Rightarrow> pyval \<Rightarrow> exc + finding_verdict" where
  "evaluate_collection non_empty value_type candidate parameter =
     (case candidate of
        PList items \<Rightarrow>
          if value_type = PStr ''list''
          then and_then (map_res member_value items) (\<lambda>members.
            if non_empty then Inr (verdict_of (members \<noteq> []))
            else (case parameter of
                PList allowed \<Rightarrow>
                  if list_all is_str allowed
                  then Inr (verdict_of (list_all (\<lambda>m. PStr m \<in> set allowed) members))
                  else Inl (evaluation_error ''Policy allow-list is malformed'')
              | _ \<Rightarrow> Inl (evaluation_error ''Policy allow-list is malformed'')))
          else Inl (evaluation_error ''TypedValue is incompatible with collection rule'')
      | _ \<Rightarrow> Inl (evaluation_error ''TypedValue is incompatible with collection rule''))"

text \<open>
  \<open>value\<close> is the column \<open>effective_value\<close>; \<open>None.get\<close> is an \<open>AttributeError\<close>.  The operator is
  compared with a set after the three equality tests, so an unhashable one is a \<open>TypeError\<close>.
\<close>

definition evaluate_condition ::
  "rule_definition \<Rightarrow> json_object option \<Rightarrow> pyval \<Rightarrow> exc + finding_verdict" where
  "evaluate_condition rule observed parameter =
     and_then (item (rd_condition rule) ''operator'') (\<lambda>operator.
     case observed of
       None \<Rightarrow> Inl attribute_error
     | Some v \<Rightarrow>
         (let candidate = py_get v ''value''; value_type = py_get v ''type''
          in if operator = PStr ''equals''
             then evaluate_equals (rd_condition rule) value_type candidate
             else if operator = PStr ''less_than_or_equal''
             then evaluate_maximum (rd_condition rule) value_type candidate parameter
             else if operator = PStr ''enum_at_least''
             then evaluate_enum (rd_condition rule) value_type candidate
             else if \<not> hashable operator then Inl type_error
             else if operator = PStr ''non_empty'' \<or> operator = PStr ''all_members_in_parameter_set''
             then evaluate_collection (operator = PStr ''non_empty'') value_type candidate parameter
             else Inl (evaluation_error ''Rule operator is unsupported'')))"

section \<open>Organization policy\<close>

record policy_registry =
  pr_versions :: "(uuid \<times> organization_policy_version) list"
  pr_logical_versions :: "((uuid \<times> string \<times> string) \<times> organization_policy_version) list"

definition empty_policy_registry :: policy_registry where
  "empty_policy_registry = \<lparr>pr_versions = [], pr_logical_versions = []\<rparr>"

text \<open>The equality of the frozen data class: its parameters are compared as dictionaries.\<close>

definition same_policy :: "organization_policy_version \<Rightarrow> organization_policy_version \<Rightarrow> bool" where
  "same_policy p q =
     (op_organization_id p = op_organization_id q
      \<and> op_organization_policy_version_id p = op_organization_policy_version_id q
      \<and> op_name p = op_name q \<and> op_version p = op_version q
      \<and> py_eq (PDict (op_parameters p)) (PDict (op_parameters q))
      \<and> op_schema_version p = op_schema_version q)"

definition policy_error :: "string \<Rightarrow> exc" where
  "policy_error m = Exc PolicyRegistryError m"

definition register_policy ::
  "(uuid \<Rightarrow> string \<Rightarrow> uuid) \<Rightarrow> uuid \<Rightarrow> string \<Rightarrow> string \<Rightarrow> json_object \<Rightarrow> policy_registry
    \<Rightarrow> exc + organization_policy_version \<times> policy_registry" where
  "register_policy uuid5 organization_id name version parameters reg =
     and_then (require (\<not> py_blank name \<and> \<not> py_blank version)
       (policy_error ''Organization policy metadata is malformed'')) (\<lambda>_.
     let policy = \<lparr>op_organization_id = organization_id,
           op_organization_policy_version_id =
             deterministic_policy_version_id uuid5 organization_id name version parameters,
           op_name = name, op_version = version, op_parameters = parameters,
           op_schema_version = ''1.0.0''\<rparr>;
         i = op_organization_policy_version_id policy;
         logical_key = (organization_id, name, version)
     in and_then (case dict_get (pr_versions reg) i of
            None \<Rightarrow> Inr ()
          | Some existing \<Rightarrow> require (same_policy existing policy)
              (policy_error ''Organization policy version identity conflicts'')) (\<lambda>_.
        and_then (case dict_get (pr_logical_versions reg) logical_key of
            None \<Rightarrow> Inr ()
          | Some declared \<Rightarrow> require (py_eq (PDict (op_parameters declared)) (PDict parameters))
              (policy_error ''Organization policy version content conflicts'')) (\<lambda>_.
        Inr (policy, \<lparr>pr_versions = dict_put i policy (pr_versions reg),
          pr_logical_versions = dict_put logical_key policy (pr_logical_versions reg)\<rparr>))))"

definition get_policy :: "uuid \<Rightarrow> policy_registry \<Rightarrow> exc + organization_policy_version" where
  "get_policy version_id reg =
     (case dict_get (pr_versions reg) version_id of
        None \<Rightarrow> Inl (policy_error ''Organization policy version is unavailable'')
      | Some p \<Rightarrow> Inr p)"

text \<open>The name of the parameter is read from the condition: a list or a dictionary is not hashable.\<close>

fun resolve_parameter :: "organization_policy_version option \<Rightarrow> pyval \<Rightarrow> exc + pyval" where
  "resolve_parameter None name = Inr PNone"
| "resolve_parameter (Some policy) (PStr n) = Inr (py_get (op_parameters policy) n)"
| "resolve_parameter (Some policy) name = (if hashable name then Inr PNone else Inl type_error)"

definition DEFAULT_POLICY_NAME :: string where
  "DEFAULT_POLICY_NAME = ''internal_technical_timeout_default''"
definition DEFAULT_POLICY_VERSION :: string where
  "DEFAULT_POLICY_VERSION = ''1.0.0''"
definition DEFAULT_POLICY_PARAMETERS :: json_object where
  "DEFAULT_POLICY_PARAMETERS = [(''maximum_admin_idle_timeout_seconds'', PInt 600)]"

text \<open>
  \<open>UUID(pin)\<close> of a string that is not a UUID is the \<open>ValueError\<close> that is translated; of a value
  that is not a string it is an \<open>AttributeError\<close>, which is not.  The default policy stays
  registered when the pin is refused.
\<close>

definition check_pin :: "pyval \<Rightarrow> organization_policy_version \<Rightarrow> exc + organization_policy_version" where
  "check_pin pinned_version_id policy =
     (case pinned_version_id of
        PNone \<Rightarrow> Inr policy
      | PStr s \<Rightarrow> (case uuid_of_str s of
            None \<Rightarrow> Inl (policy_error ''Organization policy version pin is malformed'')
          | Some requested \<Rightarrow>
              and_then (require (requested = op_organization_policy_version_id policy)
                (policy_error ''Organization policy version is unavailable'')) (\<lambda>_. Inr policy))
      | _ \<Rightarrow> Inl attribute_error)"

definition select_policy_version ::
  "(uuid \<Rightarrow> string \<Rightarrow> uuid) \<Rightarrow> uuid \<Rightarrow> pyval \<Rightarrow> policy_registry
    \<Rightarrow> (exc + organization_policy_version) \<times> policy_registry" where
  "select_policy_version uuid5 organization_id pinned_version_id reg =
     (case register_policy uuid5 organization_id DEFAULT_POLICY_NAME DEFAULT_POLICY_VERSION
         DEFAULT_POLICY_PARAMETERS reg of
        Inl e \<Rightarrow> (Inl e, reg)
      | Inr (policy, reg') \<Rightarrow> (check_pin pinned_version_id policy, reg'))"

section \<open>Applicability\<close>

definition determine_applicability :: "audit \<Rightarrow> rule_pack \<Rightarrow> applicability_result" where
  "determine_applicability a pack =
     (let resolution = au_profile_resolution a in
      if py_get resolution ''resolution_status'' \<noteq> PStr ''resolved''
      then ApplicabilityResult UNRESOLVED_APPLICABILITY (Some UR_UNSUPPORTED_PROFILE)
      else if py_get resolution ''profile_version_id'' \<noteq> PStr (rp_profile_version_id pack)
      then ApplicabilityResult NOT_APPLICABLE None
      else ApplicabilityResult APPLICABLE None)"

end
