(* ===== verification/Compliance_Service.thy ===== *)
theory Compliance_Service
  imports Compliance_Model
begin

text \<open>
  The evaluation of an audit against a rule pack and the persistence of its findings
  (\<open>compliance/service.py\<close>).  The database is the store of \<open>Audit_Records\<close>, passed in and, by
  the persistence, returned updated; a session that is rolled back after an error leaves the
  store it was given.  \<open>_scope\<close> is the scope that the row keeps.
\<close>

section \<open>Parts of a finding\<close>

definition compliance_error :: "string \<Rightarrow> exc" where
  "compliance_error m = Exc ComplianceError m"

definition expected_of :: "rule_definition \<Rightarrow> pyval \<Rightarrow> exc + json_object" where
  "expected_of rule parameter =
     (let condition = rd_condition rule;
          lower_bound = (case dict_get condition ''minimum_exclusive'' of
            None \<Rightarrow> [] | Some m \<Rightarrow> [(''minimum_exclusive'', m)])
      in and_then (item condition ''operator'') (\<lambda>operator.
         Inr (case dict_get condition ''expected'' of
             Some expected \<Rightarrow> [(''operator'', operator), (''value'', expected)] @ lower_bound
           | None \<Rightarrow>
               if parameter \<noteq> PNone
               then [(''operator'', operator), (''parameter'', py_get condition ''parameter''),
                     (''value'', parameter)] @ lower_bound
               else (''operator'', operator) # lower_bound)))"

definition spaced :: "string \<Rightarrow> string" where
  "spaced s = map (\<lambda>c. if c = CHR ''_'' then CHR '' '' else c) s"

definition explanation ::
  "finding_verdict \<Rightarrow> rule_definition \<Rightarrow> json_object option \<Rightarrow> unresolved_reason option \<Rightarrow> exc + string" where
  "explanation verdict rule observed reason =
     (case verdict of
        VD_UNKNOWN \<Rightarrow> (case reason of
            None \<Rightarrow> Inl attribute_error
          | Some r \<Rightarrow> Inr (''The required EffectiveState is unresolved because ''
                          @ spaced (reason_value r) @ ''.''))
      | VD_MANUAL_REVIEW \<Rightarrow> Inr ''The required organization policy parameter is unavailable.''
      | VD_NOT_APPLICABLE \<Rightarrow> Inr ''This technical baseline does not apply to the resolved device profile.''
      | VD_PROCESS_ERROR \<Rightarrow>
          Inr ''Deterministic evaluation could not validate the canonical EffectiveState contract.''
      | _ \<Rightarrow> and_then (item (rd_condition rule) ''operator'') (\<lambda>operator.
          Inr (''Observed canonical value is ''
            @ py_repr (case observed of None \<Rightarrow> PNone | Some v \<Rightarrow> py_get v ''value'')
            @ ''; rule '' @ py_format operator
            @ (if verdict = VD_PASS then '' satisfied.'' else '' not satisfied.''))))"

definition draft_finding ::
  "(uuid \<Rightarrow> string \<Rightarrow> uuid) \<Rightarrow> rule_definition \<Rightarrow> rule_pack \<Rightarrow> audit \<Rightarrow> finding_verdict
    \<Rightarrow> scope_ref option \<Rightarrow> effective_state list \<Rightarrow> json_object option \<Rightarrow> json_object option
    \<Rightarrow> unresolved_reason option \<Rightarrow> json_object list \<Rightarrow> exc + finding_draft" where
  "draft_finding uuid5 rule pack a verdict scope states observed expected reason evidence_refs =
     and_then (deterministic_finding_id uuid5 (au_audit_id a) (rd_rule_id rule) scope) (\<lambda>i.
     and_then (comparison_key (rd_rule_id rule) scope) (\<lambda>key.
     and_then (explanation verdict rule observed reason) (\<lambda>text'.
     Inr \<lparr>fd_finding_id = i, fd_audit_id = au_audit_id a, fd_device_id = au_device_id a,
       fd_comparison_key = key, fd_rule_id = rd_rule_id rule,
       fd_rule_pack_version_id = rp_rule_pack_version_id pack, fd_title = rd_title rule,
       fd_security_domain = rd_security_domain rule, fd_verdict = verdict,
       fd_severity = rd_severity rule, fd_expected_state = expected, fd_observed_state = observed,
       fd_explanation = text', fd_affected_scope = scope,
       fd_effective_state_refs = map ef_effective_state_id states, fd_evidence_refs = evidence_refs,
       fd_unknown_reason = reason, fd_framework_references = rd_framework_references rule,
       fd_remediation_procedure_id = None, fd_schema_version = ''1.0.0''\<rparr>)))"

section \<open>Evidence\<close>

text \<open>The dictionaries among the elements of a list of references.\<close>

definition dicts_of :: "pyval list \<Rightarrow> json_object list" where
  "dicts_of vs = map dict_items (filter is_dict vs)"

text \<open>\<open>evidence_by_fact\<close>: the evidence of the facts of the audit that some state names.\<close>

definition facts_of_states :: "audit_store \<Rightarrow> uuid \<Rightarrow> effective_state list \<Rightarrow> (uuid \<times> pyval) list" where
  "facts_of_states db audit_id states =
     (let fact_ids = concat (map ef_source_fact_ids states) in
      foldl (\<lambda>d f. dict_put (sf_fact_id f) (sf_evidence_refs f) d) []
        (filter (\<lambda>f. sf_audit_id f = audit_id \<and> sf_fact_id f \<in> set fact_ids) (db_facts db)))"

definition put_reference :: "json_object \<Rightarrow> (string \<times> json_object) list \<Rightarrow> (string \<times> json_object) list" where
  "put_reference reference = dict_put (items_repr reference) reference"

definition state_evidence :: "(uuid \<times> pyval) list \<Rightarrow> effective_state \<Rightarrow> exc + json_object list" where
  "state_evidence evidence_by_fact state =
     and_then (map_res (\<lambda>fact_id. case dict_get evidence_by_fact fact_id of
         None \<Rightarrow> Inr [] | Some refs \<Rightarrow> py_iter refs) (ef_source_fact_ids state)) (\<lambda>refs.
     Inr (map snd (fold put_reference (dicts_of (concat refs)) [])))"

section \<open>Unresolved evidence\<close>

definition affected_rules :: "rule_pack \<Rightarrow> unresolved_block \<Rightarrow> string list" where
  "affected_rules pack block =
     (if ub_affected_rule_ids block = [] \<and> ub_candidate_field_ids block = []
         \<and> ub_profile_version_id block = Some (rp_profile_version_id pack)
         \<and> ub_source_ir_node_ids block \<noteq> []
      then uniq (map rd_rule_id (rp_rules pack))
      else uniq (ub_affected_rule_ids block))"

definition unresolved_by_rule ::
  "rule_pack \<Rightarrow> unresolved_block list \<Rightarrow> (string \<times> unresolved_block list) list" where
  "unresolved_by_rule pack blocks =
     foldl (\<lambda>d block. foldl (\<lambda>d rule_id. dict_append rule_id block d) d (affected_rules pack block)) [] blocks"

definition blockers_of :: "(string \<times> unresolved_block list) list \<Rightarrow> string \<Rightarrow> unresolved_block list" where
  "blockers_of by_rule rule_id = (case dict_get by_rule rule_id of None \<Rightarrow> [] | Some bs \<Rightarrow> bs)"

section \<open>One rule against one state\<close>

definition is_evaluation_error :: "exc_class \<Rightarrow> bool" where
  "is_evaluation_error c = (c = EvaluationError)"

text \<open>The branch of a resolved state whose parameter is available: the body of the \<open>try\<close>.\<close>

definition evaluate_state ::
  "(uuid \<Rightarrow> string \<Rightarrow> uuid) \<Rightarrow> rule_pack \<Rightarrow> audit \<Rightarrow> (uuid \<times> pyval) list \<Rightarrow> unresolved_block list
    \<Rightarrow> rule_definition \<Rightarrow> effective_state \<Rightarrow> pyval \<Rightarrow> exc + finding_draft" where
  "evaluate_state uuid5 pack a evidence blockers rule state parameter =
     and_then (evaluate_condition rule (ef_effective_value state) parameter) (\<lambda>verdict.
     if verdict = VD_PASS \<and> blockers \<noteq> []
     then and_then (expected_of rule parameter) (\<lambda>expected.
       draft_finding uuid5 rule pack a VD_UNKNOWN (Some (ef_scope state)) [state]
         (ef_effective_value state) (Some expected) (Some UR_UNSUPPORTED_FEATURE)
         (dicts_of (concat (map ub_evidence_refs blockers))))
     else and_then (expected_of rule parameter) (\<lambda>expected.
       and_then (state_evidence evidence state) (\<lambda>refs.
       draft_finding uuid5 rule pack a verdict (Some (ef_scope state)) [state]
         (ef_effective_value state) (Some expected) None refs)))"

definition state_finding ::
  "(uuid \<Rightarrow> string \<Rightarrow> uuid) \<Rightarrow> rule_pack \<Rightarrow> organization_policy_version option \<Rightarrow> audit
    \<Rightarrow> (uuid \<times> pyval) list \<Rightarrow> unresolved_block list \<Rightarrow> rule_definition \<Rightarrow> effective_state
    \<Rightarrow> exc + finding_draft" where
  "state_finding uuid5 pack policy a evidence blockers rule state =
     (if ef_resolution_status state \<noteq> RESOLVED
      then and_then (state_evidence evidence state) (\<lambda>refs.
        draft_finding uuid5 rule pack a VD_UNKNOWN (Some (ef_scope state)) [state] None None
          (if ef_resolution_status state = CONFLICTING then Some UR_CONFLICTING_EVIDENCE
           else ef_unresolved_reason state) refs)
      else and_then
        (if rd_required_policy_parameters rule = [] then Inr PNone
         else resolve_parameter policy (case dict_get (rd_condition rule) ''parameter'' of
             None \<Rightarrow> PStr [] | Some p \<Rightarrow> p)) (\<lambda>parameter.
        if rd_required_policy_parameters rule \<noteq> [] \<and> parameter = PNone
        then and_then (expected_of rule PNone) (\<lambda>expected.
          and_then (state_evidence evidence state) (\<lambda>refs.
          draft_finding uuid5 rule pack a VD_MANUAL_REVIEW (Some (ef_scope state)) [state]
            (ef_effective_value state) (Some expected) None refs))
        else (case evaluate_state uuid5 pack a evidence blockers rule state parameter of
            Inr d \<Rightarrow> Inr d
          | Inl e \<Rightarrow>
              if is_evaluation_error (exc_class e)
              then and_then (state_evidence evidence state) (\<lambda>refs.
                draft_finding uuid5 rule pack a VD_PROCESS_ERROR (Some (ef_scope state)) [state]
                  (ef_effective_value state) None None refs)
              else Inl e)))"

definition rule_findings ::
  "(uuid \<Rightarrow> string \<Rightarrow> uuid) \<Rightarrow> rule_pack \<Rightarrow> organization_policy_version option \<Rightarrow> audit
    \<Rightarrow> (string \<times> effective_state list) list \<Rightarrow> (uuid \<times> pyval) list
    \<Rightarrow> (string \<times> unresolved_block list) list \<Rightarrow> rule_definition \<Rightarrow> exc + finding_draft list" where
  "rule_findings uuid5 pack policy a by_field evidence by_rule rule =
     (let applicability = determine_applicability a pack in
      case ar_status applicability of
        NOT_APPLICABLE \<Rightarrow>
          and_then (draft_finding uuid5 rule pack a VD_NOT_APPLICABLE None [] None None None []) (\<lambda>d. Inr [d])
      | UNRESOLVED_APPLICABILITY \<Rightarrow>
          and_then (draft_finding uuid5 rule pack a VD_UNKNOWN None [] None None (ar_reason applicability) [])
            (\<lambda>d. Inr [d])
      | APPLICABLE \<Rightarrow>
          (case rd_required_effective_states rule of
             [] \<Rightarrow> Inl (Exc IndexError [])
           | field # _ \<Rightarrow>
               (let field_states = (case dict_get by_field field of None \<Rightarrow> [] | Some ss \<Rightarrow> ss) in
                if field_states = []
                then and_then (draft_finding uuid5 rule pack a VD_UNKNOWN None [] None None
                    (Some UR_MISSING_EVIDENCE) []) (\<lambda>d. Inr [d])
                else map_res (state_finding uuid5 pack policy a evidence
                    (blockers_of by_rule (rd_rule_id rule)) rule) field_states)))"

section \<open>An audit\<close>

definition audit_states :: "audit_store \<Rightarrow> uuid \<Rightarrow> effective_state list" where
  "audit_states db audit_id =
     sort_key (\<lambda>s. (ef_field_id s, ef_scope_key s)) (filter (\<lambda>s. ef_audit_id s = audit_id) (db_states db))"

definition evaluate_audit_compliance ::
  "(uuid \<Rightarrow> string \<Rightarrow> uuid) \<Rightarrow> audit_store \<Rightarrow> uuid \<Rightarrow> uuid \<Rightarrow> rule_pack
    \<Rightarrow> organization_policy_version option \<Rightarrow> effective_state list option \<Rightarrow> unresolved_block list
    \<Rightarrow> exc + finding_draft list" where
  "evaluate_audit_compliance uuid5 db audit_id organization_id pack policy effective_states blocks =
     (case find_audit audit_id organization_id db of
        None \<Rightarrow> Inl (compliance_error ''Audit was not found'')
      | Some a \<Rightarrow>
          and_then (require (au_status a = AU_PROCESSING)
            (compliance_error ''Only still-processing Audits are eligible for compliance evaluation'')) (\<lambda>_.
          and_then (require (case policy of None \<Rightarrow> True | Some p \<Rightarrow> op_organization_id p = organization_id)
            (compliance_error ''Organization policy crosses the Audit boundary'')) (\<lambda>_.
          let states = (case effective_states of Some ss \<Rightarrow> ss | None \<Rightarrow> audit_states db audit_id)
          in and_then (require (list_all (\<lambda>s. ef_device_id s = au_device_id a) states)
               (compliance_error ''EffectiveState crosses the Audit boundary'')) (\<lambda>_.
             and_then (require (list_all (\<lambda>b. ub_audit_id b = au_audit_id a) blocks)
               (compliance_error ''Unresolved evidence crosses the Audit boundary'')) (\<lambda>_.
             and_then (map_res (rule_findings uuid5 pack policy a (group_dict ef_field_id states)
                 (facts_of_states db audit_id states) (unresolved_by_rule pack blocks)) (rp_rules pack))
               (\<lambda>drafts. Inr (concat drafts)))))))"

definition finding_of_draft :: "finding_draft \<Rightarrow> finding" where
  "finding_of_draft d =
     \<lparr>fi_finding_id = fd_finding_id d, fi_audit_id = fd_audit_id d, fi_device_id = fd_device_id d,
      fi_comparison_key = fd_comparison_key d, fi_rule_id = fd_rule_id d,
      fi_rule_pack_version_id = fd_rule_pack_version_id d, fi_title = fd_title d,
      fi_security_domain = fd_security_domain d, fi_verdict = fd_verdict d,
      fi_severity = fd_severity d, fi_expected_state = fd_expected_state d,
      fi_observed_state = fd_observed_state d, fi_explanation = fd_explanation d,
      fi_affected_scope = map_option scope_to_dict (fd_affected_scope d),
      fi_effective_state_refs = map uuid_str (fd_effective_state_refs d),
      fi_evidence_refs = map PDict (fd_evidence_refs d), fi_unknown_reason = fd_unknown_reason d,
      fi_framework_references = fd_framework_references d, fi_remediation_procedure_id = None,
      fi_remediation_preview = [], fi_schema_version = fd_schema_version d\<rparr>"

text \<open>
  The blocks are read in the order of their identifiers when the caller gives none.  Deleting a
  finding that an assessment result names fails.
\<close>

definition persist_audit_findings ::
  "(uuid \<Rightarrow> string \<Rightarrow> uuid) \<Rightarrow> audit_store \<Rightarrow> uuid \<Rightarrow> uuid \<Rightarrow> rule_pack
    \<Rightarrow> organization_policy_version option \<Rightarrow> effective_state list option \<Rightarrow> unresolved_block list option
    \<Rightarrow> exc + finding list \<times> audit_store" where
  "persist_audit_findings uuid5 db audit_id organization_id pack policy effective_states unresolved_blocks =
     (let blocks = (case unresolved_blocks of Some bs \<Rightarrow> bs
        | None \<Rightarrow> sort_key ub_unresolved_block_id (filter (\<lambda>b. ub_audit_id b = audit_id) (db_blocks db)))
      in and_then (evaluate_audit_compliance uuid5 db audit_id organization_id pack policy
           effective_states blocks) (\<lambda>drafts.
         case find_audit audit_id organization_id db of
           None \<Rightarrow> Inl (compliance_error ''Only still-processing Audits are eligible for Finding persistence'')
         | Some a \<Rightarrow>
             and_then (require (au_status a = AU_PROCESSING)
               (compliance_error ''Only still-processing Audits are eligible for Finding persistence'')) (\<lambda>_.
             and_then (require (\<not> list_ex (\<lambda>f. fi_audit_id f = audit_id \<and> finding_referenced db f) (db_findings db))
               persistence_error) (\<lambda>_.
             let kept = filter (\<lambda>f. fi_audit_id f \<noteq> audit_id) (db_findings db);
                 findings = map finding_of_draft drafts
             in and_then (fold_res (insert_row finding_admitted) findings kept) (\<lambda>rows.
                Inr (findings, db\<lparr>db_findings := rows\<rparr>))))))"

end
