(* ===== verification/Rule_Registry.thy ===== *)
theory Rule_Registry
  imports Compliance_Model Profiles
begin

text \<open>
  The built-in rules and rule packs and the registry that validates and binds them
  (\<open>compliance/rule_registry.py\<close>).  The identifiers of the packs come from the parameter \<open>uuid5\<close>.
\<close>

definition rule_registry_error :: "string \<Rightarrow> exc" where
  "rule_registry_error m = Exc RuleRegistryError m"

definition SUPPORTED_OPERATORS :: "string list" where
  "SUPPORTED_OPERATORS =
     [''equals'', ''less_than_or_equal'', ''non_empty'', ''all_members_in_parameter_set'', ''enum_at_least'']"

definition NIST_FRAMEWORK :: string where "NIST_FRAMEWORK = ''NIST SP 800-53''"
definition NIST_REVISION :: string where "NIST_REVISION = ''Rev. 5''"

definition VERIFIED_NIST_TITLES :: json_object where
  "VERIFIED_NIST_TITLES =
     [(''AC-11'', PStr ''Device Lock''), (''AC-17'', PStr ''Remote Access''),
      (''AU-8'', PStr ''Time Stamps''), (''AU-12'', PStr ''Audit Record Generation'')]"

text \<open>The controls that the rules below name are in the table (\<open>nist_known\<close>), so no \<open>KeyError\<close> arises.\<close>

definition nist :: "string \<Rightarrow> pyval" where
  "nist control_id = PDict
     [(''framework'', PStr NIST_FRAMEWORK), (''revision'', PStr NIST_REVISION),
      (''control_id'', PStr control_id), (''control_title'', py_get VERIFIED_NIST_TITLES control_id)]"

definition optional_entry :: "string \<Rightarrow> pyval \<Rightarrow> json_object" where
  "optional_entry k v = (if v = PNone then [] else [(k, v)])"

definition make_rule ::
  "string \<Rightarrow> string \<Rightarrow> string \<Rightarrow> finding_severity \<Rightarrow> string \<Rightarrow> string \<Rightarrow> pyval \<Rightarrow> string option
    \<Rightarrow> pyval list \<Rightarrow> pyval \<Rightarrow> string list \<Rightarrow> rule_definition" where
  "make_rule rule_id title domain severity field operator expected parameter framework_references
       minimum_exclusive order =
     \<lparr>rd_rule_id = rule_id, rd_title = title, rd_description = title, rd_security_domain = domain,
      rd_severity = severity, rd_severity_reason = ''Internal technical baseline severity.'',
      rd_applicability = [(''profile_version_id'', PStr (pm_profile_version_id CISCO_IOS_XE_17))],
      rd_required_effective_states = [field],
      rd_condition = (''operator'', PStr operator) # optional_entry ''expected'' expected
        @ optional_entry ''parameter'' (case parameter of None \<Rightarrow> PNone | Some p \<Rightarrow> PStr p)
        @ optional_entry ''minimum_exclusive'' minimum_exclusive
        @ (if order = [] then [] else [(''order'', PList (map PStr order))]),
      rd_required_policy_parameters =
        (case parameter of None \<Rightarrow> [] | Some p \<Rightarrow> if p = [] then [] else [p]),
      rd_framework_references = framework_references\<rparr>"

section \<open>The rules\<close>

definition BASE_RULES :: "rule_definition list" where
  "BASE_RULES = [
   make_rule ''management.telnet.disabled''
     ''Telnet management access disabled''
     ''management'' SEV_HIGH ''management.remote.telnet.enabled'' ''equals''
     (PBool False) None [nist ''AC-17''] PNone [],
   make_rule ''management.ssh.enabled''
     ''SSH management access enabled''
     ''management'' SEV_HIGH ''management.remote.ssh.enabled'' ''equals''
     (PBool True) None [nist ''AC-17''] PNone [],
   make_rule ''management.ssh.version_2''
     ''SSH protocol version 2 required''
     ''management'' SEV_MEDIUM ''management.remote.ssh.version'' ''equals''
     (PInt 2) None [nist ''AC-17''] PNone [],
   make_rule ''management.source.restriction.configured''
     ''Management source restriction configured''
     ''management'' SEV_MEDIUM ''management.remote.source.restriction.configured'' ''equals''
     (PBool True) None [] PNone [],
   make_rule ''management.idle_timeout.maximum''
     ''Administrative idle timeout within organization maximum''
     ''management'' SEV_MEDIUM ''management.session.idle_timeout'' ''less_than_or_equal''
     PNone (Some ''maximum_admin_idle_timeout_seconds'') [nist ''AC-11''] (PInt 0) [],
   make_rule ''logging.enabled''
     ''Configuration logging enabled''
     ''logging'' SEV_MEDIUM ''logging.enabled'' ''equals''
     (PBool True) None [nist ''AU-12''] PNone [],
   make_rule ''logging.remote.destination.configured''
     ''Remote logging destination configured''
     ''logging'' SEV_MEDIUM ''logging.remote.destination'' ''non_empty''
     PNone None [nist ''AU-12''] PNone [],
   make_rule ''logging.remote.destination.approved''
     ''Remote logging destinations approved by organization policy''
     ''logging'' SEV_MEDIUM ''logging.remote.destination'' ''all_members_in_parameter_set''
     PNone (Some ''approved_logging_destinations'') [] PNone [],
   make_rule ''time.ntp.server.configured''
     ''NTP server configured''
     ''time'' SEV_MEDIUM ''time.ntp.server'' ''non_empty''
     PNone None [nist ''AU-8''] PNone [],
   make_rule ''time.ntp.configured''
     ''NTP configuration present''
     ''time'' SEV_MEDIUM ''time.ntp.configured'' ''equals''
     (PBool True) None [nist ''AU-8''] PNone [],
   make_rule ''time.ntp.authentication.enabled''
     ''Cryptographic NTP source authentication enabled''
     ''time'' SEV_MEDIUM ''time.ntp.authentication.enabled'' ''equals''
     (PBool True) None [] PNone [],
   make_rule ''time.ntp.server.approved''
     ''NTP servers approved by organization policy''
     ''time'' SEV_MEDIUM ''time.ntp.server'' ''all_members_in_parameter_set''
     PNone (Some ''approved_ntp_servers'') [] PNone []]"

definition RULES :: "rule_definition list" where
  "RULES = BASE_RULES @ [
   make_rule ''management.http.disabled''
     ''HTTP management access disabled''
     ''management'' SEV_HIGH ''management.remote.http.enabled'' ''equals''
     (PBool False) None [nist ''AC-17''] PNone [],
   make_rule ''management.https.enabled''
     ''HTTPS management access enabled''
     ''management'' SEV_MEDIUM ''management.remote.https.enabled'' ''equals''
     (PBool True) None [nist ''AC-17''] PNone [],
   make_rule ''management.tls.minimum_1_2''
     ''Administrative TLS minimum version is 1.2''
     ''management'' SEV_HIGH ''management.remote.tls.minimum_version'' ''enum_at_least''
     (PStr ''tlsv1-2'') None [nist ''AC-17''] PNone [''tlsv1-0'', ''tlsv1-1'', ''tlsv1-2'', ''tlsv1-3''],
   make_rule ''management.ssh.strong_crypto''
     ''Strong SSH cryptographic settings configured''
     ''management'' SEV_HIGH ''management.remote.ssh.strong_crypto.configured'' ''equals''
     (PBool True) None [nist ''AC-17''] PNone [],
   make_rule ''logging.administrative_access.enabled''
     ''Administrative access logging enabled''
     ''logging'' SEV_MEDIUM ''logging.administrative_access.enabled'' ''equals''
     (PBool True) None [nist ''AU-12''] PNone []]"

definition rules_for :: "string \<Rightarrow> rule_definition list \<Rightarrow> rule_definition list" where
  "rules_for profile_version_id rules =
     map (rd_applicability_update (\<lambda>_. [(''profile_version_id'', PStr profile_version_id)])) rules"

section \<open>The packs\<close>

definition built_in_pack ::
  "(uuid \<Rightarrow> string \<Rightarrow> uuid) \<Rightarrow> string \<Rightarrow> string \<Rightarrow> profile_manifest \<Rightarrow> rule_definition list \<Rightarrow> rule_pack" where
  "built_in_pack uuid5 name version profile rules =
     \<lparr>rp_rule_pack_version_id = uuid5 RULE_PACK_NAMESPACE (name @ ''@'' @ version),
      rp_name = name, rp_version = version, rp_profile_version_id = pm_profile_version_id profile,
      rp_rules = rules, rp_schema_version = ''1.0.0''\<rparr>"

definition RULE_PACK_V1 :: "(uuid \<Rightarrow> string \<Rightarrow> uuid) \<Rightarrow> rule_pack" where
  "RULE_PACK_V1 uuid5 = built_in_pack uuid5 ''cisco_iosxe_17_technical_baseline'' ''1.0.0'' CISCO_IOS_XE_17
     BASE_RULES"

definition RULE_PACK :: "(uuid \<Rightarrow> string \<Rightarrow> uuid) \<Rightarrow> rule_pack" where
  "RULE_PACK uuid5 = built_in_pack uuid5 ''cisco_iosxe_17_technical_baseline'' ''1.1.0'' CISCO_IOS_XE_17
     RULES"

definition FORTIOS_RULE_PACK_V1 :: "(uuid \<Rightarrow> string \<Rightarrow> uuid) \<Rightarrow> rule_pack" where
  "FORTIOS_RULE_PACK_V1 uuid5 = built_in_pack uuid5 ''fortios_7_technical_baseline'' ''1.0.0'' FORTIOS_7
     (rules_for (pm_profile_version_id FORTIOS_7) BASE_RULES)"

definition FORTIOS_RULE_PACK :: "(uuid \<Rightarrow> string \<Rightarrow> uuid) \<Rightarrow> rule_pack" where
  "FORTIOS_RULE_PACK uuid5 = built_in_pack uuid5 ''fortios_7_technical_baseline'' ''1.1.0'' FORTIOS_7
     (rules_for (pm_profile_version_id FORTIOS_7) RULES)"

definition JUNOS_RULE_PACK_V1 :: "(uuid \<Rightarrow> string \<Rightarrow> uuid) \<Rightarrow> rule_pack" where
  "JUNOS_RULE_PACK_V1 uuid5 = built_in_pack uuid5 ''juniper_junos_18_technical_baseline'' ''1.0.0'' JUNIPER_JUNOS_18
     (rules_for (pm_profile_version_id JUNIPER_JUNOS_18) BASE_RULES)"

definition JUNOS_RULE_PACK :: "(uuid \<Rightarrow> string \<Rightarrow> uuid) \<Rightarrow> rule_pack" where
  "JUNOS_RULE_PACK uuid5 = built_in_pack uuid5 ''juniper_junos_18_technical_baseline'' ''1.1.0'' JUNIPER_JUNOS_18
     (rules_for (pm_profile_version_id JUNIPER_JUNOS_18) RULES)"

definition ARISTA_RULE_PACK_V1 :: "(uuid \<Rightarrow> string \<Rightarrow> uuid) \<Rightarrow> rule_pack" where
  "ARISTA_RULE_PACK_V1 uuid5 = built_in_pack uuid5 ''arista_eos_4_technical_baseline'' ''1.0.0'' ARISTA_EOS_4
     (rules_for (pm_profile_version_id ARISTA_EOS_4) BASE_RULES)"

definition ARISTA_RULE_PACK :: "(uuid \<Rightarrow> string \<Rightarrow> uuid) \<Rightarrow> rule_pack" where
  "ARISTA_RULE_PACK uuid5 = built_in_pack uuid5 ''arista_eos_4_technical_baseline'' ''1.1.0'' ARISTA_EOS_4
     (rules_for (pm_profile_version_id ARISTA_EOS_4) RULES)"

definition GENERIC_RULE_PACK_V1 :: "(uuid \<Rightarrow> string \<Rightarrow> uuid) \<Rightarrow> rule_pack" where
  "GENERIC_RULE_PACK_V1 uuid5 = built_in_pack uuid5 ''generic_cli_technical_baseline'' ''1.0.0'' GENERIC_CLI
     (rules_for (pm_profile_version_id GENERIC_CLI) BASE_RULES)"

definition GENERIC_RULE_PACK :: "(uuid \<Rightarrow> string \<Rightarrow> uuid) \<Rightarrow> rule_pack" where
  "GENERIC_RULE_PACK uuid5 = built_in_pack uuid5 ''generic_cli_technical_baseline'' ''1.1.0'' GENERIC_CLI
     (rules_for (pm_profile_version_id GENERIC_CLI) RULES)"

definition GENERIC_XML_RULE_PACK :: "(uuid \<Rightarrow> string \<Rightarrow> uuid) \<Rightarrow> rule_pack" where
  "GENERIC_XML_RULE_PACK uuid5 = built_in_pack uuid5 ''generic_xml_technical_baseline'' ''1.0.0'' GENERIC_XML
     (rules_for (pm_profile_version_id GENERIC_XML) RULES)"

definition GENERIC_JSON_RULE_PACK :: "(uuid \<Rightarrow> string \<Rightarrow> uuid) \<Rightarrow> rule_pack" where
  "GENERIC_JSON_RULE_PACK uuid5 = built_in_pack uuid5 ''generic_json_technical_baseline'' ''1.0.0'' GENERIC_JSON
     (rules_for (pm_profile_version_id GENERIC_JSON) RULES)"

section \<open>Validation\<close>

text \<open>\<open>reference[key]\<close> of a key whose value is a non-blank string.\<close>

fun non_blank_text :: "pyval \<Rightarrow> bool" where
  "non_blank_text (PStr s) = (\<not> py_blank s)" | "non_blank_text _ = False"

definition reference_fields :: "string list" where
  "reference_fields = [''framework'', ''revision'', ''control_id'', ''control_title'']"

definition reference_identity :: "json_object \<Rightarrow> pyval \<times> pyval \<times> pyval" where
  "reference_identity d = (py_get d ''framework'', py_get d ''revision'', py_get d ''control_id'')"

definition check_reference ::
  "pyval \<Rightarrow> (pyval \<times> pyval \<times> pyval) list \<Rightarrow> exc + (pyval \<times> pyval \<times> pyval) list" where
  "check_reference reference seen =
     (case reference of
        PDict d \<Rightarrow>
          and_then (require (list_all (\<lambda>k. non_blank_text (py_get d k)) reference_fields)
            (rule_registry_error ''Framework reference is malformed'')) (\<lambda>_.
          and_then (require (reference_identity d \<notin> set seen)
            (rule_registry_error ''Framework reference is duplicated'')) (\<lambda>_.
          and_then (require
              (py_get d ''framework'' = PStr NIST_FRAMEWORK \<and> py_get d ''revision'' = PStr NIST_REVISION
               \<longrightarrow> (case py_get d ''control_id'' of
                     PStr c \<Rightarrow> py_get VERIFIED_NIST_TITLES c = py_get d ''control_title'' | _ \<Rightarrow> False))
            (rule_registry_error ''NIST control title is not verified'')) (\<lambda>_.
          Inr (reference_identity d # seen))))
      | _ \<Rightarrow> Inl (rule_registry_error ''Framework reference is malformed''))"

definition validate_framework_references :: "pyval list \<Rightarrow> exc + unit" where
  "validate_framework_references references =
     and_then (fold_res check_reference references []) (\<lambda>_. Inr ())"

definition valid_enum_order :: "json_object \<Rightarrow> bool" where
  "valid_enum_order condition =
     (case py_get condition ''order'' of
        PList order \<Rightarrow> is_str (py_get condition ''expected'')
          \<and> py_member (py_get condition ''expected'') order \<and> list_all is_str order
      | _ \<Rightarrow> False)"

definition validate_rule :: "rule_definition \<Rightarrow> exc + unit" where
  "validate_rule rule =
     (let condition = rd_condition rule; operator = py_get condition ''operator'';
          minimum = py_get condition ''minimum_exclusive''
      in and_then (require (length (rd_required_effective_states rule) = 1)
           (rule_registry_error ''Only single-field rules are supported in Step 7.1'')) (\<lambda>_.
         and_then (require (hashable operator) type_error) (\<lambda>_.
         and_then (require (operator \<in> PStr ` set SUPPORTED_OPERATORS)
           (rule_registry_error ''Rule pack uses an unsupported operator'')) (\<lambda>_.
         and_then (require (minimum = PNone
             \<or> (operator = PStr ''less_than_or_equal'' \<and> \<not> is_bool minimum \<and> is_number minimum))
           (rule_registry_error ''Rule pack uses an invalid lower bound'')) (\<lambda>_.
         and_then (require (operator = PStr ''enum_at_least'' \<longrightarrow> valid_enum_order condition)
           (rule_registry_error ''Rule pack uses an invalid ordered enum'')) (\<lambda>_.
         validate_framework_references (rd_framework_references rule)))))))"

definition validate_rule_pack :: "rule_pack \<Rightarrow> exc + unit" where
  "validate_rule_pack pack =
     (let ids = map rd_rule_id (rp_rules pack) in
      and_then (require (\<not> py_blank (rp_name pack) \<and> \<not> py_blank (rp_version pack) \<and> rp_rules pack \<noteq> [])
        (rule_registry_error ''Rule pack is malformed'')) (\<lambda>_.
      and_then (require (distinct ids \<and> list_all (\<lambda>i. \<not> py_blank i) ids)
        (rule_registry_error ''Rule pack has duplicate or malformed rule IDs'')) (\<lambda>_.
      and_then (require (rp_schema_version pack = ''1.0.0'' \<and> \<not> py_blank (rp_profile_version_id pack))
        (rule_registry_error ''Rule pack is malformed'')) (\<lambda>_.
      each_res validate_rule (rp_rules pack)))))"

section \<open>The registry\<close>

text \<open>The equality of the frozen data classes, whose mappings are compared as dictionaries.\<close>

definition same_rule :: "rule_definition \<Rightarrow> rule_definition \<Rightarrow> bool" where
  "same_rule r s =
     (rd_rule_id r = rd_rule_id s \<and> rd_title r = rd_title s \<and> rd_description r = rd_description s
      \<and> rd_security_domain r = rd_security_domain s \<and> rd_severity r = rd_severity s
      \<and> rd_severity_reason r = rd_severity_reason s
      \<and> py_eq (PDict (rd_applicability r)) (PDict (rd_applicability s))
      \<and> rd_required_effective_states r = rd_required_effective_states s
      \<and> py_eq (PDict (rd_condition r)) (PDict (rd_condition s))
      \<and> rd_required_policy_parameters r = rd_required_policy_parameters s
      \<and> py_eq (PList (rd_framework_references r)) (PList (rd_framework_references s)))"

definition same_pack :: "rule_pack \<Rightarrow> rule_pack \<Rightarrow> bool" where
  "same_pack p q =
     (rp_rule_pack_version_id p = rp_rule_pack_version_id q \<and> rp_name p = rp_name q
      \<and> rp_version p = rp_version q \<and> rp_profile_version_id p = rp_profile_version_id q
      \<and> list_all2 same_rule (rp_rules p) (rp_rules q) \<and> rp_schema_version p = rp_schema_version q)"

record rule_registry =
  rr_packs :: "(uuid \<times> rule_pack) list"
  rr_logical_versions :: "((string \<times> string) \<times> rule_pack) list"
  rr_profile_versions :: "(string \<times> rule_pack list) list"
  rr_by_profile :: "(string \<times> rule_pack) list"

definition empty_rule_registry :: rule_registry where
  "empty_rule_registry =
     \<lparr>rr_packs = [], rr_logical_versions = [], rr_profile_versions = [], rr_by_profile = []\<rparr>"

definition add_rule_pack :: "rule_pack \<Rightarrow> rule_registry \<Rightarrow> exc + rule_registry" where
  "add_rule_pack pack reg =
     and_then (validate_rule_pack pack) (\<lambda>_.
     and_then (require
         ((case dict_get (rr_packs reg) (rp_rule_pack_version_id pack) of
             None \<Rightarrow> True | Some existing \<Rightarrow> same_pack existing pack)
          \<and> (case dict_get (rr_logical_versions reg) (rp_name pack, rp_version pack) of
             None \<Rightarrow> True | Some logical \<Rightarrow> same_pack logical pack))
       (rule_registry_error ''Rule pack version content conflicts'')) (\<lambda>_.
     Inr (reg\<lparr>rr_packs := dict_put (rp_rule_pack_version_id pack) pack (rr_packs reg),
       rr_logical_versions := dict_put (rp_name pack, rp_version pack) pack (rr_logical_versions reg),
       rr_profile_versions := dict_append (rp_profile_version_id pack) pack (rr_profile_versions reg)\<rparr>)))"

definition select_active ::
  "(string \<times> uuid) list option \<Rightarrow> (uuid \<times> rule_pack) list \<Rightarrow> string \<times> rule_pack list
    \<Rightarrow> (string \<times> rule_pack) list \<Rightarrow> exc + (string \<times> rule_pack) list" where
  "select_active active_by_profile packs entry active =
     (case entry of (profile_version_id, candidates) \<Rightarrow>
        let configured = (case active_by_profile of None \<Rightarrow> None | Some d \<Rightarrow> dict_get d profile_version_id)
        in if configured = None \<and> length candidates = 1
           then Inr (dict_put profile_version_id (candidates ! 0) active)
           else (case (case configured of None \<Rightarrow> None | Some i \<Rightarrow> dict_get packs i) of
               None \<Rightarrow> Inl (rule_registry_error ''Active rule pack binding is invalid'')
             | Some selected \<Rightarrow>
                 and_then (require (rp_profile_version_id selected = profile_version_id)
                   (rule_registry_error ''Active rule pack binding is invalid'')) (\<lambda>_.
                 Inr (dict_put profile_version_id selected active))))"

definition make_rule_registry ::
  "rule_pack list \<Rightarrow> (string \<times> uuid) list option \<Rightarrow> exc + rule_registry" where
  "make_rule_registry packs active_by_profile =
     and_then (fold_res add_rule_pack packs empty_rule_registry) (\<lambda>reg.
     and_then (fold_res (select_active active_by_profile (rr_packs reg)) (rr_profile_versions reg) [])
       (\<lambda>active. Inr (reg\<lparr>rr_by_profile := active\<rparr>)))"

definition get_rule_pack :: "uuid \<Rightarrow> rule_registry \<Rightarrow> exc + rule_pack" where
  "get_rule_pack version_id reg =
     (case dict_get (rr_packs reg) version_id of
        None \<Rightarrow> Inl (rule_registry_error ''Rule pack version is unavailable'') | Some p \<Rightarrow> Inr p)"

definition pack_for_profile :: "string \<Rightarrow> rule_registry \<Rightarrow> rule_pack option" where
  "pack_for_profile profile_version_id reg = dict_get (rr_by_profile reg) profile_version_id"

definition built_in_rule_packs :: "(uuid \<Rightarrow> string \<Rightarrow> uuid) \<Rightarrow> rule_pack list" where
  "built_in_rule_packs uuid5 = map (\<lambda>p. p uuid5)
     [RULE_PACK_V1, RULE_PACK, FORTIOS_RULE_PACK_V1, FORTIOS_RULE_PACK, JUNOS_RULE_PACK_V1,
      JUNOS_RULE_PACK, ARISTA_RULE_PACK_V1, ARISTA_RULE_PACK, GENERIC_RULE_PACK_V1,
      GENERIC_RULE_PACK, GENERIC_XML_RULE_PACK, GENERIC_JSON_RULE_PACK]"

definition active_rule_packs :: "(uuid \<Rightarrow> string \<Rightarrow> uuid) \<Rightarrow> rule_pack list" where
  "active_rule_packs uuid5 = map (\<lambda>p. p uuid5)
     [RULE_PACK, FORTIOS_RULE_PACK, JUNOS_RULE_PACK, ARISTA_RULE_PACK, GENERIC_RULE_PACK,
      GENERIC_XML_RULE_PACK, GENERIC_JSON_RULE_PACK]"

definition RULE_REGISTRY :: "(uuid \<Rightarrow> string \<Rightarrow> uuid) \<Rightarrow> exc + rule_registry" where
  "RULE_REGISTRY uuid5 = make_rule_registry (built_in_rule_packs uuid5)
     (Some (map (\<lambda>p. (rp_profile_version_id p, rp_rule_pack_version_id p)) (active_rule_packs uuid5)))"

definition RULE_PACK_BY_PROFILE :: "rule_registry \<Rightarrow> (string \<times> rule_pack option) list" where
  "RULE_PACK_BY_PROFILE reg = map (\<lambda>m. (pm_profile_version_id m, pack_for_profile (pm_profile_version_id m) reg))
     [CISCO_IOS_XE_17, FORTIOS_7, JUNIPER_JUNOS_18, ARISTA_EOS_4, GENERIC_CLI, GENERIC_XML, GENERIC_JSON]"

end
