(* ===== verification/Compliance_Theorems.thy ===== *)
theory Compliance_Theorems
  imports Compliance_Service Rule_Registry
begin

text \<open>
  What an evaluation reports: the verdicts as a table computed directly from the states, the
  policy and the unresolved blocks; what a finding cites; and what persistence does to the
  findings of the audit and of the others.
\<close>

section \<open>The verdict table\<close>

definition touches :: "rule_pack \<Rightarrow> string \<Rightarrow> unresolved_block \<Rightarrow> bool" where
  "touches pack rule_id block = (rule_id \<in> set (affected_rules pack block))"

definition rule_parameter ::
  "organization_policy_version option \<Rightarrow> rule_definition \<Rightarrow> pyval" where
  "rule_parameter policy rule =
     (case (rd_required_policy_parameters rule, policy, dict_get (rd_condition rule) ''parameter'') of
        (_ # _, Some p, Some (PStr name)) \<Rightarrow> py_get (op_parameters p) name
      | (_ # _, Some p, None) \<Rightarrow> py_get (op_parameters p) []
      | _ \<Rightarrow> PNone)"

text \<open>
  The verdict that a rule gives a state: unresolved states are unknown, a missing policy
  parameter needs a review, a condition that cannot be evaluated is an error of the process,
  and a pass is withheld while some unresolved evidence may concern the rule.
\<close>

definition state_verdict ::
  "organization_policy_version option \<Rightarrow> bool \<Rightarrow> rule_definition \<Rightarrow> effective_state \<Rightarrow> finding_verdict" where
  "state_verdict policy blocked rule state =
     (if ef_resolution_status state \<noteq> RESOLVED then VD_UNKNOWN
      else if rd_required_policy_parameters rule \<noteq> [] \<and> rule_parameter policy rule = PNone then VD_MANUAL_REVIEW
      else (case evaluate_condition rule (ef_effective_value state) (rule_parameter policy rule) of
          Inl _ \<Rightarrow> VD_PROCESS_ERROR
        | Inr verdict \<Rightarrow> if verdict = VD_PASS \<and> blocked then VD_UNKNOWN else verdict))"

definition rule_verdicts ::
  "rule_pack \<Rightarrow> organization_policy_version option \<Rightarrow> audit \<Rightarrow> effective_state list \<Rightarrow> unresolved_block list
    \<Rightarrow> rule_definition \<Rightarrow> (string \<times> scope_ref option \<times> finding_verdict) list" where
  "rule_verdicts pack policy a states blocks rule =
     (let resolution = au_profile_resolution a;
          relevant = filter (\<lambda>s. ef_field_id s = hd (rd_required_effective_states rule)) states;
          blocked = list_ex (touches pack (rd_rule_id rule)) blocks
      in if py_get resolution ''resolution_status'' \<noteq> PStr ''resolved'' then [(rd_rule_id rule, None, VD_UNKNOWN)]
         else if py_get resolution ''profile_version_id'' \<noteq> PStr (rp_profile_version_id pack)
         then [(rd_rule_id rule, None, VD_NOT_APPLICABLE)]
         else if relevant = [] then [(rd_rule_id rule, None, VD_UNKNOWN)]
         else map (\<lambda>s. (rd_rule_id rule, Some (ef_scope s), state_verdict policy blocked rule s)) relevant)"

definition audit_verdicts ::
  "audit_store \<Rightarrow> uuid \<Rightarrow> uuid \<Rightarrow> rule_pack \<Rightarrow> organization_policy_version option \<Rightarrow> effective_state list option
    \<Rightarrow> unresolved_block list \<Rightarrow> (string \<times> scope_ref option \<times> finding_verdict) list" where
  "audit_verdicts db audit_id organization_id pack policy states blocks =
     (case find_audit audit_id organization_id db of
        None \<Rightarrow> []
      | Some a \<Rightarrow> concat (map (rule_verdicts pack policy a
          (case states of Some ss \<Rightarrow> ss | None \<Rightarrow> audit_states db audit_id) blocks) (rp_rules pack)))"

definition reported :: "finding_draft \<Rightarrow> string \<times> scope_ref option \<times> finding_verdict" where
  "reported d = (fd_rule_id d, fd_affected_scope d, fd_verdict d)"

section \<open>Unresolved evidence by rule\<close>

lemma dict_append_get:
  "blockers_of (dict_append k x d) k' = blockers_of d k' @ (if k' = k then [x] else [])"
  by (simp add: blockers_of_def dict_append_def dict_simps split: option.splits)

lemma append_block_get:
  "distinct ks \<Longrightarrow> blockers_of (foldl (\<lambda>d k. dict_append k b d) d ks) k'
     = blockers_of d k' @ (if k' \<in> set ks then [b] else [])"
  by (induction ks arbitrary: d) (auto simp: dict_append_get)

lemma distinct_affected [simp]: "distinct (affected_rules pack block)"
  by (simp add: affected_rules_def)

lemma blockers_touch:
  "blockers_of (unresolved_by_rule pack blocks) rule_id = filter (touches pack rule_id) blocks"
  by (induction blocks rule: rev_induct)
    (simp_all add: unresolved_by_rule_def append_block_get touches_def, simp add: blockers_of_def dict_simps)

section \<open>Drafts\<close>

lemma draft_finding_Inr:
  "draft_finding uuid5 rule pack a verdict scope states observed expected reason refs = Inr d \<Longrightarrow>
     reported d = (rd_rule_id rule, scope, verdict) \<and> fd_audit_id d = au_audit_id a
     \<and> fd_device_id d = au_device_id a \<and> fd_effective_state_refs d = map ef_effective_state_id states
     \<and> fd_observed_state d = observed \<and> fd_expected_state d = expected
     \<and> fd_unknown_reason d = reason \<and> fd_evidence_refs d = refs
     \<and> comparison_key (rd_rule_id rule) scope = Inr (fd_comparison_key d)
     \<and> fd_finding_id d = uuid5 FINDING_NAMESPACE
         (uuid_str (au_audit_id a) @ '':'' @ rd_rule_id rule @ '':'' @ finding_scope_key scope)"
  by (auto simp: draft_finding_def reported_def deterministic_finding_id_def)

lemma draft_reported:
  "draft_finding uuid5 rule pack a verdict scope states observed expected reason refs = Inr d \<Longrightarrow>
     reported d = (rd_rule_id rule, scope, verdict)"
  by (simp add: draft_finding_Inr)

lemma evaluate_state_reported:
  "evaluate_state uuid5 pack a evidence blockers rule state parameter = Inr d \<Longrightarrow>
     \<exists>v. evaluate_condition rule (ef_effective_value state) parameter = Inr v
       \<and> reported d = (rd_rule_id rule, Some (ef_scope state),
            if v = VD_PASS \<and> blockers \<noteq> [] then VD_UNKNOWN else v)"
  by (auto simp: evaluate_state_def split: if_splits dest!: draft_reported)

text \<open>After the \<open>try\<close>, only an \<open>EvaluationError\<close> of the condition gives a finding.\<close>

lemma explanation_class:
  "explanation verdict rule observed reason = Inl e \<Longrightarrow> exc_class e \<in> {AttributeError, KeyError}"
  by (auto simp: explanation_def attribute_error_def key_error_def item_def and_then_Inl
      split: finding_verdict.splits option.splits)

lemma evaluate_state_error:
  assumes "evaluate_state uuid5 pack a evidence blockers rule state parameter = Inl e"
    and "exc_class e = EvaluationError"
  shows "\<exists>e'. evaluate_condition rule (ef_effective_value state) parameter = Inl e'"
proof (rule ccontr)
  assume no: "\<not> ?thesis"
  then obtain v where v: "evaluate_condition rule (ef_effective_value state) parameter = Inr v"
    by (cases "evaluate_condition rule (ef_effective_value state) parameter") auto
  have draft: "exc_class x \<noteq> EvaluationError"
    if "draft_finding uuid5 rule pack a w scope states observed expected reason refs = Inl x"
    for w scope states observed expected reason refs x
    using that by (auto simp: draft_finding_def deterministic_finding_id_def comparison_key_def and_then_Inl
        dest: explanation_class)
  have expected: "exc_class x \<noteq> EvaluationError" if "expected_of rule parameter = Inl x" for x
    using that by (auto simp: expected_of_def item_def key_error_def Let_def and_then_Inl split: option.splits)
  have evidence: "exc_class x \<noteq> EvaluationError" if "state_evidence evidence state = Inl x" for x
  proof -
    have "exc_class x \<noteq> EvaluationError"
      if "map_res (\<lambda>fact_id. case dict_get evidence fact_id of None \<Rightarrow> Inr [] | Some refs \<Rightarrow> py_iter refs) ids = Inl x"
      for ids
      using that
    proof (induction ids)
      case (Cons i ids)
      then show ?case by (auto simp: and_then_Inl split: option.splits elim!: py_iter.elims)
    qed simp
    with that show ?thesis by (auto simp: state_evidence_def and_then_Inl)
  qed
  from assms v draft expected evidence show False
    by (auto simp: evaluate_state_def and_then_Inl split: if_splits)
qed

lemma parameter_rule:
  "(if rd_required_policy_parameters rule = [] then Inr PNone
    else resolve_parameter policy (case dict_get (rd_condition rule) ''parameter'' of
      None \<Rightarrow> PStr [] | Some p \<Rightarrow> p)) = Inr parameter \<Longrightarrow> parameter = rule_parameter policy rule"
  by (cases policy)
    (auto simp: rule_parameter_def split: if_splits option.splits list.splits pyval.splits)

lemma state_finding_reported:
  assumes "state_finding uuid5 pack policy a evidence blockers rule state = Inr d"
  shows "reported d = (rd_rule_id rule, Some (ef_scope state), state_verdict policy (blockers \<noteq> []) rule state)"
proof (cases "ef_resolution_status state = RESOLVED")
  case False
  with assms show ?thesis by (auto simp: state_finding_def state_verdict_def dest: draft_reported)
next
  case True
  let ?p = "rule_parameter policy rule"
  let ?missing = "rd_required_policy_parameters rule \<noteq> [] \<and> ?p = PNone"
  from assms True obtain parameter where parameter: "parameter = ?p"
    and rest: "(if ?missing
      then and_then (expected_of rule PNone) (\<lambda>expected. and_then (state_evidence evidence state) (\<lambda>refs.
        draft_finding uuid5 rule pack a VD_MANUAL_REVIEW (Some (ef_scope state)) [state]
          (ef_effective_value state) (Some expected) None refs))
      else (case evaluate_state uuid5 pack a evidence blockers rule state ?p of
          Inr d \<Rightarrow> Inr d
        | Inl e \<Rightarrow> if is_evaluation_error (exc_class e)
            then and_then (state_evidence evidence state) (\<lambda>refs.
              draft_finding uuid5 rule pack a VD_PROCESS_ERROR (Some (ef_scope state)) [state]
                (ef_effective_value state) None None refs)
            else Inl e)) = Inr d"
    unfolding state_finding_def by (auto dest!: parameter_rule)
  show ?thesis
  proof (cases ?missing)
    case True
    with rest \<open>ef_resolution_status state = RESOLVED\<close> show ?thesis
      by (auto simp: state_verdict_def dest: draft_reported)
  next
    case False
    show ?thesis
    proof (cases "evaluate_state uuid5 pack a evidence blockers rule state ?p")
      case (Inr d')
      with rest False have "d' = d" by auto
      with evaluate_state_reported [OF Inr] True False show ?thesis
        by (auto simp: state_verdict_def)
    next
      case (Inl e)
      with rest False have err: "exc_class e = EvaluationError"
        and d: "reported d = (rd_rule_id rule, Some (ef_scope state), VD_PROCESS_ERROR)"
        by (auto simp: is_evaluation_error_def split: if_splits dest: draft_reported)
      from evaluate_state_error [OF Inl err] d True False show ?thesis
        by (auto simp: state_verdict_def)
    qed
  qed
qed

lemma by_field_states:
  "(case dict_get (group_dict ef_field_id states) field of None \<Rightarrow> [] | Some ss \<Rightarrow> ss)
     = filter (\<lambda>s. ef_field_id s = field) states"
  by (auto simp: group_dict_get image_iff filter_empty_conv intro!: sym [OF filter_False])

lemma map_res_map: "map_res f xs = Inr ys \<Longrightarrow> (\<And>x y. f x = Inr y \<Longrightarrow> g y = h x) \<Longrightarrow> map g ys = map h xs"
  by (induction xs arbitrary: ys) auto

lemma rule_findings_reported:
  assumes "rule_findings uuid5 pack policy a (group_dict ef_field_id states) evidence
    (unresolved_by_rule pack blocks) rule = Inr drafts"
  shows "map reported drafts = rule_verdicts pack policy a states blocks rule"
proof -
  let ?ss = "filter (\<lambda>s. ef_field_id s = hd (rd_required_effective_states rule)) states"
  let ?blockers = "filter (touches pack (rd_rule_id rule)) blocks"
  have blocked: "(?blockers \<noteq> []) = list_ex (touches pack (rd_rule_id rule)) blocks"
    by (auto simp: filter_empty_conv list_ex_iff)
  show ?thesis
  proof (cases "ar_status (determine_applicability a pack) = APPLICABLE")
    case False
    with assms show ?thesis
      by (auto simp: rule_findings_def rule_verdicts_def determine_applicability_def Let_def
          split: if_splits dest!: draft_reported)
  next
    case True
    then have app: "py_get (au_profile_resolution a) ''resolution_status'' = PStr ''resolved''"
        "py_get (au_profile_resolution a) ''profile_version_id'' = PStr (rp_profile_version_id pack)"
      by (auto simp: determine_applicability_def Let_def split: if_splits)
    show ?thesis
    proof (cases "?ss = []")
      case True
      with assms app show ?thesis
        by (auto simp: rule_findings_def rule_verdicts_def determine_applicability_def by_field_states
            split: list.splits dest!: draft_reported)
    next
      case False
      with assms app have "map_res (state_finding uuid5 pack policy a evidence ?blockers rule) ?ss = Inr drafts"
        by (auto simp: rule_findings_def determine_applicability_def by_field_states blockers_touch
            split: list.splits)
      then have "map reported drafts
          = map (\<lambda>s. (rd_rule_id rule, Some (ef_scope s), state_verdict policy (?blockers \<noteq> []) rule s)) ?ss"
        by (rule map_res_map) (rule state_finding_reported)
      with False app show ?thesis by (simp add: rule_verdicts_def blocked)
    qed
  qed
qed

lemma map_res_concat:
  "map_res f xs = Inr yss \<Longrightarrow> (\<And>x ys. f x = Inr ys \<Longrightarrow> map g ys = h x) \<Longrightarrow> map g (concat yss) = concat (map h xs)"
  by (induction xs arbitrary: yss) auto


section \<open>Persistence\<close>

lemma evaluate_findings_irrelevant [simp]:
  "evaluate_audit_compliance uuid5 (db\<lparr>db_findings := fs\<rparr>) audit_id organization_id pack policy states blocks
     = evaluate_audit_compliance uuid5 db audit_id organization_id pack policy states blocks"
proof -
  have "find_audit audit_id organization_id (db\<lparr>db_findings := fs\<rparr>) = find_audit audit_id organization_id db"
    "audit_states (db\<lparr>db_findings := fs\<rparr>) audit_id = audit_states db audit_id"
    "facts_of_states (db\<lparr>db_findings := fs\<rparr>) = facts_of_states db"
    by (simp_all add: find_audit_def audit_states_def facts_of_states_def fun_eq_iff)
  then show ?thesis unfolding evaluate_audit_compliance_def by (simp only:)
qed

lemma finding_key_free:
  "finding_admitted rows f \<Longrightarrow> (fi_audit_id f, fi_comparison_key f) \<notin> (\<lambda>f. (fi_audit_id f, fi_comparison_key f)) ` set rows"
  by (auto simp: finding_admitted_def)

lemma map_res_each:
  assumes "map_res f xs = Inr ys" and "y \<in> set ys"
  obtains x where "x \<in> set xs" and "f x = Inr y"
  using assms by (force simp: map_res_Inr list_all2_conv_all_nth in_set_conv_nth)

lemma rule_findings_audit:
  assumes "rule_findings uuid5 pack policy a by_field evidence by_rule rule = Inr ds" and "d \<in> set ds"
  shows "fd_audit_id d = au_audit_id a"
proof -
  have state: "fd_audit_id d = au_audit_id a"
    if "state_finding uuid5 pack policy a evidence blockers rule s = Inr d" for blockers s d
    using that
    by (auto simp: state_finding_def evaluate_state_def split: if_splits sum.splits dest!: draft_finding_Inr)
  have many: "fd_audit_id d = au_audit_id a"
    if "map_res (state_finding uuid5 pack policy a evidence blockers rule) ss = Inr ds" "d \<in> set ds" for blockers ss ds
    using that state by (blast elim: map_res_each)
  from assms show ?thesis
    by (auto simp: rule_findings_def Let_def split: applicability_status.splits list.splits if_splits
        dest!: draft_finding_Inr intro: many)
qed

lemma evaluation_audit:
  assumes "evaluate_audit_compliance uuid5 db audit_id organization_id pack policy states blocks = Inr ds" and "d \<in> set ds"
  shows "fd_audit_id d = audit_id"
proof -
  from assms(1) obtain a dss by_field evidence by_rule where a: "find_audit audit_id organization_id db = Some a"
    and run: "map_res (rule_findings uuid5 pack policy a by_field evidence by_rule) (rp_rules pack) = Inr dss"
    and ds: "ds = concat dss"
    by (auto simp: evaluate_audit_compliance_def Let_def split: option.splits)
  from assms(2) ds obtain fs where "fs \<in> set dss" "d \<in> set fs" by auto
  then have "fd_audit_id d = au_audit_id a"
    using run by (blast elim: map_res_each dest: rule_findings_audit)
  with a show ?thesis by (auto simp: find_audit_def find_Some_iff)
qed


end
