(* ===== verification/Runtime_Profiles.thy ===== *)
theory Runtime_Profiles
  imports Audit_Records Training_Dsl
begin

text \<open>
  Profiles that an administrator declares (\<open>profile_resolution/runtime.py\<close>): the parser of a
  manifest, the lookup of a profile for an organization, and publication.  The content of a
  manifest is its text; \<open>json_loads\<close>, a parameter, reads a JSON text and raises \<open>ValueError\<close> on any other.
\<close>

definition runtime_profile_error :: "string \<Rightarrow> exc" where
  "runtime_profile_error m = Exc RuntimeProfileError m"

section \<open>Names and sets of the module\<close>

definition identifier_char :: "char \<Rightarrow> bool" where
  "identifier_char c = (is_lower c \<or> is_digit c \<or> c \<in> {CHR ''.'', CHR ''_'', CHR ''-''})"

definition profile_identifier :: "string \<Rightarrow> bool" where
  "profile_identifier s = (case s of [] \<Rightarrow> False
     | c # cs \<Rightarrow> is_lower c \<and> length cs \<le> 127 \<and> list_all identifier_char cs)"

fun split_points :: "string \<Rightarrow> string list" where
  "split_points [] = [[]]"
| "split_points (c # s) =
     (if c = CHR ''.'' then [] # split_points s
      else (case split_points s of g # gs \<Rightarrow> (c # g) # gs | [] \<Rightarrow> [[c]]))"

definition semantic_version :: "string \<Rightarrow> bool" where
  "semantic_version s = (length (split_points s) = 3 \<and> list_all all_digits (split_points s))"

definition token_char :: "char \<Rightarrow> bool" where
  "token_char c = (is_alnum c \<or> c \<in> {CHR '' '', CHR ''.'', CHR ''_'', CHR '':'', CHR ''/'', CHR ''-''})"

definition detection_token :: "string \<Rightarrow> bool" where
  "detection_token s = (case s of [] \<Rightarrow> False
     | c # cs \<Rightarrow> is_alnum c \<and> length cs \<le> 63 \<and> list_all token_char cs)"

definition RUNTIME_READERS :: "(string \<times> artifact_evidence_type list) list" where
  "RUNTIME_READERS =
     [(''indentation_cli.v1'', [AE_CONFIGURATION, AE_UNKNOWN_EVIDENCE]),
      (''xml_tree.v1'', [AE_STRUCTURED_EXPORT]), (''json_tree.v1'', [AE_STRUCTURED_EXPORT])]"

definition RUNTIME_CAPABILITIES :: "string list" where
  "RUNTIME_CAPABILITIES =
     [''structural_parsing'', ''semantic_interpretation'', ''effective_state_resolution'', ''administrator_training'']"

definition evidence_types :: "artifact_evidence_type list" where
  "evidence_types = [AE_CONFIGURATION, AE_VERSION_OUTPUT, AE_INVENTORY_OUTPUT, AE_OPERATIONAL_OUTPUT,
     AE_STRUCTURED_EXPORT, AE_UNKNOWN_EVIDENCE]"

fun device_class_value :: "device_class \<Rightarrow> string" where
  "device_class_value DC_ROUTER = ''router''"
| "device_class_value DC_SWITCH = ''switch''"
| "device_class_value DC_FIREWALL = ''firewall''"
| "device_class_value DC_SASE = ''sase''"
| "device_class_value DC_LOAD_BALANCER = ''load_balancer''"
| "device_class_value DC_WIRELESS = ''wireless''"
| "device_class_value DC_CLOUD_NETWORK_CONTROL = ''cloud_network_control''"
| "device_class_value DC_VIRTUAL_NETWORK_DEVICE = ''virtual_network_device''"
| "device_class_value DC_UNKNOWN = ''unknown''"
| "device_class_value DC_OTHER = ''other''"

definition device_classes :: "device_class list" where
  "device_classes = [DC_ROUTER, DC_SWITCH, DC_FIREWALL, DC_SASE, DC_LOAD_BALANCER, DC_WIRELESS,
     DC_CLOUD_NETWORK_CONTROL, DC_VIRTUAL_NETWORK_DEVICE, DC_UNKNOWN, DC_OTHER]"

text \<open>\<open>E(v)\<close> of a string enumeration: the member with that value.\<close>

definition member_of :: "('e \<Rightarrow> string) \<Rightarrow> 'e list \<Rightarrow> pyval \<Rightarrow> 'e option" where
  "member_of value members v = (case v of PStr s \<Rightarrow> find (\<lambda>m. value m = s) members | _ \<Rightarrow> None)"

section \<open>Parsing a manifest\<close>

definition profile_text :: "string \<Rightarrow> nat \<Rightarrow> pyval \<Rightarrow> exc + string" where
  "profile_text label limit v =
     (let result = (case v of PStr s \<Rightarrow> py_strip s | _ \<Rightarrow> []) in
      and_then (require (result \<noteq> [] \<and> length result \<le> limit)
        (runtime_profile_error (''Profile '' @ label @ '' is invalid''))) (\<lambda>_. Inr result))"

definition parse_bound :: "pyval \<Rightarrow> exc + nat list option" where
  "parse_bound v =
     (if v = PNone then Inr None
      else and_then (profile_text ''version constraint'' 64 v) (\<lambda>s.
        and_then (parse_version s) (\<lambda>parsed. case parsed of
          None \<Rightarrow> Inl (runtime_profile_error ''Profile version constraint is invalid'')
        | Some ns \<Rightarrow> Inr (Some ns))))"

definition selector_fields :: "string list" where
  "selector_fields = [''os_version'', ''hostname'', ''model'', ''serial_number'']"

definition selector_part :: "pyval \<Rightarrow> bool" where
  "selector_part v = (case v of PStr s \<Rightarrow> xml_local_name s | _ \<Rightarrow> False)"

fun str_value :: "pyval \<Rightarrow> string" where
  "str_value (PStr s) = s" | "str_value _ = []"

text \<open>An attribute that is not a string is only let through for a text source, which ignores it.\<close>

definition parse_selector :: "pyval \<Rightarrow> exc + xml_identity_selector" where
  "parse_selector v =
     (case v of
        PDict d \<Rightarrow>
          (let field = py_get d ''field''; path = py_get d ''path''; attribute = py_get d ''attribute'';
               source = (case dict_get d ''source'' of None \<Rightarrow> PStr ''text'' | Some s \<Rightarrow> s);
               malformed = runtime_profile_error ''Profile identity selector is invalid''
           in and_then (require (hashable field) (Exc TypeError [])) (\<lambda>_.
              and_then (require (field \<in> PStr ` set selector_fields
                  \<and> (case path of PList ps \<Rightarrow> within 1 8 ps \<and> list_all selector_part ps | _ \<Rightarrow> False)) malformed) (\<lambda>_.
              and_then (require (hashable source) (Exc TypeError [])) (\<lambda>_.
              and_then (require (source = PStr ''text'' \<or> (source = PStr ''attribute'' \<and> is_str attribute)) malformed) (\<lambda>_.
              Inr \<lparr>is_field = str_value field,
                is_path = (case path of PList ps \<Rightarrow> map str_value ps | _ \<Rightarrow> []), is_namespace_uris = [],
                is_source = str_value source,
                is_attribute = (case attribute of PStr s \<Rightarrow> Some s | _ \<Rightarrow> None)\<rparr>)))))
      | _ \<Rightarrow> Inl (runtime_profile_error ''Profile identity selector is invalid''))"

definition parse_selectors :: "pyval \<Rightarrow> string \<Rightarrow> exc + xml_identity_selector list" where
  "parse_selectors v reader =
     (case v of
        PNone \<Rightarrow> Inr []
      | PList items \<Rightarrow>
          if reader = ''xml_tree.v1'' \<and> length items \<le> 4
          then and_then (map_res parse_selector items) (\<lambda>selectors.
            and_then (require (distinct (map is_field selectors))
              (runtime_profile_error ''Profile identity selectors are duplicated'')) (\<lambda>_. Inr selectors))
          else Inl (runtime_profile_error ''Profile identity selectors are invalid'')
      | _ \<Rightarrow> Inl (runtime_profile_error ''Profile identity selectors are invalid''))"

definition or_default :: "json_object \<Rightarrow> string \<Rightarrow> pyval \<Rightarrow> pyval" where
  "or_default d k v = (case dict_get d k of None \<Rightarrow> v | Some x \<Rightarrow> x)"

definition profile_problem :: "string \<Rightarrow> exc" where
  "profile_problem m = runtime_profile_error (''Profile '' @ m)"

text \<open>The identity, the reader and the evidence types it may read.\<close>

definition parse_identity :: "json_object \<Rightarrow> exc + string \<times> string" where
  "parse_identity raw =
     and_then (require (py_get raw ''schema_version'' = PStr ''1.0.0'')
       (profile_problem ''manifest schema_version must be 1.0.0'')) (\<lambda>_.
     and_then (profile_text ''ID'' 255 (py_get raw ''profile_id'')) (\<lambda>profile_id.
     and_then (profile_text ''version'' 32 (py_get raw ''profile_version'')) (\<lambda>profile_version.
     and_then (require (profile_identifier profile_id \<and> semantic_version profile_version)
       (profile_problem ''identity is invalid'')) (\<lambda>_.
     and_then (require (py_get raw ''profile_version_id'' = PStr (profile_id @ ''@'' @ profile_version))
       (profile_problem ''version identity is invalid'')) (\<lambda>_.
     Inr (profile_id, profile_version))))))"

definition parse_reader :: "json_object \<Rightarrow> exc + string \<times> artifact_evidence_type list" where
  "parse_reader raw =
     (let reader = py_get raw ''structural_reader'' in
      and_then (require (hashable reader) (Exc TypeError [])) (\<lambda>_.
      case dict_get RUNTIME_READERS (str_value reader) of
        None \<Rightarrow> Inl (profile_problem ''structural reader is unsupported'')
      | Some readable \<Rightarrow>
          (case py_get raw ''evidence_types'' of
             PList (e # es) \<Rightarrow>
               (case those (map (member_of evidence_type_value evidence_types) (e # es)) of
                  None \<Rightarrow> Inl (profile_problem ''evidence types are invalid'')
                | Some types \<Rightarrow>
                    and_then (require (set types \<subseteq> set readable)
                      (profile_problem ''evidence types are incompatible with its reader'')) (\<lambda>_.
                    Inr (str_value reader, types)))
           | _ \<Rightarrow> Inl (profile_problem ''evidence types are invalid''))))"

definition parse_detection :: "json_object \<Rightarrow> exc + string list" where
  "parse_detection raw =
     (case py_get raw ''detection'' of
        PDict detection \<Rightarrow>
          (let version_prefix = or_default detection ''version_prefix'' (PStr ''version'') in
           case py_get detection ''tokens'' of
             PList tokens \<Rightarrow>
               if within 1 4 tokens \<and> list_all (\<lambda>t. detection_token (str_value t)) tokens
                  \<and> detection_token (str_value version_prefix)
               then Inr (map str_value tokens)
               else Inl (profile_problem ''detection is invalid'')
           | _ \<Rightarrow> Inl (profile_problem ''detection is invalid''))
      | _ \<Rightarrow> Inl (profile_problem ''detection is required''))"

definition constraints_problem :: exc where
  "constraints_problem = profile_problem ''version constraints are invalid''"

definition excluded_version :: "pyval \<Rightarrow> exc + unit" where
  "excluded_version v =
     (case v of PStr s \<Rightarrow> and_then (parse_version s) (\<lambda>p. require (p \<noteq> None) constraints_problem)
      | _ \<Rightarrow> Inr ())"

text \<open>The majors and the excluded versions; the two bounds are parsed last, as in the code.\<close>

definition parse_constraints :: "json_object \<Rightarrow> exc + json_object \<times> nat list \<times> string list" where
  "parse_constraints raw =
     (case or_default raw ''version_constraints'' (PDict []) of
        PDict constraints \<Rightarrow>
          (case (or_default constraints ''supported_major_versions'' (PList []),
                 or_default constraints ''excluded_versions'' (PList [])) of
             (PList majors, excluded) \<Rightarrow>
               and_then (require (list_all (\<lambda>m. is_int m \<and> \<not> is_bool m \<and> 0 \<le> int_value m) majors)
                 constraints_problem) (\<lambda>_.
               (case excluded of
                  PList versions \<Rightarrow>
                    and_then (each_res excluded_version versions) (\<lambda>_.
                    and_then (require (list_all is_str versions) constraints_problem) (\<lambda>_.
                    Inr (constraints, map (\<lambda>m. nat (int_value m)) majors, map str_value versions)))
                | _ \<Rightarrow> Inl constraints_problem))
           | _ \<Rightarrow> Inl constraints_problem)
      | _ \<Rightarrow> Inl constraints_problem)"

definition parse_classes :: "json_object \<Rightarrow> exc + device_class list" where
  "parse_classes raw =
     (case py_iter (or_default raw ''device_classes'' (PList [PStr ''unknown''])) of
        Inl _ \<Rightarrow> Inl (profile_problem ''device classes are invalid'')
      | Inr items \<Rightarrow>
          (case those (map (member_of device_class_value device_classes) items) of
             None \<Rightarrow> Inl (profile_problem ''device classes are invalid'') | Some cs \<Rightarrow> Inr cs))"

definition parse_capabilities :: "json_object \<Rightarrow> exc + string list" where
  "parse_capabilities raw =
     (case or_default raw ''capabilities'' (PList (map PStr RUNTIME_CAPABILITIES)) of
        PList (c # cs) \<Rightarrow>
          and_then (require (list_all hashable (c # cs)) (Exc TypeError [])) (\<lambda>_.
          and_then (require (set (c # cs) \<subseteq> PStr ` set RUNTIME_CAPABILITIES)
            (profile_problem ''capabilities are invalid'')) (\<lambda>_. Inr (map str_value (c # cs))))
      | _ \<Rightarrow> Inl (profile_problem ''capabilities are invalid''))"

definition parse_fields :: "json_object \<Rightarrow> exc + string list" where
  "parse_fields raw =
     (case or_default raw ''canonical_fields'' (PList []) of
        PList names \<Rightarrow>
          and_then (require (length names \<le> 64
              \<and> list_all (\<lambda>f. is_str f \<and> dict_get FIELD_REGISTRY (str_value f) \<noteq> None) names \<and> distinct names)
            (profile_problem ''canonical fields are invalid'')) (\<lambda>_. Inr (map str_value names))
      | _ \<Rightarrow> Inl (profile_problem ''canonical fields are invalid''))"

definition parse_manifest :: "pyval \<Rightarrow> exc + profile_manifest" where
  "parse_manifest decoded =
     (case decoded of
        PDict raw \<Rightarrow>
          and_then (parse_identity raw) (\<lambda>(profile_id, profile_version).
          and_then (parse_reader raw) (\<lambda>(reader, types).
          and_then (parse_detection raw) (\<lambda>tokens.
          and_then (parse_constraints raw) (\<lambda>(constraints, majors, excluded).
          and_then (parse_classes raw) (\<lambda>classes.
          and_then (parse_capabilities raw) (\<lambda>capabilities.
          and_then (parse_fields raw) (\<lambda>names.
          and_then (parse_selectors (py_get raw ''identity_selectors'') reader) (\<lambda>selectors.
          and_then (profile_text ''vendor'' 255 (py_get raw ''vendor'')) (\<lambda>vendor.
          and_then (profile_text ''product'' 255 (py_get raw ''product_family'')) (\<lambda>product_family.
          and_then (profile_text ''OS'' 255 (py_get raw ''os'')) (\<lambda>os.
          and_then (parse_bound (py_get constraints ''minimum_version'')) (\<lambda>minimum.
          and_then (parse_bound (py_get constraints ''maximum_version'')) (\<lambda>maximum.
          Inr \<lparr>pm_profile_id = profile_id, pm_profile_version_id = profile_id @ ''@'' @ profile_version,
            pm_profile_version = profile_version, pm_vendor = vendor, pm_product_family = product_family,
            pm_os = os,
            pm_version_constraint = \<lparr>vc_supported_major_versions = set majors,
              vc_minimum_version = minimum, vc_maximum_version = maximum, vc_excluded_versions = set excluded\<rparr>,
            pm_device_classes = set classes, pm_accepted_evidence_types = set types,
            pm_structural_reader_name = Some reader,
            pm_knowledge_pack_name = Some (''runtime.'' @ profile_id @ ''@'' @ profile_version),
            pm_capabilities = set capabilities,
            pm_coverage_manifest = [(''structural_reader'', PStr reader),
              (''canonical_fields'', PList (map PStr names)),
              (''limitations'', PList [PStr ''Runtime profiles have only administrator-published mappings; unmapped evidence remains UNKNOWN''])],
            pm_manifest_schema_version = ''1.0.0'', pm_exclusions = {}, pm_detection_tokens = tokens,
            pm_xml_identity_selectors = selectors, pm_structural_evidence_types = set types\<rparr>)))))))))))))
      | _ \<Rightarrow> Inl (profile_problem ''manifest schema_version must be 1.0.0''))"

text \<open>\<open>JSONDecodeError\<close> and \<open>UnicodeDecodeError\<close> are \<open>ValueError\<close>s of the reader.\<close>

definition parse_runtime_profile :: "(string \<Rightarrow> exc + pyval) \<Rightarrow> string \<Rightarrow> exc + profile_manifest" where
  "parse_runtime_profile json_loads content =
     and_then (require (within 1 (128 * 1024) content)
       (runtime_profile_error ''Profile manifest size is invalid'')) (\<lambda>_.
     and_then (raise_from (\<lambda>c. c = ValueError) (runtime_profile_error ''Profile manifest must be valid UTF-8 JSON'')
       (json_loads content)) parse_manifest)"

section \<open>Stored profiles\<close>

text \<open>\<open>json.dumps(v, sort_keys=True)\<close> with its default separators.\<close>

fun json_text :: "pyval \<Rightarrow> string" where
  "json_text (PList xs) = CHR ''['' # join '', '' (map json_text xs) @ '']''"
| "json_text (PDict d) =
     CHR 0x7B # join '', '' (map (\<lambda>(k, s). json_string k @ '': '' @ s)
        (sort_key fst (map (\<lambda>(k, v). (k, json_text v)) d))) @ [CHR 0x7D]"
| "json_text v = json_dump v"

definition stored_profile :: "(string \<Rightarrow> exc + pyval) \<Rightarrow> profile_manifest_row \<Rightarrow> exc + profile_manifest" where
  "stored_profile json_loads row = parse_runtime_profile json_loads (json_text (PDict (pn_manifest row)))"

definition runtime_profiles ::
  "(string \<Rightarrow> exc + pyval) \<Rightarrow> audit_store \<Rightarrow> uuid \<Rightarrow> exc + profile_manifest list" where
  "runtime_profiles json_loads db organization_id =
     and_then (map_res (\<lambda>row. case stored_profile json_loads row of
           Inr p \<Rightarrow> Inr [p]
         | Inl e \<Rightarrow> if exc_class e = RuntimeProfileError then Inr [] else Inl e)
       (sort_key pn_created_at (filter (\<lambda>r. pn_organization_id r = Some organization_id \<and> pn_status r = ''published'')
         (db_profile_manifests db)))) (\<lambda>ps. Inr (concat ps))"

definition find_manifest_row :: "audit_store \<Rightarrow> uuid \<Rightarrow> string \<Rightarrow> profile_manifest_row option" where
  "find_manifest_row db organization_id profile_version_id =
     find (\<lambda>r. pn_organization_id r = Some organization_id \<and> pn_profile_version_id r = profile_version_id)
       (db_profile_manifests db)"

definition profile_for ::
  "(string \<Rightarrow> exc + pyval) \<Rightarrow> audit_store \<Rightarrow> uuid \<Rightarrow> string \<Rightarrow> exc + profile_manifest option" where
  "profile_for json_loads db organization_id profile_version_id =
     (case find_manifest_row db organization_id profile_version_id of
        None \<Rightarrow> Inr (dict_get PROFILE_REGISTRY profile_version_id)
      | Some row \<Rightarrow>
          and_then (require (pn_status row = ''published'')
            (runtime_profile_error ''Profile version is not published'')) (\<lambda>_.
          and_then (require (dict_get PROFILE_REGISTRY profile_version_id = None)
            (runtime_profile_error ''Profile version conflicts with a built-in profile'')) (\<lambda>_.
          and_then (raise_from (\<lambda>c. c = RuntimeProfileError)
            (runtime_profile_error ''Published profile manifest is invalid'') (stored_profile json_loads row)) (\<lambda>p.
          Inr (Some p)))))"

text \<open>\<open>new_id\<close> and \<open>now\<close> are the identifier and the time of the new row.\<close>

definition publish_runtime_profile ::
  "uuid \<Rightarrow> int \<Rightarrow> audit_store \<Rightarrow> uuid \<Rightarrow> profile_manifest \<Rightarrow> json_object
    \<Rightarrow> exc + profile_manifest_row \<times> audit_store" where
  "publish_runtime_profile new_id now db organization_id profile manifest =
     and_then (require (dict_get PROFILE_REGISTRY (pm_profile_version_id profile) = None
         \<and> find_manifest_row db organization_id (pm_profile_version_id profile) = None)
       (runtime_profile_error ''Profile version is already published'')) (\<lambda>_.
     let row = \<lparr>pn_profile_manifest_version_id = new_id, pn_organization_id = Some organization_id,
           pn_profile_id = pm_profile_id profile, pn_profile_version_id = pm_profile_version_id profile,
           pn_manifest_schema_version = ''1.0.0'', pn_manifest = manifest, pn_status = ''published'',
           pn_published_at = Some now, pn_created_at = now\<rparr>
     in Inr (row, db\<lparr>db_profile_manifests := db_profile_manifests db @ [row]\<rparr>))"

end
