(* ===== verification/Effective_Service.thy ===== *)
theory Effective_Service
  imports Runtime_Profiles Resolver
begin

text \<open>
  The service around the resolver (\<open>effective_state/service.py\<close>): the validation of the persisted
  facts of one audit, the operation that each fact's mapping declares, and the persistence of the
  resolved drafts in the store of \<open>Audit_Records\<close>.
\<close>

text \<open>The parameters: \<open>uuid5\<close>, the reader of JSON texts, and the validation of a mapping model.\<close>

record effective_library =
  el_uuid5 :: "uuid \<Rightarrow> string \<Rightarrow> uuid"
  el_json_loads :: "string \<Rightarrow> exc + pyval"
  el_pydantic :: pydantic

section \<open>The operation of a fact\<close>

definition incompatible_mapping :: exc where
  "incompatible_mapping = state_error ''SecurityFact mapping provenance is incompatible''"

definition is_state_error :: "exc_class \<Rightarrow> bool" where
  "is_state_error c = (c = EffectiveStateValidationError)"

definition mapping_columns :: "mapping_version \<Rightarrow> json_object" where
  "mapping_columns m =
     [(''profile_applicability'', PDict (mv_profile_applicability m)),
      (''structural_match'', PDict (mv_structural_match m)),
      (''target_field_id'', PStr (mv_target_field_id m)),
      (''value_extraction'', PDict (mv_value_extraction m)),
      (''unit_conversion'', PDict (mv_unit_conversion m)),
      (''scope_resolution'', PDict (mv_scope_resolution m)),
      (''negation_behavior'', PDict (mv_negation_behavior m)),
      (''removal_behavior'', PDict (mv_removal_behavior m)),
      (''default_behavior'', PDict (mv_default_behavior m)),
      (''examples'', PList (mv_examples m))]"

definition find_pack_version :: "audit_store \<Rightarrow> uuid \<Rightarrow> uuid \<Rightarrow> knowledge_pack_version option" where
  "find_pack_version db version_id organization_id =
     find (\<lambda>p. kv_knowledge_pack_version_id p = version_id \<and> kv_organization_id p = organization_id)
       (db_pack_versions db)"

definition find_mapping :: "audit_store \<Rightarrow> uuid \<Rightarrow> uuid \<Rightarrow> mapping_version option" where
  "find_mapping db mapping_version_id organization_id =
     find (\<lambda>m. mv_mapping_version_id m = mapping_version_id \<and> mv_organization_id m = organization_id)
       (db_mapping_versions db)"

text \<open>The policy of a mapping that the organization published in the pinned pack.\<close>

definition published_operation ::
  "effective_library \<Rightarrow> audit_store \<Rightarrow> audit \<Rightarrow> security_fact \<Rightarrow> exc + mapping_operation_policy" where
  "published_operation lib db a f =
     (case sf_mapping_version_id f of
        None \<Rightarrow> Inl incompatible_mapping
      | Some mapping_id \<Rightarrow>
          and_then (require (py_get (au_version_refs a) ''knowledge_pack_version_id''
              = PStr (uuid_str (sf_knowledge_pack_version_id f))) incompatible_mapping) (\<lambda>_.
          case (find_pack_version db (sf_knowledge_pack_version_id f) (au_organization_id a),
                find_mapping db mapping_id (au_organization_id a)) of
            (Some pack, Some mapping) \<Rightarrow>
              and_then (require (PStr (uuid_str (mv_mapping_version_id mapping)) \<in> set (kv_mapping_version_ids pack)
                  \<and> mv_status mapping \<in> {MS_PUBLISHED, MS_SUPERSEDED}
                  \<and> mv_target_field_id mapping = sf_field_id f) incompatible_mapping) (\<lambda>_.
              and_then (raise_from is_value_error (state_error ''SecurityFact mapping definition is invalid'')
                (py_model_validate (el_pydantic lib) (mapping_columns mapping))) (\<lambda>d.
              and_then (require (md_target_field_id d = sf_field_id f) incompatible_mapping) (\<lambda>_.
              case sf_value f of
                PDict v \<Rightarrow> Inr (MappingOperationPolicy (sf_knowledge_pack_version_id f)
                    (mv_mapping_version_id mapping) (sf_field_id f)
                    (if py_get v ''type'' = PStr ''null'' \<and> md_negation_behavior d = EB_RESET_TO_DEFAULT
                     then RESET else ASSIGN))
              | _ \<Rightarrow> Inl (Exc AttributeError []))))
          | _ \<Rightarrow> Inl incompatible_mapping))"

definition operation_policy ::
  "effective_library \<Rightarrow> audit_store \<Rightarrow> audit \<Rightarrow> security_fact \<Rightarrow> exc + mapping_operation_policy" where
  "operation_policy lib db a f =
     (case get_mapping_operation_policy (sf_knowledge_pack_version_id f) (sf_mapping_version_id f) (sf_field_id f) of
        Inr p \<Rightarrow> Inr p
      | Inl _ \<Rightarrow>
          (case (get_sealed_mapping_operation_policy (sf_mapping_version_id f) (sf_field_id f), sf_mapping_version_id f) of
             (Inr sealed, Some mapping_id) \<Rightarrow> Inr (MappingOperationPolicy (sf_knowledge_pack_version_id f)
               mapping_id (sf_field_id f) (mp_operation sealed))
           | _ \<Rightarrow> published_operation lib db a f))"

section \<open>Validation of the facts\<close>

text \<open>The pinned profile is built in or one that the organization published.\<close>

definition known_profile :: "effective_library \<Rightarrow> audit_store \<Rightarrow> uuid \<Rightarrow> pyval \<Rightarrow> exc + bool" where
  "known_profile lib db organization_id profile_version_id =
     (case profile_version_id of
        PStr p \<Rightarrow>
          if dict_get PROFILE_REGISTRY p \<noteq> None then Inr True
          else and_then (profile_for (el_json_loads lib) db organization_id p) (\<lambda>m. Inr (m \<noteq> None))
      | _ \<Rightarrow> if hashable profile_version_id then Inr False else Inl (Exc TypeError []))"

definition boundary_error :: exc where
  "boundary_error = state_error ''Audit version or ownership boundary is incompatible''"

definition check_boundary :: "effective_library \<Rightarrow> audit_store \<Rightarrow> uuid \<Rightarrow> audit \<Rightarrow> exc + string" where
  "check_boundary lib db organization_id a =
     (let profile_version_id = py_get (au_profile_resolution a) ''profile_version_id'' in
      and_then (require (case (get_snapshot_row (au_snapshot_id a) db, get_device_row (au_device_id a) db) of
            (Some snapshot, Some dev) \<Rightarrow> sn_device_id snapshot = au_device_id a
              \<and> sn_organization_id snapshot = organization_id \<and> dv_organization_id dev = organization_id
          | _ \<Rightarrow> False) boundary_error) (\<lambda>_.
      and_then (require (py_get (au_profile_resolution a) ''resolution_status'' = PStr ''resolved'')
        boundary_error) (\<lambda>_.
      and_then (known_profile lib db organization_id profile_version_id) (\<lambda>known.
      and_then (require (known \<and> py_get (au_version_refs a) ''device_profile_version_id'' = profile_version_id)
        boundary_error) (\<lambda>_.
      case py_get (au_version_refs a) ''knowledge_pack_version_id'' of
        PStr pinned_pack \<Rightarrow> Inr pinned_pack
      | _ \<Rightarrow> Inl boundary_error)))))"

definition check_fact ::
  "effective_library \<Rightarrow> audit_store \<Rightarrow> audit \<Rightarrow> string \<Rightarrow> security_fact \<Rightarrow> exc + unit" where
  "check_fact lib db a pinned_pack f =
     and_then (require (sf_audit_id f = au_audit_id a \<and> sf_device_id f = au_device_id a
         \<and> sf_snapshot_id f = au_snapshot_id a)
       (state_error ''SecurityFact crosses the Audit boundary'')) (\<lambda>_.
     and_then (require (uuid_str (sf_knowledge_pack_version_id f) = pinned_pack)
       (state_error ''SecurityFact knowledge-pack pin is incompatible'')) (\<lambda>_.
     and_then (scope_from_dict (sf_scope f)) (\<lambda>scope.
     and_then (typed_value_from_dict (sf_value f)) (\<lambda>v.
     and_then (operation_policy lib db a f) (\<lambda>policy.
     and_then (if tv_type v = TV_NULL
       then require (mp_operation policy = RESET) (state_error ''SecurityFact null value is unsupported'')
       else raise_from is_value_error (state_error ''SecurityFact value is malformed'')
         (and_then (validate_field_value_scope (sf_field_id f) v scope) (\<lambda>_. Inr ()))) (\<lambda>_.
     and_then (get_field_policy (sf_field_id f)) (\<lambda>_. Inr ())))))))"

definition validate_resolver_facts ::
  "effective_library \<Rightarrow> audit_store \<Rightarrow> uuid \<Rightarrow> uuid \<Rightarrow> security_fact list \<Rightarrow> exc + audit" where
  "validate_resolver_facts lib db audit_id organization_id facts =
     and_then (validate_policy_metadata FIELD_POLICIES MAPPING_OPERATION_POLICIES DOCUMENTED_DEFAULTS) (\<lambda>_.
     case find_audit audit_id organization_id db of
       None \<Rightarrow> Inl (Exc EffectiveStateNotFoundError ''Audit was not found'')
     | Some a \<Rightarrow>
         and_then (check_boundary lib db organization_id a) (\<lambda>pinned_pack.
         and_then (each_res (check_fact lib db a pinned_pack) facts) (\<lambda>_. Inr a)))"

section \<open>Persistence\<close>

definition state_row :: "effective_state_draft \<Rightarrow> string \<Rightarrow> effective_state" where
  "state_row d key =
     \<lparr>ef_effective_state_id = es_effective_state_id d, ef_audit_id = es_audit_id d,
      ef_device_id = es_device_id d, ef_field_id = es_field_id d, ef_scope = es_scope d,
      ef_scope_key = key, ef_effective_value = map_option typed_value_to_dict (es_effective_value d),
      ef_resolution_status = es_resolution_status d, ef_source_fact_ids = es_source_fact_ids d,
      ef_resolution_trace = es_resolution_trace d, ef_inherited_from = es_inherited_from d,
      ef_default_reference = es_default_reference d, ef_referenced_objects = es_referenced_objects d,
      ef_precedence_applied = es_precedence_applied d, ef_unresolved_reason = es_unresolved_reason d,
      ef_schema_version = es_schema_version d\<rparr>"

definition persist_effective_state ::
  "effective_library \<Rightarrow> uuid \<Rightarrow> effective_state_draft \<Rightarrow> audit_store \<Rightarrow> exc + effective_state \<times> audit_store" where
  "persist_effective_state lib organization_id d db =
     and_then (validate_effective_state_draft (el_uuid5 lib) d) (\<lambda>_.
     let facts = filter (\<lambda>f. sf_fact_id f \<in> set (es_source_fact_ids d)) (db_facts db) in
     and_then (require (length facts = length (es_source_fact_ids d))
       (state_error ''EffectiveState source fact is missing'')) (\<lambda>_.
     and_then (validate_resolver_facts lib db (es_audit_id d) organization_id facts) (\<lambda>_.
     and_then (require (list_all (\<lambda>f. sf_field_id f = es_field_id d) facts)
       (state_error ''EffectiveState source field is incompatible'')) (\<lambda>_.
     and_then (canonical_scope_key (es_scope d)) (\<lambda>key.
     case find (\<lambda>s. ef_audit_id s = es_audit_id d \<and> ef_field_id s = es_field_id d \<and> ef_scope_key s = key)
         (db_states db) of
       Some existing \<Rightarrow>
         and_then (require (ef_effective_state_id existing = es_effective_state_id d)
           (state_error ''EffectiveState uniqueness is inconsistent'')) (\<lambda>_. Inr (existing, db))
     | None \<Rightarrow>
         and_then (insert_row state_admitted (state_row d key) (db_states db)) (\<lambda>rows.
         Inr (state_row d key, db\<lparr>db_states := rows\<rparr>)))))))"

definition persist_drafts ::
  "effective_library \<Rightarrow> uuid \<Rightarrow> effective_state_draft list \<Rightarrow> audit_store
    \<Rightarrow> exc + effective_state list \<times> audit_store" where
  "persist_drafts lib organization_id drafts db =
     fold_res (\<lambda>d (states, db).
       and_then (persist_effective_state lib organization_id d db) (\<lambda>(s, db'). Inr (states @ [s], db')))
       drafts ([], db)"

definition audit_facts :: "audit_store \<Rightarrow> uuid \<Rightarrow> security_fact list" where
  "audit_facts db audit_id = sort_key sf_fact_id (filter (\<lambda>f. sf_audit_id f = audit_id) (db_facts db))"

definition resolve_audit_effective_states ::
  "effective_library \<Rightarrow> uuid \<Rightarrow> uuid \<Rightarrow> audit_store \<Rightarrow> exc + effective_state list \<times> audit_store" where
  "resolve_audit_effective_states lib audit_id organization_id db =
     (let facts = audit_facts db audit_id in
      and_then (validate_resolver_facts lib db audit_id organization_id facts) (\<lambda>a.
      and_then (map_res (\<lambda>f. and_then (operation_policy lib db a f) (\<lambda>p. Inr (sf_fact_id f, mp_operation p))) facts)
        (\<lambda>operations.
      and_then (resolve_security_facts (el_uuid5 lib) (au_audit_id a) (au_device_id a)
        (map_of operations) facts) (\<lambda>drafts.
      persist_drafts lib organization_id drafts
        (db\<lparr>db_states := filter (\<lambda>s. ef_audit_id s \<noteq> audit_id) (db_states db)\<rparr>)))))"

end
