(* ===== verification/Effective_Results.thy ===== *)
theory Effective_Results
  imports Effective_Service Resolver_Results
begin

text \<open>
  Where the value of an effective state comes from, and what a resolution leaves in the store.
\<close>

section \<open>The origin of a value\<close>

text \<open>
  The value of a scalar field is that of an assigning fact; the value of a repeatable field is the
  list of the values of some assigning facts.
\<close>

definition assigned_values :: "classified_fact list \<Rightarrow> typed_value set" where
  "assigned_values cs = cl_value ` {c \<in> set cs. cl_operation c = ASSIGN}"

definition list_value :: "typed_value list \<Rightarrow> typed_value" where
  "list_value vs = TypedValue TV_LIST (PList (map (\<lambda>v. PDict (typed_value_to_dict v)) vs))"

definition value_origin :: "field_cardinality \<Rightarrow> classified_fact list \<Rightarrow> typed_value \<Rightarrow> bool" where
  "value_origin cardinality cs v =
     (if cardinality = SCALAR then v \<in> assigned_values cs
      else \<exists>vs. set vs \<subseteq> assigned_values cs \<and> v = list_value vs)"

lemma assigned_mono: "set cs \<subseteq> set ds \<Longrightarrow> assigned_values cs \<subseteq> assigned_values ds"
  by (auto simp: assigned_values_def)

lemma value_origin_mono: "value_origin k cs v \<Longrightarrow> set cs \<subseteq> set ds \<Longrightarrow> value_origin k ds v"
  using assigned_mono unfolding value_origin_def by (metis subset_iff)

lemma winner_member: "facts \<noteq> [] \<Longrightarrow> fst (ordered_winner facts) \<in> set facts"
  using ordered_winner_member [of facts] by (auto simp: deciding_def Let_def split: if_splits)

lemma scalar_scope_value:
  assumes "resolve_scalar_scope uuid5 a dv f s facts = Inr d" and "facts \<noteq> []"
    and "es_effective_value d = Some v"
  shows "v \<in> assigned_values facts"
proof -
  obtain w c where w: "ordered_winner facts = (w, c)" by (cases "ordered_winner facts")
  with winner_member [OF assms(2)] have "w \<in> set facts" by simp
  with assms w show ?thesis
    by (auto simp: resolve_scalar_scope_def assigned_values_def Let_def split: if_splits
        dest!: unknown_draft_Inr make_draft_Inr)
qed

lemma member_values:
  assumes "facts \<noteq> []" and "set facts \<subseteq> set cs"
  shows "set (fst (resolve_member facts)) \<subseteq> assigned_values cs"
proof -
  obtain w c where w: "ordered_winner facts = (w, c)" by (cases "ordered_winner facts")
  with winner_member [OF assms(1)] assms(2) have "w \<in> set cs" by auto
  with w show ?thesis by (auto simp: resolve_member_def assigned_values_def split: fact_operation.splits if_splits)
qed

lemma repeatable_scope_value:
  assumes "resolve_repeatable_scope uuid5 a dv f items = Inr d" and "es_effective_value d = Some v"
  shows "\<exists>vs. set vs \<subseteq> assigned_values items \<and> v = list_value vs"
proof -
  let ?key = "\<lambda>c. value_key (cl_value c)"
  let ?members = "group_dict ?key items"
  let ?vs = "concat (map fst (map (\<lambda>key. resolve_member (the (dict_get ?members key))) (sort (map fst ?members))))"
  have "set (fst (resolve_member (the (dict_get ?members key)))) \<subseteq> assigned_values items"
    if "key \<in> fst ` set ?members" for key
  proof -
    from that have some: "dict_get ?members key \<noteq> None" by (simp add: dict_get_None)
    then have k: "key \<in> ?key ` set items" by (auto simp: group_dict_get split: if_splits)
    then have the: "the (dict_get ?members key) = filter (\<lambda>x. ?key x = key) items"
      by (simp add: group_dict_get)
    show ?thesis unfolding the by (rule member_values) (use k in \<open>auto simp: filter_empty_conv\<close>)
  qed
  then have sub: "set ?vs \<subseteq> assigned_values items" by auto
  from assms have "v = list_value ?vs"
    unfolding resolve_repeatable_scope_def Let_def list_value_def
    by (auto split: if_splits dest!: unknown_draft_Inr make_draft_Inr)
  with sub show ?thesis by blast
qed

lemma partition_items:
  assumes "vty_partitions facts = Inr ps" and "(s, items) \<in> set ps"
  shows "items \<noteq> [] \<and> set items \<subseteq> set facts"
proof -
  from assms obtain bfacts where b: "map_res (\<lambda>c. and_then (vty_bounds (cl_scope c)) (\<lambda>b. Inr (c, b))) facts = Inr bfacts"
    and ps: "ps = map (\<lambda>((m, n), cs). (partition_scope m n, cs)) (partitions_of bfacts)"
    by (auto simp: vty_partitions_def)
  have "map fst bfacts = map (\<lambda>c. c) facts" by (rule map_res_map_eq [OF b]) auto
  then have sub: "fst ` set bfacts = set facts" by (metis list.map_ident list.set_map)
  from assms(2) ps obtain m n where "((m, n), items) \<in> set (partitions_of bfacts)" by auto
  then have "items \<noteq> []" and "items = applicable bfacts m n" unfolding partitions_of_def by auto
  with sub show ?thesis by (auto simp: applicable_def)
qed

lemma scalar_field_value:
  assumes "resolve_scalar_field uuid5 a dv f facts = Inr ds" and "d \<in> set ds"
    and "es_effective_value d = Some v"
  shows "v \<in> assigned_values facts"
proof -
  have "\<exists>items s. items \<noteq> [] \<and> set items \<subseteq> set facts \<and> resolve_scalar_scope uuid5 a dv f s items = Inr d"
  proof (cases "sc_type (cl_scope (hd facts)) = ''vty_range''")
    case True
    with assms(1,2) obtain ps where ps: "vty_partitions facts = Inr ps"
      and r: "map_res (\<lambda>(scope, items). resolve_scalar_scope uuid5 a dv f scope items) ps = Inr ds"
      by (auto simp: resolve_scalar_field_def split: if_splits)
    from map_res_set [OF r assms(2)] obtain s items where "(s, items) \<in> set ps"
      and "resolve_scalar_scope uuid5 a dv f s items = Inr d" by auto
    with partition_items [OF ps] show ?thesis by metis
  next
    case False
    with assms(1,2) have r: "map_res (\<lambda>(_, items). resolve_scalar_scope uuid5 a dv f (cl_scope (hd items)) items)
        (group_runs scope_id (sort_key (\<lambda>c. (scope_id c, cl_ids c)) facts)) = Inr ds"
      by (auto simp: resolve_scalar_field_def split: if_splits)
    from map_res_set [OF r assms(2)] run_scope show ?thesis by fastforce
  qed
  then obtain items s where items: "items \<noteq> []" "set items \<subseteq> set facts"
    and r: "resolve_scalar_scope uuid5 a dv f s items = Inr d" by blast
  show ?thesis using scalar_scope_value [OF r items(1) assms(3)] assigned_mono [OF items(2)] by blast
qed

lemma blocked_no_value:
  "resolve_blocked_field uuid5 a dv f blocked = Inr ds \<Longrightarrow> d \<in> set ds \<Longrightarrow> es_effective_value d = None"
  by (auto simp: resolve_blocked_field_def dest!: map_res_set unknown_draft_Inr)

lemma repeatable_field_value:
  assumes "resolve_repeatable_field uuid5 a dv f facts = Inr ds" and "d \<in> set ds"
    and "es_effective_value d = Some v"
  shows "\<exists>vs. set vs \<subseteq> assigned_values facts \<and> v = list_value vs"
proof -
  from map_res_set [OF assms(1) [unfolded resolve_repeatable_field_def] assms(2)] run_scope
  obtain items where "set items \<subseteq> set facts" and r: "resolve_repeatable_scope uuid5 a dv f items = Inr d"
    by fastforce
  from repeatable_scope_value [OF r assms(3)] obtain vs where "set vs \<subseteq> assigned_values items" "v = list_value vs"
    by blast
  with assigned_mono [OF \<open>set items \<subseteq> set facts\<close>] show ?thesis by (intro exI [of _ vs]) auto
qed

lemma resolve_field_value:
  assumes "resolve_field uuid5 a dv B (f, cs) = Inr ds" and "d \<in> set ds" and "es_effective_value d = Some v"
  shows "\<exists>policy. get_field_policy f = Inr policy \<and> value_origin (fp_cardinality policy) cs v"
proof -
  from assms(1) obtain policy where policy: "get_field_policy f = Inr policy" by (auto simp: resolve_field_def)
  have none: False if "filter (\<lambda>c. cl_id c \<in> B) cs \<noteq> []"
    using that assms policy blocked_no_value by (force simp: resolve_field_def Let_def)
  show ?thesis
  proof (cases "fp_cardinality policy = SCALAR")
    case True
    with assms none policy have "resolve_scalar_field uuid5 a dv f cs = Inr ds"
      by (auto simp: resolve_field_def Let_def split: if_splits)
    from scalar_field_value [OF this assms(2,3)] True policy show ?thesis by (simp add: value_origin_def)
  next
    case False
    with assms none policy have "resolve_repeatable_field uuid5 a dv f cs = Inr ds"
      by (auto simp: resolve_field_def Let_def split: if_splits)
    from repeatable_field_value [OF this assms(2,3)] False policy show ?thesis by (simp add: value_origin_def)
  qed
qed

text \<open>The value of a draft, traced to the classified facts of its field.\<close>

lemma draft_value_origin:
  assumes "resolve_security_facts uuid5 a dv operations facts = Inr ds" and "d \<in> set ds"
    and "es_effective_value d = Some v"
  shows "\<exists>policy cs. get_field_policy (es_field_id d) = Inr policy \<and> value_origin (fp_cardinality policy) cs v
    \<and> (\<forall>c \<in> set cs. cl_fact c \<in> set facts \<and> sf_field_id (cl_fact c) = es_field_id d
         \<and> classify (cl_fact c) (operations (cl_id c)) = Inr c)"
proof -
  let ?B = "set (blocked_dependency_ids facts)"
  from assms(1) obtain classified dss
    where c: "map_res (\<lambda>f. classify f (operations (sf_fact_id f))) facts = Inr classified"
      and r: "map_res (resolve_field uuid5 a dv ?B) (field_runs classified) = Inr dss"
      and ds: "set ds = set (concat dss)"
    by (auto simp: resolve_security_facts_def field_runs_def Let_def)
  from assms(2) ds obtain fds where fds: "fds \<in> set dss" "d \<in> set fds" by auto
  from map_res_set [OF r fds(1)] obtain f cs where run: "(f, cs) \<in> set (field_runs classified)"
    and field: "resolve_field uuid5 a dv ?B (f, cs) = Inr fds" by auto
  have facts: "cl_fact x \<in> set facts \<and> classify (cl_fact x) (operations (cl_id x)) = Inr x"
      "validate_scope (cl_scope x) = Inr ()"
    if "x \<in> set classified" for x
    using map_res_set [OF c that] classify_Inr scope_from_dict_valid by metis+
  then have "\<forall>c \<in> set cs. validate_scope (cl_scope c) = Inr ()" using field_runs_facts [OF run] by blast
  with resolve_field_drafts [OF field] fds(2) have "es_field_id d = f"
    by (auto simp: list_all_iff field_draft_ok_def)
  with resolve_field_value [OF field fds(2) assms(3)] facts(1) field_runs_facts [OF run] show ?thesis
    by blast
qed

section \<open>Values have the type of their field\<close>

definition typed_for :: "canonical_field \<Rightarrow> typed_value \<Rightarrow> bool" where
  "typed_for field v \<longleftrightarrow> tv_type v \<in> cf_expected_types field \<and> typed_value_valid (tv_type v) (tv_val v)"

definition typed_state :: "canonical_field \<Rightarrow> typed_value \<Rightarrow> bool" where
  "typed_state field v \<longleftrightarrow>
     (if cf_repeatable field then \<exists>vs. list_all (typed_for field) vs \<and> v = list_value vs else typed_for field v)"

lemma classify_value:
  "classify f (Some op) = Inr c \<Longrightarrow> typed_value_from_dict (sf_value f) = Inr (cl_value c) \<and> cl_operation c = op"
  by (cases "sf_evidence_refs f") (auto simp: classify_def)

lemma validated_audit:
  assumes "validate_resolver_facts lib db audit_id organization_id facts = Inr a"
  obtains pinned where "find_audit audit_id organization_id db = Some a"
    and "check_boundary lib db organization_id a = Inr pinned"
    and "\<forall>f \<in> set facts. check_fact lib db a pinned f = Inr ()"
  using assms by (auto simp: validate_resolver_facts_def split: option.splits)

lemma check_fact_typed:
  assumes "check_fact lib db a pinned f = Inr ()" and "typed_value_from_dict (sf_value f) = Inr v"
    and "operation_policy lib db a f = Inr p" and "mp_operation p = ASSIGN"
  shows "\<exists>field. get_field (sf_field_id f) = Inr field \<and> typed_for field v"
proof -
  from assms have "validate_field_value_scope (sf_field_id f) v s = Inr field"
    if "scope_from_dict (sf_scope f) = Inr s" "validate_field_value_scope (sf_field_id f) v s = Inr field" for s field
    using that by simp
  from assms obtain s field where "validate_field_value_scope (sf_field_id f) v s = Inr field"
    by (auto simp: check_fact_def split: if_splits)
  then show ?thesis
    by (auto simp: validate_field_value_scope_def validate_typed_value_def typed_for_def)
qed

definition operation_entries ::
  "effective_library \<Rightarrow> audit_store \<Rightarrow> audit \<Rightarrow> security_fact list \<Rightarrow> exc + (uuid \<times> fact_operation) list" where
  "operation_entries lib db a facts =
     map_res (\<lambda>f. and_then (operation_policy lib db a f) (\<lambda>p. Inr (sf_fact_id f, mp_operation p))) facts"

lemma operation_entry:
  assumes "operation_entries lib db a facts = Inr operations" and "distinct (map sf_fact_id facts)"
    and "f \<in> set facts"
  shows "\<exists>p. operation_policy lib db a f = Inr p \<and> map_of operations (sf_fact_id f) = Some (mp_operation p)"
proof -
  note run = assms(1) [unfolded operation_entries_def]
  have "map fst operations = map sf_fact_id facts" by (rule map_res_map_eq [OF run]) auto
  with assms(2) have d: "distinct (map fst operations)" by simp
  from map_res_set2 [OF run assms(3)] obtain p where "operation_policy lib db a f = Inr p"
    and "(sf_fact_id f, mp_operation p) \<in> set operations" by auto
  with d show ?thesis by auto
qed

lemma assigned_typed:
  assumes valid: "\<forall>f \<in> set facts. check_fact lib db a pinned f = Inr ()"
    and ops: "operation_entries lib db a facts = Inr operations" and ids: "distinct (map sf_fact_id facts)"
    and cs: "\<forall>c \<in> set cs. cl_fact c \<in> set facts \<and> sf_field_id (cl_fact c) = field_id
         \<and> classify (cl_fact c) (map_of operations (cl_id c)) = Inr c"
    and v: "v \<in> assigned_values cs"
  shows "\<exists>field. get_field field_id = Inr field \<and> typed_for field v"
proof -
  from v obtain c where c: "c \<in> set cs" "cl_operation c = ASSIGN" "v = cl_value c"
    by (auto simp: assigned_values_def)
  with cs have f: "cl_fact c \<in> set facts" "sf_field_id (cl_fact c) = field_id"
    and cl: "classify (cl_fact c) (map_of operations (cl_id c)) = Inr c" by auto
  from operation_entry [OF ops ids f(1)] obtain p where p: "operation_policy lib db a (cl_fact c) = Inr p"
    "map_of operations (cl_id c) = Some (mp_operation p)" by blast
  from classify_value [OF cl [unfolded p(2)]] c have "typed_value_from_dict (sf_value (cl_fact c)) = Inr v"
    "mp_operation p = ASSIGN" by simp_all
  from check_fact_typed [OF _ this(1) p(1) this(2)] valid f show ?thesis by blast
qed

text \<open>Every value that the resolution of validated facts gives has the type of its field.\<close>

lemma draft_typed:
  assumes valid: "\<forall>f \<in> set facts. check_fact lib db a pinned f = Inr ()"
    and ops: "operation_entries lib db a facts = Inr operations" and ids: "distinct (map sf_fact_id facts)"
    and ds: "resolve_security_facts uuid5 aid dv (map_of operations) facts = Inr ds" "d \<in> set ds"
    and v: "es_effective_value d = Some v"
  shows "\<exists>field. get_field (es_field_id d) = Inr field \<and> typed_state field v"
proof -
  from draft_value_origin [OF ds v] obtain policy cs where policy: "get_field_policy (es_field_id d) = Inr policy"
    and origin: "value_origin (fp_cardinality policy) cs v"
    and cs: "\<forall>c \<in> set cs. cl_fact c \<in> set facts \<and> sf_field_id (cl_fact c) = es_field_id d
         \<and> classify (cl_fact c) (map_of operations (cl_id c)) = Inr c" by blast
  from get_field_policy_field [OF policy] obtain field where field: "get_field (es_field_id d) = Inr field"
    and rep: "fp_cardinality policy = REPEATABLE \<longleftrightarrow> cf_repeatable field" by blast
  have typed: "typed_for field x" if "x \<in> assigned_values cs" for x
    using assigned_typed [OF valid ops ids cs that] field by auto
  have "fp_cardinality policy = SCALAR \<longleftrightarrow> \<not> cf_repeatable field"
    using rep by (cases "fp_cardinality policy") auto
  with origin typed have "typed_state field v"
    unfolding value_origin_def typed_state_def list_all_iff by (auto split: if_splits)
  with field show ?thesis by blast
qed

section \<open>What a resolution leaves in the store\<close>

definition draft_row :: "effective_state_draft \<Rightarrow> effective_state" where
  "draft_row d = state_row d (sc_type (es_scope d) @ ''::'' @ sc_key (es_scope d))"

lemma canonical_key: "canonical_scope_key s = Inr key \<Longrightarrow> key = sc_type s @ ''::'' @ sc_key s"
  by (auto simp: canonical_scope_key_def)

lemma persist_new:
  assumes "persist_effective_state lib organization_id d db = Inr (s, db')"
    and "\<forall>r \<in> set (db_states db). ef_audit_id r = es_audit_id d \<longrightarrow>
      (ef_field_id r, ef_scope_key r) \<noteq> (es_field_id d, ef_scope_key (draft_row d))"
  shows "s = draft_row d \<and> db' = db\<lparr>db_states := db_states db @ [draft_row d]\<rparr>"
proof -
  from assms(1) obtain key where k: "canonical_scope_key (es_scope d) = Inr key"
    and rest: "(case find (\<lambda>s. ef_audit_id s = es_audit_id d \<and> ef_field_id s = es_field_id d \<and> ef_scope_key s = key)
         (db_states db) of
       Some existing \<Rightarrow>
         and_then (require (ef_effective_state_id existing = es_effective_state_id d)
           (state_error ''EffectiveState uniqueness is inconsistent'')) (\<lambda>_. Inr (existing, db))
     | None \<Rightarrow>
         and_then (insert_row state_admitted (state_row d key) (db_states db)) (\<lambda>rows.
         Inr (state_row d key, db\<lparr>db_states := rows\<rparr>))) = Inr (s, db')"
    by (auto simp: persist_effective_state_def Let_def)
  from k have key: "key = sc_type (es_scope d) @ ''::'' @ sc_key (es_scope d)" by (rule canonical_key)
  have "find (\<lambda>s. ef_audit_id s = es_audit_id d \<and> ef_field_id s = es_field_id d \<and> ef_scope_key s = key)
      (db_states db) = None"
    using assms(2) key by (auto simp: find_None_iff draft_row_def state_row_def)
  with rest key show ?thesis by (auto simp: draft_row_def)
qed

text \<open>The type of a valid scope contains no colon, so a scope key determines the scope's type and key.\<close>

lemma valid_scope_type: "validate_scope s = Inr () \<Longrightarrow> CHR '':'' \<notin> set (sc_type s)"
  by (auto simp: validate_scope_def split: if_splits)

lemma row_key_inject:
  assumes "validate_scope (es_scope d) = Inr ()" and "validate_scope (es_scope e) = Inr ()"
    and "ef_scope_key (draft_row d) = ef_scope_key (draft_row e)"
  shows "draft_key d = draft_key e"
  using split_at_unique [of "sc_type (es_scope d)" "CHR '':''" "CHR '':'' # sc_key (es_scope d)"
      "sc_type (es_scope e)" "CHR '':'' # sc_key (es_scope e)"] assms valid_scope_type
  by (auto simp: draft_row_def state_row_def)

lemma persist_distinct:
  assumes "persist_drafts lib organization_id ds db = Inr (states, db')"
    and "distinct (map (\<lambda>d. (es_field_id d, ef_scope_key (draft_row d))) ds)"
    and "\<forall>d \<in> set ds. es_audit_id d = aid"
    and "\<forall>r \<in> set (db_states db). ef_audit_id r \<noteq> aid"
  shows "states = map draft_row ds \<and> db' = db\<lparr>db_states := db_states db @ map draft_row ds\<rparr>"
proof -
  let ?step = "\<lambda>d (states, db).
    and_then (persist_effective_state lib organization_id d db) (\<lambda>(s, db'). Inr (states @ [s], db'))"
  have "states = map draft_row done @ map draft_row ds
      \<and> db' = db\<lparr>db_states := db_states db @ map draft_row done @ map draft_row ds\<rparr>"
    if "fold_res ?step ds (map draft_row done, db\<lparr>db_states := db_states db @ map draft_row done\<rparr>) = Inr (states, db')"
      and "distinct (map (\<lambda>d. (es_field_id d, ef_scope_key (draft_row d))) (done @ ds))"
      and "\<forall>d \<in> set (done @ ds). es_audit_id d = aid"
    for "done"
    using that
  proof (induction ds arbitrary: "done")
    case (Cons d ds)
    let ?db = "db\<lparr>db_states := db_states db @ map draft_row done\<rparr>"
    from Cons.prems(1) obtain s db1 where p: "persist_effective_state lib organization_id d ?db = Inr (s, db1)"
      and rest: "fold_res ?step ds (map draft_row done @ [s], db1) = Inr (states, db')" by auto
    have "s = draft_row d \<and> db1 = ?db\<lparr>db_states := db_states ?db @ [draft_row d]\<rparr>"
    proof (rule persist_new [OF p], intro ballI impI notI)
      fix r assume r: "r \<in> set (db_states ?db)" "ef_audit_id r = es_audit_id d"
        and eq: "(ef_field_id r, ef_scope_key r) = (es_field_id d, ef_scope_key (draft_row d))"
      from r Cons.prems(3) assms(4) obtain e where "e \<in> set done" "r = draft_row e" by auto
      moreover have "ef_field_id (draft_row e) = es_field_id e" by (simp add: draft_row_def state_row_def)
      ultimately show False using eq Cons.prems(2) by force
    qed
    with rest have "fold_res ?step ds (map draft_row (done @ [d]),
        db\<lparr>db_states := db_states db @ map draft_row (done @ [d])\<rparr>) = Inr (states, db')" by simp
    from Cons.IH [OF this] Cons.prems(2,3) show ?case by simp
  qed auto
  from this [of "[]"] assms show ?thesis by (simp add: persist_drafts_def)
qed

text \<open>The drafts of a resolution of the audit, and the store that results.\<close>

lemma resolution_Inr:
  assumes "resolve_audit_effective_states lib audit_id organization_id db = Inr (states, db')"
  obtains a pinned operations drafts where "find_audit audit_id organization_id db = Some a"
    and "check_boundary lib db organization_id a = Inr pinned"
    and "\<forall>f \<in> set (audit_facts db audit_id). check_fact lib db a pinned f = Inr ()"
    and "operation_entries lib db a (audit_facts db audit_id) = Inr operations"
    and "resolve_security_facts (el_uuid5 lib) audit_id (au_device_id a) (map_of operations)
      (audit_facts db audit_id) = Inr drafts"
    and "states = map draft_row drafts"
    and "db' = db\<lparr>db_states := filter (\<lambda>s. ef_audit_id s \<noteq> audit_id) (db_states db) @ map draft_row drafts\<rparr>"
proof -
  let ?kept = "db\<lparr>db_states := filter (\<lambda>s. ef_audit_id s \<noteq> audit_id) (db_states db)\<rparr>"
  from assms obtain a operations drafts
    where valid: "validate_resolver_facts lib db audit_id organization_id (audit_facts db audit_id) = Inr a"
    and ops: "operation_entries lib db a (audit_facts db audit_id) = Inr operations"
    and ds: "resolve_security_facts (el_uuid5 lib) (au_audit_id a) (au_device_id a) (map_of operations)
      (audit_facts db audit_id) = Inr drafts"
    and persist: "persist_drafts lib organization_id drafts ?kept = Inr (states, db')"
    by (auto simp: resolve_audit_effective_states_def operation_entries_def Let_def)
  from valid obtain pinned where a: "find_audit audit_id organization_id db = Some a"
    and bound: "check_boundary lib db organization_id a = Inr pinned"
    and facts: "\<forall>f \<in> set (audit_facts db audit_id). check_fact lib db a pinned f = Inr ()"
    by (rule validated_audit)
  from a have id: "au_audit_id a = audit_id" by (auto simp: find_audit_def find_Some_iff)
  from ds obtain classified where drafts: "\<And>d. d \<in> set drafts \<Longrightarrow> \<exists>f cs fds. (f, cs) \<in> set (field_runs classified)
      \<and> d \<in> set fds \<and> set fds \<subseteq> set drafts
      \<and> resolve_field (el_uuid5 lib) (au_audit_id a) (au_device_id a)
          (set (blocked_dependency_ids (audit_facts db audit_id))) (f, cs) = Inr fds
      \<and> (\<forall>c \<in> set cs. validate_scope (cl_scope c) = Inr ())" by (rule call_draft_field) blast
  have ok: "es_audit_id d = audit_id \<and> validate_scope (es_scope d) = Inr ()" if "d \<in> set drafts" for d
    using drafts [OF that] resolve_field_drafts id by (fastforce simp: list_all_iff field_draft_ok_def draft_ok_def)
  have "distinct (map (\<lambda>d. (es_field_id d, ef_scope_key (draft_row d))) drafts)"
    using call_keys_distinct [OF ds] ok row_key_inject by (auto simp: distinct_map inj_on_def)
  from persist_distinct [OF persist this, of audit_id] ok
  have "states = map draft_row drafts"
    and "db' = db\<lparr>db_states := filter (\<lambda>s. ef_audit_id s \<noteq> audit_id) (db_states db) @ map draft_row drafts\<rparr>"
    by simp_all
  with a bound facts ops ds id that show ?thesis by simp
qed

text \<open>What a state of the store says: a value of the type of its field, or a reason.\<close>

definition row_typed :: "effective_state \<Rightarrow> bool" where
  "row_typed s \<longleftrightarrow>
     (case ef_resolution_status s of
        RESOLVED \<Rightarrow> \<exists>field v. get_field (ef_field_id s) = Inr field \<and> typed_state field v
          \<and> ef_effective_value s = Some (typed_value_to_dict v)
      | _ \<Rightarrow> ef_effective_value s = None \<and> ef_unresolved_reason s \<noteq> None)"

lemma draft_row_simps [simp]:
  "ef_field_id (draft_row d) = es_field_id d" "ef_audit_id (draft_row d) = es_audit_id d"
  "ef_device_id (draft_row d) = es_device_id d" "ef_resolution_status (draft_row d) = es_resolution_status d"
  "ef_effective_value (draft_row d) = map_option typed_value_to_dict (es_effective_value d)"
  "ef_unresolved_reason (draft_row d) = es_unresolved_reason d"
  "ef_source_fact_ids (draft_row d) = es_source_fact_ids d" "ef_scope (draft_row d) = es_scope d"
  by (simp_all add: draft_row_def state_row_def)

lemma draft_row_typed:
  assumes "status_consistent (es_resolution_status d) (es_effective_value d) (es_unresolved_reason d)"
    and "\<And>v. es_effective_value d = Some v \<Longrightarrow> \<exists>field. get_field (es_field_id d) = Inr field \<and> typed_state field v"
  shows "row_typed (draft_row d)"
  using assms by (cases "es_resolution_status d") (fastforce simp: row_typed_def status_consistent_def)+

lemma resolved_drafts:
  assumes "resolve_security_facts uuid5 a dv operations facts = Inr ds" and "d \<in> set ds"
  shows "draft_ok uuid5 d \<and> es_audit_id d = a \<and> es_device_id d = dv
    \<and> set (es_source_fact_ids d) \<subseteq> sf_fact_id ` set facts"
proof -
  from assms(1) obtain classified where facts: "map cl_fact classified = facts"
    and drafts: "\<And>d. d \<in> set ds \<Longrightarrow> \<exists>f cs fds. (f, cs) \<in> set (field_runs classified) \<and> d \<in> set fds \<and> set fds \<subseteq> set ds
        \<and> resolve_field uuid5 a dv (set (blocked_dependency_ids facts)) (f, cs) = Inr fds
        \<and> (\<forall>c \<in> set cs. validate_scope (cl_scope c) = Inr ())"
    by (rule call_draft_field) blast
  from drafts [OF assms(2)] obtain f cs fds where run: "(f, cs) \<in> set (field_runs classified)" and d: "d \<in> set fds"
    and r: "resolve_field uuid5 a dv (set (blocked_dependency_ids facts)) (f, cs) = Inr fds"
      "\<forall>c \<in> set cs. validate_scope (cl_scope c) = Inr ()" by blast
  from resolve_field_drafts [OF r] d have ok: "field_draft_ok uuid5 a dv f cs d" by (simp add: list_all_iff)
  have "cl_id ` set cs \<subseteq> sf_fact_id ` set facts" using run_fact_ids [OF facts run] by blast
  with ok show ?thesis unfolding field_draft_ok_def by blast
qed

section \<open>A retry changes nothing\<close>

lemma reads_no_states:
  "find_pack_version (db\<lparr>db_states := ss\<rparr>) = find_pack_version db"
  "find_mapping (db\<lparr>db_states := ss\<rparr>) = find_mapping db"
  "find_manifest_row (db\<lparr>db_states := ss\<rparr>) = find_manifest_row db"
  "get_snapshot_row i (db\<lparr>db_states := ss\<rparr>) = get_snapshot_row i db"
  "get_device_row i (db\<lparr>db_states := ss\<rparr>) = get_device_row i db"
  "find_audit i organization_id (db\<lparr>db_states := ss\<rparr>) = find_audit i organization_id db"
  by (auto simp: find_pack_version_def find_mapping_def find_manifest_row_def get_snapshot_row_def
      get_device_row_def find_audit_def fun_eq_iff)

lemma profile_for_states: "profile_for loads (db\<lparr>db_states := ss\<rparr>) = profile_for loads db"
  unfolding profile_for_def reads_no_states ..

lemma operation_policy_states [simp]:
  "operation_policy lib (db\<lparr>db_states := ss\<rparr>) a f = operation_policy lib db a f"
  unfolding operation_policy_def published_operation_def reads_no_states ..

lemma check_boundary_states [simp]:
  "check_boundary lib (db\<lparr>db_states := ss\<rparr>) organization_id a = check_boundary lib db organization_id a"
  unfolding check_boundary_def known_profile_def profile_for_states reads_no_states ..

lemma check_fact_states [simp]:
  "check_fact lib (db\<lparr>db_states := ss\<rparr>) a pinned = check_fact lib db a pinned"
  by (simp add: check_fact_def fun_eq_iff)

lemma resolve_states_irrelevant:
  assumes "filter (\<lambda>s. ef_audit_id s \<noteq> audit_id) ss = filter (\<lambda>s. ef_audit_id s \<noteq> audit_id) (db_states db)"
  shows "resolve_audit_effective_states lib audit_id organization_id (db\<lparr>db_states := ss\<rparr>)
    = resolve_audit_effective_states lib audit_id organization_id db"
  using assms
  unfolding resolve_audit_effective_states_def validate_resolver_facts_def audit_facts_def reads_no_states
    check_boundary_states check_fact_states
  by simp


end
