(* ===== verification/Runtime_Rules.thy ===== *)
theory Runtime_Rules
  imports Rule_Registry Runtime_Profiles
begin

text \<open>
  Rules that an administrator declares (\<open>compliance/runtime_rules.py\<close>): the parser of a payload,
  its validation against the profiles of the organization, publication, and the lookup of the
  rule that applies to a profile.
\<close>

definition runtime_rule_error :: "string \<Rightarrow> exc" where
  "runtime_rule_error m = Exc RuntimeRuleError (''Runtime rule '' @ m)"

definition rule_text :: "string \<Rightarrow> nat \<Rightarrow> pyval \<Rightarrow> exc + string" where
  "rule_text label limit v =
     (let s = (case v of PStr s \<Rightarrow> py_strip s | _ \<Rightarrow> []) in
      and_then (require (s \<noteq> [] \<and> length s \<le> limit) (runtime_rule_error (label @ '' is invalid''))) (\<lambda>_. Inr s))"

definition rule_id_char :: "char \<Rightarrow> bool" where
  "rule_id_char c = (is_alnum c \<or> c \<in> {CHR ''.'', CHR ''_'', CHR '':'', CHR ''-''})"

definition rule_identifier :: "string \<Rightarrow> bool" where
  "rule_identifier s = (case s of [] \<Rightarrow> False
     | c # cs \<Rightarrow> is_alpha c \<and> length cs \<le> 254 \<and> list_all rule_id_char cs)"

definition required_types :: "string \<Rightarrow> typed_value_type set" where
  "required_types operator =
     (if operator = ''equals'' then {TV_BOOLEAN, TV_INTEGER}
      else if operator = ''less_than_or_equal'' then {TV_DURATION}
      else if operator = ''enum_at_least'' then {TV_ENUM}
      else {TV_LIST})"

section \<open>The definition of a payload\<close>

definition rule_profiles :: "pyval \<Rightarrow> exc + string list" where
  "rule_profiles v =
     (case v of
        PList profiles \<Rightarrow>
          and_then (require (within 1 32 profiles) (runtime_rule_error ''definition is invalid'')) (\<lambda>_.
          and_then (require (list_all hashable profiles) type_error) (\<lambda>_.
          and_then (require (distinct profiles \<and> list_all (\<lambda>p. is_str p \<and> p \<noteq> PStr []) profiles)
            (runtime_rule_error ''definition is invalid'')) (\<lambda>_. Inr (map str_value profiles))))
      | _ \<Rightarrow> Inl (runtime_rule_error ''definition is invalid''))"

definition rule_operator :: "pyval \<Rightarrow> exc + string" where
  "rule_operator v =
     and_then (require (hashable v) type_error) (\<lambda>_.
     and_then (require (v \<in> PStr ` set SUPPORTED_OPERATORS) (runtime_rule_error ''definition is invalid'')) (\<lambda>_.
     Inr (str_value v)))"

definition rule_expected :: "string \<Rightarrow> json_object \<Rightarrow> exc + json_object" where
  "rule_expected operator payload =
     (let expected = py_get payload ''expected'' in
      if operator = ''equals'' \<or> operator = ''enum_at_least''
      then and_then (require (if operator = ''equals'' then is_int expected else is_str expected)
        (runtime_rule_error ''expected value is invalid'')) (\<lambda>_. Inr [(''expected'', expected)])
      else Inr [])"

text \<open>The parameter is stored as it was given, although its stripped text was checked.\<close>

definition rule_policy_parameter :: "string \<Rightarrow> json_object \<Rightarrow> exc + string option" where
  "rule_policy_parameter operator payload =
     (let parameter = py_get payload ''required_policy_parameter'' in
      if operator = ''less_than_or_equal'' \<or> operator = ''all_members_in_parameter_set''
      then and_then (rule_text ''policy parameter'' 255 parameter) (\<lambda>s.
        and_then (require (rule_identifier s) (runtime_rule_error ''policy parameter is invalid'')) (\<lambda>_.
        Inr (Some (str_value parameter))))
      else and_then (require (parameter = PNone) (runtime_rule_error ''policy parameter is invalid'')) (\<lambda>_. Inr None))"

definition rule_minimum :: "string \<Rightarrow> json_object \<Rightarrow> exc + json_object" where
  "rule_minimum operator payload =
     (let minimum = py_get payload ''minimum_exclusive'' in
      if minimum = PNone then Inr []
      else and_then (require (operator = ''less_than_or_equal'' \<and> \<not> is_bool minimum \<and> is_number minimum)
        (runtime_rule_error ''lower bound is invalid'')) (\<lambda>_. Inr [(''minimum_exclusive'', minimum)]))"

definition rule_order :: "string \<Rightarrow> json_object \<Rightarrow> exc + json_object" where
  "rule_order operator payload =
     (let order = py_get payload ''order''; malformed = runtime_rule_error ''enum order is invalid'' in
      if operator = ''enum_at_least''
      then (case order of
          PList items \<Rightarrow>
            and_then (require (2 \<le> length items) malformed) (\<lambda>_.
            and_then (require (list_all hashable items) type_error) (\<lambda>_.
            and_then (require (distinct items \<and> list_all (\<lambda>i. is_str i \<and> i \<noteq> PStr []) items
                \<and> py_get payload ''expected'' \<in> set items) malformed) (\<lambda>_.
            Inr [(''order'', order)])))
        | _ \<Rightarrow> Inl malformed)
      else and_then (require (order = PNone) malformed) (\<lambda>_. Inr []))"

definition rule_severity :: "json_object \<Rightarrow> exc + finding_severity" where
  "rule_severity payload =
     raise_from is_value_error (runtime_rule_error ''severity is invalid'')
       (and_then (rule_text ''severity'' 32 (py_get payload ''severity'')) (\<lambda>s.
        case severity_of_value s of None \<Rightarrow> Inl (Exc ValueError []) | Some v \<Rightarrow> Inr v))"

text \<open>The pack of one rule that \<open>RuleRegistry._validate\<close> is given.\<close>

definition single_rule_pack :: "rule_definition \<Rightarrow> string \<Rightarrow> rule_pack" where
  "single_rule_pack rule profile =
     \<lparr>rp_rule_pack_version_id = 0, rp_name = ''runtime'', rp_version = ''1'', rp_profile_version_id = profile,
      rp_rules = [rule], rp_schema_version = ''1.0.0''\<rparr>"

definition caught_by_definition :: "exc_class \<Rightarrow> bool" where
  "caught_by_definition c = (is_value_error c \<or> c = TypeError)"

definition runtime_definition :: "json_object \<Rightarrow> exc + rule_definition" where
  "runtime_definition payload =
     and_then (rule_text ''ID'' 255 (py_get payload ''rule_id'')) (\<lambda>rule_id.
     and_then (rule_text ''canonical field'' 255 (py_get payload ''canonical_field'')) (\<lambda>field.
     and_then (require (rule_identifier rule_id) (runtime_rule_error ''definition is invalid'')) (\<lambda>_.
     and_then (rule_profiles (py_get payload ''profile_version_ids'')) (\<lambda>profiles.
     case dict_get FIELD_REGISTRY field of
       None \<Rightarrow> Inl (runtime_rule_error ''definition is invalid'')
     | Some canonical \<Rightarrow>
         and_then (rule_operator (py_get payload ''operator'')) (\<lambda>operator.
         and_then (require (cf_expected_types canonical \<subseteq> required_types operator)
           (runtime_rule_error ''operator is incompatible with its canonical field'')) (\<lambda>_.
         and_then (rule_expected operator payload) (\<lambda>expected.
         and_then (rule_policy_parameter operator payload) (\<lambda>parameter.
         and_then (rule_minimum operator payload) (\<lambda>minimum.
         and_then (rule_order operator payload) (\<lambda>order.
         case or_default payload ''framework_references'' (PList []) of
           PList references \<Rightarrow>
             and_then (rule_severity payload) (\<lambda>severity.
             and_then (rule_text ''title'' 255 (py_get payload ''title'')) (\<lambda>title.
             and_then (rule_text ''description'' 2048 (or_default payload ''description'' (py_get payload ''title''))) (\<lambda>description.
             and_then (rule_text ''security domain'' 128 (py_get payload ''security_domain'')) (\<lambda>security_domain.
             let rule = \<lparr>rd_rule_id = rule_id, rd_title = title, rd_description = description,
                   rd_security_domain = security_domain, rd_severity = severity,
                   rd_severity_reason = ''Administrator-published runtime rule.'',
                   rd_applicability = [(''profile_version_ids'', PList (map PStr profiles))],
                   rd_required_effective_states = [field],
                   rd_condition = (''operator'', PStr operator) # expected
                     @ (case parameter of None \<Rightarrow> [] | Some p \<Rightarrow> [(''parameter'', PStr p)]) @ minimum @ order,
                   rd_required_policy_parameters = (case parameter of None \<Rightarrow> [] | Some p \<Rightarrow> [p]),
                   rd_framework_references = references\<rparr>
             in and_then (raise_from caught_by_definition (runtime_rule_error ''definition is invalid'')
                  (validate_rule_pack (single_rule_pack rule (hd profiles)))) (\<lambda>_. Inr rule)))))
         | _ \<Rightarrow> Inl (runtime_rule_error ''framework provenance is invalid''))))))))))) "

section \<open>Validation and publication\<close>

definition mapped_field :: "audit_store \<Rightarrow> uuid \<Rightarrow> string \<Rightarrow> string \<Rightarrow> bool" where
  "mapped_field db organization_id profile_version_id field_id =
     list_ex (\<lambda>m. mv_organization_id m = organization_id \<and> mv_status m = MS_PUBLISHED
         \<and> mv_target_field_id m = field_id
         \<and> (case py_get (mv_profile_applicability m) ''profile_version_ids'' of
              PList ids \<Rightarrow> PStr profile_version_id \<in> set ids | _ \<Rightarrow> False)) (db_mapping_versions db)"

definition built_in_profile_ids :: "string list" where
  "built_in_profile_ids = map pm_profile_version_id
     [CISCO_IOS_XE_17, FORTIOS_7, JUNIPER_JUNOS_18, ARISTA_EOS_4, GENERIC_CLI, GENERIC_XML, GENERIC_JSON]"

definition check_rule_profile ::
  "(string \<Rightarrow> exc + pyval) \<Rightarrow> audit_store \<Rightarrow> uuid \<Rightarrow> string \<Rightarrow> string \<Rightarrow> exc + unit" where
  "check_rule_profile json_loads db organization_id field profile_id =
     and_then (raise_from (\<lambda>c. c = RuntimeProfileError)
       (runtime_rule_error ''references an unavailable profile'')
       (profile_for json_loads db organization_id profile_id)) (\<lambda>found.
     case found of
       None \<Rightarrow> Inl (runtime_rule_error ''references an unavailable profile'')
     | Some profile \<Rightarrow>
         require (if profile_id \<in> set built_in_profile_ids
             then PStr field \<in> set (case py_get (pm_coverage_manifest profile) ''canonical_fields'' of
               PList names \<Rightarrow> names | _ \<Rightarrow> [])
             else mapped_field db organization_id profile_id field)
           (runtime_rule_error ''canonical field is unsupported''))"

definition rule_profile_ids :: "rule_definition \<Rightarrow> string list" where
  "rule_profile_ids rule = (case py_get (rd_applicability rule) ''profile_version_ids'' of
     PList ids \<Rightarrow> map str_value ids | _ \<Rightarrow> [])"

definition validate_runtime_rule ::
  "(string \<Rightarrow> exc + pyval) \<Rightarrow> audit_store \<Rightarrow> uuid \<Rightarrow> json_object \<Rightarrow> exc + rule_definition" where
  "validate_runtime_rule json_loads db organization_id payload =
     and_then (runtime_definition payload) (\<lambda>rule.
     and_then (each_res (check_rule_profile json_loads db organization_id (hd (rd_required_effective_states rule)))
       (rule_profile_ids rule)) (\<lambda>_. Inr rule))"

definition next_rule_version :: "audit_store \<Rightarrow> uuid \<Rightarrow> string \<Rightarrow> nat" where
  "next_rule_version db organization_id rule_id =
     Suc (fold max (map rv_version (filter (\<lambda>r. rv_organization_id r = organization_id \<and> rv_rule_id r = rule_id)
       (db_runtime_rules db))) 0)"

definition publish_runtime_rule ::
  "(string \<Rightarrow> exc + pyval) \<Rightarrow> (string \<Rightarrow> string) \<Rightarrow> uuid \<Rightarrow> int \<Rightarrow> audit_store \<Rightarrow> uuid \<Rightarrow> json_object
    \<Rightarrow> exc + runtime_rule_version \<times> audit_store" where
  "publish_runtime_rule json_loads sha256_hex new_id now db organization_id payload =
     and_then (validate_runtime_rule json_loads db organization_id payload) (\<lambda>rule.
     let row = \<lparr>rv_runtime_rule_version_id = new_id, rv_organization_id = organization_id,
           rv_rule_id = rd_rule_id rule,
           rv_version = next_rule_version db organization_id (rd_rule_id rule),
           rv_profile_version_ids = rule_profile_ids rule,
           rv_canonical_field = hd (rd_required_effective_states rule),
           rv_operator = py_get (rd_condition rule) ''operator'', rv_condition = rd_condition rule,
           rv_required_policy_parameters = rd_required_policy_parameters rule, rv_title = rd_title rule,
           rv_security_domain = rd_security_domain rule, rv_severity = rd_severity rule,
           rv_framework_references = rd_framework_references rule,
           rv_content_digest = sha256_hex (json_dump (PDict payload)), rv_status = ''published'',
           rv_published_at = now\<rparr>
     in Inr (row, db\<lparr>db_runtime_rules := db_runtime_rules db @ [row]\<rparr>))"

section \<open>The rule for a profile\<close>

definition rule_of_row :: "runtime_rule_version \<Rightarrow> rule_definition" where
  "rule_of_row row =
     \<lparr>rd_rule_id = rv_rule_id row, rd_title = rv_title row, rd_description = rv_title row,
      rd_security_domain = rv_security_domain row, rd_severity = rv_severity row,
      rd_severity_reason = ''Administrator-published runtime rule.'',
      rd_applicability = [(''profile_version_ids'', PList (map PStr (rv_profile_version_ids row)))],
      rd_required_effective_states = [rv_canonical_field row], rd_condition = rv_condition row,
      rd_required_policy_parameters = rv_required_policy_parameters row,
      rd_framework_references = rv_framework_references row\<rparr>"

definition published_rules :: "audit_store \<Rightarrow> uuid \<Rightarrow> string \<Rightarrow> string \<Rightarrow> runtime_rule_version list" where
  "published_rules db organization_id rule_id profile_version_id =
     filter (\<lambda>r. profile_version_id \<in> set (rv_profile_version_ids r))
       (rev (sort_key rv_version (filter (\<lambda>r. rv_organization_id r = organization_id \<and> rv_rule_id r = rule_id
         \<and> rv_status r = ''published'') (db_runtime_rules db))))"

definition runtime_rule_for ::
  "(string \<times> rule_pack option) list \<Rightarrow> audit_store \<Rightarrow> uuid \<Rightarrow> string \<Rightarrow> string \<Rightarrow> exc + rule_definition" where
  "runtime_rule_for rule_pack_by_profile db organization_id rule_id profile_version_id =
     (case published_rules db organization_id rule_id profile_version_id of
        row # _ \<Rightarrow> Inr (rule_of_row row)
      | [] \<Rightarrow>
          (let rules = (case dict_get rule_pack_by_profile profile_version_id of
               Some (Some pack) \<Rightarrow> rp_rules pack | _ \<Rightarrow> [])
           in case find (\<lambda>r. rd_rule_id r = rule_id) rules of
                None \<Rightarrow> Inl (runtime_rule_error ''evaluator is unavailable'')
              | Some rule \<Rightarrow> Inr rule))"

end
