(* ===== verification/Compliance_Totality.thy ===== *)
theory Compliance_Totality
  imports Compliance_Theorems Effective_Results Runtime_Rules
begin

text \<open>
  Rules meet states: a rule whose operator fits the type of its field, evaluated on states that the
  resolver produced, always gives a finding.  The built-in rules are such rules; of the rules that
  an administrator can declare, those over scalar fields are.
\<close>

section \<open>Rules that fit their field\<close>

definition text_types :: "typed_value_type set" where
  "text_types = {TV_IP_ADDRESS, TV_STRING}"

definition optional_number :: "pyval \<Rightarrow> bool" where
  "optional_number v = (v = PNone \<or> (\<not> is_bool v \<and> is_number v))"

definition named_parameter :: "rule_definition \<Rightarrow> bool" where
  "named_parameter rule =
     (case dict_get (rd_condition rule) ''parameter'' of
        Some (PStr p) \<Rightarrow> rd_required_policy_parameters rule = [p] | _ \<Rightarrow> False)"

definition operator_fits :: "string \<Rightarrow> rule_definition \<Rightarrow> canonical_field \<Rightarrow> bool" where
  "operator_fits operator rule field =
     (if operator = ''equals''
      then cf_expected_types field \<subseteq> {TV_BOOLEAN, TV_INTEGER} \<and> dict_get (rd_condition rule) ''expected'' \<noteq> None
        \<and> rd_required_policy_parameters rule = []
      else if operator = ''less_than_or_equal''
      then cf_expected_types field \<subseteq> {TV_DURATION} \<and> named_parameter rule
        \<and> optional_number (py_get (rd_condition rule) ''minimum_exclusive'')
      else if operator = ''enum_at_least''
      then cf_expected_types field \<subseteq> {TV_ENUM} \<and> rd_required_policy_parameters rule = []
      else if operator = ''non_empty''
      then cf_expected_types field \<subseteq> text_types \<and> rd_required_policy_parameters rule = []
      else operator = ''all_members_in_parameter_set'' \<and> cf_expected_types field \<subseteq> text_types \<and> named_parameter rule)"

definition is_collection_operator :: "string \<Rightarrow> bool" where
  "is_collection_operator operator = (operator = ''non_empty'' \<or> operator = ''all_members_in_parameter_set'')"

definition evaluable :: "rule_definition \<Rightarrow> bool" where
  "evaluable rule =
     (\<not> py_blank (rd_rule_id rule)
      \<and> (case (rd_required_effective_states rule, dict_get (rd_condition rule) ''operator'') of
           ([f], Some (PStr operator)) \<Rightarrow>
             (case dict_get FIELD_REGISTRY f of
                None \<Rightarrow> False
              | Some field \<Rightarrow> operator_fits operator rule field
                  \<and> cf_repeatable field = is_collection_operator operator)
         | _ \<Rightarrow> False))"

definition parameter_fits :: "string \<Rightarrow> pyval \<Rightarrow> bool" where
  "parameter_fits operator v =
     (if operator = ''less_than_or_equal'' then \<not> is_bool v \<and> is_number v
      else if operator = ''all_members_in_parameter_set''
      then (case v of PList items \<Rightarrow> list_all is_str items | _ \<Rightarrow> False)
      else True)"

definition policy_fits :: "organization_policy_version option \<Rightarrow> rule_definition \<Rightarrow> bool" where
  "policy_fits policy rule =
     (rule_parameter policy rule = PNone
      \<or> parameter_fits (str_value (py_get (rd_condition rule) ''operator'')) (rule_parameter policy rule))"

section \<open>Evaluating a fitting rule\<close>

lemma typed_dict_simps [simp]:
  "py_get (typed_value_to_dict v) ''type'' = PStr (tv_value (tv_type v))"
  "py_get (typed_value_to_dict v) ''value'' = tv_val v"
  by (simp_all add: py_get_def typed_value_to_dict_def dict_get_def)

lemma evaluate_equals_total:
  assumes "tv_type v \<in> {TV_BOOLEAN, TV_INTEGER}" and "dict_get condition ''expected'' \<noteq> None"
  shows "\<exists>r. evaluate_equals condition (PStr (tv_value (tv_type v))) c = Inr r"
  using assms by (auto simp: evaluate_equals_def item_def)

lemma evaluate_maximum_total:
  assumes "tv_type v = TV_DURATION" and "typed_value_valid (tv_type v) (tv_val v)"
    and "optional_number (py_get condition ''minimum_exclusive'')" and "\<not> is_bool p \<and> is_number p"
  shows "\<exists>r. evaluate_maximum condition (PStr (tv_value (tv_type v))) (tv_val v) p = Inr r"
  using assms by (auto simp: evaluate_maximum_def optional_number_def Let_def)

lemma evaluate_enum_class:
  "evaluate_enum condition t c = Inl e \<Longrightarrow> exc_class e = EvaluationError"
  by (auto simp: evaluate_enum_def evaluation_error_def Let_def split: pyval.splits if_splits)

lemma members_total:
  assumes "list_all (\<lambda>v. is_str (tv_val v)) vs"
  shows "\<exists>ms. map_res member_value (map (\<lambda>v. PDict (typed_value_to_dict v)) vs) = Inr ms"
  using assms
proof (induction vs)
  case (Cons v vs)
  then obtain s where "tv_val v = PStr s" by (cases "tv_val v") auto
  with Cons show ?case by auto
qed simp

lemma evaluate_collection_total:
  assumes "list_all (\<lambda>v. is_str (tv_val v)) vs"
    and "non_empty \<or> (\<exists>items. p = PList items \<and> list_all is_str items)"
  shows "\<exists>r. evaluate_collection non_empty (PStr ''list'') (PList (map (\<lambda>v. PDict (typed_value_to_dict v)) vs)) p = Inr r"
  using members_total [OF assms(1)] assms(2) by (cases non_empty) (auto simp: evaluate_collection_def)

lemma text_value: "typed_for field v \<Longrightarrow> cf_expected_types field \<subseteq> text_types \<Longrightarrow> is_str (tv_val v)"
  by (auto simp: typed_for_def text_types_def)

text \<open>The operator of an evaluable rule decides what it can raise.\<close>

lemma evaluable_cases:
  assumes "evaluable rule"
  obtains f field operator where "rd_required_effective_states rule = [f]"
    and "get_field f = Inr field" and "dict_get (rd_condition rule) ''operator'' = Some (PStr operator)"
    and "operator_fits operator rule field" and "cf_repeatable field = is_collection_operator operator"
    and "\<not> py_blank (rd_rule_id rule)"
  using assms
  by (auto simp: evaluable_def get_field_def split: list.splits option.splits pyval.splits)

lemma condition_cases:
  assumes "dict_get (rd_condition rule) ''operator'' = Some (PStr operator)"
  shows "evaluate_condition rule (Some (typed_value_to_dict v)) p =
    (if operator = ''equals'' then evaluate_equals (rd_condition rule) (PStr (tv_value (tv_type v))) (tv_val v)
     else if operator = ''less_than_or_equal''
     then evaluate_maximum (rd_condition rule) (PStr (tv_value (tv_type v))) (tv_val v) p
     else if operator = ''enum_at_least''
     then evaluate_enum (rd_condition rule) (PStr (tv_value (tv_type v))) (tv_val v)
     else if is_collection_operator operator
     then evaluate_collection (operator = ''non_empty'') (PStr (tv_value (tv_type v))) (tv_val v) p
     else Inl (evaluation_error ''Rule operator is unsupported''))"
  using assms by (simp add: evaluate_condition_def item_def is_collection_operator_def)

lemma collection_fits:
  "is_collection_operator operator \<Longrightarrow> operator_fits operator rule field \<Longrightarrow> cf_expected_types field \<subseteq> text_types"
  unfolding is_collection_operator_def by (elim disjE) (simp_all add: operator_fits_def)

lemma unparameterized_fits:
  assumes "operator_fits operator rule field" and "rd_required_policy_parameters rule = []"
  shows "parameter_fits operator x"
proof -
  have no: "\<not> named_parameter rule" using assms(2) by (auto simp: named_parameter_def split: option.splits pyval.splits)
  have "operator \<noteq> ''less_than_or_equal''" "operator \<noteq> ''all_members_in_parameter_set''"
    using assms(1) no by (fastforce simp: operator_fits_def)+
  then show ?thesis by (simp add: parameter_fits_def)
qed

lemma evaluable_result:
  assumes rule: "rd_required_effective_states rule = [f]" "get_field f = Inr field"
      "dict_get (rd_condition rule) ''operator'' = Some (PStr operator)"
      "operator_fits operator rule field" "cf_repeatable field = is_collection_operator operator"
    and v: "typed_state field v" and p: "parameter_fits operator p"
  shows "case evaluate_condition rule (Some (typed_value_to_dict v)) p of
      Inr r \<Rightarrow> True | Inl e \<Rightarrow> exc_class e = EvaluationError \<and> operator = ''enum_at_least''"
proof -
  note condition = condition_cases [OF rule(3), of v p]
  consider "operator = ''equals''" | "operator = ''less_than_or_equal''" | "operator = ''enum_at_least''"
    | "is_collection_operator operator"
    using rule(4) by (auto simp: operator_fits_def is_collection_operator_def split: if_splits)
  then show ?thesis
  proof cases
    case 1
    with rule(4,5) v have "tv_type v \<in> {TV_BOOLEAN, TV_INTEGER}"
      and "dict_get (rd_condition rule) ''expected'' \<noteq> None"
      by (auto simp: operator_fits_def is_collection_operator_def typed_state_def typed_for_def)
    from evaluate_equals_total [OF this] obtain r
      where "evaluate_equals (rd_condition rule) (PStr (tv_value (tv_type v))) (tv_val v) = Inr r" by blast
    with 1 condition show ?thesis by simp
  next
    case 2
    with rule(4,5) v p have "tv_type v = TV_DURATION" "typed_value_valid (tv_type v) (tv_val v)"
      "optional_number (py_get (rd_condition rule) ''minimum_exclusive'')" "\<not> is_bool p \<and> is_number p"
      by (auto simp: operator_fits_def is_collection_operator_def typed_state_def typed_for_def parameter_fits_def)
    from evaluate_maximum_total [OF this] obtain r
      where "evaluate_maximum (rd_condition rule) (PStr (tv_value (tv_type v))) (tv_val v) p = Inr r" by blast
    with 2 condition show ?thesis by simp
  next
    case 3
    with condition show ?thesis by (auto dest: evaluate_enum_class split: sum.splits)
  next
    case 4
    with rule(5) v obtain vs where v: "v = list_value vs" and typed: "list_all (typed_for field) vs"
      by (auto simp: typed_state_def)
    from 4 rule(4) have "cf_expected_types field \<subseteq> text_types"
      by (elim collection_fits)
    with typed have strings: "list_all (\<lambda>v. is_str (tv_val v)) vs"
      using text_value by (auto simp: list_all_iff)
    have "operator = ''non_empty'' \<or> (\<exists>items. p = PList items \<and> list_all is_str items)"
      using 4 p by (auto simp: is_collection_operator_def parameter_fits_def split: pyval.splits)
    from evaluate_collection_total [OF strings this] obtain r where
      r: "evaluate_collection (operator = ''non_empty'') (PStr ''list'') (tv_val v) p = Inr r"
      by (auto simp: v list_value_def)
    have "evaluate_condition rule (Some (typed_value_to_dict v)) p
        = evaluate_collection (operator = ''non_empty'') (PStr (tv_value (tv_type v))) (tv_val v) p"
      using 4 unfolding condition is_collection_operator_def by (elim disjE) simp_all
    also have "\<dots> = Inr r" using r by (simp add: v list_value_def)
    finally show ?thesis by simp
  qed
qed

section \<open>Findings are always drafted\<close>

lemma draft_total:
  assumes "au_audit_id a \<noteq> 0" and "\<not> py_blank (rd_rule_id rule)" and "dict_get (rd_condition rule) ''operator'' \<noteq> None"
    and "verdict = VD_UNKNOWN \<longrightarrow> reason \<noteq> None"
  shows "\<exists>d. draft_finding uuid5 rule pack a verdict scope states observed expected reason refs = Inr d
    \<and> reported d = (rd_rule_id rule, scope, verdict)"
proof -
  have "\<exists>t. explanation verdict rule observed reason = Inr t"
    using assms(3,4) by (auto simp: explanation_def item_def split: finding_verdict.splits option.splits)
  with assms(1,2) show ?thesis
    by (auto simp: draft_finding_def deterministic_finding_id_def comparison_key_def reported_def)
qed

lemma expected_total:
  "dict_get (rd_condition rule) ''operator'' \<noteq> None \<Longrightarrow> \<exists>e. expected_of rule p = Inr e"
  by (auto simp: expected_of_def item_def Let_def)

definition evidence_lists :: "(uuid \<times> pyval) list \<Rightarrow> bool" where
  "evidence_lists evidence = list_all (\<lambda>(_, refs). is_list refs) evidence"

lemma evidence_total:
  assumes "evidence_lists evidence"
  shows "\<exists>refs. state_evidence evidence s = Inr refs"
proof -
  let ?refs = "\<lambda>i. case dict_get evidence i of None \<Rightarrow> Inr [] | Some refs \<Rightarrow> py_iter refs"
  have one: "\<exists>rs. ?refs i = Inr rs" for i
  proof (cases "dict_get evidence i")
    case (Some refs)
    then have "is_list refs" using assms dict_get_in by (fastforce simp: evidence_lists_def list_all_iff)
    with Some show ?thesis by (cases refs) auto
  qed simp
  have "\<exists>rs. map_res ?refs ids = Inr rs" for ids
    using one by (induction ids) (simp, fastforce)
  then show ?thesis by (auto simp: state_evidence_def)
qed

text \<open>What the lemmas below share: an evaluable rule of an audit whose evidence is in lists.\<close>

definition evaluation_ready :: "audit \<Rightarrow> (uuid \<times> pyval) list \<Rightarrow> rule_definition \<Rightarrow> bool" where
  "evaluation_ready a evidence rule \<longleftrightarrow>
     au_audit_id a \<noteq> 0 \<and> evidence_lists evidence \<and> \<not> py_blank (rd_rule_id rule)
     \<and> dict_get (rd_condition rule) ''operator'' \<noteq> None"

lemma ready_draft:
  assumes "evaluation_ready a evidence rule" and "verdict = VD_UNKNOWN \<longrightarrow> reason \<noteq> None"
  shows "\<exists>d. draft_finding uuid5 rule pack a verdict scope states observed expected reason refs = Inr d
    \<and> fd_verdict d = verdict \<and> fd_rule_id d = rd_rule_id rule"
  using draft_total [of a rule verdict reason uuid5 pack scope states observed expected refs] assms
  by (auto simp: evaluation_ready_def reported_def)

lemma ready_evidence:
  assumes "evaluation_ready a evidence rule"
  obtains refs where "state_evidence evidence s = Inr refs"
  using evidence_total assms by (auto simp: evaluation_ready_def)

lemma ready_expected:
  assumes "evaluation_ready a evidence rule"
  obtains e where "expected_of rule p = Inr e"
  using expected_total assms by (auto simp: evaluation_ready_def)

text \<open>A condition that can be evaluated passes or fails.\<close>

definition decides :: "exc + finding_verdict \<Rightarrow> bool" where
  "decides r = (case r of Inr v \<Rightarrow> v \<in> {VD_PASS, VD_FAIL} | Inl _ \<Rightarrow> True)"

lemma decides_Inl [intro]: "decides (Inl e)" by (simp add: decides_def)

lemma decides_verdict [intro]: "decides (Inr (verdict_of b))" by (simp add: decides_def verdict_of_def)

lemma decides_if [intro]: "decides r \<Longrightarrow> decides s \<Longrightarrow> decides (if c then r else s)" by simp

lemma decides_then [intro]: "(\<And>x. decides (k x)) \<Longrightarrow> decides (and_then m k)"
  by (cases m) (auto simp: decides_def)

lemma decides_condition: "decides (evaluate_condition rule observed p)"
proof -
  have "decides (evaluate_equals condition t c)" and "decides (evaluate_maximum condition t c p)" for condition t c
    unfolding evaluate_equals_def evaluate_maximum_def Let_def by (intro decides_then decides_verdict)+
  moreover have "decides (evaluate_enum condition t c)" for condition t c
    unfolding evaluate_enum_def Let_def by (cases "py_get condition ''order''") auto
  moreover have "decides (evaluate_collection non_empty t c p)" for non_empty t c
  proof (cases c)
    case (PList items)
    then show ?thesis unfolding evaluate_collection_def
      by (cases p) (simp_all, (intro conjI impI decides_then decides_if decides_verdict decides_Inl | simp)+)
  qed (auto simp: evaluate_collection_def)
  ultimately show ?thesis
    unfolding evaluate_condition_def Let_def by (intro decides_then) (auto split: option.split)
qed

lemma evaluated_verdict: "evaluate_condition rule observed p = Inr verdict \<Longrightarrow> verdict \<in> {VD_PASS, VD_FAIL}"
  using decides_condition [of rule observed p] by (simp add: decides_def)

lemma evaluate_state_total:
  assumes ready: "evaluation_ready a evidence rule"
    and verdict: "evaluate_condition rule (ef_effective_value s) p = Inr verdict"
  shows "\<exists>d. evaluate_state uuid5 pack a evidence blockers rule s p = Inr d \<and> fd_verdict d \<noteq> VD_PROCESS_ERROR"
proof -
  obtain refs where refs: "state_evidence evidence s = Inr refs" using ready by (rule ready_evidence)
  obtain e where e: "expected_of rule p = Inr e" using ready by (rule ready_expected)
  show ?thesis
  proof (cases "verdict = VD_PASS \<and> blockers \<noteq> []")
    case True
    have "VD_UNKNOWN = VD_UNKNOWN \<longrightarrow> Some UR_UNSUPPORTED_FEATURE \<noteq> None" by simp
    from ready_draft [OF ready this] obtain d
      where "draft_finding uuid5 rule pack a VD_UNKNOWN (Some (ef_scope s)) [s] (ef_effective_value s)
        (Some e) (Some UR_UNSUPPORTED_FEATURE) (dicts_of (concat (map ub_evidence_refs blockers))) = Inr d"
      and "fd_verdict d = VD_UNKNOWN" by blast
    with True verdict e show ?thesis by (auto simp: evaluate_state_def)
  next
    case False
    from evaluated_verdict [OF verdict] have known: "verdict = VD_UNKNOWN \<longrightarrow> None \<noteq> None" "verdict \<noteq> VD_PROCESS_ERROR"
      by auto
    from ready_draft [OF ready known(1)] obtain d
      where "draft_finding uuid5 rule pack a verdict (Some (ef_scope s)) [s] (ef_effective_value s)
        (Some e) None refs = Inr d"
      and "fd_verdict d = verdict" by blast
    with False verdict e refs known show ?thesis by (auto simp: evaluate_state_def)
  qed
qed

lemma unresolved_state_total:
  assumes ready: "evaluation_ready a evidence rule" and s: "row_typed s" "ef_resolution_status s \<noteq> RESOLVED"
  shows "\<exists>d. state_finding uuid5 pack policy a evidence blockers rule s = Inr d \<and> fd_verdict d \<noteq> VD_PROCESS_ERROR"
proof -
  let ?reason = "if ef_resolution_status s = CONFLICTING then Some UR_CONFLICTING_EVIDENCE else ef_unresolved_reason s"
  obtain refs where refs: "state_evidence evidence s = Inr refs" using ready by (rule ready_evidence)
  have "VD_UNKNOWN = VD_UNKNOWN \<longrightarrow> ?reason \<noteq> None"
    using s by (auto simp: row_typed_def split: resolution_status.splits)
  from ready_draft [OF ready this] obtain d
    where "draft_finding uuid5 rule pack a VD_UNKNOWN (Some (ef_scope s)) [s] None None ?reason refs = Inr d"
    and "fd_verdict d = VD_UNKNOWN" by blast
  with s(2) refs show ?thesis by (auto simp: state_finding_def)
qed

lemma resolved_parameter:
  assumes "operator_fits operator rule field"
  shows "(if rd_required_policy_parameters rule = [] then Inr PNone
    else resolve_parameter policy (case dict_get (rd_condition rule) ''parameter'' of
      None \<Rightarrow> PStr [] | Some p \<Rightarrow> p)) = Inr (rule_parameter policy rule)"
proof (cases "rd_required_policy_parameters rule = []")
  case False
  with assms have "named_parameter rule" by (simp add: operator_fits_def split: if_splits)
  then obtain p where "dict_get (rd_condition rule) ''parameter'' = Some (PStr p)"
    by (auto simp: named_parameter_def split: option.splits pyval.splits)
  with False show ?thesis by (cases policy) (auto simp: rule_parameter_def split: list.splits)
qed (simp add: rule_parameter_def)

lemma state_finding_total:
  assumes a: "au_audit_id a \<noteq> 0" and rule: "evaluable rule" and policy: "policy_fits policy rule"
    and evidence: "evidence_lists evidence"
    and s: "row_typed s" "[ef_field_id s] = rd_required_effective_states rule"
  shows "\<exists>d. state_finding uuid5 pack policy a evidence blockers rule s = Inr d
    \<and> (fd_verdict d = VD_PROCESS_ERROR \<longrightarrow> py_get (rd_condition rule) ''operator'' = PStr ''enum_at_least'')"
proof (cases "ef_resolution_status s = RESOLVED")
  case resolved: True
  from rule obtain f field operator where r: "rd_required_effective_states rule = [f]"
      "get_field f = Inr field" "dict_get (rd_condition rule) ''operator'' = Some (PStr operator)"
      "operator_fits operator rule field" "cf_repeatable field = is_collection_operator operator"
      "\<not> py_blank (rd_rule_id rule)" by (rule evaluable_cases)
  have operator: "py_get (rd_condition rule) ''operator'' = PStr operator" using r(3) by (simp add: py_get_def)
  have ready: "evaluation_ready a evidence rule" using a evidence r by (simp add: evaluation_ready_def)
  obtain refs where refs: "state_evidence evidence s = Inr refs" using ready by (rule ready_evidence)
  let ?p = "rule_parameter policy rule"
  note start = state_finding_def [of uuid5 pack policy a evidence blockers rule s,
      unfolded resolved_parameter [OF r(4), of policy]]
  show ?thesis
  proof (cases "rd_required_policy_parameters rule \<noteq> [] \<and> ?p = PNone")
    case True
    obtain e where e: "expected_of rule PNone = Inr e" using ready by (rule ready_expected)
    have "VD_MANUAL_REVIEW = VD_UNKNOWN \<longrightarrow> None \<noteq> None" by simp
    from ready_draft [OF ready this] obtain d
      where "draft_finding uuid5 rule pack a VD_MANUAL_REVIEW (Some (ef_scope s)) [s] (ef_effective_value s)
        (Some e) None refs = Inr d" and "fd_verdict d = VD_MANUAL_REVIEW" by blast
    with True resolved refs e show ?thesis by (auto simp: start)
  next
    case False
    from s r resolved obtain v where v: "ef_effective_value s = Some (typed_value_to_dict v)" "typed_state field v"
      by (auto simp: row_typed_def)
    have fits: "parameter_fits operator ?p"
      using False policy operator unparameterized_fits [OF r(4)] by (auto simp: policy_fits_def)
    note result = evaluable_result [OF r(1-5) v(2) fits]
    have body: "state_finding uuid5 pack policy a evidence blockers rule s =
        (case evaluate_state uuid5 pack a evidence blockers rule s ?p of
            Inr d \<Rightarrow> Inr d
          | Inl e \<Rightarrow> if is_evaluation_error (exc_class e)
              then and_then (state_evidence evidence s) (\<lambda>refs.
                draft_finding uuid5 rule pack a VD_PROCESS_ERROR (Some (ef_scope s)) [s]
                  (ef_effective_value s) None None refs)
              else Inl e)"
      using resolved False by (auto simp: start)
    show ?thesis
    proof (cases "evaluate_condition rule (ef_effective_value s) ?p")
      case (Inl e)
      have "VD_PROCESS_ERROR = VD_UNKNOWN \<longrightarrow> None \<noteq> None" by simp
      from ready_draft [OF ready this] obtain d
        where "draft_finding uuid5 rule pack a VD_PROCESS_ERROR (Some (ef_scope s)) [s] (ef_effective_value s)
        None None refs = Inr d" by blast
      with Inl result v(1) body refs operator show ?thesis
        by (auto simp: evaluate_state_def is_evaluation_error_def)
    next
      case (Inr verdict)
      from evaluate_state_total [OF ready Inr] obtain d
        where "evaluate_state uuid5 pack a evidence blockers rule s ?p = Inr d" "fd_verdict d \<noteq> VD_PROCESS_ERROR"
        by blast
      with body show ?thesis by simp
    qed
  qed
next
  case False
  from rule a evidence have "evaluation_ready a evidence rule"
    by (auto simp: evaluation_ready_def elim: evaluable_cases)
  from unresolved_state_total [OF this s(1) False] show ?thesis by blast
qed

section \<open>The built-in rules fit their fields\<close>

lemma starts_nonblank: "\<not> py_space c \<Longrightarrow> \<not> py_blank (c # s)"
  by (simp add: py_blank_iff)

lemma optional_condition [simp]:
  "dict_get (optional_entry k v @ d) k' = (if k = k' \<and> v \<noteq> PNone then Some v else dict_get d k')"
  "dict_get (optional_entry k v) k' = (if k = k' \<and> v \<noteq> PNone then Some v else None)"
  by (simp_all add: optional_entry_def dict_get_def)

lemma RULES_evaluable: "list_all evaluable RULES"
proof -
  have letters: "\<not> py_space (CHR ''m'')" "\<not> py_space (CHR ''l'')" "\<not> py_space (CHR ''t'')"
    by code_simp+
  have field: "dict_get ((k, v) # d) k' = (if k = k' then Some v else dict_get d k')" for k v d and k' :: string
    by (simp add: dict_get_def)
  have none: "dict_get [] k = None" for k :: string by (simp add: dict_get_def)
  show ?thesis
    unfolding RULES_def BASE_RULES_def
    by (simp add: evaluable_def make_rule_def operator_fits_def named_parameter_def is_collection_operator_def
        optional_number_def text_types_def field_entries field none py_get_def starts_nonblank letters)
qed

lemma RULES_enum:
  "list_all (\<lambda>r. if py_get (rd_condition r) ''operator'' = PStr ''enum_at_least''
     then rd_rule_id r = ''management.tls.minimum_1_2'' else True) RULES"
  by code_simp

lemma operator_fits_applicability:
  "operator_fits operator (rd_applicability_update f r) field = operator_fits operator r field"
proof -
  have "named_parameter (rd_applicability_update f r) = named_parameter r"
    by (auto simp: named_parameter_def split: option.split pyval.split)
  then show ?thesis by (simp add: operator_fits_def)
qed

lemma evaluable_applicability [simp]: "evaluable (rd_applicability_update f r) = evaluable r"
  unfolding evaluable_def operator_fits_applicability by simp

lemma built_in_rule_sets:
  "pack \<in> set (built_in_rule_packs uuid5) \<Longrightarrow>
     \<exists>p. rp_rules pack \<in> {BASE_RULES, RULES, rules_for p BASE_RULES, rules_for p RULES}"
  unfolding built_in_rule_packs_def RULE_PACK_V1_def RULE_PACK_def FORTIOS_RULE_PACK_V1_def
    FORTIOS_RULE_PACK_def JUNOS_RULE_PACK_V1_def JUNOS_RULE_PACK_def ARISTA_RULE_PACK_V1_def ARISTA_RULE_PACK_def
    GENERIC_RULE_PACK_V1_def GENERIC_RULE_PACK_def GENERIC_XML_RULE_PACK_def GENERIC_JSON_RULE_PACK_def
  by (simp add: built_in_pack_def) (elim disjE; simp; blast)

lemma built_in_rules:
  assumes "pack \<in> set (built_in_rule_packs uuid5)" and "rule \<in> set (rp_rules pack)"
  shows "\<exists>r \<in> set RULES. rule = r \<or> (\<exists>f. rule = rd_applicability_update f r)"
proof -
  have "set BASE_RULES \<subseteq> set RULES" unfolding RULES_def set_append by (rule Un_upper1)
  moreover from built_in_rule_sets [OF assms(1)] obtain p
    where "rp_rules pack \<in> {BASE_RULES, RULES, rules_for p BASE_RULES, rules_for p RULES}" by blast
  ultimately have "\<exists>r \<in> set RULES. rule = r
      \<or> rule = rd_applicability_update (\<lambda>_. [(''profile_version_id'', PStr p)]) r"
    using assms(2) unfolding rules_for_def by (elim insertE emptyE) auto
  then show ?thesis by blast
qed

lemma built_in_evaluable:
  assumes "pack \<in> set (built_in_rule_packs uuid5)" and "rule \<in> set (rp_rules pack)"
  shows "evaluable rule \<and> (py_get (rd_condition rule) ''operator'' = PStr ''enum_at_least''
    \<longrightarrow> rd_rule_id rule = ''management.tls.minimum_1_2'')"
proof -
  from built_in_rules [OF assms] obtain r where r: "r \<in> set RULES"
    and eq: "rule = r \<or> (\<exists>f. rule = rd_applicability_update f r)" by blast
  from eq have "evaluable rule = evaluable r" "rd_condition rule = rd_condition r" "rd_rule_id rule = rd_rule_id r"
    by auto
  with r RULES_evaluable RULES_enum show ?thesis by (auto simp: list_all_iff)
qed

section \<open>An audit is always evaluated\<close>

lemma facts_evidence:
  "(i, refs) \<in> set (facts_of_states db audit_id states) \<Longrightarrow>
     \<exists>f \<in> set (audit_facts db audit_id). refs = sf_evidence_refs f"
proof -
  have "(i, refs) \<in> set (foldl (\<lambda>d f. dict_put (sf_fact_id f) (sf_evidence_refs f) d) d fs) \<Longrightarrow>
      (i, refs) \<in> set d \<or> (\<exists>f \<in> set fs. refs = sf_evidence_refs f)" for d fs
  proof (induction fs arbitrary: d)
    case (Cons f fs)
    have "(i, refs) \<in> set (dict_put k v d) \<Longrightarrow> (i, refs) \<in> set d \<or> refs = v" for k v
      by (induction d) (auto split: if_splits)
    with Cons show ?case by force
  qed simp
  then show "(i, refs) \<in> set (facts_of_states db audit_id states) \<Longrightarrow> ?thesis"
    unfolding facts_of_states_def Let_def by (fastforce simp: audit_facts_def)
qed

lemma resolved_evidence:
  assumes "resolve_security_facts uuid5 a dv operations facts = Inr ds" and "f \<in> set facts"
  shows "is_list (sf_evidence_refs f)"
proof -
  from assms(1) obtain cs where "map_res (\<lambda>f. classify f (operations (sf_fact_id f))) facts = Inr cs"
    by (auto simp: resolve_security_facts_def Let_def)
  from map_res_set2 [OF this assms(2)] show ?thesis by (cases "sf_evidence_refs f") (auto simp: classify_def)
qed

lemma map_res_total: "(\<And>x. x \<in> set xs \<Longrightarrow> \<exists>y. f x = Inr y \<and> P y) \<Longrightarrow> \<exists>ys. map_res f xs = Inr ys \<and> list_all P ys"
proof (induction xs)
  case (Cons x xs)
  from Cons.prems [of x] obtain y where "f x = Inr y" "P y" by auto
  moreover from Cons obtain ys where "map_res f xs = Inr ys" "list_all P ys" by fastforce
  ultimately show ?case by simp
qed simp

definition sound_finding :: "rule_definition \<Rightarrow> finding_draft \<Rightarrow> bool" where
  "sound_finding rule d \<longleftrightarrow> fd_rule_id d = rd_rule_id rule
     \<and> (fd_verdict d = VD_PROCESS_ERROR \<longrightarrow> py_get (rd_condition rule) ''operator'' = PStr ''enum_at_least'')"

lemma rule_findings_total:
  assumes a: "au_audit_id a \<noteq> 0" and rule: "evaluable rule" and policy: "policy_fits policy rule"
    and evidence: "evidence_lists evidence" and states: "list_all row_typed states"
  shows "\<exists>ds. rule_findings uuid5 pack policy a (group_dict ef_field_id states) evidence by_rule rule = Inr ds
    \<and> list_all (sound_finding rule) ds"
proof -
  from rule obtain f where f: "rd_required_effective_states rule = [f]" by (rule evaluable_cases)
  from rule a evidence have ready: "evaluation_ready a evidence rule"
    by (auto simp: evaluation_ready_def elim: evaluable_cases)
  have one: "\<exists>d. draft_finding uuid5 rule pack a verdict scope states observed expected reason refs = Inr d
      \<and> fd_verdict d = verdict \<and> fd_rule_id d = rd_rule_id rule"
    if "verdict = VD_UNKNOWN \<longrightarrow> reason \<noteq> None" for verdict scope states observed expected reason refs
    using ready_draft [OF ready that] by blast
  have states_total: "\<exists>ds. map_res (state_finding uuid5 pack policy a evidence blockers rule)
      (filter (\<lambda>s. ef_field_id s = f) states) = Inr ds \<and> list_all (sound_finding rule) ds" for blockers
  proof (rule map_res_total)
    fix s assume s: "s \<in> set (filter (\<lambda>s. ef_field_id s = f) states)"
    with states f have "row_typed s" "[ef_field_id s] = rd_required_effective_states rule"
      by (auto simp: list_all_iff)
    from state_finding_total [OF a rule policy evidence this]
    obtain d where "state_finding uuid5 pack policy a evidence blockers rule s = Inr d"
      and "fd_verdict d = VD_PROCESS_ERROR \<longrightarrow> py_get (rd_condition rule) ''operator'' = PStr ''enum_at_least''" by blast
    with state_finding_reported show "\<exists>d. state_finding uuid5 pack policy a evidence blockers rule s = Inr d
      \<and> sound_finding rule d" unfolding sound_finding_def reported_def by blast
  qed
  show ?thesis
  proof (cases "ar_status (determine_applicability a pack)")
    case APPLICABLE
    with f one [of VD_UNKNOWN "Some UR_MISSING_EVIDENCE" None "[]" None None "[]"]
      states_total [of "blockers_of by_rule (rd_rule_id rule)"]
    show ?thesis by (auto simp: rule_findings_def by_field_states Let_def sound_finding_def)
  next
    case NOT_APPLICABLE
    with one [of VD_NOT_APPLICABLE None None "[]" None None "[]"] show ?thesis
      by (auto simp: rule_findings_def sound_finding_def)
  next
    case UNRESOLVED_APPLICABILITY
    then have "ar_reason (determine_applicability a pack) = Some UR_UNSUPPORTED_PROFILE"
      by (auto simp: determine_applicability_def Let_def split: if_splits)
    with UNRESOLVED_APPLICABILITY one [of VD_UNKNOWN "Some UR_UNSUPPORTED_PROFILE" None "[]" None None "[]"] show ?thesis
      by (auto simp: rule_findings_def sound_finding_def)
  qed
qed

text \<open>What the caller of an evaluation must provide beside resolved states.\<close>

definition evaluation_allowed ::
  "audit_store \<Rightarrow> uuid \<Rightarrow> uuid \<Rightarrow> rule_pack \<Rightarrow> organization_policy_version option \<Rightarrow> unresolved_block list \<Rightarrow> bool" where
  "evaluation_allowed db audit_id organization_id pack policy blocks \<longleftrightarrow>
     audit_id \<noteq> 0
     \<and> (case find_audit audit_id organization_id db of None \<Rightarrow> False | Some a \<Rightarrow> au_status a = AU_PROCESSING)
     \<and> (case policy of None \<Rightarrow> True | Some p \<Rightarrow> op_organization_id p = organization_id)
     \<and> list_all (policy_fits policy) (rp_rules pack)
     \<and> list_all (\<lambda>b. ub_audit_id b = audit_id) blocks"

lemma evaluation_total:
  assumes allowed: "evaluation_allowed db audit_id organization_id pack policy blocks"
    and states: "list_all row_typed states"
    and device: "case find_audit audit_id organization_id db of None \<Rightarrow> True
      | Some a \<Rightarrow> list_all (\<lambda>s. ef_device_id s = au_device_id a) states"
    and evidence: "\<forall>f \<in> set (audit_facts db audit_id). is_list (sf_evidence_refs f)"
    and rules: "list_all evaluable (rp_rules pack)"
  shows "\<exists>ds. evaluate_audit_compliance uuid5 db audit_id organization_id pack policy (Some states) blocks = Inr ds
    \<and> list_all (\<lambda>d. \<exists>rule \<in> set (rp_rules pack). sound_finding rule d) ds"
proof -
  from allowed obtain a where a: "find_audit audit_id organization_id db = Some a" "au_status a = AU_PROCESSING"
    by (auto simp: evaluation_allowed_def split: option.splits)
  then have id: "au_audit_id a = audit_id" by (auto simp: find_audit_def find_Some_iff)
  let ?evidence = "facts_of_states db audit_id states"
  have lists: "evidence_lists ?evidence"
    using facts_evidence evidence unfolding evidence_lists_def list_all_iff by blast
  have "\<exists>dss. map_res (rule_findings uuid5 pack policy a (group_dict ef_field_id states) ?evidence
      (unresolved_by_rule pack blocks)) (rp_rules pack) = Inr dss
    \<and> list_all (list_all (\<lambda>d. \<exists>rule \<in> set (rp_rules pack). sound_finding rule d)) dss"
  proof (rule map_res_total)
    fix rule assume rule: "rule \<in> set (rp_rules pack)"
    with rules allowed id have "au_audit_id a \<noteq> 0" "evaluable rule" "policy_fits policy rule"
      by (auto simp: evaluation_allowed_def list_all_iff)
    from rule_findings_total [OF this lists states] rule
    show "\<exists>ds. rule_findings uuid5 pack policy a (group_dict ef_field_id states) ?evidence
        (unresolved_by_rule pack blocks) rule = Inr ds
      \<and> list_all (\<lambda>d. \<exists>rule \<in> set (rp_rules pack). sound_finding rule d) ds"
      by (fastforce simp: list_all_iff)
  qed
  with a id allowed device show ?thesis
    by (auto simp: evaluate_audit_compliance_def evaluation_allowed_def list_all_iff split: option.splits)
qed

text \<open>
  C36. Evaluating a built-in rule pack on the states that the resolver produced never fails: when
  the audit is being processed, its identifiers are unique and the policy's parameters have the
  types that the rules ask for, every rule gives its findings, and the only rule that can be
  reported as an error of the process is the one on TLS versions, whose order may not list the
  configured version.
\<close>

theorem resolved_audits_are_evaluated:
  assumes "resolve_audit_effective_states lib audit_id organization_id db = Inr (states, db')"
    and "distinct (map sf_fact_id (db_facts db))"
    and "pack \<in> set (built_in_rule_packs uuid5)"
    and "evaluation_allowed db audit_id organization_id pack policy blocks"
  shows "case evaluate_audit_compliance uuid5 db' audit_id organization_id pack policy (Some states) blocks of
      Inl e \<Rightarrow> False
    | Inr ds \<Rightarrow> list_all (\<lambda>d. if fd_verdict d = VD_PROCESS_ERROR
        then fd_rule_id d = ''management.tls.minimum_1_2'' else True) ds"
proof -
  from assms(1) obtain a pinned operations drafts
    where a: "find_audit audit_id organization_id db = Some a"
    and facts: "\<forall>f \<in> set (audit_facts db audit_id). check_fact lib db a pinned f = Inr ()"
    and ops: "operation_entries lib db a (audit_facts db audit_id) = Inr operations"
    and ds: "resolve_security_facts (el_uuid5 lib) audit_id (au_device_id a) (map_of operations)
      (audit_facts db audit_id) = Inr drafts"
    and states: "states = map draft_row drafts"
    and db': "db' = db\<lparr>db_states := filter (\<lambda>s. ef_audit_id s \<noteq> audit_id) (db_states db) @ map draft_row drafts\<rparr>"
    by (rule resolution_Inr)
  have "distinct (map sf_fact_id (audit_facts db audit_id))"
    using assms(2) by (simp add: audit_facts_def distinct_map inj_on_def)
  from draft_typed [OF facts ops this ds] resolved_drafts [OF ds] have typed: "list_all row_typed states"
    by (auto simp: states list_all_iff draft_ok_def intro!: draft_row_typed)
  have device: "list_all (\<lambda>s. ef_device_id s = au_device_id a) states"
    using resolved_drafts [OF ds] by (auto simp: states list_all_iff)
  have evidence: "\<forall>f \<in> set (audit_facts db' audit_id). is_list (sf_evidence_refs f)"
    using resolved_evidence [OF ds] by (simp add: db' audit_facts_def)
  have allowed: "evaluation_allowed db' audit_id organization_id pack policy blocks"
    using assms(4) by (simp add: evaluation_allowed_def db' reads_no_states)
  have rules: "list_all evaluable (rp_rules pack)" using built_in_evaluable [OF assms(3)] by (auto simp: list_all_iff)
  from evaluation_total [OF allowed typed _ evidence rules, of uuid5] a device obtain out
    where "evaluate_audit_compliance uuid5 db' audit_id organization_id pack policy (Some states) blocks = Inr out"
    and "list_all (\<lambda>d. \<exists>rule \<in> set (rp_rules pack). sound_finding rule d) out"
    by (auto simp: db' reads_no_states)
  with built_in_evaluable [OF assms(3)] show ?thesis by (fastforce simp: list_all_iff sound_finding_def)
qed

end
