(* ===== verification/Policy_Tables.thy ===== *)
theory Policy_Tables
  imports Pack_Validity Effective_Policy
begin

text \<open>
  The tables of \<open>effective_state/policy.py\<close> pass the validation that every resolution starts with,
  and the entry of one mapping of the newest pack, used by concrete inputs.
\<close>

definition field_known :: "string \<Rightarrow> bool" where
  "field_known f = (dict_get FIELD_REGISTRY f \<noteq> None)"

lemma built_in_known: "list_all built_in ms \<Longrightarrow> list_all (\<lambda>m. field_known (dm_field_id m)) ms"
  by (auto simp: built_in_def mapping_checks_def field_known_def get_field_def list_all_iff split: option.splits)

lemma declared_known:
  assumes "list_all (\<lambda>p. list_all built_in (kp_mappings p)) packs"
  shows "list_all (\<lambda>q. field_known (mp_field_id q)) (declared_mapping_policies packs)"
  using assms built_in_known
  by (fastforce simp: declared_mapping_policies_def declared_policies_of_def list_all_iff split: option.splits)

lemma policies_known: "list_all (\<lambda>q. field_known (mp_field_id q)) all_mapping_policies"
proof -
  have "list_all (\<lambda>p. list_all built_in (kp_mappings p))
     [CISCO_IOS_XE_17_KNOWLEDGE_PACK_V1_1, CISCO_IOS_XE_17_KNOWLEDGE_PACK_V1_2,
      CISCO_IOS_XE_17_KNOWLEDGE_PACK, FORTIOS_7_KNOWLEDGE_PACK_V1_1, FORTIOS_7_KNOWLEDGE_PACK_V1_2,
      FORTIOS_7_KNOWLEDGE_PACK, JUNIPER_JUNOS_18_KNOWLEDGE_PACK_V1,
      JUNIPER_JUNOS_18_KNOWLEDGE_PACK_V1_1, JUNIPER_JUNOS_18_KNOWLEDGE_PACK,
      ARISTA_EOS_4_KNOWLEDGE_PACK_V1, ARISTA_EOS_4_KNOWLEDGE_PACK]"
    using packs_built_in by (simp add: REGISTERED_PACKS_def)
  then have sealed: "list_all (\<lambda>q. field_known (mp_field_id q)) SEALED_PACK_MAPPING_POLICIES"
    unfolding SEALED_PACK_MAPPING_POLICIES_def by (rule declared_known)
  have "list_all (\<lambda>m. field_known (dm_field_id m)) (kp_mappings CISCO_IOS_XE_17_KNOWLEDGE_PACK)"
    using packs_built_in by (intro built_in_known) (simp add: REGISTERED_PACKS_def)
  then have active: "list_all (\<lambda>q. field_known (mp_field_id q)) (ACTIVE_MAPPING_POLICIES @ ACTIVE_OPERATION_POLICIES)"
    by (auto simp: ACTIVE_MAPPING_POLICIES_def ACTIVE_OPERATION_POLICIES_def list_all_iff split: option.splits)
  have "list_all (\<lambda>q. field_known (mp_field_id q))
      (LEGACY_MAPPING_POLICIES @ FORTIOS_LEGACY_MAPPING_POLICIES @ FORTIOS_CURRENT_MAPPING_POLICIES)"
    by (simp add: LEGACY_MAPPING_POLICIES_def LEGACY_MAPPING_VERSION_IDS_def FORTIOS_LEGACY_MAPPING_POLICIES_def
        FORTIOS_CURRENT_MAPPING_POLICIES_def field_known_def field_entries)
  with sealed active show ?thesis by (simp add: all_mapping_policies_def)
qed

lemma dict_put_members: "set (dict_put k v d) \<subseteq> insert (k, v) (set d)"
  by (induction d) (auto split: if_splits)

lemma dict_of_members:
  "set (foldl (\<lambda>d x. dict_put (f x) x d) [] xs) \<subseteq> (\<lambda>x. (f x, x)) ` set xs"
proof (induction xs rule: rev_induct)
  case (snoc x xs)
  have "set (foldl (\<lambda>d x. dict_put (f x) x d) [] (xs @ [x]))
      \<subseteq> insert (f x, x) (set (foldl (\<lambda>d x. dict_put (f x) x d) [] xs))" by (simp add: dict_put_members)
  also have "\<dots> \<subseteq> (\<lambda>x. (f x, x)) ` set (xs @ [x])" using snoc by auto
  finally show ?case .
qed simp

lemma policy_metadata_valid:
  "validate_policy_metadata FIELD_POLICIES MAPPING_OPERATION_POLICIES DOCUMENTED_DEFAULTS = Inr ()"
proof -
  have "dict_get FIELD_POLICIES f \<noteq> None" if "field_known f" for f
    using that by (simp add: field_known_def field_policies_get)
  then have "list_all mapping_policy_ok MAPPING_OPERATION_POLICIES"
    using policies_known dict_of_members [of policy_key all_mapping_policies]
    by (fastforce simp: MAPPING_OPERATION_POLICIES_def list_all_iff mapping_policy_ok_def)
  then show ?thesis
    by (simp add: validate_policy_metadata_def field_policies_ok DOCUMENTED_DEFAULTS_def)
qed

section \<open>The last entry of the table\<close>

lemma arista_ntp_last: "\<exists>ps. all_mapping_policies = ps @ [MappingOperationPolicy
    (kp_knowledge_pack_version_id ARISTA_EOS_4_KNOWLEDGE_PACK)
    (dm_mapping_version_id (last ARISTA_PHASE7_MAPPINGS)) ''time.ntp.configured'' ASSIGN]"
proof -
  have arista: "kp_mappings ARISTA_EOS_4_KNOWLEDGE_PACK = ARISTA_MAPPINGS @ [last ARISTA_PHASE7_MAPPINGS]"
    by (simp add: ARISTA_EOS_4_KNOWLEDGE_PACK_def ARISTA_PHASE7_MAPPINGS_def)
  have one: "declared_policies_of i (last ARISTA_PHASE7_MAPPINGS)
      = [MappingOperationPolicy i (dm_mapping_version_id (last ARISTA_PHASE7_MAPPINGS)) ''time.ntp.configured'' ASSIGN]"
    for i by (simp add: declared_policies_of_def ARISTA_PHASE7_MAPPINGS_def arista_mapping_def)
  show ?thesis
    unfolding all_mapping_policies_def SEALED_PACK_MAPPING_POLICIES_def declared_mapping_policies_def
    by (simp only: list.map concat.simps arista map_append concat_append one append_Nil2 append_assoc [symmetric]) blast
qed

lemma arista_ntp_policy:
  "get_mapping_operation_policy (kp_knowledge_pack_version_id ARISTA_EOS_4_KNOWLEDGE_PACK)
     (Some (dm_mapping_version_id (last ARISTA_PHASE7_MAPPINGS))) ''time.ntp.configured''
   = Inr (MappingOperationPolicy (kp_knowledge_pack_version_id ARISTA_EOS_4_KNOWLEDGE_PACK)
     (dm_mapping_version_id (last ARISTA_PHASE7_MAPPINGS)) ''time.ntp.configured'' ASSIGN)"
proof (rule policy_found)
  from arista_ntp_last obtain ps where table: "all_mapping_policies = ps @ [MappingOperationPolicy
    (kp_knowledge_pack_version_id ARISTA_EOS_4_KNOWLEDGE_PACK)
    (dm_mapping_version_id (last ARISTA_PHASE7_MAPPINGS)) ''time.ntp.configured'' ASSIGN]" ..
  show "find (\<lambda>p. policy_key p = (kp_knowledge_pack_version_id ARISTA_EOS_4_KNOWLEDGE_PACK,
      dm_mapping_version_id (last ARISTA_PHASE7_MAPPINGS))) (rev all_mapping_policies)
    = Some (MappingOperationPolicy (kp_knowledge_pack_version_id ARISTA_EOS_4_KNOWLEDGE_PACK)
     (dm_mapping_version_id (last ARISTA_PHASE7_MAPPINGS)) ''time.ntp.configured'' ASSIGN)"
    unfolding table by (simp add: policy_key_def)
qed simp

end
