(* ===== verification/Audit_Samples.thy ===== *)
theory Audit_Samples
  imports Compliance_Totality Policy_Tables
begin

text \<open>
  One audit, small enough to be evaluated by hand, on which the theorems about resolution and
  compliance are applied: an Arista device whose configuration names an NTP server.
\<close>

definition sample_device :: device where
  "sample_device = \<lparr>dv_device_id = 200, dv_organization_id = 500, dv_display_name = ''edge'',
     dv_latest_hostname = None, dv_stable_serial_number = None, dv_asset_tag = None,
     dv_device_class = DC_SWITCH, dv_identity_status = DI_IDENTIFIED, dv_first_seen_at = 0,
     dv_last_seen_at = 0, dv_is_active = True, dv_created_at = 0, dv_updated_at = 0,
     dv_schema_version = ''1.0.0''\<rparr>"

definition sample_snapshot :: snapshot where
  "sample_snapshot = \<lparr>sn_snapshot_id = 300, sn_device_id = 200, sn_organization_id = 500,
     sn_label = None, sn_captured_at = None, sn_ingested_at = 0, sn_status = SS_LOCKED,
     sn_grouping_status = SG_AUTOMATIC, sn_snapshot_hash = [], sn_artifact_count = 1,
     sn_source = SO_UPLOAD, sn_created_by = None, sn_created_at = 0, sn_schema_version = ''1.0.0''\<rparr>"

definition arista_pack_id :: uuid where
  "arista_pack_id = kp_knowledge_pack_version_id ARISTA_EOS_4_KNOWLEDGE_PACK"

definition sample_audit :: audit where
  "sample_audit = \<lparr>au_audit_id = 100, au_organization_id = 500, au_device_id = 200,
     au_snapshot_id = 300, au_audit_batch_id = None, au_revision_number = 1,
     au_previous_audit_id = None, au_reevaluation_reason = RR_INITIAL, au_status = AU_PROCESSING,
     au_processing_stage = Some ST_RESOLVING_STATE, au_selected_frameworks = [],
     au_version_refs = [(''device_profile_version_id'', PStr ''arista.eos.4@1.0.0''),
       (''knowledge_pack_version_id'', PStr (uuid_str arista_pack_id))],
     au_profile_resolution = [(''resolution_status'', PStr ''resolved''),
       (''profile_version_id'', PStr ''arista.eos.4@1.0.0'')],
     au_verdict_counts = [], au_severity_counts = [], au_coverage = [], au_started_at = Some 0,
     au_completed_at = None, au_created_at = 0, au_created_by = None, au_schema_version = ''1.0.0''\<rparr>"

text \<open>The device states that NTP is configured, on line 7 of its configuration.\<close>

definition ntp_value :: typed_value where
  "ntp_value = TypedValue TV_BOOLEAN (PBool True)"

definition device_scope :: scope_ref where
  "device_scope = ScopeRef ''device'' ''device'' []"

definition ntp_fact :: security_fact where
  "ntp_fact = \<lparr>sf_fact_id = 1, sf_audit_id = 100, sf_device_id = 200, sf_snapshot_id = 300,
     sf_field_id = ''time.ntp.configured'', sf_value = PDict (typed_value_to_dict ntp_value),
     sf_entity = None, sf_scope = PDict (scope_to_dict device_scope), sf_state = FS_EXPLICIT,
     sf_evidence_refs = PList [PDict [(''artifact_id'', PStr ''a''), (''start_line'', PInt 7)]],
     sf_source_ir_node_ids = [], sf_extraction_method = DECLARATIVE_MAPPING, sf_mapping_id = None,
     sf_mapping_version_id = Some (dm_mapping_version_id (last ARISTA_PHASE7_MAPPINGS)),
     sf_knowledge_pack_version_id = arista_pack_id, sf_validation_status = FV_VALIDATED,
     sf_dependencies = [], sf_interpretation_confidence = IC_HIGH, sf_schema_version = ''1.0.0''\<rparr>"

definition sample_store :: audit_store where
  "sample_store = \<lparr>db_devices = [sample_device], db_snapshots = [sample_snapshot], db_artifacts = [],
     db_audits = [sample_audit], db_jobs = [], db_facts = [ntp_fact], db_blocks = [], db_states = [],
     db_findings = [], db_mapping_versions = [], db_packs = [], db_pack_versions = [],
     db_profile_manifests = [], db_runtime_rules = [], db_assessment_packs = [], db_obligations = [], db_assessments = [],
     db_framework_assessments = [], db_assessment_results = [], db_decisions = []\<rparr>"

definition sample_library :: effective_library where
  "sample_library = \<lparr>el_uuid5 = sample_uuid5, el_json_loads = (\<lambda>_. Inl (Exc ValueError [])),
     el_pydantic = \<lparr>py_model_validate = (\<lambda>_. Inl (Exc ValidationError [])), py_model_dump = (\<lambda>_. [])\<rparr>\<rparr>"

text \<open>Its resolution, step by step.\<close>

lemma sample_facts_of_audit: "audit_facts sample_store 100 = [ntp_fact]"
  by (simp add: audit_facts_def sample_store_def ntp_fact_def)

lemma sample_found: "find_audit 100 500 sample_store = Some sample_audit"
  by (simp add: find_audit_def sample_store_def sample_audit_def)

lemma sample_boundary: "check_boundary sample_library sample_store 500 sample_audit = Inr (uuid_str arista_pack_id)"
proof -
  have "dict_get PROFILE_REGISTRY ''arista.eos.4@1.0.0'' \<noteq> None"
    unfolding PROFILE_REGISTRY_eq
    by (simp add: BUILT_IN_PROFILES_def dict_get_def CISCO_IOS_XE_17_def FORTIOS_7_def JUNIPER_JUNOS_18_def
        ARISTA_EOS_4_def)
  then show ?thesis
    by (simp add: check_boundary_def sample_audit_def sample_store_def sample_device_def sample_snapshot_def
        get_snapshot_row_def get_device_row_def py_get_def dict_get_def known_profile_def)
qed

lemma ntp_operation:
  "\<exists>p. operation_policy sample_library sample_store sample_audit ntp_fact = Inr p \<and> mp_operation p = ASSIGN"
  using arista_ntp_policy by (simp add: operation_policy_def ntp_fact_def arista_pack_id_def)

lemma ntp_scope: "scope_from_dict (PDict (scope_to_dict device_scope)) = Inr device_scope"
  by (simp add: device_scope_def scope_to_dict_def scope_from_dict_def validate_scope_def py_get_def dict_get_def
      insert_commute)

lemma ntp_typed: "typed_value_from_dict (PDict (typed_value_to_dict ntp_value)) = Inr ntp_value"
  using tv_of_value_value [of TV_BOOLEAN]
  by (simp add: ntp_value_def typed_value_to_dict_def typed_value_from_dict_def py_get_def dict_get_def
      insert_commute)

lemma ntp_valid: "\<exists>field. validate_field_value_scope ''time.ntp.configured'' ntp_value device_scope = Inr field"
  by (simp add: validate_field_value_scope_Inr get_field_def field_entries ntp_value_def device_scope_def)

lemma ntp_policy: "\<exists>p. get_field_policy ''time.ntp.configured'' = Inr p \<and> fp_cardinality p = SCALAR"
  by (simp add: get_field_policy_def field_policies_get field_entries field_policy_def)

lemma ntp_checked: "check_fact sample_library sample_store sample_audit (uuid_str arista_pack_id) ntp_fact = Inr ()"
proof -
  obtain p field policy where "operation_policy sample_library sample_store sample_audit ntp_fact = Inr p"
    and "validate_field_value_scope ''time.ntp.configured'' ntp_value device_scope = Inr field"
    and "get_field_policy ''time.ntp.configured'' = Inr policy"
    using ntp_operation ntp_valid ntp_policy by blast
  moreover have "sf_field_id ntp_fact = ''time.ntp.configured''"
    "sf_scope ntp_fact = PDict (scope_to_dict device_scope)"
    "sf_value ntp_fact = PDict (typed_value_to_dict ntp_value)"
    "sf_knowledge_pack_version_id ntp_fact = arista_pack_id"
    "sf_audit_id ntp_fact = au_audit_id sample_audit" "sf_device_id ntp_fact = au_device_id sample_audit"
    "sf_snapshot_id ntp_fact = au_snapshot_id sample_audit"
    by (simp_all add: ntp_fact_def sample_audit_def)
  moreover have "tv_type ntp_value \<noteq> TV_NULL" by (simp add: ntp_value_def)
  ultimately show ?thesis by (simp add: check_fact_def ntp_scope ntp_typed)
qed

definition ntp_classified :: classified_fact where
  "ntp_classified = \<lparr>cl_fact = ntp_fact, cl_scope = device_scope, cl_value = ntp_value,
     cl_operation = ASSIGN, cl_artifact_id = PStr ''a'', cl_source_line = 7\<rparr>"

lemma ntp_classify: "classify ntp_fact (Some ASSIGN) = Inr ntp_classified"
proof -
  have "sf_scope ntp_fact = PDict (scope_to_dict device_scope)"
    "sf_value ntp_fact = PDict (typed_value_to_dict ntp_value)"
    "sf_evidence_refs ntp_fact = PList [PDict [(''artifact_id'', PStr ''a''), (''start_line'', PInt 7)]]"
    by (simp_all add: ntp_fact_def)
  then show ?thesis
    by (simp add: classify_def ntp_scope ntp_typed ntp_classified_def reference_artifacts_def
        reference_position_def py_get_def dict_get_def ge_one_def require_def)
qed

definition ntp_draft :: effective_state_draft where
  "ntp_draft = \<lparr>es_effective_state_id = 7, es_audit_id = 100, es_device_id = 200,
     es_field_id = ''time.ntp.configured'', es_scope = device_scope, es_effective_value = Some ntp_value,
     es_resolution_status = RESOLVED, es_source_fact_ids = [1],
     es_resolution_trace = bounded (input_trace [ntp_classified]
       @ [trace ''explicit_selected'' [(''fact_id'', PStr (cl_ids ntp_classified))]]),
     es_inherited_from = None, es_default_reference = None, es_referenced_objects = [],
     es_precedence_applied = [], es_unresolved_reason = None, es_schema_version = ''1.0.0''\<rparr>"

lemma device_scope_valid: "validate_scope device_scope = Inr ()"
  by (simp add: device_scope_def validate_scope_def require_def)

lemma ntp_draft_valid: "validate_effective_state_draft sample_uuid5 ntp_draft = Inr ()"
proof -
  from ntp_valid obtain field where "validate_field_value_scope ''time.ntp.configured'' ntp_value device_scope = Inr field" ..
  then have "validate_effective_value ''time.ntp.configured'' device_scope ntp_value = Inr ()"
    by (simp add: validate_effective_value_def ntp_value_def)
  moreover have "\<not> py_blank ''time.ntp.configured''" "\<not> py_blank ''1.0.0''" by (simp_all add: string_run)
  ultimately show ?thesis
    by (simp add: validate_effective_state_draft_def ntp_draft_def deterministic_effective_state_id_def
        canonical_scope_key_def device_scope_valid sample_uuid5_def status_consistent_def)
qed

lemma ntp_winner: "ordered_winner [ntp_classified] = (ntp_classified, False)"
  by (simp add: ordered_winner_def)

lemma ntp_resolved:
  "resolve_security_facts sample_uuid5 100 200 (map_of [(1, ASSIGN)]) [ntp_fact] = Inr [ntp_draft]"
proof -
  have fact: "sf_fact_id ntp_fact = 1" "sf_field_id ntp_fact = ''time.ntp.configured''" "sf_dependencies ntp_fact = []"
    by (simp_all add: ntp_fact_def)
  have unblocked: "blocked_dependency_ids [ntp_fact] = []"
    by (simp add: fact blocked_dependency_ids_def Let_def dependency_graph_def fact_dependencies_def
        dependency_missing_def map_filter_def dict_get_def)
  have cl: "cl_fact ntp_classified = ntp_fact" "cl_scope ntp_classified = device_scope"
    "cl_value ntp_classified = ntp_value" "cl_operation ntp_classified = ASSIGN"
    by (simp_all add: ntp_classified_def)
  have id: "deterministic_effective_state_id sample_uuid5 100 ''time.ntp.configured'' device_scope = Inr 7"
    by (simp add: deterministic_effective_state_id_def canonical_scope_key_def device_scope_valid sample_uuid5_def
        string_run)
  have draft: "resolve_scalar_scope sample_uuid5 100 200 ''time.ntp.configured'' device_scope [ntp_classified]
      = Inr ntp_draft"
    using ntp_draft_valid
    by (simp add: resolve_scalar_scope_def ntp_winner cl make_effective_state_draft_def id Let_def sorted_ids_def
        fact ntp_draft_def)
  have "sc_type device_scope \<noteq> ''vty_range''" by (simp add: device_scope_def)
  then have "resolve_scalar_field sample_uuid5 100 200 ''time.ntp.configured'' [ntp_classified] = Inr [ntp_draft]"
    by (simp add: resolve_scalar_field_def cl draft)
  with ntp_policy have "resolve_field sample_uuid5 100 200 {} (''time.ntp.configured'', [ntp_classified]) = Inr [ntp_draft]"
    by (auto simp: resolve_field_def)
  then show ?thesis
    by (simp add: resolve_security_facts_def unblocked fact ntp_classify cl Let_def)
qed

lemma sample_admitted: "state_admitted [] (draft_row ntp_draft)"
  by (simp add: state_admitted_def draft_row_def state_row_def ntp_draft_def device_scope_def string_run btrim_empty_def)

lemma sample_resolution:
  "resolve_audit_effective_states sample_library 100 500 sample_store
     = Inr ([draft_row ntp_draft], sample_store\<lparr>db_states := [draft_row ntp_draft]\<rparr>)"
proof -
  have valid: "validate_resolver_facts sample_library sample_store 100 500 [ntp_fact] = Inr sample_audit"
    by (simp add: validate_resolver_facts_def policy_metadata_valid sample_found sample_boundary ntp_checked)
  obtain p where p: "operation_policy sample_library sample_store sample_audit ntp_fact = Inr p" "mp_operation p = ASSIGN"
    using ntp_operation by blast
  have ids: "au_audit_id sample_audit = 100" "au_device_id sample_audit = 200" "sf_fact_id ntp_fact = 1"
    "sf_field_id ntp_fact = ''time.ntp.configured''" "el_uuid5 sample_library = sample_uuid5"
    by (simp_all add: sample_audit_def ntp_fact_def sample_library_def)
  have draft: "es_audit_id ntp_draft = 100" "es_source_fact_ids ntp_draft = [1]"
    "es_field_id ntp_draft = ''time.ntp.configured''" "es_scope ntp_draft = device_scope"
    by (simp_all add: ntp_draft_def)
  have store: "sample_store\<lparr>db_states := []\<rparr> = sample_store" "db_facts sample_store = [ntp_fact]" "db_states sample_store = []"
    by (simp_all add: sample_store_def)
  have key: "canonical_scope_key device_scope = Inr (sc_type device_scope @ ''::'' @ sc_key device_scope)"
    by (simp add: canonical_scope_key_def device_scope_valid)
  have row: "state_row ntp_draft (sc_type device_scope @ ''::'' @ sc_key device_scope) = draft_row ntp_draft"
    by (simp add: draft_row_def draft)
  have "persist_effective_state sample_library 500 ntp_draft sample_store
      = Inr (draft_row ntp_draft, sample_store\<lparr>db_states := [draft_row ntp_draft]\<rparr>)"
    using row sample_admitted
    by (simp add: persist_effective_state_def ids draft store ntp_draft_valid valid key insert_row_def require_def)
  then show ?thesis
    using ntp_resolved
    by (simp add: resolve_audit_effective_states_def sample_facts_of_audit valid ids p store
        persist_drafts_def Let_def)
qed

section \<open>Compliance of the sample\<close>

definition sample_policy :: organization_policy_version where
  "sample_policy = \<lparr>op_organization_id = 500, op_organization_policy_version_id = 7,
     op_name = DEFAULT_POLICY_NAME, op_version = DEFAULT_POLICY_VERSION,
     op_parameters = DEFAULT_POLICY_PARAMETERS, op_schema_version = ''1.0.0''\<rparr>"

lemma sample_policy_fits: "list_all (policy_fits (Some sample_policy)) RULES"
proof -
  have get: "dict_get ((k, v) # d) k' = (if k = k' then Some v else dict_get d k')" "dict_get [] k' = None"
    for k v d and k' :: string by (simp_all add: dict_get_def)
  show ?thesis
    unfolding RULES_def BASE_RULES_def
    by (simp add: policy_fits_def rule_parameter_def make_rule_def sample_policy_def DEFAULT_POLICY_PARAMETERS_def
        parameter_fits_def get py_get_def)
qed

lemma policy_fits_applicability: "policy_fits policy (rd_applicability_update f r) = policy_fits policy r"
proof -
  have "rule_parameter policy (rd_applicability_update f r) = rule_parameter policy r"
    by (auto simp: rule_parameter_def split: list.split option.split pyval.split)
  then show ?thesis by (simp add: policy_fits_def)
qed

lemma sample_allowed:
  "evaluation_allowed sample_store 100 500 (ARISTA_RULE_PACK sample_uuid5) (Some sample_policy) []"
proof -
  have "rp_rules (ARISTA_RULE_PACK sample_uuid5) = rules_for (pm_profile_version_id ARISTA_EOS_4) RULES"
    by (simp add: ARISTA_RULE_PACK_def built_in_pack_def)
  then have "list_all (policy_fits (Some sample_policy)) (rp_rules (ARISTA_RULE_PACK sample_uuid5))"
    using sample_policy_fits by (simp add: rules_for_def list_all_iff policy_fits_applicability)
  then show ?thesis
    by (simp add: evaluation_allowed_def sample_found) (simp add: sample_audit_def sample_policy_def)
qed

theorem resolved_audits_are_evaluated_witness:
  "\<exists>ds. evaluate_audit_compliance sample_uuid5 (sample_store\<lparr>db_states := [draft_row ntp_draft]\<rparr>) 100 500
      (ARISTA_RULE_PACK sample_uuid5) (Some sample_policy) (Some [draft_row ntp_draft]) [] = Inr ds
    \<and> list_all (\<lambda>d. if fd_verdict d = VD_PROCESS_ERROR
        then fd_rule_id d = ''management.tls.minimum_1_2'' else True) ds"
proof -
  have ids: "distinct (map sf_fact_id (db_facts sample_store))" by (simp add: sample_store_def)
  have pack: "ARISTA_RULE_PACK sample_uuid5 \<in> set (built_in_rule_packs sample_uuid5)"
    by (simp add: built_in_rule_packs_def)
  from resolved_audits_are_evaluated [OF sample_resolution ids pack sample_allowed] show ?thesis
    by (auto simp: list_all_iff split: sum.splits)
qed

end
