(* ===== verification/Devices.thy ===== *)
theory Devices
  imports Audit_Records
begin

text \<open>
  The devices of an organization (\<open>devices/service.py\<close>).  The requests are those that
  \<open>devices/schemas.py\<close> has validated; a field that an update does not set is \<open>None\<close>.
\<close>

text \<open>The column \<open>updated_at\<close> is set when the row is written, and a row that did not change is not.\<close>

definition flush_device :: "int \<Rightarrow> device \<Rightarrow> device \<Rightarrow> device" where
  "flush_device now old new = (if new = old then old else new\<lparr>dv_updated_at := now\<rparr>)"

record device_create =
  dc_display_name :: string
  dc_latest_hostname :: "string option"
  dc_stable_serial_number :: "string option"
  dc_asset_tag :: "string option"
  dc_device_class :: device_class
  dc_identity_status :: device_identity

record device_update =
  du_display_name :: "string option"
  du_latest_hostname :: "string option option"
  du_stable_serial_number :: "string option option"
  du_asset_tag :: "string option option"
  du_device_class :: "device_class option"
  du_identity_status :: "device_identity option"
  du_is_active :: "bool option"

text \<open>The validators of the text fields.\<close>

definition normalize_display_name :: "string \<Rightarrow> exc + string" where
  "normalize_display_name v = and_then (require (py_strip v \<noteq> [])
     (Exc ValueError ''Display name must not be blank'')) (\<lambda>_. Inr (py_strip v))"

definition normalize_optional_text :: "string option \<Rightarrow> string option" where
  "normalize_optional_text v = (case v of None \<Rightarrow> None | Some s \<Rightarrow> if py_strip s = [] then None else Some (py_strip s))"

definition create_device :: "uuid \<Rightarrow> int \<Rightarrow> user \<Rightarrow> device_create \<Rightarrow> audit_store \<Rightarrow> exc + audit_store" where
  "create_device fresh now u rq db =
     and_then (require (fresh \<notin> dv_device_id ` set (db_devices db)) persistence_error) (\<lambda>_.
     Inr (db\<lparr>db_devices := db_devices db @
       [\<lparr>dv_device_id = fresh, dv_organization_id = us_organization_id u, dv_display_name = dc_display_name rq,
         dv_latest_hostname = dc_latest_hostname rq, dv_stable_serial_number = dc_stable_serial_number rq,
         dv_asset_tag = dc_asset_tag rq, dv_device_class = dc_device_class rq,
         dv_identity_status = dc_identity_status rq, dv_first_seen_at = now, dv_last_seen_at = now,
         dv_is_active = True, dv_created_at = now, dv_updated_at = now, dv_schema_version = ''1.0.0''\<rparr>]\<rparr>))"

definition list_devices :: "audit_store \<Rightarrow> user \<Rightarrow> device list" where
  "list_devices db u = sort_key (\<lambda>d. (dv_display_name d, dv_device_id d))
     (filter (\<lambda>d. dv_organization_id d = us_organization_id u) (db_devices db))"

definition get_device :: "audit_store \<Rightarrow> user \<Rightarrow> uuid \<Rightarrow> exc + device" where
  "get_device db u device_id =
     (case find (\<lambda>d. dv_device_id d = device_id \<and> dv_organization_id d = us_organization_id u) (db_devices db) of
        None \<Rightarrow> Inl (Exc DeviceNotFoundError ''device_not_found'') | Some d \<Rightarrow> Inr d)"

definition set_field :: "'a option \<Rightarrow> 'a \<Rightarrow> 'a" where
  "set_field new old = (case new of None \<Rightarrow> old | Some v \<Rightarrow> v)"

definition apply_device_update :: "int \<Rightarrow> device_update \<Rightarrow> device \<Rightarrow> device" where
  "apply_device_update now rq d =
     flush_device now d (d\<lparr>dv_display_name := set_field (du_display_name rq) (dv_display_name d),
       dv_latest_hostname := set_field (du_latest_hostname rq) (dv_latest_hostname d),
       dv_stable_serial_number := set_field (du_stable_serial_number rq) (dv_stable_serial_number d),
       dv_asset_tag := set_field (du_asset_tag rq) (dv_asset_tag d),
       dv_device_class := set_field (du_device_class rq) (dv_device_class d),
       dv_identity_status := set_field (du_identity_status rq) (dv_identity_status d),
       dv_is_active := set_field (du_is_active rq) (dv_is_active d)\<rparr>)"

definition update_device :: "int \<Rightarrow> user \<Rightarrow> uuid \<Rightarrow> device_update \<Rightarrow> audit_store \<Rightarrow> exc + audit_store" where
  "update_device now u device_id rq db =
     and_then (get_device db u device_id) (\<lambda>_.
     Inr (db\<lparr>db_devices := update_rows dv_device_id device_id (apply_device_update now rq) (db_devices db)\<rparr>))"

end
