(* ===== verification/Snapshots.thy ===== *)
theory Snapshots
  imports Devices
begin

text \<open>
  Snapshots of a device's evidence (\<open>snapshots/service.py\<close>): a draft collects artifacts, and
  finalizing it fixes them.  An operation is one transaction on the locked rows: it fails and rolls
  back, or gives the new store and the snapshot.  Errors are modelled by their code; SHA-256 is the
  parameter \<open>sha\<close>.
\<close>

section \<open>Hashes\<close>

definition sha256_pattern :: "string \<Rightarrow> bool" where
  "sha256_pattern s = (length s = 64 \<and> list_all (\<lambda>c. c \<in> set ''0123456789abcdef'') s)"

definition normalize_snapshot_hash :: "string \<Rightarrow> exc + string" where
  "normalize_snapshot_hash h =
     (let n = py_lower (py_strip h) in
      and_then (require (sha256_pattern n)
        (Exc ValueError ''Snapshot hash must be 64 lowercase hexadecimal characters'')) (\<lambda>_. Inr n))"

definition calculate_snapshot_hash :: "(string \<Rightarrow> string) \<Rightarrow> string list \<Rightarrow> string" where
  "calculate_snapshot_hash sha hashes = sha (concat (sort hashes))"

section \<open>Rows\<close>

definition members :: "audit_store \<Rightarrow> uuid \<Rightarrow> artifact list" where
  "members db snapshot_id = filter (\<lambda>x. af_snapshot_id x = Some snapshot_id) (db_artifacts db)"

text \<open>A snapshot is returned with its artifacts in the order of their identifiers.\<close>

definition get_snapshot :: "audit_store \<Rightarrow> user \<Rightarrow> uuid \<Rightarrow> exc + snapshot \<times> artifact list" where
  "get_snapshot db u snapshot_id =
     (case find (\<lambda>s. sn_snapshot_id s = snapshot_id \<and> sn_organization_id s = us_organization_id u) (db_snapshots db) of
        None \<Rightarrow> Inl (Exc SnapshotNotFoundError ''snapshot_not_found'')
      | Some s \<Rightarrow> Inr (s, sort_key af_artifact_id (members db snapshot_id)))"

text \<open>Both reads of a snapshot of the user's organization, with or without the row lock.\<close>

definition lock_snapshot :: "audit_store \<Rightarrow> user \<Rightarrow> uuid \<Rightarrow> exc + snapshot" where
  "lock_snapshot db u snapshot_id =
     (case find (\<lambda>s. sn_snapshot_id s = snapshot_id \<and> sn_organization_id s = us_organization_id u) (db_snapshots db) of
        None \<Rightarrow> Inl (Exc SnapshotNotFoundError ''snapshot_not_found'') | Some s \<Rightarrow> Inr s)"

definition require_draft :: "snapshot \<Rightarrow> exc + unit" where
  "require_draft s = require (sn_status s = SS_DRAFT) (Exc SnapshotConflictError ''snapshot_not_draft'')"

definition own_artifact :: "audit_store \<Rightarrow> user \<Rightarrow> uuid \<Rightarrow> artifact option" where
  "own_artifact db u artifact_id =
     find (\<lambda>x. af_artifact_id x = artifact_id \<and> af_organization_id x = us_organization_id u) (db_artifacts db)"

definition assign_artifact :: "uuid \<Rightarrow> uuid option \<Rightarrow> audit_store \<Rightarrow> audit_store" where
  "assign_artifact artifact_id snapshot_id db =
     db\<lparr>db_artifacts := update_rows af_artifact_id artifact_id (\<lambda>x. x\<lparr>af_snapshot_id := snapshot_id\<rparr>)
       (db_artifacts db)\<rparr>"

definition refresh_membership :: "(string \<Rightarrow> string) \<Rightarrow> uuid \<Rightarrow> audit_store \<Rightarrow> exc + audit_store" where
  "refresh_membership sha snapshot_id db =
     (let hashes = map af_sha256 (members db snapshot_id) in
      and_then (normalize_snapshot_hash (calculate_snapshot_hash sha hashes)) (\<lambda>h.
      Inr (update_snapshot_row snapshot_id
        (\<lambda>s. s\<lparr>sn_artifact_count := length hashes, sn_snapshot_hash := h\<rparr>) db)))"

section \<open>Operations\<close>

record snapshot_create =
  sc_label :: "string option"
  sc_captured_at :: "int option"
  sc_source :: snapshot_source
  sc_grouping_status :: snapshot_grouping

definition create_snapshot ::
  "(string \<Rightarrow> string) \<Rightarrow> uuid \<Rightarrow> int \<Rightarrow> user \<Rightarrow> uuid \<Rightarrow> snapshot_create \<Rightarrow> audit_store \<Rightarrow> exc + audit_store" where
  "create_snapshot sha fresh now u device_id rq db =
     (case find (\<lambda>d. dv_device_id d = device_id \<and> dv_organization_id d = us_organization_id u) (db_devices db) of
        None \<Rightarrow> Inl (Exc DeviceNotFoundError ''device_not_found'')
      | Some d \<Rightarrow>
          and_then (normalize_snapshot_hash (sha [])) (\<lambda>h.
          and_then (require (fresh \<notin> sn_snapshot_id ` set (db_snapshots db)) persistence_error) (\<lambda>_.
          Inr (db\<lparr>
            db_snapshots := db_snapshots db @
              [\<lparr>sn_snapshot_id = fresh, sn_device_id = device_id, sn_organization_id = us_organization_id u,
                sn_label = sc_label rq, sn_captured_at = sc_captured_at rq, sn_ingested_at = now,
                sn_status = SS_DRAFT, sn_grouping_status = sc_grouping_status rq, sn_snapshot_hash = h,
                sn_artifact_count = 0, sn_source = sc_source rq, sn_created_by = Some (us_user_id u),
                sn_created_at = now, sn_schema_version = ''1.0.0''\<rparr>],
            db_devices := update_rows dv_device_id device_id
              (\<lambda>x. flush_device now x (x\<lparr>dv_last_seen_at := now\<rparr>)) (db_devices db)\<rparr>))))"

text \<open>The fields that an update carries; a field that it does not set is \<open>None\<close>.\<close>

record snapshot_update =
  su_label :: "string option option"
  su_captured_at :: "int option option"
  su_grouping_status :: "snapshot_grouping option"

definition apply_update :: "snapshot_update \<Rightarrow> snapshot \<Rightarrow> snapshot" where
  "apply_update rq s =
     s\<lparr>sn_label := (case su_label rq of None \<Rightarrow> sn_label s | Some l \<Rightarrow> l),
       sn_captured_at := (case su_captured_at rq of None \<Rightarrow> sn_captured_at s | Some t \<Rightarrow> t),
       sn_grouping_status := (case su_grouping_status rq of None \<Rightarrow> sn_grouping_status s | Some g \<Rightarrow> g)\<rparr>"

definition update_snapshot :: "user \<Rightarrow> uuid \<Rightarrow> snapshot_update \<Rightarrow> audit_store \<Rightarrow> exc + audit_store" where
  "update_snapshot u snapshot_id rq db =
     and_then (lock_snapshot db u snapshot_id) (\<lambda>s.
     and_then (require_draft s) (\<lambda>_.
     Inr (update_snapshot_row snapshot_id (apply_update rq) db)))"

definition add_artifact :: "(string \<Rightarrow> string) \<Rightarrow> user \<Rightarrow> uuid \<Rightarrow> uuid \<Rightarrow> audit_store \<Rightarrow> exc + audit_store" where
  "add_artifact sha u snapshot_id artifact_id db =
     and_then (lock_snapshot db u snapshot_id) (\<lambda>s.
     and_then (require_draft s) (\<lambda>_.
     case own_artifact db u artifact_id of
       None \<Rightarrow> Inl (Exc SnapshotNotFoundError ''artifact_not_found'')
     | Some x \<Rightarrow>
         and_then (require (af_status x \<in> ELIGIBLE_ARTIFACT_STATUSES)
           (Exc SnapshotValidationError ''artifact_ineligible'')) (\<lambda>_.
         and_then (require (af_snapshot_id x = None \<or> af_snapshot_id x = Some snapshot_id)
           (Exc SnapshotConflictError ''artifact_already_assigned'')) (\<lambda>_.
         refresh_membership sha snapshot_id (assign_artifact artifact_id (Some snapshot_id) db)))))"

definition remove_artifact :: "(string \<Rightarrow> string) \<Rightarrow> user \<Rightarrow> uuid \<Rightarrow> uuid \<Rightarrow> audit_store \<Rightarrow> exc + audit_store" where
  "remove_artifact sha u snapshot_id artifact_id db =
     and_then (lock_snapshot db u snapshot_id) (\<lambda>s.
     and_then (require_draft s) (\<lambda>_.
     case own_artifact db u artifact_id of
       None \<Rightarrow> Inl (Exc SnapshotNotFoundError ''artifact_not_found'')
     | Some x \<Rightarrow>
         and_then (require (af_snapshot_id x = Some snapshot_id)
           (Exc SnapshotNotFoundError ''artifact_not_found'')) (\<lambda>_.
         refresh_membership sha snapshot_id (assign_artifact artifact_id None db))))"

definition finalize_snapshot :: "(string \<Rightarrow> string) \<Rightarrow> user \<Rightarrow> uuid \<Rightarrow> audit_store \<Rightarrow> exc + audit_store" where
  "finalize_snapshot sha u snapshot_id db =
     and_then (lock_snapshot db u snapshot_id) (\<lambda>s.
     and_then (require_draft s) (\<lambda>_.
     let artifacts = filter (\<lambda>x. af_organization_id x = us_organization_id u) (members db snapshot_id)
     in and_then (require (artifacts \<noteq> []) (Exc SnapshotValidationError ''empty_snapshot'')) (\<lambda>_.
        and_then (require (list_all (\<lambda>x. af_status x \<in> ELIGIBLE_ARTIFACT_STATUSES) artifacts)
          (Exc SnapshotValidationError ''artifact_ineligible'')) (\<lambda>_.
        and_then (normalize_snapshot_hash (calculate_snapshot_hash sha (map af_sha256 artifacts))) (\<lambda>h.
        Inr (update_snapshot_row snapshot_id (\<lambda>s. s\<lparr>sn_artifact_count := length artifacts,
          sn_snapshot_hash := h, sn_status := SS_READY\<rparr>) db))))))"

end
