(* ===== verification/Resolution_Models.thy ===== *)
theory Resolution_Models
  imports Audit_Records
begin

text \<open>
  The result of resolving a snapshot to a device profile (\<open>profile_resolution/models.py\<close>): the
  signals, the conflicts, the provenance of the identity, and the form stored with the audit.
\<close>

datatype signal_strength = SG_STRONGEST | SG_STRONG | SG_MEDIUM | SG_WEAK

fun strength_value :: "signal_strength \<Rightarrow> string" where
  "strength_value SG_STRONGEST = ''strongest''"
| "strength_value SG_STRONG = ''strong''"
| "strength_value SG_MEDIUM = ''medium''"
| "strength_value SG_WEAK = ''weak''"

datatype resolution_confidence = RC_HIGH | RC_MEDIUM | RC_LOW | RC_UNRESOLVED

fun confidence_value :: "resolution_confidence \<Rightarrow> string" where
  "confidence_value RC_HIGH = ''high''"
| "confidence_value RC_MEDIUM = ''medium''"
| "confidence_value RC_LOW = ''low''"
| "confidence_value RC_UNRESOLVED = ''unresolved''"

definition confidences :: "resolution_confidence list" where
  "confidences = [RC_HIGH, RC_MEDIUM, RC_LOW, RC_UNRESOLVED]"

datatype profile_status =
    PR_RESOLVED | PR_PARTIALLY_RESOLVED | PR_UNSUPPORTED | PR_CONFLICT | PR_UNRESOLVED | PR_AMBIGUOUS
  | PR_INCOMPATIBLE | PR_VERSION_UNKNOWN

fun profile_status_value :: "profile_status \<Rightarrow> string" where
  "profile_status_value PR_RESOLVED = ''resolved''"
| "profile_status_value PR_PARTIALLY_RESOLVED = ''partially_resolved''"
| "profile_status_value PR_UNSUPPORTED = ''unsupported''"
| "profile_status_value PR_CONFLICT = ''conflict''"
| "profile_status_value PR_UNRESOLVED = ''unresolved''"
| "profile_status_value PR_AMBIGUOUS = ''ambiguous''"
| "profile_status_value PR_INCOMPATIBLE = ''incompatible''"
| "profile_status_value PR_VERSION_UNKNOWN = ''version_unknown''"

definition profile_statuses :: "profile_status list" where
  "profile_statuses = [PR_RESOLVED, PR_PARTIALLY_RESOLVED, PR_UNSUPPORTED, PR_CONFLICT, PR_UNRESOLVED,
     PR_AMBIGUOUS, PR_INCOMPATIBLE, PR_VERSION_UNKNOWN]"

record evidence_signal =
  sg_artifact_id :: uuid
  sg_evidence_type :: artifact_evidence_type
  sg_line_number :: "nat option"
  sg_category :: string
  sg_signal_id :: string
  sg_strength :: signal_strength
  sg_extracted_fields :: "string list"
  sg_source_label :: "string option"
  sg_source_path :: "string list option"

record resolution_conflict =
  rx_code :: string
  rx_artifact_ids :: "uuid list"

text \<open>\<open>vendor\<close> to \<open>serial_number\<close> are strings or \<open>None\<close>, read back from JSON when pinned.\<close>

record profile_resolution_result =
  px_vendor :: pyval
  px_product_family :: pyval
  px_os :: pyval
  px_os_version :: pyval
  px_model :: pyval
  px_serial_number :: pyval
  px_device_class :: "device_class option"
  px_selected_profile_id :: "string option"
  px_selected_profile_version_id :: "string option"
  px_confidence :: resolution_confidence
  px_resolution_status :: profile_status
  px_supporting_signals :: "evidence_signal list"
  px_unresolved_reasons :: "string list"
  px_conflicts :: "resolution_conflict list"
  px_metadata :: json_object

fun opt_str :: "string option \<Rightarrow> pyval" where
  "opt_str None = PNone" | "opt_str (Some s) = PStr s"

definition provenance_item :: "evidence_signal \<Rightarrow> json_object" where
  "provenance_item s =
     [(''artifact_id'', PStr (uuid_str (sg_artifact_id s))), (''source'', opt_str (sg_source_label s)),
      (''line'', case sg_line_number s of None \<Rightarrow> PNone | Some n \<Rightarrow> PInt (int n)),
      (''basis'', PStr (sg_signal_id s)), (''confidence'', PStr (strength_value (sg_strength s)))]
     @ (case sg_source_path s of None \<Rightarrow> [] | Some p \<Rightarrow> [(''path'', PList (map PStr p))])"

text \<open>Every field that a signal extracted lists the signal, in the order of the signals.\<close>

definition identity_provenance :: "profile_resolution_result \<Rightarrow> json_object" where
  "identity_provenance r =
     map (\<lambda>(f, items). (f, PList items))
       (foldl (\<lambda>d (f, i). dict_append f i d) []
         (concat (map (\<lambda>s. map (\<lambda>f. (f, PDict (provenance_item s))) (sg_extracted_fields s)) (px_supporting_signals r))))"

definition to_persisted :: "profile_resolution_result \<Rightarrow> json_object" where
  "to_persisted r =
     [(''profile_id'', opt_str (px_selected_profile_id r)),
      (''profile_version_id'', opt_str (px_selected_profile_version_id r)),
      (''vendor'', px_vendor r), (''product_family'', px_product_family r), (''os'', px_os r),
      (''os_version'', px_os_version r), (''model'', px_model r), (''serial_number'', px_serial_number r),
      (''confidence'', PStr (confidence_value (px_confidence r))),
      (''resolution_status'', PStr (profile_status_value (px_resolution_status r))),
      (''identity_provenance'', PDict (identity_provenance r)),
      (''conflicts'', PList (map (\<lambda>c. PDict [(''code'', PStr (rx_code c)),
         (''artifact_ids'', PList (map (\<lambda>i. PStr (uuid_str i)) (rx_artifact_ids c)))]) (px_conflicts r))),
      (''metadata'', PDict (px_metadata r))]"

end
