(* ===== verification/Assessments.thy ===== *)
theory Assessments
  imports Compliance_Service Runtime_Rules
begin

text \<open>
  Assessment packs (\<open>assessment_packs/contracts.py\<close>, \<open>service.py\<close> and the validator of persisted
  obligations of \<open>catalog.py\<close>): the registry's validation of a pack, the choice of the packs of an
  audit, and the results of their obligations.  An \<open>AssessmentPackError\<close> is modelled by its code.
  SHA-256 is a parameter.
\<close>

section \<open>Contracts\<close>

datatype assessment_method = AM_AUTOMATIC | AM_MANUAL

fun method_value :: "assessment_method \<Rightarrow> string" where
  "method_value AM_AUTOMATIC = ''automatic''"
| "method_value AM_MANUAL = ''manual''"

datatype implementation_status = IM_IMPLEMENTED | IM_MANUAL | IM_UNIMPLEMENTED

fun implementation_value :: "implementation_status \<Rightarrow> string" where
  "implementation_value IM_IMPLEMENTED = ''implemented''"
| "implementation_value IM_MANUAL = ''manual''"
| "implementation_value IM_UNIMPLEMENTED = ''unimplemented''"

datatype obligation_applicability = OA_APPLICABLE | OA_NOT_APPLICABLE | OA_UNKNOWN

fun obligation_applicability_value :: "obligation_applicability \<Rightarrow> string" where
  "obligation_applicability_value OA_APPLICABLE = ''applicable''"
| "obligation_applicability_value OA_NOT_APPLICABLE = ''not_applicable''"
| "obligation_applicability_value OA_UNKNOWN = ''applicability_unknown''"

record assessment_result =
  rs_result_identity :: string
  rs_obligation_id :: uuid
  rs_applicability_status :: obligation_applicability
  rs_assessment_method :: assessment_method
  rs_implementation_status :: implementation_status
  rs_verdict :: "string option"
  rs_technical_finding_id :: "uuid option"
  rs_policy_digest :: string
  rs_details :: json_object

definition policy_digest :: "(string \<Rightarrow> string) \<Rightarrow> json_object \<Rightarrow> string" where
  "policy_digest sha parameters = sha (json_dump (PDict parameters))"

text \<open>\<open>counts\<close> of the summary; \<open>automatic_verdicts\<close> are the three last fields.\<close>

record coverage_counts =
  cc_selected :: nat
  cc_applicable :: nat
  cc_not_applicable :: nat
  cc_applicability_unknown :: nat
  cc_automatic_implemented :: nat
  cc_manual :: nat
  cc_unimplemented :: nat
  cc_pass :: nat
  cc_fail :: nat
  cc_unknown :: nat

definition count_verdict :: "string option \<Rightarrow> coverage_counts \<Rightarrow> coverage_counts" where
  "count_verdict v c =
     (if v = Some ''pass'' then c\<lparr>cc_pass := cc_pass c + 1\<rparr>
      else if v = Some ''fail'' then c\<lparr>cc_fail := cc_fail c + 1\<rparr>
      else if v = Some ''unknown'' then c\<lparr>cc_unknown := cc_unknown c + 1\<rparr>
      else c)"

definition count_applicability :: "obligation_applicability \<Rightarrow> coverage_counts \<Rightarrow> coverage_counts" where
  "count_applicability a c = (case a of
     OA_APPLICABLE \<Rightarrow> c\<lparr>cc_applicable := cc_applicable c + 1\<rparr>
   | OA_NOT_APPLICABLE \<Rightarrow> c\<lparr>cc_not_applicable := cc_not_applicable c + 1\<rparr>
   | OA_UNKNOWN \<Rightarrow> c\<lparr>cc_applicability_unknown := cc_applicability_unknown c + 1\<rparr>)"

definition count_result :: "assessment_result \<Rightarrow> coverage_counts \<Rightarrow> coverage_counts" where
  "count_result r c0 =
     (let c = count_applicability (rs_applicability_status r) c0 in
      if rs_implementation_status r = IM_UNIMPLEMENTED then c\<lparr>cc_unimplemented := cc_unimplemented c + 1\<rparr>
      else if rs_implementation_status r = IM_IMPLEMENTED \<and> rs_assessment_method r = AM_AUTOMATIC
      then count_verdict (rs_verdict r) (c\<lparr>cc_automatic_implemented := cc_automatic_implemented c + 1\<rparr>)
      else if rs_implementation_status r = IM_MANUAL \<or> rs_assessment_method r = AM_MANUAL
      then c\<lparr>cc_manual := cc_manual c + 1\<rparr>
      else c)"

definition coverage_counted :: "assessment_result list \<Rightarrow> coverage_counts" where
  "coverage_counted results = fold count_result results
     \<lparr>cc_selected = length results, cc_applicable = 0, cc_not_applicable = 0, cc_applicability_unknown = 0,
      cc_automatic_implemented = 0, cc_manual = 0, cc_unimplemented = 0, cc_pass = 0, cc_fail = 0, cc_unknown = 0\<rparr>"

abbreviation PNat :: "nat \<Rightarrow> pyval" where
  "PNat n \<equiv> PInt (int n)"

definition coverage_summary :: "assessment_result list \<Rightarrow> json_object" where
  "coverage_summary results =
     (let c = coverage_counted results in
      [(''selected_obligation_count'', PNat (cc_selected c)), (''applicable'', PNat (cc_applicable c)),
       (''not_applicable'', PNat (cc_not_applicable c)),
       (''applicability_unknown'', PNat (cc_applicability_unknown c)),
       (''automatic_implemented'', PNat (cc_automatic_implemented c)), (''manual'', PNat (cc_manual c)),
       (''unimplemented'', PNat (cc_unimplemented c)),
       (''automatic_verdicts'', PDict [(''pass'', PNat (cc_pass c)), (''fail'', PNat (cc_fail c)),
          (''unknown'', PNat (cc_unknown c))]),
       (''automatic'', PNat (cc_automatic_implemented c)), (''pass'', PNat (cc_pass c)),
       (''fail'', PNat (cc_fail c)), (''unknown'', PNat (cc_unknown c))])"

section \<open>The registry of packs\<close>

definition assessment_error :: "string \<Rightarrow> exc" where
  "assessment_error code = Exc AssessmentPackError code"

text \<open>\<open>a or b\<close>.\<close>

definition py_or :: "pyval \<Rightarrow> pyval \<Rightarrow> pyval" where
  "py_or a b = (if truthy a then a else b)"

definition pack_source_valid :: "assessment_pack_row \<Rightarrow> bool" where
  "pack_source_valid pack =
     (let source = ak_source_metadata pack;
          source_url = py_or (py_or (py_get source ''official_source_url'') (py_get source ''source_url''))
            (py_get source ''iso_open_data_url'');
          source_digest = py_or (py_get source ''source_sha256'') (py_get source ''olir_sha3_256'')
      in ak_family pack = ''TEST/INFRASTRUCTURE''
         \<or> ((case source_url of PStr s \<Rightarrow> prefix ''https://'' s | _ \<Rightarrow> False)
            \<and> (case source_digest of PStr s \<Rightarrow> 32 \<le> length s | _ \<Rightarrow> False)))"

definition valid_profile_names :: "pyval \<Rightarrow> bool" where
  "valid_profile_names profiles = (case profiles of
     PList (p # ps) \<Rightarrow> list_all (\<lambda>v. case v of PStr s \<Rightarrow> \<not> py_blank s | _ \<Rightarrow> False) (p # ps)
   | _ \<Rightarrow> False)"

definition same_profiles :: "pyval \<Rightarrow> pyval \<Rightarrow> exc + bool" where
  "same_profiles declared profiles = (case (declared, profiles) of
     (PList ds, PList ps) \<Rightarrow>
       and_then (require (list_all hashable ds) type_error) (\<lambda>_. Inr (set ds = set ps))
   | _ \<Rightarrow> Inr False)"

definition validate_assessment_pack :: "assessment_pack_row \<Rightarrow> exc + assessment_pack_row" where
  "validate_assessment_pack pack =
     (let invalid = assessment_error ''assessment_pack_invalid''; digest = py_lower (ak_content_digest pack)
      in and_then (require (ak_schema_version pack = ''1.0.0'' \<and> ak_assessment_pack_version_id pack \<noteq> 0
             \<and> \<not> py_blank (ak_pack_key pack) \<and> \<not> py_blank (ak_family pack) \<and> \<not> py_blank (ak_name pack)
             \<and> 1 \<le> ak_version pack \<and> valid_profile_names (ak_profile_version_ids pack)) invalid) (\<lambda>_.
         and_then (same_profiles (py_get (ak_applicability pack) ''profile_version_ids'')
             (ak_profile_version_ids pack)) (\<lambda>same.
         and_then (require (same \<and> length (ak_content_digest pack) = 64
             \<and> list_all (\<lambda>c. c \<in> set ''0123456789abcdef'') digest \<and> pack_source_valid pack) invalid) (\<lambda>_.
         Inr pack))))"

definition pack_visible :: "uuid \<Rightarrow> assessment_pack_row \<Rightarrow> bool" where
  "pack_visible organization_id pack =
     (ak_organization_id pack = Some organization_id \<or> ak_organization_id pack = None)"

definition get_assessment_pack :: "audit_store \<Rightarrow> uuid \<Rightarrow> uuid \<Rightarrow> exc + assessment_pack_row" where
  "get_assessment_pack db organization_id pack_id =
     (case find (\<lambda>p. ak_assessment_pack_version_id p = pack_id \<and> pack_visible organization_id p)
        (db_assessment_packs db) of
        None \<Rightarrow> Inl (assessment_error ''assessment_pack_not_found'')
      | Some p \<Rightarrow> validate_assessment_pack p)"

definition names_profile :: "string \<Rightarrow> assessment_pack_row \<Rightarrow> bool" where
  "names_profile profile_version_id pack =
     (case ak_profile_version_ids pack of PList ps \<Rightarrow> PStr profile_version_id \<in> set ps | _ \<Rightarrow> False)"

definition compatible_packs :: "audit_store \<Rightarrow> uuid \<Rightarrow> string \<Rightarrow> exc + assessment_pack_row list" where
  "compatible_packs db organization_id profile_version_id =
     and_then (map_res validate_assessment_pack
       (filter (\<lambda>p. ak_status p = ''published'' \<and> pack_visible organization_id p) (db_assessment_packs db))) (\<lambda>packs.
     Inr (sort_key (\<lambda>p. (ak_family p, ak_name p, ak_version p, uuid_str (ak_assessment_pack_version_id p)))
       (filter (names_profile profile_version_id) packs)))"

definition validate_requested_pack :: "audit_store \<Rightarrow> uuid \<Rightarrow> uuid \<Rightarrow> exc + assessment_pack_row" where
  "validate_requested_pack db organization_id pack_id =
     and_then (get_assessment_pack db organization_id pack_id) (\<lambda>p.
     and_then (require (ak_status p = ''published'') (assessment_error ''assessment_pack_unavailable'')) (\<lambda>_.
     Inr p))"

definition FRAMEWORK_FAMILIES :: "(string \<times> string) list" where
  "FRAMEWORK_FAMILIES = [
     (''cis'', ''CIS Benchmark''), (''cis_benchmarks'', ''CIS Benchmark''), (''cis benchmarks'', ''CIS Benchmark''),
     (''nist'', ''NIST SP 800-53''), (''nist_sp_800_53'', ''NIST SP 800-53''), (''nist sp 800-53'', ''NIST SP 800-53''),
     (''disa'', ''DISA SRG''), (''disa_stig_srg'', ''DISA SRG''), (''disa stig/srg'', ''DISA SRG''),
     (''iso'', ''ISO/IEC 27001 Alignment''), (''iso_iec_27001'', ''ISO/IEC 27001 Alignment''),
     (''iso/iec 27001'', ''ISO/IEC 27001 Alignment'')]"

section \<open>Pinning the packs of an audit\<close>

text \<open>\<open>max(xs, key=f)\<close>: the first greatest element.\<close>

definition first_max :: "('x \<Rightarrow> 'k::linorder) \<Rightarrow> 'x \<Rightarrow> 'x list \<Rightarrow> 'x" where
  "first_max f x xs = foldl (\<lambda>b y. if f b < f y then y else b) x xs"

definition pack_age :: "assessment_pack_row \<Rightarrow> int \<times> int" where
  "pack_age p = (ak_version p, case ak_published_at p of None \<Rightarrow> ak_created_at p | Some t \<Rightarrow> t)"

definition select_framework ::
  "assessment_pack_row list \<Rightarrow> pyval \<Rightarrow> string list \<times> assessment_pack_row list
    \<Rightarrow> exc + string list \<times> assessment_pack_row list" where
  "select_framework compatible requested_family st =
     (case requested_family of
        PStr name \<Rightarrow>
          (case dict_get FRAMEWORK_FAMILIES (py_lower (py_strip name)) of
             None \<Rightarrow> Inl (assessment_error ''framework_unsupported'')
           | Some family \<Rightarrow>
               and_then (require (family \<notin> set (fst st)) (assessment_error ''framework_duplicate'')) (\<lambda>_.
               case filter (\<lambda>p. ak_family p = family) compatible of
                 [] \<Rightarrow> Inl (assessment_error ''assessment_pack_incompatible'')
               | p # ps \<Rightarrow> Inr (fst st @ [family], snd st @ [first_max pack_age p ps])))
      | _ \<Rightarrow> Inl attribute_error)"

definition selected_packs :: "audit_store \<Rightarrow> audit \<Rightarrow> string \<Rightarrow> exc + assessment_pack_row list option" where
  "selected_packs db a profile_version_id =
     (case py_get (au_version_refs a) ''assessment_pack_version_id'' of
        PNone \<Rightarrow>
          if au_selected_frameworks a = [] then Inr None
          else and_then (compatible_packs db (au_organization_id a) profile_version_id) (\<lambda>compatible.
            and_then (fold_res (select_framework compatible) (au_selected_frameworks a) ([], [])) (\<lambda>st.
            Inr (Some (snd st))))
      | requested \<Rightarrow>
          (case uuid_of_pyval requested of
             None \<Rightarrow> Inl (assessment_error ''assessment_pack_invalid'')
           | Some pack_id \<Rightarrow>
               and_then (validate_requested_pack db (au_organization_id a) pack_id) (\<lambda>p. Inr (Some [p]))))"

definition pinned_identity :: "assessment_pack_row \<Rightarrow> json_object" where
  "pinned_identity p =
     [(''assessment_pack_version_id'', PStr (uuid_str (ak_assessment_pack_version_id p))),
      (''pack_key'', PStr (ak_pack_key p)), (''family'', PStr (ak_family p)), (''name'', PStr (ak_name p)),
      (''version'', PInt (ak_version p)), (''source_version_label'', PStr (ak_source_version_label p)),
      (''content_digest'', PStr (ak_content_digest p)), (''source_metadata'', PDict (ak_source_metadata p))]"

text \<open>The pin of an audit that asks for one pack, and of one of its frameworks.\<close>

definition pin_requested ::
  "audit \<Rightarrow> string \<Rightarrow> assessment_pack_row \<Rightarrow> audit_store \<Rightarrow> exc + audit_store" where
  "pin_requested a profile_version_id p db =
     (case find (\<lambda>r. aa_audit_id r = au_audit_id a) (db_assessments db) of
        None \<Rightarrow> Inr (db\<lparr>db_assessments := db_assessments db @
          [\<lparr>aa_audit_id = au_audit_id a, aa_organization_id = au_organization_id a,
            aa_assessment_pack_version_id = ak_assessment_pack_version_id p,
            aa_profile_version_id = profile_version_id, aa_pinned_identity = pinned_identity p\<rparr>]\<rparr>)
      | Some r \<Rightarrow>
          and_then (require (aa_assessment_pack_version_id r = ak_assessment_pack_version_id p
              \<and> aa_profile_version_id r = profile_version_id)
            (assessment_error ''assessment_pack_conflict'')) (\<lambda>_. Inr db))"

definition pin_framework ::
  "audit \<Rightarrow> string \<Rightarrow> uuid \<times> assessment_pack_row \<Rightarrow> audit_store \<Rightarrow> exc + audit_store" where
  "pin_framework a profile_version_id fp db =
     (case find (\<lambda>r. fw_audit_id r = au_audit_id a
            \<and> fw_assessment_pack_version_id r = ak_assessment_pack_version_id (snd fp))
        (db_framework_assessments db) of
        None \<Rightarrow> Inr (db\<lparr>db_framework_assessments := db_framework_assessments db @
          [\<lparr>fw_audit_framework_assessment_id = fst fp, fw_audit_id = au_audit_id a,
            fw_organization_id = au_organization_id a,
            fw_assessment_pack_version_id = ak_assessment_pack_version_id (snd fp),
            fw_profile_version_id = profile_version_id, fw_pinned_identity = pinned_identity (snd fp)\<rparr>]\<rparr>)
      | Some _ \<Rightarrow> Inr db)"

text \<open>\<open>fresh i\<close> is the identifier that a new pin of the \<open>i\<close>th pack gets; the result of the call is not used.\<close>

definition pin_assessment ::
  "(nat \<Rightarrow> uuid) \<Rightarrow> audit \<Rightarrow> string \<Rightarrow> audit_store \<Rightarrow> exc + audit_store" where
  "pin_assessment fresh a profile_version_id db =
     and_then (selected_packs db a profile_version_id) (\<lambda>chosen.
     case chosen of
       None \<Rightarrow> Inr db
     | Some packs \<Rightarrow>
         and_then (require (list_all (names_profile profile_version_id) packs)
           (assessment_error ''assessment_pack_incompatible'')) (\<lambda>_.
         and_then (if py_get (au_version_refs a) ''assessment_pack_version_id'' \<noteq> PNone
             then fold_res (pin_requested a profile_version_id) packs db
             else fold_res (pin_framework a profile_version_id) (zip (map fresh [0..<length packs]) packs) db) (\<lambda>db'.
         Inr (update_audit (au_audit_id a) (\<lambda>x. x\<lparr>au_version_refs :=
             dict_put ''assessment_pack_version_ids''
               (PList (map (\<lambda>p. PStr (uuid_str (ak_assessment_pack_version_id p))) packs))
               (au_version_refs a)\<rparr>) db'))))"

end
