(* ===== verification/Audit_Service.thy ===== *)
theory Audit_Service
  imports Snapshots Resolution_Models Assessments
begin

text \<open>
  Audits of a snapshot (\<open>audit/service.py\<close>): creation, submission, batches, the check of the
  snapshot's evidence, and the storing of a profile resolution.  Each operation is a transaction on
  the rows it locks.  Errors are modelled by their code.
\<close>

section \<open>Evidence\<close>

text \<open>The artifacts of the snapshot in the order of their identifiers, if they are what it recorded.\<close>

definition validate_snapshot_evidence ::
  "(string \<Rightarrow> string) \<Rightarrow> audit_store \<Rightarrow> snapshot \<Rightarrow> exc + artifact list" where
  "validate_snapshot_evidence sha db s =
     (let artifacts = sort_key af_artifact_id (members db (sn_snapshot_id s)) in
      and_then (require (artifacts \<noteq> []
          \<and> list_all (\<lambda>x. af_organization_id x = sn_organization_id s \<and> af_status x \<in> ELIGIBLE_ARTIFACT_STATUSES) artifacts)
        (Exc AuditValidationError ''snapshot_evidence_invalid'')) (\<lambda>_.
      and_then (require (sn_artifact_count s = length artifacts
          \<and> sn_snapshot_hash s = calculate_snapshot_hash sha (map af_sha256 artifacts))
        (Exc AuditValidationError ''snapshot_evidence_incoherent'')) (\<lambda>_.
      Inr artifacts)))"

section \<open>Creation\<close>

record audit_create =
  ac_snapshot_id :: uuid
  ac_selected_frameworks :: "string list"
  ac_assessment_pack_version_id :: "uuid option"

definition validate_framework_intent :: "string list \<Rightarrow> exc + string list" where
  "validate_framework_intent values =
     (let normalized = map py_strip values in
      and_then (require (\<not> list_ex (\<lambda>v. v = [] \<or> length v > 100) normalized)
        (Exc ValueError ''Framework identifiers must contain 1 to 100 characters'')) (\<lambda>_.
      and_then (require (distinct normalized) (Exc ValueError ''Framework identifiers must be unique'')) (\<lambda>_.
      Inr normalized)))"

text \<open>\<open>except AssessmentPackError as error: raise AuditValidationError(error.code, ..)\<close>.\<close>

definition as_error :: "exc_class \<Rightarrow> exc_class \<Rightarrow> exc + 'a \<Rightarrow> exc + 'a" where
  "as_error caught raised m = (case m of
     Inl e \<Rightarrow> Inl (if exc_class e = caught then Exc raised (exc_message e) else e) | Inr a \<Rightarrow> Inr a)"

definition new_audit :: "uuid \<Rightarrow> int \<Rightarrow> user \<Rightarrow> snapshot \<Rightarrow> audit_create \<Rightarrow> audit" where
  "new_audit fresh now u s rq =
     \<lparr>au_audit_id = fresh, au_organization_id = us_organization_id u, au_device_id = sn_device_id s,
      au_snapshot_id = sn_snapshot_id s, au_audit_batch_id = None, au_revision_number = 1,
      au_previous_audit_id = None, au_reevaluation_reason = RR_INITIAL, au_status = AU_DRAFT,
      au_processing_stage = None, au_selected_frameworks = map PStr (ac_selected_frameworks rq),
      au_version_refs = (case ac_assessment_pack_version_id rq of
        None \<Rightarrow> [] | Some i \<Rightarrow> [(''assessment_pack_version_id'', PStr (uuid_str i))]),
      au_profile_resolution = [], au_verdict_counts = [], au_severity_counts = [], au_coverage = [],
      au_started_at = None, au_completed_at = None, au_created_at = now, au_created_by = Some (us_user_id u),
      au_schema_version = ''1.0.0''\<rparr>"

definition create_audit ::
  "(string \<Rightarrow> string) \<Rightarrow> uuid \<Rightarrow> int \<Rightarrow> user \<Rightarrow> audit_create \<Rightarrow> audit_store \<Rightarrow> exc + audit \<times> audit_store" where
  "create_audit sha fresh now u rq db =
     (case find (\<lambda>s. sn_snapshot_id s = ac_snapshot_id rq \<and> sn_organization_id s = us_organization_id u)
        (db_snapshots db) of
        None \<Rightarrow> Inl (Exc AuditNotFoundError ''snapshot_not_found'')
      | Some s \<Rightarrow>
          and_then (require (sn_status s = SS_READY) (Exc AuditConflictError ''snapshot_not_ready'')) (\<lambda>_.
          and_then (require (list_ex (\<lambda>d. dv_device_id d = sn_device_id s
              \<and> dv_organization_id d = us_organization_id u) (db_devices db))
            (Exc AuditValidationError ''snapshot_identity_invalid'')) (\<lambda>_.
          and_then (validate_snapshot_evidence sha db s) (\<lambda>_.
          and_then (case ac_assessment_pack_version_id rq of
              None \<Rightarrow> Inr ()
            | Some pack_id \<Rightarrow> as_error AssessmentPackError AuditValidationError
                (and_then (validate_requested_pack db (us_organization_id u) pack_id) (\<lambda>_. Inr ()))) (\<lambda>_.
          let a = new_audit fresh now u s rq
          in and_then (require (\<not> list_ex (\<lambda>r. au_snapshot_id r = sn_snapshot_id s \<and> au_revision_number r = 1)
                 (db_audits db)) (Exc AuditConflictError ''initial_audit_exists'')) (\<lambda>_.
             and_then (raise_from (\<lambda>c. c = SQLAlchemyError) (Exc AuditConflictError ''initial_audit_exists'')
               (insert_row audit_admitted a (db_audits db))) (\<lambda>rows.
             Inr (a, db\<lparr>db_audits := rows\<rparr>))))))))"

section \<open>Submission\<close>

definition submission_failed :: exc where
  "submission_failed = Exc AuditInfrastructureError ''audit_submission_failed''"

text \<open>\<open>job_id\<close> is the identifier of the new job.\<close>

definition start_audit ::
  "(string \<Rightarrow> string) \<Rightarrow> uuid \<Rightarrow> int \<Rightarrow> user \<Rightarrow> uuid \<Rightarrow> audit_store \<Rightarrow> exc + job \<times> audit_store" where
  "start_audit sha job_id now u audit_id db =
     (case find_audit audit_id (us_organization_id u) db of
        None \<Rightarrow> Inl (Exc AuditNotFoundError ''audit_not_found'')
      | Some a \<Rightarrow>
          and_then (require (au_status a = AU_DRAFT) (Exc AuditConflictError ''audit_not_draft'')) (\<lambda>_.
          case get_snapshot_row (au_snapshot_id a) db of
            None \<Rightarrow> Inl (Exc AuditValidationError ''audit_snapshot_invalid'')
          | Some s \<Rightarrow>
              and_then (require (sn_organization_id s = au_organization_id a \<and> sn_device_id s = au_device_id a)
                (Exc AuditValidationError ''audit_snapshot_invalid'')) (\<lambda>_.
              and_then (require (sn_status s = SS_READY) (Exc AuditConflictError ''snapshot_not_ready'')) (\<lambda>_.
              and_then (validate_snapshot_evidence sha db s) (\<lambda>_.
              and_then (require (job_id \<notin> jb_job_id ` set (db_jobs db)) submission_failed) (\<lambda>_.
              and_then (raise_from (\<lambda>c. c = JobError) submission_failed
                (enqueue_job job_id now JT_AUDIT [] (Some audit_id) (Some (au_device_id a)) None (db_jobs db)))
                (\<lambda>(j, jobs).
              Inr (j, update_audit audit_id (\<lambda>x. x\<lparr>au_status := AU_QUEUED, au_processing_stage := None,
                    au_started_at := None, au_completed_at := None\<rparr>)
                  (update_snapshot_row (sn_snapshot_id s) (\<lambda>s. s\<lparr>sn_status := SS_LOCKED\<rparr>)
                    (db\<lparr>db_jobs := jobs\<rparr>))))))))))"

section \<open>Batches\<close>

record batch_item =
  bi_request :: audit_create
  bi_device_id :: uuid

datatype batch_result =
    BatchAccepted uuid uuid uuid uuid
  | BatchRejected uuid uuid string

definition is_audit_error :: "exc_class \<Rightarrow> bool" where
  "is_audit_error c = (c \<in> {AuditNotFoundError, AuditConflictError, AuditValidationError, AuditInfrastructureError})"

text \<open>
  One item.  An audit that was created stays, as a draft, when it cannot be submitted: each call
  commits on its own.
\<close>

definition batch_audit ::
  "(string \<Rightarrow> string) \<Rightarrow> uuid \<Rightarrow> uuid \<Rightarrow> int \<Rightarrow> user \<Rightarrow> batch_item \<Rightarrow> audit_store
    \<Rightarrow> (exc + uuid \<times> uuid) \<times> audit_store" where
  "batch_audit sha fresh job_id now u it db =
     (case find (\<lambda>s. sn_snapshot_id s = ac_snapshot_id (bi_request it) \<and> sn_organization_id s = us_organization_id u)
        (db_snapshots db) of
        None \<Rightarrow> (Inl (Exc AuditNotFoundError ''snapshot_not_found''), db)
      | Some s \<Rightarrow>
          if sn_device_id s \<noteq> bi_device_id it
          then (Inl (Exc AuditValidationError ''snapshot_device_mismatch''), db)
          else (case create_audit sha fresh now u (bi_request it) db of
              Inl e \<Rightarrow> (Inl e, db)
            | Inr (a, db1) \<Rightarrow>
                (case start_audit sha job_id now u (au_audit_id a) db1 of
                   Inl e \<Rightarrow> (Inl e, db1)
                 | Inr (j, db2) \<Rightarrow> (Inr (au_audit_id a, jb_job_id j), db2))))"

text \<open>The items in order; \<open>ids\<close> gives each item the identifiers of its audit and job.\<close>

fun create_batch_audits ::
  "(string \<Rightarrow> string) \<Rightarrow> int \<Rightarrow> user \<Rightarrow> ((uuid \<times> uuid) \<times> batch_item) list \<Rightarrow> audit_store
    \<Rightarrow> (exc + batch_result list) \<times> audit_store" where
  "create_batch_audits sha now u [] db = (Inr [], db)"
| "create_batch_audits sha now u (((fresh, job_id), it) # items) db =
     (let snapshot_id = ac_snapshot_id (bi_request it) in
      case batch_audit sha fresh job_id now u it db of
        (Inr (audit_id, queued_job), db') \<Rightarrow>
          (let (rest, db'') = create_batch_audits sha now u items db'
           in (and_then rest (\<lambda>rs. Inr (BatchAccepted (bi_device_id it) snapshot_id audit_id queued_job # rs)), db''))
      | (Inl e, db') \<Rightarrow>
          if is_audit_error (exc_class e)
          then (let (rest, db'') = create_batch_audits sha now u items db'
                in (and_then rest (\<lambda>rs. Inr (BatchRejected (bi_device_id it) snapshot_id (exc_message e) # rs)), db''))
          else (Inl e, db'))"

section \<open>Reading\<close>

definition list_audits :: "audit_store \<Rightarrow> user \<Rightarrow> audit list" where
  "list_audits db u = sort_key (\<lambda>a. (- au_created_at a, au_audit_id a))
     (filter (\<lambda>a. au_organization_id a = us_organization_id u) (db_audits db))"

definition get_audit :: "audit_store \<Rightarrow> user \<Rightarrow> uuid \<Rightarrow> exc + audit" where
  "get_audit db u audit_id = (case find_audit audit_id (us_organization_id u) db of
     None \<Rightarrow> Inl (Exc AuditNotFoundError ''audit_not_found'') | Some a \<Rightarrow> Inr a)"

definition get_audit_job :: "audit_store \<Rightarrow> uuid \<Rightarrow> job option" where
  "get_audit_job db audit_id =
     (case sort_key (\<lambda>j. (- jb_created_at j, jb_job_id j))
        (filter (\<lambda>j. jb_audit_id j = Some audit_id \<and> jb_job_type j = JT_AUDIT) (db_jobs db)) of
        [] \<Rightarrow> None | j # _ \<Rightarrow> Some j)"

section \<open>Storing a profile resolution\<close>

text \<open>
  The two transactions of \<open>resolve_audit_profile\<close>: what it reads before the evidence is examined
  without locks, and the one that stores the result if the evidence is still the same.
\<close>

definition audit_resources :: "audit_store \<Rightarrow> audit \<Rightarrow> (snapshot \<times> device) option" where
  "audit_resources db a =
     (case (get_snapshot_row (au_snapshot_id a) db, get_device_row (au_device_id a) db) of
        (Some s, Some d) \<Rightarrow>
          if sn_organization_id s = au_organization_id a \<and> sn_device_id s = au_device_id a
             \<and> dv_organization_id d = au_organization_id a then Some (s, d) else None
      | _ \<Rightarrow> None)"

definition resolution_evidence ::
  "(string \<Rightarrow> string) \<Rightarrow> uuid \<Rightarrow> uuid \<Rightarrow> audit_store \<Rightarrow> exc + uuid \<times> uuid \<times> artifact list" where
  "resolution_evidence sha audit_id organization_id db =
     (case find_audit audit_id organization_id db of
        None \<Rightarrow> Inl (Exc AuditNotFoundError ''audit_not_found'')
      | Some a \<Rightarrow>
          (case audit_resources db a of
             None \<Rightarrow> Inl (Exc AuditValidationError ''audit_resource_inconsistent'')
           | Some (s, d) \<Rightarrow>
               and_then (require (sn_status s = SS_READY \<or> sn_status s = SS_LOCKED)
                 (Exc AuditConflictError ''snapshot_not_resolvable'')) (\<lambda>_.
               and_then (validate_snapshot_evidence sha db s) (\<lambda>artifacts.
               Inr (sn_snapshot_id s, dv_device_id d, artifacts)))))"

definition applicability_of :: "profile_resolution_result \<Rightarrow> string" where
  "applicability_of r =
     (if truthy (opt_str (px_selected_profile_version_id r)) then ''compatible''
      else if truthy (px_os r) \<and> \<not> truthy (px_os_version r) then ''version_unknown''
      else if truthy (px_os_version r) then ''incompatible'' else ''unsupported'')"

definition resolution_row ::
  "uuid \<Rightarrow> uuid \<Rightarrow> uuid \<Rightarrow> profile_resolution_result \<Rightarrow> uuid list \<Rightarrow> (uuid \<times> string) list \<Rightarrow> pyval list
    \<Rightarrow> profile_decision" where
  "resolution_row organization_id snapshot_id audit_id r documents issues preview =
     \<lparr>pd_organization_id = organization_id, pd_snapshot_id = snapshot_id, pd_audit_id = audit_id,
      pd_resolution_status = profile_status_value (px_resolution_status r),
      pd_selected_profile_id = px_selected_profile_id r,
      pd_selected_profile_version_id = px_selected_profile_version_id r,
      pd_applicability_status = applicability_of r, pd_identity_provenance = identity_provenance r,
      pd_evidence_summary = [(''artifact_ids'', PList (map (\<lambda>i. PStr (uuid_str i)) documents)),
        (''issues'', PList (map (\<lambda>(i, c). PDict [(''artifact_id'', PStr (uuid_str i)), (''code'', PStr c)]) issues)),
        (''structural_preview'', PList preview)]\<rparr>"

text \<open>A host name that does not fit its column fails the transaction.\<close>

definition found_hostname :: "profile_resolution_result \<Rightarrow> string option" where
  "found_hostname r = (case py_get (px_metadata r) ''hostname'' of PStr (c # cs) \<Rightarrow> Some (c # cs) | _ \<Rightarrow> None)"

definition set_hostname :: "int \<Rightarrow> string option \<Rightarrow> device \<Rightarrow> device" where
  "set_hostname now h d = (case h of None \<Rightarrow> d
     | Some n \<Rightarrow> flush_device now d (d\<lparr>dv_latest_hostname := Some n\<rparr>))"

definition store_resolution ::
  "(string \<Rightarrow> string) \<Rightarrow> int \<Rightarrow> uuid \<Rightarrow> uuid \<Rightarrow> uuid \<Rightarrow> uuid \<Rightarrow> (uuid \<times> string) list \<Rightarrow> profile_resolution_result
    \<Rightarrow> uuid list \<Rightarrow> (uuid \<times> string) list \<Rightarrow> pyval list \<Rightarrow> audit_store \<Rightarrow> exc + audit_store" where
  "store_resolution sha now audit_id organization_id snapshot_id device_id expected r documents issues preview db =
     (let changed = Exc AuditValidationError ''audit_resource_changed'' in
      case find_audit audit_id organization_id db of
        None \<Rightarrow> Inl (Exc AuditNotFoundError ''audit_not_found'')
      | Some a \<Rightarrow>
          (case (get_snapshot_row snapshot_id db, get_device_row device_id db) of
             (Some s, Some d) \<Rightarrow>
               and_then (require (au_snapshot_id a = snapshot_id \<and> au_device_id a = device_id
                   \<and> sn_organization_id s = organization_id \<and> sn_device_id s = device_id
                   \<and> dv_organization_id d = organization_id) changed) (\<lambda>_.
               and_then (validate_snapshot_evidence sha db s) (\<lambda>artifacts.
               and_then (require (map (\<lambda>x. (af_artifact_id x, af_sha256 x)) artifacts = expected)
                 (Exc AuditValidationError ''snapshot_evidence_changed'')) (\<lambda>_.
               let pinned = py_get (au_version_refs a) ''device_profile_version_id'' in
               and_then (require (pinned = PNone \<or> pinned = opt_str (px_selected_profile_version_id r))
                 (Exc AuditConflictError ''audit_profile_version_conflict'')) (\<lambda>_.
               and_then (require (case found_hostname r of None \<Rightarrow> True | Some h \<Rightarrow> length h \<le> 255)
                 (Exc AuditInfrastructureError ''profile_resolution_persistence_failed'')) (\<lambda>_.
               Inr (update_audit audit_id (\<lambda>x. x\<lparr>au_profile_resolution :=
                     dict_put ''structural_preview'' (PList preview) (to_persisted r)\<rparr>)
                   (db\<lparr>db_devices := update_rows dv_device_id device_id (set_hostname now (found_hostname r)) (db_devices db),
                      db_decisions := db_decisions db @
                        [resolution_row organization_id snapshot_id audit_id r documents issues preview]\<rparr>)))))))
           | _ \<Rightarrow> Inl changed))"

end
