(* ===== verification/Assessment_Results.thy ===== *)
theory Assessment_Results
  imports Assessments
begin

text \<open>
  The results of the obligations of the pinned packs (\<open>persist_assessment_results\<close> of
  \<open>assessment_packs/service.py\<close>): the outcome of one obligation from the persisted states and
  findings, the rows, and the coverage stored with the audit.
\<close>

section \<open>Evaluators\<close>

text \<open>\<open>packs\<close> is the table \<open>RULE_PACK_BY_PROFILE\<close>.\<close>

type_synonym rule_table = "(string \<times> rule_pack option) list"

definition assessment_rule ::
  "rule_table \<Rightarrow> audit_store \<Rightarrow> uuid \<Rightarrow> string \<Rightarrow> string \<Rightarrow> exc + rule_definition" where
  "assessment_rule packs db organization_id rule_id profile_version_id =
     raise_from (\<lambda>c. c = RuntimeRuleError) (assessment_error ''assessment_evaluator_unavailable'')
       (runtime_rule_for packs db organization_id rule_id profile_version_id)"

definition evaluator_of :: "obligation_row \<Rightarrow> string" where
  "evaluator_of ob = (case ob_evaluator_rule_id ob of None \<Rightarrow> [] | Some r \<Rightarrow> r)"

definition fields_covered :: "string \<Rightarrow> pyval list \<Rightarrow> bool" where
  "fields_covered profile_version_id required =
     (case dict_get PROFILE_REGISTRY profile_version_id of
        None \<Rightarrow> True
      | Some profile \<Rightarrow>
          list_all (\<lambda>v. is_str v \<and> (case dict_get (pm_coverage_manifest profile) ''canonical_fields'' of
            Some (PList supported) \<Rightarrow> v \<in> set supported | _ \<Rightarrow> False)) required)"

definition automatic_evidence_supported ::
  "rule_table \<Rightarrow> audit_store \<Rightarrow> uuid \<Rightarrow> string \<Rightarrow> obligation_row \<Rightarrow> bool" where
  "automatic_evidence_supported packs db organization_id profile_version_id ob =
     (case py_get (ob_policy_parameters ob) ''required_canonical_fields'' of
        PList (v # vs) \<Rightarrow> fields_covered profile_version_id (v # vs)
      | _ \<Rightarrow>
          (case assessment_rule packs db organization_id (evaluator_of ob) profile_version_id of
             Inl _ \<Rightarrow> False
           | Inr rule \<Rightarrow>
               rd_required_effective_states rule \<noteq> []
               \<and> fields_covered profile_version_id (map PStr (rd_required_effective_states rule))))"

section \<open>One obligation\<close>

definition validate_persisted_obligation :: "obligation_row \<Rightarrow> exc + unit" where
  "validate_persisted_obligation ob =
     and_then (require (list_all (\<lambda>s. \<not> py_blank s) [ob_framework_version ob, ob_source_url ob, ob_source_digest ob,
         ob_control_id ob, ob_title ob, ob_severity ob, ob_scope ob])
       (Exc ValueError ''Catalog obligation provenance is incomplete'')) (\<lambda>_.
     require (prefix ''https://'' (ob_source_url ob) \<and> 32 \<le> length (ob_source_digest ob))
       (Exc ValueError ''Catalog obligation provenance is invalid''))"

text \<open>\<open>x in v\<close> of a JSON value.\<close>

fun py_contains :: "pyval \<Rightarrow> string \<Rightarrow> exc + bool" where
  "py_contains (PList vs) s = Inr (PStr s \<in> set vs)"
| "py_contains (PDict d) s = Inr (s \<in> fst ` set d)"
| "py_contains (PStr t) s = Inr (py_in s t)"
| "py_contains _ s = Inl type_error"

definition base_details :: "assessment_pack_row \<Rightarrow> obligation_row \<Rightarrow> json_object" where
  "base_details pack ob =
     [(''title'', PStr (ob_title ob)), (''framework'', PStr (ak_family pack)),
      (''framework_version'', PStr (ob_framework_version ob)), (''control_id'', PStr (ob_control_id ob)),
      (''severity'', PStr (ob_severity ob)), (''scope'', PStr (ob_scope ob)),
      (''source_url'', PStr (ob_source_url ob)), (''source_digest'', PStr (ob_source_digest ob))]"

fun resolution_value :: "resolution_status \<Rightarrow> string" where
  "resolution_value RESOLVED = ''resolved''"
| "resolution_value UNKNOWN = ''unknown''"
| "resolution_value CONFLICTING = ''conflicting''"

definition state_details :: "effective_state \<Rightarrow> json_object" where
  "state_details s =
     [(''field_id'', PStr (ef_field_id s)), (''scope'', PDict (scope_to_dict (ef_scope s))),
      (''value'', case ef_effective_value s of None \<Rightarrow> PNone | Some v \<Rightarrow> PDict v),
      (''resolution_status'', PStr (resolution_value (ef_resolution_status s))),
      (''source_fact_ids'', PList (map (\<lambda>i. PStr (uuid_str i)) (ef_source_fact_ids s))),
      (''resolution_trace'', PList (ef_resolution_trace s))]"

definition unknown_outcome :: "string \<Rightarrow> json_object \<Rightarrow> string option \<times> json_object" where
  "unknown_outcome reason details = (Some ''unknown'', dict_put ''unknown_reason'' (PStr reason) details)"

definition obligation_parameter :: "json_object \<Rightarrow> json_object \<Rightarrow> exc + pyval" where
  "obligation_parameter policy condition =
     (let p = py_get condition ''parameter'' in
      if \<not> truthy p then Inr PNone
      else (case p of
          PStr name \<Rightarrow> Inr (py_get policy name)
        | _ \<Rightarrow> and_then (require (hashable p) type_error) (\<lambda>_. Inr PNone)))"

text \<open>The only state of the field decides, with the expectation of the obligation in place of the rule's.\<close>

definition state_outcome ::
  "(uuid \<times> pyval) list \<Rightarrow> rule_definition \<Rightarrow> json_object \<Rightarrow> effective_state \<Rightarrow> json_object
    \<Rightarrow> exc + string option \<times> json_object" where
  "state_outcome evidence rule policy s details0 =
     and_then (state_evidence evidence s) (\<lambda>refs.
     let details = dict_put ''evidence_refs'' (PList (map PDict refs))
           (dict_put ''effective_state'' (PDict (state_details s)) details0)
     in if ef_resolution_status s \<noteq> RESOLVED
        then Inr (unknown_outcome (reason_value (case ef_unresolved_reason s of
               None \<Rightarrow> UR_CONFLICTING_EVIDENCE | Some r \<Rightarrow> r)) details)
        else
          (let condition = (case dict_get policy ''expected'' of
               None \<Rightarrow> rd_condition rule | Some e \<Rightarrow> dict_put ''expected'' e (rd_condition rule))
           in case and_then (obligation_parameter policy condition)
                (evaluate_condition (rule\<lparr>rd_condition := condition\<rparr>) (ef_effective_value s)) of
                Inr v \<Rightarrow> Inr (Some (verdict_value v), details)
              | Inl e \<Rightarrow> if is_evaluation_error (exc_class e)
                  then Inr (unknown_outcome ''assessment_evaluation_error'' details) else Inl e))"

definition chosen_finding :: "finding list \<Rightarrow> string \<Rightarrow> finding option" where
  "chosen_finding findings rule_id =
     (let fs = filter (\<lambda>f. fi_rule_id f = rule_id) findings in
      case find (\<lambda>f. fi_verdict f = VD_UNKNOWN) fs of
        Some f \<Rightarrow> Some f
      | None \<Rightarrow> (case fs of [] \<Rightarrow> None | f # _ \<Rightarrow> Some f))"

text \<open>
  Several native scopes are never turned into one claim on the device: only a single state of the
  field decides.
\<close>

definition field_verdict ::
  "(uuid \<times> pyval) list \<Rightarrow> effective_state list \<Rightarrow> rule_definition \<Rightarrow> json_object \<Rightarrow> json_object
    \<Rightarrow> exc + string option \<times> json_object" where
  "field_verdict evidence states rule policy details =
     (case filter (\<lambda>s. ef_field_id s \<in> set (rd_required_effective_states rule)) states of
        [] \<Rightarrow> Inr (unknown_outcome ''missing_evidence'' details)
      | [s] \<Rightarrow> state_outcome evidence rule policy s details
      | _ \<Rightarrow> Inr (unknown_outcome ''ambiguous_scope'' details))"

definition automatic_verdict ::
  "(uuid \<times> pyval) list \<Rightarrow> effective_state list \<Rightarrow> finding option \<Rightarrow> rule_definition \<Rightarrow> json_object
    \<Rightarrow> json_object \<Rightarrow> exc + string option \<times> json_object" where
  "automatic_verdict evidence states found rule policy details =
     (case found of
        Some f \<Rightarrow>
          if fi_verdict f = VD_UNKNOWN
          then Inr (unknown_outcome (reason_value (case fi_unknown_reason f of
                 None \<Rightarrow> UR_UNKNOWN_SEMANTICS | Some r \<Rightarrow> r))
               (dict_put ''evidence_refs'' (PList (fi_evidence_refs f)) details))
          else field_verdict evidence states rule policy details
      | None \<Rightarrow> field_verdict evidence states rule policy details)"

text \<open>The verdict, the finding that has the same one, and the details.\<close>

definition link_finding ::
  "finding option \<Rightarrow> string option \<times> json_object \<Rightarrow> string option \<times> uuid option \<times> json_object" where
  "link_finding found r =
     (case found of
        None \<Rightarrow> (fst r, None, snd r)
      | Some f \<Rightarrow>
          (fst r, if Some (verdict_value (fi_verdict f)) = fst r then Some (fi_finding_id f) else None,
           dict_put ''baseline_finding'' (PDict [(''finding_id'', PStr (uuid_str (fi_finding_id f))),
             (''verdict'', PStr (verdict_value (fi_verdict f)))]) (snd r)))"

definition judge_applicability ::
  "rule_table \<Rightarrow> audit_store \<Rightarrow> uuid \<Rightarrow> string \<Rightarrow> assessment_pack_row \<Rightarrow> obligation_row
    \<Rightarrow> exc + obligation_applicability \<times> json_object" where
  "judge_applicability packs db organization_id profile_version_id pack ob =
     and_then (py_contains (or_default (ob_applicability ob) ''profile_version_ids'' (ak_profile_version_ids pack))
       profile_version_id) (\<lambda>named.
     Inr (if \<not> named then (OA_NOT_APPLICABLE, base_details pack ob)
          else if ob_implementation_status ob = ''implemented'' \<and> ob_assessment_method ob = ''automatic''
            \<and> \<not> automatic_evidence_supported packs db organization_id profile_version_id ob
          then (OA_NOT_APPLICABLE,
            dict_put ''not_applicable_reason'' (PStr ''canonical_evidence_unsupported'') (base_details pack ob))
          else (OA_APPLICABLE, base_details pack ob)))"

definition obligation_outcome ::
  "rule_table \<Rightarrow> audit_store \<Rightarrow> uuid \<Rightarrow> string \<Rightarrow> (uuid \<times> pyval) list \<Rightarrow> effective_state list \<Rightarrow> finding list
    \<Rightarrow> obligation_row \<Rightarrow> obligation_applicability \<Rightarrow> json_object
    \<Rightarrow> exc + string option \<times> uuid option \<times> json_object" where
  "obligation_outcome packs db organization_id profile_version_id evidence states findings ob applicable details =
     (if applicable \<noteq> OA_APPLICABLE then Inr (None, None, details)
      else if ob_implementation_status ob = ''implemented'' \<and> ob_assessment_method ob = ''automatic''
      then and_then (assessment_rule packs db organization_id (evaluator_of ob) profile_version_id) (\<lambda>rule.
        let found = chosen_finding findings (rd_rule_id rule)
        in and_then (automatic_verdict evidence states found rule (ob_policy_parameters ob) details) (\<lambda>r.
           Inr (link_finding found r)))
      else if ob_implementation_status ob = ''manual''
      then Inr (None, None, dict_put ''state'' (PStr ''manual'') details)
      else if ob_implementation_status ob = ''unimplemented''
      then Inr (None, None, dict_put ''state'' (PStr ''unimplemented'') details)
      else Inr (None, None, details))"

text \<open>\<open>E(v)\<close> of a string enumeration.\<close>

definition enum_member :: "('e \<Rightarrow> string) \<Rightarrow> 'e list \<Rightarrow> string \<Rightarrow> exc + 'e" where
  "enum_member value members s = (case find (\<lambda>m. value m = s) members of
     None \<Rightarrow> Inl (Exc ValueError []) | Some m \<Rightarrow> Inr m)"

definition result_identity :: "(string \<Rightarrow> string) \<Rightarrow> obligation_row \<Rightarrow> string \<times> string" where
  "result_identity sha ob =
     (let digest = policy_digest sha (ob_policy_parameters ob)
      in (ob_obligation_key ob @ '':'' @ digest, digest))"

definition obligation_result ::
  "(string \<Rightarrow> string) \<Rightarrow> rule_table \<Rightarrow> audit_store \<Rightarrow> uuid \<Rightarrow> string \<Rightarrow> assessment_pack_row list
    \<Rightarrow> (uuid \<times> pyval) list \<Rightarrow> effective_state list \<Rightarrow> finding list \<Rightarrow> obligation_row
    \<Rightarrow> exc + assessment_result" where
  "obligation_result sha rules db organization_id profile_version_id packs evidence states findings ob =
     (case find (\<lambda>p. ak_assessment_pack_version_id p = ob_assessment_pack_version_id ob) packs of
        None \<Rightarrow> Inl key_error
      | Some pack \<Rightarrow>
          and_then (if ak_family pack = ''TEST/INFRASTRUCTURE'' then Inr ()
            else raise_from is_value_error (assessment_error ''assessment_catalog_invalid'')
              (validate_persisted_obligation ob)) (\<lambda>_.
          let (key, digest) = result_identity sha ob;
              identity = (if 1 < length packs then ak_pack_key pack @ '':'' @ key else key)
          in and_then (judge_applicability rules db organization_id profile_version_id pack ob)
               (\<lambda>(applicable, details).
             and_then (obligation_outcome rules db organization_id profile_version_id evidence states findings
                 ob applicable details) (\<lambda>(verdict, finding_id, outcome).
             and_then (enum_member method_value [AM_AUTOMATIC, AM_MANUAL] (ob_assessment_method ob)) (\<lambda>m.
             and_then (enum_member implementation_value [IM_IMPLEMENTED, IM_MANUAL, IM_UNIMPLEMENTED]
                 (ob_implementation_status ob)) (\<lambda>i.
             Inr \<lparr>rs_result_identity = identity, rs_obligation_id = ob_assessment_obligation_id ob,
               rs_applicability_status = applicable, rs_assessment_method = m, rs_implementation_status = i,
               rs_verdict = verdict, rs_technical_finding_id = finding_id, rs_policy_digest = digest,
               rs_details = outcome\<rparr>))))))"

section \<open>An audit\<close>

definition pinned_pack_ids :: "audit_store \<Rightarrow> uuid \<Rightarrow> uuid list" where
  "pinned_pack_ids db audit_id =
     map fw_assessment_pack_version_id (filter (\<lambda>r. fw_audit_id r = audit_id) (db_framework_assessments db))
     @ (case find (\<lambda>r. aa_audit_id r = audit_id) (db_assessments db) of
          None \<Rightarrow> [] | Some r \<Rightarrow> [aa_assessment_pack_version_id r])"

definition pinned_packs :: "audit_store \<Rightarrow> uuid \<Rightarrow> uuid list \<Rightarrow> exc + assessment_pack_row list" where
  "pinned_packs db organization_id pack_ids =
     (let packs = filter (\<lambda>p. ak_assessment_pack_version_id p \<in> set pack_ids) (db_assessment_packs db)
      in and_then (require (length packs = card (set pack_ids) \<and> list_all (pack_visible organization_id) packs)
           (assessment_error ''assessment_pack_not_found'')) (\<lambda>_.
         map_res validate_assessment_pack packs))"

definition row_of_result :: "uuid \<Rightarrow> uuid \<Rightarrow> uuid \<Rightarrow> assessment_result \<Rightarrow> assessment_result_row" where
  "row_of_result fresh audit_id organization_id r =
     \<lparr>ar_assessment_result_id = fresh, ar_audit_id = audit_id, ar_organization_id = organization_id,
      ar_assessment_obligation_id = rs_obligation_id r, ar_technical_finding_id = rs_technical_finding_id r,
      ar_result_identity = rs_result_identity r,
      ar_applicability_status = obligation_applicability_value (rs_applicability_status r),
      ar_assessment_method = method_value (rs_assessment_method r),
      ar_implementation_status = implementation_value (rs_implementation_status r),
      ar_verdict = rs_verdict r, ar_policy_digest = rs_policy_digest r, ar_result_details = rs_details r\<rparr>"

definition pack_entry :: "assessment_pack_row \<Rightarrow> json_object" where
  "pack_entry p =
     [(''assessment_pack_version_id'', PStr (uuid_str (ak_assessment_pack_version_id p))),
      (''family'', PStr (ak_family p)), (''name'', PStr (ak_name p)), (''version'', PInt (ak_version p)),
      (''source_version_label'', PStr (ak_source_version_label p)), (''content_digest'', PStr (ak_content_digest p))]"

definition audit_coverage :: "assessment_pack_row list \<Rightarrow> assessment_result list \<Rightarrow> json_object" where
  "audit_coverage packs results =
     (let entries = map (\<lambda>p. PDict (pack_entry p)) (sort_key ak_family packs);
          coverage = dict_put ''assessment_packs'' (PList entries) (coverage_summary results)
      in case entries of [e] \<Rightarrow> dict_put ''assessment_pack'' e coverage | _ \<Rightarrow> coverage)"

definition audit_obligations :: "audit_store \<Rightarrow> uuid list \<Rightarrow> obligation_row list" where
  "audit_obligations db pack_ids =
     sort_key ob_obligation_key (filter (\<lambda>ob. ob_assessment_pack_version_id ob \<in> set pack_ids) (db_obligations db))"

text \<open>\<open>fresh i\<close> is the identifier of the \<open>i\<close>th row.\<close>

definition persist_assessment_results ::
  "(nat \<Rightarrow> uuid) \<Rightarrow> (string \<Rightarrow> string) \<Rightarrow> rule_table \<Rightarrow> uuid \<Rightarrow> uuid \<Rightarrow> string \<Rightarrow> finding list \<Rightarrow> audit_store
    \<Rightarrow> exc + json_object option \<times> audit_store" where
  "persist_assessment_results fresh sha rules audit_id organization_id profile_version_id findings db =
     (case find_audit audit_id organization_id db of
        None \<Rightarrow> Inl (assessment_error ''audit_not_found'')
      | Some a \<Rightarrow>
          (let pack_ids = pinned_pack_ids db audit_id in
           if pack_ids = [] then Inr (None, db)
           else and_then (pinned_packs db organization_id pack_ids) (\<lambda>packs.
             let states = audit_states db audit_id;
                 evidence = facts_of_states db audit_id states;
                 kept = filter (\<lambda>r. ar_audit_id r \<noteq> audit_id) (db_assessment_results db)
             in and_then (map_res (obligation_result sha rules db organization_id profile_version_id packs
                    evidence states findings) (audit_obligations db pack_ids)) (\<lambda>results.
                and_then (fold_res (insert_row result_admitted)
                  (map2 (\<lambda>i r. row_of_result (fresh i) audit_id organization_id r) [0..<length results] results)
                  kept) (\<lambda>rows.
                let coverage = audit_coverage packs results
                in Inr (Some coverage,
                     update_audit audit_id (\<lambda>x. x\<lparr>au_coverage := coverage\<rparr>) (db\<lparr>db_assessment_results := rows\<rparr>)))))))"

end
