(* ===== verification/Audit_Pipeline.thy ===== *)
theory Audit_Pipeline
  imports Audit_Service Assessment_Results
begin

text \<open>
  The checkpoints of the audit pipeline (\<open>audit/pipeline.py\<close>).  Each is one transaction on the row
  of the audit: beginning, pinning the versions of a stage, pinning the versions of compliance, and
  ending with a verdict or a failure.  Errors are modelled by their code.
\<close>

section \<open>Beginning and pinning\<close>

definition not_found :: exc where
  "not_found = Exc AuditNotFoundError ''audit_not_found''"

definition not_processing :: exc where
  "not_processing = Exc AuditConflictError ''audit_not_processing''"

definition version_conflict :: exc where
  "version_conflict = Exc AuditConflictError ''audit_version_conflict''"

definition begin_processing :: "int \<Rightarrow> uuid \<Rightarrow> uuid \<Rightarrow> audit_store \<Rightarrow> exc + audit_store" where
  "begin_processing now audit_id organization_id db =
     (case find_audit audit_id organization_id db of
        None \<Rightarrow> Inl not_found
      | Some a \<Rightarrow>
          and_then (require (au_status a = AU_QUEUED \<or> au_status a = AU_PROCESSING)
            (Exc AuditConflictError ''audit_not_processable'')) (\<lambda>_.
          Inr (update_audit audit_id (\<lambda>x. x\<lparr>au_status := AU_PROCESSING, au_processing_stage := Some ST_IDENTIFYING,
            au_started_at := (case au_started_at x of None \<Rightarrow> Some now | Some t \<Rightarrow> Some t),
            au_completed_at := None\<rparr>) db)))"

definition expected_refs :: "string \<Rightarrow> uuid \<Rightarrow> json_object" where
  "expected_refs profile_version_id knowledge_pack_version_id =
     [(''schema_version'', PStr ''1.0.0''), (''device_profile_version_id'', PStr profile_version_id),
      (''knowledge_pack_version_id'', PStr (uuid_str knowledge_pack_version_id))]"

definition pin_versions ::
  "uuid \<Rightarrow> uuid \<Rightarrow> string \<Rightarrow> uuid \<Rightarrow> processing_stage \<Rightarrow> audit_store \<Rightarrow> exc + audit_store" where
  "pin_versions audit_id organization_id profile_version_id knowledge_pack_version_id stage db =
     (case find_audit audit_id organization_id db of
        None \<Rightarrow> Inl not_found
      | Some a \<Rightarrow>
          and_then (require (au_status a = AU_PROCESSING) not_processing) (\<lambda>_.
          and_then (require (py_get (au_profile_resolution a) ''profile_version_id'' = PStr profile_version_id)
            (Exc AuditConflictError ''audit_profile_changed'')) (\<lambda>_.
          let refs = expected_refs profile_version_id knowledge_pack_version_id in
          and_then (require (list_all (\<lambda>(k, v). py_get (au_version_refs a) k \<in> {PNone, v}) refs)
            version_conflict) (\<lambda>_.
          Inr (update_audit audit_id (\<lambda>x. x\<lparr>au_version_refs := dict_merge (au_version_refs x) refs,
            au_processing_stage := Some stage\<rparr>) db)))))"

section \<open>Versions of compliance\<close>

text \<open>The rule pack of the profile; a profile of an administrator gets the generic pack of its reader.\<close>

definition expected_rule_pack ::
  "(uuid \<Rightarrow> string \<Rightarrow> uuid) \<Rightarrow> (string \<Rightarrow> exc + pyval) \<Rightarrow> rule_table \<Rightarrow> audit_store \<Rightarrow> uuid \<Rightarrow> string
    \<Rightarrow> exc + rule_pack option" where
  "expected_rule_pack uuid5 json_loads rules db organization_id profile_version_id =
     (case dict_get rules profile_version_id of
        Some (Some pack) \<Rightarrow> Inr (Some pack)
      | _ \<Rightarrow>
          and_then (profile_for json_loads db organization_id profile_version_id) (\<lambda>found.
          Inr (case found of
              None \<Rightarrow> None
            | Some p \<Rightarrow>
                if pm_structural_reader_name p = Some ''indentation_cli.v1'' then Some (GENERIC_RULE_PACK uuid5)
                else if pm_structural_reader_name p = Some ''xml_tree.v1'' then Some (GENERIC_XML_RULE_PACK uuid5)
                else if pm_structural_reader_name p = Some ''json_tree.v1'' then Some (GENERIC_JSON_RULE_PACK uuid5)
                else None)))"

definition pinned_rule_packs :: "pyval \<Rightarrow> pyval \<Rightarrow> exc + pyval" where
  "pinned_rule_packs existing expected =
     (case existing of
        PNone \<Rightarrow> Inr (PList [expected])
      | PList packs \<Rightarrow> if expected \<in> set packs then Inr existing else Inl version_conflict
      | _ \<Rightarrow> Inl version_conflict)"

definition compliance_refs :: "pyval \<Rightarrow> uuid \<Rightarrow> json_object" where
  "compliance_refs packs policy_id =
     [(''rule_pack_versions'', packs), (''organization_policy_version_id'', PStr (uuid_str policy_id))]"

text \<open>The rule packs and the policy to pin, and the registry that now knows the policy.\<close>

definition compliance_pins ::
  "(uuid \<Rightarrow> string \<Rightarrow> uuid) \<Rightarrow> (string \<Rightarrow> exc + pyval) \<Rightarrow> rule_table \<Rightarrow> policy_registry \<Rightarrow> audit_store \<Rightarrow> uuid
    \<Rightarrow> string \<Rightarrow> json_object \<Rightarrow> exc + pyval \<times> uuid \<times> policy_registry" where
  "compliance_pins uuid5 json_loads rules reg db organization_id profile_version_id refs =
     and_then (expected_rule_pack uuid5 json_loads rules db organization_id profile_version_id) (\<lambda>found.
     case found of
       None \<Rightarrow> Inl version_conflict
     | Some pack \<Rightarrow>
         and_then (pinned_rule_packs (py_get refs ''rule_pack_versions'')
           (PStr (uuid_str (rp_rule_pack_version_id pack)))) (\<lambda>packs.
         let pin = py_get refs ''organization_policy_version_id'';
             (selected, reg') = select_policy_version uuid5 organization_id pin reg
         in and_then (raise_from (\<lambda>c. c = PolicyRegistryError) version_conflict selected) (\<lambda>policy.
            let policy_id = op_organization_policy_version_id policy
            in and_then (require (pin = PNone \<or> pin = PStr (uuid_str policy_id)) version_conflict) (\<lambda>_.
               Inr (packs, policy_id, reg')))))"

definition pin_compliance_versions ::
  "(uuid \<Rightarrow> string \<Rightarrow> uuid) \<Rightarrow> (string \<Rightarrow> exc + pyval) \<Rightarrow> rule_table \<Rightarrow> policy_registry \<Rightarrow> uuid \<Rightarrow> uuid
    \<Rightarrow> string \<Rightarrow> audit_store \<Rightarrow> exc + audit_store \<times> policy_registry" where
  "pin_compliance_versions uuid5 json_loads rules reg audit_id organization_id profile_version_id db =
     (case find_audit audit_id organization_id db of
        None \<Rightarrow> Inl not_processing
      | Some a \<Rightarrow>
          and_then (require (au_status a = AU_PROCESSING) not_processing) (\<lambda>_.
          and_then (compliance_pins uuid5 json_loads rules reg db organization_id profile_version_id (au_version_refs a))
            (\<lambda>(packs, policy_id, reg').
          Inr (update_audit audit_id (\<lambda>x. x\<lparr>
              au_version_refs := dict_merge (au_version_refs x) (compliance_refs packs policy_id),
              au_processing_stage := Some ST_EVALUATING\<rparr>) db, reg'))))"

section \<open>Ending\<close>

definition count_values :: "string list \<Rightarrow> json_object" where
  "count_values vs = map (\<lambda>(k, n). (k, PInt (int n)))
     (foldl (\<lambda>d v. dict_put v ((case dict_get d v of None \<Rightarrow> 0 | Some n \<Rightarrow> n) + 1) d) [] vs)"

definition terminal_status :: "finding list \<Rightarrow> audit_status" where
  "terminal_status findings =
     (let seen = (\<lambda>v. list_ex (\<lambda>f. fi_verdict f = v) findings)
      in if seen VD_PROCESS_ERROR then AU_COMPLETED_WITH_ERRORS
         else if seen VD_UNKNOWN \<or> seen VD_MANUAL_REVIEW then AU_COMPLETED_WITH_UNKNOWNS
         else AU_COMPLETED)"

definition finalize_audit :: "int \<Rightarrow> uuid \<Rightarrow> uuid \<Rightarrow> finding list \<Rightarrow> audit_store \<Rightarrow> exc + audit_store" where
  "finalize_audit now audit_id organization_id findings db =
     (case find_audit audit_id organization_id db of
        None \<Rightarrow> Inl not_found
      | Some a \<Rightarrow>
          and_then (require (au_status a = AU_PROCESSING) not_processing) (\<lambda>_.
          Inr (update_audit audit_id (\<lambda>x. x\<lparr>au_processing_stage := Some ST_FINALIZING,
            au_verdict_counts := count_values (map (\<lambda>f. verdict_value (fi_verdict f)) findings),
            au_severity_counts := count_values (map (\<lambda>f. severity_value (fi_severity f)) findings),
            au_status := terminal_status findings, au_completed_at := Some now\<rparr>) db)))"

definition first_of :: "'a option \<Rightarrow> 'a option \<Rightarrow> 'a option" where
  "first_of x y = (case x of None \<Rightarrow> y | Some v \<Rightarrow> Some v)"

definition finalize_failure ::
  "int \<Rightarrow> uuid \<Rightarrow> uuid \<Rightarrow> processing_stage option \<Rightarrow> audit_store \<Rightarrow> exc + audit_store" where
  "finalize_failure now audit_id organization_id stage db =
     (case find_audit audit_id organization_id db of
        None \<Rightarrow> Inl not_found
      | Some a \<Rightarrow>
          and_then (require (au_status a = AU_PROCESSING) not_processing) (\<lambda>_.
          if au_completed_at a \<noteq> None then Inr db
          else Inr (update_audit audit_id (\<lambda>x. x\<lparr>
              au_processing_stage := first_of stage (first_of (au_processing_stage x) (Some ST_IDENTIFYING)),
              au_status := AU_FAILED, au_completed_at := Some now\<rparr>) db)))"

definition mark_failed :: "int \<Rightarrow> uuid \<Rightarrow> uuid \<Rightarrow> audit_store \<Rightarrow> exc + audit_store" where
  "mark_failed now audit_id organization_id db =
     finalize_failure now audit_id organization_id
       (case find_audit audit_id organization_id db of None \<Rightarrow> None | Some a \<Rightarrow> au_processing_stage a) db"

section \<open>The profile of a re-evaluation\<close>

definition pinned_resolution :: "audit \<Rightarrow> exc + profile_resolution_result option" where
  "pinned_resolution a =
     (if au_reevaluation_reason a = RR_INITIAL then Inr None
      else let data = au_profile_resolution a in
        case (py_get data ''profile_id'', py_get data ''profile_version_id'') of
          (PStr profile_id, PStr profile_version_id) \<Rightarrow>
            (case (member_of profile_status_value profile_statuses (py_get data ''resolution_status''),
                   member_of confidence_value confidences (py_get data ''confidence'')) of
               (Some status, Some confidence) \<Rightarrow>
                 (case py_or (py_get data ''metadata'') (PDict []) of
                    PDict metadata \<Rightarrow> Inr (Some
                      \<lparr>px_vendor = py_get data ''vendor'', px_product_family = py_get data ''product_family'',
                       px_os = py_get data ''os'', px_os_version = py_get data ''os_version'',
                       px_model = py_get data ''model'', px_serial_number = py_get data ''serial_number'',
                       px_device_class = None, px_selected_profile_id = Some profile_id,
                       px_selected_profile_version_id = Some profile_version_id, px_confidence = confidence,
                       px_resolution_status = status, px_supporting_signals = [], px_unresolved_reasons = [],
                       px_conflicts = [], px_metadata = metadata\<rparr>)
                  | _ \<Rightarrow> Inl type_error)
             | _ \<Rightarrow> Inl (Exc AuditConflictError ''audit_profile_invalid''))
        | _ \<Rightarrow> Inl (Exc AuditConflictError ''audit_profile_missing''))"

end
