(* ===== verification/Published_Packs.thy ===== *)
theory Published_Packs
  imports Interpreter Effective_Service Assessment_Results "HOL-Library.Product_Lexorder"
begin

text \<open>
  The packs that an organization publishes (the loaders of \<open>interpretation/service.py\<close>): a mapping
  version of the training workflow as a mapping of a pack, the pack of one published version over
  the profile's sealed baseline, and the pack that a fresh audit takes.
\<close>

section \<open>Mappings of the training workflow\<close>

text \<open>\<open>UUID(v)\<close>.\<close>

definition uuid_arg :: "pyval \<Rightarrow> exc + uuid" where
  "uuid_arg v = (case v of
     PStr s \<Rightarrow> (case uuid_of_str s of None \<Rightarrow> Inl (Exc ValueError []) | Some i \<Rightarrow> Inr i)
   | PNone \<Rightarrow> Inl type_error
   | _ \<Rightarrow> Inl attribute_error)"

definition mapping_covers :: "string \<Rightarrow> mapping_version \<Rightarrow> exc + bool" where
  "mapping_covers profile m =
     py_contains (or_default (mv_profile_applicability m) ''profile_version_ids'' (PList [])) profile"

fun all_res :: "('a \<Rightarrow> exc + bool) \<Rightarrow> 'a list \<Rightarrow> exc + bool" where
  "all_res f [] = Inr True"
| "all_res f (x # xs) = and_then (f x) (\<lambda>b. if b then all_res f xs else Inr False)"

fun behavior_of :: "explicit_behavior \<Rightarrow> negation_behavior" where
  "behavior_of EB_RESET_TO_DEFAULT = NB_RESET_TO_DEFAULT"
| "behavior_of EB_REMOVE_VALUE = NB_REMOVE_VALUE"
| "behavior_of EB_INVERT_BOOLEAN = NB_INVERT_BOOLEAN"
| "behavior_of EB_UNSUPPORTED = NB_UNSUPPORTED"
| "behavior_of EB_EMIT_VALUE = NB_UNSUPPORTED"
| "behavior_of EB_UNKNOWN = NB_UNSUPPORTED"

definition training_mapping :: "pydantic \<Rightarrow> mapping_version \<Rightarrow> string \<Rightarrow> exc + declarative_mapping" where
  "training_mapping py row profile_version_id =
     and_then (py_model_validate py (mapping_columns row)) (\<lambda>d.
     and_then (require (profile_version_id \<in> set (pa_profile_version_ids (md_profile_applicability d))
         \<and> sr_strategy (md_scope_resolution d) \<in> fst ` set SCOPE_RESOLVERS)
       (invalid_interpretation ''knowledge_pack_incompatible'')) (\<lambda>_.
     Inr \<lparr>dm_mapping_id = mv_mapping_id row, dm_mapping_version_id = mv_mapping_version_id row,
       dm_field_id = mv_target_field_id row,
       dm_matcher = NodeMatcher (sm_command (md_structural_match d)) [] (sm_parent_command (md_structural_match d))
         [] None [],
       dm_extractor = ''training_dsl'', dm_scope_resolver = sr_strategy (md_scope_resolution d),
       dm_declared_value_types = {ve_output_type (md_value_extraction d)},
       dm_negation_behavior = behavior_of (md_negation_behavior d),
       dm_reset_mapping_version_id = None, dm_removal_mapping_version_id = None,
       dm_training_definition = Some (py_model_dump py d)\<rparr>))"

section \<open>One published version\<close>

text \<open>The rows with these identifiers; the printed form of identifiers sorts as the identifiers do.\<close>

definition rows_of :: "audit_store \<Rightarrow> uuid \<Rightarrow> uuid list \<Rightarrow> mapping_version list" where
  "rows_of db organization_id ids =
     filter (\<lambda>m. mv_mapping_version_id m \<in> set ids \<and> mv_organization_id m = organization_id) (db_mapping_versions db)"

definition baseline_pack ::
  "(uuid \<Rightarrow> string \<Rightarrow> uuid) \<Rightarrow> profile_manifest \<Rightarrow> string \<Rightarrow> exc + knowledge_pack" where
  "baseline_pack uuid5 profile profile_version_id =
     (if dict_get PROFILE_REGISTRY profile_version_id \<noteq> None then load_validated_knowledge_pack profile_version_id
      else Inr (runtime_baseline_knowledge_pack uuid5 profile))"

text \<open>\<open>profile or profile_for(..)\<close>.\<close>

definition given_profile ::
  "(string \<Rightarrow> exc + pyval) \<Rightarrow> audit_store \<Rightarrow> uuid \<Rightarrow> string \<Rightarrow> profile_manifest option \<Rightarrow> exc + profile_manifest option" where
  "given_profile json_loads db organization_id profile_version_id profile = (case profile of
     Some p \<Rightarrow> Inr (Some p) | None \<Rightarrow> profile_for json_loads db organization_id profile_version_id)"

definition assembled_pack ::
  "effective_library \<Rightarrow> audit_store \<Rightarrow> uuid \<Rightarrow> knowledge_pack_version \<Rightarrow> knowledge_pack_record \<Rightarrow> profile_manifest
    \<Rightarrow> string \<Rightarrow> exc + knowledge_pack" where
  "assembled_pack lib db organization_id version record profile profile_version_id =
     and_then (raise_from (\<lambda>c. c = TypeError \<or> is_value_error c) (invalid_interpretation ''knowledge_pack_invalid'')
       (map_res uuid_arg (kv_mapping_version_ids version))) (\<lambda>ids.
     let rows = rows_of db organization_id ids in
     and_then (require (length rows = length ids) (invalid_interpretation ''knowledge_pack_invalid'')) (\<lambda>_.
     and_then (baseline_pack (el_uuid5 lib) profile profile_version_id) (\<lambda>baseline.
     and_then (map_res (\<lambda>row. training_mapping (el_pydantic lib) row profile_version_id)
       (sort_key mv_mapping_version_id rows)) (\<lambda>mappings.
     Inr \<lparr>kp_knowledge_pack_id = kr_knowledge_pack_id record,
       kp_knowledge_pack_version_id = kv_knowledge_pack_version_id version, kp_name = kr_name record,
       kp_version = nat_str (kv_version version), kp_schema_version = kv_schema_version version,
       kp_profile_id = pm_profile_id profile, kp_profile_version_id = profile_version_id,
       kp_mappings = kp_mappings baseline @ mappings\<rparr>))))"

definition load_published_knowledge_pack ::
  "effective_library \<Rightarrow> audit_store \<Rightarrow> uuid \<Rightarrow> uuid \<Rightarrow> string \<Rightarrow> profile_manifest option \<Rightarrow> exc + knowledge_pack" where
  "load_published_knowledge_pack lib db organization_id version_id profile_version_id profile =
     (case find_pack_version db version_id organization_id of
        None \<Rightarrow> load_validated_knowledge_pack_by_version version_id
      | Some version \<Rightarrow>
          and_then (given_profile (el_json_loads lib) db organization_id profile_version_id profile) (\<lambda>p.
          case (find (\<lambda>r. kr_knowledge_pack_id r = kv_knowledge_pack_id version) (db_packs db), p) of
            (Some record, Some manifest) \<Rightarrow>
              and_then (require (kv_mapping_version_ids version \<noteq> [])
                (invalid_interpretation ''knowledge_pack_unavailable'')) (\<lambda>_.
              and_then (assembled_pack lib db organization_id version record manifest profile_version_id) (\<lambda>pack.
              value_error_as ''knowledge_pack_invalid''
                (validate_knowledge_pack (pm_profile_id manifest) profile_version_id (fst ` set EXTRACTORS)
                  SCOPE_RESOLVER_TYPES pack)))
          | _ \<Rightarrow> Inl (invalid_interpretation ''knowledge_pack_unavailable'')))"

section \<open>The pack of a fresh audit\<close>

text \<open>The latest version of each pack, in the order in which the query gives the packs.\<close>

definition latest_versions :: "audit_store \<Rightarrow> uuid \<Rightarrow> knowledge_pack_version list" where
  "latest_versions db organization_id =
     map snd (foldl (\<lambda>d v. if dict_get d (kv_knowledge_pack_id v) = None then dict_put (kv_knowledge_pack_id v) v d else d) []
       (sort_key (\<lambda>v. (- kv_published_at v, - int (kv_version v), - uint (kv_knowledge_pack_version_id v)))
         (filter (\<lambda>v. kv_organization_id v = organization_id) (db_pack_versions db))))"

definition mapping_usable :: "string \<Rightarrow> mapping_version \<Rightarrow> exc + bool" where
  "mapping_usable profile_version_id m =
     (if mv_status m \<noteq> MS_PUBLISHED \<or> mv_approved_by m = None \<or> mv_published_at m = None then Inr False
      else mapping_covers profile_version_id m)"

definition version_usable :: "audit_store \<Rightarrow> uuid \<Rightarrow> string \<Rightarrow> knowledge_pack_version \<Rightarrow> exc + bool" where
  "version_usable db organization_id profile_version_id v =
     (if kv_mapping_version_ids v = [] then Inr False
      else (case map_res uuid_arg (kv_mapping_version_ids v) of
         Inl e \<Rightarrow> if exc_class e = TypeError \<or> is_value_error (exc_class e) then Inr False else Inl e
       | Inr ids \<Rightarrow>
           (let mappings = rows_of db organization_id ids
            in if length mappings = length ids then all_res (mapping_usable profile_version_id) mappings else Inr False)))"

definition load_active_published_knowledge_pack ::
  "effective_library \<Rightarrow> audit_store \<Rightarrow> uuid \<Rightarrow> string \<Rightarrow> profile_manifest option \<Rightarrow> exc + knowledge_pack option" where
  "load_active_published_knowledge_pack lib db organization_id profile_version_id profile =
     and_then (given_profile (el_json_loads lib) db organization_id profile_version_id profile) (\<lambda>p. case p of
       None \<Rightarrow> Inr None
     | Some manifest \<Rightarrow>
         and_then (map_res (\<lambda>v. and_then (version_usable db organization_id profile_version_id v)
             (\<lambda>ok. Inr (if ok then [v] else []))) (latest_versions db organization_id)) (\<lambda>found.
         case concat found of
           [v] \<Rightarrow> and_then (load_published_knowledge_pack lib db organization_id (kv_knowledge_pack_version_id v)
               profile_version_id (Some manifest)) (\<lambda>pack. Inr (Some pack))
         | _ \<Rightarrow> Inr None))"

end
