(* ===== verification/Reevaluation.thy ===== *)
theory Reevaluation
  imports Audit_Pipeline Published_Packs
begin

text \<open>
  Re-evaluation of a finished audit with another knowledge pack (\<open>reevaluation/service.py\<close>): which
  packs are candidates, when a re-evaluation is possible, and the transaction that creates the next
  revision of the audit and queues its job.  Errors are modelled by their code.
\<close>

definition COMPLETED_STATUSES :: "audit_status set" where
  "COMPLETED_STATUSES = {AU_COMPLETED, AU_COMPLETED_WITH_UNKNOWNS, AU_COMPLETED_WITH_ERRORS}"

definition require_privileged :: "user \<Rightarrow> exc + unit" where
  "require_privileged u = require (us_role u = UR_ADMIN \<or> us_role u = UR_MAPPING_ADMIN)
     (Exc AuditValidationError ''reevaluation_forbidden'')"

definition source_audit :: "audit_store \<Rightarrow> user \<Rightarrow> uuid \<Rightarrow> exc + audit" where
  "source_audit db u audit_id = (case find_audit audit_id (us_organization_id u) db of
     None \<Rightarrow> Inl not_found | Some a \<Rightarrow> Inr a)"

section \<open>Candidates\<close>

definition pack_covers :: "audit_store \<Rightarrow> uuid \<Rightarrow> string \<Rightarrow> knowledge_pack_version \<Rightarrow> exc + bool" where
  "pack_covers db organization_id profile pack =
     (case map_res uuid_arg (kv_mapping_version_ids pack) of
        Inl e \<Rightarrow> if exc_class e \<in> {TypeError, ValueError} then Inr False else Inl e
      | Inr ids \<Rightarrow>
          (let mappings = filter (\<lambda>m. mv_mapping_version_id m \<in> set ids \<and> mv_organization_id m = organization_id)
                 (db_mapping_versions db)
           in if length mappings = length ids then all_res (mapping_covers profile) mappings else Inr False))"

definition reevaluation_profile :: "audit \<Rightarrow> pyval" where
  "reevaluation_profile a =
     py_or (py_get (au_version_refs a) ''device_profile_version_id'')
       (py_get (au_profile_resolution a) ''profile_version_id'')"

definition profile_available :: "(string \<Rightarrow> exc + pyval) \<Rightarrow> audit_store \<Rightarrow> uuid \<Rightarrow> string \<Rightarrow> exc + bool" where
  "profile_available json_loads db organization_id profile =
     (if dict_get PROFILE_REGISTRY profile \<noteq> None then Inr True
      else (case profile_for json_loads db organization_id profile of
          Inr found \<Rightarrow> Inr (found \<noteq> None)
        | Inl e \<Rightarrow> if exc_class e = RuntimeProfileError then Inr False else Inl e))"

definition reevaluation_candidates ::
  "(string \<Rightarrow> exc + pyval) \<Rightarrow> audit_store \<Rightarrow> audit \<Rightarrow> exc + knowledge_pack_version list" where
  "reevaluation_candidates json_loads db source =
     (case reevaluation_profile source of
        PStr profile \<Rightarrow>
          and_then (profile_available json_loads db (au_organization_id source) profile) (\<lambda>available.
          if \<not> available then Inr []
          else and_then (map_res (\<lambda>p.
              if PStr (uuid_str (kv_knowledge_pack_version_id p)) = py_get (au_version_refs source) ''knowledge_pack_version_id''
                 \<or> kv_mapping_version_ids p = [] then Inr []
              else and_then (pack_covers db (au_organization_id source) profile p) (\<lambda>ok. Inr (if ok then [p] else [])))
            (sort_key (\<lambda>p. (- kv_published_at p, - int (kv_version p)))
              (filter (\<lambda>p. kv_organization_id p = au_organization_id source) (db_pack_versions db)))) (\<lambda>ps.
            Inr (concat ps)))
      | _ \<Rightarrow> Inr [])"

section \<open>Eligibility\<close>

record reevaluation_eligibility =
  re_eligible :: bool
  re_reason :: "string option"
  re_source :: audit
  re_candidates :: "knowledge_pack_version list"

definition ineligible :: "audit \<Rightarrow> string \<Rightarrow> reevaluation_eligibility" where
  "ineligible a reason = \<lparr>re_eligible = False, re_reason = Some reason, re_source = a, re_candidates = []\<rparr>"

definition eligibility ::
  "(string \<Rightarrow> string) \<Rightarrow> (string \<Rightarrow> exc + pyval) \<Rightarrow> audit_store \<Rightarrow> user \<Rightarrow> uuid \<Rightarrow> exc + reevaluation_eligibility" where
  "eligibility sha json_loads db u audit_id =
     and_then (source_audit db u audit_id) (\<lambda>a.
     if au_status a \<notin> COMPLETED_STATUSES then Inr (ineligible a ''source_audit_not_completed'')
     else (case get_snapshot_row (au_snapshot_id a) db of
        None \<Rightarrow> Inr (ineligible a ''source_snapshot_invalid'')
      | Some s \<Rightarrow>
          if sn_organization_id s \<noteq> au_organization_id a \<or> sn_device_id s \<noteq> au_device_id a
          then Inr (ineligible a ''source_snapshot_invalid'')
          else if sn_status s \<noteq> SS_READY \<and> sn_status s \<noteq> SS_LOCKED
          then Inr (ineligible a ''source_snapshot_not_immutable'')
          else (case validate_snapshot_evidence sha db s of
              Inl e \<Rightarrow> if exc_class e = AuditValidationError then Inr (ineligible a ''source_evidence_unavailable'')
                else Inl e
            | Inr _ \<Rightarrow>
                and_then (reevaluation_candidates json_loads db a) (\<lambda>cs.
                Inr \<lparr>re_eligible = (cs \<noteq> []),
                  re_reason = (if cs = [] then Some ''no_compatible_newer_knowledge_pack'' else None),
                  re_source = a, re_candidates = cs\<rparr>))))"

section \<open>Starting\<close>

definition next_revision :: "audit_store \<Rightarrow> uuid \<Rightarrow> nat" where
  "next_revision db snapshot_id =
     Max (insert 0 (set (map au_revision_number (filter (\<lambda>a. au_snapshot_id a = snapshot_id) (db_audits db))))) + 1"

definition open_reevaluation :: "audit_store \<Rightarrow> uuid \<Rightarrow> uuid \<Rightarrow> audit option" where
  "open_reevaluation db source_id target =
     find (\<lambda>a. au_previous_audit_id a = Some source_id
         \<and> py_get (au_version_refs a) ''knowledge_pack_version_id'' = PStr (uuid_str target)
         \<and> au_status a \<in> {AU_DRAFT, AU_QUEUED, AU_PROCESSING}) (db_audits db)"

definition revised_audit ::
  "uuid \<Rightarrow> int \<Rightarrow> user \<Rightarrow> audit \<Rightarrow> nat \<Rightarrow> uuid \<Rightarrow> uuid option \<Rightarrow> audit" where
  "revised_audit fresh now u source revision target pack_id =
     \<lparr>au_audit_id = fresh, au_organization_id = au_organization_id source, au_device_id = au_device_id source,
      au_snapshot_id = au_snapshot_id source, au_audit_batch_id = au_audit_batch_id source,
      au_revision_number = revision, au_previous_audit_id = Some (au_audit_id source),
      au_reevaluation_reason = RR_KNOWLEDGE_PACK_UPDATE, au_status = AU_QUEUED, au_processing_stage = None,
      au_selected_frameworks = au_selected_frameworks source,
      au_version_refs = dict_merge
        (dict_put ''knowledge_pack_version_id'' (PStr (uuid_str target)) (au_version_refs source))
        (case pack_id of None \<Rightarrow> [] | Some i \<Rightarrow> [(''assessment_pack_version_id'', PStr (uuid_str i))]),
      au_profile_resolution = au_profile_resolution source, au_verdict_counts = [], au_severity_counts = [],
      au_coverage = [], au_started_at = None, au_completed_at = None, au_created_at = now,
      au_created_by = Some (us_user_id u), au_schema_version = au_schema_version source\<rparr>"

text \<open>The audit that exists or is created, and its job; the store changes only in the second case.\<close>

definition start_reevaluation ::
  "(string \<Rightarrow> string) \<Rightarrow> (string \<Rightarrow> exc + pyval) \<Rightarrow> uuid \<Rightarrow> uuid \<Rightarrow> int \<Rightarrow> user \<Rightarrow> uuid \<Rightarrow> uuid \<Rightarrow> uuid option
    \<Rightarrow> audit_store \<Rightarrow> exc + (audit \<times> job option) \<times> audit_store" where
  "start_reevaluation sha json_loads fresh job_id now u audit_id target pack_id db =
     and_then (require_privileged u) (\<lambda>_.
     and_then (source_audit db u audit_id) (\<lambda>source.
     and_then (eligibility sha json_loads db u audit_id) (\<lambda>check.
     and_then (require (re_eligible check) (Exc AuditConflictError ''reevaluation_unavailable'')) (\<lambda>_.
     and_then (require (list_ex (\<lambda>p. kv_knowledge_pack_version_id p = target) (re_candidates check))
       (Exc AuditValidationError ''knowledge_pack_ineligible'')) (\<lambda>_.
     and_then (case pack_id of
         None \<Rightarrow> Inr ()
       | Some i \<Rightarrow> raise_from (\<lambda>c. c = AssessmentPackError)
           (Exc AuditValidationError ''assessment_pack_ineligible'')
           (and_then (validate_requested_pack db (us_organization_id u) i) (\<lambda>_. Inr ()))) (\<lambda>_.
     case get_snapshot_row (au_snapshot_id source) db of
       None \<Rightarrow> Inl (Exc AuditValidationError ''source_snapshot_invalid'')
     | Some s \<Rightarrow>
         and_then (validate_snapshot_evidence sha db s) (\<lambda>_.
         case open_reevaluation db (au_audit_id source) target of
           Some a \<Rightarrow>
             Inr ((a, case sort_key (\<lambda>j. - jb_created_at j)
                 (filter (\<lambda>j. jb_audit_id j = Some (au_audit_id a)) (db_jobs db)) of
                 [] \<Rightarrow> None | j # _ \<Rightarrow> Some j), db)
         | None \<Rightarrow>
             (let a = revised_audit fresh now u source (next_revision db (au_snapshot_id source)) target pack_id;
                  conflict = Exc AuditConflictError ''reevaluation_conflict''
              in and_then (raise_from (\<lambda>c. c = SQLAlchemyError) conflict
                   (insert_row audit_admitted a (db_audits db))) (\<lambda>rows.
                 and_then (require (job_id \<notin> jb_job_id ` set (db_jobs db)) conflict) (\<lambda>_.
                 and_then (enqueue_job job_id now JT_RE_EVALUATION
                     [(''source_audit_id'', PStr (uuid_str (au_audit_id source))),
                      (''knowledge_pack_version_id'', PStr (uuid_str target))]
                     (Some fresh) (Some (au_device_id a)) None (db_jobs db)) (\<lambda>(j, jobs).
                 Inr ((a, Some j), db\<lparr>db_audits := rows, db_jobs := jobs\<rparr>))))))))))))"

definition history :: "audit_store \<Rightarrow> user \<Rightarrow> uuid \<Rightarrow> exc + audit list" where
  "history db u audit_id =
     and_then (source_audit db u audit_id) (\<lambda>a.
     Inr (sort_key au_revision_number (filter (\<lambda>x. au_snapshot_id x = au_snapshot_id a
       \<and> au_organization_id x = us_organization_id u) (db_audits db))))"

end
