(* ===== verification/Audit_Lifecycle.thy ===== *)
theory Audit_Lifecycle
  imports Reevaluation Effective_Results State_Machine
begin

text \<open>
  The store under every interleaving of the services: each transaction on devices, artifacts,
  snapshots and audits is a step, and so is anything that only writes other tables (facts, blocks,
  jobs, packs, rules and catalogs).  Two consequences: what a snapshot recorded never changes once
  it is finalized, and an audit only moves forward, keeps its pins and is final when it ends.
\<close>

section \<open>Steps\<close>

record audit_library =
  al_sha :: "string \<Rightarrow> string"
  al_uuid5 :: "uuid \<Rightarrow> string \<Rightarrow> uuid"
  al_json_loads :: "string \<Rightarrow> exc + pyval"
  al_rules :: rule_table
  al_effective :: effective_library

inductive audit_step :: "audit_library \<Rightarrow> audit_store \<Rightarrow> audit_store \<Rightarrow> bool" for lib where
  record_artifact: "af_snapshot_id x = None \<Longrightarrow> af_artifact_id x \<notin> af_artifact_id ` set (db_artifacts db)
    \<Longrightarrow> audit_step lib db (db\<lparr>db_artifacts := db_artifacts db @ [x]\<rparr>)"
| new_device: "create_device fresh now u dc db = Inr db' \<Longrightarrow> audit_step lib db db'"
| edit_device: "update_device now u device_id du db = Inr db' \<Longrightarrow> audit_step lib db db'"
| new_snapshot: "create_snapshot (al_sha lib) fresh now u device_id sc db = Inr db' \<Longrightarrow> audit_step lib db db'"
| edit_snapshot: "update_snapshot u snapshot_id su db = Inr db' \<Longrightarrow> audit_step lib db db'"
| assign: "add_artifact (al_sha lib) u snapshot_id artifact_id db = Inr db' \<Longrightarrow> audit_step lib db db'"
| unassign: "remove_artifact (al_sha lib) u snapshot_id artifact_id db = Inr db' \<Longrightarrow> audit_step lib db db'"
| seal: "finalize_snapshot (al_sha lib) u snapshot_id db = Inr db' \<Longrightarrow> audit_step lib db db'"
| initial_audit: "create_audit (al_sha lib) fresh now u rq db = Inr (a, db') \<Longrightarrow> audit_step lib db db'"
| submit: "start_audit (al_sha lib) job_id now u audit_id db = Inr (j, db') \<Longrightarrow> audit_step lib db db'"
| identify: "store_resolution (al_sha lib) now audit_id organization_id snapshot_id device_id expected r documents
    issues preview db = Inr db' \<Longrightarrow> audit_step lib db db'"
| start_run: "begin_processing now audit_id organization_id db = Inr db' \<Longrightarrow> audit_step lib db db'"
| assess_pin: "find_audit audit_id organization_id db = Some a \<Longrightarrow> pin_assessment ids a profile_version_id db = Inr db'
    \<Longrightarrow> audit_step lib db db'"
| pin_stage: "pin_versions audit_id organization_id profile_version_id pack_id stage db = Inr db' \<Longrightarrow> audit_step lib db db'"
| resolve_states: "resolve_audit_effective_states (al_effective lib) audit_id organization_id db = Inr (states, db')
    \<Longrightarrow> audit_step lib db db'"
| pin_compliance: "pin_compliance_versions (al_uuid5 lib) (al_json_loads lib) (al_rules lib) reg audit_id organization_id
    profile_version_id db = Inr (db', reg') \<Longrightarrow> audit_step lib db db'"
| evaluate: "persist_audit_findings (al_uuid5 lib) db audit_id organization_id pack policy states blocks
    = Inr (findings, db') \<Longrightarrow> audit_step lib db db'"
| assess_results: "persist_assessment_results ids (al_sha lib) (al_rules lib) audit_id organization_id profile_version_id
    findings db = Inr (coverage, db') \<Longrightarrow> audit_step lib db db'"
| finish: "finalize_audit now audit_id organization_id findings db = Inr db' \<Longrightarrow> audit_step lib db db'"
| fail: "finalize_failure now audit_id organization_id stage db = Inr db' \<Longrightarrow> audit_step lib db db'"
| reevaluate: "start_reevaluation (al_sha lib) (al_json_loads lib) fresh job_id now u audit_id target pack_id db
    = Inr (r, db') \<Longrightarrow> audit_step lib db db'"
| elsewhere: "db_snapshots db' = db_snapshots db \<Longrightarrow> db_artifacts db' = db_artifacts db \<Longrightarrow> db_audits db' = db_audits db
    \<Longrightarrow> audit_step lib db db'"

section \<open>Rows\<close>

lemma update_rows_same [simp]: "set (update_rows key k f rows) = (\<lambda>r. if key r = k then f r else r) ` set rows"
  by (simp add: update_rows_def)

lemma find_audit_SomeD:
  "find_audit i org db = Some a \<Longrightarrow> a \<in> set (db_audits db) \<and> au_audit_id a = i \<and> au_organization_id a = org"
  by (auto simp: find_audit_def find_Some_iff)

lemma get_snapshot_row_SomeD:
  "get_snapshot_row i db = Some s \<Longrightarrow> s \<in> set (db_snapshots db) \<and> sn_snapshot_id s = i"
  by (auto simp: get_snapshot_row_def find_Some_iff)

lemma lock_snapshot_Inr:
  "lock_snapshot db u i = Inr s \<Longrightarrow> s \<in> set (db_snapshots db) \<and> sn_snapshot_id s = i"
  by (auto simp: lock_snapshot_def find_Some_iff split: option.splits)

lemma own_artifact_SomeD:
  "own_artifact db u i = Some x \<Longrightarrow> x \<in> set (db_artifacts db) \<and> af_artifact_id x = i"
  by (auto simp: own_artifact_def find_Some_iff)

lemma distinct_row:
  "distinct (map key rows) \<Longrightarrow> r \<in> set rows \<Longrightarrow> s \<in> set rows \<Longrightarrow> key r = key s \<Longrightarrow> r = s"
  by (auto simp: distinct_map inj_on_def)

lemma find_keyed: "distinct (map key rows) \<Longrightarrow> r \<in> set rows \<Longrightarrow> find (\<lambda>x. key x = key r) rows = Some r"
  by (induction rows) auto

lemma keyed_snapshot:
  "distinct (map sn_snapshot_id (db_snapshots db)) \<Longrightarrow> s \<in> set (db_snapshots db)
    \<Longrightarrow> get_snapshot_row (sn_snapshot_id s) db = Some s"
  by (simp add: get_snapshot_row_def find_keyed)

section \<open>What an audit keeps\<close>

definition terminal :: "audit_status \<Rightarrow> bool" where
  "terminal s = (s \<in> {AU_COMPLETED, AU_COMPLETED_WITH_UNKNOWNS, AU_COMPLETED_WITH_ERRORS, AU_FAILED})"

definition rank :: "audit_status \<Rightarrow> nat" where
  "rank s = (if s = AU_DRAFT then 0 else if s = AU_QUEUED then 1 else if s = AU_PROCESSING then 2 else 3)"

definition PIN_KEYS :: "string list" where
  "PIN_KEYS = [''schema_version'', ''device_profile_version_id'', ''knowledge_pack_version_id'',
     ''rule_pack_versions'', ''organization_policy_version_id'', ''assessment_pack_version_id'']"

definition same_identity :: "audit \<Rightarrow> audit \<Rightarrow> bool" where
  "same_identity a b =
     (au_audit_id b = au_audit_id a \<and> au_organization_id b = au_organization_id a
      \<and> au_device_id b = au_device_id a \<and> au_snapshot_id b = au_snapshot_id a
      \<and> au_revision_number b = au_revision_number a \<and> au_previous_audit_id b = au_previous_audit_id a
      \<and> au_reevaluation_reason b = au_reevaluation_reason a)"

definition pins_kept :: "audit \<Rightarrow> audit \<Rightarrow> bool" where
  "pins_kept a b = list_all (\<lambda>k. py_get (au_version_refs a) k = PNone
     \<or> py_get (au_version_refs b) k = py_get (au_version_refs a) k) PIN_KEYS"

definition outcome_kept :: "audit \<Rightarrow> audit \<Rightarrow> bool" where
  "outcome_kept a b =
     (au_status b = au_status a \<and> au_processing_stage b = au_processing_stage a
      \<and> au_verdict_counts b = au_verdict_counts a \<and> au_severity_counts b = au_severity_counts a
      \<and> au_started_at b = au_started_at a \<and> au_completed_at b = au_completed_at a)"

definition evolves :: "audit \<Rightarrow> audit \<Rightarrow> bool" where
  "evolves a b = (same_identity a b \<and> pins_kept a b \<and> rank (au_status a) \<le> rank (au_status b)
     \<and> (if terminal (au_status a) then outcome_kept a b else True))"

lemma evolves_refl [simp]: "evolves a a"
  by (simp add: evolves_def same_identity_def pins_kept_def outcome_kept_def list_all_iff)

lemma pins_kept_trans:
  assumes "pins_kept a b" and "pins_kept b c"
  shows "pins_kept a c"
proof -
  have "py_get (au_version_refs a) k = PNone \<or> py_get (au_version_refs c) k = py_get (au_version_refs a) k"
    if "k \<in> set PIN_KEYS" for k
    using assms that unfolding pins_kept_def list_all_iff by metis
  then show ?thesis by (simp add: pins_kept_def list_all_iff)
qed

lemma outcome_kept_trans: "outcome_kept a b \<Longrightarrow> outcome_kept b c \<Longrightarrow> outcome_kept a c"
  by (simp add: outcome_kept_def)

lemma same_identity_trans: "same_identity a b \<Longrightarrow> same_identity b c \<Longrightarrow> same_identity a c"
  by (simp add: same_identity_def)

lemma evolves_trans: "evolves a b \<Longrightarrow> evolves b c \<Longrightarrow> evolves a c"
  unfolding evolves_def
  by (auto intro: pins_kept_trans same_identity_trans outcome_kept_trans simp: outcome_kept_def split: if_splits)

section \<open>Edits of an audit\<close>

definition audit_edit :: "audit_store \<Rightarrow> audit_store \<Rightarrow> bool" where
  "audit_edit db db' = (\<exists>f a. a \<in> set (db_audits db) \<and> evolves a (f a) \<and> (\<forall>r. au_audit_id (f r) = au_audit_id r)
     \<and> (au_status a = AU_DRAFT \<longrightarrow> au_status (f a) = AU_DRAFT)
     \<and> db_audits db' = update_rows au_audit_id (au_audit_id a) f (db_audits db)
     \<and> db_snapshots db' = db_snapshots db \<and> db_artifacts db' = db_artifacts db)"

lemma audit_editI:
  assumes "find_audit i org db = Some a" and "db_audits db' = update_rows au_audit_id i f (db_audits db)"
    and "db_snapshots db' = db_snapshots db" and "db_artifacts db' = db_artifacts db"
    and "evolves a (f a)" and "au_status a = AU_DRAFT \<longrightarrow> au_status (f a) = AU_DRAFT"
    and "\<And>r. au_audit_id (f r) = au_audit_id r"
  shows "audit_edit db db'"
  using assms find_audit_SomeD [OF assms(1)] unfolding audit_edit_def by blast

lemmas evolve_simps = evolves_def same_identity_def pins_kept_def outcome_kept_def rank_def terminal_def
  PIN_KEYS_def dict_merge_def expected_refs_def compliance_refs_def py_get_def dict_simps

lemma begin_edit: "begin_processing now i org db = Inr db' \<Longrightarrow> audit_edit db db'"
  unfolding begin_processing_def
  by (cases "find_audit i org db") (auto simp: update_audit_def evolve_simps intro!: audit_editI)

lemma pin_edit: "pin_versions i org p k stage db = Inr db' \<Longrightarrow> audit_edit db db'"
  unfolding pin_versions_def
  by (cases "find_audit i org db")
    (auto simp: update_audit_def evolve_simps Let_def split: option.splits intro!: audit_editI)

lemma finish_edit: "finalize_audit now i org fs db = Inr db' \<Longrightarrow> audit_edit db db'"
  unfolding finalize_audit_def
  by (cases "find_audit i org db")
    (auto simp: update_audit_def evolve_simps terminal_status_def Let_def intro!: audit_editI)

lemma fail_edit: "finalize_failure now i org stage db = Inr db' \<Longrightarrow> db' = db \<or> audit_edit db db'"
  unfolding finalize_failure_def
  by (cases "find_audit i org db")
    (auto simp: update_audit_def evolve_simps split: if_splits intro!: audit_editI)

lemma identify_edit:
  "store_resolution sha now i org sid did expected r documents issues preview db = Inr db' \<Longrightarrow> audit_edit db db'"
  unfolding store_resolution_def
  by (cases "find_audit i org db")
    (auto simp: update_audit_def evolve_simps Let_def split: option.splits intro!: audit_editI)

lemma results_edit:
  "persist_assessment_results ids sha rules i org p findings db = Inr (coverage, db') \<Longrightarrow> db' = db \<or> audit_edit db db'"
  unfolding persist_assessment_results_def
  by (cases "find_audit i org db")
    (auto simp: update_audit_def evolve_simps Let_def split: if_splits intro!: audit_editI)

definition rows_kept :: "audit_store \<Rightarrow> audit_store \<Rightarrow> bool" where
  "rows_kept db db' = (db_snapshots db' = db_snapshots db \<and> db_artifacts db' = db_artifacts db \<and> db_audits db' = db_audits db)"

lemma fold_res_keeps:
  assumes "\<And>x db db'. f x db = Inr db' \<Longrightarrow> rows_kept db db'"
  shows "fold_res f xs db = Inr db' \<Longrightarrow> rows_kept db db'"
  using assms by (induction xs arbitrary: db) (fastforce simp: rows_kept_def)+

lemma pin_requested_keeps: "pin_requested a p pack db = Inr db' \<Longrightarrow> rows_kept db db'"
  by (auto simp: pin_requested_def rows_kept_def split: option.splits)

lemma pin_framework_keeps: "pin_framework a p pack db = Inr db' \<Longrightarrow> rows_kept db db'"
  by (auto simp: pin_framework_def rows_kept_def split: option.splits)

lemma pin_assessment_Inr:
  assumes "pin_assessment ids a p db = Inr db'"
  obtains "db' = db"
    | v db1 where "rows_kept db db1"
        and "db' = update_audit (au_audit_id a) (\<lambda>x. x\<lparr>au_version_refs :=
          dict_put ''assessment_pack_version_ids'' v (au_version_refs a)\<rparr>) db1"
proof -
  from assms obtain chosen where run: "(case chosen of None \<Rightarrow> Inr db | Some packs \<Rightarrow>
      and_then (require (list_all (names_profile p) packs) (assessment_error ''assessment_pack_incompatible'')) (\<lambda>_.
      and_then (if py_get (au_version_refs a) ''assessment_pack_version_id'' \<noteq> PNone
          then fold_res (pin_requested a p) packs db
          else fold_res (pin_framework a p) (zip (map ids [0..<length packs]) packs) db) (\<lambda>db'.
      Inr (update_audit (au_audit_id a) (\<lambda>x. x\<lparr>au_version_refs :=
          dict_put ''assessment_pack_version_ids''
            (PList (map (\<lambda>p. PStr (uuid_str (ak_assessment_pack_version_id p))) packs))
            (au_version_refs a)\<rparr>) db')))) = Inr db'"
    unfolding pin_assessment_def by (simp only: and_then_Inr) blast
  show thesis
  proof (cases chosen)
    case None
    with run that(1) show thesis by simp
  next
    case (Some packs)
    with run obtain db1 where pins: "(if py_get (au_version_refs a) ''assessment_pack_version_id'' \<noteq> PNone
          then fold_res (pin_requested a p) packs db
          else fold_res (pin_framework a p) (zip (map ids [0..<length packs]) packs) db) = Inr db1"
      and db': "db' = update_audit (au_audit_id a) (\<lambda>x. x\<lparr>au_version_refs :=
          dict_put ''assessment_pack_version_ids''
            (PList (map (\<lambda>p. PStr (uuid_str (ak_assessment_pack_version_id p))) packs))
            (au_version_refs a)\<rparr>) db1"
      by (simp only: option.case and_then_Inr) blast
    have "rows_kept db db1"
      using pins by (cases "py_get (au_version_refs a) ''assessment_pack_version_id'' = PNone")
        (simp_all add: fold_res_keeps [OF pin_requested_keeps] fold_res_keeps [OF pin_framework_keeps])
    with db' that(2) show thesis by blast
  qed
qed

lemma assess_edit:
  assumes "find_audit i org db = Some a" and "pin_assessment ids a p db = Inr db'"
  shows "rows_kept db db' \<or> audit_edit db db'"
  using assms(2)
proof (cases rule: pin_assessment_Inr)
  case (2 v db1)
  have "au_audit_id a = i" using find_audit_SomeD [OF assms(1)] by simp
  with 2 have "audit_edit db db'"
    by (intro audit_editI [OF assms(1), of _ "\<lambda>x. x\<lparr>au_version_refs :=
        dict_put ''assessment_pack_version_ids'' v (au_version_refs a)\<rparr>"])
      (auto simp: update_audit_def rows_kept_def evolve_simps)
  then show ?thesis ..
qed (simp add: rows_kept_def)

lemma pinned_rule_packs_Inr:
  "pinned_rule_packs existing e = Inr packs \<Longrightarrow> existing = PNone \<or> packs = existing"
  by (auto simp: pinned_rule_packs_def split: pyval.splits if_splits)

lemma compliance_evolves:
  assumes "py_get (au_version_refs a) ''rule_pack_versions'' = PNone \<or> packs = py_get (au_version_refs a) ''rule_pack_versions''"
    and "py_get (au_version_refs a) ''organization_policy_version_id'' = PNone
      \<or> py_get (au_version_refs a) ''organization_policy_version_id'' = PStr (uuid_str k)"
    and "au_status a = AU_PROCESSING"
  shows "evolves a (a\<lparr>au_version_refs := dict_merge (au_version_refs a) (compliance_refs packs k), au_processing_stage := stage\<rparr>)"
  using assms by (auto simp: evolve_simps)

lemma compliance_pins_Inr:
  "compliance_pins uuid5 json_loads rules reg db org p refs = Inr (packs, k, reg') \<Longrightarrow>
     (py_get refs ''rule_pack_versions'' = PNone \<or> packs = py_get refs ''rule_pack_versions'')
     \<and> (py_get refs ''organization_policy_version_id'' = PNone
        \<or> py_get refs ''organization_policy_version_id'' = PStr (uuid_str k))"
  by (cases "select_policy_version uuid5 org (py_get refs ''organization_policy_version_id'') reg")
    (auto simp: compliance_pins_def Let_def split: option.splits dest!: pinned_rule_packs_Inr)

lemma pin_compliance_edit:
  assumes "pin_compliance_versions uuid5 json_loads rules reg i org p db = Inr (db', reg')"
  shows "audit_edit db db'"
proof -
  from assms obtain a packs k where a: "find_audit i org db = Some a" and st: "au_status a = AU_PROCESSING"
    and pins: "compliance_pins uuid5 json_loads rules reg db org p (au_version_refs a) = Inr (packs, k, reg')"
    and db': "db' = update_audit i (\<lambda>x. x\<lparr>au_version_refs := dict_merge (au_version_refs x) (compliance_refs packs k),
        au_processing_stage := Some ST_EVALUATING\<rparr>) db"
    by (auto simp: pin_compliance_versions_def split: option.splits)
  have ev: "evolves a (a\<lparr>au_version_refs := dict_merge (au_version_refs a) (compliance_refs packs k),
      au_processing_stage := Some ST_EVALUATING\<rparr>)"
    using compliance_pins_Inr [OF pins] st by (intro compliance_evolves) auto
  show ?thesis
    by (rule audit_editI [OF a, of _ "\<lambda>x. x\<lparr>au_version_refs := dict_merge (au_version_refs x) (compliance_refs packs k),
        au_processing_stage := Some ST_EVALUATING\<rparr>"]) (use ev st in \<open>simp_all add: db' update_audit_def\<close>)
qed

lemma evaluate_keeps:
  "persist_audit_findings uuid5 db i org pack policy states blocks = Inr (findings, db') \<Longrightarrow> rows_kept db db'"
  by (auto simp: persist_audit_findings_def rows_kept_def Let_def split: option.splits)

lemma resolve_keeps:
  assumes "resolve_audit_effective_states lib i org db = Inr (states, db')"
  shows "rows_kept db db'"
  using assms by (rule resolution_Inr) (simp add: rows_kept_def)

section \<open>What a locked snapshot keeps\<close>

definition frozen :: "audit_store \<Rightarrow> audit_store \<Rightarrow> bool" where
  "frozen db db' = (\<forall>s \<in> set (db_snapshots db). sn_status s = SS_LOCKED
     \<longrightarrow> s \<in> set (db_snapshots db') \<and> members db' (sn_snapshot_id s) = members db (sn_snapshot_id s))"

definition keyed :: "audit_store \<Rightarrow> bool" where
  "keyed db = (distinct (map sn_snapshot_id (db_snapshots db)) \<and> distinct (map af_artifact_id (db_artifacts db))
     \<and> distinct (map au_audit_id (db_audits db)))"

lemma filter_map_same:
  "(\<And>r. r \<in> set xs \<Longrightarrow> P (g r) = P r \<and> (P r \<longrightarrow> g r = r)) \<Longrightarrow> filter P (map g xs) = filter P xs"
  by (induction xs) auto

lemma members_assign:
  assumes "distinct (map af_artifact_id (db_artifacts db))" and "x \<in> set (db_artifacts db)"
    and "af_snapshot_id x \<noteq> Some j" and "new \<noteq> Some j"
  shows "members (assign_artifact (af_artifact_id x) new db) j = members db j"
proof -
  have "r = x" if "r \<in> set (db_artifacts db)" "af_artifact_id r = af_artifact_id x" for r
    using distinct_row [OF assms(1) that(1) assms(2) that(2)] .
  with assms(3,4) show ?thesis
    unfolding members_def assign_artifact_def update_rows_def
    by (simp, intro filter_map_same) (auto split: if_splits)
qed

text \<open>A snapshot operation: no audit changes, what is locked stays, nothing new is locked.\<close>

definition snapshot_edit :: "audit_store \<Rightarrow> audit_store \<Rightarrow> bool" where
  "snapshot_edit db db' = (keyed db' \<and> frozen db db' \<and> db_audits db' = db_audits db
     \<and> (\<forall>s \<in> set (db_snapshots db'). sn_status s = SS_LOCKED \<longrightarrow> s \<in> set (db_snapshots db)))"

lemma members_update_snapshot_row [simp]: "members (update_snapshot_row i f db) j = members db j"
  by (simp add: members_def update_snapshot_row_def)

lemma assign_artifact_other [simp]:
  "db_snapshots (assign_artifact i new db) = db_snapshots db"
  "db_audits (assign_artifact i new db) = db_audits db"
  "map af_artifact_id (db_artifacts (assign_artifact i new db)) = map af_artifact_id (db_artifacts db)"
  by (simp_all add: assign_artifact_def update_rows_keys)

lemma update_snapshot_row_other [simp]:
  "db_artifacts (update_snapshot_row i f db) = db_artifacts db"
  "db_audits (update_snapshot_row i f db) = db_audits db"
  "db_snapshots (update_snapshot_row i f db) = update_rows sn_snapshot_id i f (db_snapshots db)"
  by (simp_all add: update_snapshot_row_def)

lemma edit_row:
  assumes "keyed db" and "s \<in> set (db_snapshots db)" and "sn_status s = SS_DRAFT"
    and "\<And>r. sn_snapshot_id (f r) = sn_snapshot_id r" and "sn_status (f s) \<noteq> SS_LOCKED"
    and "db_snapshots db1 = db_snapshots db" and "db_audits db1 = db_audits db"
    and "map af_artifact_id (db_artifacts db1) = map af_artifact_id (db_artifacts db)"
    and "\<And>j. j \<noteq> sn_snapshot_id s \<Longrightarrow> members db1 j = members db j"
  shows "snapshot_edit db (update_snapshot_row (sn_snapshot_id s) f db1)"
proof -
  have one: "r = s" if "r \<in> set (db_snapshots db)" "sn_snapshot_id r = sn_snapshot_id s" for r
    using distinct_row [of sn_snapshot_id "db_snapshots db" r s] assms(1,2) that by (simp add: keyed_def)
  have "keyed (update_snapshot_row (sn_snapshot_id s) f db1)"
    using assms by (simp add: keyed_def update_rows_keys)
  moreover have "frozen db (update_snapshot_row (sn_snapshot_id s) f db1)"
    unfolding frozen_def
  proof (intro ballI impI)
    fix r assume r: "r \<in> set (db_snapshots db)" and "sn_status r = SS_LOCKED"
    with assms(3) one [of r] have "sn_snapshot_id r \<noteq> sn_snapshot_id s" by auto
    with r assms(6,9) show "r \<in> set (db_snapshots (update_snapshot_row (sn_snapshot_id s) f db1))
        \<and> members (update_snapshot_row (sn_snapshot_id s) f db1) (sn_snapshot_id r) = members db (sn_snapshot_id r)"
      by (auto simp: image_iff)
  qed
  ultimately show ?thesis
    unfolding snapshot_edit_def using assms one by auto
qed

lemma new_snapshot_edit:
  "create_snapshot sha fresh now u i rq db = Inr db' \<Longrightarrow> keyed db \<Longrightarrow> snapshot_edit db db'"
  by (auto simp: create_snapshot_def snapshot_edit_def keyed_def frozen_def members_def split: option.splits)

lemma update_snapshot_edit:
  assumes "update_snapshot u i rq db = Inr db'" and "keyed db"
  shows "snapshot_edit db db'"
proof -
  from assms(1) obtain s where s: "lock_snapshot db u i = Inr s" "sn_status s = SS_DRAFT"
    and db': "db' = update_snapshot_row i (apply_update rq) db"
    by (auto simp: update_snapshot_def require_draft_def)
  with lock_snapshot_Inr [OF s(1)] assms(2) show ?thesis
    using edit_row [of db s "apply_update rq" db] by (simp add: apply_update_def)
qed

lemma assign_edit:
  assumes "refresh_membership sha i (assign_artifact k new db) = Inr db'" and "keyed db"
    and "lock_snapshot db u i = Inr s" and "sn_status s = SS_DRAFT" and "own_artifact db v k = Some x"
    and "af_snapshot_id x = None \<or> af_snapshot_id x = Some i" and "new = None \<or> new = Some i"
  shows "snapshot_edit db db'"
proof -
  from assms(1) obtain n h where db': "db' = update_snapshot_row i
      (\<lambda>s. s\<lparr>sn_artifact_count := n, sn_snapshot_hash := h\<rparr>) (assign_artifact k new db)"
    by (auto simp: refresh_membership_def Let_def)
  note rows = lock_snapshot_Inr [OF assms(3)] own_artifact_SomeD [OF assms(5)]
  have "members (assign_artifact k new db) j = members db j" if "j \<noteq> i" for j
    using members_assign [of db x j new] rows assms(2,6,7) that by (auto simp: keyed_def)
  with rows assms(2,4) show ?thesis
    using edit_row [of db s "\<lambda>s. s\<lparr>sn_artifact_count := n, sn_snapshot_hash := h\<rparr>" "assign_artifact k new db"]
    by (simp add: db')
qed

lemma add_artifact_edit:
  "add_artifact sha u i k db = Inr db' \<Longrightarrow> keyed db \<Longrightarrow> snapshot_edit db db'"
  by (auto simp: add_artifact_def require_draft_def split: option.splits intro: assign_edit)

lemma remove_artifact_edit:
  "remove_artifact sha u i k db = Inr db' \<Longrightarrow> keyed db \<Longrightarrow> snapshot_edit db db'"
  by (auto simp: remove_artifact_def require_draft_def split: option.splits intro: assign_edit)

lemma finalize_edit:
  assumes "finalize_snapshot sha u i db = Inr db'" and "keyed db"
  shows "snapshot_edit db db'"
proof -
  from assms(1) obtain s n h where s: "lock_snapshot db u i = Inr s" "sn_status s = SS_DRAFT"
    and db': "db' = update_snapshot_row i
      (\<lambda>s. s\<lparr>sn_artifact_count := n, sn_snapshot_hash := h, sn_status := SS_READY\<rparr>) db"
    by (auto simp: finalize_snapshot_def require_draft_def Let_def)
  with lock_snapshot_Inr [OF s(1)] assms(2) show ?thesis
    using edit_row [of db s "\<lambda>s. s\<lparr>sn_artifact_count := n, sn_snapshot_hash := h, sn_status := SS_READY\<rparr>" db]
    by simp
qed

section \<open>The invariant\<close>

definition has_evidence :: "audit_store \<Rightarrow> audit \<Rightarrow> bool" where
  "has_evidence db a = (\<exists>s \<in> set (db_snapshots db). sn_snapshot_id s = au_snapshot_id a \<and> sn_device_id s = au_device_id a
     \<and> sn_organization_id s = au_organization_id a \<and> sn_status s = SS_LOCKED)"

definition store_ok :: "(string \<Rightarrow> string) \<Rightarrow> audit_store \<Rightarrow> bool" where
  "store_ok sha db = (keyed db \<and> (\<forall>a \<in> set (db_audits db). au_status a \<noteq> AU_DRAFT \<longrightarrow> has_evidence db a)
     \<and> (\<forall>s \<in> set (db_snapshots db). sn_status s = SS_LOCKED \<longrightarrow> (\<exists>xs. validate_snapshot_evidence sha db s = Inr xs)))"

text \<open>What a step does to the rows that are there.\<close>

definition progress :: "audit_store \<Rightarrow> audit_store \<Rightarrow> bool" where
  "progress db db' = (frozen db db' \<and> (\<forall>a \<in> set (db_audits db). \<exists>b \<in> set (db_audits db'). evolves a b))"

lemma evolves_self: "a \<in> rows \<Longrightarrow> \<exists>b \<in> rows. evolves a b"
  by (rule bexI [of _ a]) simp

lemma progress_refl: "progress db db"
  by (simp add: progress_def frozen_def evolves_self)

lemma progress_trans: "progress db db1 \<Longrightarrow> progress db1 db2 \<Longrightarrow> progress db db2"
  unfolding progress_def frozen_def by (metis evolves_trans)

lemma has_evidence_frozen:
  "frozen db db' \<Longrightarrow> has_evidence db a \<Longrightarrow> same_identity a b \<Longrightarrow> has_evidence db' b"
  unfolding has_evidence_def frozen_def same_identity_def by metis

lemma validate_members:
  "members db' (sn_snapshot_id s) = members db (sn_snapshot_id s)
    \<Longrightarrow> validate_snapshot_evidence sha db' s = validate_snapshot_evidence sha db s"
  by (simp add: validate_snapshot_evidence_def)

lemma rows_kept_ok: "rows_kept db db' \<Longrightarrow> store_ok sha db \<Longrightarrow> store_ok sha db' \<and> progress db db'"
  using progress_refl [of db]
  by (simp add: rows_kept_def store_ok_def keyed_def progress_def frozen_def members_def has_evidence_def
      validate_snapshot_evidence_def)

lemma snapshot_edit_ok:
  assumes "snapshot_edit db db'" and "store_ok sha db"
  shows "store_ok sha db' \<and> progress db db'"
proof -
  from assms(1) have fr: "frozen db db'" and same: "db_audits db' = db_audits db" and "keyed db'"
    and locked: "\<And>s. s \<in> set (db_snapshots db') \<Longrightarrow> sn_status s = SS_LOCKED \<Longrightarrow> s \<in> set (db_snapshots db)"
    by (simp_all add: snapshot_edit_def)
  moreover have "has_evidence db' a" if "a \<in> set (db_audits db)" "au_status a \<noteq> AU_DRAFT" for a
    using that assms(2) has_evidence_frozen [OF fr, of a a] by (simp add: store_ok_def same_identity_def)
  moreover have "\<exists>xs. validate_snapshot_evidence sha db' s = Inr xs"
    if "s \<in> set (db_snapshots db')" "sn_status s = SS_LOCKED" for s
    using locked [OF that] that(2) fr assms(2) validate_members [of db' s db sha] by (auto simp: store_ok_def frozen_def)
  ultimately show ?thesis
    by (simp add: store_ok_def progress_def evolves_self)
qed

lemma audits_changed_ok:
  assumes "store_ok sha db" and "db_snapshots db' = db_snapshots db" and "db_artifacts db' = db_artifacts db"
    and "distinct (map au_audit_id (db_audits db'))"
    and "\<And>a. a \<in> set (db_audits db) \<Longrightarrow> \<exists>b \<in> set (db_audits db'). evolves a b"
    and "\<And>b. b \<in> set (db_audits db') \<Longrightarrow> au_status b \<noteq> AU_DRAFT \<Longrightarrow> has_evidence db b"
  shows "store_ok sha db' \<and> progress db db'"
  using assms by (simp add: store_ok_def keyed_def progress_def frozen_def members_def has_evidence_def
      validate_snapshot_evidence_def)

lemma audit_edit_ok:
  assumes "audit_edit db db'" and "store_ok sha db"
  shows "store_ok sha db' \<and> progress db db'"
proof -
  from assms(1) obtain f a where a: "a \<in> set (db_audits db)" and ev: "evolves a (f a)"
    and ids: "\<And>r. au_audit_id (f r) = au_audit_id r" and draft: "au_status a = AU_DRAFT \<Longrightarrow> au_status (f a) = AU_DRAFT"
    and audits: "db_audits db' = update_rows au_audit_id (au_audit_id a) f (db_audits db)"
    and same: "db_snapshots db' = db_snapshots db" "db_artifacts db' = db_artifacts db"
    by (auto simp: audit_edit_def)
  have dist: "distinct (map au_audit_id (db_audits db))" using assms(2) by (simp add: store_ok_def keyed_def)
  have one: "r = a" if "r \<in> set (db_audits db)" "au_audit_id r = au_audit_id a" for r
    using distinct_row [OF dist that(1) a that(2)] .
  show ?thesis
  proof (rule audits_changed_ok [OF assms(2) same])
    show "distinct (map au_audit_id (db_audits db'))"
      using dist by (simp add: audits update_rows_keys ids)
    show "\<exists>b \<in> set (db_audits db'). evolves r b" if "r \<in> set (db_audits db)" for r
    proof (cases "au_audit_id r = au_audit_id a")
      case True
      with that ev one [of r] a show ?thesis by (auto simp: audits image_iff intro!: bexI [of _ "f a"])
    next
      case False
      with that have "r \<in> set (db_audits db')" by (auto simp: audits image_iff)
      then show ?thesis by (rule evolves_self)
    qed
    show "has_evidence db b" if b: "b \<in> set (db_audits db')" "au_status b \<noteq> AU_DRAFT" for b
    proof (cases "b \<in> set (db_audits db)")
      case False
      with b one have "b = f a" by (auto simp: audits split: if_splits)
      moreover have "has_evidence db a" using a assms(2) b(2) draft \<open>b = f a\<close> by (auto simp: store_ok_def)
      ultimately show ?thesis using ev by (auto simp: has_evidence_def evolves_def same_identity_def)
    qed (use b assms(2) in \<open>simp add: store_ok_def\<close>)
  qed
qed

lemma append_ok:
  assumes "store_ok sha db" and "db_audits db' = db_audits db @ [a]" and "audit_admitted (db_audits db) a"
    and "db_snapshots db' = db_snapshots db" and "db_artifacts db' = db_artifacts db"
    and "au_status a \<noteq> AU_DRAFT \<Longrightarrow> has_evidence db a"
  shows "store_ok sha db' \<and> progress db db'"
proof (rule audits_changed_ok [OF assms(1,4,5)])
  show "\<exists>b \<in> set (db_audits db'). evolves r b" if "r \<in> set (db_audits db)" for r
    using that by (intro evolves_self) (simp add: assms(2))
qed (use assms in \<open>auto simp: store_ok_def keyed_def audit_admitted_def\<close>)

section \<open>Submission, creation and re-evaluation\<close>

lemma start_audit_Inr:
  assumes "start_audit sha job_id now u i db = Inr (j, db')"
  obtains a s jobs xs where "find_audit i (us_organization_id u) db = Some a" and "au_status a = AU_DRAFT"
    and "get_snapshot_row (au_snapshot_id a) db = Some s" and "sn_organization_id s = au_organization_id a"
    and "sn_device_id s = au_device_id a" and "sn_status s = SS_READY" and "validate_snapshot_evidence sha db s = Inr xs"
    and "db' = update_audit i (\<lambda>x. x\<lparr>au_status := AU_QUEUED, au_processing_stage := None,
        au_started_at := None, au_completed_at := None\<rparr>)
      (update_snapshot_row (sn_snapshot_id s) (\<lambda>s. s\<lparr>sn_status := SS_LOCKED\<rparr>) (db\<lparr>db_jobs := jobs\<rparr>))"
  using assms unfolding start_audit_def by (auto split: option.splits prod.splits)

lemma submit_ok:
  assumes "start_audit sha job_id now u i db = Inr (j, db')" and ok: "store_ok sha db"
  shows "store_ok sha db' \<and> progress db db'"
  using assms(1)
proof (cases rule: start_audit_Inr)
  case (1 a s jobs xs)
  define s' where "s' = s\<lparr>sn_status := SS_LOCKED\<rparr>"
  define a' where "a' = a\<lparr>au_status := AU_QUEUED, au_processing_stage := None, au_started_at := None, au_completed_at := None\<rparr>"
  from ok have dist: "distinct (map sn_snapshot_id (db_snapshots db))" "distinct (map au_audit_id (db_audits db))"
    by (simp_all add: store_ok_def keyed_def)
  note a = find_audit_SomeD [OF 1(1)] and s = get_snapshot_row_SomeD [OF 1(3)]
  have snaps: "r = s'" if "r \<in> set (db_snapshots db')" "r \<notin> set (db_snapshots db)" for r
    using that 1(8) s distinct_row [OF dist(1), of _ s] by (auto simp: update_audit_def s'_def split: if_splits)
  have audits: "r = a'" if "r \<in> set (db_audits db')" "r \<notin> set (db_audits db)" for r
    using that 1(8) a distinct_row [OF dist(2), of _ a] by (auto simp: update_audit_def a'_def split: if_splits)
  have s'_in: "s' \<in> set (db_snapshots db')" and a'_in: "a' \<in> set (db_audits db')"
    using 1(8) a s by (auto simp: update_audit_def s'_def a'_def image_iff)
  have same: "members db' k = members db k" for k
    using 1(8) by (simp add: update_audit_def members_def update_snapshot_row_def)
  have fr: "frozen db db'"
    unfolding frozen_def
  proof (intro ballI impI)
    fix r assume r: "r \<in> set (db_snapshots db)" "sn_status r = SS_LOCKED"
    with 1(6) s distinct_row [OF dist(1) r(1), of s] have "sn_snapshot_id r \<noteq> sn_snapshot_id s" by auto
    with r 1(8) same show "r \<in> set (db_snapshots db') \<and> members db' (sn_snapshot_id r) = members db (sn_snapshot_id r)"
      by (auto simp: update_audit_def image_iff)
  qed
  have ev: "\<exists>b \<in> set (db_audits db'). evolves r b" if "r \<in> set (db_audits db)" for r
  proof (cases "r = a")
    case True
    then have "evolves r a'" using 1(2) by (simp add: a'_def evolve_simps)
    with a'_in show ?thesis by blast
  next
    case False
    with that a distinct_row [OF dist(2) that, of a] have "au_audit_id r \<noteq> i" by auto
    with that 1(8) have "r \<in> set (db_audits db')" by (auto simp: update_audit_def image_iff)
    then show ?thesis by (rule evolves_self)
  qed
  have "has_evidence db' a'"
    unfolding has_evidence_def using 1(4,5) s s'_in by (intro bexI [of _ s']) (simp_all add: s'_def a'_def)
  then have "has_evidence db' r" if "r \<in> set (db_audits db')" "au_status r \<noteq> AU_DRAFT" for r
    using that audits [OF that(1)] ok has_evidence_frozen [OF fr, of r r]
    by (cases "r \<in> set (db_audits db)") (auto simp: store_ok_def same_identity_def)
  moreover have "validate_snapshot_evidence sha db' s' = Inr xs"
    using 1(7) same by (simp add: validate_snapshot_evidence_def s'_def)
  then have "\<exists>xs. validate_snapshot_evidence sha db' r = Inr xs"
    if "r \<in> set (db_snapshots db')" "sn_status r = SS_LOCKED" for r
    using that snaps [OF that(1)] ok validate_members [of db' r db sha] same
    by (cases "r \<in> set (db_snapshots db)") (auto simp: store_ok_def)
  moreover have "keyed db'"
    using ok 1(8) by (simp add: store_ok_def keyed_def update_audit_def update_rows_keys)
  ultimately show ?thesis
    using fr ev by (simp add: store_ok_def progress_def)
qed

lemma create_audit_ok:
  "create_audit sha fresh now u rq db = Inr (a, db') \<Longrightarrow> store_ok sha db \<Longrightarrow> store_ok sha db' \<and> progress db db'"
  by (rule append_ok [of _ _ _ a]) (auto simp: create_audit_def new_audit_def Let_def split: option.splits)

lemma eligible_source:
  "eligibility sha json_loads db u i = Inr check \<Longrightarrow> re_eligible check
    \<Longrightarrow> source_audit db u i = Inr a \<Longrightarrow> au_status a \<in> COMPLETED_STATUSES"
  by (auto simp: eligibility_def ineligible_def split: if_splits)

lemma start_reevaluation_Inr:
  assumes "start_reevaluation sha json_loads fresh job_id now u i target pack_id db = Inr (r, db')"
  obtains "db' = db"
    | source revision jobs a where "find_audit i (us_organization_id u) db = Some source"
        and "au_status source \<in> COMPLETED_STATUSES" and "a = revised_audit fresh now u source revision target pack_id"
        and "audit_admitted (db_audits db) a" and "db' = db\<lparr>db_audits := db_audits db @ [a], db_jobs := jobs\<rparr>"
proof -
  from assms obtain source check where source: "source_audit db u i = Inr source"
    and check: "eligibility sha json_loads db u i = Inr check" "re_eligible check"
    unfolding start_reevaluation_def by (auto simp: and_then_Inr)
  have found: "find_audit i (us_organization_id u) db = Some source"
    using source by (auto simp: source_audit_def split: option.splits)
  from assms source show thesis
    unfolding start_reevaluation_def
    using that found eligible_source [OF check source]
    by (auto simp: Let_def split: option.splits list.splits prod.splits)
qed

lemma reevaluation_ok:
  assumes "start_reevaluation sha json_loads fresh job_id now u i target pack_id db = Inr (r, db')" and ok: "store_ok sha db"
  shows "store_ok sha db' \<and> progress db db'"
  using assms(1)
proof (cases rule: start_reevaluation_Inr)
  case 1
  with ok progress_refl [of db] show ?thesis by simp
next
  case (2 source revision jobs a)
  have "has_evidence db source"
    using ok find_audit_SomeD [OF 2(1)] 2(2) by (auto simp: store_ok_def COMPLETED_STATUSES_def)
  then have "has_evidence db a" by (simp add: has_evidence_def 2(3) revised_audit_def)
  with 2(4,5) ok show ?thesis by (intro append_ok [of _ _ _ a]) simp_all
qed

section \<open>Every step\<close>

lemma record_artifact_edit:
  "af_snapshot_id x = None \<Longrightarrow> af_artifact_id x \<notin> af_artifact_id ` set (db_artifacts db) \<Longrightarrow> keyed db
    \<Longrightarrow> snapshot_edit db (db\<lparr>db_artifacts := db_artifacts db @ [x]\<rparr>)"
  by (auto simp: snapshot_edit_def keyed_def frozen_def members_def)

lemma step_ok:
  assumes "audit_step lib db db'" and ok: "store_ok (al_sha lib) db"
  shows "store_ok (al_sha lib) db' \<and> progress db db'"
proof -
  have keys: "keyed db" using ok by (simp add: store_ok_def)
  note edit = audit_edit_ok [OF _ ok] and snap = snapshot_edit_ok [OF _ ok] and kept = rows_kept_ok [OF _ ok]
  from assms(1) show ?thesis
  proof cases
    case (record_artifact x)
    with record_artifact_edit [OF _ _ keys] snap show ?thesis by simp
  next
    case (new_device fresh now u dc)
    then show ?thesis by (intro kept) (auto simp: create_device_def rows_kept_def)
  next
    case (edit_device now u device_id du)
    then show ?thesis by (intro kept) (auto simp: update_device_def rows_kept_def)
  next
    case assess_pin
    with assess_edit edit kept show ?thesis by blast
  next
    case elsewhere
    then show ?thesis by (intro kept) (simp add: rows_kept_def)
  next
    case fail
    with fail_edit edit ok progress_refl show ?thesis by blast
  next
    case assess_results
    with results_edit edit ok progress_refl show ?thesis by blast
  qed ((erule create_audit_ok [OF _ ok] submit_ok [OF _ ok] reevaluation_ok [OF _ ok])
      | (rule snap, erule new_snapshot_edit [OF _ keys] update_snapshot_edit [OF _ keys] add_artifact_edit [OF _ keys]
          remove_artifact_edit [OF _ keys] finalize_edit [OF _ keys])
      | (rule edit, erule identify_edit begin_edit pin_edit pin_compliance_edit finish_edit)
      | (rule kept, erule resolve_keeps evaluate_keeps))+
qed

definition no_rows :: "audit_store \<Rightarrow> bool" where
  "no_rows db = (db_snapshots db = [] \<and> db_artifacts db = [] \<and> db_audits db = [])"

interpretation audits: invariant_system no_rows "audit_step lib" "store_ok (al_sha lib)" for lib
  by unfold_locales (auto simp: no_rows_def store_ok_def keyed_def dest: step_ok)

lemma run_progress: "(audit_step lib)\<^sup>*\<^sup>* db db' \<Longrightarrow> store_ok (al_sha lib) db \<Longrightarrow> progress db db'"
proof (induction rule: rtranclp_induct)
  case (step db1 db2)
  from step_ok [OF step(2) audits.steps_good [OF step(1,4)]] step show ?case
    by (blast intro: progress_trans)
qed (rule progress_refl)

end
