(* ===== verification/Audit_Histories.thy ===== *)
theory Audit_Histories
  imports Audit_Lifecycle Audit_Samples
begin

text \<open>
  The two laws of every history of the store, and a history on which they are applied: a device, an
  artifact, a snapshot with it, its audit, submitted and begun.
\<close>

text \<open>
  C37.  The evidence of a submitted audit never changes.  In every store that any order of
  transactions reaches from one without rows, an audit that is no longer a draft has a locked
  snapshot of its own organization and device whose artifacts are what the snapshot recorded; and
  after any further transactions the snapshot is the same row and its check gives the same artifacts.
\<close>

theorem submitted_evidence_is_immutable:
  assumes "no_rows db0" and "(audit_step lib)\<^sup>*\<^sup>* db0 db" and "(audit_step lib)\<^sup>*\<^sup>* db db'"
    and "a \<in> set (db_audits db)" and "au_status a \<noteq> AU_DRAFT"
  shows "case get_snapshot_row (au_snapshot_id a) db of None \<Rightarrow> False
    | Some s \<Rightarrow> sn_status s = SS_LOCKED \<and> sn_organization_id s = au_organization_id a
        \<and> sn_device_id s = au_device_id a \<and> get_snapshot_row (au_snapshot_id a) db' = Some s
        \<and> (case validate_snapshot_evidence (al_sha lib) db s of Inl e \<Rightarrow> False
           | Inr artifacts \<Rightarrow> validate_snapshot_evidence (al_sha lib) db' s = Inr artifacts)"
proof -
  have ok: "store_ok (al_sha lib) db" by (rule audits.reachable_good [OF assms(1,2)])
  then obtain s where s: "s \<in> set (db_snapshots db)" "sn_snapshot_id s = au_snapshot_id a"
    "sn_device_id s = au_device_id a" "sn_organization_id s = au_organization_id a" "sn_status s = SS_LOCKED"
    using assms(4,5) by (auto simp: store_ok_def has_evidence_def)
  have "frozen db db'" using run_progress [OF assms(3) ok] by (simp add: progress_def)
  with s have later: "s \<in> set (db_snapshots db')" "members db' (sn_snapshot_id s) = members db (sn_snapshot_id s)"
    unfolding frozen_def by blast+
  moreover from ok s obtain xs where "validate_snapshot_evidence (al_sha lib) db s = Inr xs"
    by (auto simp: store_ok_def)
  moreover have "get_snapshot_row (au_snapshot_id a) db = Some s"
    using keyed_snapshot [of db s] ok s by (simp add: store_ok_def keyed_def)
  moreover have "get_snapshot_row (au_snapshot_id a) db' = Some s"
    using keyed_snapshot [of db' s] audits.steps_good [OF assms(3) ok] s later by (simp add: store_ok_def keyed_def)
  ultimately show ?thesis
    using s validate_members [of db' s db] by simp
qed


section \<open>A history\<close>

definition run_user :: user where
  "run_user = \<lparr>us_user_id = 600, us_organization_id = 500, us_role = UR_ANALYST\<rparr>"

definition flat_sha :: "string \<Rightarrow> string" where
  "flat_sha x = replicate 64 CHR ''0''"

definition run_artifact :: artifact where
  "run_artifact = \<lparr>af_artifact_id = 700, af_organization_id = 500, af_snapshot_id = None,
     af_original_filename = ''edge.cfg'', af_storage_reference = ''ref'', af_byte_size = 3,
     af_sha256 = flat_sha [], af_mime_type = None, af_encoding = None, af_content_family = CF_TEXT,
     af_evidence_type = AE_CONFIGURATION, af_status = AS_READY, af_validation_issues = [],
     af_source_metadata = [], af_uploaded_by = None, af_created_at = 0, af_validated_at = None,
     af_schema_version = ''1.0.0''\<rparr>"

definition no_store :: audit_store where
  "no_store = sample_store\<lparr>db_devices := [], db_snapshots := [], db_audits := [], db_facts := []\<rparr>"

text \<open>The rows it writes, and the stores it goes through.\<close>

definition run_device :: device where
  "run_device = \<lparr>dv_device_id = 200, dv_organization_id = 500, dv_display_name = ''edge'',
     dv_latest_hostname = None, dv_stable_serial_number = None, dv_asset_tag = None, dv_device_class = DC_SWITCH,
     dv_identity_status = DI_UNRESOLVED, dv_first_seen_at = 0, dv_last_seen_at = 0, dv_is_active = True,
     dv_created_at = 0, dv_updated_at = 0, dv_schema_version = ''1.0.0''\<rparr>"

definition run_snapshot :: snapshot where
  "run_snapshot = \<lparr>sn_snapshot_id = 300, sn_device_id = 200, sn_organization_id = 500, sn_label = None,
     sn_captured_at = None, sn_ingested_at = 1, sn_status = SS_DRAFT, sn_grouping_status = SG_AUTOMATIC,
     sn_snapshot_hash = flat_sha [], sn_artifact_count = 0, sn_source = SO_UPLOAD, sn_created_by = Some 600,
     sn_created_at = 1, sn_schema_version = ''1.0.0''\<rparr>"

definition run_request :: audit_create where
  "run_request = \<lparr>ac_snapshot_id = 300, ac_selected_frameworks = [], ac_assessment_pack_version_id = None\<rparr>"

definition run_audit :: audit where
  "run_audit = new_audit 100 2 run_user run_snapshot run_request"

definition run_job :: job where
  "run_job = \<lparr>jb_job_id = 800, jb_job_type = JT_AUDIT, jb_status = JS_QUEUED, jb_stage = None, jb_progress = 0,
     jb_audit_id = Some 100, jb_device_id = Some 200, jb_payload = [], jb_attempt_count = 0, jb_error_code = None,
     jb_error_message = None, jb_created_at = 3, jb_started_at = None, jb_completed_at = None,
     jb_lease_owner = None, jb_heartbeat_at = None, jb_lease_expires_at = None\<rparr>"

definition store1 :: audit_store where
  "store1 = no_store\<lparr>db_devices := [run_device], db_artifacts := [run_artifact]\<rparr>"

definition store2 :: audit_store where
  "store2 = store1\<lparr>db_devices := [run_device\<lparr>dv_last_seen_at := 1, dv_updated_at := 1\<rparr>], db_snapshots := [run_snapshot]\<rparr>"

definition store3 :: audit_store where
  "store3 = store2\<lparr>db_artifacts := [run_artifact\<lparr>af_snapshot_id := Some 300\<rparr>],
     db_snapshots := [run_snapshot\<lparr>sn_artifact_count := 1\<rparr>]\<rparr>"

definition store4 :: audit_store where
  "store4 = store3\<lparr>db_snapshots := [run_snapshot\<lparr>sn_artifact_count := 1, sn_status := SS_READY\<rparr>]\<rparr>"

definition store5 :: audit_store where
  "store5 = store4\<lparr>db_audits := [run_audit]\<rparr>"

definition submitted_store :: audit_store where
  "submitted_store = store5\<lparr>db_jobs := [run_job], db_audits := [run_audit\<lparr>au_status := AU_QUEUED\<rparr>],
     db_snapshots := [run_snapshot\<lparr>sn_artifact_count := 1, sn_status := SS_LOCKED\<rparr>]\<rparr>"

definition begun_store :: audit_store where
  "begun_store = submitted_store\<lparr>db_audits := [run_audit\<lparr>au_status := AU_PROCESSING,
     au_processing_stage := Some ST_IDENTIFYING, au_started_at := Some 4\<rparr>]\<rparr>"

lemmas run_rows = run_user_def run_artifact_def run_device_def run_snapshot_def run_request_def run_audit_def
  run_job_def new_audit_def no_store_def sample_store_def store1_def store2_def store3_def store4_def store5_def
  submitted_store_def begun_store_def

lemma flat_hash [simp]: "normalize_snapshot_hash (flat_sha x) = Inr (flat_sha [])"
  unfolding flat_sha_def by code_simp

lemma flat_snapshot [simp]: "calculate_snapshot_hash flat_sha xs = flat_sha []"
  by (simp add: calculate_snapshot_hash_def flat_sha_def)

lemmas run_operations = update_rows_def update_audit_def update_snapshot_row_def lock_snapshot_def require_draft_def
  own_artifact_def assign_artifact_def refresh_membership_def members_def find_audit_def get_snapshot_row_def
  validate_snapshot_evidence_def ELIGIBLE_ARTIFACT_STATUSES_def audit_admitted_def insert_row_def flush_device_def

lemma run_results:
  "create_device 200 0 run_user \<lparr>dc_display_name = ''edge'', dc_latest_hostname = None,
     dc_stable_serial_number = None, dc_asset_tag = None, dc_device_class = DC_SWITCH,
     dc_identity_status = DI_UNRESOLVED\<rparr> no_store = Inr (no_store\<lparr>db_devices := [run_device]\<rparr>)"
  "create_snapshot flat_sha 300 1 run_user 200 \<lparr>sc_label = None, sc_captured_at = None,
     sc_source = SO_UPLOAD, sc_grouping_status = SG_AUTOMATIC\<rparr> store1 = Inr store2"
  "add_artifact flat_sha run_user 300 700 store2 = Inr store3"
  "finalize_snapshot flat_sha run_user 300 store3 = Inr store4"
  "create_audit flat_sha 100 2 run_user run_request store4 = Inr (run_audit, store5)"
  "start_audit flat_sha 800 3 run_user 100 store5 = Inr (run_job, submitted_store)"
  "begin_processing 4 100 500 submitted_store = Inr begun_store"
  by (simp_all add: run_rows run_operations create_device_def create_snapshot_def add_artifact_def finalize_snapshot_def
      create_audit_def start_audit_def begin_processing_def enqueue_job_def raise_from_def require_def Let_def)

definition run_library :: "audit_library \<Rightarrow> audit_library" where
  "run_library lib = lib\<lparr>al_sha := flat_sha\<rparr>"

lemma run_library_sha [simp]: "al_sha (run_library lib) = flat_sha"
  by (simp add: run_library_def)

lemma run_reaches:
  "(audit_step (run_library lib))\<^sup>*\<^sup>* no_store submitted_store"
  "(audit_step (run_library lib))\<^sup>*\<^sup>* submitted_store begun_store"
proof -
  let ?step = "audit_step (run_library lib)"
  have "?step no_store (no_store\<lparr>db_devices := [run_device]\<rparr>)"
    by (rule new_device [OF run_results(1)])
  moreover have "?step (no_store\<lparr>db_devices := [run_device]\<rparr>) store1"
    using record_artifact [of run_artifact "no_store\<lparr>db_devices := [run_device]\<rparr>"] by (simp add: run_rows)
  moreover have "?step store1 store2"
    by (rule new_snapshot) (subst run_library_sha, rule run_results(2))
  moreover have "?step store2 store3"
    by (rule assign) (subst run_library_sha, rule run_results(3))
  moreover have "?step store3 store4"
    by (rule seal) (subst run_library_sha, rule run_results(4))
  moreover have "?step store4 store5"
    by (rule initial_audit) (subst run_library_sha, rule run_results(5))
  moreover have "?step store5 submitted_store"
    by (rule submit) (subst run_library_sha, rule run_results(6))
  ultimately show "?step\<^sup>*\<^sup>* no_store submitted_store"
    by (meson converse_rtranclp_into_rtranclp r_into_rtranclp)
  show "?step\<^sup>*\<^sup>* submitted_store begun_store"
    by (rule r_into_rtranclp) (rule start_run [OF run_results(7)])
qed

lemma run_audit_queued:
  "no_rows no_store" "hd (db_audits submitted_store) \<in> set (db_audits submitted_store)"
  "au_status (hd (db_audits submitted_store)) = AU_QUEUED"
  by (simp_all add: run_rows no_rows_def)

theorem submitted_evidence_is_immutable_witness:
  "\<forall>lib. let a = hd (db_audits submitted_store) in
     case get_snapshot_row (au_snapshot_id a) submitted_store of None \<Rightarrow> False
     | Some s \<Rightarrow> sn_status s = SS_LOCKED \<and> sn_organization_id s = au_organization_id a
        \<and> sn_device_id s = au_device_id a \<and> get_snapshot_row (au_snapshot_id a) begun_store = Some s
        \<and> (case validate_snapshot_evidence (al_sha (run_library lib)) submitted_store s of Inl e \<Rightarrow> False
           | Inr artifacts \<Rightarrow> validate_snapshot_evidence (al_sha (run_library lib)) begun_store s = Inr artifacts)"
  unfolding Let_def
  by (intro allI submitted_evidence_is_immutable [OF run_audit_queued(1) run_reaches(1)
      run_reaches(2) run_audit_queued(2)]) (simp add: run_audit_queued(3))


end
