(* ===== verification/Py_Regex.thy ===== *)
theory Py_Regex
  imports Prelude
begin

text \<open>
  The part of Python's \<open>re\<close> that the program's patterns use: case-insensitive literals, classes,
  sequences, alternatives, greedy and lazy repetition, groups, \<open>\b\<close>, \<open>^\<close> and \<open>$\<close>.  A match is the list
  of the ends that backtracking would try, in its order; its head is the match that \<open>re\<close> returns.  A
  position is the character before it and the text after it, and no pattern repeats an empty match.
\<close>

datatype regex =
    RxEmpty
  | RxChar "char \<Rightarrow> bool"
  | RxSeq regex regex
  | RxAlt regex regex
  | RxRep nat "nat option" bool regex
  | RxGroup nat regex
  | RxBoundary
  | RxStart
  | RxEnd

text \<open>The character before, the text after, and the groups captured so far, the last one first.\<close>

type_synonym rx_state = "char option \<times> string \<times> (nat \<times> string) list"

text \<open>\<open>\w\<close> over the code points below 256.\<close>

definition word_char :: "char \<Rightarrow> bool" where
  "word_char c = (let n = code_of c in is_alnum c \<or> n \<in> {95, 170, 178, 179, 181, 185, 186, 188, 189, 190}
     \<or> (192 \<le> n \<and> n \<noteq> 215 \<and> n \<noteq> 247))"

definition at_boundary :: "char option \<Rightarrow> string \<Rightarrow> bool" where
  "at_boundary prev rest =
     ((case prev of None \<Rightarrow> False | Some c \<Rightarrow> word_char c) \<noteq> (case rest of [] \<Rightarrow> False | c # cs \<Rightarrow> word_char c))"

text \<open>Repetition of a matcher: \<open>lo\<close> more are needed, at most \<open>n\<close> are allowed.\<close>

fun rx_repeat :: "(rx_state \<Rightarrow> rx_state list) \<Rightarrow> bool \<Rightarrow> nat \<Rightarrow> nat \<Rightarrow> rx_state \<Rightarrow> rx_state list" where
  "rx_repeat m greedy lo 0 st = (if lo = 0 then [st] else [])"
| "rx_repeat m greedy lo (Suc n) st =
     (let further = concat (map (rx_repeat m greedy (lo - 1) n) (m st))
      in if lo \<noteq> 0 then further else if greedy then further @ [st] else st # further)"

text \<open>Without an upper bound, each round takes a character, so the length of the text is enough.\<close>

primrec rx_run :: "regex \<Rightarrow> rx_state \<Rightarrow> rx_state list" where
  "rx_run RxEmpty = (\<lambda>st. [st])"
| "rx_run (RxChar p) = (\<lambda>(prev, rest, gs). case rest of
     [] \<Rightarrow> [] | c # cs \<Rightarrow> if p c then [(Some c, cs, gs)] else [])"
| "rx_run (RxSeq r s) = (\<lambda>st. concat (map (rx_run s) (rx_run r st)))"
| "rx_run (RxAlt r s) = (\<lambda>st. rx_run r st @ rx_run s st)"
| "rx_run (RxRep lo hi greedy r) = (\<lambda>st. rx_repeat (rx_run r) greedy lo
     (case hi of Some n \<Rightarrow> n | None \<Rightarrow> length (fst (snd st))) st)"
| "rx_run (RxGroup n r) = (\<lambda>(prev, rest, gs). map (\<lambda>(b, t, hs).
     (b, t, (n, take (length rest - length t) rest) # hs)) (rx_run r (prev, rest, gs)))"
| "rx_run RxBoundary = (\<lambda>(prev, rest, gs). if at_boundary prev rest then [(prev, rest, gs)] else [])"
| "rx_run RxStart = (\<lambda>(prev, rest, gs). if prev = None then [(prev, rest, gs)] else [])"
| "rx_run RxEnd = (\<lambda>(prev, rest, gs). if rest = [] \<or> rest = [newline] then [(prev, rest, gs)] else [])"

text \<open>\<open>pattern.search(text)\<close>: the groups of the first match from the left.\<close>

fun rx_search_from :: "regex \<Rightarrow> char option \<Rightarrow> string \<Rightarrow> (nat \<times> string) list option" where
  "rx_search_from r prev rest = (case rx_run r (prev, rest, []) of
     (b, t, gs) # _ \<Rightarrow> Some gs
   | [] \<Rightarrow> (case rest of [] \<Rightarrow> None | c # cs \<Rightarrow> rx_search_from r (Some c) cs))"

definition rx_search :: "regex \<Rightarrow> string \<Rightarrow> (nat \<times> string) list option" where
  "rx_search r text = rx_search_from r None text"

definition rx_found :: "regex \<Rightarrow> string \<Rightarrow> bool" where
  "rx_found r text = (rx_search r text \<noteq> None)"

text \<open>\<open>match.group(n)\<close>; \<open>None\<close> for a group that took no part.\<close>

definition rx_group :: "nat \<Rightarrow> (nat \<times> string) list \<Rightarrow> string option" where
  "rx_group n gs = map_of gs n"

definition rx_value :: "nat \<Rightarrow> (nat \<times> string) list \<Rightarrow> string" where
  "rx_value n gs = (case rx_group n gs of None \<Rightarrow> [] | Some s \<Rightarrow> s)"

section \<open>Shorthands\<close>

fun rx_seq :: "regex list \<Rightarrow> regex" where
  "rx_seq [] = RxEmpty" | "rx_seq [r] = r" | "rx_seq (r # s # rs) = RxSeq r (rx_seq (s # rs))"

fun rx_alts :: "regex \<Rightarrow> regex list \<Rightarrow> regex" where
  "rx_alts r [] = r" | "rx_alts r (s # rs) = RxAlt r (rx_alts s rs)"

text \<open>A literal under \<open>re.IGNORECASE\<close>.\<close>

definition rx_text :: "string \<Rightarrow> regex" where
  "rx_text s = rx_seq (map (\<lambda>c. RxChar (\<lambda>x. lower_char x = lower_char c)) s)"

abbreviation rx_star :: "(char \<Rightarrow> bool) \<Rightarrow> regex" where "rx_star p \<equiv> RxRep 0 None True (RxChar p)"
abbreviation rx_plus :: "(char \<Rightarrow> bool) \<Rightarrow> regex" where "rx_plus p \<equiv> RxRep 1 None True (RxChar p)"
abbreviation rx_opt :: "regex \<Rightarrow> regex" where "rx_opt r \<equiv> RxRep 0 (Some 1) True r"

text \<open>\<open>.{0,n}?\<close>.\<close>

definition rx_gap :: "nat \<Rightarrow> regex" where
  "rx_gap n = RxRep 0 (Some n) False (RxChar (\<lambda>c. c \<noteq> newline))"

section \<open>What a search returns\<close>

text \<open>The end of a match is a suffix of the text, and a captured group is a piece of it.\<close>

definition rx_sound :: "(rx_state \<Rightarrow> rx_state list) \<Rightarrow> bool" where
  "rx_sound m = (\<forall>b s gs b' t hs. (b', t, hs) \<in> set (m (b, s, gs)) \<longrightarrow>
     suffix t s \<and> (\<forall>(n, g) \<in> set hs. (n, g) \<in> set gs \<or> sublist g s))"

lemma rx_soundD:
  "rx_sound m \<Longrightarrow> (b', t, hs) \<in> set (m (b, s, gs))
    \<Longrightarrow> suffix t s \<and> (\<forall>(n, g) \<in> set hs. (n, g) \<in> set gs \<or> sublist g s)"
  unfolding rx_sound_def by blast

lemma sublist_suffix: "sublist g t \<Longrightarrow> suffix t s \<Longrightarrow> sublist g s"
  by (meson sublist_order.order.trans suffix_imp_sublist)

lemma rx_sound_seq:
  assumes "rx_sound m" and "rx_sound k"
  shows "rx_sound (\<lambda>st. concat (map k (m st)))"
  unfolding rx_sound_def
proof (intro allI impI)
  fix b s gs b' t hs
  assume "(b', t, hs) \<in> set (concat (map k (m (b, s, gs))))"
  then obtain c u ks where first: "(c, u, ks) \<in> set (m (b, s, gs))" and second: "(b', t, hs) \<in> set (k (c, u, ks))"
    by auto
  from rx_soundD [OF assms(1) first] rx_soundD [OF assms(2) second]
  show "suffix t s \<and> (\<forall>(n, g) \<in> set hs. (n, g) \<in> set gs \<or> sublist g s)"
    by (force intro: suffix_order.trans sublist_suffix)
qed

lemma rx_sound_id: "rx_sound (\<lambda>st. [st])"
  by (auto simp: rx_sound_def)

lemma rx_sound_append: "rx_sound m \<Longrightarrow> rx_sound k \<Longrightarrow> rx_sound (\<lambda>st. m st @ k st)"
  unfolding rx_sound_def by (metis (no_types, lifting) Un_iff set_append)

lemma rx_sound_repeat: "rx_sound m \<Longrightarrow> rx_sound (rx_repeat m greedy lo n)"
proof (induction n arbitrary: lo)
  case 0
  then show ?case by (auto simp: rx_sound_def)
next
  case (Suc n)
  have further: "rx_sound (\<lambda>st. concat (map (rx_repeat m greedy (lo - 1) n) (m st)))"
    by (rule rx_sound_seq [OF Suc.prems Suc.IH [OF Suc.prems]])
  have "rx_repeat m greedy lo (Suc n) = (\<lambda>st. (if lo \<noteq> 0 then [] else if greedy then [] else [st])
      @ concat (map (rx_repeat m greedy (lo - 1) n) (m st)) @ (if lo \<noteq> 0 then [] else if greedy then [st] else []))"
    by (auto simp: Let_def)
  then show ?case
    using rx_sound_append [OF rx_sound_id further] rx_sound_append [OF further rx_sound_id] further
    by (cases "lo = 0"; cases greedy) simp_all
qed

lemma rx_sound_group:
  assumes "rx_sound (rx_run r)"
  shows "rx_sound (rx_run (RxGroup n r))"
  unfolding rx_sound_def
proof (intro allI impI)
  fix b s gs b' t hs
  assume "(b', t, hs) \<in> set (rx_run (RxGroup n r) (b, s, gs))"
  then obtain ks where hs: "hs = (n, take (length s - length t) s) # ks" and inner: "(b', t, ks) \<in> set (rx_run r (b, s, gs))"
    by auto
  from rx_soundD [OF assms inner] show "suffix t s \<and> (\<forall>(n, g) \<in> set hs. (n, g) \<in> set gs \<or> sublist g s)"
    by (auto simp: hs intro: sublist_take)
qed

lemma rx_run_sound: "rx_sound (rx_run r)"
proof (induction r)
  case (RxRep lo hi greedy r)
  then have "rx_sound (rx_repeat (rx_run r) greedy lo n)" for n by (rule rx_sound_repeat)
  then show ?case by (simp add: rx_sound_def)
next
  case (RxGroup n r)
  then show ?case by (rule rx_sound_group)
next
  case (RxSeq r s)
  then show ?case using rx_sound_seq by simp
next
  case (RxAlt r s)
  then show ?case using rx_sound_append by simp
qed (auto simp: rx_sound_def suffix_ConsI split: list.splits if_splits)

lemma rx_search_from_piece:
  "rx_search_from r prev s = Some gs \<Longrightarrow> (n, g) \<in> set gs \<Longrightarrow> sublist g s"
proof (induction r prev s rule: rx_search_from.induct)
  case (1 r prev s)
  show ?case
  proof (cases "rx_run r (prev, s, [])")
    case Nil
    with 1 show ?thesis by (cases s) (auto simp: sublist_Cons_right)
  next
    case (Cons st sts)
    then obtain b t where "st = (b, t, gs)" using 1(2) by (cases st) auto
    with Cons have "(b, t, gs) \<in> set (rx_run r (prev, s, []))" by simp
    from rx_soundD [OF rx_run_sound this] 1(3) show ?thesis by auto
  qed
qed

lemma rx_search_piece: "rx_search r s = Some gs \<Longrightarrow> rx_group n gs = Some g \<Longrightarrow> sublist g s"
  using rx_search_from_piece [of r None s gs n g]
  by (auto simp: rx_search_def rx_group_def dest: map_of_SomeD simp del: rx_search_from.simps)

end
