(* ===== verification/Profile_Evidence.thy ===== *)
theory Profile_Evidence
  imports Resolution_Models Py_Regex "HOL-Library.Product_Lexorder"
begin

text \<open>
  The evidence of a snapshot (\<open>profile_resolution/evidence.py\<close>) and the extraction of identities from
  it, line by line (the first half of \<open>profile_resolution/resolver.py\<close>): the patterns, the signals, and
  what each line adds.
\<close>

section \<open>Evidence\<close>

definition MAX_ARTIFACT_INSPECTION_BYTES :: nat where "MAX_ARTIFACT_INSPECTION_BYTES = 256 * 1024"
definition MAX_SNAPSHOT_INSPECTION_BYTES :: nat where "MAX_SNAPSHOT_INSPECTION_BYTES = 1024 * 1024"
definition MAX_SNAPSHOT_ARTIFACTS :: nat where "MAX_SNAPSHOT_ARTIFACTS = 100"

fun evidence_priority :: "artifact_evidence_type \<Rightarrow> nat" where
  "evidence_priority AE_VERSION_OUTPUT = 0"
| "evidence_priority AE_INVENTORY_OUTPUT = 1"
| "evidence_priority AE_OPERATIONAL_OUTPUT = 2"
| "evidence_priority AE_STRUCTURED_EXPORT = 3"
| "evidence_priority AE_CONFIGURATION = 4"
| "evidence_priority AE_UNKNOWN_EVIDENCE = 5"

record evidence_document =
  ed_artifact_id :: uuid
  ed_organization_id :: uuid
  ed_snapshot_id :: uuid
  ed_device_id :: uuid
  ed_evidence_type :: artifact_evidence_type
  ed_original_filename :: string
  ed_sha256 :: string
  ed_source_metadata :: json_object
  ed_text :: string
  ed_inspected_bytes :: nat
  ed_truncated :: bool

record snapshot_evidence =
  se_snapshot_id :: uuid
  se_organization_id :: uuid
  se_device_id :: uuid
  se_documents :: "evidence_document list"
  se_issues :: "(uuid \<times> string) list"
  se_inspected_bytes :: nat

text \<open>
  The loop over the artifacts.  \<open>decode\<close> decodes with replacement in one of the two encodings.  The
  total of the bytes that were read decides how much of the next artifact is read.
\<close>

fun inspect_artifacts ::
  "(string \<Rightarrow> byte list \<Rightarrow> string) \<Rightarrow> (string \<Rightarrow> int \<Rightarrow> exc + byte list) \<Rightarrow> uuid \<Rightarrow> uuid \<Rightarrow> artifact list
    \<Rightarrow> evidence_document list \<times> (uuid \<times> string) list \<times> nat
    \<Rightarrow> exc + evidence_document list \<times> (uuid \<times> string) list \<times> nat" where
  "inspect_artifacts decode read snapshot_id device_id [] acc = Inr acc"
| "inspect_artifacts decode read snapshot_id device_id (x # xs) (documents, issues, seen) =
     (if MAX_SNAPSHOT_INSPECTION_BYTES \<le> seen
      then Inr (documents, issues @ [(af_artifact_id x, ''snapshot_inspection_limit'')], seen)
      else (case read (af_storage_reference x)
          (int (min MAX_ARTIFACT_INSPECTION_BYTES (MAX_SNAPSHOT_INSPECTION_BYTES - seen))) of
          Inl e \<Rightarrow>
            if is_storage_error (exc_class e)
            then inspect_artifacts decode read snapshot_id device_id xs
              (documents, issues @ [(af_artifact_id x, ''artifact_unavailable'')], seen)
            else Inl e
        | Inr content \<Rightarrow>
            (let d = \<lparr>ed_artifact_id = af_artifact_id x, ed_organization_id = af_organization_id x,
                   ed_snapshot_id = snapshot_id, ed_device_id = device_id, ed_evidence_type = af_evidence_type x,
                   ed_original_filename = af_original_filename x, ed_sha256 = af_sha256 x,
                   ed_source_metadata = af_source_metadata x, ed_text = decode (encoding_of x) content,
                   ed_inspected_bytes = length content, ed_truncated = (length content < af_byte_size x)\<rparr>
             in inspect_artifacts decode read snapshot_id device_id xs
                  (documents @ [d], issues, seen + length content))))"

definition aggregate_snapshot_evidence ::
  "(string \<Rightarrow> byte list \<Rightarrow> string) \<Rightarrow> (string \<Rightarrow> int \<Rightarrow> exc + byte list) \<Rightarrow> uuid \<Rightarrow> uuid \<Rightarrow> uuid \<Rightarrow> artifact list
    \<Rightarrow> exc + snapshot_evidence" where
  "aggregate_snapshot_evidence decode read snapshot_id organization_id device_id artifacts =
     (let all_ordered = sort_key (\<lambda>x. (evidence_priority (af_evidence_type x), af_artifact_id x)) artifacts;
          over = (case drop MAX_SNAPSHOT_ARTIFACTS all_ordered of
            [] \<Rightarrow> [] | x # _ \<Rightarrow> [(af_artifact_id x, ''artifact_count_limit'')])
      in and_then (inspect_artifacts decode read snapshot_id device_id (take MAX_SNAPSHOT_ARTIFACTS all_ordered)
           ([], over, 0)) (\<lambda>(documents, issues, seen).
         Inr \<lparr>se_snapshot_id = snapshot_id, se_organization_id = organization_id, se_device_id = device_id,
           se_documents = documents, se_issues = issues, se_inspected_bytes = seen\<rparr>))"

section \<open>Patterns\<close>

definition MAX_LINE_CHARACTERS_INSPECTED :: nat where "MAX_LINE_CHARACTERS_INSPECTED = 4096"
definition MAX_LINES_PER_ARTIFACT :: nat where "MAX_LINES_PER_ARTIFACT = 10000"
definition MAX_SUPPORTING_SIGNALS :: nat where "MAX_SUPPORTING_SIGNALS = 200"

definition model_char :: "char \<Rightarrow> bool" where
  "model_char c = (is_alnum c \<or> c \<in> set ''._/-'')"

definition value_rx :: "nat \<Rightarrow> regex" where
  "value_rx n = RxGroup n (RxSeq (RxChar is_alnum)
     (RxRep 0 (Some 63) True (RxChar (\<lambda>c. is_alnum c \<or> c \<in> set ''()._/-''))))"

abbreviation blanks :: regex where "blanks \<equiv> rx_star py_space"
abbreviation blanks1 :: regex where "blanks1 \<equiv> rx_plus py_space"
abbreviation one_of :: "string \<Rightarrow> regex" where "one_of s \<equiv> RxChar (\<lambda>c. c \<in> set s)"

definition IOS_XE_VERSION_PATTERNS :: "regex list" where
  "IOS_XE_VERSION_PATTERNS =
     [rx_seq [RxBoundary, rx_text ''Cisco IOS XE Software'', RxBoundary, rx_gap 200, RxBoundary, rx_text ''Version'',
        blanks1, value_rx 1],
      rx_seq [RxBoundary, rx_text ''Cisco IOS Software'', RxBoundary, rx_gap 250, RxBoundary,
        rx_alts (rx_seq [rx_text ''IOS'', rx_opt (one_of ''-_ ''), rx_text ''XE''])
          [rx_seq [rx_plus is_alnum, rx_text ''_IOSXE'']],
        RxBoundary, rx_gap 250, RxBoundary, rx_text ''Version'', blanks1, value_rx 1]]"

definition IOS_XE_MARKER :: regex where
  "IOS_XE_MARKER = rx_seq [RxBoundary,
     rx_alts (rx_seq [rx_text ''Cisco IOS'', rx_opt (one_of ''- ''), rx_text ''XE Software''])
       [rx_seq [rx_plus is_alnum, rx_text ''_IOSXE'']], RxBoundary]"

definition IOS_VERSION_PATTERN :: regex where
  "IOS_VERSION_PATTERN = rx_seq [RxBoundary, rx_text ''Cisco IOS Software'', RxBoundary, rx_gap 300, RxBoundary,
     rx_text ''Version'', blanks1, value_rx 1]"

text \<open>\<open>^\s*label\s*:\s*value\<close>.\<close>

definition labelled :: "string \<Rightarrow> regex" where
  "labelled label = rx_seq [RxStart, blanks, rx_text label, blanks, rx_text '':'', blanks, value_rx 1]"

definition MODEL_NUMBER_PATTERN :: regex where "MODEL_NUMBER_PATTERN = labelled ''Model Number''"

definition CISCO_PROCESSOR_PATTERN :: regex where
  "CISCO_PROCESSOR_PATTERN = rx_seq [RxStart, blanks, rx_text ''cisco'', blanks1, value_rx 1, blanks1, rx_text ''('',
     RxRep 0 (Some 160) True (RxChar (\<lambda>c. c \<noteq> newline)), rx_text '')'', blanks1, rx_text ''processor'', RxBoundary]"

definition CHASSIS_NAME_PATTERN :: regex where
  "CHASSIS_NAME_PATTERN = (let q = CHR 0x22; other = rx_star (\<lambda>c. c \<noteq> CHR 0x22) in
     rx_seq [RxStart, blanks, rx_text ''NAME'', blanks, rx_text '':'', blanks, rx_text [q], other, rx_text ''chassis'',
       other, rx_text [q]])"

definition PID_PATTERN :: regex where
  "PID_PATTERN = rx_seq [RxBoundary, rx_text ''PID'', blanks, rx_text '':'', blanks, value_rx 1]"

definition SERIAL_PATTERNS :: "regex list" where
  "SERIAL_PATTERNS =
     [rx_seq [RxBoundary, rx_text ''System Serial Number'', blanks, rx_text '':'', blanks, value_rx 1],
      rx_seq [RxBoundary, rx_text ''Processor board ID'', blanks1, value_rx 1]]"

definition SN_PATTERN :: regex where
  "SN_PATTERN = rx_seq [RxBoundary, rx_text ''SN'', blanks, rx_text '':'', blanks, value_rx 1]"

definition JUNOS_PATTERN :: regex where
  "JUNOS_PATTERN = rx_seq [RxBoundary, rx_alts (rx_text ''JUNOS Software Release'') [rx_text ''Junos:''], blanks,
     rx_opt (rx_text ''[''), value_rx 1]"

definition FORTIOS_PATTERN :: regex where
  "FORTIOS_PATTERN = rx_seq [RxBoundary, rx_text ''FortiOS'', blanks1, rx_opt (rx_text ''v''), value_rx 1]"

definition FORTIOS_STATUS_PATTERN :: regex where
  "FORTIOS_STATUS_PATTERN = rx_seq [RxStart, blanks, rx_text ''Version:'', blanks,
     RxGroup 1 (RxSeq (rx_text ''FortiGate-'') (rx_plus model_char)), blanks1, rx_opt (rx_text ''v''), value_rx 2,
     rx_opt (rx_seq [rx_text '','', blanks, rx_text ''build'', blanks, RxGroup 3 (rx_plus is_digit)])]"

definition FORTIOS_HOSTNAME_PATTERN :: regex where "FORTIOS_HOSTNAME_PATTERN = labelled ''Hostname''"
definition FORTIOS_SERIAL_PATTERN :: regex where "FORTIOS_SERIAL_PATTERN = labelled ''Serial-Number''"

definition ARISTA_PRODUCT_PATTERN :: regex where
  "ARISTA_PRODUCT_PATTERN = rx_seq [RxStart, blanks, rx_text ''Arista'', blanks1,
     RxGroup 1 (rx_alts (RxSeq (rx_text ''vEOS'') (rx_opt (rx_text ''-lab'')))
       [rx_text ''EOS'', RxSeq (rx_text ''DCS-'') (rx_plus model_char)]), RxBoundary]"

definition ARISTA_SERIAL_PATTERN :: regex where "ARISTA_SERIAL_PATTERN = labelled ''Serial number''"

definition ARISTA_SOFTWARE_VERSION_PATTERN :: regex where
  "ARISTA_SOFTWARE_VERSION_PATTERN = labelled ''Software image version''"

definition KNOWN_PLATFORM_CLAIM_PATTERN :: regex where
  "KNOWN_PLATFORM_CLAIM_PATTERN = rx_seq [RxBoundary,
     rx_alts (rx_text ''Cisco'')
       [rx_seq [rx_text ''IOS'', rx_opt (one_of ''-_ ''), rx_text ''XE''], rx_text ''Fortinet'', rx_text ''FortiOS'',
        rx_text ''Juniper'', rx_text ''Junos'',
        rx_seq [rx_text ''Arista'', blanks1, rx_alts (rx_text ''EOS'') [rx_text ''vEOS'', rx_text ''DCS-'']]],
     RxBoundary]"

definition FILENAME_HINT_PATTERN :: regex where
  "FILENAME_HINT_PATTERN = rx_seq [RxAlt RxStart (RxChar (\<lambda>c. \<not> is_alnum c)),
     rx_alts (rx_text ''cisco'') [rx_seq [rx_text ''ios'', rx_opt (one_of ''-_ ''), rx_text ''xe'']],
     RxAlt (RxChar (\<lambda>c. \<not> is_alnum c)) RxEnd]"

definition CONFIG_SYNTAX_PATTERNS :: "(string \<times> regex) list" where
  "CONFIG_SYNTAX_PATTERNS =
     [(''hostname'', rx_seq [RxStart, rx_text ''hostname'', blanks1, rx_plus (\<lambda>c. \<not> py_space c)]),
      (''interface'', rx_seq [RxStart, rx_text ''interface'', blanks1, rx_plus (\<lambda>c. \<not> py_space c)]),
      (''line'', rx_seq [RxStart, rx_text ''line'', blanks1,
         rx_alts (rx_text ''vty'') [rx_text ''con'', rx_text ''console'', rx_text ''aux''], RxBoundary]),
      (''aaa'', rx_seq [RxStart, rx_text ''aaa'', blanks1]),
      (''access_list'', rx_seq [RxStart, rx_alts (rx_text ''ip'') [rx_text ''ipv6''], blanks1, rx_text ''access-list'', blanks1]),
      (''snmp'', rx_seq [RxStart, rx_text ''snmp-server'', blanks1]),
      (''routing'', rx_seq [RxStart, rx_text ''router'', blanks1,
         rx_alts (rx_text ''bgp'') [rx_text ''ospf'', rx_text ''eigrp'', rx_text ''isis''], RxBoundary])]"

definition BANNER_PATTERN :: regex where
  "BANNER_PATTERN = rx_seq [RxStart, rx_text ''banner'', blanks1, rx_plus (\<lambda>c. \<not> py_space c), blanks1,
     RxGroup 1 (rx_plus (\<lambda>c. \<not> py_space c))]"

definition first_match :: "regex list \<Rightarrow> string \<Rightarrow> (nat \<times> string) list option" where
  "first_match patterns line = (case find (\<lambda>p. rx_found p line) patterns of None \<Rightarrow> None | Some p \<Rightarrow> rx_search p line)"

section \<open>Lines\<close>

text \<open>\<open>str.splitlines()\<close>; a line that is not ended is kept unless it is empty.\<close>

definition line_break :: "char \<Rightarrow> bool" where
  "line_break c = (code_of c \<in> {10, 11, 12, 13, 28, 29, 30, 133})"

function split_lines :: "string \<Rightarrow> string \<Rightarrow> string list" where
  "split_lines acc [] = (if acc = [] then [] else [rev acc])"
| "split_lines acc (c # cs) =
     (if c = cret then rev acc # split_lines [] (case cs of d # ds \<Rightarrow> if d = newline then ds else cs | [] \<Rightarrow> [])
      else if line_break c then rev acc # split_lines [] cs else split_lines (c # acc) cs)"
  by pat_completeness auto
termination by (relation "measure (length \<circ> snd)") (auto split: list.splits)

text \<open>\<open>s.count(sub)\<close> for a non-empty \<open>sub\<close>.\<close>

function count_sub :: "string \<Rightarrow> string \<Rightarrow> nat" where
  "count_sub sub [] = 0"
| "count_sub sub (c # s) =
     (if sub \<noteq> [] \<and> prefix sub (c # s) then Suc (count_sub sub (drop (length sub) (c # s))) else count_sub sub s)"
  by pat_completeness auto
termination by (relation "measure (length \<circ> snd)") auto

definition match_start :: "regex \<Rightarrow> string \<Rightarrow> (nat \<times> string) list option" where
  "match_start r s = (case rx_run r (None, s, []) of [] \<Rightarrow> None | (b, t, gs) # _ \<Rightarrow> Some gs)"

text \<open>The numbered lines that carry data; a configuration's comments and banners do not.\<close>

fun data_lines_from :: "bool \<Rightarrow> string option \<Rightarrow> (nat \<times> string) list \<Rightarrow> (nat \<times> string) list" where
  "data_lines_from configuration banner [] = []"
| "data_lines_from configuration banner ((n, raw) # rest) =
     (let line = take MAX_LINE_CHARACTERS_INSPECTED raw; stripped = py_strip line in
      if \<not> configuration then (n, line) # data_lines_from configuration banner rest
      else (case banner of
          Some delimiter \<Rightarrow>
            data_lines_from configuration (if py_in delimiter stripped then None else banner) rest
        | None \<Rightarrow>
            if stripped = [] \<or> hd stripped \<in> set ''!#;'' then data_lines_from configuration None rest
            else (case match_start BANNER_PATTERN stripped of
                Some gs \<Rightarrow>
                  data_lines_from configuration
                    (if count_sub (rx_value 1 gs) stripped < 2 then Some (rx_value 1 gs) else None) rest
              | None \<Rightarrow> (n, line) # data_lines_from configuration None rest)))"

definition data_lines :: "evidence_document \<Rightarrow> (nat \<times> string) list" where
  "data_lines d = data_lines_from (ed_evidence_type d = AE_CONFIGURATION) None
     (enumerate 1 (take MAX_LINES_PER_ARTIFACT (split_lines [] (ed_text d))))"

end
