(* ===== verification/Profile_Resolver.thy ===== *)
theory Profile_Resolver
  imports Profile_Evidence Parsing_Service Runtime_Profiles
begin

text \<open>
  The resolution of a snapshot's evidence to a device profile (the second half of
  \<open>profile_resolution/resolver.py\<close>): what each line of a document adds to the signals, the
  identities and the hardware found so far, what the selectors of the manifests find in XML, and the
  result that these determine.
\<close>

section \<open>What is found\<close>

record found_identity =
  ey_vendor :: string
  ey_os :: string
  ey_version :: "string option"
  ey_signal :: evidence_signal

record found_hardware =
  hw_value :: string
  hw_signal :: evidence_signal

record profile_facts =
  pf_signals :: "evidence_signal list"
  pf_identities :: "found_identity list"
  pf_models :: "found_hardware list"
  pf_serials :: "found_hardware list"
  pf_hostnames :: "found_hardware list"
  pf_builds :: "string list"
  pf_syntax :: "evidence_signal list"

definition no_facts :: profile_facts where
  "no_facts = \<lparr>pf_signals = [], pf_identities = [], pf_models = [], pf_serials = [], pf_hostnames = [],
     pf_builds = [], pf_syntax = []\<rparr>"

text \<open>The local variables of the loop over one document.\<close>

record document_context =
  dx_cisco :: bool
  dx_arista :: bool
  dx_fortios :: bool
  dx_arista_versions :: "(string \<times> nat) list"
  dx_fortios_identity :: "(string \<times> string \<times> nat) list"
  dx_categories :: "string list"
  dx_chassis :: nat

definition new_document :: document_context where
  "new_document = \<lparr>dx_cisco = False, dx_arista = False, dx_fortios = False, dx_arista_versions = [],
     dx_fortios_identity = [], dx_categories = [], dx_chassis = 0\<rparr>"

type_synonym examination = "profile_facts \<times> document_context"

definition signal_of ::
  "evidence_document \<Rightarrow> nat option \<Rightarrow> string \<Rightarrow> string \<Rightarrow> signal_strength \<Rightarrow> string list \<Rightarrow> evidence_signal" where
  "signal_of d line category signal_id strength names =
     \<lparr>sg_artifact_id = ed_artifact_id d, sg_evidence_type = ed_evidence_type d, sg_line_number = line,
      sg_category = category, sg_signal_id = signal_id, sg_strength = strength, sg_extracted_fields = names,
      sg_source_label = Some (ed_original_filename d), sg_source_path = None\<rparr>"

definition signal_key :: "evidence_signal \<Rightarrow> uuid \<times> string \<times> nat option" where
  "signal_key s = (sg_artifact_id s, sg_signal_id s, sg_line_number s)"

definition append_signal :: "evidence_signal \<Rightarrow> evidence_signal list \<Rightarrow> evidence_signal list" where
  "append_signal s signals =
     (if length signals < MAX_SUPPORTING_SIGNALS \<and> signal_key s \<notin> signal_key ` set signals
      then signals @ [s] else signals)"

definition add_signal :: "evidence_signal \<Rightarrow> profile_facts \<Rightarrow> profile_facts" where
  "add_signal s f = f\<lparr>pf_signals := append_signal s (pf_signals f)\<rparr>"

definition add_identity :: "string \<Rightarrow> string \<Rightarrow> string option \<Rightarrow> evidence_signal \<Rightarrow> profile_facts \<Rightarrow> profile_facts" where
  "add_identity vendor os version s f =
     add_signal s (f\<lparr>pf_identities := pf_identities f
       @ [\<lparr>ey_vendor = vendor, ey_os = os, ey_version = version, ey_signal = s\<rparr>]\<rparr>)"

definition add_model :: "string \<Rightarrow> evidence_signal \<Rightarrow> profile_facts \<Rightarrow> profile_facts" where
  "add_model v s f = add_signal s (f\<lparr>pf_models := pf_models f @ [\<lparr>hw_value = v, hw_signal = s\<rparr>]\<rparr>)"

definition add_serial :: "string \<Rightarrow> evidence_signal \<Rightarrow> profile_facts \<Rightarrow> profile_facts" where
  "add_serial v s f = add_signal s (f\<lparr>pf_serials := pf_serials f @ [\<lparr>hw_value = v, hw_signal = s\<rparr>]\<rparr>)"

definition add_hostname :: "string \<Rightarrow> evidence_signal \<Rightarrow> profile_facts \<Rightarrow> profile_facts" where
  "add_hostname v s f = add_signal s (f\<lparr>pf_hostnames := pf_hostnames f @ [\<lparr>hw_value = v, hw_signal = s\<rparr>]\<rparr>)"

text \<open>\<open>model.upper().startswith(p)\<close>.\<close>

definition upper_prefix :: "string \<Rightarrow> string \<Rightarrow> bool" where
  "upper_prefix p s = prefix (map lower_char p) (map lower_char s)"

definition classify_hardware :: "string option \<Rightarrow> string option \<times> device_class option" where
  "classify_hardware model = (case model of
     None \<Rightarrow> (None, None)
   | Some m \<Rightarrow>
       if list_ex (\<lambda>p. upper_prefix p m) [''C9'', ''WS-C'', ''CAT''] then (Some ''Catalyst'', Some DC_SWITCH)
       else if upper_prefix ''ISR'' m then (Some ''ISR'', Some DC_ROUTER)
       else if upper_prefix ''ASR'' m then (Some ''ASR'', Some DC_ROUTER)
       else (None, None))"

definition is_recognized_cisco_model :: "string \<Rightarrow> bool" where
  "is_recognized_cisco_model m = (fst (classify_hardware (Some m)) \<noteq> None)"

definition first_value :: "found_hardware list \<Rightarrow> string option" where
  "first_value vs = (case vs of [] \<Rightarrow> None | v # _ \<Rightarrow> Some (hw_value v))"

section \<open>A line\<close>

definition explicit_strength :: "evidence_document \<Rightarrow> signal_strength" where
  "explicit_strength d = (if ed_evidence_type d = AE_CONFIGURATION then SG_STRONG else SG_STRONGEST)"

definition cisco_os_step :: "evidence_document \<Rightarrow> nat \<Rightarrow> string \<Rightarrow> examination \<Rightarrow> examination" where
  "cisco_os_step d n line st =
     (let (f, x) = st; sig = (\<lambda>i names. signal_of d (Some n) ''os_identity'' i (explicit_strength d) names)
      in case first_match IOS_XE_VERSION_PATTERNS line of
           Some gs \<Rightarrow> (add_identity ''Cisco'' ''IOS XE'' (Some (rx_value 1 gs))
             (sig ''cisco_ios_xe_version'' [''vendor'', ''os'', ''os_version'']) f, x\<lparr>dx_cisco := True\<rparr>)
         | None \<Rightarrow>
             if rx_found IOS_XE_MARKER line
             then (add_identity ''Cisco'' ''IOS XE'' None (sig ''cisco_ios_xe_marker'' [''vendor'', ''os'']) f,
                   x\<lparr>dx_cisco := True\<rparr>)
             else (case rx_search IOS_VERSION_PATTERN line of
                 Some gs \<Rightarrow> (add_identity ''Cisco'' ''IOS'' (Some (rx_value 1 gs))
                   (sig ''cisco_ios_version'' [''vendor'', ''os'', ''os_version'']) f, x\<lparr>dx_cisco := True\<rparr>)
               | None \<Rightarrow> (f, x)))"

definition other_os_step ::
  "regex \<times> string \<times> string \<times> string \<Rightarrow> evidence_document \<Rightarrow> nat \<Rightarrow> string \<Rightarrow> examination \<Rightarrow> examination" where
  "other_os_step entry d n line st =
     (let (pattern, vendor, os_name, signal_id) = entry; (f, x) = st
      in case rx_search pattern line of
           None \<Rightarrow> (f, x)
         | Some gs \<Rightarrow> (add_identity vendor os_name (Some (rx_value 1 gs))
             (signal_of d (Some n) ''os_identity'' signal_id (explicit_strength d) [''vendor'', ''os'', ''os_version'']) f,
             if vendor = ''Fortinet'' then x\<lparr>dx_fortios := True\<rparr> else x))"

definition fortios_status_step :: "nat \<Rightarrow> string \<Rightarrow> examination \<Rightarrow> examination" where
  "fortios_status_step n line st =
     (let (f, x) = st in case rx_search FORTIOS_STATUS_PATTERN line of
        None \<Rightarrow> (f, x)
      | Some gs \<Rightarrow>
          (if rx_value 3 gs \<noteq> [] then f\<lparr>pf_builds := pf_builds f @ [rx_value 3 gs]\<rparr> else f,
           x\<lparr>dx_fortios := True,
             dx_fortios_identity := dx_fortios_identity x @ [(rx_value 1 gs, rx_value 2 gs, n)]\<rparr>))"

definition arista_product_step :: "evidence_document \<Rightarrow> nat \<Rightarrow> string \<Rightarrow> examination \<Rightarrow> examination" where
  "arista_product_step d n line st =
     (let (f, x) = st in case rx_search ARISTA_PRODUCT_PATTERN line of
        None \<Rightarrow> (f, x)
      | Some gs \<Rightarrow>
          (add_model (rx_value 1 gs) (signal_of d (Some n) ''hardware_identity'' ''arista_model'' SG_STRONG [''model''])
             (add_identity ''Arista'' ''EOS'' None
                (signal_of d (Some n) ''os_identity'' ''arista_eos_marker'' SG_STRONGEST [''vendor'', ''os'']) f),
           x\<lparr>dx_arista := True\<rparr>))"

definition arista_serial_step :: "evidence_document \<Rightarrow> nat \<Rightarrow> string \<Rightarrow> examination \<Rightarrow> examination" where
  "arista_serial_step d n line st =
     (let (f, x) = st in case rx_search ARISTA_SERIAL_PATTERN line of
        Some gs \<Rightarrow>
          if dx_arista x then (add_serial (rx_value 1 gs)
            (signal_of d (Some n) ''hardware_identity'' ''arista_serial'' SG_STRONG [''serial_number'']) f, x)
          else (f, x)
      | None \<Rightarrow> (f, x))"

definition arista_version_step :: "nat \<Rightarrow> string \<Rightarrow> examination \<Rightarrow> examination" where
  "arista_version_step n line st =
     (let (f, x) = st in case rx_search ARISTA_SOFTWARE_VERSION_PATTERN line of
        None \<Rightarrow> (f, x)
      | Some gs \<Rightarrow> (f, x\<lparr>dx_arista_versions := dx_arista_versions x @ [(rx_value 1 gs, n)]\<rparr>))"

definition arista_step :: "evidence_document \<Rightarrow> nat \<Rightarrow> string \<Rightarrow> examination \<Rightarrow> examination" where
  "arista_step d n line st =
     (if ed_evidence_type d = AE_VERSION_OUTPUT
      then arista_version_step n line (arista_serial_step d n line (arista_product_step d n line st)) else st)"

definition fortios_label_step :: "regex \<Rightarrow> string \<Rightarrow> nat \<Rightarrow> string \<Rightarrow> examination \<Rightarrow> examination" where
  "fortios_label_step pattern kind n line st =
     (let (f, x) = st in case rx_search pattern line of
        None \<Rightarrow> (f, x)
      | Some gs \<Rightarrow> (f, x\<lparr>dx_fortios_identity := dx_fortios_identity x @ [(kind, rx_value 1 gs, n)]\<rparr>))"

definition cisco_model_step :: "evidence_document \<Rightarrow> nat \<Rightarrow> string \<Rightarrow> examination \<Rightarrow> examination" where
  "cisco_model_step d n line st =
     (let (f, x) = st; processor = rx_search CISCO_PROCESSOR_PATTERN line;
          found = (case processor of Some gs \<Rightarrow> Some gs | None \<Rightarrow> rx_search MODEL_NUMBER_PATTERN line)
      in case found of
           None \<Rightarrow> (f, x)
         | Some gs \<Rightarrow>
             if processor \<noteq> None \<or> dx_cisco x \<or> is_recognized_cisco_model (rx_value 1 gs)
             then (add_model (rx_value 1 gs)
                     (signal_of d (Some n) ''hardware_identity'' ''cisco_model'' SG_STRONG [''model'']) f,
                   x\<lparr>dx_cisco := True\<rparr>)
             else (f, x))"

definition chassis_pid_step :: "evidence_document \<Rightarrow> nat \<Rightarrow> string \<Rightarrow> examination \<Rightarrow> examination" where
  "chassis_pid_step d n line st =
     (let (f, x) = st in case rx_search PID_PATTERN line of
        None \<Rightarrow> (f, x)
      | Some gs \<Rightarrow>
          if is_recognized_cisco_model (rx_value 1 gs)
          then (add_model (rx_value 1 gs)
                  (signal_of d (Some n) ''hardware_identity'' ''cisco_chassis_pid'' SG_STRONG [''model'']) f,
                x\<lparr>dx_cisco := True\<rparr>)
          else (f, x))"

definition cisco_serial_step :: "string \<Rightarrow> (nat \<times> string) list option \<Rightarrow> evidence_document \<Rightarrow> nat \<Rightarrow> examination \<Rightarrow> examination" where
  "cisco_serial_step signal_id found d n st =
     (let (f, x) = st in case found of
        None \<Rightarrow> (f, x)
      | Some gs \<Rightarrow>
          if dx_cisco x then (add_serial (rx_value 1 gs)
            (signal_of d (Some n) ''hardware_identity'' signal_id SG_STRONG [''serial_number'']) f, x)
          else (f, x))"

definition chassis_step :: "evidence_document \<Rightarrow> nat \<Rightarrow> string \<Rightarrow> examination \<Rightarrow> examination" where
  "chassis_step d n line st =
     (if rx_found CHASSIS_NAME_PATTERN line then (fst st, (snd st)\<lparr>dx_chassis := 2\<rparr>)
      else if dx_chassis (snd st) = 0 then st
      else let (f, x) = cisco_serial_step ''cisco_chassis_serial'' (rx_search SN_PATTERN line) d n (chassis_pid_step d n line st)
           in (f, x\<lparr>dx_chassis := dx_chassis x - 1\<rparr>))"

definition hardware_evidence :: "artifact_evidence_type \<Rightarrow> bool" where
  "hardware_evidence t = (t \<in> {AE_VERSION_OUTPUT, AE_INVENTORY_OUTPUT, AE_OPERATIONAL_OUTPUT, AE_UNKNOWN_EVIDENCE})"

definition hardware_step :: "evidence_document \<Rightarrow> nat \<Rightarrow> string \<Rightarrow> examination \<Rightarrow> examination" where
  "hardware_step d n line st =
     (if hardware_evidence (ed_evidence_type d)
      then cisco_serial_step ''cisco_serial'' (first_match SERIAL_PATTERNS line) d n
        (chassis_step d n line
        (cisco_model_step d n line
        (fortios_label_step FORTIOS_SERIAL_PATTERN ''serial'' n line
        (fortios_label_step FORTIOS_HOSTNAME_PATTERN ''hostname'' n line st))))
      else st)"

definition syntax_step :: "string \<Rightarrow> examination \<Rightarrow> examination" where
  "syntax_step line st =
     (let (f, x) = st
      in (f, foldl (\<lambda>x (category, pattern).
            if category \<notin> set (dx_categories x) \<and> rx_found pattern (py_strip line)
            then x\<lparr>dx_categories := dx_categories x @ [category]\<rparr> else x) x CONFIG_SYNTAX_PATTERNS))"

definition line_step :: "evidence_document \<Rightarrow> examination \<Rightarrow> nat \<times> string \<Rightarrow> examination" where
  "line_step d st numbered =
     (let (n, line) = numbered
      in syntax_step line (hardware_step d n line (arista_step d n line (fortios_status_step n line
        (other_os_step (FORTIOS_PATTERN, ''Fortinet'', ''FortiOS'', ''fortinet_fortios_version'') d n line
        (other_os_step (JUNOS_PATTERN, ''Juniper'', ''Junos'', ''juniper_junos_version'') d n line
        (cisco_os_step d n line st)))))))"

section \<open>A document\<close>

definition arista_version :: "evidence_document \<Rightarrow> profile_facts \<Rightarrow> string \<times> nat \<Rightarrow> profile_facts" where
  "arista_version d f v = add_identity ''Arista'' ''EOS'' (Some (fst v))
     (signal_of d (Some (snd v)) ''os_identity'' ''arista_eos_version'' SG_STRONGEST [''vendor'', ''os'', ''os_version'']) f"

definition fortios_found :: "evidence_document \<Rightarrow> profile_facts \<Rightarrow> string \<times> string \<times> nat \<Rightarrow> profile_facts" where
  "fortios_found d f entry =
     (let (kind, v, n) = entry in
      if prefix ''FortiGate-'' kind
      then let s = signal_of d (Some n) ''os_identity'' ''fortinet_fortios_status'' SG_STRONGEST
             [''vendor'', ''os'', ''os_version'', ''model'']
           in add_model kind s (add_identity ''Fortinet'' ''FortiOS'' (Some v) s f)
      else if kind = ''hostname''
      then add_hostname v (signal_of d (Some n) ''hardware_identity'' ''fortinet_hostname'' SG_STRONG [''hostname'']) f
      else if kind = ''serial''
      then add_serial v (signal_of d (Some n) ''hardware_identity'' ''fortinet_serial'' SG_STRONG [''serial_number'']) f
      else f)"

definition document_end :: "evidence_document \<Rightarrow> examination \<Rightarrow> profile_facts" where
  "document_end d st =
     (let (f, x) = st; s = signal_of d None ''cli_structure'' ''cisco_cli_structure'' SG_MEDIUM [''vendor''];
          f1 = (if 3 \<le> length (dx_categories x) then add_signal s (f\<lparr>pf_syntax := pf_syntax f @ [s]\<rparr>) else f);
          f2 = (if dx_arista x then foldl (arista_version d) f1 (dx_arista_versions x) else f1)
      in if dx_fortios x then foldl (fortios_found d) f2 (dx_fortios_identity x) else f2)"

definition examine_document :: "profile_facts \<Rightarrow> evidence_document \<Rightarrow> profile_facts" where
  "examine_document f d =
     (let f1 = (if rx_found FILENAME_HINT_PATTERN (ed_original_filename d)
          then add_signal (signal_of d None ''filename_hint'' ''cisco_filename_hint'' SG_WEAK []) f else f)
      in document_end d (foldl (line_step d) (f1, new_document) (data_lines d)))"

end
