(* ===== verification/Profile_Resolution.thy ===== *)
theory Profile_Resolution
  imports Profile_Resolver Audit_Service
begin

text \<open>
  The end of \<open>profile_resolution/resolver.py\<close> (selectors of XML manifests, manifests of administrators,
  the choice of a profile) and \<open>resolve_audit_profile\<close> of \<open>audit/service.py\<close>, which stores it.
  \<open>pick\<close> is the member that \<open>next(iter(classes))\<close> returns of a set of device classes, which is not
  determined by the set.
\<close>

section \<open>Selectors of XML manifests\<close>

definition xml_signal :: "evidence_document \<Rightarrow> string \<Rightarrow> xml_node \<Rightarrow> profile_manifest \<Rightarrow> evidence_signal" where
  "xml_signal d field node m =
     \<lparr>sg_artifact_id = ed_artifact_id d, sg_evidence_type = ed_evidence_type d, sg_line_number = None,
      sg_category = ''xml_identity'', sg_signal_id = pm_profile_id m @ '':'' @ field, sg_strength = SG_STRONG,
      sg_extracted_fields = [field], sg_source_label = Some (ed_original_filename d),
      sg_source_path = Some (xn_path node)\<rparr>"

text \<open>The last node that a selector of the field matches.\<close>

definition selected_values :: "profile_manifest \<Rightarrow> xml_node list \<Rightarrow> (string \<times> xml_node \<times> string) list" where
  "selected_values m nodes =
     foldl (\<lambda>acc (field, found). dict_put field found acc) []
       (concat (map (\<lambda>s. concat (map (\<lambda>n. case selector_matches s (xn_path n) (xn_attributes n) (xn_text n) of
            None \<Rightarrow> [] | Some v \<Rightarrow> [(is_field s, n, v)]) nodes)) (pm_xml_identity_selectors m)))"

definition xml_field ::
  "(string \<Rightarrow> evidence_signal \<Rightarrow> profile_facts \<Rightarrow> profile_facts) \<Rightarrow> string \<Rightarrow> evidence_document \<Rightarrow> profile_manifest
    \<Rightarrow> (string \<times> xml_node \<times> string) list \<Rightarrow> profile_facts \<Rightarrow> profile_facts" where
  "xml_field add field d m values f = (case dict_get values field of
     None \<Rightarrow> f | Some (node, v) \<Rightarrow> add v (xml_signal d field node m) f)"

definition names_platform :: "profile_manifest \<Rightarrow> found_identity \<Rightarrow> bool" where
  "names_platform m i = (ey_vendor i = pm_vendor m \<and> ey_os i = pm_os m)"

definition xml_manifest_step :: "evidence_document \<Rightarrow> xml_node list \<Rightarrow> profile_facts \<Rightarrow> profile_manifest \<Rightarrow> profile_facts" where
  "xml_manifest_step d nodes f m =
     (let values = selected_values m nodes in
      if dict_get values ''os_version'' = None \<and> \<not> list_ex (names_platform m) (pf_identities f) then f
      else xml_field add_serial ''serial_number'' d m values
        (xml_field add_model ''model'' d m values
        (xml_field add_hostname ''hostname'' d m values
        (xml_field (\<lambda>v. add_identity (pm_vendor m) (pm_os m) (Some v)) ''os_version'' d m values f))))"

definition document_provenance :: "evidence_document \<Rightarrow> artifact_provenance" where
  "document_provenance d =
     \<lparr>ap_artifact_id = ed_artifact_id d, ap_organization_id = ed_organization_id d,
      ap_snapshot_id = Some (ed_snapshot_id d), ap_source_label = ed_original_filename d, ap_sha256 = ed_sha256 d,
      ap_source_metadata = ed_source_metadata d\<rparr>"

definition xml_document_step ::
  "parser_library \<Rightarrow> profile_manifest list \<Rightarrow> evidence_document \<Rightarrow> profile_facts \<Rightarrow> exc + profile_facts" where
  "xml_document_step lib manifests d f =
     (if CHR ''<'' \<notin> set (ed_text d) then Inr f
      else (case parse_xml_text lib (ed_text d) (document_provenance d) (ed_truncated d) of
          Inl e \<Rightarrow> if is_value_error (exc_class e) \<or> exc_class e = TypeError then Inr f else Inl e
        | Inr ir \<Rightarrow>
            (case ir of XmlIR x \<Rightarrow> Inr (foldl (xml_manifest_step d (xi_nodes x)) f manifests) | _ \<Rightarrow> Inl attribute_error)))"

definition extract_manifest_xml_identity ::
  "parser_library \<Rightarrow> evidence_document list \<Rightarrow> profile_manifest list \<Rightarrow> profile_facts \<Rightarrow> exc + profile_facts" where
  "extract_manifest_xml_identity lib documents runtime f =
     (let manifests = filter (\<lambda>m. pm_structural_reader_name m = Some ''xml_tree.v1'' \<and> pm_xml_identity_selectors m \<noteq> [])
            (map snd PROFILE_REGISTRY @ runtime)
      in if manifests = [] then Inr f else fold_res (xml_document_step lib manifests) documents f)"

section \<open>Results\<close>

definition plain_result ::
  "evidence_signal list \<Rightarrow> resolution_confidence \<Rightarrow> profile_status \<Rightarrow> string list \<Rightarrow> profile_resolution_result" where
  "plain_result signals confidence status reasons =
     \<lparr>px_vendor = PNone, px_product_family = PNone, px_os = PNone, px_os_version = PNone, px_model = PNone,
      px_serial_number = PNone, px_device_class = None, px_selected_profile_id = None,
      px_selected_profile_version_id = None, px_confidence = confidence, px_resolution_status = status,
      px_supporting_signals = signals, px_unresolved_reasons = reasons, px_conflicts = [], px_metadata = []\<rparr>"

definition with_profile :: "profile_manifest \<Rightarrow> profile_resolution_result \<Rightarrow> profile_resolution_result" where
  "with_profile m r = r\<lparr>px_selected_profile_id := Some (pm_profile_id m),
     px_selected_profile_version_id := Some (pm_profile_version_id m)\<rparr>"

section \<open>Manifests of administrators\<close>

text \<open>\<open>str.casefold()\<close> over the code points below 256: it differs from \<open>lower\<close> at the sharp s.\<close>

definition casefold :: "string \<Rightarrow> string" where
  "casefold s = concat (map (\<lambda>c. if code_of c = 223 then ''ss'' else [lower_char c]) s)"

definition RUNTIME_VERSION_PATTERN :: regex where
  "RUNTIME_VERSION_PATTERN = rx_seq [RxBoundary, rx_text ''version'', blanks, rx_opt (one_of '':=''), blanks,
     rx_opt (rx_text ''v''),
     RxGroup 1 (rx_seq [rx_plus is_digit, RxRep 1 None True (RxSeq (rx_text ''.'') (rx_plus is_digit)),
       rx_opt (rx_plus (\<lambda>c. is_alnum c \<or> c \<in> set ''.-''))])]"

definition MAX_TEXT_INSPECTED :: nat where
  "MAX_TEXT_INSPECTED = MAX_LINE_CHARACTERS_INSPECTED * MAX_LINES_PER_ARTIFACT"

type_synonym runtime_hit = "profile_manifest \<times> string \<times> evidence_document"

definition runtime_match :: "profile_manifest \<Rightarrow> evidence_document \<Rightarrow> exc + runtime_hit list" where
  "runtime_match m d =
     (if pm_detection_tokens m = [] \<or> ed_evidence_type d \<notin> pm_accepted_evidence_types m
         \<or> \<not> list_all (\<lambda>t. py_in (casefold t) (casefold (ed_text d))) (pm_detection_tokens m)
      then Inr []
      else (case rx_search RUNTIME_VERSION_PATTERN (take MAX_TEXT_INSPECTED (ed_text d)) of
          None \<Rightarrow> Inr []
        | Some gs \<Rightarrow> and_then (accepts (pm_version_constraint m) (rx_value 1 gs)) (\<lambda>ok.
            Inr (if ok then [(m, rx_value 1 gs, d)] else []))))"

definition runtime_matches :: "evidence_document list \<Rightarrow> profile_manifest list \<Rightarrow> exc + runtime_hit list" where
  "runtime_matches documents manifests =
     and_then (map_res (\<lambda>m. and_then (map_res (runtime_match m) documents) (\<lambda>xs. Inr (concat xs))) manifests) (\<lambda>xs.
     Inr (concat xs))"

definition runtime_signal :: "profile_manifest \<Rightarrow> evidence_document \<Rightarrow> evidence_signal" where
  "runtime_signal m d =
     signal_of d None ''runtime_manifest_identity'' (pm_profile_id m @ '':detection'') SG_STRONG
       [''vendor'', ''os'', ''os_version'']"

definition runtime_result ::
  "device_class \<Rightarrow> runtime_hit \<Rightarrow> evidence_signal list \<Rightarrow> profile_resolution_result" where
  "runtime_result cls hit signals =
     (let (m, version, d) = hit
      in with_profile m ((plain_result (signals @ [runtime_signal m d]) RC_HIGH PR_RESOLVED
           [''Published runtime profile matched bounded evidence''])
           \<lparr>px_vendor := PStr (pm_vendor m), px_product_family := PStr (pm_product_family m), px_os := PStr (pm_os m),
            px_os_version := PStr version, px_device_class := Some cls\<rparr>))"

definition resolve_runtime_manifest ::
  "(device_class set \<Rightarrow> device_class) \<Rightarrow> evidence_document list \<Rightarrow> profile_manifest list \<Rightarrow> evidence_signal list
    \<Rightarrow> exc + profile_resolution_result option" where
  "resolve_runtime_manifest pick documents manifests signals =
     and_then (runtime_matches documents manifests) (\<lambda>hits.
     case hits of
       [] \<Rightarrow> Inr None
     | (m, version, d) # _ \<Rightarrow>
         if list_ex (\<lambda>(n, v, e). (pm_profile_version_id n, v) \<noteq> (pm_profile_version_id m, version)) hits
         then Inr (Some (plain_result signals RC_UNRESOLVED PR_AMBIGUOUS
           [''Multiple compatible runtime profile manifests were detected'']))
         else if pm_device_classes m = {} then Inl (Exc StopIteration [])
         else Inr (Some (runtime_result (pick (pm_device_classes m)) (m, version, d) signals)))"

section \<open>The choice of a profile\<close>

definition platform_of :: "found_identity \<Rightarrow> string \<times> string" where
  "platform_of i = (ey_vendor i, ey_os i)"

definition versions_of :: "found_identity list \<Rightarrow> string list" where
  "versions_of ids = remdups (concat (map (\<lambda>i. case ey_version i of None \<Rightarrow> [] | Some v \<Rightarrow> [v]) ids))"

definition artifacts_of :: "found_identity list \<Rightarrow> uuid list" where
  "artifacts_of ids = sorted_set (map (\<lambda>i. sg_artifact_id (ey_signal i)) ids)"

definition platform_conflict :: "profile_facts \<Rightarrow> profile_resolution_result" where
  "platform_conflict f =
     (plain_result (pf_signals f) RC_UNRESOLVED PR_CONFLICT [''Conflicting explicit platform evidence''])
       \<lparr>px_conflicts := [\<lparr>rx_code = ''platform_identity_conflict'', rx_artifact_ids = artifacts_of (pf_identities f)\<rparr>]\<rparr>"

definition version_conflict_result :: "profile_facts \<Rightarrow> string \<Rightarrow> string \<Rightarrow> found_identity list \<Rightarrow> profile_resolution_result" where
  "version_conflict_result f vendor os matching =
     (plain_result (pf_signals f) RC_UNRESOLVED PR_CONFLICT [''Conflicting explicit OS versions''])
       \<lparr>px_vendor := PStr vendor, px_os := PStr os, px_model := opt_str (first_value (pf_models f)),
        px_serial_number := opt_str (first_value (pf_serials f)),
        px_conflicts := [\<lparr>rx_code = ''os_version_conflict'',
          rx_artifact_ids = artifacts_of (filter (\<lambda>i. ey_version i \<noteq> None) matching)\<rparr>]\<rparr>"

definition described ::
  "profile_facts \<Rightarrow> string \<Rightarrow> string \<Rightarrow> string option \<Rightarrow> string option \<Rightarrow> device_class option
    \<Rightarrow> resolution_confidence \<Rightarrow> profile_status \<Rightarrow> string list \<Rightarrow> profile_resolution_result" where
  "described f vendor os product version cls confidence status reasons =
     (plain_result (pf_signals f) confidence status reasons)
       \<lparr>px_vendor := PStr vendor, px_product_family := opt_str product, px_os := PStr os,
        px_os_version := opt_str version, px_model := opt_str (first_value (pf_models f)),
        px_serial_number := opt_str (first_value (pf_serials f)), px_device_class := cls\<rparr>"

text \<open>
  The product of a family, the device class of its results without and with a profile, and the two
  reasons that name it.
\<close>

record platform_family =
  fm_product :: "string option"
  fm_class :: "device_class option"
  fm_selected_class :: "device_class option"
  fm_version_reason :: string
  fm_unsupported_reason :: string

definition family_of :: "profile_facts \<Rightarrow> string \<times> string \<Rightarrow> platform_family" where
  "family_of f platform =
     (let (product, cls) = classify_hardware (first_value (pf_models f)) in
      if platform = (''Cisco'', ''IOS XE'') then
        \<lparr>fm_product = product, fm_class = cls, fm_selected_class = cls,
         fm_version_reason = ''IOS XE version is required for profile applicability'',
         fm_unsupported_reason = ''Detected IOS XE version is outside the supported 17.x profile''\<rparr>
      else if platform = (''Fortinet'', ''FortiOS'') then
        \<lparr>fm_product = Some ''FortiGate'', fm_class = None, fm_selected_class = Some DC_FIREWALL,
         fm_version_reason = ''FortiOS version is required for profile applicability'',
         fm_unsupported_reason = ''Detected FortiOS version is outside the supported 7.x profile''\<rparr>
      else if platform = (''Arista'', ''EOS'') then
        \<lparr>fm_product = Some ''EOS'', fm_class = Some DC_SWITCH, fm_selected_class = Some DC_SWITCH,
         fm_version_reason = ''EOS version output is required for profile applicability'',
         fm_unsupported_reason = ''Detected EOS version is outside the supported 4.x profile''\<rparr>
      else
        \<lparr>fm_product = product, fm_class = cls, fm_selected_class = cls,
         fm_version_reason = ''Profile applicability requires an explicit software version'',
         fm_unsupported_reason = ''Detected platform has no supported deep profile''\<rparr>)"

definition known_family :: "string \<times> string \<Rightarrow> bool" where
  "known_family platform =
     (platform \<in> {(''Cisco'', ''IOS XE''), (''Fortinet'', ''FortiOS''), (''Arista'', ''EOS'')})"

text \<open>Outside the known families, an unsupported platform is reported without its hardware.\<close>

definition unsupported_result ::
  "profile_facts \<Rightarrow> string \<Rightarrow> string \<Rightarrow> platform_family \<Rightarrow> string \<Rightarrow> resolution_confidence \<Rightarrow> profile_resolution_result" where
  "unsupported_result f vendor os fam version confidence =
     (if known_family (vendor, os)
      then described f vendor os (fm_product fam) (Some version) (fm_class fam) confidence PR_UNSUPPORTED
        [fm_unsupported_reason fam]
      else (plain_result (pf_signals f) confidence PR_UNSUPPORTED [fm_unsupported_reason fam])
        \<lparr>px_vendor := PStr vendor, px_os := PStr os, px_os_version := PStr version\<rparr>)"

definition resolve_platform ::
  "profile_facts \<Rightarrow> string \<Rightarrow> string \<Rightarrow> string option \<Rightarrow> resolution_confidence \<Rightarrow> exc + profile_resolution_result" where
  "resolve_platform f vendor os version confidence =
     (let fam = family_of f (vendor, os) in
      case version of
        None \<Rightarrow> Inr (described f vendor os (fm_product fam) None (fm_class fam) RC_MEDIUM PR_PARTIALLY_RESOLVED
          [fm_version_reason fam])
      | Some v \<Rightarrow>
          and_then (compatible_manifests vendor os (Some v)) (\<lambda>candidates. Inr (case candidates of
              [] \<Rightarrow> unsupported_result f vendor os fam v confidence
            | [m] \<Rightarrow> with_profile m (described f vendor os (fm_product fam) (Some v) (fm_selected_class fam)
                confidence PR_RESOLVED [])
            | _ \<Rightarrow> described f vendor os (fm_product fam) (Some v) (fm_class fam) RC_UNRESOLVED PR_AMBIGUOUS
                [''Multiple compatible profile manifests were detected''])))"

definition explicit_confidence :: "found_identity list \<Rightarrow> resolution_confidence" where
  "explicit_confidence ids =
     (if list_ex (\<lambda>i. sg_strength (ey_signal i) = SG_STRONGEST) ids then RC_HIGH else RC_MEDIUM)"

definition resolve_identified ::
  "(device_class set \<Rightarrow> device_class) \<Rightarrow> evidence_document list \<Rightarrow> profile_manifest list \<Rightarrow> profile_facts
    \<Rightarrow> string \<Rightarrow> string \<Rightarrow> exc + profile_resolution_result" where
  "resolve_identified pick documents runtime f vendor os =
     (let matching = filter (\<lambda>i. platform_of i = (vendor, os)) (pf_identities f); versions = versions_of matching in
      if 1 < length versions then Inr (version_conflict_result f vendor os matching)
      else and_then (resolve_runtime_manifest pick documents runtime (pf_signals f)) (\<lambda>found.
        case found of
          Some r \<Rightarrow>
            if px_vendor r = PStr vendor \<and> px_os r = PStr os then Inr r
            else resolve_platform f vendor os (case versions of [] \<Rightarrow> None | v # _ \<Rightarrow> Some v) (explicit_confidence matching)
        | None \<Rightarrow>
            resolve_platform f vendor os (case versions of [] \<Rightarrow> None | v # _ \<Rightarrow> Some v) (explicit_confidence matching)))"

section \<open>Without an identity\<close>

definition label_values :: "string \<Rightarrow> evidence_document list \<Rightarrow> string list" where
  "label_values key documents =
     remdups (concat (map (\<lambda>d. let v = py_get (ed_source_metadata d) key in
       if truthy v then [py_strip (py_str v)] else []) documents))"

definition administrator_labels :: "evidence_document list \<Rightarrow> json_object" where
  "administrator_labels documents =
     concat (map (\<lambda>(key, name). case label_values key documents of [v] \<Rightarrow> [(name, PStr v)] | _ \<Rightarrow> [])
       [(''vendor_label'', ''vendor''), (''os_label'', ''os'')])"

definition configuration_documents :: "evidence_document list \<Rightarrow> evidence_document list" where
  "configuration_documents documents =
     filter (\<lambda>d. py_strip (ed_text d) \<noteq> []
       \<and> ed_evidence_type d \<in> {AE_CONFIGURATION, AE_STRUCTURED_EXPORT, AE_UNKNOWN_EVIDENCE}) documents"

definition starts_with_one_of :: "string \<Rightarrow> evidence_document \<Rightarrow> bool" where
  "starts_with_one_of cs d = (case py_lstrip (ed_text d) of [] \<Rightarrow> False | c # _ \<Rightarrow> c \<in> set cs)"

definition generic_result ::
  "profile_manifest \<Rightarrow> string \<Rightarrow> evidence_signal list \<Rightarrow> evidence_document list \<Rightarrow> profile_resolution_result" where
  "generic_result m reason signals documents =
     (let labels = administrator_labels documents
      in with_profile m ((plain_result signals RC_LOW PR_RESOLVED [reason])
           \<lparr>px_vendor := PStr (pm_vendor m), px_product_family := PStr (pm_product_family m), px_os := PStr (pm_os m),
            px_device_class := Some DC_UNKNOWN,
            px_metadata := (if labels = [] then [] else [(''administrator_labels'', PDict labels)])\<rparr>))"

definition generic_cli_document :: "evidence_document \<Rightarrow> bool" where
  "generic_cli_document d = (\<not> starts_with_one_of ''<'' d
     \<and> \<not> rx_found KNOWN_PLATFORM_CLAIM_PATTERN (take MAX_LINE_CHARACTERS_INSPECTED (ed_text d)))"

definition structured_reason :: string where
  "structured_reason = ''Generic bounded structured profile selected without inferred semantics''"

definition generic_profile_for :: "evidence_document list \<Rightarrow> (profile_manifest \<times> string) option" where
  "generic_profile_for ds =
     (if ds = [] then None
      else if list_all (starts_with_one_of ''<'') ds then Some (GENERIC_XML, structured_reason)
      else if list_all (starts_with_one_of (CHR 0x7B # ''['')) ds then Some (GENERIC_JSON, structured_reason)
      else if list_all generic_cli_document ds
      then Some (GENERIC_CLI, ''Generic CLI selected without inferred command semantics'')
      else None)"

definition resolve_unidentified :: "evidence_document list \<Rightarrow> nat \<Rightarrow> profile_facts \<Rightarrow> profile_resolution_result" where
  "resolve_unidentified documents unavailable f =
     (let model = first_value (pf_models f); signals = pf_signals f;
          (product, cls) = classify_hardware model; ds = configuration_documents documents;
          no_evidence = plain_result signals RC_UNRESOLVED PR_UNRESOLVED
            (''No authoritative platform evidence was detected''
              # (if unavailable = 0 then [] else [''One or more artifacts could not be inspected'']))
      in if model \<noteq> None then
           (plain_result signals RC_MEDIUM PR_PARTIALLY_RESOLVED [''Cisco hardware evidence does not establish IOS XE''])
             \<lparr>px_vendor := PStr ''Cisco'', px_product_family := opt_str product, px_model := opt_str model,
              px_serial_number := opt_str (first_value (pf_serials f)), px_device_class := cls\<rparr>
         else if pf_syntax f \<noteq> [] then
           (plain_result signals RC_LOW PR_PARTIALLY_RESOLVED
             [''Cisco-like CLI syntax does not distinguish IOS from IOS XE''])\<lparr>px_vendor := PStr ''Cisco''\<rparr>
         else if signals \<noteq> [] then no_evidence
         else (case generic_profile_for ds of
             Some (m, reason) \<Rightarrow> generic_result m reason signals ds
           | None \<Rightarrow> no_evidence))"

definition resolve_candidates ::
  "(device_class set \<Rightarrow> device_class) \<Rightarrow> evidence_document list \<Rightarrow> profile_manifest list \<Rightarrow> nat \<Rightarrow> profile_facts
    \<Rightarrow> exc + profile_resolution_result" where
  "resolve_candidates pick documents runtime unavailable f =
     (case remdups (map platform_of (pf_identities f)) of
        [(vendor, os)] \<Rightarrow> resolve_identified pick documents runtime f vendor os
      | [] \<Rightarrow>
          and_then (resolve_runtime_manifest pick documents runtime (pf_signals f)) (\<lambda>found.
          Inr (case found of Some r \<Rightarrow> r | None \<Rightarrow> resolve_unidentified documents unavailable f))
      | _ \<Rightarrow> Inr (platform_conflict f))"

section \<open>A snapshot\<close>

definition found_metadata :: "profile_facts \<Rightarrow> json_object" where
  "found_metadata f =
     (case first_value (pf_hostnames f) of Some (c # cs) \<Rightarrow> [(''hostname'', PStr (c # cs))] | _ \<Rightarrow> [])
     @ (case remdups (pf_builds f) of [b] \<Rightarrow> [(''os_build'', PStr b)] | _ \<Rightarrow> [])"

definition resolve_profile ::
  "parser_library \<Rightarrow> (device_class set \<Rightarrow> device_class) \<Rightarrow> snapshot_evidence \<Rightarrow> profile_manifest list
    \<Rightarrow> exc + profile_resolution_result" where
  "resolve_profile lib pick evidence runtime =
     (let documents = se_documents evidence in
      and_then (extract_manifest_xml_identity lib documents runtime (foldl examine_document no_facts documents)) (\<lambda>f.
      and_then (resolve_candidates pick documents runtime (length (se_issues evidence)) f) (\<lambda>r.
      Inr (r\<lparr>px_metadata := dict_merge (px_metadata r) (found_metadata f)\<rparr>))))"

section \<open>An audit\<close>

definition preview_node :: "xml_node \<Rightarrow> pyval" where
  "preview_node n = PDict
     [(''artifact_id'', PStr (uuid_str (ap_artifact_id (xn_source n)))), (''path'', PList (map PStr (xn_path n))),
      (''tag'', PStr (xn_tag n)), (''attributes'', PDict (dict_of (map (\<lambda>(k, v). (k, PStr v)) (xn_attributes n)))),
      (''text'', opt_str (xn_text n))]"

definition preview_document :: "parser_library \<Rightarrow> evidence_document \<Rightarrow> exc + pyval list" where
  "preview_document lib d =
     (if ed_evidence_type d \<noteq> AE_STRUCTURED_EXPORT then Inr []
      else (case parse_xml_text lib (ed_text d) (document_provenance d) False of
          Inl e \<Rightarrow>
            if is_value_error (exc_class e)
            then Inr [PDict [(''artifact_id'', PStr (uuid_str (ed_artifact_id d))), (''error'', PStr (exc_message e))]]
            else Inl e
        | Inr (XmlIR x) \<Rightarrow> Inr (map preview_node (take 100 (xi_nodes x)))
        | Inr _ \<Rightarrow> Inl attribute_error))"

definition structural_preview :: "parser_library \<Rightarrow> evidence_document list \<Rightarrow> exc + pyval list" where
  "structural_preview lib documents =
     and_then (map_res (preview_document lib) documents) (\<lambda>ps. Inr (concat ps))"

text \<open>
  What the resolver uses beside the store: the parsers, the decoding with replacement, the reading of
  stored content, the JSON reader and the choice of a class.
\<close>

record profile_services =
  ps_parsers :: parser_library
  ps_decode :: "string \<Rightarrow> byte list \<Rightarrow> string"
  ps_read_prefix :: "string \<Rightarrow> int \<Rightarrow> exc + byte list"
  ps_json_loads :: "string \<Rightarrow> exc + pyval"
  ps_pick :: "device_class set \<Rightarrow> device_class"

definition resolve_audit_profile ::
  "profile_services \<Rightarrow> int \<Rightarrow> uuid \<Rightarrow> uuid \<Rightarrow> audit_store \<Rightarrow> exc + profile_resolution_result \<times> audit_store" where
  "resolve_audit_profile sv now audit_id organization_id db =
     (let lib = ps_parsers sv; sha = pl_sha256 lib in
      and_then (resolution_evidence sha audit_id organization_id db) (\<lambda>(snapshot_id, device_id, artifacts).
      and_then (aggregate_snapshot_evidence (ps_decode sv) (ps_read_prefix sv) snapshot_id organization_id device_id
        artifacts) (\<lambda>evidence.
      and_then (runtime_profiles (ps_json_loads sv) db organization_id) (\<lambda>runtime.
      and_then (resolve_profile lib (ps_pick sv) evidence runtime) (\<lambda>r.
      and_then (structural_preview lib (se_documents evidence)) (\<lambda>preview.
      and_then (store_resolution sha now audit_id organization_id snapshot_id device_id
        (map (\<lambda>x. (af_artifact_id x, af_sha256 x)) artifacts) r (map ed_artifact_id (se_documents evidence))
        (se_issues evidence) preview db) (\<lambda>db'.
      Inr (r, db'))))))))"

end
