(* ===== verification/Interpretation_Service.thy ===== *)
theory Interpretation_Service
  imports Published_Packs Audit_Service
begin

text \<open>
  The interpretation of an audit's snapshot (\<open>interpret_audit\<close> of \<open>interpretation/service.py\<close>): what
  it reads before the evidence is parsed, the parsing and interpretation of every artifact, and the
  transaction that stores the facts and the unresolved blocks if nothing has changed in between.
\<close>

section \<open>Libraries\<close>

text \<open>What the services call: the parsers, the storage, and the codecs of the standard library.\<close>

record audit_services =
  sv_parsers :: parser_library
  sv_read_prefix :: "string \<Rightarrow> int \<Rightarrow> exc + byte list"
  sv_decode :: "string \<Rightarrow> byte list \<Rightarrow> string option"
  sv_effective :: effective_library
  sv_rules :: rule_table

definition interpreter_of :: "audit_services \<Rightarrow> interpretation_library" where
  "interpreter_of sv = \<lparr>lb_uuid5 = el_uuid5 (sv_effective sv), lb_pydantic = el_pydantic (sv_effective sv)\<rparr>"

section \<open>The plan\<close>

record interpretation_plan =
  il_context :: interpretation_context
  il_profile_version_id :: string
  il_profile :: profile_manifest
  il_pack :: knowledge_pack
  il_resolution :: json_object
  il_evidence :: "(uuid \<times> string) list"
  il_selected :: "artifact list"
  il_unsupported :: "(artifact \<times> string) list"

definition resolved_manifest :: "audit_services \<Rightarrow> audit_store \<Rightarrow> uuid \<Rightarrow> audit \<Rightarrow> exc + string \<times> profile_manifest" where
  "resolved_manifest sv db organization_id a =
     (let data = au_profile_resolution a; incompatible = Inl (invalid_interpretation ''audit_profile_incompatible'') in
      case py_get data ''profile_version_id'' of
        PStr version \<Rightarrow>
          and_then (profile_for (el_json_loads (sv_effective sv)) db organization_id version) (\<lambda>found. case found of
            None \<Rightarrow> incompatible
          | Some p \<Rightarrow>
              if PStr (pm_profile_id p) = py_get data ''profile_id''
                 \<and> py_get data ''resolution_status'' = PStr ''resolved''
              then Inr (version, p) else incompatible)
      | v \<Rightarrow> if hashable v then incompatible else Inl type_error)"

definition pack_conflict :: exc where
  "pack_conflict = invalid_interpretation ''knowledge_pack_version_conflict''"

definition audit_pack ::
  "audit_services \<Rightarrow> audit_store \<Rightarrow> uuid \<Rightarrow> audit \<Rightarrow> string \<Rightarrow> profile_manifest \<Rightarrow> knowledge_pack option
    \<Rightarrow> exc + knowledge_pack" where
  "audit_pack sv db organization_id a version p given =
     (case given of
        Some pack \<Rightarrow> Inr pack
      | None \<Rightarrow>
          (case py_get (au_version_refs a) ''knowledge_pack_version_id'' of
             PNone \<Rightarrow> baseline_pack (el_uuid5 (sv_effective sv)) p version
           | pinned \<Rightarrow>
               and_then (raise_from (\<lambda>c. c = TypeError \<or> is_value_error c) pack_conflict
                 (and_then (uuid_arg pinned) (\<lambda>i.
                   load_published_knowledge_pack (sv_effective sv) db organization_id i version (Some p)))) (\<lambda>pack.
               and_then (require (kp_profile_version_id pack = version) pack_conflict) (\<lambda>_. Inr pack))))"

text \<open>The artifacts that the stored resolution cites.\<close>

definition cited_item :: "pyval \<Rightarrow> string list" where
  "cited_item v = (case v of PDict d \<Rightarrow> (case py_get d ''artifact_id'' of PStr s \<Rightarrow> [s] | _ \<Rightarrow> []) | _ \<Rightarrow> [])"

fun cited_items :: "pyval \<Rightarrow> exc + string list" where
  "cited_items (PList vs) = Inr (concat (map cited_item vs))"
| "cited_items (PDict d) = Inr []"
| "cited_items (PStr s) = Inr []"
| "cited_items v = Inl type_error"

definition identity_artifact_ids :: "json_object \<Rightarrow> exc + string list" where
  "identity_artifact_ids data = (case or_default data ''identity_provenance'' (PDict []) of
     PDict d \<Rightarrow> and_then (map_res (\<lambda>(k, v). cited_items v) d) (\<lambda>xs. Inr (concat xs))
   | _ \<Rightarrow> Inl attribute_error)"

definition configuration_like :: "string list \<Rightarrow> artifact \<Rightarrow> bool" where
  "configuration_like cited x = (case af_evidence_type x of
     AE_STRUCTURED_EXPORT \<Rightarrow> list_ex (\<lambda>m. py_in m (py_lower (af_original_filename x)))
       [''config'', ''running'', ''startup'']
   | AE_CONFIGURATION \<Rightarrow> True
   | AE_UNKNOWN_EVIDENCE \<Rightarrow> uuid_str (af_artifact_id x) \<notin> set cited
   | _ \<Rightarrow> False)"

definition preview_of :: "audit_services \<Rightarrow> artifact \<Rightarrow> exc + string" where
  "preview_of sv x =
     (case sv_read_prefix sv (af_storage_reference x) 2048 of
        Inl e \<Rightarrow> if is_storage_error (exc_class e) then Inr (take 2048 (af_original_filename x)) else Inl e
      | Inr bytes \<Rightarrow>
          (case sv_decode sv (case af_encoding x of Some (c # cs) \<Rightarrow> c # cs | _ \<Rightarrow> ''utf-8'') bytes of
             None \<Rightarrow> Inr (take 2048 (af_original_filename x))
           | Some text \<Rightarrow> Inr (take 2048 text)))"

definition unsupported_artifacts ::
  "audit_services \<Rightarrow> string list \<Rightarrow> artifact list \<Rightarrow> artifact list \<Rightarrow> exc + (artifact \<times> string) list" where
  "unsupported_artifacts sv cited selected artifacts =
     map_res (\<lambda>x. and_then (preview_of sv x) (\<lambda>t. Inr (x, t)))
       (filter (\<lambda>x. configuration_like cited x \<and> af_artifact_id x \<notin> af_artifact_id ` set selected) artifacts)"

definition evidence_of :: "artifact list \<Rightarrow> (uuid \<times> string) list" where
  "evidence_of artifacts = map (\<lambda>x. (af_artifact_id x, af_sha256 x)) artifacts"

definition plan_interpretation ::
  "audit_services \<Rightarrow> uuid \<Rightarrow> uuid \<Rightarrow> knowledge_pack option \<Rightarrow> audit_store \<Rightarrow> exc + interpretation_plan" where
  "plan_interpretation sv audit_id organization_id given db =
     (case find_audit audit_id organization_id db of
        None \<Rightarrow> Inl (Exc InterpretationNotFoundError ''audit_not_found'')
      | Some a \<Rightarrow>
          (case audit_resources db a of
             None \<Rightarrow> Inl (invalid_interpretation ''audit_resource_inconsistent'')
           | Some (s, d) \<Rightarrow>
               and_then (require (sn_status s = SS_READY \<or> sn_status s = SS_LOCKED)
                 (invalid_interpretation ''snapshot_not_interpretable'')) (\<lambda>_.
               and_then (resolved_manifest sv db organization_id a) (\<lambda>(version, p).
               and_then (audit_pack sv db organization_id a version p given) (\<lambda>pack.
               and_then (validate_snapshot_evidence (pl_sha256 (sv_parsers sv)) db s) (\<lambda>artifacts.
               let selected = sort_key af_artifact_id
                     (filter (\<lambda>x. af_evidence_type x \<in> pm_structural_evidence_types p) artifacts) in
               and_then (require (selected \<noteq> []) (invalid_interpretation ''structural_evidence_missing'')) (\<lambda>_.
               and_then (identity_artifact_ids (au_profile_resolution a)) (\<lambda>cited.
               and_then (unsupported_artifacts sv cited selected artifacts) (\<lambda>unsupported.
               Inr \<lparr>il_context = \<lparr>ic_audit_id = au_audit_id a, ic_device_id = au_device_id a,
                      ic_snapshot_id = au_snapshot_id a\<rparr>,
                    il_profile_version_id = version, il_profile = p, il_pack = pack,
                    il_resolution = au_profile_resolution a, il_evidence = evidence_of artifacts,
                    il_selected = selected, il_unsupported = unsupported\<rparr>)))))))))"

section \<open>Parsing and interpreting\<close>

text \<open>The trees of the artifacts that can be parsed, and the diagnostics of those that cannot.\<close>

definition parse_selected ::
  "audit_services \<Rightarrow> uuid \<Rightarrow> interpretation_plan \<Rightarrow> artifact \<Rightarrow> parsed_ir list \<times> (uuid \<times> string) list
    \<Rightarrow> exc + parsed_ir list \<times> (uuid \<times> string) list" where
  "parse_selected sv organization_id plan x acc =
     (case parse_artifact (sv_parsers sv) (sv_read_prefix sv) x (il_profile_version_id plan) organization_id
        (Some (il_profile plan)) of
        Inr ir \<Rightarrow> Inr (fst acc @ [ir], snd acc)
      | Inl e \<Rightarrow>
          if exc_class e = ArtifactNotParseableError then Inr (fst acc, snd acc @ [(af_artifact_id x, exc_message e)])
          else if exc_class e \<in> {ParsingInfrastructureError, StructuralReaderNotFoundError}
          then Inl (Exc InterpretationInfrastructureError ''structural_parsing_failed'') else Inl e)"

definition parse_evidence ::
  "audit_services \<Rightarrow> uuid \<Rightarrow> interpretation_plan \<Rightarrow> exc + parsed_ir list \<times> (uuid \<times> string) list" where
  "parse_evidence sv organization_id plan =
     fold_res (parse_selected sv organization_id plan) (il_selected plan)
       ([], map (\<lambda>(x, t). (af_artifact_id x, ''unsupported_configuration_evidence'')) (il_unsupported plan))"

definition interpret_tree :: "audit_services \<Rightarrow> interpretation_plan \<Rightarrow> parsed_ir \<Rightarrow> exc + interpretation_result" where
  "interpret_tree sv plan ir =
     (let lib = interpreter_of sv; context = il_context plan; version = il_profile_version_id plan;
          pack = Some (il_pack plan); profile = Some (il_profile plan)
      in case ir of
           XmlIR x \<Rightarrow> interpret_xml_structural_ir lib x context version pack profile
         | JsonIR x \<Rightarrow> interpret_json_structural_ir lib x context version pack profile
         | CliIR x \<Rightarrow> interpret_structural_ir lib x context version pack profile)"

end
