(* ===== verification/Interpretation_Store.thy ===== *)
theory Interpretation_Store
  imports Interpretation_Service
begin

text \<open>
  Storing an interpretation (\<open>_persist_unresolved_blocks\<close> and the second half of \<open>interpret_audit\<close>
  in \<open>interpretation/service.py\<close>): the blocks of what was left unresolved, and the transaction that
  adds facts and blocks to the audit.
\<close>

section \<open>The nodes of a tree as evidence\<close>

text \<open>What a block records of a node, for each kind of tree; \<open>parent\<close> is its node's parent.\<close>

record block_node =
  bn_node_id :: string
  bn_order :: nat
  bn_artifact_id :: uuid
  bn_source_label :: string
  bn_start_line :: "nat option"
  bn_end_line :: "nat option"
  bn_context :: string
  bn_raw_text :: string
  bn_occurrence :: json_object
  bn_structured_path :: pyval
  bn_evidence_type :: artifact_evidence_type
  bn_statement :: "string option option"
  bn_uncertain :: bool

text \<open>\<open>{node.node_id: node for node in nodes}.get(i)\<close>.\<close>

definition node_of :: "('n \<Rightarrow> string) \<Rightarrow> 'n list \<Rightarrow> string \<Rightarrow> 'n option" where
  "node_of key nodes i = find (\<lambda>n. key n = i) (rev nodes)"

definition cli_parent :: "structural_ir \<Rightarrow> config_node \<Rightarrow> config_node option" where
  "cli_parent ir n = (case cn_parent_id n of Some (c # cs) \<Rightarrow> node_of cn_node_id (ir_nodes ir) (c # cs) | _ \<Rightarrow> None)"

definition cli_block_node :: "structural_ir \<Rightarrow> config_node \<Rightarrow> block_node" where
  "cli_block_node ir n =
     \<lparr>bn_node_id = cn_node_id n, bn_order = cn_order n, bn_artifact_id = cn_artifact_id n,
      bn_source_label = cn_source_label n, bn_start_line = Some (cn_source_start n),
      bn_end_line = Some (cn_source_end n), bn_context = cn_raw_text n, bn_raw_text = cn_raw_text n,
      bn_occurrence = [(''artifact_id'', PStr (uuid_str (cn_artifact_id n))), (''command'', opt_str (cn_command n)),
        (''arguments'', PList (map PStr (cn_arguments n))),
        (''parent_command'', case cli_parent ir n of None \<Rightarrow> PNone | Some p \<Rightarrow> opt_str (cn_command p)),
        (''ancestor_commands'', PList (map PStr (cn_context_path n))), (''negated'', PBool (cn_negated n)),
        (''order'', PInt (int (cn_order n)))],
      bn_structured_path = PNone, bn_evidence_type = AE_CONFIGURATION,
      bn_statement = (if cn_kind n = STATEMENT then Some (cn_command n) else None),
      bn_uncertain = (cn_kind n = OPAQUE \<and> cn_parse_status n \<noteq> PS_OPAQUE)\<rparr>"

definition text_or_empty :: "string option \<Rightarrow> string" where
  "text_or_empty t = (case t of None \<Rightarrow> [] | Some s \<Rightarrow> s)"

definition xml_line :: "xml_node \<Rightarrow> string" where
  "xml_line n = ''<'' @ xn_tag n @ ''>'' @ text_or_empty (xn_text n)"

definition xml_block_node :: "xml_node \<Rightarrow> block_node" where
  "xml_block_node n =
     \<lparr>bn_node_id = xn_node_id n, bn_order = xn_order n, bn_artifact_id = ap_artifact_id (xn_source n),
      bn_source_label = ap_source_label (xn_source n), bn_start_line = Some (xn_order n),
      bn_end_line = Some (xn_order n), bn_context = xml_line n, bn_raw_text = take 2048 (xml_line n),
      bn_occurrence = [(''artifact_id'', PStr (uuid_str (ap_artifact_id (xn_source n)))),
        (''xml_path'', PList (map PStr (xn_path n))), (''tag'', PStr (xn_tag n)),
        (''attributes'', PDict (dict_of (map (\<lambda>(k, v). (k, PStr v)) (xn_attributes n)))),
        (''text'', opt_str (xn_text n)), (''order'', PInt (int (xn_order n)))],
      bn_structured_path = PNone, bn_evidence_type = AE_STRUCTURED_EXPORT, bn_statement = None,
      bn_uncertain = False\<rparr>"

definition path_value :: "json_key list \<Rightarrow> pyval" where
  "path_value p = PList (map key_value p)"

definition json_line :: "json_node \<Rightarrow> string" where
  "json_line n = py_repr (path_value (jn_path n)) @ '' = '' @ py_repr (jn_value n)"

definition json_block_node :: "json_node \<Rightarrow> block_node" where
  "json_block_node n =
     \<lparr>bn_node_id = jn_node_id n, bn_order = jn_order n, bn_artifact_id = ap_artifact_id (jn_source n),
      bn_source_label = ap_source_label (jn_source n), bn_start_line = None, bn_end_line = None,
      bn_context = json_line n, bn_raw_text = take 2048 (json_line n),
      bn_occurrence = [(''artifact_id'', PStr (uuid_str (ap_artifact_id (jn_source n)))),
        (''json_path'', path_value (jn_path n)), (''value'', jn_value n), (''order'', PInt (int (jn_order n)))],
      bn_structured_path = path_value (jn_path n), bn_evidence_type = AE_STRUCTURED_EXPORT, bn_statement = None,
      bn_uncertain = False\<rparr>"

fun block_nodes :: "parsed_ir \<Rightarrow> block_node list" where
  "block_nodes (CliIR ir) = map (cli_block_node ir) (ir_nodes ir)"
| "block_nodes (XmlIR ir) = map xml_block_node (xi_nodes ir)"
| "block_nodes (JsonIR ir) = map json_block_node (ji_nodes ir)"

section \<open>What an unresolved node may affect\<close>

record block_scope =
  bs_rules :: "rule_definition list"
  bs_all_fields :: "string list"
  bs_mapping_fields :: "(uuid \<times> string) list"
  bs_identity_commands :: pyval
  bs_generic :: bool

text \<open>The strings among the members of a value that is iterated.\<close>

fun string_members :: "pyval \<Rightarrow> exc + string list" where
  "string_members (PList vs) = Inr (concat (map (\<lambda>v. case v of PStr s \<Rightarrow> [s] | _ \<Rightarrow> []) vs))"
| "string_members (PDict d) = Inr (map fst d)"
| "string_members (PStr s) = Inr (map (\<lambda>c. [c]) s)"
| "string_members v = Inl type_error"

definition block_scope_of :: "audit_services \<Rightarrow> interpretation_plan \<Rightarrow> exc + block_scope" where
  "block_scope_of sv plan =
     (let profile = il_profile plan;
          rules = (case dict_get (sv_rules sv) (il_profile_version_id plan) of
            Some (Some pack) \<Rightarrow> rp_rules pack | _ \<Rightarrow> []);
          required = sorted_set (concat (map rd_required_effective_states rules))
      in and_then (if required \<noteq> [] then Inr required
           else and_then (string_members (or_default (pm_coverage_manifest profile) ''canonical_fields'' (PList [])))
             (\<lambda>xs. Inr (sort xs))) (\<lambda>fields.
         Inr \<lparr>bs_rules = rules, bs_all_fields = fields,
           bs_mapping_fields = dict_of (map (\<lambda>m. (dm_mapping_id m, dm_field_id m)) (kp_mappings (il_pack plan))),
           bs_identity_commands = or_default (pm_coverage_manifest profile) ''identity_only_commands'' (PList []),
           bs_generic = (pm_profile_id profile \<in> {''generic.cli'', ''generic.xml'', ''generic.json''})\<rparr>))"

text \<open>\<open>command in commands\<close>, for a command that may be \<open>None\<close>.\<close>

fun command_in :: "pyval \<Rightarrow> string option \<Rightarrow> exc + bool" where
  "command_in (PList vs) c = Inr (opt_str c \<in> set vs)"
| "command_in (PDict d) c = Inr (case c of None \<Rightarrow> False | Some s \<Rightarrow> s \<in> fst ` set d)"
| "command_in (PStr t) c = (case c of None \<Rightarrow> Inl type_error | Some s \<Rightarrow> Inr (py_in s t))"
| "command_in v c = Inl type_error"

definition identity_only :: "block_scope \<Rightarrow> block_node \<Rightarrow> exc + bool" where
  "identity_only sc n = (case bn_statement n of None \<Rightarrow> Inr False | Some c \<Rightarrow> command_in (bs_identity_commands sc) c)"

definition node_diagnostics :: "interpretation_result \<Rightarrow> string \<Rightarrow> interpretation_diagnostic list" where
  "node_diagnostics result i = filter (\<lambda>d. i \<noteq> [] \<and> id_node_id d = Some i) (it_diagnostics result)"

definition all_rule_ids :: "block_scope \<Rightarrow> string list" where
  "all_rule_ids sc = sort (map rd_rule_id (bs_rules sc))"

definition candidate_fields :: "block_scope \<Rightarrow> interpretation_diagnostic list \<Rightarrow> string list" where
  "candidate_fields sc ds = sorted_set (concat (map (\<lambda>d. case id_mapping_id d of None \<Rightarrow> []
     | Some m \<Rightarrow> (case dict_get (bs_mapping_fields sc) m of None \<Rightarrow> [] | Some f \<Rightarrow> [f])) ds))"

text \<open>The fields and rules of a block: those of its diagnostics if they are known, else every one.\<close>

definition block_relevance ::
  "block_scope \<Rightarrow> interpretation_diagnostic list \<Rightarrow> bool \<Rightarrow> string list \<times> string list" where
  "block_relevance sc ds uncertain =
     (let fields = candidate_fields sc ds
      in if fields = [] \<or> bs_generic sc \<or> uncertain then (bs_all_fields sc, all_rule_ids sc)
         else (fields, sorted_set (map rd_rule_id (filter (\<lambda>r.
           list_ex (\<lambda>f. f \<in> set fields) (rd_required_effective_states r)) (bs_rules sc)))))"

section \<open>Blocks\<close>

definition nearby_text :: "parsed_ir \<Rightarrow> string \<Rightarrow> string" where
  "nearby_text ir i =
     (let nearby = sort_key bn_order (block_nodes ir);
          position = length (takeWhile (\<lambda>n. bn_node_id n \<noteq> i) nearby)
      in take 4096 (join [CHR 0x0A] (map bn_context (drop (position - 2) (take (position + 3) nearby)))))"

definition opt_line :: "nat option \<Rightarrow> pyval" where
  "opt_line n = py_opt (\<lambda>k. PInt (int k)) n"

definition node_block ::
  "(string \<Rightarrow> string) \<Rightarrow> uuid \<Rightarrow> interpretation_plan \<Rightarrow> block_scope \<Rightarrow> parsed_ir \<Rightarrow> interpretation_result
    \<Rightarrow> block_node \<Rightarrow> unresolved_block" where
  "node_block sha organization_id plan sc ir result n =
     (let context = il_context plan; ds = node_diagnostics result (bn_node_id n);
          (fields, rules) = block_relevance sc ds (bn_uncertain n)
      in \<lparr>ub_unresolved_block_id = 0, ub_organization_id = organization_id, ub_audit_id = ic_audit_id context,
          ub_device_id = ic_device_id context, ub_snapshot_id = ic_snapshot_id context,
          ub_profile_id = Some (pm_profile_id (il_profile plan)),
          ub_profile_version_id = Some (il_profile_version_id plan), ub_source_ir_node_ids = [bn_node_id n],
          ub_evidence_refs = [PDict [(''artifact_id'', PStr (uuid_str (bn_artifact_id n))),
            (''start_line'', opt_line (bn_start_line n)), (''end_line'', opt_line (bn_end_line n)),
            (''source_path'', PStr (bn_source_label n)), (''ir_node_id'', PStr (bn_node_id n)),
            (''structured_path'', bn_structured_path n),
            (''evidence_type'', PStr (evidence_type_value (bn_evidence_type n)))]],
          ub_raw_text = bn_raw_text n, ub_surrounding_context = nearby_text ir (bn_node_id n),
          ub_unknown_reason = (case ds of [] \<Rightarrow> ''unmapped_syntax'' | d # _ \<Rightarrow> id_code d),
          ub_candidate_field_ids = fields, ub_affected_rule_ids = rules,
          ub_fingerprint = sha (uuid_str (ic_audit_id context) @ '':'' @ uuid_str (bn_artifact_id n) @ '':'' @ bn_node_id n),
          ub_occurrence = bn_occurrence n, ub_review_status = RV_OPEN, ub_assigned_mapping_version_id = None,
          ub_schema_version = ''1.0.0''\<rparr>)"

definition known_block :: "audit_store \<Rightarrow> unresolved_block \<Rightarrow> bool" where
  "known_block db b = list_ex (\<lambda>r. ub_audit_id r = ub_audit_id b \<and> ub_fingerprint r = ub_fingerprint b) (db_blocks db)"

text \<open>The block of one unresolved node, if it needs one and the audit does not have it.\<close>

definition unresolved_node ::
  "(string \<Rightarrow> string) \<Rightarrow> audit_store \<Rightarrow> uuid \<Rightarrow> interpretation_plan \<Rightarrow> block_scope \<Rightarrow> parsed_ir
    \<Rightarrow> interpretation_result \<Rightarrow> string \<Rightarrow> exc + unresolved_block list" where
  "unresolved_node sha db organization_id plan sc ir result i =
     (case node_of bn_node_id (block_nodes ir) i of
        None \<Rightarrow> Inl key_error
      | Some n \<Rightarrow>
          and_then (identity_only sc n) (\<lambda>skip.
          let b = node_block sha organization_id plan sc ir result n
          in Inr (if skip \<or> known_block db b then [] else [b])))"

definition artifact_block ::
  "(string \<Rightarrow> string) \<Rightarrow> uuid \<Rightarrow> interpretation_plan \<Rightarrow> block_scope \<Rightarrow> artifact \<times> string \<Rightarrow> unresolved_block" where
  "artifact_block sha organization_id plan sc xt =
     (let (x, text) = xt; context = il_context plan; kind = PStr (evidence_type_value (af_evidence_type x))
      in \<lparr>ub_unresolved_block_id = 0, ub_organization_id = organization_id, ub_audit_id = ic_audit_id context,
          ub_device_id = ic_device_id context, ub_snapshot_id = ic_snapshot_id context,
          ub_profile_id = Some (pm_profile_id (il_profile plan)),
          ub_profile_version_id = Some (il_profile_version_id plan), ub_source_ir_node_ids = [],
          ub_evidence_refs = [PDict [(''artifact_id'', PStr (uuid_str (af_artifact_id x))),
            (''source_path'', PStr (af_original_filename x)), (''evidence_type'', kind)]],
          ub_raw_text = text, ub_surrounding_context = [], ub_unknown_reason = ''unsupported_configuration_evidence'',
          ub_candidate_field_ids = bs_all_fields sc, ub_affected_rule_ids = all_rule_ids sc,
          ub_fingerprint = sha (uuid_str (ic_audit_id context) @ '':'' @ uuid_str (af_artifact_id x)
            @ '':unsupported-artifact''),
          ub_occurrence = [(''artifact_id'', PStr (uuid_str (af_artifact_id x))),
            (''filename'', PStr (af_original_filename x)), (''evidence_type'', kind), (''sha256'', PStr (af_sha256 x))],
          ub_review_status = RV_OPEN, ub_assigned_mapping_version_id = None, ub_schema_version = ''1.0.0''\<rparr>)"

definition unresolved_blocks_of ::
  "audit_services \<Rightarrow> audit_store \<Rightarrow> uuid \<Rightarrow> interpretation_plan \<Rightarrow> (parsed_ir \<times> interpretation_result) list
    \<Rightarrow> exc + unresolved_block list" where
  "unresolved_blocks_of sv db organization_id plan interpreted =
     (let sha = pl_sha256 (sv_parsers sv) in
      and_then (block_scope_of sv plan) (\<lambda>sc.
      and_then (map_res (\<lambda>(ir, result). and_then
          (map_res (unresolved_node sha db organization_id plan sc ir result) (it_unresolved_node_ids result))
          (\<lambda>bs. Inr (concat bs))) interpreted) (\<lambda>nodes.
      Inr (concat nodes @ filter (\<lambda>b. \<not> known_block db b)
        (map (artifact_block sha organization_id plan sc) (il_unsupported plan))))))"

section \<open>The transaction\<close>

definition fact_row :: "security_fact_draft \<Rightarrow> security_fact" where
  "fact_row d =
     \<lparr>sf_fact_id = sd_fact_id d, sf_audit_id = sd_audit_id d, sf_device_id = sd_device_id d,
      sf_snapshot_id = sd_snapshot_id d, sf_field_id = sd_field_id d,
      sf_value = PDict (typed_value_to_dict (sd_value d)), sf_entity = sd_entity d,
      sf_scope = PDict (scope_to_dict (sd_scope d)), sf_state = sd_state d,
      sf_evidence_refs = PList (map (\<lambda>e. PDict (evidence_to_dict e)) (sd_evidence_refs d)),
      sf_source_ir_node_ids = sd_source_ir_node_ids d, sf_extraction_method = sd_extraction_method d,
      sf_mapping_id = sd_mapping_id d, sf_mapping_version_id = sd_mapping_version_id d,
      sf_knowledge_pack_version_id = sd_knowledge_pack_version_id d,
      sf_validation_status = sd_validation_status d,
      sf_dependencies = map (\<lambda>i. PStr (uuid_str i)) (sd_dependencies d),
      sf_interpretation_confidence = sd_interpretation_confidence d, sf_schema_version = sd_schema_version d\<rparr>"

definition storing_failed :: exc where
  "storing_failed = Exc InterpretationInfrastructureError ''security_fact_persistence_failed''"

text \<open>The audit and its resources are those of the plan, and its pins admit the pack.\<close>

definition plan_holds :: "audit_services \<Rightarrow> uuid \<Rightarrow> interpretation_plan \<Rightarrow> audit_store \<Rightarrow> audit \<Rightarrow> exc + unit" where
  "plan_holds sv organization_id plan db a =
     (let context = il_context plan; refs = au_version_refs a in
      case (get_snapshot_row (ic_snapshot_id context) db, get_device_row (ic_device_id context) db) of
        (Some s, Some d) \<Rightarrow>
          and_then (require (au_snapshot_id a = ic_snapshot_id context \<and> au_device_id a = ic_device_id context
              \<and> sn_organization_id s = organization_id \<and> sn_device_id s = ic_device_id context
              \<and> dv_organization_id d = organization_id \<and> py_eq (PDict (au_profile_resolution a)) (PDict (il_resolution plan)))
            (invalid_interpretation ''audit_resource_changed'')) (\<lambda>_.
          and_then (validate_snapshot_evidence (pl_sha256 (sv_parsers sv)) db s) (\<lambda>artifacts.
          and_then (require (evidence_of artifacts = il_evidence plan)
            (invalid_interpretation ''snapshot_evidence_changed'')) (\<lambda>_.
          and_then (require (py_get refs ''device_profile_version_id'' \<in> {PNone, PStr (il_profile_version_id plan)})
            (invalid_interpretation ''profile_version_conflict'')) (\<lambda>_.
          require (py_get refs ''knowledge_pack_version_id''
              \<in> {PNone, PStr (uuid_str (kp_knowledge_pack_version_id (il_pack plan)))}) pack_conflict))))
      | _ \<Rightarrow> Inl (invalid_interpretation ''audit_resource_changed''))"

text \<open>\<open>fresh\<close> numbers the identifiers of the new blocks.\<close>

definition store_interpretation ::
  "audit_services \<Rightarrow> (nat \<Rightarrow> uuid) \<Rightarrow> uuid \<Rightarrow> interpretation_plan \<Rightarrow> (parsed_ir \<times> interpretation_result) list
    \<Rightarrow> audit_store \<Rightarrow> exc + audit_store" where
  "store_interpretation sv fresh organization_id plan interpreted db =
     (let audit_id = ic_audit_id (il_context plan); drafts = concat (map (\<lambda>(ir, r). it_facts r) interpreted) in
      case find_audit audit_id organization_id db of
        None \<Rightarrow> Inl (Exc InterpretationNotFoundError ''audit_not_found'')
      | Some a \<Rightarrow>
          and_then (plan_holds sv organization_id plan db a) (\<lambda>_.
          let existing = map sf_fact_id (filter (\<lambda>f. sf_audit_id f = audit_id) (db_facts db));
              rows = map fact_row (filter (\<lambda>d. sd_fact_id d \<notin> set existing) drafts) in
          and_then (unresolved_blocks_of sv db organization_id plan interpreted) (\<lambda>blocks.
          let numbered = map (\<lambda>(i, b). b\<lparr>ub_unresolved_block_id := fresh i\<rparr>) (enumerate 0 blocks) in
          and_then (raise_from (\<lambda>c. c = SQLAlchemyError) storing_failed
            (fold_res (insert_row fact_admitted) rows (db_facts db))) (\<lambda>facts.
          and_then (raise_from (\<lambda>c. c = SQLAlchemyError) storing_failed
            (fold_res (insert_row block_admitted) numbered (db_blocks db))) (\<lambda>all_blocks.
          Inr (db\<lparr>db_facts := facts, db_blocks := all_blocks\<rparr>))))))"

section \<open>The whole call\<close>

record audit_interpretation =
  ai_facts :: "security_fact list"
  ai_results :: "interpretation_result list"
  ai_diagnostics :: "(uuid \<times> string) list"

text \<open>
  The call runs in two halves: it plans and parses, the caller's callback runs, and the trees are
  interpreted and stored.
\<close>

definition prepare_interpretation ::
  "audit_services \<Rightarrow> uuid \<Rightarrow> uuid \<Rightarrow> knowledge_pack option \<Rightarrow> audit_store
    \<Rightarrow> exc + interpretation_plan \<times> parsed_ir list \<times> (uuid \<times> string) list" where
  "prepare_interpretation sv audit_id organization_id given db =
     and_then (plan_interpretation sv audit_id organization_id given db) (\<lambda>plan.
     and_then (parse_evidence sv organization_id plan) (\<lambda>(irs, diagnostics). Inr (plan, irs, diagnostics)))"

definition complete_interpretation ::
  "audit_services \<Rightarrow> (nat \<Rightarrow> uuid) \<Rightarrow> uuid \<Rightarrow> interpretation_plan \<Rightarrow> parsed_ir list \<Rightarrow> (uuid \<times> string) list
    \<Rightarrow> audit_store \<Rightarrow> exc + audit_interpretation \<times> audit_store" where
  "complete_interpretation sv fresh organization_id plan irs diagnostics db =
     and_then (map_res (\<lambda>ir. and_then (interpret_tree sv plan ir) (\<lambda>r. Inr (ir, r))) irs) (\<lambda>interpreted.
     and_then (store_interpretation sv fresh organization_id plan interpreted db) (\<lambda>db'.
     let audit_id = ic_audit_id (il_context plan); ids = map sd_fact_id (concat (map (\<lambda>(ir, r). it_facts r) interpreted)) in
     Inr (\<lparr>ai_facts = sort_key sf_fact_id (filter (\<lambda>f. sf_audit_id f = audit_id \<and> sf_fact_id f \<in> set ids) (db_facts db')),
            ai_results = map snd interpreted, ai_diagnostics = diagnostics\<rparr>, db')))"

text \<open>\<open>before\<close> is the callback; it commits in a session of its own.\<close>

definition interpret_audit ::
  "audit_services \<Rightarrow> (nat \<Rightarrow> uuid) \<Rightarrow> uuid \<Rightarrow> uuid \<Rightarrow> (audit_store \<Rightarrow> exc + audit_store) \<Rightarrow> knowledge_pack option
    \<Rightarrow> audit_store \<Rightarrow> exc + audit_interpretation \<times> audit_store" where
  "interpret_audit sv fresh audit_id organization_id before given db =
     and_then (prepare_interpretation sv audit_id organization_id given db) (\<lambda>(plan, irs, diagnostics).
     and_then (before db) (\<lambda>db1. complete_interpretation sv fresh organization_id plan irs diagnostics db1))"

definition list_audit_security_facts :: "audit_store \<Rightarrow> uuid \<Rightarrow> uuid \<Rightarrow> security_fact list" where
  "list_audit_security_facts db audit_id organization_id =
     (if find_audit audit_id organization_id db = None then []
      else sort_key sf_fact_id (filter (\<lambda>f. sf_audit_id f = audit_id) (db_facts db)))"

end
