(* ===== verification/Pipeline_Run.thy ===== *)
theory Pipeline_Run
  imports Profile_Resolution Interpretation_Store Audit_Histories
begin

text \<open>
  The coordinator of the audit pipeline (\<open>AuditPipelineCoordinator.run\<close> in \<open>audit/pipeline.py\<close>): the
  stages in their order, each in transactions of its own, so that what an earlier one committed stays
  when a later one fails.  Every run is a history of the life cycle of audits.
\<close>

section \<open>Transactions in a row\<close>

text \<open>The database and the registry of policies, which is the process's.\<close>

type_synonym pipeline_state = "audit_store \<times> policy_registry"
type_synonym 'a stage = "pipeline_state \<Rightarrow> (exc + 'a) \<times> pipeline_state"

definition stage_return :: "'a \<Rightarrow> 'a stage" where
  "stage_return a st = (Inr a, st)"

definition stage_then :: "'a stage \<Rightarrow> ('a \<Rightarrow> 'b stage) \<Rightarrow> 'b stage" where
  "stage_then m k st = (case m st of (Inl e, st') \<Rightarrow> (Inl e, st') | (Inr a, st') \<Rightarrow> k a st')"

text \<open>A transaction that returns a value, one that does not, and a read.\<close>

definition commits :: "(audit_store \<Rightarrow> exc + 'a \<times> audit_store) \<Rightarrow> 'a stage" where
  "commits f st = (case f (fst st) of Inl e \<Rightarrow> (Inl e, st) | Inr (a, db) \<Rightarrow> (Inr a, (db, snd st)))"

definition updates :: "(audit_store \<Rightarrow> exc + audit_store) \<Rightarrow> unit stage" where
  "updates f = commits (\<lambda>db. and_then (f db) (\<lambda>db'. Inr ((), db')))"

definition reads :: "(audit_store \<Rightarrow> exc + 'a) \<Rightarrow> 'a stage" where
  "reads f st = (f (fst st), st)"

section \<open>The pack of a run\<close>

definition load_audit_pack ::
  "audit_services \<Rightarrow> uuid \<Rightarrow> uuid \<Rightarrow> string \<Rightarrow> audit_store \<Rightarrow> exc + knowledge_pack" where
  "load_audit_pack sv audit_id organization_id profile_version_id db =
     (let lib = sv_effective sv in
      case find_audit audit_id organization_id db of
        None \<Rightarrow> Inl not_found
      | Some a \<Rightarrow>
          and_then (profile_for (el_json_loads lib) db organization_id profile_version_id) (\<lambda>found. case found of
            None \<Rightarrow> Inl (Exc AuditConflictError ''audit_profile_version_conflict'')
          | Some profile \<Rightarrow>
              (case py_get (au_version_refs a) ''knowledge_pack_version_id'' of
                 PNone \<Rightarrow>
                   and_then (load_active_published_knowledge_pack lib db organization_id profile_version_id (Some profile))
                     (\<lambda>published. case published of
                        Some pack \<Rightarrow> Inr pack
                      | None \<Rightarrow>
                          if dict_get (sv_rules sv) profile_version_id \<noteq> None
                          then load_validated_knowledge_pack profile_version_id
                          else Inr (runtime_baseline_knowledge_pack (el_uuid5 lib) profile))
               | pinned \<Rightarrow>
                   and_then (raise_from (\<lambda>c. c = TypeError \<or> is_value_error c) version_conflict
                     (and_then (uuid_arg pinned) (\<lambda>i.
                       load_published_knowledge_pack lib db organization_id i profile_version_id (Some profile)))) (\<lambda>pack.
                   and_then (require (kp_profile_version_id pack = profile_version_id) version_conflict) (\<lambda>_.
                   Inr pack)))))"

section \<open>The stages\<close>

record pipeline_library =
  cl_services :: audit_services
  cl_decode_replace :: "string \<Rightarrow> byte list \<Rightarrow> string"
  cl_pick :: "device_class set \<Rightarrow> device_class"
  cl_registry :: rule_registry

definition cl_profiles :: "pipeline_library \<Rightarrow> profile_services" where
  "cl_profiles lib = (let sv = cl_services lib in
     \<lparr>ps_parsers = sv_parsers sv, ps_decode = cl_decode_replace lib, ps_read_prefix = sv_read_prefix sv,
      ps_json_loads = el_json_loads (sv_effective sv), ps_pick = cl_pick lib\<rparr>)"

text \<open>The times and the identifiers that a run takes.\<close>

record run_supply =
  rs_began :: int
  rs_resolved :: int
  rs_ended :: int
  rs_pins :: "nat \<Rightarrow> uuid"
  rs_blocks :: "nat \<Rightarrow> uuid"
  rs_results :: "nat \<Rightarrow> uuid"

record pipeline_result =
  pp_resolution :: profile_resolution_result
  pp_interpretation :: "audit_interpretation option"
  pp_states :: "effective_state list option"
  pp_findings :: "finding list option"
  pp_stages :: "processing_stage list"

definition identify_stage ::
  "pipeline_library \<Rightarrow> run_supply \<Rightarrow> uuid \<Rightarrow> uuid \<Rightarrow> profile_resolution_result stage" where
  "identify_stage lib supply audit_id organization_id =
     stage_then (updates (begin_processing (rs_began supply) audit_id organization_id)) (\<lambda>_.
     stage_then (reads (\<lambda>db. case find_audit audit_id organization_id db of
         None \<Rightarrow> Inl not_found | Some a \<Rightarrow> pinned_resolution a)) (\<lambda>pinned.
     case pinned of
       Some r \<Rightarrow> stage_return r
     | None \<Rightarrow> commits (resolve_audit_profile (cl_profiles lib) (rs_resolved supply) audit_id organization_id)))"

definition pin_assessment_stage :: "run_supply \<Rightarrow> uuid \<Rightarrow> uuid \<Rightarrow> string \<Rightarrow> unit stage" where
  "pin_assessment_stage supply audit_id organization_id version =
     updates (\<lambda>db. case find_audit audit_id organization_id db of
       None \<Rightarrow> Inl not_found
     | Some a \<Rightarrow> as_error AssessmentPackError AuditConflictError
         (raise_from (\<lambda>c. c = SQLAlchemyError) (Exc AuditInfrastructureError ''assessment_pin_failed'')
           (pin_assessment (rs_pins supply) a version db)))"

definition compliance_stage ::
  "pipeline_library \<Rightarrow> uuid \<Rightarrow> uuid \<Rightarrow> string \<Rightarrow> unit stage" where
  "compliance_stage lib audit_id organization_id version st =
     (let sv = cl_services lib; (db, reg) = st in
      case pin_compliance_versions (el_uuid5 (sv_effective sv)) (el_json_loads (sv_effective sv)) (sv_rules sv) reg
          audit_id organization_id version db of
        Inl e \<Rightarrow> (Inl e, st) | Inr (db', reg') \<Rightarrow> (Inr (), (db', reg')))"

text \<open>The rule pack and the policy that the audit pins; the code catches what looking them up raises.\<close>

definition pinned_rule_pack :: "rule_registry \<Rightarrow> json_object \<Rightarrow> exc + rule_pack" where
  "pinned_rule_pack registry refs =
     (case dict_get refs ''rule_pack_versions'' of
        None \<Rightarrow> Inl key_error
      | Some (PList []) \<Rightarrow> Inl (Exc IndexError [])
      | Some (PList (v # _)) \<Rightarrow> and_then (uuid_arg v) (\<lambda>i. get_rule_pack i registry)
      | Some (PStr []) \<Rightarrow> Inl (Exc IndexError [])
      | Some (PStr (c # _)) \<Rightarrow> and_then (uuid_arg (PStr [c])) (\<lambda>i. get_rule_pack i registry)
      | Some (PDict _) \<Rightarrow> Inl key_error
      | Some _ \<Rightarrow> Inl type_error)"

definition caught_lookup :: "exc_class \<Rightarrow> bool" where
  "caught_lookup c = (c = KeyError \<or> c = TypeError \<or> is_value_error c)"

definition evaluation_inputs ::
  "pipeline_library \<Rightarrow> uuid \<Rightarrow> json_object \<Rightarrow> policy_registry
    \<Rightarrow> (exc + rule_pack \<times> organization_policy_version) \<times> policy_registry" where
  "evaluation_inputs lib organization_id refs reg =
     (let uuid5 = el_uuid5 (sv_effective (cl_services lib)) in
      case raise_from caught_lookup version_conflict (pinned_rule_pack (cl_registry lib) refs) of
        Inl e \<Rightarrow> (Inl e, reg)
      | Inr pack \<Rightarrow>
          (case select_policy_version uuid5 organization_id (py_get refs ''organization_policy_version_id'') reg of
             (selected, reg') \<Rightarrow>
               (and_then (raise_from caught_lookup version_conflict selected) (\<lambda>policy. Inr (pack, policy)), reg')))"

definition persisted_states :: "audit_store \<Rightarrow> uuid \<Rightarrow> effective_state list" where
  "persisted_states db audit_id =
     sort_key (\<lambda>s. (ef_field_id s, ef_scope_key s)) (filter (\<lambda>s. ef_audit_id s = audit_id) (db_states db))"

definition evaluate_findings ::
  "pipeline_library \<Rightarrow> run_supply \<Rightarrow> uuid \<Rightarrow> uuid \<Rightarrow> string \<Rightarrow> rule_pack \<Rightarrow> organization_policy_version
    \<Rightarrow> audit_store \<Rightarrow> exc + finding list \<times> audit_store" where
  "evaluate_findings lib supply audit_id organization_id version pack policy db =
     (let sv = cl_services lib in
      and_then (persist_audit_findings (el_uuid5 (sv_effective sv)) db audit_id organization_id pack (Some policy)
        (Some (persisted_states db audit_id)) None) (\<lambda>(findings, db1).
      and_then (as_error AssessmentPackError AuditConflictError
        (persist_assessment_results (rs_results supply) (pl_sha256 (sv_parsers sv)) (sv_rules sv) audit_id organization_id
          version findings db1)) (\<lambda>(coverage, db2).
      Inr (findings, db2))))"

definition evaluate_stage ::
  "pipeline_library \<Rightarrow> run_supply \<Rightarrow> uuid \<Rightarrow> uuid \<Rightarrow> string \<Rightarrow> finding list stage" where
  "evaluate_stage lib supply audit_id organization_id version st =
     (case find_audit audit_id organization_id (fst st) of
        None \<Rightarrow> (Inl not_found, st)
      | Some a \<Rightarrow>
          (case evaluation_inputs lib organization_id (au_version_refs a) (snd st) of
             (Inl e, reg) \<Rightarrow> (Inl e, (fst st, reg))
           | (Inr (pack, policy), reg) \<Rightarrow>
               commits (evaluate_findings lib supply audit_id organization_id version pack policy) (fst st, reg)))"

definition pin_stage_versions ::
  "uuid \<Rightarrow> uuid \<Rightarrow> string \<Rightarrow> knowledge_pack \<Rightarrow> processing_stage \<Rightarrow> unit stage" where
  "pin_stage_versions audit_id organization_id version pack stage =
     updates (pin_versions audit_id organization_id version (kp_knowledge_pack_version_id pack) stage)"

section \<open>A run\<close>

definition run_identified ::
  "pipeline_library \<Rightarrow> run_supply \<Rightarrow> uuid \<Rightarrow> uuid \<Rightarrow> profile_resolution_result \<Rightarrow> string \<Rightarrow> pipeline_result stage" where
  "run_identified lib supply audit_id organization_id resolution version =
     (let sv = cl_services lib in
      stage_then (pin_assessment_stage supply audit_id organization_id version) (\<lambda>_.
      stage_then (reads (load_audit_pack sv audit_id organization_id version)) (\<lambda>pack.
      stage_then (pin_stage_versions audit_id organization_id version pack ST_PARSING) (\<lambda>_.
      stage_then (reads (prepare_interpretation sv audit_id organization_id (Some pack))) (\<lambda>(plan, irs, diagnostics).
      stage_then (pin_stage_versions audit_id organization_id version pack ST_INTERPRETING) (\<lambda>_.
      stage_then (commits (complete_interpretation sv (rs_blocks supply) organization_id plan irs diagnostics)) (\<lambda>interpretation.
      stage_then (pin_stage_versions audit_id organization_id version pack ST_RESOLVING_STATE) (\<lambda>_.
      stage_then (commits (resolve_audit_effective_states (sv_effective sv) audit_id organization_id)) (\<lambda>states.
      stage_then (compliance_stage lib audit_id organization_id version) (\<lambda>_.
      stage_then (evaluate_stage lib supply audit_id organization_id version) (\<lambda>findings.
      stage_then (updates (finalize_audit (rs_ended supply) audit_id organization_id findings)) (\<lambda>_.
      stage_return \<lparr>pp_resolution = resolution, pp_interpretation = Some interpretation, pp_states = Some states,
        pp_findings = Some findings,
        pp_stages = [ST_IDENTIFYING, ST_PARSING, ST_INTERPRETING, ST_RESOLVING_STATE, ST_EVALUATING]\<rparr>))))))))))))"

definition run_pipeline ::
  "pipeline_library \<Rightarrow> run_supply \<Rightarrow> uuid \<Rightarrow> uuid \<Rightarrow> pipeline_result stage" where
  "run_pipeline lib supply audit_id organization_id =
     stage_then (identify_stage lib supply audit_id organization_id) (\<lambda>resolution.
     case (px_resolution_status resolution, px_selected_profile_version_id resolution) of
       (PR_RESOLVED, Some version) \<Rightarrow> run_identified lib supply audit_id organization_id resolution version
     | _ \<Rightarrow>
         stage_then (updates (finalize_failure (rs_ended supply) audit_id organization_id (Some ST_IDENTIFYING))) (\<lambda>_.
         stage_return \<lparr>pp_resolution = resolution, pp_interpretation = None, pp_states = None, pp_findings = None,
           pp_stages = [ST_IDENTIFYING]\<rparr>))"

section \<open>A run is a history\<close>

definition history_library :: "pipeline_library \<Rightarrow> audit_library" where
  "history_library lib = (let sv = cl_services lib in
     \<lparr>al_sha = pl_sha256 (sv_parsers sv), al_uuid5 = el_uuid5 (sv_effective sv),
      al_json_loads = el_json_loads (sv_effective sv), al_rules = sv_rules sv, al_effective = sv_effective sv\<rparr>)"

text \<open>A stage leaves the database where a sequence of steps could have left it.\<close>

definition stage_moves :: "(audit_store \<Rightarrow> audit_store \<Rightarrow> bool) \<Rightarrow> 'a stage \<Rightarrow> bool" where
  "stage_moves R m = (\<forall>st. R\<^sup>*\<^sup>* (fst st) (fst (snd (m st))))"

lemma moves_return [simp]: "stage_moves R (stage_return a)"
  by (simp add: stage_moves_def stage_return_def)

lemma moves_reads [simp]: "stage_moves R (reads f)"
  by (simp add: stage_moves_def reads_def)

lemma moves_then:
  assumes "stage_moves R m" and "\<And>a. stage_moves R (k a)"
  shows "stage_moves R (stage_then m k)"
  unfolding stage_moves_def
proof
  fix st
  obtain x st' where m: "m st = (x, st')" by (cases "m st")
  with assms(1) have first: "R\<^sup>*\<^sup>* (fst st) (fst st')" unfolding stage_moves_def by (metis snd_conv)
  show "R\<^sup>*\<^sup>* (fst st) (fst (snd (stage_then m k st)))"
  proof (cases x)
    case Inl
    with m first show ?thesis by (simp add: stage_then_def)
  next
    case (Inr a)
    from assms(2) have "R\<^sup>*\<^sup>* (fst st') (fst (snd (k a st')))" unfolding stage_moves_def by blast
    with first Inr m show ?thesis by (simp add: stage_then_def)
  qed
qed

lemma moves_prod: "(\<And>a b. stage_moves R (k a b)) \<Longrightarrow> stage_moves R (case x of (a, b) \<Rightarrow> k a b)"
  by (cases x) simp

lemma moves_commits:
  assumes "\<And>db a db'. f db = Inr (a, db') \<Longrightarrow> R\<^sup>*\<^sup>* db db'"
  shows "stage_moves R (commits f)"
  unfolding stage_moves_def commits_def using assms by (auto split: sum.splits)

lemma moves_updates:
  assumes "\<And>db db'. f db = Inr db' \<Longrightarrow> R\<^sup>*\<^sup>* db db'"
  shows "stage_moves R (updates f)"
  unfolding updates_def by (rule moves_commits) (auto dest: assms)

lemma as_error_Inr [simp]: "as_error c r m = Inr a \<longleftrightarrow> m = Inr a"
  by (auto simp: as_error_def split: sum.splits)

abbreviation moves_to :: "pipeline_library \<Rightarrow> audit_store \<Rightarrow> audit_store \<Rightarrow> bool" where
  "moves_to lib \<equiv> (audit_step (history_library lib))\<^sup>*\<^sup>*"

lemma history_fields [simp]:
  "al_sha (history_library lib) = pl_sha256 (sv_parsers (cl_services lib))"
  "al_uuid5 (history_library lib) = el_uuid5 (sv_effective (cl_services lib))"
  "al_json_loads (history_library lib) = el_json_loads (sv_effective (cl_services lib))"
  "al_rules (history_library lib) = sv_rules (cl_services lib)"
  "al_effective (history_library lib) = sv_effective (cl_services lib)"
  by (simp_all add: history_library_def Let_def)

lemma resolve_audit_profile_moves:
  assumes "resolve_audit_profile (cl_profiles lib) now i org db = Inr (r, db')"
  shows "moves_to lib db db'"
proof -
  from assms obtain snapshot_id device_id expected documents issues preview where
    "store_resolution (al_sha (history_library lib)) now i org snapshot_id device_id expected r documents issues preview db
      = Inr db'"
    unfolding resolve_audit_profile_def Let_def cl_profiles_def by (auto split: prod.splits)
  then show ?thesis by (blast intro: audit_step.identify)
qed

lemma store_interpretation_Inr:
  assumes "store_interpretation sv fresh org plan interpreted db = Inr db'"
  obtains facts blocks where "db' = db\<lparr>db_facts := facts, db_blocks := blocks\<rparr>"
  using assms unfolding store_interpretation_def by (auto simp: Let_def split: option.splits)

lemma complete_interpretation_moves:
  assumes "complete_interpretation sv fresh org plan irs ds db = Inr (r, db')"
  shows "(audit_step l)\<^sup>*\<^sup>* db db'"
proof -
  from assms obtain interpreted where "store_interpretation sv fresh org plan interpreted db = Inr db'"
    unfolding complete_interpretation_def by auto
  then obtain facts blocks where "db' = db\<lparr>db_facts := facts, db_blocks := blocks\<rparr>" by (rule store_interpretation_Inr)
  then have "audit_step l db db'" by (intro audit_step.elsewhere) simp_all
  then show ?thesis by blast
qed

lemma evaluate_findings_moves:
  assumes "evaluate_findings lib supply i org version pack policy db = Inr (fs, db')"
  shows "moves_to lib db db'"
proof -
  from assms obtain db1 coverage where
    first: "persist_audit_findings (al_uuid5 (history_library lib)) db i org pack (Some policy)
      (Some (persisted_states db i)) None = Inr (fs, db1)" and
    second: "persist_assessment_results (rs_results supply) (al_sha (history_library lib)) (al_rules (history_library lib))
      i org version fs db1 = Inr (coverage, db')"
    unfolding evaluate_findings_def Let_def by auto
  from audit_step.evaluate [OF first] audit_step.assess_results [OF second] show ?thesis
    by (meson converse_rtranclp_into_rtranclp r_into_rtranclp)
qed

lemma evaluate_stage_moves: "stage_moves (audit_step (history_library lib)) (evaluate_stage lib supply i org version)"
  unfolding stage_moves_def
proof
  fix st
  show "moves_to lib (fst st) (fst (snd (evaluate_stage lib supply i org version st)))"
    unfolding evaluate_stage_def
    by (auto simp: commits_def split: option.splits sum.splits prod.splits dest: evaluate_findings_moves)
qed

lemma compliance_step:
  "pin_compliance_versions (el_uuid5 (sv_effective (cl_services lib))) (el_json_loads (sv_effective (cl_services lib)))
     (sv_rules (cl_services lib)) reg i org version db = Inr (db', reg')
    \<Longrightarrow> audit_step (history_library lib) db db'"
  by (rule audit_step.pin_compliance) simp

lemma states_step:
  "resolve_audit_effective_states (sv_effective (cl_services lib)) i org db = Inr (states, db')
    \<Longrightarrow> audit_step (history_library lib) db db'"
  by (rule audit_step.resolve_states) simp

lemma compliance_stage_moves: "stage_moves (audit_step (history_library lib)) (compliance_stage lib i org version)"
  unfolding stage_moves_def
proof
  fix st :: pipeline_state
  obtain db reg where st: "st = (db, reg)" by (cases st)
  show "moves_to lib (fst st) (fst (snd (compliance_stage lib i org version st)))"
    unfolding compliance_stage_def st
    by (auto simp: Let_def split: sum.splits dest: compliance_step)
qed

lemma pin_assessment_moves: "stage_moves (audit_step l) (pin_assessment_stage supply i org version)"
  unfolding pin_assessment_stage_def
  by (rule moves_updates) (auto split: option.splits intro!: r_into_rtranclp audit_step.assess_pin)

lemma pin_stage_moves: "stage_moves (audit_step l) (pin_stage_versions i org version pack stage)"
  unfolding pin_stage_versions_def by (rule moves_updates) (blast intro: audit_step.pin_stage)

lemma begin_moves: "stage_moves (audit_step l) (updates (begin_processing now i org))"
  by (rule moves_updates) (blast intro: audit_step.start_run)

lemma finish_moves: "stage_moves (audit_step l) (updates (finalize_audit now i org fs))"
  by (rule moves_updates) (blast intro: audit_step.finish)

lemma fail_moves: "stage_moves (audit_step l) (updates (finalize_failure now i org stage))"
  by (rule moves_updates) (blast intro: audit_step.fail)

lemma profile_moves: "stage_moves (audit_step (history_library lib)) (commits (resolve_audit_profile (cl_profiles lib) now i org))"
  by (rule moves_commits) (rule resolve_audit_profile_moves)

lemma interpret_moves: "stage_moves (audit_step l) (commits (complete_interpretation sv fresh org plan irs ds))"
  by (rule moves_commits) (rule complete_interpretation_moves)

lemma states_moves:
  "stage_moves (audit_step (history_library lib)) (commits (resolve_audit_effective_states (sv_effective (cl_services lib)) i org))"
  by (rule moves_commits) (blast dest: states_step)

lemmas stages_move = moves_return moves_reads begin_moves finish_moves fail_moves profile_moves interpret_moves
  states_moves pin_assessment_moves pin_stage_moves compliance_stage_moves evaluate_stage_moves

lemma identify_stage_moves: "stage_moves (audit_step (history_library lib)) (identify_stage lib supply i org)"
  unfolding identify_stage_def by (intro moves_then stages_move) (simp add: profile_moves split: option.splits)

lemma run_identified_moves:
  "stage_moves (audit_step (history_library lib)) (run_identified lib supply i org r version)"
  unfolding run_identified_def Let_def by (intro moves_then moves_prod stages_move)

lemma run_pipeline_moves: "stage_moves (audit_step (history_library lib)) (run_pipeline lib supply i org)"
  unfolding run_pipeline_def
proof (rule moves_then [OF identify_stage_moves])
  fix r
  have failed: "stage_moves (audit_step (history_library lib)) (stage_then (updates (finalize_failure (rs_ended supply) i org
      (Some ST_IDENTIFYING))) (\<lambda>_. stage_return x))" for x :: pipeline_result
    by (intro moves_then stages_move)
  show "stage_moves (audit_step (history_library lib))
    (case (px_resolution_status r, px_selected_profile_version_id r) of
       (PR_RESOLVED, Some version) \<Rightarrow> run_identified lib supply i org r version
     | _ \<Rightarrow> stage_then (updates (finalize_failure (rs_ended supply) i org (Some ST_IDENTIFYING))) (\<lambda>_.
         stage_return \<lparr>pp_resolution = r, pp_interpretation = None, pp_states = None, pp_findings = None,
           pp_stages = [ST_IDENTIFYING]\<rparr>))"
    by (simp add: failed run_identified_moves split: profile_status.split option.split)
qed

end
