(* ===== verification/Profile_Props.thy ===== *)
theory Profile_Props
  imports Profile_Resolution
begin

text \<open>
  What profile resolution guarantees: the inspection of a snapshot is bounded, every signal cites an
  inspected document, and a profile is only selected if it accepts the version that was found.
\<close>

section \<open>The bounds of the inspection\<close>

lemma inspect_artifacts_bounds:
  assumes "inspect_artifacts decode read s d xs (ds, is, n) = Inr (ds', is', n')"
    and "\<And>r k bs. 0 \<le> k \<Longrightarrow> read r k = Inr bs \<Longrightarrow> int (length bs) \<le> k"
    and "n \<le> MAX_SNAPSHOT_INSPECTION_BYTES" and "n = sum_list (map ed_inspected_bytes ds)"
    and "\<forall>e \<in> set ds. ed_inspected_bytes e \<le> MAX_ARTIFACT_INSPECTION_BYTES"
  shows "n' \<le> MAX_SNAPSHOT_INSPECTION_BYTES \<and> n' = sum_list (map ed_inspected_bytes ds')
    \<and> (\<forall>e \<in> set ds'. ed_inspected_bytes e \<le> MAX_ARTIFACT_INSPECTION_BYTES)
    \<and> length ds' \<le> length ds + length xs"
  using assms(1,3-5)
proof (induction xs arbitrary: ds "is" n)
  case (Cons x xs)
  show ?case
  proof (cases "MAX_SNAPSHOT_INSPECTION_BYTES \<le> n")
    case True
    with Cons.prems show ?thesis by auto
  next
    case room: False
    let ?limit = "min MAX_ARTIFACT_INSPECTION_BYTES (MAX_SNAPSHOT_INSPECTION_BYTES - n)"
    show ?thesis
    proof (cases "read (af_storage_reference x) (int ?limit)")
      case (Inl e)
      with room Cons.prems have "inspect_artifacts decode read s d xs
          (ds, is @ [(af_artifact_id x, ''artifact_unavailable'')], n) = Inr (ds', is', n')"
        by (auto split: if_splits)
      from Cons.IH [OF this Cons.prems(2-4)] show ?thesis by simp
    next
      case (Inr content)
      let ?e = "\<lparr>ed_artifact_id = af_artifact_id x, ed_organization_id = af_organization_id x,
           ed_snapshot_id = s, ed_device_id = d, ed_evidence_type = af_evidence_type x,
           ed_original_filename = af_original_filename x, ed_sha256 = af_sha256 x,
           ed_source_metadata = af_source_metadata x, ed_text = decode (encoding_of x) content,
           ed_inspected_bytes = length content, ed_truncated = (length content < af_byte_size x)\<rparr>"
      from assms(2) [OF _ Inr] have len: "length content \<le> ?limit" by linarith
      from room Inr Cons.prems(1) have rest:
        "inspect_artifacts decode read s d xs (ds @ [?e], is, n + length content) = Inr (ds', is', n')"
        by (simp add: Let_def)
      have "n + length content \<le> MAX_SNAPSHOT_INSPECTION_BYTES" using len room by linarith
      from Cons.IH [OF rest this] Cons.prems(3,4) len show ?thesis by simp
    qed
  qed
qed simp

text \<open>
  C20. Identification reads a bounded part of a snapshot: at most 100 documents, at most 256 KiB of each
  and 1 MiB in all, provided that the storage returns no more than it is asked for.
\<close>

theorem inspection_is_bounded:
  assumes "aggregate_snapshot_evidence decode read s org d artifacts = Inr e"
    and "\<And>r n bs. 0 \<le> n \<Longrightarrow> read r n = Inr bs \<Longrightarrow> int (length bs) \<le> n"
  shows "length (se_documents e) \<le> 100 \<and> se_inspected_bytes e \<le> 1024 * 1024
    \<and> se_inspected_bytes e = sum_list (map ed_inspected_bytes (se_documents e))
    \<and> list_all (\<lambda>x. ed_inspected_bytes x \<le> 256 * 1024) (se_documents e)"
proof -
  let ?xs = "take MAX_SNAPSHOT_ARTIFACTS (sort_key (\<lambda>x. (evidence_priority (af_evidence_type x), af_artifact_id x)) artifacts)"
  from assms(1) obtain over where
    "inspect_artifacts decode read s d ?xs ([], over, 0) = Inr (se_documents e, se_issues e, se_inspected_bytes e)"
    unfolding aggregate_snapshot_evidence_def Let_def by auto
  then have
    "se_inspected_bytes e \<le> MAX_SNAPSHOT_INSPECTION_BYTES
      \<and> se_inspected_bytes e = sum_list (map ed_inspected_bytes (se_documents e))
      \<and> (\<forall>x \<in> set (se_documents e). ed_inspected_bytes x \<le> MAX_ARTIFACT_INSPECTION_BYTES)
      \<and> length (se_documents e) \<le> length ([] :: evidence_document list) + length ?xs"
    by (rule inspect_artifacts_bounds) (erule (1) assms(2) | simp)+
  then show ?thesis
    by (simp add: MAX_SNAPSHOT_INSPECTION_BYTES_def MAX_ARTIFACT_INSPECTION_BYTES_def MAX_SNAPSHOT_ARTIFACTS_def list_all_iff)
qed

section \<open>Signals cite documents\<close>

definition cites :: "evidence_document list \<Rightarrow> evidence_signal \<Rightarrow> bool" where
  "cites ds s = list_ex (\<lambda>d. sg_artifact_id s = ed_artifact_id d \<and> sg_evidence_type s = ed_evidence_type d
     \<and> sg_source_label s = Some (ed_original_filename d)) ds"

definition grounded :: "evidence_document list \<Rightarrow> profile_facts \<Rightarrow> bool" where
  "grounded ds f = (length (pf_signals f) \<le> MAX_SUPPORTING_SIGNALS \<and> distinct (map signal_key (pf_signals f))
     \<and> list_all (cites ds) (pf_signals f))"

lemma cites_signal_of [simp]: "d \<in> set ds \<Longrightarrow> cites ds (signal_of d line category i strength names)"
  by (auto simp: cites_def signal_of_def list_ex_iff)

lemma cites_xml_signal [simp]: "d \<in> set ds \<Longrightarrow> cites ds (xml_signal d field node m)"
  by (auto simp: cites_def xml_signal_def list_ex_iff)

lemma cites_runtime_signal [simp]: "d \<in> set ds \<Longrightarrow> cites ds (runtime_signal m d)"
  by (simp add: runtime_signal_def)

lemma grounded_other [simp]:
  "grounded ds (f\<lparr>pf_identities := xs\<rparr>) = grounded ds f" "grounded ds (f\<lparr>pf_models := ys\<rparr>) = grounded ds f"
  "grounded ds (f\<lparr>pf_serials := ys\<rparr>) = grounded ds f" "grounded ds (f\<lparr>pf_hostnames := ys\<rparr>) = grounded ds f"
  "grounded ds (f\<lparr>pf_builds := zs\<rparr>) = grounded ds f" "grounded ds (f\<lparr>pf_syntax := ss\<rparr>) = grounded ds f"
  by (simp_all add: grounded_def)

lemma grounded_add_signal [simp]: "cites ds s \<Longrightarrow> grounded ds f \<Longrightarrow> grounded ds (add_signal s f)"
  by (auto simp: grounded_def add_signal_def append_signal_def)

lemma grounded_add [simp]:
  assumes "cites ds s" and "grounded ds f"
  shows "grounded ds (add_identity v os version s f)" "grounded ds (add_model m s f)" "grounded ds (add_serial m s f)"
    "grounded ds (add_hostname m s f)"
  using assms by (simp_all add: add_identity_def add_model_def add_serial_def add_hostname_def)

named_theorems line_steps
lemmas [line_steps] = cisco_os_step_def other_os_step_def fortios_status_step_def arista_step_def arista_product_step_def
  arista_serial_step_def arista_version_step_def fortios_label_step_def cisco_model_step_def chassis_pid_step_def
  cisco_serial_step_def syntax_step_def

lemma grounded_steps:
  assumes "d \<in> set ds" and "grounded ds (fst st)"
  shows "grounded ds (fst (cisco_os_step d n line st))" "grounded ds (fst (other_os_step p d n line st))"
    "grounded ds (fst (fortios_status_step n line st))" "grounded ds (fst (arista_product_step d n line st))"
    "grounded ds (fst (arista_serial_step d n line st))" "grounded ds (fst (arista_version_step n line st))"
    "grounded ds (fst (fortios_label_step r kind n line st))" "grounded ds (fst (cisco_model_step d n line st))"
    "grounded ds (fst (chassis_pid_step d n line st))" "grounded ds (fst (cisco_serial_step i found d n st))"
    "grounded ds (fst (syntax_step line st))"
  using assms by (cases st; auto simp: line_steps Let_def split: option.splits prod.splits)+

lemma grounded_line_step:
  assumes "d \<in> set ds" and "grounded ds (fst st)"
  shows "grounded ds (fst (line_step d st numbered))"
proof -
  note step = grounded_steps [OF assms(1)]
  have chassis: "grounded ds (fst (chassis_step d n line st))" if "grounded ds (fst st)" for n line st
    using step(10) [OF step(9) [OF that]] that by (simp add: chassis_step_def Let_def case_prod_unfold)
  have hardware: "grounded ds (fst (hardware_step d n line st))" if "grounded ds (fst st)" for n line st
    using that by (simp add: hardware_step_def step chassis)
  have arista: "grounded ds (fst (arista_step d n line st))" if "grounded ds (fst st)" for n line st
    using that by (simp add: arista_step_def step)
  show ?thesis
    using assms(2) by (cases numbered) (simp add: line_step_def step hardware arista)
qed

lemma foldl_keeps: "(\<And>a x. P a \<Longrightarrow> x \<in> set xs \<Longrightarrow> P (f a x)) \<Longrightarrow> P a \<Longrightarrow> P (foldl f a xs)"
  by (induction xs arbitrary: a) auto

lemma grounded_document:
  assumes "d \<in> set ds" and "grounded ds f"
  shows "grounded ds (examine_document f d)"
proof -
  have lines: "grounded ds (fst (foldl (line_step d) st xs))" if "grounded ds (fst st)" for st xs
    using foldl_keeps [where P = "\<lambda>st. grounded ds (fst st)"] grounded_line_step [OF assms(1)] that by blast
  have arista: "grounded ds (foldl (arista_version d) g vs)" if "grounded ds g" for g vs
    by (rule foldl_keeps [where P = "grounded ds"]) (use assms(1) that in \<open>simp_all add: arista_version_def\<close>)
  have fortios: "grounded ds (foldl (fortios_found d) g vs)" if "grounded ds g" for g vs
    by (rule foldl_keeps [where P = "grounded ds"]) (use assms(1) that in \<open>auto simp: fortios_found_def Let_def split: prod.splits\<close>)
  have finish: "grounded ds (document_end d st)" if "grounded ds (fst st)" for st
    using that assms(1) by (cases st) (simp add: document_end_def arista fortios Let_def)
  show ?thesis
    using assms by (simp add: examine_document_def finish lines Let_def)
qed

lemma grounded_xml_field:
  assumes "\<And>v s g. cites ds s \<Longrightarrow> grounded ds g \<Longrightarrow> grounded ds (add v s g)" and "d \<in> set ds" and "grounded ds f"
  shows "grounded ds (xml_field add field d m values f)"
  using assms by (auto simp: xml_field_def split: option.splits)

lemma grounded_xml_manifest: "d \<in> set ds \<Longrightarrow> grounded ds f \<Longrightarrow> grounded ds (xml_manifest_step d nodes f m)"
  by (auto simp: xml_manifest_step_def Let_def intro!: grounded_xml_field)

lemma grounded_xml_document:
  assumes "d \<in> set ds" and "grounded ds f" and "xml_document_step lib ms d f = Inr g"
  shows "grounded ds g"
  using assms grounded_xml_manifest [OF assms(1)] foldl_keeps [where P = "grounded ds" and f = "xml_manifest_step d nodes" for nodes]
  by (auto simp: xml_document_step_def split: if_splits sum.splits parsed_ir.splits)

lemma fold_res_preserves:
  "fold_res f xs a = Inr b \<Longrightarrow> (\<And>x a b. x \<in> set xs \<Longrightarrow> P a \<Longrightarrow> f x a = Inr b \<Longrightarrow> P b) \<Longrightarrow> P a \<Longrightarrow> P b"
  by (induction xs arbitrary: a) auto

lemma grounded_facts:
  assumes "extract_manifest_xml_identity lib ds runtime (foldl examine_document no_facts ds) = Inr f"
  shows "grounded ds f"
proof -
  have "grounded ds no_facts" by (simp add: grounded_def no_facts_def)
  then have start: "grounded ds (foldl examine_document no_facts ds)"
    by (rule foldl_keeps [where P = "grounded ds", rotated]) (rule grounded_document)
  show ?thesis
    using assms start unfolding extract_manifest_xml_identity_def Let_def
    by (auto split: if_splits elim!: fold_res_preserves intro: grounded_xml_document)
qed

section \<open>The selected profile accepts the version\<close>

text \<open>The constraint accepts the version; without one, a generic profile and no signal at all.\<close>

definition version_admitted :: "profile_manifest \<Rightarrow> pyval \<Rightarrow> evidence_signal list \<Rightarrow> bool" where
  "version_admitted m version signals =
     (case version of
        PStr v \<Rightarrow> accepts (pm_version_constraint m) v = Inr True
      | v \<Rightarrow> v = PNone \<and> m \<in> {GENERIC_CLI, GENERIC_XML, GENERIC_JSON} \<and> signals = [])"

text \<open>The result names a profile exactly if it is resolved, and the profile is one that is allowed.\<close>

definition justified :: "profile_manifest list \<Rightarrow> profile_resolution_result \<Rightarrow> bool" where
  "justified runtime r =
     (if px_resolution_status r = PR_RESOLVED
      then list_ex (\<lambda>m. px_selected_profile_id r = Some (pm_profile_id m)
             \<and> px_selected_profile_version_id r = Some (pm_profile_version_id m)
             \<and> px_vendor r = PStr (pm_vendor m) \<and> px_os r = PStr (pm_os m)
             \<and> version_admitted m (px_os_version r) (px_supporting_signals r))
           (map snd PROFILE_REGISTRY @ runtime @ [GENERIC_CLI, GENERIC_XML, GENERIC_JSON])
      else px_selected_profile_id r = None \<and> px_selected_profile_version_id r = None)"

lemma justifiedI:
  assumes "m \<in> set (map snd PROFILE_REGISTRY) \<or> m \<in> set runtime \<or> m \<in> {GENERIC_CLI, GENERIC_XML, GENERIC_JSON}"
    and "px_resolution_status r = PR_RESOLVED" and "px_selected_profile_id r = Some (pm_profile_id m)"
    and "px_selected_profile_version_id r = Some (pm_profile_version_id m)"
    and "px_vendor r = PStr (pm_vendor m)" and "px_os r = PStr (pm_os m)"
    and "version_admitted m (px_os_version r) (px_supporting_signals r)"
  shows "justified runtime r"
  unfolding justified_def list_ex_iff using assms by (simp del: set_map) blast

lemma justified_plain: "status \<noteq> PR_RESOLVED \<Longrightarrow> justified runtime (plain_result signals confidence status reasons)"
  by (simp add: justified_def plain_result_def)

lemma justified_described:
  "status \<noteq> PR_RESOLVED \<Longrightarrow> justified runtime (described f vendor os product version cls confidence status reasons)"
  by (simp add: justified_def described_def plain_result_def)

lemma compatible_accepts: "applicability m (Some v) = Inr ''compatible'' \<Longrightarrow> accepts (pm_version_constraint m) v = Inr True"
  by (auto simp: applicability_def split: if_splits)

lemma map_res_concatD:
  "map_res f xs = Inr yss \<Longrightarrow> y \<in> set (concat yss) \<Longrightarrow> \<exists>x \<in> set xs. \<exists>ys. f x = Inr ys \<and> y \<in> set ys"
  by (induction xs arbitrary: yss) fastforce+

lemma compatible_manifestsD:
  assumes "compatible_manifests vendor os (Some v) = Inr ms" and "m \<in> set ms"
  shows "m \<in> set (map snd PROFILE_REGISTRY)" and "pm_vendor m = vendor" and "pm_os m = os"
    and "accepts (pm_version_constraint m) v = Inr True"
proof -
  let ?f = "\<lambda>m. if pm_vendor m = vendor \<and> pm_os m = os
         then and_then (applicability m (Some v)) (\<lambda>a. Inr (if a = ''compatible'' then [m] else [])) else Inr []"
  from assms obtain mss where mss: "map_res ?f (map snd PROFILE_REGISTRY) = Inr mss" and m: "m \<in> set (concat mss)"
    unfolding compatible_manifests_def by auto
  from map_res_concatD [OF mss m] have "m \<in> set (map snd PROFILE_REGISTRY) \<and> pm_vendor m = vendor \<and> pm_os m = os
      \<and> applicability m (Some v) = Inr ''compatible''"
    by (auto simp del: set_map split: if_splits)
  with compatible_accepts [of m v]
  show "m \<in> set (map snd PROFILE_REGISTRY)" and "pm_vendor m = vendor" and "pm_os m = os"
    and "accepts (pm_version_constraint m) v = Inr True" by simp_all
qed

lemma justified_platform:
  assumes "resolve_platform f vendor os version confidence = Inr r"
  shows "justified runtime r"
proof (cases version)
  case None
  with assms show ?thesis by (auto simp: resolve_platform_def Let_def justified_described)
next
  case (Some v)
  with assms obtain ms where ms: "compatible_manifests vendor os (Some v) = Inr ms"
    and r: "r = (case ms of [] \<Rightarrow> unsupported_result f vendor os (family_of f (vendor, os)) v confidence
            | [m] \<Rightarrow> with_profile m (described f vendor os (fm_product (family_of f (vendor, os))) (Some v)
                (fm_selected_class (family_of f (vendor, os))) confidence PR_RESOLVED [])
            | _ \<Rightarrow> described f vendor os (fm_product (family_of f (vendor, os))) (Some v)
                (fm_class (family_of f (vendor, os))) RC_UNRESOLVED PR_AMBIGUOUS
                [''Multiple compatible profile manifests were detected''])"
    by (auto simp: resolve_platform_def Let_def)
  consider "ms = []" | m where "ms = [m]" | m n ns where "ms = m # n # ns" by (metis list.exhaust)
  then show ?thesis
  proof cases
    case 1
    then show ?thesis
      by (simp add: r unsupported_result_def justified_described justified_def plain_result_def described_def)
  next
    case (2 m)
    then have "m \<in> set ms" by simp
    note m = compatible_manifestsD [OF ms this]
    show ?thesis
      by (rule justifiedI [of m]) (use m 2 in \<open>simp_all add: r with_profile_def described_def plain_result_def version_admitted_def\<close>)
  next
    case 3
    then show ?thesis by (simp add: r justified_described)
  qed
qed

lemma runtime_matchesD:
  assumes "runtime_matches documents runtime = Inr hits" and "(m, v, d) \<in> set hits"
  shows "m \<in> set runtime" and "d \<in> set documents" and "accepts (pm_version_constraint m) v = Inr True"
proof -
  let ?f = "\<lambda>n. and_then (map_res (runtime_match n) documents) (\<lambda>xs. Inr (concat xs))"
  from assms obtain mss where "map_res ?f runtime = Inr mss" and "(m, v, d) \<in> set (concat mss)"
    unfolding runtime_matches_def by auto
  from map_res_concatD [OF this] obtain n dss where "n \<in> set runtime" and dss: "map_res (runtime_match n) documents = Inr dss"
    and hit: "(m, v, d) \<in> set (concat dss)" by auto
  moreover from map_res_concatD [OF dss hit] have
    "m = n \<and> d \<in> set documents \<and> accepts (pm_version_constraint m) v = Inr True"
    by (auto simp: runtime_match_def split: if_splits option.splits)
  ultimately show "m \<in> set runtime" and "d \<in> set documents"
    and "accepts (pm_version_constraint m) v = Inr True" by auto
qed

lemma runtime_cases:
  assumes "resolve_runtime_manifest pick documents runtime signals = Inr (Some r)"
  obtains (ambiguous) "r = plain_result signals RC_UNRESOLVED PR_AMBIGUOUS
      [''Multiple compatible runtime profile manifests were detected'']"
    | (found) m v d where "r = runtime_result (pick (pm_device_classes m)) (m, v, d) signals" and "m \<in> set runtime"
      and "d \<in> set documents" and "accepts (pm_version_constraint m) v = Inr True"
proof -
  from assms obtain hits where hits: "runtime_matches documents runtime = Inr hits"
    and r: "(case hits of [] \<Rightarrow> Inr None
      | (m, version, d) # _ \<Rightarrow>
         if list_ex (\<lambda>(n, v, e). (pm_profile_version_id n, v) \<noteq> (pm_profile_version_id m, version)) hits
         then Inr (Some (plain_result signals RC_UNRESOLVED PR_AMBIGUOUS
           [''Multiple compatible runtime profile manifests were detected'']))
         else if pm_device_classes m = {} then Inl (Exc StopIteration [])
         else Inr (Some (runtime_result (pick (pm_device_classes m)) (m, version, d) signals))) = Inr (Some r)"
    unfolding resolve_runtime_manifest_def by auto
  then obtain m v d rest where cons: "hits = (m, v, d) # rest" by (cases hits) auto
  then have "(m, v, d) \<in> set hits" by simp
  note m = runtime_matchesD [OF hits this]
  from r cons consider "r = plain_result signals RC_UNRESOLVED PR_AMBIGUOUS
      [''Multiple compatible runtime profile manifests were detected'']"
    | "r = runtime_result (pick (pm_device_classes m)) (m, v, d) signals"
    by (simp split: if_splits)
  then show ?thesis using ambiguous found m by cases blast+
qed

lemma justified_runtime:
  assumes "resolve_runtime_manifest pick documents runtime signals = Inr (Some r)"
  shows "justified runtime r"
  using assms
proof (cases rule: runtime_cases)
  case ambiguous
  then show ?thesis by (simp add: justified_plain)
next
  case (found m v d)
  show ?thesis
    by (rule justifiedI [of m]) (use found in \<open>simp_all add: runtime_result_def with_profile_def plain_result_def version_admitted_def\<close>)
qed

lemma generic_profile_forD: "generic_profile_for ds = Some (m, reason) \<Longrightarrow> m \<in> {GENERIC_CLI, GENERIC_XML, GENERIC_JSON}"
  by (auto simp: generic_profile_for_def split: if_splits)

lemma justified_generic:
  "m \<in> {GENERIC_CLI, GENERIC_XML, GENERIC_JSON} \<Longrightarrow> justified runtime (generic_result m reason [] ds)"
  by (rule justifiedI [of m]) (simp_all add: generic_result_def with_profile_def plain_result_def version_admitted_def Let_def)

lemma justified_vendor: "justified runtime (r\<lparr>px_vendor := v, px_product_family := p, px_model := m, px_serial_number := s,
    px_device_class := c\<rparr>) = justified runtime r" if "px_resolution_status r \<noteq> PR_RESOLVED"
  using that by (simp add: justified_def)

lemma justified_only_vendor: "px_resolution_status r \<noteq> PR_RESOLVED \<Longrightarrow> justified runtime (r\<lparr>px_vendor := v\<rparr>) = justified runtime r"
  by (simp add: justified_def)

lemma plain_status [simp]: "px_resolution_status (plain_result signals confidence status reasons) = status"
  by (simp add: plain_result_def)

lemma justified_unidentified: "justified runtime (resolve_unidentified documents unavailable f)"
proof (cases "first_value (pf_models f) \<noteq> None \<or> pf_syntax f \<noteq> [] \<or> pf_signals f \<noteq> []")
  case True
  obtain product cls where "classify_hardware (first_value (pf_models f)) = (product, cls)" by fastforce
  with True show ?thesis unfolding resolve_unidentified_def Let_def
    by (cases "first_value (pf_models f) = None"; cases "pf_syntax f = []")
      (simp_all add: justified_vendor justified_only_vendor justified_plain)
next
  case False
  show ?thesis
  proof (cases "generic_profile_for (configuration_documents documents)")
    case None
    with False show ?thesis
      by (cases "classify_hardware (first_value (pf_models f))") (simp add: resolve_unidentified_def Let_def justified_plain)
  next
    case (Some choice)
    obtain m reason where "choice = (m, reason)" by (cases choice)
    with Some False generic_profile_forD [of _ m reason] show ?thesis
      by (cases "classify_hardware (first_value (pf_models f))")
        (simp add: resolve_unidentified_def Let_def justified_generic)
  qed
qed

lemma justified_metadata: "justified runtime (r\<lparr>px_metadata := x\<rparr>) = justified runtime r"
  by (simp add: justified_def)

lemma identified_cases:
  assumes "resolve_identified pick documents runtime f vendor os = Inr r"
  obtains (conflict) ids where "r = version_conflict_result f vendor os ids"
    | (manifest) "resolve_runtime_manifest pick documents runtime (pf_signals f) = Inr (Some r)"
    | (platform) version confidence where "resolve_platform f vendor os version confidence = Inr r"
proof -
  let ?ids = "filter (\<lambda>i. platform_of i = (vendor, os)) (pf_identities f)"
  let ?platform = "resolve_platform f vendor os (case versions_of ?ids of [] \<Rightarrow> None | v # _ \<Rightarrow> Some v) (explicit_confidence ?ids)"
  show ?thesis
  proof (cases "1 < length (versions_of ?ids)")
    case True
    with assms show ?thesis by (intro conflict [of ?ids]) (simp add: resolve_identified_def Let_def)
  next
    case False
    with assms obtain found where found: "resolve_runtime_manifest pick documents runtime (pf_signals f) = Inr found"
      and rest: "(case found of Some x \<Rightarrow> if px_vendor x = PStr vendor \<and> px_os x = PStr os then Inr x else ?platform
        | None \<Rightarrow> ?platform) = Inr r"
      by (auto simp: resolve_identified_def Let_def)
    then have "found = Some r \<or> ?platform = Inr r" by (auto split: option.splits if_splits)
    with found manifest platform show ?thesis by blast
  qed
qed

lemma candidates_cases:
  assumes "resolve_candidates pick documents runtime unavailable f = Inr r"
  obtains (none) "r = resolve_unidentified documents unavailable f"
    | (manifest) "resolve_runtime_manifest pick documents runtime (pf_signals f) = Inr (Some r)"
    | (one) vendor os where "resolve_identified pick documents runtime f vendor os = Inr r"
    | (several) "r = platform_conflict f"
proof -
  consider "remdups (map platform_of (pf_identities f)) = []"
    | vendor os where "remdups (map platform_of (pf_identities f)) = [(vendor, os)]"
    | p q ps where "remdups (map platform_of (pf_identities f)) = p # q # ps" by (metis list.exhaust surj_pair)
  then show ?thesis
  proof cases
    case 1
    with assms obtain found where "resolve_runtime_manifest pick documents runtime (pf_signals f) = Inr found"
      and "r = (case found of Some x \<Rightarrow> x | None \<Rightarrow> resolve_unidentified documents unavailable f)"
      unfolding resolve_candidates_def by auto
    then show ?thesis by (cases found) (auto intro: none manifest)
  next
    case 2
    with assms show ?thesis by (intro one) (simp add: resolve_candidates_def)
  next
    case (3 p q ps)
    with assms show ?thesis by (intro several) (cases p, simp add: resolve_candidates_def)
  qed
qed

lemma justified_candidates:
  assumes "resolve_candidates pick documents runtime unavailable f = Inr r"
  shows "justified runtime r"
proof -
  have conflict: "justified runtime (platform_conflict f)"
    by (simp add: justified_def platform_conflict_def plain_result_def)
  have versions: "justified runtime (version_conflict_result f vendor os ids)" for vendor os ids
    by (simp add: justified_def version_conflict_result_def plain_result_def)
  have identified: "resolve_identified pick documents runtime f vendor os = Inr r \<Longrightarrow> justified runtime r" for vendor os
    by (cases rule: identified_cases) (auto intro: versions justified_platform justified_runtime)
  from assms show ?thesis
    by (cases rule: candidates_cases) (auto simp: conflict intro: justified_unidentified justified_runtime identified)
qed


section \<open>The signals of a result\<close>

definition result_grounded :: "evidence_document list \<Rightarrow> profile_resolution_result \<Rightarrow> bool" where
  "result_grounded ds r = (length (px_supporting_signals r) \<le> Suc MAX_SUPPORTING_SIGNALS
     \<and> list_all (cites ds) (px_supporting_signals r))"

lemma grounded_result:
  "grounded ds f \<Longrightarrow> px_supporting_signals r = pf_signals f \<Longrightarrow> result_grounded ds r"
  by (simp add: result_grounded_def grounded_def)

lemma result_signals [simp]:
  "px_supporting_signals (plain_result ss confidence status reasons) = ss"
  "px_supporting_signals (described f vendor os product version cls confidence status reasons) = pf_signals f"
  "px_supporting_signals (with_profile m r) = px_supporting_signals r"
  "px_supporting_signals (unsupported_result f vendor os fam v confidence) = pf_signals f"
  "px_supporting_signals (generic_result m reason ss ds) = ss"
  "px_supporting_signals (platform_conflict f) = pf_signals f"
  "px_supporting_signals (version_conflict_result f vendor os ids) = pf_signals f"
  by (simp_all add: plain_result_def described_def with_profile_def unsupported_result_def generic_result_def Let_def
      platform_conflict_def version_conflict_result_def)

lemma platform_signals:
  assumes "resolve_platform f vendor os version confidence = Inr r"
  shows "px_supporting_signals r = pf_signals f"
proof (cases version)
  case None
  with assms show ?thesis by (auto simp: resolve_platform_def Let_def)
next
  case (Some v)
  with assms obtain ms where r: "r = (case ms of [] \<Rightarrow> unsupported_result f vendor os (family_of f (vendor, os)) v confidence
            | [m] \<Rightarrow> with_profile m (described f vendor os (fm_product (family_of f (vendor, os))) (Some v)
                (fm_selected_class (family_of f (vendor, os))) confidence PR_RESOLVED [])
            | _ \<Rightarrow> described f vendor os (fm_product (family_of f (vendor, os))) (Some v)
                (fm_class (family_of f (vendor, os))) RC_UNRESOLVED PR_AMBIGUOUS
                [''Multiple compatible profile manifests were detected''])"
    by (auto simp: resolve_platform_def Let_def)
  show ?thesis by (simp add: r split: list.split)
qed

lemma unidentified_signals: "px_supporting_signals (resolve_unidentified documents unavailable f) = pf_signals f"
  unfolding resolve_unidentified_def Let_def by (simp split: option.split prod.split)

lemma grounded_runtime:
  assumes "grounded ds f" and "resolve_runtime_manifest pick ds runtime (pf_signals f) = Inr (Some r)"
  shows "result_grounded ds r"
  using assms(2)
proof (cases rule: runtime_cases)
  case ambiguous
  with assms(1) show ?thesis by (simp add: grounded_result plain_result_def)
next
  case (found m v d)
  with assms(1) show ?thesis
    by (simp add: result_grounded_def grounded_def runtime_result_def with_profile_def plain_result_def)
qed

lemma grounded_candidates:
  assumes "grounded ds f" and "resolve_candidates pick ds runtime unavailable f = Inr r"
  shows "result_grounded ds r"
proof -
  note kept = grounded_result [OF assms(1)]
  have identified: "resolve_identified pick ds runtime f vendor os = Inr r \<Longrightarrow> result_grounded ds r" for vendor os
    by (cases rule: identified_cases) (auto intro: kept platform_signals grounded_runtime [OF assms(1)])
  from assms(2) show ?thesis
  proof (cases rule: candidates_cases)
    case none
    then show ?thesis by (simp add: kept unidentified_signals)
  next
    case manifest
    then show ?thesis by (rule grounded_runtime [OF assms(1)])
  next
    case one
    then show ?thesis by (rule identified)
  next
    case several
    then show ?thesis by (simp add: kept)
  qed
qed

text \<open>
  C19. A resolution is explained by at most 201 signals, and each of them cites a document that was
  inspected, with its type and its file name.
\<close>

theorem signals_cite_evidence:
  assumes "resolve_profile lib pick evidence runtime = Inr r"
  shows "length (px_supporting_signals r) \<le> 201
    \<and> list_all (\<lambda>s. list_ex (\<lambda>d. sg_artifact_id s = ed_artifact_id d \<and> sg_evidence_type s = ed_evidence_type d
         \<and> sg_source_label s = Some (ed_original_filename d)) (se_documents evidence)) (px_supporting_signals r)"
proof -
  from assms obtain f r0 where
    facts: "extract_manifest_xml_identity lib (se_documents evidence) runtime
      (foldl examine_document no_facts (se_documents evidence)) = Inr f" and
    r0: "resolve_candidates pick (se_documents evidence) runtime (length (se_issues evidence)) f = Inr r0" and
    r: "r = r0\<lparr>px_metadata := dict_merge (px_metadata r0) (found_metadata f)\<rparr>"
    unfolding resolve_profile_def Let_def by auto
  from grounded_candidates [OF grounded_facts [OF facts] r0]
  show ?thesis by (simp add: r result_grounded_def MAX_SUPPORTING_SIGNALS_def cites_def [abs_def])
qed

section \<open>Three inspections\<close>

theorem inspection_is_bounded_witness:
  "let read = (\<lambda>r n. Inr (take (nat n) (replicate 3 0)));
       e = aggregate_snapshot_evidence (\<lambda>c bs. map (\<lambda>b. CHR ''x'') bs) read 300 500 200
         [\<lparr>af_artifact_id = 700, af_organization_id = 500, af_snapshot_id = Some 300,
           af_original_filename = ''edge.cfg'', af_storage_reference = ''ref'', af_byte_size = 3,
           af_sha256 = [], af_mime_type = None, af_encoding = None, af_content_family = CF_TEXT,
           af_evidence_type = AE_CONFIGURATION, af_status = AS_READY, af_validation_issues = [],
           af_source_metadata = [], af_uploaded_by = None, af_created_at = 0, af_validated_at = None,
           af_schema_version = ''1.0.0''\<rparr>]
   in case e of Inl x \<Rightarrow> False
      | Inr s \<Rightarrow> length (se_documents s) = 1 \<and> length (se_documents s) \<le> 100 \<and> se_inspected_bytes s \<le> 1024 * 1024"
proof -
  let ?read = "\<lambda>r n. Inr (take (nat n) (replicate 3 0)) :: exc + byte list"
  let ?decode = "\<lambda>c bs. map (\<lambda>b. CHR ''x'') bs"
  let ?artifact = "\<lparr>af_artifact_id = 700, af_organization_id = 500, af_snapshot_id = Some 300,
           af_original_filename = ''edge.cfg'', af_storage_reference = ''ref'', af_byte_size = 3,
           af_sha256 = [], af_mime_type = None, af_encoding = None, af_content_family = CF_TEXT,
           af_evidence_type = AE_CONFIGURATION, af_status = AS_READY, af_validation_issues = [],
           af_source_metadata = [], af_uploaded_by = None, af_created_at = 0, af_validated_at = None,
           af_schema_version = ''1.0.0''\<rparr>"
  obtain s where s: "aggregate_snapshot_evidence ?decode ?read 300 500 200 [?artifact] = Inr s"
    and one: "length (se_documents s) = 1"
    by (simp add: aggregate_snapshot_evidence_def MAX_SNAPSHOT_ARTIFACTS_def MAX_SNAPSHOT_INSPECTION_BYTES_def Let_def)
  have "length (se_documents s) \<le> 100 \<and> se_inspected_bytes s \<le> 1024 * 1024"
    using inspection_is_bounded [OF s] by fastforce
  with one show ?thesis unfolding Let_def s by simp
qed

text \<open>A configuration that is a comment, under a name that does or does not mention a vendor.\<close>

definition comment_document :: "string \<Rightarrow> evidence_document" where
  "comment_document filename = \<lparr>ed_artifact_id = 700, ed_organization_id = 500, ed_snapshot_id = 300, ed_device_id = 200,
     ed_evidence_type = AE_CONFIGURATION, ed_original_filename = filename, ed_sha256 = [],
     ed_source_metadata = [], ed_text = ''!'', ed_inspected_bytes = 1, ed_truncated = False\<rparr>"

definition comment_evidence :: "string \<Rightarrow> snapshot_evidence" where
  "comment_evidence filename = \<lparr>se_snapshot_id = 300, se_organization_id = 500, se_device_id = 200,
     se_documents = [comment_document filename], se_issues = [], se_inspected_bytes = 1\<rparr>"

lemma filename_hints:
  "rx_found FILENAME_HINT_PATTERN ''edge.cfg'' = False" "rx_found FILENAME_HINT_PATTERN ''cisco'' = True"
  by code_simp+

lemma comment_text:
  "rx_found KNOWN_PLATFORM_CLAIM_PATTERN ''!'' = False" "split_lines [] ''!'' = [''!'']" "py_strip ''!'' = ''!''"
  "py_lstrip ''!'' = ''!''" "data_lines_from True None [(1, ''!'')] = []"
  by code_simp+

lemma comment_lines: "data_lines (comment_document filename) = []"
  using comment_text(5)
  by (simp add: data_lines_def comment_document_def comment_text enumerate_eq_zip MAX_LINES_PER_ARTIFACT_def
      del: split_lines.simps data_lines_from.simps)

lemma no_facts_fields [simp]:
  "pf_signals no_facts = []" "pf_identities no_facts = []" "pf_models no_facts = []" "pf_serials no_facts = []"
  "pf_hostnames no_facts = []" "pf_builds no_facts = []" "pf_syntax no_facts = []"
  by (simp_all add: no_facts_def)

definition hint_signal :: evidence_signal where
  "hint_signal = signal_of (comment_document ''cisco'') None ''filename_hint'' ''cisco_filename_hint'' SG_WEAK []"

lemma comment_facts:
  "examine_document no_facts (comment_document ''edge.cfg'') = no_facts"
  "examine_document no_facts (comment_document ''cisco'') = no_facts\<lparr>pf_signals := [hint_signal]\<rparr>"
  by (simp_all add: examine_document_def comment_lines document_end_def new_document_def Let_def)
    (simp_all add: comment_document_def filename_hints add_signal_def append_signal_def
      MAX_SUPPORTING_SIGNALS_def hint_signal_def)

lemma comment_no_xml: "extract_manifest_xml_identity lib [comment_document filename] [] f = Inr f"
  by (simp add: extract_manifest_xml_identity_def xml_document_step_def comment_document_def Let_def)

lemma comment_configuration: "configuration_documents [comment_document filename] = [comment_document filename]"
  by (simp add: configuration_documents_def comment_document_def comment_text)

lemma comment_generic:
  "generic_profile_for [comment_document filename] = Some (GENERIC_CLI, ''Generic CLI selected without inferred command semantics'')"
  by (simp add: generic_profile_for_def starts_with_one_of_def generic_cli_document_def comment_document_def comment_text
      MAX_LINE_CHARACTERS_INSPECTED_def)

lemma comment_resolved:
  "\<exists>r. resolve_profile lib pick (comment_evidence ''edge.cfg'') [] = Inr r \<and> px_resolution_status r = PR_RESOLVED"
  "\<exists>r. resolve_profile lib pick (comment_evidence ''cisco'') [] = Inr r \<and> px_supporting_signals r = [hint_signal]"
  by (simp_all add: resolve_profile_def comment_evidence_def comment_facts comment_no_xml resolve_candidates_def
      resolve_runtime_manifest_def runtime_matches_def resolve_unidentified_def first_value_def classify_hardware_def
      comment_configuration comment_generic generic_result_def with_profile_def plain_result_def Let_def)


theorem signals_cite_evidence_witness:
  "\<forall>lib pick. case resolve_profile lib pick (comment_evidence ''cisco'') [] of Inl e \<Rightarrow> False
     | Inr r \<Rightarrow> px_supporting_signals r = [hint_signal] \<and> length (px_supporting_signals r) \<le> 201
         \<and> list_all (\<lambda>s. list_ex (\<lambda>d. sg_artifact_id s = ed_artifact_id d
              \<and> sg_source_label s = Some (ed_original_filename d)) [comment_document ''cisco'']) (px_supporting_signals r)"
proof (intro allI)
  fix lib pick
  obtain r where r: "resolve_profile lib pick (comment_evidence ''cisco'') [] = Inr r"
    and "px_supporting_signals r = [hint_signal]" using comment_resolved(2) by blast
  with signals_cite_evidence [OF r]
  show "case resolve_profile lib pick (comment_evidence ''cisco'') [] of Inl e \<Rightarrow> False
     | Inr r \<Rightarrow> px_supporting_signals r = [hint_signal] \<and> length (px_supporting_signals r) \<le> 201
         \<and> list_all (\<lambda>s. list_ex (\<lambda>d. sg_artifact_id s = ed_artifact_id d
              \<and> sg_source_label s = Some (ed_original_filename d)) [comment_document ''cisco'']) (px_supporting_signals r)"
    by (simp add: comment_evidence_def)
qed

end
