(* ===== verification/Pipeline_Props.thy ===== *)
theory Pipeline_Props
  imports Pipeline_Run Profile_Props
begin

text \<open>
  What a run of the pipeline establishes: every run is a history of the life cycle of audits, and a run
  that returns has ended its audit in the way that its result says.
\<close>


section \<open>The end of a run\<close>

lemma find_updated_audit:
  assumes "find_audit i org db = Some a" and "\<And>r. au_audit_id (f r) = au_audit_id r"
    and "\<And>r. au_organization_id (f r) = au_organization_id r"
  shows "find_audit i org (update_audit i f db) = Some (f a)"
proof -
  have "find P (map g rows) = map_option g (find P rows)" if "\<And>r. P (g r) = P r" for P and g :: "audit \<Rightarrow> audit" and rows
    using that by (induction rows) auto
  from this [of "\<lambda>a. au_audit_id a = i \<and> au_organization_id a = org" "\<lambda>r. if au_audit_id r = i then f r else r"]
  have "find_audit i org (update_audit i f db) = map_option (\<lambda>r. if au_audit_id r = i then f r else r) (find_audit i org db)"
    using assms(2,3) by (simp add: find_audit_def update_audit_def update_rows_def)
  with assms(1) find_audit_SomeD [OF assms(1)] show ?thesis by simp
qed

lemma finalize_audit_found:
  assumes "finalize_audit now i org fs db = Inr db'"
  obtains a where "find_audit i org db' = Some a" and "au_completed_at a = Some now"
    and "au_status a = terminal_status fs"
    and "au_verdict_counts a = count_values (map (\<lambda>f. verdict_value (fi_verdict f)) fs)"
proof -
  from assms obtain a where a: "find_audit i org db = Some a" and db': "db' = update_audit i (\<lambda>x.
      x\<lparr>au_processing_stage := Some ST_FINALIZING,
        au_verdict_counts := count_values (map (\<lambda>f. verdict_value (fi_verdict f)) fs),
        au_severity_counts := count_values (map (\<lambda>f. severity_value (fi_severity f)) fs),
        au_status := terminal_status fs, au_completed_at := Some now\<rparr>) db"
    by (auto simp: finalize_audit_def split: option.splits)
  have "find_audit i org db' = Some (a\<lparr>au_processing_stage := Some ST_FINALIZING,
        au_verdict_counts := count_values (map (\<lambda>f. verdict_value (fi_verdict f)) fs),
        au_severity_counts := count_values (map (\<lambda>f. severity_value (fi_severity f)) fs),
        au_status := terminal_status fs, au_completed_at := Some now\<rparr>)"
    unfolding db' by (rule find_updated_audit [OF a]) simp_all
  then show ?thesis by (rule that) simp_all
qed

text \<open>The audit is being processed and has no completion time.\<close>

definition running_audit :: "uuid \<Rightarrow> uuid \<Rightarrow> audit_store \<Rightarrow> bool" where
  "running_audit i org db = (case find_audit i org db of None \<Rightarrow> False
     | Some a \<Rightarrow> au_status a = AU_PROCESSING \<and> au_completed_at a = None)"

lemma begin_running: "begin_processing now i org db = Inr db' \<Longrightarrow> running_audit i org db'"
  by (auto simp: begin_processing_def running_audit_def find_updated_audit split: option.splits)

lemma store_resolution_Inr:
  assumes "store_resolution sha now i org snapshot_id device_id expected r documents issues preview db = Inr db'"
  obtains devices decisions where "db' = update_audit i (\<lambda>x. x\<lparr>au_profile_resolution :=
      dict_put ''structural_preview'' (PList preview) (to_persisted r)\<rparr>) (db\<lparr>db_devices := devices, db_decisions := decisions\<rparr>)"
  using assms unfolding store_resolution_def by (auto simp: Let_def split: option.splits)

lemma resolve_running:
  assumes "resolve_audit_profile sv now i org db = Inr (r, db')" and "running_audit i org db"
  shows "running_audit i org db'"
proof -
  from assms(1) obtain s d expected documents issues preview where
    "store_resolution (pl_sha256 (ps_parsers sv)) now i org s d expected r documents issues preview db = Inr db'"
    unfolding resolve_audit_profile_def Let_def by (auto split: prod.splits)
  then obtain devices decisions where "db' = update_audit i (\<lambda>x. x\<lparr>au_profile_resolution :=
      dict_put ''structural_preview'' (PList preview) (to_persisted r)\<rparr>) (db\<lparr>db_devices := devices, db_decisions := decisions\<rparr>)"
    by (rule store_resolution_Inr)
  moreover have "find_audit i org (db\<lparr>db_devices := devices, db_decisions := decisions\<rparr>) = find_audit i org db"
    by (simp add: find_audit_def)
  ultimately show ?thesis
    using assms(2) by (auto simp: running_audit_def find_updated_audit split: option.splits)
qed

lemma stage_then_Inr:
  "stage_then m k st = (Inr b, st') \<longleftrightarrow> (\<exists>a u. m st = (Inr a, u) \<and> k a u = (Inr b, st'))"
  by (auto simp: stage_then_def split: prod.splits sum.splits)

lemma updates_Inr: "updates f st = (Inr (), st') \<longleftrightarrow> f (fst st) = Inr (fst st') \<and> snd st' = snd st"
  by (cases st; cases st') (auto simp: updates_def commits_def split: sum.splits)

lemma commits_Inr: "commits f st = (Inr a, st') \<longleftrightarrow> f (fst st) = Inr (a, fst st') \<and> snd st' = snd st"
  by (cases st; cases st') (auto simp: commits_def split: sum.splits)

lemma reads_Inr: "reads f st = (Inr a, st') \<longleftrightarrow> f (fst st) = Inr a \<and> st' = st"
  by (auto simp: reads_def)

lemma identify_running:
  assumes "identify_stage lib supply i org st = (Inr r, st')"
  shows "running_audit i org (fst st')"
proof -
  from assms obtain u pinned where "begin_processing (rs_began supply) i org (fst st) = Inr (fst u)"
    and "(case pinned of Some r \<Rightarrow> stage_return r
      | None \<Rightarrow> commits (resolve_audit_profile (cl_profiles lib) (rs_resolved supply) i org)) u = (Inr r, st')"
    unfolding identify_stage_def by (auto simp: stage_then_Inr updates_Inr reads_Inr)
  then show ?thesis
    by (auto simp: stage_return_def commits_Inr dest!: begin_running resolve_running split: option.splits)
qed

lemma failure_found:
  assumes "finalize_failure now i org stage db = Inr db'" and "running_audit i org db"
  obtains a where "find_audit i org db' = Some a" and "au_completed_at a = Some now" and "au_status a = AU_FAILED"
proof -
  from assms obtain a where a: "find_audit i org db = Some a" and db': "db' = update_audit i (\<lambda>x. x\<lparr>
      au_processing_stage := first_of stage (first_of (au_processing_stage x) (Some ST_IDENTIFYING)),
      au_status := AU_FAILED, au_completed_at := Some now\<rparr>) db"
    by (auto simp: finalize_failure_def running_audit_def split: option.splits if_splits)
  have "find_audit i org db' = Some (a\<lparr>
      au_processing_stage := first_of stage (first_of (au_processing_stage a) (Some ST_IDENTIFYING)),
      au_status := AU_FAILED, au_completed_at := Some now\<rparr>)"
    unfolding db' by (rule find_updated_audit [OF a]) simp_all
  then show ?thesis by (rule that) simp_all
qed

lemma run_identified_Inr:
  assumes "run_identified lib supply i org r version st = (Inr p, st')"
  obtains fs db where "finalize_audit (rs_ended supply) i org fs db = Inr (fst st')" and "pp_findings p = Some fs"
    and "pp_resolution p = r"
    and "pp_stages p = [ST_IDENTIFYING, ST_PARSING, ST_INTERPRETING, ST_RESOLVING_STATE, ST_EVALUATING]"
  using assms unfolding run_identified_def Let_def
  by (auto simp: stage_then_Inr updates_Inr stage_return_def split: prod.splits)

definition run_failed :: "pipeline_result \<Rightarrow> bool" where
  "run_failed p = (px_resolution_status (pp_resolution p) \<noteq> PR_RESOLVED
     \<or> px_selected_profile_version_id (pp_resolution p) = None)"


section \<open>A run on evidence that names no platform\<close>

definition idle_library :: "pipeline_library \<Rightarrow> pipeline_library" where
  "idle_library lib = lib\<lparr>cl_services := (cl_services lib)\<lparr>
       sv_parsers := (sv_parsers (cl_services lib))\<lparr>pl_sha256 := flat_sha\<rparr>, sv_read_prefix := \<lambda>r n. Inr []\<rparr>,
     cl_decode_replace := \<lambda>e b. []\<rparr>"

definition blank_document :: evidence_document where
  "blank_document = \<lparr>ed_artifact_id = 700, ed_organization_id = 500, ed_snapshot_id = 300, ed_device_id = 200,
     ed_evidence_type = AE_CONFIGURATION, ed_original_filename = ''edge.cfg'', ed_sha256 = flat_sha [],
     ed_source_metadata = [], ed_text = [], ed_inspected_bytes = 0, ed_truncated = True\<rparr>"

definition unknown_platform :: profile_resolution_result where
  "unknown_platform = plain_result [] RC_UNRESOLVED PR_UNRESOLVED [''No authoritative platform evidence was detected'']"

lemma blank_strip: "py_strip [] = []" by code_simp

lemma blank_facts: "examine_document no_facts blank_document = no_facts"
  by (simp add: examine_document_def blank_document_def filename_hints data_lines_def document_end_def new_document_def enumerate_eq_zip Let_def)

lemma blank_resolved:
  "resolve_profile lib pick \<lparr>se_snapshot_id = 300, se_organization_id = 500, se_device_id = 200,
     se_documents = [blank_document], se_issues = [], se_inspected_bytes = 0\<rparr> [] = Inr unknown_platform"
proof -
  have "extract_manifest_xml_identity lib [blank_document] [] no_facts = Inr no_facts"
    by (simp add: extract_manifest_xml_identity_def xml_document_step_def blank_document_def Let_def)
  moreover have "resolve_candidates pick [blank_document] [] 0 no_facts = Inr unknown_platform"
    by (simp add: resolve_candidates_def no_facts_def resolve_runtime_manifest_def runtime_matches_def
        resolve_unidentified_def first_value_def classify_hardware_def configuration_documents_def blank_document_def blank_strip
        generic_profile_for_def unknown_platform_def Let_def)
  moreover have "found_metadata no_facts = []"
    by (simp add: found_metadata_def no_facts_def first_value_def)
  moreover have "unknown_platform\<lparr>px_metadata := dict_merge (px_metadata unknown_platform) []\<rparr> = unknown_platform"
    by (simp add: unknown_platform_def plain_result_def dict_merge_def)
  ultimately show ?thesis
    by (simp add: resolve_profile_def blank_facts Let_def)
qed


definition idle_store :: "run_supply \<Rightarrow> audit_store" where
  "idle_store supply = submitted_store\<lparr>db_audits := [run_audit\<lparr>au_status := AU_PROCESSING,
     au_processing_stage := Some ST_IDENTIFYING, au_started_at := Some (rs_began supply)\<rparr>]\<rparr>"

definition idle_evidence :: snapshot_evidence where
  "idle_evidence = \<lparr>se_snapshot_id = 300, se_organization_id = 500, se_device_id = 200,
     se_documents = [blank_document], se_issues = [], se_inspected_bytes = 0\<rparr>"

definition stored_artifact :: artifact where
  "stored_artifact = run_artifact\<lparr>af_snapshot_id := Some 300\<rparr>"

lemma idle_profiles:
  "ps_parsers (cl_profiles (idle_library lib)) = (sv_parsers (cl_services lib))\<lparr>pl_sha256 := flat_sha\<rparr>"
  "ps_decode (cl_profiles (idle_library lib)) = (\<lambda>e b. [])"
  "ps_read_prefix (cl_profiles (idle_library lib)) = (\<lambda>r n. Inr [])"
  by (simp_all add: cl_profiles_def idle_library_def Let_def)

lemma idle_begin: "begin_processing (rs_began supply) 100 500 submitted_store = Inr (idle_store supply)"
  by (simp add: begin_processing_def idle_store_def run_rows run_operations require_def)

lemma idle_found: "find_audit 100 500 (idle_store supply) = Some (run_audit\<lparr>au_status := AU_PROCESSING,
     au_processing_stage := Some ST_IDENTIFYING, au_started_at := Some (rs_began supply)\<rparr>)"
  by (simp add: idle_store_def find_audit_def run_rows)

lemma idle_resolution: "resolution_evidence flat_sha 100 500 (idle_store supply) = Inr (300, 200, [stored_artifact])"
  by (simp add: resolution_evidence_def idle_found audit_resources_def) 
    (simp add: idle_store_def get_device_row_def run_rows run_operations require_def stored_artifact_def)

lemma idle_aggregate:
  "aggregate_snapshot_evidence (\<lambda>e b. []) (\<lambda>r n. Inr []) 300 500 200 [stored_artifact] = Inr idle_evidence"
  by (simp add: aggregate_snapshot_evidence_def idle_evidence_def stored_artifact_def run_artifact_def blank_document_def
      MAX_SNAPSHOT_ARTIFACTS_def MAX_SNAPSHOT_INSPECTION_BYTES_def Let_def)

lemma idle_runtime: "runtime_profiles f (idle_store supply) 500 = Inr []"
  by (simp add: runtime_profiles_def idle_store_def run_rows)

lemma idle_preview: "structural_preview lib [blank_document] = Inr []"
  by (simp add: structural_preview_def preview_document_def blank_document_def)

lemma idle_stored:
  "\<exists>db. store_resolution flat_sha now 100 500 300 200 [(700, flat_sha [])] unknown_platform [700] [] [] (idle_store supply)
    = Inr db"
  unfolding store_resolution_def Let_def idle_found
  by (simp add: idle_store_def get_device_row_def run_rows run_operations require_def found_hostname_def
      unknown_platform_def plain_result_def py_get_def dict_get_def)

lemma idle_run:
  "\<exists>p st. run_pipeline (idle_library lib) supply 100 500 (submitted_store, reg) = (Inr p, st) \<and> run_failed p"
proof -
  let ?profiles = "cl_profiles (idle_library lib)"
  obtain db where stored: "store_resolution flat_sha (rs_resolved supply) 100 500 300 200 [(700, flat_sha [])]
      unknown_platform [700] [] [] (idle_store supply) = Inr db"
    using idle_stored by blast
  have resolved: "resolve_audit_profile ?profiles (rs_resolved supply) 100 500 (idle_store supply) = Inr (unknown_platform, db)"
    by (simp add: resolve_audit_profile_def idle_profiles idle_resolution idle_aggregate idle_runtime Let_def)
      (simp add: idle_evidence_def blank_resolved idle_preview stored
        stored_artifact_def run_artifact_def blank_document_def [THEN arg_cong, of ed_artifact_id, simplified])
  have initial: "pinned_resolution (run_audit\<lparr>au_status := AU_PROCESSING,
      au_processing_stage := Some ST_IDENTIFYING, au_started_at := Some (rs_began supply)\<rparr>) = Inr None"
    by (simp add: pinned_resolution_def run_rows)
  have identified: "identify_stage (idle_library lib) supply 100 500 (submitted_store, reg) = (Inr unknown_platform, (db, reg))"
    by (simp add: identify_stage_def stage_then_def updates_def commits_def reads_def idle_begin idle_found initial resolved)
  have "running_audit 100 500 db" using identify_running [OF identified] by simp
  then obtain db' where failed: "finalize_failure (rs_ended supply) 100 500 (Some ST_IDENTIFYING) db = Inr db'"
    by (auto simp: running_audit_def finalize_failure_def require_def split: option.splits)
  show ?thesis
    by (simp add: run_pipeline_def stage_then_def identified unknown_platform_def plain_result_def updates_def commits_def
        failed stage_return_def run_failed_def)
qed


end
