(* ===== verification/Interpretation_Props.thy ===== *)
theory Interpretation_Props
  imports Interpretation_Store Audit_Histories
begin

text \<open>
  What the storing of an interpretation guarantees: nothing that was interpreted or left unresolved is
  lost, nothing stored before is changed, and a retry of the transaction changes nothing.
\<close>

section \<open>The rows of the transaction\<close>

lemma store_interpretation_rows:
  assumes "store_interpretation sv fresh org plan interpreted db = Inr db'"
  obtains a blocks numbered where
    "find_audit (ic_audit_id (il_context plan)) org db = Some a" and "plan_holds sv org plan db a = Inr ()"
    and "unresolved_blocks_of sv db org plan interpreted = Inr blocks"
    and "numbered = map (\<lambda>(i, b). b\<lparr>ub_unresolved_block_id := fresh i\<rparr>) (enumerate 0 blocks)"
    and "db' = db\<lparr>db_facts := db_facts db @ map fact_row (filter (\<lambda>d. sd_fact_id d \<notin>
        set (map sf_fact_id (filter (\<lambda>f. sf_audit_id f = ic_audit_id (il_context plan)) (db_facts db))))
        (concat (map (\<lambda>(ir, r). it_facts r) interpreted))), db_blocks := db_blocks db @ numbered\<rparr>"
  using assms unfolding store_interpretation_def
  by (auto simp: Let_def split: option.splits dest!: insert_rows_Inr)

definition has_block :: "audit_store \<Rightarrow> uuid \<Rightarrow> string \<Rightarrow> bool" where
  "has_block db audit_id fingerprint =
     list_ex (\<lambda>b. ub_audit_id b = audit_id \<and> ub_fingerprint b = fingerprint) (db_blocks db)"

lemma known_has_block: "known_block db b = has_block db (ub_audit_id b) (ub_fingerprint b)"
  by (simp add: known_block_def has_block_def)

lemma has_block_append [simp]:
  "has_block (db\<lparr>db_facts := fs, db_blocks := db_blocks db @ bs\<rparr>) i p
    = (has_block db i p \<or> (\<exists>b \<in> set bs. ub_audit_id b = i \<and> ub_fingerprint b = p))"
  by (auto simp: has_block_def list_ex_iff)

lemma numbered_blocks:
  "(\<exists>b \<in> set (map (\<lambda>(i, b). b\<lparr>ub_unresolved_block_id := fresh i\<rparr>) (enumerate n blocks)).
      ub_audit_id b = i \<and> ub_fingerprint b = p) = (\<exists>b \<in> set blocks. ub_audit_id b = i \<and> ub_fingerprint b = p)"
proof (induction blocks arbitrary: n)
  case (Cons b blocks)
  then show ?case by simp
qed simp

section \<open>Blocks that are needed and known\<close>

text \<open>\<open>known\<close> stands for the blocks the audit has.\<close>

lemma unresolved_node_cases:
  assumes "unresolved_node sha db org plan sc ir result i = Inr bs"
  obtains n skip where "node_of bn_node_id (block_nodes ir) i = Some n" and "identity_only sc n = Inr skip"
    and "bs = (if skip \<or> known_block db (node_block sha org plan sc ir result n) then []
      else [node_block sha org plan sc ir result n])"
  using assms by (auto simp: unresolved_node_def Let_def split: option.splits)

lemma unresolved_node_again:
  assumes "unresolved_node sha db org plan sc ir result i = Inr bs"
    and "\<And>b. known_block db b \<Longrightarrow> known_block db' b" and "\<And>b. b \<in> set bs \<Longrightarrow> known_block db' b"
  shows "unresolved_node sha db' org plan sc ir result i = Inr []"
  using assms(1)
proof (rule unresolved_node_cases)
  fix n skip
  assume "node_of bn_node_id (block_nodes ir) i = Some n" and "identity_only sc n = Inr skip"
    and "bs = (if skip \<or> known_block db (node_block sha org plan sc ir result n) then []
      else [node_block sha org plan sc ir result n])"
  with assms(2,3) show ?thesis by (auto simp: unresolved_node_def Let_def split: if_splits)
qed

lemma map_res_empty:
  "(\<And>x. x \<in> set xs \<Longrightarrow> f x = Inr []) \<Longrightarrow> map_res f xs = Inr (map (\<lambda>x. []) xs)"
  by (induction xs) auto

lemma concat_empty [simp]: "concat (map (\<lambda>x. []) xs) = []"
  by (induction xs) auto

lemma map_res_member: "map_res f xs = Inr ys \<Longrightarrow> x \<in> set xs \<Longrightarrow> \<exists>y \<in> set ys. f x = Inr y"
  by (induction xs arbitrary: ys) auto

abbreviation tree_blocks where
  "tree_blocks sv db org plan sc \<equiv> (\<lambda>(ir, result). and_then
     (map_res (unresolved_node (pl_sha256 (sv_parsers sv)) db org plan sc ir result) (it_unresolved_node_ids result))
     (\<lambda>bs. Inr (concat bs)))"

lemma unresolved_blocks_cases:
  assumes "unresolved_blocks_of sv db org plan interpreted = Inr blocks"
  obtains sc nodes where "block_scope_of sv plan = Inr sc" and "map_res (tree_blocks sv db org plan sc) interpreted = Inr nodes"
    and "blocks = concat nodes @ filter (\<lambda>b. \<not> known_block db b)
      (map (artifact_block (pl_sha256 (sv_parsers sv)) org plan sc) (il_unsupported plan))"
  using assms by (auto simp: unresolved_blocks_of_def Let_def)

lemma tree_blocks_member:
  assumes "tree_blocks sv db org plan sc (ir, result) = Inr bs" and "i \<in> set (it_unresolved_node_ids result)"
  obtains cs where "unresolved_node (pl_sha256 (sv_parsers sv)) db org plan sc ir result i = Inr cs" and "set cs \<subseteq> set bs"
proof -
  from assms(1) obtain css where css: "map_res (unresolved_node (pl_sha256 (sv_parsers sv)) db org plan sc ir result)
      (it_unresolved_node_ids result) = Inr css" and bs: "bs = concat css" by auto
  from map_res_member [OF css assms(2)] obtain cs where "cs \<in> set css"
    and "unresolved_node (pl_sha256 (sv_parsers sv)) db org plan sc ir result i = Inr cs" by blast
  then show ?thesis by (intro that) (auto simp: bs)
qed

lemma unresolved_blocks_again:
  assumes "unresolved_blocks_of sv db org plan interpreted = Inr blocks"
    and more: "\<And>b. known_block db b \<Longrightarrow> known_block db' b" and new: "\<And>b. b \<in> set blocks \<Longrightarrow> known_block db' b"
  shows "unresolved_blocks_of sv db' org plan interpreted = Inr []"
  using assms(1)
proof (rule unresolved_blocks_cases)
  fix sc nodes
  assume sc: "block_scope_of sv plan = Inr sc" and nodes: "map_res (tree_blocks sv db org plan sc) interpreted = Inr nodes"
    and blocks: "blocks = concat nodes @ filter (\<lambda>b. \<not> known_block db b)
      (map (artifact_block (pl_sha256 (sv_parsers sv)) org plan sc) (il_unsupported plan))"
  have tree: "tree_blocks sv db' org plan sc (ir, result) = Inr []" if "(ir, result) \<in> set interpreted" for ir result
  proof -
    from map_res_member [OF nodes that] obtain bs where bs: "bs \<in> set nodes" and
      tb: "tree_blocks sv db org plan sc (ir, result) = Inr bs" by blast
    have "unresolved_node (pl_sha256 (sv_parsers sv)) db' org plan sc ir result i = Inr []"
      if i: "i \<in> set (it_unresolved_node_ids result)" for i
    proof -
      from tree_blocks_member [OF tb i] obtain cs
        where cs: "unresolved_node (pl_sha256 (sv_parsers sv)) db org plan sc ir result i = Inr cs" and "set cs \<subseteq> set bs" .
      with bs have "\<And>b. b \<in> set cs \<Longrightarrow> known_block db' b" by (intro new) (auto simp: blocks)
      with cs more show ?thesis by (rule unresolved_node_again)
    qed
    then show ?thesis by (simp add: map_res_empty)
  qed
  then have "map_res (tree_blocks sv db' org plan sc) interpreted = Inr (map (\<lambda>x. []) interpreted)"
    by (intro map_res_empty) auto
  moreover have "filter (\<lambda>b. \<not> known_block db' b) (map (artifact_block (pl_sha256 (sv_parsers sv)) org plan sc) (il_unsupported plan)) = []"
    using more new by (auto simp: blocks filter_empty_conv)
  ultimately show ?thesis by (simp add: unresolved_blocks_of_def sc Let_def)
qed

lemma plan_holds_rows:
  "plan_holds sv org plan (db\<lparr>db_facts := fs, db_blocks := bs\<rparr>) a = plan_holds sv org plan db a"
proof -
  have same: "validate_snapshot_evidence sha (db\<lparr>db_facts := fs, db_blocks := bs\<rparr>) s = validate_snapshot_evidence sha db s" for sha s
    by (simp add: validate_snapshot_evidence_def members_def)
  show ?thesis unfolding plan_holds_def same by (simp add: get_snapshot_row_def get_device_row_def)
qed

lemma find_audit_rows: "find_audit i org (db\<lparr>db_facts := fs, db_blocks := bs\<rparr>) = find_audit i org db"
  by (simp add: find_audit_def)

section \<open>A retry\<close>

text \<open>
  C31. If the facts that were interpreted are facts of the audit, running the storing transaction again on
  the database it left, with any supply of identifiers, succeeds and changes nothing.
\<close>

theorem storing_again_changes_nothing:
  assumes "store_interpretation sv fresh org plan interpreted db = Inr db'"
    and "\<And>ir result d. (ir, result) \<in> set interpreted \<Longrightarrow> d \<in> set (it_facts result)
      \<Longrightarrow> sd_audit_id d = ic_audit_id (il_context plan)"
  shows "store_interpretation sv fresh' org plan interpreted db' = Inr db'"
  using assms(1)
proof (rule store_interpretation_rows)
  fix a blocks numbered
  let ?audit = "ic_audit_id (il_context plan)"
  let ?drafts = "concat (map (\<lambda>(ir, r). it_facts r) interpreted)"
  let ?existing = "\<lambda>db. set (map sf_fact_id (filter (\<lambda>f. sf_audit_id f = ?audit) (db_facts db)))"
  assume a: "find_audit ?audit org db = Some a" and holds: "plan_holds sv org plan db a = Inr ()"
    and blocks: "unresolved_blocks_of sv db org plan interpreted = Inr blocks"
    and numbered: "numbered = map (\<lambda>(i, b). b\<lparr>ub_unresolved_block_id := fresh i\<rparr>) (enumerate 0 blocks)"
    and db': "db' = db\<lparr>db_facts := db_facts db @ map fact_row (filter (\<lambda>d. sd_fact_id d \<notin> ?existing db) ?drafts),
      db_blocks := db_blocks db @ numbered\<rparr>"
  have "sd_audit_id d = ?audit" if "d \<in> set ?drafts" for d
    using that assms(2) by auto
  then have "sd_fact_id d \<in> ?existing db'" if "d \<in> set ?drafts" for d
    using that by (cases "sd_fact_id d \<in> ?existing db") (auto simp: db' fact_row_def image_iff)
  then have "filter (\<lambda>d. sd_fact_id d \<notin> ?existing db') ?drafts = []"
    by (simp add: filter_empty_conv del: set_map set_filter)
  moreover have "unresolved_blocks_of sv db' org plan interpreted = Inr []"
    using blocks
  proof (rule unresolved_blocks_again)
    fix b
    have has: "has_block db' i p = (has_block db i p \<or> (\<exists>b \<in> set blocks. ub_audit_id b = i \<and> ub_fingerprint b = p))" for i p
      by (simp only: db' numbered has_block_append numbered_blocks)
    show "known_block db b \<Longrightarrow> known_block db' b" by (simp add: known_has_block has)
    show "known_block db' b" if "b \<in> set blocks" using that by (auto simp: known_has_block has)
  qed
  moreover have "find_audit ?audit org db' = Some a" and "plan_holds sv org plan db' a = Inr ()"
    using a holds by (simp_all add: db' find_audit_rows plan_holds_rows)
  ultimately show ?thesis
    by (simp add: store_interpretation_def Let_def del: set_map set_filter)
qed

section \<open>Nothing is lost\<close>

definition node_fingerprint :: "(string \<Rightarrow> string) \<Rightarrow> uuid \<Rightarrow> block_node \<Rightarrow> string" where
  "node_fingerprint sha audit_id n = sha (uuid_str audit_id @ '':'' @ uuid_str (bn_artifact_id n) @ '':'' @ bn_node_id n)"

definition artifact_fingerprint :: "(string \<Rightarrow> string) \<Rightarrow> uuid \<Rightarrow> artifact \<Rightarrow> string" where
  "artifact_fingerprint sha audit_id x = sha (uuid_str audit_id @ '':'' @ uuid_str (af_artifact_id x) @ '':unsupported-artifact'')"

text \<open>The node needs no block because the manifest declares its command to be identity only.\<close>

definition declared_identity :: "audit_services \<Rightarrow> interpretation_plan \<Rightarrow> block_node \<Rightarrow> bool" where
  "declared_identity sv plan n = (and_then (block_scope_of sv plan) (\<lambda>sc. identity_only sc n) = Inr True)"

lemma node_block_key [simp]:
  "ub_audit_id (node_block sha org plan sc ir result n) = ic_audit_id (il_context plan)"
  "ub_fingerprint (node_block sha org plan sc ir result n) = node_fingerprint sha (ic_audit_id (il_context plan)) n"
  by (simp_all add: node_block_def node_fingerprint_def Let_def split: prod.split)

lemma artifact_block_key [simp]:
  "ub_audit_id (artifact_block sha org plan sc xt) = ic_audit_id (il_context plan)"
  "ub_fingerprint (artifact_block sha org plan sc xt) = artifact_fingerprint sha (ic_audit_id (il_context plan)) (fst xt)"
  by (cases xt; simp add: artifact_block_def artifact_fingerprint_def Let_def)+

text \<open>
  C32. After the transaction every fact that was interpreted is stored, and every node left unresolved has a
  block of the audit that identifies it unless its command is declared identity only; so has every
  configuration artifact that could not be parsed.  The rows that were there before are still there.
\<close>

theorem stored_evidence_is_complete:
  assumes "store_interpretation sv fresh org plan interpreted db = Inr db'"
  shows "let audit_id = ic_audit_id (il_context plan); sha = pl_sha256 (sv_parsers sv) in
    prefix (db_facts db) (db_facts db') \<and> prefix (db_blocks db) (db_blocks db')
    \<and> list_all (\<lambda>(ir, result).
        list_all (\<lambda>d. sd_fact_id d \<in> sf_fact_id ` set (db_facts db')) (it_facts result)
        \<and> list_all (\<lambda>i. case node_of bn_node_id (block_nodes ir) i of
             None \<Rightarrow> False
           | Some n \<Rightarrow> declared_identity sv plan n \<or> has_block db' audit_id (node_fingerprint sha audit_id n))
          (it_unresolved_node_ids result)) interpreted
    \<and> list_all (\<lambda>(x, t). has_block db' audit_id (artifact_fingerprint sha audit_id x)) (il_unsupported plan)"
  using assms
proof (rule store_interpretation_rows)
  fix a blocks numbered
  let ?audit = "ic_audit_id (il_context plan)"
  let ?sha = "pl_sha256 (sv_parsers sv)"
  let ?drafts = "concat (map (\<lambda>(ir, r). it_facts r) interpreted)"
  let ?existing = "set (map sf_fact_id (filter (\<lambda>f. sf_audit_id f = ?audit) (db_facts db)))"
  assume blocks: "unresolved_blocks_of sv db org plan interpreted = Inr blocks"
    and numbered: "numbered = map (\<lambda>(i, b). b\<lparr>ub_unresolved_block_id := fresh i\<rparr>) (enumerate 0 blocks)"
    and db': "db' = db\<lparr>db_facts := db_facts db @ map fact_row (filter (\<lambda>d. sd_fact_id d \<notin> ?existing) ?drafts),
      db_blocks := db_blocks db @ numbered\<rparr>"
  have fact: "sd_fact_id d \<in> sf_fact_id ` set (db_facts db')" if "d \<in> set ?drafts" for d
  proof (cases "sd_fact_id d \<in> ?existing")
    case True
    then show ?thesis by (auto simp: db')
  next
    case False
    with that have "d \<in> set (filter (\<lambda>d. sd_fact_id d \<notin> ?existing) ?drafts)" by simp
    then have "fact_row d \<in> set (db_facts db')" unfolding db' by (simp del: set_map set_filter) (simp only: set_map, blast)
    then show ?thesis by (rule image_eqI [rotated]) (simp add: fact_row_def)
  qed
  have facts: "sd_fact_id d \<in> sf_fact_id ` set (db_facts db')" if "(ir, result) \<in> set interpreted" "d \<in> set (it_facts result)"
    for ir result d
    using that by (intro fact) auto
  have kept: "prefix (db_facts db) (db_facts db')" "prefix (db_blocks db) (db_blocks db')" by (simp_all add: db')
  have block: "has_block db' ?audit p" if "has_block db ?audit p \<or> (\<exists>b \<in> set blocks. ub_audit_id b = ?audit \<and> ub_fingerprint b = p)" for p
    using that by (simp only: db' numbered has_block_append numbered_blocks)
  from blocks show ?thesis
  proof (rule unresolved_blocks_cases)
    fix sc nodes
    assume sc: "block_scope_of sv plan = Inr sc" and nodes: "map_res (tree_blocks sv db org plan sc) interpreted = Inr nodes"
      and all: "blocks = concat nodes @ filter (\<lambda>b. \<not> known_block db b) (map (artifact_block ?sha org plan sc) (il_unsupported plan))"
    have node: "case node_of bn_node_id (block_nodes ir) i of None \<Rightarrow> False
        | Some n \<Rightarrow> declared_identity sv plan n \<or> has_block db' ?audit (node_fingerprint ?sha ?audit n)"
      if ir: "(ir, result) \<in> set interpreted" and i: "i \<in> set (it_unresolved_node_ids result)" for ir result i
    proof -
      from map_res_member [OF nodes ir] obtain bs where "bs \<in> set nodes" and
        tb: "tree_blocks sv db org plan sc (ir, result) = Inr bs" by blast
      from tree_blocks_member [OF tb i] obtain cs
        where cs: "unresolved_node ?sha db org plan sc ir result i = Inr cs" and sub: "set cs \<subseteq> set bs" .
      from cs obtain n skip where n: "node_of bn_node_id (block_nodes ir) i = Some n" and skip: "identity_only sc n = Inr skip"
        and "cs = (if skip \<or> known_block db (node_block ?sha org plan sc ir result n) then []
          else [node_block ?sha org plan sc ir result n])" by (rule unresolved_node_cases)
      with sub \<open>bs \<in> set nodes\<close> have "skip \<or> has_block db ?audit (node_fingerprint ?sha ?audit n)
          \<or> node_block ?sha org plan sc ir result n \<in> set blocks"
        by (auto simp: known_has_block all)
      then have "skip \<or> has_block db' ?audit (node_fingerprint ?sha ?audit n)"
        using block [of "node_fingerprint ?sha ?audit n"] node_block_key by blast
      then show ?thesis by (auto simp: n declared_identity_def sc skip)
    qed
    have artifact: "has_block db' ?audit (artifact_fingerprint ?sha ?audit x)" if "(x, t) \<in> set (il_unsupported plan)" for x t
    proof (cases "known_block db (artifact_block ?sha org plan sc (x, t))")
      case True
      then show ?thesis by (intro block) (simp add: known_has_block)
    next
      case False
      with that have "artifact_block ?sha org plan sc (x, t) \<in> set blocks" by (auto simp: all)
      then show ?thesis by (intro block) force
    qed
    show ?thesis
      unfolding Let_def list_all_iff using kept facts node artifact by blast
  qed
qed

section \<open>One fact and one unresolved element\<close>

definition flat_services :: "audit_services \<Rightarrow> audit_services" where
  "flat_services sv = sv\<lparr>sv_parsers := (sv_parsers sv)\<lparr>pl_sha256 := flat_sha\<rparr>, sv_rules := []\<rparr>"

definition ntp_draft :: security_fact_draft where
  "ntp_draft = \<lparr>sd_fact_id = 1, sd_audit_id = 100, sd_device_id = 200, sd_snapshot_id = 300,
     sd_field_id = ''time.ntp.configured'', sd_value = ntp_value, sd_entity = None, sd_scope = device_scope,
     sd_state = FS_EXPLICIT, sd_evidence_refs = [], sd_source_ir_node_ids = [],
     sd_extraction_method = DECLARATIVE_MAPPING, sd_mapping_id = None, sd_mapping_version_id = None,
     sd_knowledge_pack_version_id = 900, sd_validation_status = FV_VALIDATED, sd_dependencies = [],
     sd_interpretation_confidence = IC_HIGH, sd_schema_version = ''1.0.0''\<rparr>"

definition element_source :: artifact_provenance where
  "element_source = \<lparr>ap_artifact_id = 700, ap_organization_id = 500, ap_snapshot_id = Some 300,
     ap_source_label = ''edge.cfg'', ap_sha256 = [], ap_source_metadata = []\<rparr>"

definition element_tree :: xml_structural_ir where
  "element_tree = \<lparr>xi_reader_id = XML_TREE_READER_ID, xi_source = element_source,
     xi_nodes = [\<lparr>xn_node_id = ''n1'', xn_path = [''a[1]''], xn_tag = ''a'', xn_attributes = [], xn_text = None,
       xn_parent_id = None, xn_order = 1, xn_source = element_source\<rparr>], xi_diagnostics = [], xi_truncated = False\<rparr>"

definition element_result :: interpretation_result where
  "element_result = \<lparr>it_facts = [ntp_draft], it_diagnostics = [], it_metrics = \<lparr>im_nodes_considered = 1,
     im_nodes_matched = 0, im_mappings_applied = 0, im_facts_produced = 1, im_unmatched_nodes = 1,
     im_unsupported_cases = 0\<rparr>, it_unresolved_node_ids = [''n1'']\<rparr>"

definition element_plan :: interpretation_plan where
  "element_plan = \<lparr>il_context = \<lparr>ic_audit_id = 100, ic_device_id = 200, ic_snapshot_id = 300\<rparr>,
     il_profile_version_id = ''generic.xml@1.0.0'', il_profile = GENERIC_XML,
     il_pack = \<lparr>kp_knowledge_pack_id = 900, kp_knowledge_pack_version_id = 900, kp_name = [], kp_version = [],
       kp_schema_version = [], kp_profile_id = [], kp_profile_version_id = [], kp_mappings = []\<rparr>,
     il_resolution = [], il_evidence = [(700, flat_sha [])], il_selected = [], il_unsupported = []\<rparr>"

definition element_interpreted :: "(parsed_ir \<times> interpretation_result) list" where
  "element_interpreted = [(XmlIR element_tree, element_result)]"

lemma element_scope: "\<exists>sc. block_scope_of (flat_services sv) element_plan = Inr sc"
  by (simp add: block_scope_of_def flat_services_def element_plan_def dict_get_def GENERIC_XML_def or_default_def
      sorted_set_def Let_def)

lemma element_holds:
  "plan_holds (flat_services sv) 500 element_plan begun_store (hd (db_audits begun_store)) = Inr ()"
  by (simp add: plan_holds_def flat_services_def element_plan_def run_rows run_operations get_device_row_def evidence_of_def
      require_def py_get_def dict_get_def Let_def)

lemma element_blocks:
  "\<exists>b. unresolved_blocks_of (flat_services sv) begun_store 500 element_plan element_interpreted = Inr [b]
     \<and> block_admitted [] (b\<lparr>ub_unresolved_block_id := i\<rparr>)"
proof -
  obtain sc where sc: "block_scope_of (flat_services sv) element_plan = Inr sc" using element_scope by blast
  let ?n = "xml_block_node (hd (xi_nodes element_tree))"
  let ?b = "node_block flat_sha 500 element_plan sc (XmlIR element_tree) element_result ?n"
  have "node_of bn_node_id (block_nodes (XmlIR element_tree)) ''n1'' = Some ?n"
    by (simp add: node_of_def element_tree_def xml_block_node_def)
  moreover have "identity_only sc ?n = Inr False"
    by (simp add: identity_only_def xml_block_node_def)
  moreover have "\<not> known_block begun_store ?b"
    by (simp add: known_block_def run_rows)
  ultimately have "unresolved_node flat_sha begun_store 500 element_plan sc (XmlIR element_tree) element_result ''n1'' = Inr [?b]"
    by (simp add: unresolved_node_def Let_def)
  then have "unresolved_blocks_of (flat_services sv) begun_store 500 element_plan element_interpreted = Inr [?b]"
    by (simp add: unresolved_blocks_of_def sc element_interpreted_def)
      (simp add: flat_services_def element_result_def [THEN arg_cong, of it_unresolved_node_ids, simplified] element_plan_def
        [THEN arg_cong, of il_unsupported, simplified])
  moreover have "block_admitted [] (?b\<lparr>ub_unresolved_block_id := i\<rparr>)"
    by (simp add: block_admitted_def node_block_def node_diagnostics_def element_result_def xml_block_node_def
        nearby_text_def flat_sha_def Let_def split: prod.split)
  ultimately show ?thesis by blast
qed

lemma element_stored:
  "\<exists>db. store_interpretation (flat_services sv) fresh 500 element_plan element_interpreted begun_store = Inr db"
proof -
  obtain b where b: "unresolved_blocks_of (flat_services sv) begun_store 500 element_plan element_interpreted = Inr [b]"
    and admitted: "block_admitted [] (b\<lparr>ub_unresolved_block_id := fresh 0\<rparr>)" using element_blocks by blast
  have "find_audit 100 500 begun_store = Some (hd (db_audits begun_store))" by (simp add: run_rows find_audit_def)
  moreover have "db_facts begun_store = []" and "db_blocks begun_store = []" by (simp_all add: run_rows)
  moreover have "ic_audit_id (il_context element_plan) = 100" by (simp add: element_plan_def)
  ultimately show ?thesis
    using element_holds [of sv] b admitted
    by (simp add: store_interpretation_def element_interpreted_def element_result_def insert_row_def require_def
        fact_admitted_def raise_from_def Let_def)
qed

theorem storing_again_changes_nothing_witness:
  "\<forall>sv fresh fresh'. \<exists>db. store_interpretation (flat_services sv) fresh 500 element_plan element_interpreted begun_store = Inr db
     \<and> store_interpretation (flat_services sv) fresh' 500 element_plan element_interpreted db = Inr db"
proof (intro allI)
  fix sv fresh fresh'
  obtain db where db: "store_interpretation (flat_services sv) fresh 500 element_plan element_interpreted begun_store = Inr db"
    using element_stored by blast
  have "store_interpretation (flat_services sv) fresh' 500 element_plan element_interpreted db = Inr db"
    by (rule storing_again_changes_nothing [OF db])
      (auto simp: element_interpreted_def element_result_def ntp_draft_def element_plan_def)
  with db show "\<exists>db. store_interpretation (flat_services sv) fresh 500 element_plan element_interpreted begun_store = Inr db
     \<and> store_interpretation (flat_services sv) fresh' 500 element_plan element_interpreted db = Inr db" by blast
qed

theorem stored_evidence_is_complete_witness:
  "\<forall>sv fresh. \<exists>db. store_interpretation (flat_services sv) fresh 500 element_plan element_interpreted begun_store = Inr db
     \<and> 1 \<in> sf_fact_id ` set (db_facts db)
     \<and> (let n = xml_block_node (hd (xi_nodes element_tree))
        in declared_identity (flat_services sv) element_plan n \<or> has_block db 100 (node_fingerprint flat_sha 100 n))"
proof (intro allI)
  fix sv fresh
  obtain db where db: "store_interpretation (flat_services sv) fresh 500 element_plan element_interpreted begun_store = Inr db"
    using element_stored by blast
  have n: "node_of bn_node_id (block_nodes (XmlIR element_tree)) ''n1'' = Some (xml_block_node (hd (xi_nodes element_tree)))"
    by (simp add: node_of_def element_tree_def xml_block_node_def)
  have "it_facts element_result = [ntp_draft]" and "it_unresolved_node_ids element_result = [''n1'']"
    and "ic_audit_id (il_context element_plan) = 100" and "sd_fact_id ntp_draft = 1"
    and "pl_sha256 (sv_parsers (flat_services sv)) = flat_sha"
    by (simp_all add: element_result_def element_plan_def ntp_draft_def flat_services_def)
  with stored_evidence_is_complete [OF db] db n show "\<exists>db. store_interpretation (flat_services sv) fresh 500 element_plan
       element_interpreted begun_store = Inr db
     \<and> 1 \<in> sf_fact_id ` set (db_facts db)
     \<and> (let n = xml_block_node (hd (xi_nodes element_tree))
        in declared_identity (flat_services sv) element_plan n \<or> has_block db 100 (node_fingerprint flat_sha 100 n))"
    by (simp add: element_interpreted_def Let_def)
qed

end
