(* ===== verification/Training_Validation.thy ===== *)
theory Training_Validation
  imports Interpretation_Store Resolver
begin

text \<open>
  The validation of a mapping (\<open>validate_definition\<close>, \<open>_validate_against_artifact\<close> and the digests of
  \<open>training/service.py\<close>): its examples, its interpretation of an artifact, the collision with published
  mappings, and the digests that tell whether a validation still applies.
\<close>

section \<open>Rows\<close>

datatype run_status = VR_PENDING | VR_RUNNING | VR_PASSED | VR_FAILED

record validation_run =
  vr_validation_run_id :: uuid
  vr_organization_id :: uuid
  vr_mapping_version_id :: uuid
  vr_status :: run_status
  vr_results :: json_object
  vr_created_at :: int
  vr_completed_at :: "int option"

record training_store =
  tr_db :: audit_store
  tr_runs :: "validation_run list"

definition training_conflict :: "string \<Rightarrow> exc" where
  "training_conflict m = Exc TrainingConflict m"

definition published_mappings :: "audit_store \<Rightarrow> uuid \<Rightarrow> mapping_version list" where
  "published_mappings db organization_id =
     sort_key (\<lambda>m. (mv_mapping_key m, mv_version m))
       (filter (\<lambda>m. mv_organization_id m = organization_id \<and> mv_status m = MS_PUBLISHED) (db_mapping_versions db))"

section \<open>Digests\<close>

definition definition_digest :: "audit_services \<Rightarrow> mapping_definition \<Rightarrow> string" where
  "definition_digest sv d =
     pl_sha256 (sv_parsers sv) (json_dump (PDict (py_model_dump (el_pydantic (sv_effective sv)) d)))"

text \<open>A coverage manifest is a \<open>mappingproxy\<close> of tuples, which \<open>json\<close> only serializes by its \<open>str\<close>.\<close>

fun coverage_repr :: "pyval \<Rightarrow> string" where
  "coverage_repr (PList xs) = tuple_repr (map coverage_repr xs)"
| "coverage_repr v = py_repr v"

definition coverage_text :: "json_object \<Rightarrow> string" where
  "coverage_text d = ''mappingproxy('' @ CHR 0x7B # join '', '' (map (\<lambda>(k, v). str_repr k @ '': '' @ coverage_repr v) d) @ [CHR 0x7D] @ '')''"

definition profile_digest :: "audit_services \<Rightarrow> mapping_definition \<Rightarrow> string" where
  "profile_digest sv d = pl_sha256 (sv_parsers sv) (json_dump (PList (map (\<lambda>i.
     PDict [(''profile_version_id'', PStr i),
       (''manifest'', case dict_get PROFILE_REGISTRY i of
          None \<Rightarrow> PNone | Some p \<Rightarrow> PStr (coverage_text (pm_coverage_manifest p)))])
     (sort (pa_profile_version_ids (md_profile_applicability d))))))"

definition content_digest :: "audit_services \<Rightarrow> mapping_definition \<Rightarrow> string" where
  "content_digest sv d =
     pl_sha256 (sv_parsers sv) (json_dump (py_get (py_model_dump (el_pydantic (sv_effective sv)) d) ''examples''))"

definition validation_digest :: "audit_services \<Rightarrow> string \<Rightarrow> string \<Rightarrow> string \<Rightarrow> string \<Rightarrow> string" where
  "validation_digest sv definition profile content evidence =
     pl_sha256 (sv_parsers sv) (definition @ '':'' @ profile @ '':'' @ content @ '':'' @ evidence)"

text \<open>The digests of the evidence that a validation names; \<open>None\<close> if an artifact is gone.\<close>

fun evidence_digests :: "audit_store \<Rightarrow> uuid \<Rightarrow> json_object \<Rightarrow> string list \<Rightarrow> exc + string list option" where
  "evidence_digests db organization_id results [] = Inr (Some [])"
| "evidence_digests db organization_id results (key # keys) =
     (case py_or (py_get results key) (PDict []) of
        PDict semantic \<Rightarrow>
          (let found = py_get semantic ''evidence_artifact_id'' in
           if \<not> truthy found then evidence_digests db organization_id results keys
           else and_then (uuid_arg found) (\<lambda>i.
             case find (\<lambda>x. af_artifact_id x = i \<and> af_organization_id x = organization_id) (db_artifacts db) of
               None \<Rightarrow> Inr None
             | Some x \<Rightarrow> and_then (evidence_digests db organization_id results keys) (\<lambda>rest.
                 Inr (map_option ((#) (af_sha256 x)) rest))))
      | _ \<Rightarrow> Inl attribute_error)"

definition validation_is_current ::
  "audit_services \<Rightarrow> audit_store \<Rightarrow> mapping_version \<Rightarrow> json_object \<Rightarrow> mapping_definition \<Rightarrow> exc + bool" where
  "validation_is_current sv db m results d =
     (let digest = definition_digest sv d; profile = profile_digest sv d; content = content_digest sv d in
      and_then (evidence_digests db (mv_organization_id m) results [''semantic'', ''negative_semantic'']) (\<lambda>found.
      Inr (case found of
          None \<Rightarrow> False
        | Some ds \<Rightarrow> py_get results ''definition_digest'' = PStr digest
            \<and> py_get results ''profile_digest'' = PStr profile \<and> py_get results ''content_digest'' = PStr content
            \<and> py_get results ''validation_digest'' = PStr (validation_digest sv digest profile content (join '':'' ds)))))"

section \<open>Against an artifact\<close>

fun fact_state_value :: "fact_state \<Rightarrow> string" where
  "fact_state_value FS_EXPLICIT = ''explicit''"
| "fact_state_value FS_INHERITED = ''inherited''"
| "fact_state_value FS_DOCUMENTED_DEFAULT = ''documented_default''"
| "fact_state_value FS_DERIVED = ''derived''"
| "fact_state_value FS_UNKNOWN = ''unknown''"
| "fact_state_value FS_CONFLICTING = ''conflicting''"

definition ready_evidence :: "audit_store \<Rightarrow> uuid \<Rightarrow> uuid \<Rightarrow> string \<Rightarrow> string \<Rightarrow> exc + artifact \<times> snapshot" where
  "ready_evidence db organization_id artifact_id artifact_problem snapshot_problem =
     (case find (\<lambda>x. af_artifact_id x = artifact_id \<and> af_organization_id x = organization_id) (db_artifacts db) of
        None \<Rightarrow> Inl (training_conflict artifact_problem)
      | Some x \<Rightarrow>
          (case af_snapshot_id x of
             None \<Rightarrow> Inl (training_conflict artifact_problem)
           | Some snapshot_id \<Rightarrow>
               and_then (require (af_status x = AS_READY) (training_conflict artifact_problem)) (\<lambda>_.
               case get_snapshot_row snapshot_id db of
                 None \<Rightarrow> Inl (training_conflict snapshot_problem)
               | Some s \<Rightarrow>
                   and_then (require (sn_organization_id s = organization_id \<and> sn_status s \<in> {SS_READY, SS_LOCKED})
                     (training_conflict snapshot_problem)) (\<lambda>_. Inr (x, s)))))"

definition candidate_pack :: "audit_services \<Rightarrow> mapping_version \<Rightarrow> string \<Rightarrow> declarative_mapping \<Rightarrow> knowledge_pack" where
  "candidate_pack sv m profile_version_id adapter =
     (let i = el_uuid5 (sv_effective sv) NAMESPACE_URL (''validation-pack:'' @ uuid_str (mv_mapping_version_id m))
      in \<lparr>kp_knowledge_pack_id = i, kp_knowledge_pack_version_id = i, kp_name = ''Validation candidate'',
          kp_version = ''validation'', kp_schema_version = ''1.0.0'',
          kp_profile_id = takeWhile (\<lambda>c. c \<noteq> CHR ''@'') profile_version_id,
          kp_profile_version_id = profile_version_id, kp_mappings = [adapter]\<rparr>)"

definition interpret_candidate ::
  "audit_services \<Rightarrow> parsed_ir \<Rightarrow> interpretation_context \<Rightarrow> string \<Rightarrow> knowledge_pack \<Rightarrow> profile_manifest
    \<Rightarrow> exc + interpretation_result" where
  "interpret_candidate sv ir context version pack profile =
     (case ir of
        XmlIR x \<Rightarrow> interpret_xml_structural_ir (interpreter_of sv) x context version (Some pack) (Some profile)
      | JsonIR x \<Rightarrow> interpret_json_structural_ir (interpreter_of sv) x context version (Some pack) (Some profile)
      | CliIR x \<Rightarrow> interpret_structural_ir (interpreter_of sv) x context version (Some pack) (Some profile))"

definition cli_match :: "mapping_definition \<Rightarrow> structural_ir \<Rightarrow> config_node \<Rightarrow> exc + pyval list" where
  "cli_match d ir n =
     (if cn_command n = None then Inr []
      else and_then (training_validation_node n ir (sr_strategy (md_scope_resolution d))) (\<lambda>vn.
        and_then (matches d vn) (\<lambda>found. Inr (case found of
            None \<Rightarrow> []
          | Some captures \<Rightarrow> [PDict [(''command'', PStr (cn_raw_text n)), (''node_id'', PStr (cn_node_id n)),
              (''captures'', PDict captures), (''status'', PStr ''matched'')]]))))"

fun matched_paths :: "mapping_definition \<Rightarrow> parsed_ir \<Rightarrow> exc + pyval list" where
  "matched_paths d (XmlIR ir) = and_then (matches_xml d ir) (\<lambda>ms. Inr (map (\<lambda>(n, captures).
     PDict [(''path'', PList (map PStr (xn_path n))), (''node_id'', PStr (xn_node_id n)), (''captures'', PDict captures),
       (''status'', PStr (if xml_match_has_unsupported_qualifier d ir n then ''excluded_unsupported_scope'' else ''matched''))]) ms))"
| "matched_paths d (JsonIR ir) = and_then (matches_json d ir) (\<lambda>ms. Inr (map (\<lambda>(n, captures).
     PDict [(''path'', path_value (jn_path n)), (''node_id'', PStr (jn_node_id n)), (''captures'', PDict captures),
       (''status'', PStr ''matched'')]) ms))"
| "matched_paths d (CliIR ir) = and_then (map_res (cli_match d ir) (ir_nodes ir)) (\<lambda>xs. Inr (concat xs))"

fun reader_of :: "parsed_ir \<Rightarrow> string" where
  "reader_of (CliIR ir) = ir_reader_id ir" | "reader_of (XmlIR ir) = xi_reader_id ir" | "reader_of (JsonIR ir) = ji_reader_id ir"

definition fact_report :: "security_fact \<Rightarrow> pyval" where
  "fact_report f = PDict [(''field_id'', PStr (sf_field_id f)), (''value'', sf_value f),
     (''state'', PStr (fact_state_value (sf_state f))), (''evidence_refs'', sf_evidence_refs f),
     (''mapping_version_id'', PStr (case sf_mapping_version_id f of None \<Rightarrow> ''None'' | Some i \<Rightarrow> uuid_str i))]"

definition state_report :: "effective_state_draft \<Rightarrow> pyval" where
  "state_report s = PDict [(''field_id'', PStr (es_field_id s)), (''scope'', PDict (scope_to_dict (es_scope s))),
     (''resolution_status'', PStr (resolution_value (es_resolution_status s))),
     (''effective_value'', case es_effective_value s of None \<Rightarrow> PNone | Some v \<Rightarrow> PDict (typed_value_to_dict v)),
     (''source_fact_ids'', PList (map (\<lambda>i. PStr (uuid_str i)) (es_source_fact_ids s)))]"

definition diagnostic_report :: "interpretation_diagnostic \<Rightarrow> pyval" where
  "diagnostic_report d = PDict [(''code'', PStr (id_code d)), (''node_id'', opt_str (id_node_id d))]"

definition semantic_status :: "pyval list \<Rightarrow> 'f list \<Rightarrow> string" where
  "semantic_status found facts =
     (if found \<noteq> [] \<and> facts \<noteq> [] then ''matched'' else if found \<noteq> [] then ''invalid_match'' else ''no_match'')"

definition validate_against_artifact ::
  "audit_services \<Rightarrow> audit_store \<Rightarrow> mapping_version \<Rightarrow> mapping_definition \<Rightarrow> uuid \<Rightarrow> exc + json_object" where
  "validate_against_artifact sv db m d artifact_id =
     (let lib = sv_effective sv; org = mv_organization_id m in
      and_then (ready_evidence db org artifact_id ''Selected evidence artifact is not eligible''
        ''Selected evidence snapshot is not eligible'') (\<lambda>(x, s).
      case pa_profile_version_ids (md_profile_applicability d) of
        [] \<Rightarrow> Inl (training_conflict ''Evidence validation requires a profile version'')
      | version # _ \<Rightarrow>
          and_then (profile_for (el_json_loads lib) db org version) (\<lambda>found. case found of
            None \<Rightarrow> Inl (training_conflict ''Evidence validation requires a published profile version'')
          | Some profile \<Rightarrow>
              and_then (parse_artifact (sv_parsers sv) (sv_read_prefix sv) x version org (Some profile)) (\<lambda>ir.
              and_then (training_mapping (el_pydantic lib) m version) (\<lambda>adapter.
              let pack = candidate_pack sv m version adapter;
                  context_id = el_uuid5 lib NAMESPACE_URL (''validation-audit:'' @ uuid_str (mv_mapping_version_id m)
                    @ '':'' @ uuid_str (af_artifact_id x));
                  context = \<lparr>ic_audit_id = context_id, ic_device_id = sn_device_id s, ic_snapshot_id = sn_snapshot_id s\<rparr>
              in and_then (interpret_candidate sv ir context version pack profile) (\<lambda>result.
                 let facts = map fact_row (it_facts result) in
                 and_then (resolve_security_facts (el_uuid5 lib) context_id (sn_device_id s)
                   (\<lambda>i. if i \<in> sf_fact_id ` set facts then Some ASSIGN else None) facts) (\<lambda>states.
                 and_then (matched_paths d ir) (\<lambda>found.
                 Inr [(''status'', PStr (semantic_status found facts)),
                   (''evidence_artifact_id'', PStr (uuid_str (af_artifact_id x))),
                   (''evidence_filename'', PStr (af_original_filename x)), (''evidence_digest'', PStr (af_sha256 x)),
                   (''snapshot_id'', PStr (uuid_str (sn_snapshot_id s))), (''profile_version_id'', PStr version),
                   (''reader_id'', PStr (reader_of ir)), (''matched_paths'', PList found),
                   (''facts'', PList (map fact_report facts)), (''effective_states'', PList (map state_report states)),
                   (''diagnostics'', PList (map diagnostic_report (it_diagnostics result)))]))))))))"

section \<open>Examples\<close>

fun family_value :: "example_family \<Rightarrow> string" where
  "family_value FA_POSITIVE = ''positive''"
| "family_value FA_ALTERNATE_VALUES = ''alternate_values''"
| "family_value FA_NEGATIVE = ''negative''"
| "family_value FA_WRONG_SCOPE = ''wrong_scope''"
| "family_value FA_NEGATION = ''negation''"
| "family_value FA_CONFLICT = ''conflict''"
| "family_value FA_REGRESSION = ''regression''"

definition VALIDATION_FAMILIES :: "example_family list" where
  "VALIDATION_FAMILIES = [FA_POSITIVE, FA_ALTERNATE_VALUES, FA_NEGATIVE, FA_WRONG_SCOPE, FA_NEGATION, FA_CONFLICT,
     FA_REGRESSION]"

record example_case =
  xc_family :: example_family
  xc_passed :: bool
  xc_report :: pyval

definition run_example :: "mapping_definition \<Rightarrow> mapping_example \<Rightarrow> exc + example_case" where
  "run_example d x =
     and_then (matches d (me_node x)) (\<lambda>found.
     let matched = (found \<noteq> None);
         report = (\<lambda>v error. let passed = (matched = me_expected_match x
             \<and> (\<not> matched \<or> me_expected_value x = PNone \<or> py_eq v (me_expected_value x)) \<and> error = PNone)
           in \<lparr>xc_family = me_family x, xc_passed = passed, xc_report = PDict [(''passed'', PBool passed),
             (''matched'', PBool matched), (''value'', v), (''error'', error)]\<rparr>)
     in case found of
          None \<Rightarrow> Inr (report PNone PNone)
        | Some captures \<Rightarrow>
            (case extract_training d captures of
               Inr v \<Rightarrow> Inr (report v PNone)
             | Inl e \<Rightarrow>
                 if exc_class e \<in> {KeyError, TypeError} \<or> is_value_error (exc_class e)
                 then Inr (report PNone (PStr ''extraction_failed'')) else Inl e))"

definition family_passed :: "example_case list \<Rightarrow> example_family \<Rightarrow> bool" where
  "family_passed cases f = (let own = filter (\<lambda>c. xc_family c = f) cases in own \<noteq> [] \<and> list_all xc_passed own)"

definition collides :: "audit_store \<Rightarrow> mapping_version \<Rightarrow> bool" where
  "collides db m = list_ex (\<lambda>r. mv_mapping_id r \<noteq> mv_mapping_id m \<and> mv_target_field_id r = mv_target_field_id m
     \<and> py_eq (PDict (mv_structural_match r)) (PDict (mv_structural_match m))) (published_mappings db (mv_organization_id m))"

definition structured_match :: "mapping_definition \<Rightarrow> bool" where
  "structured_match d = (sm_operation (md_structural_match d) \<in> {MO_XML_PATH, MO_JSON_PATH})"

definition has_status :: "string \<Rightarrow> json_object option \<Rightarrow> bool" where
  "has_status status semantic = (case semantic of None \<Rightarrow> False | Some s \<Rightarrow> py_get s ''status'' = PStr status)"

text \<open>The result of each family: a collision fails the regressions, evidence decides structured mappings.\<close>

definition family_result ::
  "mapping_definition \<Rightarrow> example_case list \<Rightarrow> bool \<Rightarrow> json_object option \<Rightarrow> json_object option \<Rightarrow> example_family \<Rightarrow> bool" where
  "family_result d cases collision semantic negative f =
     (if structured_match d \<and> f = FA_POSITIVE then has_status ''matched'' semantic
      else if structured_match d \<and> f = FA_NEGATIVE then has_status ''no_match'' negative
      else if collision \<and> f = FA_REGRESSION then False
      else family_passed cases f)"

definition validation_passed ::
  "mapping_definition \<Rightarrow> example_case list \<Rightarrow> bool \<Rightarrow> json_object option \<Rightarrow> json_object option \<Rightarrow> bool" where
  "validation_passed d cases collision semantic negative =
     (let passes = family_result d cases collision semantic negative in
      if structured_match d then passes FA_POSITIVE \<and> passes FA_NEGATIVE \<and> \<not> collision
      else list_all passes VALIDATION_FAMILIES \<and> (semantic = None \<or> has_status ''matched'' semantic))"

definition family_cases :: "example_case list \<Rightarrow> bool \<Rightarrow> example_family \<Rightarrow> pyval list" where
  "family_cases cases collision f =
     map xc_report (filter (\<lambda>c. xc_family c = f) cases)
     @ (if collision \<and> f = FA_REGRESSION
        then [PDict [(''passed'', PBool False), (''error'', PStr ''published_mapping_collision'')]] else [])"

definition optional_semantic ::
  "audit_services \<Rightarrow> audit_store \<Rightarrow> mapping_version \<Rightarrow> mapping_definition \<Rightarrow> uuid option \<Rightarrow> exc + json_object option" where
  "optional_semantic sv db m d artifact_id = (case artifact_id of
     None \<Rightarrow> Inr None | Some i \<Rightarrow> and_then (validate_against_artifact sv db m d i) (\<lambda>s. Inr (Some s)))"

definition semantic_value :: "json_object option \<Rightarrow> pyval" where
  "semantic_value s = (case s of None \<Rightarrow> PNone | Some d \<Rightarrow> PDict d)"

definition semantic_digest :: "json_object option \<Rightarrow> string list" where
  "semantic_digest s = (case s of None \<Rightarrow> [] | Some d \<Rightarrow> [str_value (py_get d ''evidence_digest'')])"

definition validate_definition ::
  "audit_services \<Rightarrow> audit_store \<Rightarrow> mapping_version \<Rightarrow> mapping_definition \<Rightarrow> uuid option \<Rightarrow> uuid option
    \<Rightarrow> exc + bool \<times> json_object" where
  "validate_definition sv db m d evidence negative_evidence =
     and_then (map_res (run_example d) (md_examples d)) (\<lambda>cases.
     and_then (optional_semantic sv db m d evidence) (\<lambda>semantic.
     and_then (optional_semantic sv db m d negative_evidence) (\<lambda>negative.
     let collision = collides db m; digest = definition_digest sv d; profile = profile_digest sv d;
         content = content_digest sv d; passed = validation_passed d cases collision semantic negative
     in Inr (passed, [(''passed'', PBool passed),
          (''families'', PDict (map (\<lambda>f. (family_value f, PBool (family_result d cases collision semantic negative f)))
             VALIDATION_FAMILIES)),
          (''cases'', PDict (map (\<lambda>f. (family_value f, PList (family_cases cases collision f))) VALIDATION_FAMILIES)),
          (''semantic'', semantic_value semantic), (''negative_semantic'', semantic_value negative),
          (''definition_digest'', PStr digest), (''profile_digest'', PStr profile), (''content_digest'', PStr content),
          (''validation_digest'', PStr (validation_digest sv digest profile content
             (join '':'' (semantic_digest semantic @ semantic_digest negative))))]))))"

end
