(* ===== verification/Spec2Isabelle.thy ===== *)
theory Spec2Isabelle
  imports Reader_Coverage Pack_Validity Resolver_Results Parsing_Service Job_Theorems Interpreter_Theorems Audit_Samples
    Audit_Histories Pipeline_Props Interpretation_Props Training_Validation
begin

text \<open>
  The backend of the security configuration auditor (\<open>src/backend/app\<close>), its core logic.

  \<^bold>\<open>The program.\<close>  A device's exports are uploaded as artifacts and grouped into a snapshot; an
  audit of the snapshot is queued as a job, and a worker runs its pipeline: the device profile is
  resolved, each artifact is parsed into a structural tree, a knowledge pack interprets the trees
  into security facts, the facts are resolved into one effective state per field and scope, rules
  evaluate the states into findings, and the obligations of the pinned assessment packs are settled
  from the findings.  Whatever cannot be interpreted becomes an unresolved block, and an unresolved
  block turns the findings it could affect into \<open>unknown\<close>: the program must never report \<open>pass\<close> on
  evidence that it did not understand.  Every version that took part is pinned to the audit, so a
  later re-evaluation with another pack is another revision and not a change.

  \<^bold>\<open>Conventions.\<close>  A call that may raise returns \<open>exc + 'a\<close>: \<open>Inl\<close> of the exception's class and
  message (for the workflow errors of the services, their code), or \<open>Inr\<close> of the result; \<open>and_then\<close>
  chains such calls and \<open>require\<close> is a guard that raises.  Integers of Python are \<open>int\<close> or \<open>nat\<close>; a
  character is a code point below 256; a UUID is a word of 128 bits; a dictionary is an association
  list in insertion order; a float is its shortest decimal.  A database table is the list of its
  rows, a transaction is a function from the store to an error (which rolls back) or the new store,
  and a flush checks the constraints that the table states.  A clock and a fresh identifier are
  arguments.  What is not code of the repository is a parameter: \<open>hashlib.sha256\<close>, \<open>uuid.uuid5\<close>,
  \<open>json.loads\<close>, \<open>ElementTree.fromstring\<close>, the decoding of bytes, the validation and dumping of a
  model by pydantic, and the file system.

  \<^bold>\<open>Theories and sources.\<close>
  \<^item> \<open>Prelude\<close>, \<open>Py_Values\<close>, \<open>Py_Floats\<close>: results, the string functions, JSON-shaped values and their
    order and text, the arithmetic of doubles.
  \<^item> \<open>Structural_IR\<close>, \<open>Cli_Readers\<close>, \<open>Tree_Readers\<close>, \<open>Parsing_Service\<close> (\<open>parsing/\<close>): the trees and their
    builder, the four readers, the registry of readers, and the guarded parsing of one artifact.
    \<open>Builder_Invariant\<close>, \<open>Reader_Props\<close>, \<open>Reader_Coverage\<close>, \<open>Tree_Coverage\<close>: every tree is a well-formed
    forest in its bounds; no line of evidence is lost unless the tree says it is truncated; an XML
    document is rebuilt from its nodes, and JSON nodes are the lookups by path.
  \<^item> \<open>Artifact_Storage\<close> (\<open>ingestion/storage/\<close>): the local storage; references that escape the root are
    refused and written bytes are read back.
  \<^item> \<open>Security_Model\<close> (\<open>security_model/\<close>), \<open>Registry\<close>, \<open>Knowledge_Packs\<close>, \<open>Pack_Data\<close>, \<open>Ip_Address\<close>,
    \<open>Extractors\<close>, \<open>Scopes\<close> (\<open>interpretation/\<close>, \<open>knowledge_packs/\<close>): the fields, the packs as data, their
    validation and registry, the extraction of values and scopes.  \<open>Pack_Validity\<close>: the sealed packs
    pass every check.
  \<^item> \<open>Profiles\<close>, \<open>Runtime_Profiles\<close>, \<open>Resolution_Models\<close> (\<open>profile_resolution/\<close>): manifests, version
    constraints, profiles of an administrator, the result of a resolution.  \<open>Py_Regex\<close>: searching with
    backtracking, as \<open>re\<close> does it.  \<open>Profile_Evidence\<close>, \<open>Profile_Resolver\<close>, \<open>Profile_Resolution\<close>
    (\<open>evidence.py\<close>, \<open>resolver.py\<close>, \<open>resolve_audit_profile\<close>): the bounded reading of a snapshot, what each
    line and document shows, and the choice of a profile.  \<open>Profile_Props\<close>: a selected profile accepts the
    version that was found, signals cite inspected documents, and the reading is bounded.
  \<^item> \<open>Training_Dsl\<close>, \<open>Training_Validation\<close> (\<open>training/\<close>): the bounded mapping language, and the validation
    of a mapping on its examples and on artifacts.
  \<^item> \<open>Published_Packs\<close>, \<open>Interpretation\<close>, \<open>Interpreter\<close>, \<open>Interpretation_Service\<close>, \<open>Interpretation_Store\<close>
    (\<open>interpretation/service.py\<close>): the packs that administrators publish, from trees to facts, and
    \<open>interpret_audit\<close>, which plans, parses, interprets and stores facts and unresolved blocks.
    \<open>Interpretation_Props\<close>: the transaction stores all of it, and repeating it changes nothing.
    \<open>Interpreter_Props\<close>, \<open>Interpreter_Theorems\<close>: walks end, sealed packs give valid facts, every
    evidence node is cited by a fact or left unresolved.
  \<^item> \<open>Effective_Models\<close>, \<open>Effective_Policy\<close>, \<open>Resolver\<close>, \<open>Effective_Service\<close> (\<open>effective_state/\<close>): drafts,
    policies, the resolver, and the service that stores its drafts.  \<open>Resolver_Props\<close>, \<open>Resolver_Deps\<close>,
    \<open>Resolver_Results\<close>, \<open>Effective_Results\<close>, \<open>Policy_Tables\<close>: the status of each group of facts, the
    partition of VTY lines, dependencies, independence of order, and what the table holds after.
  \<^item> \<open>Compliance_Model\<close>, \<open>Compliance_Service\<close>, \<open>Rule_Registry\<close>, \<open>Runtime_Rules\<close> (\<open>compliance/\<close>): conditions,
    policies, rules and findings.  \<open>Compliance_Theorems\<close>, \<open>Compliance_Totality\<close>: the verdicts equal a
    table, persisting again replaces the findings of the audit and no others, and rules whose
    operator fits their field always give a finding.
  \<^item> \<open>Assessments\<close>, \<open>Assessment_Results\<close> (\<open>assessment_packs/\<close>): the choice and pinning of packs and the
    results of their obligations.
  \<^item> \<open>Audit_Records\<close> (\<open>db/models/\<close>), \<open>Devices\<close>, \<open>Snapshots\<close>, \<open>Audit_Service\<close>, \<open>Audit_Pipeline\<close>,
    \<open>Reevaluation\<close> (\<open>devices/\<close>, \<open>snapshots/\<close>, \<open>audit/\<close>, \<open>reevaluation/\<close>): the rows and the store, and the
    transactions on them.  \<open>Audit_Lifecycle\<close> runs them in every order, as the step relation
    \<open>audit_step\<close>; \<open>Audit_Histories\<close> proves that submitted evidence never changes and that audits only
    move forward.  \<open>Audit_Samples\<close> is an audit to evaluate.
  \<^item> \<open>Pipeline_Run\<close> (\<open>audit/pipeline.py\<close>): \<open>run\<close> as a sequence of stages, each a transaction or a read,
    over the database and the registry of policies.  \<open>Pipeline_Props\<close>: every run is a history of audit
    steps, and a run that returns has ended its audit as its findings determine.
  \<^item> \<open>Jobs\<close>, \<open>Job_Worker\<close> (\<open>jobs/\<close>): the queue and its workers, as the step relation \<open>system_step\<close>, in which
    workers with clocks of their own claim, renew, finish, die and recover.  \<open>Job_Props\<close> and
    \<open>Job_Theorems\<close>: a job runs at most once, the table refines the life cycle of a job, a recovered job
    is lost to its former owner, and recovery drains what expired.

  \<^bold>\<open>Interfaces.\<close>  \<open>State_Machine\<close> states the contract of a system whose steps keep an invariant and of
  one that refines a specification; the job queue, the life cycle of audits interpret it.  \<open>Registry\<close>
  states the contract of the registries of immutable versions, which readers, profiles and knowledge
  packs interpret, \<open>Builder_Invariant\<close> that of an invariant of the tree builder, and
  \<open>Artifact_Storage\<close> that of a store in which a key is written once.

  \<^bold>\<open>Bounds.\<close>  The line readers keep at most 50000 lines of 16 KiB and 20000 nodes, the tree readers
  20000 nodes of depth 64, as in the source.  A walk from a node to its ancestors, and the search of a VTY
  header, has the number of nodes as fuel; on every tree that a reader builds a parent precedes its
  children, so the walk ends within it (\<open>ancestor_walks_end\<close>).  The walk over the dependencies of a
  fact stops at depth 128, as in the source.  A repetition in a pattern
  without an upper bound has the length of the text as bound: each round takes a character.  Every other
  recursion is over its data.

  \<^bold>\<open>Not modelled.\<close>  The review workflow of mappings (\<open>training/service.py\<close>, but for the validation), the
  import of catalogs, remediation, reports and the dashboard.  Uploading, passwords, tokens,
  settings, the HTTP routes, the session of SQLAlchemy and the PDF layout are input and output or
  third-party code.  Text outside the code points 0 to 255, floats that are not finite, and
  concurrent transactions that a row lock does not serialize are outside the model.
\<close>

end
